(* ===== verification/Prelude.thy ===== *)
theory Prelude
  imports Complex_Main
begin

text \<open>
  Shared vocabulary of the development: Go's fixed-width signed integers (values as
  \<open>int\<close>, the wrap-around of a conversion or an addition written out by \<open>i32\<close> and
  \<open>i64\<close>), Go's truncating integer division, ASCII case mapping of strings, and the
  list lemmas the components share.
\<close>

named_theorems wrap_simps \<open>wrap-around disappears inside the range of the type\<close>

section \<open>Fixed-width integers\<close>

text \<open>
  A Go \<open>int32\<close> (\<open>int64\<close>) value is an \<open>int\<close> in the range of the type; an operation that
  can leave the range is wrapped by \<open>i32\<close> (\<open>i64\<close>), two's complement as the language
  specifies.
\<close>

definition i32 :: "int \<Rightarrow> int" where
  "i32 x = (x + 2 ^ 31) mod 2 ^ 32 - 2 ^ 31"

definition i64 :: "int \<Rightarrow> int" where
  "i64 x = (x + 2 ^ 63) mod 2 ^ 64 - 2 ^ 63"

definition is_i32 :: "int \<Rightarrow> bool" where
  "is_i32 x \<longleftrightarrow> - (2 ^ 31) \<le> x \<and> x < 2 ^ 31"

definition is_i64 :: "int \<Rightarrow> bool" where
  "is_i64 x \<longleftrightarrow> - (2 ^ 63) \<le> x \<and> x < 2 ^ 63"

lemma is_i32_i32 [simp, intro]: "is_i32 (i32 x)"
  unfolding is_i32_def i32_def
  using pos_mod_sign [of "2 ^ 32" "x + 2 ^ 31"] pos_mod_bound [of "2 ^ 32" "x + 2 ^ 31"] by simp

lemma i32_id [wrap_simps]: "is_i32 x \<Longrightarrow> i32 x = x"
  by (simp add: is_i32_def i32_def)

lemma i64_id [wrap_simps]: "is_i64 x \<Longrightarrow> i64 x = x"
  by (simp add: is_i64_def i64_def)

lemma i32_0 [simp]: "i32 0 = 0"
  by (simp add: i32_def)

lemma i32_mod_eq: "i32 x = i32 y \<longleftrightarrow> (2 ^ 32) dvd (x - y)"
proof -
  have "i32 x = i32 y \<longleftrightarrow> (x + 2 ^ 31) mod 2 ^ 32 = (y + 2 ^ 31) mod 2 ^ 32"
    unfolding i32_def by (metis diff_add_cancel)
  then show ?thesis by (simp only: mod_eq_dvd_iff add_diff_cancel_right)
qed

lemma i32_dvd: "(2 ^ 32) dvd (i32 x - x)"
proof -
  have "i32 x - x = ((x + 2 ^ 31) mod 2 ^ 32) - (x + 2 ^ 31)" by (simp only: i32_def)
  then show ?thesis by (simp only: mod_eq_dvd_iff [symmetric] mod_mod_trivial)
qed

lemma i32_add_left [simp]: "i32 (i32 x + y) = i32 (x + y)"
  unfolding i32_mod_eq using i32_dvd [of x] by (simp only: add_diff_cancel_right)

lemma i32_add_right [simp]: "i32 (x + i32 y) = i32 (x + y)"
  unfolding i32_mod_eq using i32_dvd [of y] by (simp only: add_diff_cancel_left)

lemma i32_diff_right [simp]: "i32 (x - i32 y) = i32 (x - y)"
proof -
  have "x - i32 y - (x - y) = - (i32 y - y)" by simp
  then show ?thesis unfolding i32_mod_eq using i32_dvd [of y] by (simp only: dvd_minus_iff)
qed

text \<open>Go's \<open>/\<close> on integers truncates towards zero.\<close>

definition go_div :: "int \<Rightarrow> int \<Rightarrow> int" where
  "go_div a b = sgn a * sgn b * (\<bar>a\<bar> div \<bar>b\<bar>)"

definition go_rem :: "int \<Rightarrow> int \<Rightarrow> int" where
  "go_rem a b = a - b * go_div a b"

lemma go_div_nonneg: "0 \<le> a \<Longrightarrow> 0 < b \<Longrightarrow> go_div a b = a div b"
  by (cases "a = 0") (auto simp: go_div_def sgn_if)

lemma go_rem_nonneg: "0 \<le> a \<Longrightarrow> 0 < b \<Longrightarrow> go_rem a b = a mod b"
  by (simp add: go_rem_def go_div_nonneg minus_mult_div_eq_mod)

lemma go_div_mono:
  assumes "a \<le> b" "0 < c"
  shows "go_div a c \<le> go_div b c"
proof -
  have neg: "go_div x c = - ((- x) div c)" if "x < 0" for x
    using that \<open>0 < c\<close> by (simp add: go_div_def)
  have nonneg: "0 \<le> x div c" if "0 \<le> x" for x
    using that \<open>0 < c\<close> by (simp add: pos_imp_zdiv_nonneg_iff)
  show ?thesis
    using assms neg [of a] neg [of b] nonneg [of b] nonneg [of "- a"]
      zdiv_mono1 [of a b c] zdiv_mono1 [of "- b" "- a" c]
    by (cases "a < 0"; cases "b < 0") (auto simp: go_div_nonneg)
qed

section \<open>Lists\<close>

lemma sum_list_nonneg_elem:
  fixes xs :: "int list"
  assumes "\<And>x. x \<in> set xs \<Longrightarrow> 0 \<le> x" "x \<in> set xs"
  shows "x \<le> sum_list xs"
  using assms
proof (induction xs)
  case (Cons y ys)
  then have "0 \<le> sum_list ys" by (intro sum_list_nonneg) auto
  with Cons show ?case by fastforce
qed simp

lemma sum_list_update_int:
  fixes xs :: "int list"
  shows "k < length xs \<Longrightarrow> sum_list (xs[k := v]) = sum_list xs - xs ! k + v"
  by (induction xs arbitrary: k) (auto split: nat.split)

section \<open>Strings\<close>

text \<open>
  \<open>strings.ToUpper\<close> and \<open>strings.ToLower\<close> on the ASCII strings the services exchange
  (status names, symbols, order sides): letters are mapped, every other byte is kept.
\<close>

definition upper_char :: "char \<Rightarrow> char" where
  "upper_char c = (if of_char c \<ge> (97::nat) \<and> of_char c \<le> (122::nat)
                   then char_of (of_char c - 32 :: nat) else c)"

definition lower_char :: "char \<Rightarrow> char" where
  "lower_char c = (if of_char c \<ge> (65::nat) \<and> of_char c \<le> (90::nat)
                   then char_of (of_char c + 32 :: nat) else c)"

definition to_upper :: "string \<Rightarrow> string" where
  "to_upper s = map upper_char s"

definition to_lower :: "string \<Rightarrow> string" where
  "to_lower s = map lower_char s"

definition equal_fold :: "string \<Rightarrow> string \<Rightarrow> bool" where
  "equal_fold s t \<longleftrightarrow> to_lower s = to_lower t"

text \<open>\<open>strings.TrimSpace\<close>, \<open>strings.HasPrefix\<close> and \<open>strings.Contains\<close> on such strings.\<close>

definition is_space :: "char \<Rightarrow> bool" where
  "is_space c \<longleftrightarrow> of_char c \<in> {9, 10, 11, 12, 13, 32 :: nat}"

definition trim_space :: "string \<Rightarrow> string" where
  "trim_space s = rev (dropWhile is_space (rev (dropWhile is_space s)))"

definition has_prefix :: "string \<Rightarrow> string \<Rightarrow> bool" where
  "has_prefix s pre \<longleftrightarrow> take (length pre) s = pre"

fun contains :: "string \<Rightarrow> string \<Rightarrow> bool" where
  "contains [] sub = (sub = [])"
| "contains (c # cs) sub = (has_prefix (c # cs) sub \<or> contains cs sub)"

text \<open>Integers in decimal, as \<open>%d\<close> prints them.\<close>

fun show_nat :: "nat \<Rightarrow> string" where
  "show_nat n = (if n < 10 then [char_of (48 + n)] else show_nat (n div 10) @ [char_of (48 + n mod 10)])"

declare show_nat.simps [simp del]

definition show_int :: "int \<Rightarrow> string" where
  "show_int x = (if x < 0 then CHR ''-'' # show_nat (nat (- x)) else show_nat (nat x))"

text \<open>The same on integers, for evaluation.\<close>

fun show_digits :: "int \<Rightarrow> string" where
  "show_digits n = (if n < 10 then [char_of (48 + n)] else show_digits (n div 10) @ [char_of (48 + n mod 10)])"

declare show_digits.simps [simp del]

lemma show_digits_nat: "show_nat n = show_digits (int n)"
proof (induction n rule: show_nat.induct)
  case (1 n)
  have c: "char_of (48 + int k) = (char_of (48 + k) :: char)" for k
  proof -
    have "48 + int k = int (48 + k)" by simp
    then show ?thesis by (simp only: char_of_def bit_of_nat_iff_bit even_of_nat_iff)
  qed
  show ?case
    by (subst show_nat.simps, subst show_digits.simps) (use 1 c [of n] c [of "n mod 10"] in \<open>simp add: zdiv_int zmod_int\<close>)
qed

lemma show_int_code [code]: "show_int x = (if x < 0 then CHR ''-'' # show_digits (- x) else show_digits x)"
  by (simp add: show_int_def show_digits_nat)
section \<open>Objects in a store\<close>

text \<open>
  A component keeps objects under keys and changes them in steps. When every step moves
  every object along a preorder, so does every run, and what the preorder preserves holds
  of the object ever after. \<open>good\<close> is the invariant of the whole store.
\<close>

locale object_store =
  fixes step :: "'s \<Rightarrow> 's \<Rightarrow> bool"
    and good :: "'s \<Rightarrow> bool"
    and look :: "'s \<Rightarrow> 'k \<Rightarrow> 'o option"
    and R :: "'o \<Rightarrow> 'o \<Rightarrow> bool"
  assumes R_refl: "R x x"
    and R_trans: "R x y \<Longrightarrow> R y z \<Longrightarrow> R x z"
    and step_good: "good s \<Longrightarrow> step s s' \<Longrightarrow> good s'"
    and step_R: "good s \<Longrightarrow> step s s' \<Longrightarrow> look s k = Some x \<Longrightarrow> \<exists>y. look s' k = Some y \<and> R x y"
begin

lemma run_good: "step\<^sup>*\<^sup>* s s' \<Longrightarrow> good s \<Longrightarrow> good s'"
  by (induction rule: rtranclp_induct) (auto intro: step_good)

lemma run_R:
  assumes "step\<^sup>*\<^sup>* s s'" "good s" "look s k = Some x"
  shows "\<exists>y. look s' k = Some y \<and> R x y"
  using assms
proof (induction rule: rtranclp_induct)
  case base then show ?case using R_refl by blast
next
  case (step s1 s2)
  then obtain y where y: "look s1 k = Some y" "R x y" by blast
  have "good s1" using run_good step by blast
  from step_R [OF this step(2) y(1)] y(2) show ?case using R_trans by blast
qed

lemma run_stable:
  assumes "step\<^sup>*\<^sup>* s s'" "good s" "look s k = Some x" "P x" and "\<And>x y. R x y \<Longrightarrow> P x \<Longrightarrow> P y"
  shows "\<exists>y. look s' k = Some y \<and> P y"
  using run_R [OF assms(1-3)] assms(4,5) by blast

end

end
