(* ===== verification/Float64.thy ===== *)
theory Float64
  imports Prelude
begin

text \<open>
  Go's \<open>float64\<close>. A finite double is modelled by its exact value, a rational, and every
  arithmetic operation of the source is the exact operation followed by \<open>rnd\<close>: rounding
  to nearest, ties to even, at 53 bits of significand. The exponent is unbounded, so
  overflow, subnormal results, infinities, NaN and the sign of zero are outside the
  model; prices, percentages and quantities lie far inside the exponent range.
\<close>

section \<open>The laws of a rounding function\<close>

text \<open>
  What the components rely on: rounding is monotone, symmetric, exact on the integers up
  to \<open>2 ^ 53\<close> and on its own results, and its relative error is at most \<open>2 ^ - 53\<close>.
\<close>

locale rounding =
  fixes r :: "rat \<Rightarrow> rat"
  assumes mono: "x \<le> y \<Longrightarrow> r x \<le> r y"
    and idem: "r (r x) = r x"
    and neg: "r (- x) = - r x"
    and of_int_exact: "\<bar>n\<bar> \<le> 2 ^ 53 \<Longrightarrow> r (of_int n) = of_int n"
    and rel_err: "\<bar>r x - x\<bar> \<le> \<bar>x\<bar> / 2 ^ 53"
begin

lemma zero [simp]: "r 0 = 0"
  using of_int_exact [of 0] by simp

lemma one [simp]: "r 1 = 1"
  using of_int_exact [of 1] by simp

lemma numeral_exact: "(numeral n :: int) \<le> 2 ^ 53 \<Longrightarrow> r (numeral n) = numeral n"
  using of_int_exact [of "numeral n"] by simp

lemma nonneg: "0 \<le> x \<Longrightarrow> 0 \<le> r x"
  using mono [of 0 x] by simp

lemma nonpos: "x \<le> 0 \<Longrightarrow> r x \<le> 0"
  using mono [of x 0] by simp

lemma pos: "0 < x \<Longrightarrow> 0 < r x"
proof -
  assume "0 < x"
  then have "\<bar>x\<bar> / 2 ^ 53 < x" by (simp add: field_simps)
  with rel_err [of x] show "0 < r x" by linarith
qed

lemma pos_iff: "0 < r x \<longleftrightarrow> 0 < x"
  using pos [of x] nonpos [of x] by fastforce

lemma le_fix: "r y = y \<Longrightarrow> x \<le> y \<Longrightarrow> r x \<le> y"
  using mono [of x y] by simp

lemma ge_fix: "r y = y \<Longrightarrow> y \<le> x \<Longrightarrow> y \<le> r x"
  using mono [of y x] by simp

lemma less_iff: "r x < r y \<Longrightarrow> x < y"
  using mono [of y x] by fastforce

lemma scale_le: "0 \<le> x \<Longrightarrow> r x = x \<Longrightarrow> c \<le> 1 \<Longrightarrow> r (x * c) \<le> x"
  by (rule le_fix) (auto simp: mult_left_le)

lemma scale_ge: "0 \<le> x \<Longrightarrow> r x = x \<Longrightarrow> 1 \<le> c \<Longrightarrow> x \<le> r (x * c)"
  by (rule ge_fix) (auto simp: mult_le_cancel_left1)

lemma err_upper: "0 \<le> x \<Longrightarrow> r x \<le> x * (1 + 1 / 2 ^ 53)"
  using rel_err [of x] unfolding distrib_left abs_le_iff by simp

lemma err_lower: "0 \<le> x \<Longrightarrow> x * (1 - 1 / 2 ^ 53) \<le> r x"
  using rel_err [of x] unfolding right_diff_distrib abs_le_iff by simp

end

section \<open>Rounding to nearest, ties to even, at 53 bits\<close>

definition rhe :: "rat \<Rightarrow> int" where
  "rhe x = (let f = \<lfloor>x\<rfloor>; d = x - of_int f in
            if d < 1 / 2 then f else if 1 / 2 < d then f + 1
            else if even f then f else f + 1)"

text \<open>
  \<open>ilog2 x\<close> is the exponent of the leading bit of a positive rational: from the bit
  length of its integer part, or of the integer below its reciprocal.
\<close>

fun bitl :: "int \<Rightarrow> int" where
  "bitl n = (if n \<le> 0 then 0 else 1 + bitl (n div 2))"

declare bitl.simps [simp del]

definition ilog2 :: "rat \<Rightarrow> int" where
  "ilog2 x = (if 1 \<le> x then bitl \<lfloor>x\<rfloor> - 1 else - bitl (\<lceil>1 / x\<rceil> - 1))"

definition rnd :: "rat \<Rightarrow> rat" where
  "rnd x = (if x = 0 then 0
            else let e = ilog2 \<bar>x\<bar> - 52 in of_int (rhe (x / 2 powi e)) * 2 powi e)"

lemma rhe_of_int [simp]: "rhe (of_int n) = n"
  by (simp add: rhe_def)

lemma rhe_err: "\<bar>of_int (rhe x) - x\<bar> \<le> 1 / 2"
proof -
  define f where "f = \<lfloor>x\<rfloor>"
  have "of_int f \<le> x" "x < of_int f + 1" unfolding f_def by linarith+
  then show ?thesis unfolding rhe_def Let_def f_def [symmetric] by auto
qed

lemma rhe_bounds: "\<lfloor>x\<rfloor> \<le> rhe x \<and> rhe x \<le> \<lfloor>x\<rfloor> + 1"
  by (simp add: rhe_def Let_def)

lemma rhe_mono: "x \<le> y \<Longrightarrow> rhe x \<le> rhe y"
proof -
  assume "x \<le> y"
  then consider "\<lfloor>x\<rfloor> = \<lfloor>y\<rfloor>" | "\<lfloor>x\<rfloor> + 1 \<le> \<lfloor>y\<rfloor>"
    using floor_mono [OF \<open>x \<le> y\<close>] by linarith
  then show ?thesis
  proof cases
    case 1
    with \<open>x \<le> y\<close> show ?thesis by (simp add: rhe_def Let_def)
  next
    case 2
    then show ?thesis using rhe_bounds [of x] rhe_bounds [of y] by linarith
  qed
qed

lemma rhe_neg: "rhe (- x) = - rhe x"
proof (cases "x = of_int \<lfloor>x\<rfloor>")
  case True
  then show ?thesis using rhe_of_int [of "- \<lfloor>x\<rfloor>"] rhe_of_int [of "\<lfloor>x\<rfloor>"] by simp
next
  case False
  then have "of_int \<lfloor>x\<rfloor> < x" using of_int_floor_le [of x] by linarith
  then have f: "\<lfloor>- x\<rfloor> = - \<lfloor>x\<rfloor> - 1"
    by (intro floor_unique) (simp_all, linarith)
  show ?thesis unfolding rhe_def Let_def f by auto
qed

section \<open>The binary exponent\<close>

lemma bitl_numeral [simp]:
  "bitl 0 = 0" "bitl 1 = 1"
  "bitl (numeral (num.Bit0 n)) = 1 + bitl (numeral n)"
  "bitl (numeral (num.Bit1 n)) = 1 + bitl (numeral n)"
  by (simp_all add: bitl.simps [of "numeral (num.Bit0 n)"] bitl.simps [of "numeral (num.Bit1 n)"]
      bitl.simps [of 1] bitl.simps [of 0])

lemma bitl_int_bounds:
  "0 < n \<Longrightarrow> 0 < bitl n \<and> 2 ^ nat (bitl n - 1) \<le> n \<and> n < 2 ^ nat (bitl n)"
proof (induction n rule: bitl.induct)
  case (1 n)
  show ?case
  proof (cases "n = 1")
    case False
    define b where "b = bitl (n div 2)"
    with 1 False have b: "0 < b" "2 ^ nat (b - 1) \<le> n div 2" "n div 2 < 2 ^ nat b" by auto
    have eq: "bitl n = 1 + b" using "1.prems" by (simp add: bitl.simps [of n] b_def)
    obtain k where k: "b = 1 + int k" using b(1) that [of "nat (b - 1)"] by simp
    have "2 * 2 ^ k \<le> n" "n < 2 * (2 * 2 ^ k)"
      using b(2,3) by (simp_all add: k nat_add_distrib)
    then show ?thesis by (simp add: eq k nat_add_distrib)
  qed simp
qed

lemma bitl_bounds:
  assumes "0 < n"
  shows "2 powi (bitl n - 1) \<le> (of_int n :: rat)" "(of_int n :: rat) < 2 powi bitl n"
proof -
  note b = bitl_int_bounds [OF assms]
  have "of_int (2 ^ nat (bitl n - 1)) \<le> (of_int n :: rat)" "(of_int n :: rat) < of_int (2 ^ nat (bitl n))"
    using b by (simp_all only: of_int_le_iff of_int_less_iff)
  then show "2 powi (bitl n - 1) \<le> (of_int n :: rat)" "(of_int n :: rat) < 2 powi bitl n"
    using b by (simp_all add: power_int_def)
qed

lemma ilog2_bounds_ge1:
  assumes "1 \<le> x"
  shows "2 powi ilog2 x \<le> x" "x < 2 powi (ilog2 x + 1)"
proof -
  have f: "0 < \<lfloor>x\<rfloor>" "of_int \<lfloor>x\<rfloor> \<le> x" "x < of_int (\<lfloor>x\<rfloor> + 1)" using assms by (auto, linarith)
  have "\<lfloor>x\<rfloor> + 1 \<le> 2 ^ nat (bitl \<lfloor>x\<rfloor>)" using bitl_int_bounds [OF f(1)] by simp
  then have "(of_int (\<lfloor>x\<rfloor> + 1) :: rat) \<le> of_int (2 ^ nat (bitl \<lfloor>x\<rfloor>))" by (simp only: of_int_le_iff)
  then have "x < 2 powi bitl \<lfloor>x\<rfloor>"
    using f(3) bitl_int_bounds [OF f(1)] by (simp add: power_int_def)
  moreover have "2 powi (bitl \<lfloor>x\<rfloor> - 1) \<le> x" using bitl_bounds(1) [OF f(1)] f(2) by (rule order_trans)
  ultimately show "2 powi ilog2 x \<le> x" "x < 2 powi (ilog2 x + 1)"
    using assms by (simp_all add: ilog2_def)
qed

lemma ilog2_bounds_lt1:
  assumes "0 < x" "x < 1"
  shows "2 powi ilog2 x \<le> x" "x < 2 powi (ilog2 x + 1)"
proof -
  define c where "c = \<lceil>1 / x\<rceil> - 1"
  have "1 < 1 / x" using assms by (simp add: field_simps)
  then have c: "0 < c" "of_int c < 1 / x" "1 / x \<le> of_int (c + 1)" unfolding c_def by linarith+
  have "c + 1 \<le> 2 ^ nat (bitl c)" using bitl_int_bounds [OF c(1)] by simp
  then have "(of_int (c + 1) :: rat) \<le> of_int (2 ^ nat (bitl c))" by (simp only: of_int_le_iff)
  then have hi: "1 / x \<le> 2 powi bitl c"
    using c(3) bitl_int_bounds [OF c(1)] by (simp add: power_int_def)
  have lo: "2 powi (bitl c - 1) < 1 / x" using bitl_bounds(1) [OF c(1)] c(2) by linarith
  have e: "ilog2 x = - bitl c" using assms by (simp add: ilog2_def c_def)
  define B where "B = (2::rat) powi bitl c"
  have B: "0 < B" "(2::rat) powi (- bitl c) = 1 / B" "(2::rat) powi (- bitl c + 1) = 2 / B"
    "(2::rat) powi (bitl c - 1) = B / 2"
    by (simp_all add: B_def power_int_minus power_int_add power_int_diff field_simps)
  show "2 powi ilog2 x \<le> x" "x < 2 powi (ilog2 x + 1)"
    using lo hi assms B(1) unfolding e B B_def [symmetric] by (simp_all add: field_simps)
qed

lemma ilog2_bounds:
  assumes "0 < x"
  shows "2 powi ilog2 x \<le> x" "x < 2 powi (ilog2 x + 1)"
  using assms ilog2_bounds_ge1 [of x] ilog2_bounds_lt1 [of x] by (cases "1 \<le> x"; simp)+

lemma ilog2_unique:
  assumes "2 powi e \<le> x" "x < 2 powi (e + 1)"
  shows "ilog2 x = e"
proof -
  have "0 < x" using assms(1) by (rule less_le_trans [rotated]) simp
  note b = ilog2_bounds [OF this]
  have "(2::rat) powi e < 2 powi (ilog2 x + 1)" "(2::rat) powi ilog2 x < 2 powi (e + 1)"
    using assms b by linarith+
  then have "e < ilog2 x + 1" "ilog2 x < e + 1"
    using power_int_increasing [of "ilog2 x + 1" e "2::rat"]
      power_int_increasing [of "e + 1" "ilog2 x" "2::rat"] by (auto simp: not_le [symmetric])
  then show ?thesis by simp
qed

lemma ilog2_mono: "0 < x \<Longrightarrow> x \<le> y \<Longrightarrow> ilog2 x \<le> ilog2 y"
proof (rule ccontr)
  assume *: "0 < x" "x \<le> y" "\<not> ilog2 x \<le> ilog2 y"
  then have "(2::rat) powi (ilog2 y + 1) \<le> 2 powi ilog2 x"
    by (intro power_int_increasing) auto
  with * ilog2_bounds(1) [of x] ilog2_bounds(2) [of y] show False by linarith
qed

section \<open>The laws of the concrete rounding\<close>

lemma rnd_neg: "rnd (- x) = - rnd x"
  by (simp add: rnd_def Let_def rhe_neg)

lemma rnd_eq_pos:
  "0 < x \<Longrightarrow> rnd x = of_int (rhe (x / 2 powi (ilog2 x - 52))) * 2 powi (ilog2 x - 52)"
  by (simp add: rnd_def Let_def)

lemma powi_ilog2:
  "(2::rat) powi ilog2 x = 2 ^ 52 * 2 powi (ilog2 x - 52)"
  "(2::rat) powi (ilog2 x + 1) = 2 ^ 53 * 2 powi (ilog2 x - 52)"
  by (simp_all add: power_int_diff power_int_add)

lemma rnd_significand:
  assumes "0 < x"
  shows "2 ^ 52 \<le> rhe (x / 2 powi (ilog2 x - 52))" "rhe (x / 2 powi (ilog2 x - 52)) \<le> 2 ^ 53"
proof -
  have "of_int (2 ^ 52) \<le> x / 2 powi (ilog2 x - 52)" "x / 2 powi (ilog2 x - 52) \<le> of_int (2 ^ 53)"
    using ilog2_bounds [OF assms] unfolding powi_ilog2 by (simp_all add: field_simps)
  from this [THEN rhe_mono] show "2 ^ 52 \<le> rhe (x / 2 powi (ilog2 x - 52))"
    "rhe (x / 2 powi (ilog2 x - 52)) \<le> 2 ^ 53" by (simp_all only: rhe_of_int)
qed

lemma rnd_binade:
  assumes "0 < x"
  shows "2 powi ilog2 x \<le> rnd x" "rnd x \<le> 2 powi (ilog2 x + 1)"
proof -
  define m where "m = rhe (x / 2 powi (ilog2 x - 52))"
  have r: "rnd x = of_int m * 2 powi (ilog2 x - 52)"
    using assms by (simp add: rnd_eq_pos m_def)
  have m: "of_int (2 ^ 52) \<le> (of_int m :: rat)" "(of_int m :: rat) \<le> of_int (2 ^ 53)"
    using rnd_significand [OF assms] unfolding m_def by (simp_all only: of_int_le_iff)
  have "2 ^ 52 * 2 powi (ilog2 x - 52) \<le> rnd x" "rnd x \<le> 2 ^ 53 * 2 powi (ilog2 x - 52)"
    unfolding r using m by (auto intro!: mult_right_mono)
  then show "2 powi ilog2 x \<le> rnd x" "rnd x \<le> 2 powi (ilog2 x + 1)"
    unfolding powi_ilog2 by simp_all
qed

lemma rnd_pos: "0 < x \<Longrightarrow> 0 < rnd x"
  using rnd_binade(1) [of x] by (rule less_le_trans [rotated]) simp_all

lemma rnd_mono_pos:
  assumes "0 < x" "x \<le> y"
  shows "rnd x \<le> rnd y"
proof (cases "ilog2 x = ilog2 y")
  case True
  have "x / 2 powi (ilog2 y - 52) \<le> y / 2 powi (ilog2 y - 52)"
    using assms by (simp add: divide_right_mono)
  then show ?thesis using assms True by (simp add: rnd_eq_pos rhe_mono)
next
  case False
  then have "ilog2 x + 1 \<le> ilog2 y" using ilog2_mono [OF assms] by simp
  then have "(2::rat) powi (ilog2 x + 1) \<le> 2 powi ilog2 y" by (intro power_int_increasing) auto
  then show ?thesis using rnd_binade(2) [of x] rnd_binade(1) [of y] assms by linarith
qed

lemma rnd_mono: "x \<le> y \<Longrightarrow> rnd x \<le> rnd y"
proof -
  assume le: "x \<le> y"
  have z: "rnd 0 = 0" by (simp add: rnd_def)
  have np: "rnd v \<le> 0" if "v \<le> 0" for v
    using that rnd_pos [of "- v"] rnd_neg [of v] z by (cases "v = 0") auto
  have nn: "0 \<le> rnd v" if "0 \<le> v" for v
    using that rnd_pos [of v] z by (cases "v = 0") auto
  consider "0 < x" | "x \<le> 0" "0 \<le> y" | "y < 0" by linarith
  then show ?thesis
  proof cases
    case 1 then show ?thesis using le by (rule rnd_mono_pos)
  next
    case 2 then show ?thesis using np [of x] nn [of y] by linarith
  next
    case 3 then show ?thesis using rnd_mono_pos [of "- y" "- x"] le by (simp add: rnd_neg)
  qed
qed

lemma rnd_rel_err_pos:
  assumes "0 < x"
  shows "\<bar>rnd x - x\<bar> \<le> x / 2 ^ 53"
proof -
  define u where "u = (2::rat) powi (ilog2 x - 52)"
  have u: "0 < u" by (simp add: u_def)
  have "rnd x - x = (of_int (rhe (x / u)) - x / u) * u"
    using assms u by (simp add: rnd_eq_pos u_def field_simps)
  then have "\<bar>rnd x - x\<bar> = \<bar>of_int (rhe (x / u)) - x / u\<bar> * u"
    using u by (simp add: abs_mult)
  also have "\<dots> \<le> 1 / 2 * u"
    using u by (intro mult_right_mono rhe_err) auto
  also have "2 ^ 52 * u \<le> x"
    using ilog2_bounds(1) [OF assms] unfolding powi_ilog2 by (simp add: u_def)
  then have "1 / 2 * u \<le> x / 2 ^ 53" by simp
  finally show ?thesis .
qed

lemma rnd_exact_pos:
  assumes "0 < m" "m \<le> 2 ^ 53"
  shows "rnd (of_int m * 2 powi e) = of_int m * 2 powi e"
proof -
  define l where "l = ilog2 (of_int m)"
  define x where "x = (of_int m * 2 powi e :: rat)"
  have m: "2 powi l \<le> (of_int m :: rat)" "(of_int m :: rat) < 2 powi (l + 1)"
    using ilog2_bounds [of "of_int m"] assms by (auto simp: l_def)
  have x: "0 < x" using assms by (simp add: x_def)
  have ilx: "ilog2 x = l + e"
    using m by (intro ilog2_unique) (simp_all add: x_def power_int_add field_simps)
  have "l \<le> 53"
  proof (rule ccontr)
    assume "\<not> l \<le> 53"
    then have "(2::rat) powi 54 \<le> 2 powi l" by (intro power_int_increasing) auto
    with m(1) have "of_int (2 ^ 54) \<le> (of_int m :: rat)" by simp
    then have "2 ^ 54 \<le> m" by (simp only: of_int_le_iff)
    with assms show False by simp
  qed
  have q: "x / 2 powi (ilog2 x - 52) = of_int m * 2 powi (52 - l)"
    unfolding ilx by (simp add: x_def power_int_diff power_int_add)
  have "\<exists>k. x / 2 powi (ilog2 x - 52) = of_int k"
  proof (cases "l = 53")
    case True
    with m(1) have "of_int (2 ^ 53) \<le> (of_int m :: rat)" by simp
    with assms have "m = 2 ^ 53" by (simp only: of_int_le_iff)
    then show ?thesis unfolding q True by (intro exI [of _ "2 ^ 52"]) (simp add: power_int_def)
  next
    case False
    then show ?thesis unfolding q using \<open>l \<le> 53\<close>
      by (intro exI [of _ "m * 2 ^ nat (52 - l)"]) (simp add: power_int_def)
  qed
  then obtain k where k: "x / 2 powi (ilog2 x - 52) = of_int k" by blast
  have "rnd x = of_int k * 2 powi (ilog2 x - 52)" using x k by (simp add: rnd_eq_pos)
  also have "\<dots> = x" using k by (simp add: field_simps)
  finally show ?thesis by (simp add: x_def)
qed

lemma rnd_exact:
  assumes "\<bar>m\<bar> \<le> 2 ^ 53"
  shows "rnd (of_int m * 2 powi e) = of_int m * 2 powi e"
proof -
  consider "m = 0" | "0 < m" | "0 < - m" by linarith
  then show ?thesis
  proof cases
    case 1 then show ?thesis by (simp add: rnd_def)
  next
    case 2 then show ?thesis using assms by (intro rnd_exact_pos) auto
  next
    case 3
    then have "rnd (of_int (- m) * 2 powi e) = of_int (- m) * 2 powi e"
      using assms by (intro rnd_exact_pos) auto
    then show ?thesis using rnd_neg [of "of_int m * 2 powi e"] by simp
  qed
qed

lemma rnd_idem_pos: "0 < x \<Longrightarrow> rnd (rnd x) = rnd x"
  using rnd_significand [of x] rnd_exact [of "rhe (x / 2 powi (ilog2 x - 52))" "ilog2 x - 52"]
  by (simp add: rnd_eq_pos [of x])

interpretation f64: rounding rnd
proof
  show "rnd x \<le> rnd y" if "x \<le> y" for x y using that by (rule rnd_mono)
  show "rnd (- x) = - rnd x" for x by (rule rnd_neg)
  show "rnd (rnd x) = rnd x" for x
    using rnd_idem_pos [of x] rnd_idem_pos [of "- x"]
    by (cases x "0::rat" rule: linorder_cases) (auto simp: rnd_neg, simp add: rnd_def)
  show "rnd (of_int n) = of_int n" if "\<bar>n\<bar> \<le> 2 ^ 53" for n
    using rnd_exact [OF that, of 0] by simp
  show "\<bar>rnd x - x\<bar> \<le> \<bar>x\<bar> / 2 ^ 53" for x
    using rnd_rel_err_pos [of x] rnd_rel_err_pos [of "- x"]
    by (cases x "0::rat" rule: linorder_cases) (auto simp: rnd_neg abs_minus_commute, simp add: rnd_def)
qed

section \<open>Operations and conversions\<close>

type_synonym float64 = rat

abbreviation fadd :: "float64 \<Rightarrow> float64 \<Rightarrow> float64" where "fadd x y \<equiv> rnd (x + y)"
abbreviation fsub :: "float64 \<Rightarrow> float64 \<Rightarrow> float64" where "fsub x y \<equiv> rnd (x - y)"
abbreviation fmul :: "float64 \<Rightarrow> float64 \<Rightarrow> float64" where "fmul x y \<equiv> rnd (x * y)"
abbreviation fdiv :: "float64 \<Rightarrow> float64 \<Rightarrow> float64" where "fdiv x y \<equiv> rnd (x / y)"

text \<open>A rational that is the value of a double of the model.\<close>

definition is_f64 :: "rat \<Rightarrow> bool" where
  "is_f64 x \<longleftrightarrow> rnd x = x"

text \<open>
  Conversions. \<open>float64(n)\<close> rounds; \<open>int32(x)\<close> and \<open>int64(x)\<close> truncate towards zero. Out of
  the target's range Go leaves the result to the implementation; the amd64 instruction
  yields the smallest value of the type.
\<close>

definition trunc :: "rat \<Rightarrow> int" where
  "trunc x = (if 0 \<le> x then \<lfloor>x\<rfloor> else \<lceil>x\<rceil>)"

definition f_of_int :: "int \<Rightarrow> float64" where
  "f_of_int n = rnd (of_int n)"

definition int32_of :: "float64 \<Rightarrow> int" where
  "int32_of x = (if is_i32 (trunc x) then trunc x else - (2 ^ 31))"

definition int64_of :: "float64 \<Rightarrow> int" where
  "int64_of x = (if is_i64 (trunc x) then trunc x else - (2 ^ 63))"

lemma is_f64_rnd [simp, intro]: "is_f64 (rnd x)"
  by (simp add: is_f64_def f64.idem)

lemma is_f64_f_of_int [simp, intro]: "is_f64 (f_of_int n)"
  by (simp add: f_of_int_def)

lemma trunc_mono: "x \<le> y \<Longrightarrow> trunc x \<le> trunc y"
  unfolding trunc_def
  by (auto simp: floor_mono ceiling_mono not_le intro: order_trans [of _ 0])

lemma trunc_nonneg: "0 \<le> x \<Longrightarrow> 0 \<le> trunc x \<and> of_int (trunc x) \<le> x"
  by (simp add: trunc_def)

lemma f_of_int_i32: "is_i32 n \<Longrightarrow> f_of_int n = of_int n"
  unfolding f_of_int_def is_i32_def by (rule f64.of_int_exact) (auto simp: abs_le_iff)

lemma f_of_int_mono: "m \<le> n \<Longrightarrow> f_of_int m \<le> f_of_int n"
  by (simp add: f_of_int_def f64.mono)


text \<open>Evaluation of closed floating-point terms by the simplifier.\<close>

lemma floor_rat_numeral [simp]:
  "\<lfloor>numeral a / numeral b :: rat\<rfloor> = numeral a div numeral b"
  "\<lfloor>1 / numeral b :: rat\<rfloor> = 1 div numeral b"
  "\<lceil>numeral a / numeral b :: rat\<rceil> = - (- numeral a div numeral b)"
  "\<lceil>- (numeral a / numeral b) :: rat\<rceil> = - (numeral a div numeral b)"
  using floor_divide_of_int_eq [of "numeral a" "numeral b", where 'a = rat]
    floor_divide_of_int_eq [of 1 "numeral b", where 'a = rat]
    floor_divide_of_int_eq [of "- numeral a" "numeral b", where 'a = rat]
  by (simp_all add: ceiling_def)

lemmas f64_eval = Let_def rnd_def ilog2_def rhe_def trunc_def f_of_int_def int32_of_def int64_of_def
  is_i32_def is_i64_def is_f64_def

end
