(* ===== verification/NseTick.thy ===== *)
theory NseTick
  imports Float64
begin

text \<open>
  Rounding of a price to the exchange's tick of 0.05, the function \<open>roundNSE\<close> that
  \<open>multilevel/types.go\<close> and \<open>oco/types.go\<close> both define (the two bodies are the same
  text). \<open>nse_paise\<close> is the integer number of paise its first two statements compute.
\<close>

definition tick_arg :: "float64 \<Rightarrow> float64" where
  "tick_arg p = fadd (fmul p 100) (1 / 2)"

definition nse_paise :: "float64 \<Rightarrow> int" where
  "nse_paise p = (let paise = int64_of (tick_arg p) in i64 (go_div (i64 (paise + 2)) 5 * 5))"

definition roundNSE :: "float64 \<Rightarrow> float64" where
  "roundNSE p = fdiv (f_of_int (nse_paise p)) 100"

text \<open>
  The range of prices the theorems are about: a double between 0 and a million million
  rupees. Every quoted price lies in it, and no conversion of \<open>roundNSE\<close> overflows there.
\<close>

definition price_range :: "float64 \<Rightarrow> bool" where
  "price_range p \<longleftrightarrow> 0 \<le> p \<and> p \<le> 10 ^ 12"

lemma price_rangeD: "price_range p \<Longrightarrow> 0 \<le> p" "price_range p \<Longrightarrow> p \<le> 10 ^ 12"
  by (simp_all add: price_range_def)

section \<open>The paise of a price in range\<close>

lemma tick_arg_mono: "p \<le> q \<Longrightarrow> tick_arg p \<le> tick_arg q"
  unfolding tick_arg_def by (intro f64.mono add_right_mono mult_right_mono) auto

lemma tick_arg_range:
  assumes "price_range p"
  shows "0 \<le> tick_arg p" "tick_arg p \<le> 10 ^ 14 + 1"
proof -
  note p = price_rangeD [OF assms]
  have m: "0 \<le> fmul p 100" using p by (intro f64.nonneg) auto
  then show "0 \<le> tick_arg p" unfolding tick_arg_def by (intro f64.nonneg) auto
  have "fmul p 100 \<le> 10 ^ 14"
    using p f64.of_int_exact [of "10 ^ 14"] by (intro f64.le_fix) auto
  then show "tick_arg p \<le> 10 ^ 14 + 1"
    unfolding tick_arg_def using f64.of_int_exact [of "10 ^ 14 + 1"] by (intro f64.le_fix) auto
qed

lemma nse_paise_eq:
  assumes "price_range p"
  shows "nse_paise p = (\<lfloor>tick_arg p\<rfloor> + 2) div 5 * 5" "0 \<le> \<lfloor>tick_arg p\<rfloor>" "\<lfloor>tick_arg p\<rfloor> \<le> 10 ^ 14 + 1"
proof -
  note t = tick_arg_range [OF assms]
  define k where "k = \<lfloor>tick_arg p\<rfloor>"
  have k: "0 \<le> k" "k \<le> 10 ^ 14 + 1" using t unfolding k_def by (simp_all add: floor_le_iff)
  then show "0 \<le> \<lfloor>tick_arg p\<rfloor>" "\<lfloor>tick_arg p\<rfloor> \<le> 10 ^ 14 + 1" by (simp_all add: k_def)
  have "int64_of (tick_arg p) = k"
    using t(1) k by (simp add: int64_of_def trunc_def k_def is_i64_def)
  moreover have "i64 (k + 2) = k + 2" "i64 ((k + 2) div 5 * 5) = (k + 2) div 5 * 5"
    using k by (auto intro!: i64_id simp: is_i64_def)
  ultimately show "nse_paise p = (\<lfloor>tick_arg p\<rfloor> + 2) div 5 * 5"
    using k by (simp add: nse_paise_def go_div_nonneg k_def)
qed

lemma nse_paise_range:
  assumes "price_range p"
  shows "0 \<le> nse_paise p" "nse_paise p \<le> 10 ^ 14 + 3" "5 dvd nse_paise p"
proof -
  define t where "t = \<lfloor>tick_arg p\<rfloor>"
  have "nse_paise p = (t + 2) div 5 * 5" "0 \<le> t" "t \<le> 10 ^ 14 + 1"
    using nse_paise_eq [OF assms] by (simp_all add: t_def)
  then show "0 \<le> nse_paise p" "nse_paise p \<le> 10 ^ 14 + 3" "5 dvd nse_paise p" by simp_all
qed

lemma f_of_int_paise: "0 \<le> n \<Longrightarrow> n \<le> 10 ^ 15 \<Longrightarrow> f_of_int n = of_int n"
  unfolding f_of_int_def by (rule f64.of_int_exact) simp

lemma roundNSE_eq: "price_range p \<Longrightarrow> roundNSE p = rnd (of_int (nse_paise p) / 100)"
  using nse_paise_range [of p] by (simp add: roundNSE_def f_of_int_paise)

lemma nse_paise_mono:
  assumes "price_range p" "price_range q" "p \<le> q"
  shows "nse_paise p \<le> nse_paise q"
proof -
  have "\<lfloor>tick_arg p\<rfloor> \<le> \<lfloor>tick_arg q\<rfloor>" using assms(3) by (intro floor_mono tick_arg_mono)
  then have "(\<lfloor>tick_arg p\<rfloor> + 2) div 5 \<le> (\<lfloor>tick_arg q\<rfloor> + 2) div 5" by (intro zdiv_mono1) auto
  then show ?thesis by (simp add: nse_paise_eq [OF assms(1)] nse_paise_eq [OF assms(2)])
qed

lemma roundNSE_mono:
  assumes "price_range p" "price_range q" "p \<le> q"
  shows "roundNSE p \<le> roundNSE q"
  using nse_paise_mono [OF assms] by (simp add: roundNSE_eq assms f64.mono divide_right_mono)

lemma roundNSE_nonneg: "price_range p \<Longrightarrow> 0 \<le> roundNSE p"
  using nse_paise_range [of p] by (simp add: roundNSE_eq f64.nonneg)

lemma is_f64_roundNSE [simp, intro]: "is_f64 (roundNSE p)"
  by (simp add: roundNSE_def)

section \<open>A tick is a fixed point\<close>

lemma tick_arg_of_tick:
  assumes "0 \<le> k" "k \<le> 10 ^ 14 + 3"
  shows "\<lfloor>tick_arg (rnd (of_int k / 100))\<rfloor> = k"
proof -
  define q where "q = rnd (of_int k / 100)"
  define z where "z = fmul q 100"
  have k: "(0::rat) \<le> of_int k" "(of_int k :: rat) \<le> of_int (10 ^ 14 + 3)"
    using assms by (simp_all only: of_int_0_le_iff of_int_le_iff)
  have q: "\<bar>q - of_int k / 100\<bar> \<le> (of_int k / 100) / 2 ^ 53" "0 \<le> q"
    using f64.rel_err [of "of_int k / 100"] k by (simp_all add: q_def f64.nonneg)
  have z: "\<bar>z - q * 100\<bar> \<le> (q * 100) / 2 ^ 53"
    using f64.rel_err [of "q * 100"] q(2) by (simp add: z_def)
  have q100: "\<bar>q * 100 - of_int k\<bar> \<le> 1 / 16"
    using q(1) k by (simp add: abs_le_iff field_simps)
  have z8: "\<bar>z - of_int k\<bar> \<le> 1 / 8"
  proof -
    have "q * 100 \<le> 10 ^ 14 + 4" using q100 k(2) unfolding abs_le_iff by simp
    then have "(q * 100) / 2 ^ 53 \<le> 1 / 16" by simp
    with z q100 show ?thesis by linarith
  qed
  have up: "rnd (of_int k + 3 / 4) = of_int k + 3 / 4"
    using rnd_exact [of "4 * k + 3" "- 2"] assms by (simp add: power_int_minus field_simps)
  have lo: "rnd (of_int k) = of_int k" using assms by (intro f64.of_int_exact) simp
  have "z + 1 / 2 \<le> of_int k + 3 / 4" "of_int k \<le> z + 1 / 2" using z8 by linarith+
  then have "of_int k \<le> rnd (z + 1 / 2)" "rnd (z + 1 / 2) \<le> of_int k + 3 / 4"
    using f64.ge_fix [OF lo] f64.le_fix [OF up] by auto
  then show ?thesis
    by (intro floor_unique) (simp_all add: tick_arg_def z_def q_def)
qed

lemma price_range_tick:
  assumes "price_range p"
  shows "0 \<le> roundNSE p" "roundNSE p \<le> 10 ^ 12 + 1"
proof -
  show "0 \<le> roundNSE p" using assms by (rule roundNSE_nonneg)
  have "(of_int (nse_paise p) :: rat) \<le> of_int (10 ^ 14 + 3)"
    using nse_paise_range(2) [OF assms] by (simp only: of_int_le_iff)
  then show "roundNSE p \<le> 10 ^ 12 + 1"
    unfolding roundNSE_eq [OF assms]
    using f64.of_int_exact [of "10 ^ 12 + 1"] by (intro f64.le_fix) simp_all
qed

lemma roundNSE_idem:
  assumes "price_range p" "price_range (roundNSE p)"
  shows "roundNSE (roundNSE p) = roundNSE p"
proof -
  define k where "k = nse_paise p"
  have k: "0 \<le> k" "k \<le> 10 ^ 14 + 3" "5 dvd k" using nse_paise_range [OF assms(1)] by (auto simp: k_def)
  have r: "roundNSE p = rnd (of_int k / 100)" using assms(1) by (simp add: roundNSE_eq k_def)
  have "nse_paise (roundNSE p) = (k + 2) div 5 * 5"
    unfolding nse_paise_eq(1) [OF assms(2)] using tick_arg_of_tick [OF k(1,2)] by (simp add: r)
  also have "\<dots> = k" using k(3) by (auto elim: dvdE)
  finally show ?thesis using roundNSE_eq [OF assms(2)] r by simp
qed

section \<open>Distance to the unrounded price\<close>

lemma roundNSE_near:
  assumes "price_range p"
  shows "\<bar>roundNSE p - p\<bar> \<le> 3 / 100"
proof -
  note p = price_rangeD [OF assms]
  define z where "z = fmul p 100"
  define k where "k = nse_paise p"
  have z: "\<bar>z - p * 100\<bar> \<le> (p * 100) / 2 ^ 53" "0 \<le> z"
    using f64.rel_err [of "p * 100"] p by (simp_all add: z_def f64.nonneg)
  have t: "\<bar>tick_arg p - (z + 1 / 2)\<bar> \<le> (z + 1 / 2) / 2 ^ 53"
    using f64.rel_err [of "z + 1 / 2"] z(2) by (simp add: tick_arg_def z_def)
  have z1: "\<bar>z - p * 100\<bar> \<le> 1 / 64" using z(1) p by (simp add: abs_le_iff field_simps)
  have t1: "\<bar>tick_arg p - (p * 100 + 1 / 2)\<bar> \<le> 1 / 16"
  proof -
    have "z \<le> 10 ^ 14 + 1" using z1 p unfolding abs_le_iff by simp
    then have "(z + 1 / 2) / 2 ^ 53 \<le> 1 / 32" by simp
    with t z1 show ?thesis by linarith
  qed
  have "\<bar>k - \<lfloor>tick_arg p\<rfloor>\<bar> \<le> 2"
    unfolding k_def nse_paise_eq(1) [OF assms] by linarith
  then have "\<bar>of_int k - of_int \<lfloor>tick_arg p\<rfloor> :: rat\<bar> \<le> 2" by linarith
  moreover have "of_int \<lfloor>tick_arg p\<rfloor> \<le> tick_arg p" "tick_arg p < of_int \<lfloor>tick_arg p\<rfloor> + 1" by linarith+
  ultimately have k1: "\<bar>of_int k - p * 100\<bar> \<le> 5 / 2 + 1 / 16" using t1 by linarith
  have k0: "(0::rat) \<le> of_int k" using nse_paise_range(1) [OF assms] by (simp add: k_def)
  have "\<bar>roundNSE p - of_int k / 100\<bar> \<le> (of_int k / 100) / 2 ^ 53"
    using f64.rel_err [of "of_int k / 100"] k0 by (simp add: roundNSE_eq assms k_def)
  moreover have "(of_int k / 100) / 2 ^ 53 \<le> (1 / 1000 :: rat)"
  proof -
    have "(of_int k :: rat) \<le> 10 ^ 14 + 3" using k1 p unfolding abs_le_iff by simp
    then show ?thesis by simp
  qed
  ultimately show ?thesis using k1 by linarith
qed

end
