(* ===== verification/ExitQty.thy ===== *)
theory ExitQty
  imports NseTick
begin

text \<open>
  Splitting a position over exit levels: \<open>computeInitialExitQtys\<close> (after the entry fill)
  and \<open>computeRebalancedQtys\<close> (after a level has exited) of \<open>multilevel/manager.go\<close>, on
  \<open>float64\<close> percentages and \<open>int32\<close> quantities, and the locale that states what the
  multi-level manager relies on: the parts are non-negative and sum to the position.
\<close>

section \<open>What a splitter promises\<close>

text \<open>
  A position size for which no \<open>int32\<close> intermediate of the two functions overflows (about
  a thousand million shares).
\<close>

definition lot :: "int \<Rightarrow> bool" where
  "lot q \<longleftrightarrow> 0 \<le> q \<and> q < 2 ^ 30"

locale qty_splitter =
  fixes split :: "'c list \<Rightarrow> int \<Rightarrow> int list"
    and ok :: "'c list \<Rightarrow> bool"
  assumes split_length: "length (split cs q) = length cs"
    and split_sum: "ok cs \<Longrightarrow> cs \<noteq> [] \<Longrightarrow> lot q \<Longrightarrow> sum_list (split cs q) = q"
    and split_nonneg: "ok cs \<Longrightarrow> lot q \<Longrightarrow> x \<in> set (split cs q) \<Longrightarrow> 0 \<le> x"
begin

lemma split_Nil: "split [] q = []"
  using split_length [of "[]" q] by simp

lemma split_le:
  assumes "ok cs" "lot q" "x \<in> set (split cs q)"
  shows "x \<le> q"
proof -
  from assms(3) have "cs \<noteq> []" using split_Nil by auto
  then have "sum_list (split cs q) = q" using split_sum assms by blast
  then show ?thesis using sum_list_nonneg_elem [of "split cs q" x] split_nonneg assms by auto
qed

lemma split_lot: "ok cs \<Longrightarrow> lot q \<Longrightarrow> x \<in> set (split cs q) \<Longrightarrow> lot x"
  using split_le [of cs q x] split_nonneg [of cs q x] by (auto simp: lot_def)

end

section \<open>Initial quantities\<close>

record SLTPLevelConfig =
  cfgLevelNum :: int
  cfgPricePct :: float64
  cfgQtyPct :: float64

text \<open>
  The loop over the levels but the last: \<open>assigned\<close> is the running total. (The flag
  \<open>clamped\<close> of the source only selects a warning in the log.)
\<close>

fun initial_loop :: "int \<Rightarrow> SLTPLevelConfig list \<Rightarrow> int \<Rightarrow> int list \<times> int" where
  "initial_loop filledQty [] assigned = ([], assigned)"
| "initial_loop filledQty (c # cs) assigned =
     (let q = int32_of (fdiv (fmul (f_of_int filledQty) (cfgQtyPct c)) 100);
          q' = (if filledQty < i32 (assigned + q)
                then (if i32 (filledQty - assigned) < 0 then 0 else i32 (filledQty - assigned))
                else q);
          (qs, a) = initial_loop filledQty cs (i32 (assigned + q'))
      in (q' # qs, a))"

definition computeInitialExitQtys :: "SLTPLevelConfig list \<Rightarrow> int \<Rightarrow> int list" where
  "computeInitialExitQtys configs filledQty =
     (if configs = [] then []
      else if filledQty \<le> 0 then replicate (length configs) 0
      else let (qs, assigned) = initial_loop filledQty (butlast configs) 0
           in qs @ [i32 (filledQty - assigned)])"

definition pcts_ok :: "SLTPLevelConfig list \<Rightarrow> bool" where
  "pcts_ok cs \<longleftrightarrow> (\<forall>c \<in> set cs. 0 \<le> cfgQtyPct c \<and> cfgQtyPct c \<le> 100)"

lemma lot_i32: "lot q \<Longrightarrow> is_i32 q"
  by (simp add: lot_def is_i32_def)

lemma initial_share:
  assumes "lot q" "0 \<le> c" "c \<le> 100"
  shows "0 \<le> int32_of (fdiv (fmul (f_of_int q) c) 100)" "int32_of (fdiv (fmul (f_of_int q) c) 100) \<le> q"
proof -
  have q: "f_of_int q = of_int q" "(0::rat) \<le> of_int q" "rnd (of_int q) = of_int q"
    using assms(1) f_of_int_i32 [OF lot_i32 [OF assms(1)]] by (auto simp: lot_def f_of_int_def)
  have "rnd (of_int (q * 100)) = of_int (q * 100)"
    using assms(1) by (intro f64.of_int_exact) (simp add: lot_def)
  then have "fmul (of_int q) c \<le> of_int q * 100"
    using q assms by (intro f64.le_fix mult_left_mono) auto
  then have hi: "fdiv (fmul (of_int q) c) 100 \<le> of_int q"
    using q by (intro f64.le_fix) auto
  have lo: "0 \<le> fdiv (fmul (of_int q) c) 100"
    using q assms by (intro f64.nonneg divide_nonneg_nonneg) auto
  have t: "0 \<le> trunc (fdiv (fmul (of_int q) c) 100)" "trunc (fdiv (fmul (of_int q) c) 100) \<le> q"
    using trunc_nonneg [OF lo] trunc_mono [OF hi] by (auto simp: trunc_def split: if_splits)
  then show "0 \<le> int32_of (fdiv (fmul (f_of_int q) c) 100)" "int32_of (fdiv (fmul (f_of_int q) c) 100) \<le> q"
    using assms(1) by (auto simp: q int32_of_def is_i32_def lot_def)
qed

lemma initial_loop_spec:
  assumes "lot q" "pcts_ok cs" "0 \<le> a" "a \<le> q" "initial_loop q cs a = (qs, a')"
  shows "length qs = length cs \<and> (\<forall>x \<in> set qs. 0 \<le> x) \<and> a' = a + sum_list qs \<and> a \<le> a' \<and> a' \<le> q"
  using assms
proof (induction cs arbitrary: a qs)
  case (Cons c cs)
  define s where "s = int32_of (fdiv (fmul (f_of_int q) (cfgQtyPct c)) 100)"
  have s: "0 \<le> s" "s \<le> q"
    using initial_share [OF Cons.prems(1), of "cfgQtyPct c"] Cons.prems(2) by (auto simp: s_def pcts_ok_def)
  have w: "i32 (a + s) = a + s" "i32 (q - a) = q - a"
    using s Cons.prems(1,3,4) by (auto intro!: i32_id simp: is_i32_def lot_def)
  define t where "t = (if q < a + s then q - a else s)"
  have t: "0 \<le> t" "a + t \<le> q" using s Cons.prems(3,4) by (auto simp: t_def)
  have wt: "i32 (a + t) = a + t"
    using t Cons.prems(1,3) by (intro i32_id) (auto simp: is_i32_def lot_def)
  obtain qs' where qs': "initial_loop q cs (a + t) = (qs', a')" "qs = t # qs'"
    using Cons.prems(4,5) s w wt
    by (auto simp: s_def [symmetric] Let_def t_def split: prod.splits if_splits)
  have "pcts_ok cs" using Cons.prems(2) by (simp add: pcts_ok_def)
  then show ?case
    using Cons.IH [OF Cons.prems(1) _ _ _ qs'(1)] t Cons.prems(3) qs'(2) by auto
qed auto

lemma computeInitialExitQtys_spec:
  assumes "lot q" "pcts_ok cs"
  shows "length (computeInitialExitQtys cs q) = length cs"
    and "cs \<noteq> [] \<Longrightarrow> sum_list (computeInitialExitQtys cs q) = q"
    and "x \<in> set (computeInitialExitQtys cs q) \<Longrightarrow> 0 \<le> x"
proof -
  obtain qs a where l: "initial_loop q (butlast cs) 0 = (qs, a)" by fastforce
  have "pcts_ok (butlast cs)" using assms(2) by (auto simp: pcts_ok_def dest: in_set_butlastD)
  then have *: "length qs = length (butlast cs)" "\<forall>x \<in> set qs. 0 \<le> x" "a = sum_list qs" "a \<le> q" "0 \<le> a"
    using initial_loop_spec [OF assms(1) _ _ _ l] assms(1) by (auto simp: lot_def)
  have w: "i32 (q - a) = q - a"
    using * assms(1) by (intro i32_id) (auto simp: is_i32_def lot_def)
  note d = computeInitialExitQtys_def
  show "length (computeInitialExitQtys cs q) = length cs"
    using * by (simp add: d l)
  show "cs \<noteq> [] \<Longrightarrow> sum_list (computeInitialExitQtys cs q) = q"
    using * w assms(1) by (auto simp: d l sum_list_replicate lot_def)
  show "0 \<le> x" if "x \<in> set (computeInitialExitQtys cs q)"
    using that * w by (auto simp: d l split: if_splits)
qed

lemma initial_loop_length: "initial_loop q cs a = (qs, a') \<Longrightarrow> length qs = length cs"
  by (induction cs arbitrary: a qs) (auto simp: Let_def split: prod.splits)

lemma computeInitialExitQtys_length: "length (computeInitialExitQtys cs q) = length cs"
  by (auto simp: computeInitialExitQtys_def split: prod.splits dest!: initial_loop_length)

interpretation initial_split: qty_splitter computeInitialExitQtys pcts_ok
  by unfold_locales (auto simp: computeInitialExitQtys_spec computeInitialExitQtys_length)

text \<open>Whatever the percentages, the wrapped sum of the quantities is the filled quantity.\<close>

lemma initial_loop_wrapped: "initial_loop q cs a = (qs, a') \<Longrightarrow> i32 a' = i32 (a + sum_list qs)"
proof (induction cs arbitrary: a qs)
  case (Cons c cs)
  then obtain t qs' where "initial_loop q cs (i32 (a + t)) = (qs', a')" "qs = t # qs'"
    by (auto simp: Let_def split: prod.splits)
  then show ?case using Cons.IH by (simp add: add.assoc)
qed auto

lemma computeInitialExitQtys_wrapped:
  assumes "cs \<noteq> []" "0 < q" "is_i32 q"
  shows "i32 (sum_list (computeInitialExitQtys cs q)) = q"
proof -
  obtain qs a where l: "initial_loop q (butlast cs) 0 = (qs, a)" by fastforce
  have "i32 (sum_list qs + (q - a)) = i32 (i32 (sum_list qs) + (q - a))" by simp
  also have "\<dots> = i32 (i32 a + (q - a))" using initial_loop_wrapped [OF l] by simp
  also have "\<dots> = q" using assms(3) by (simp add: i32_id)
  finally show ?thesis using assms by (simp add: computeInitialExitQtys_def l)
qed

section \<open>Rebalanced quantities\<close>

text \<open>
  \<open>rebalance_raw\<close> is the exact share in floating point, \<open>rebalance_frac\<close> its fractional part
  as the code computes it, \<open>rebalance_round\<close> the first rounding. \<open>sort.Slice\<close> on the
  candidates is a stable sort here: up to twelve elements it is an insertion sort, and a
  group has at most five levels.
\<close>

definition rebalance_raw :: "float64 \<Rightarrow> int \<Rightarrow> float64 \<Rightarrow> float64" where
  "rebalance_raw totalPct remainingQty pct = fdiv (fmul (f_of_int remainingQty) pct) totalPct"

definition rebalance_frac :: "float64 \<Rightarrow> float64" where
  "rebalance_frac raw = fsub raw (of_int \<lfloor>raw\<rfloor>)"

definition rebalance_round :: "float64 \<Rightarrow> int" where
  "rebalance_round raw =
     (if 1 / 2 \<le> rebalance_frac raw then i32 (int32_of (of_int \<lfloor>raw\<rfloor>) + 1)
      else int32_of (of_int \<lfloor>raw\<rfloor>))"

text \<open>\<open>rounded[idx]++\<close> (or \<open>--\<close>) for each index of a list.\<close>

definition bump :: "int \<Rightarrow> nat list \<Rightarrow> int list \<Rightarrow> int list" where
  "bump d idxs xs = foldl (\<lambda>ys i. ys[i := i32 (ys ! i + d)]) xs idxs"

definition computeRebalancedQtys :: "float64 list \<Rightarrow> float64 \<Rightarrow> int \<Rightarrow> int list" where
  "computeRebalancedQtys activePcts totalPct remainingQty =
     (let n = length activePcts;
          raws = map (rebalance_raw totalPct remainingQty) activePcts;
          fracs = map rebalance_frac raws;
          rounded = map rebalance_round raws;
          diff = i32 (remainingQty - foldl (\<lambda>s q. i32 (s + q)) 0 rounded)
      in if 0 < diff then
           bump 1 (take (nat diff) (sort_key (\<lambda>i. - (fracs ! i)) [i \<leftarrow> [0..<n]. fracs ! i < 1 / 2])) rounded
         else if diff < 0 then
           bump (- 1) (take (nat (- diff)) (sort_key (\<lambda>i. fracs ! i) [i \<leftarrow> [0..<n]. 1 / 2 \<le> fracs ! i])) rounded
         else rounded)"

text \<open>The caller's \<open>totalPct\<close>: the floating-point sum of the active percentages.\<close>

definition fsum :: "float64 list \<Rightarrow> float64" where
  "fsum ps = foldl fadd 0 ps"

subsection \<open>Accumulated rounding error\<close>

definition ulp :: rat where
  "ulp = 1 / 2 ^ 53"

lemma ulp_bounds: "0 < ulp" "ulp < 1" "0 \<le> 1 - ulp" "0 \<le> 1 + ulp"
  by (simp_all add: ulp_def)

lemma rnd_upper: "0 \<le> x \<Longrightarrow> rnd x \<le> x * (1 + ulp)"
  unfolding ulp_def by (rule f64.err_upper)

lemma rnd_lower: "0 \<le> x \<Longrightarrow> x * (1 - ulp) \<le> rnd x"
  unfolding ulp_def by (rule f64.err_lower)

lemma bernoulli_lower: "1 - of_nat n * ulp \<le> (1 - ulp) ^ n"
proof (induction n)
  case (Suc n)
  have "1 - of_nat (Suc n) * ulp \<le> (1 - of_nat n * ulp) * (1 - ulp)"
    using ulp_bounds(1) by (simp add: algebra_simps)
  also have "\<dots> \<le> (1 - ulp) ^ n * (1 - ulp)" using Suc ulp_bounds by (intro mult_right_mono) auto
  finally show ?case by (simp add: mult.commute)
qed simp

lemma bernoulli_upper: "2 * of_nat n * ulp \<le> 1 \<Longrightarrow> (1 + ulp) ^ n \<le> 1 + 2 * of_nat n * ulp"
proof (induction n)
  case (Suc n)
  have n: "2 * of_nat n * ulp \<le> 1"
    using Suc.prems ulp_bounds(1) by (simp add: algebra_simps)
  then have "(2 * of_nat n * ulp) * ulp \<le> 1 * ulp" using ulp_bounds(1) by (intro mult_right_mono) auto
  then have "(1 + 2 * of_nat n * ulp) * (1 + ulp) \<le> 1 + 2 * of_nat (Suc n) * ulp"
    by (simp add: algebra_simps)
  moreover have "(1 + ulp) ^ n * (1 + ulp) \<le> (1 + 2 * of_nat n * ulp) * (1 + ulp)"
    using Suc.IH [OF n] ulp_bounds by (intro mult_right_mono) auto
  ultimately show ?case by (simp add: mult.commute)
qed simp

lemma fsum_snoc: "fsum (ps @ [p]) = fadd (fsum ps) p"
  by (simp add: fsum_def)

lemma fsum_bounds:
  assumes "\<forall>p \<in> set ps. 0 \<le> p"
  shows "sum_list ps * (1 - ulp) ^ length ps \<le> fsum ps \<and> fsum ps \<le> sum_list ps * (1 + ulp) ^ length ps"
  using assms
proof (induction ps rule: rev_induct)
  case (snoc p ps)
  define n where "n = length ps"
  have IH: "sum_list ps * (1 - ulp) ^ n \<le> fsum ps" "fsum ps \<le> sum_list ps * (1 + ulp) ^ n"
    using snoc by (auto simp: n_def)
  have p: "0 \<le> p" and s: "0 \<le> sum_list ps" using snoc.prems by (auto intro: sum_list_nonneg)
  note u = ulp_bounds
  have "0 \<le> sum_list ps * (1 - ulp) ^ n" using s u by simp
  with IH(1) have f: "0 \<le> fsum ps" by linarith
  have pl: "p * (1 - ulp) ^ n \<le> p" using p u by (intro mult_left_le power_le_one) auto
  have "1 \<le> (1 + ulp) ^ n" using u by (intro one_le_power) simp
  then have pu: "p \<le> p * (1 + ulp) ^ n" using p by (simp add: mult_le_cancel_left1)
  have "sum_list (ps @ [p]) * (1 - ulp) ^ n \<le> fsum ps + p"
    using IH(1) pl by (simp add: distrib_right)
  then have "sum_list (ps @ [p]) * (1 - ulp) ^ n * (1 - ulp) \<le> (fsum ps + p) * (1 - ulp)"
    using u by (intro mult_right_mono) auto
  also have "\<dots> \<le> fadd (fsum ps) p" using p f by (intro rnd_lower) simp
  finally have lo: "sum_list (ps @ [p]) * (1 - ulp) ^ length (ps @ [p]) \<le> fsum (ps @ [p])"
    by (simp add: fsum_snoc n_def mult_ac)
  have "fadd (fsum ps) p \<le> (fsum ps + p) * (1 + ulp)" using p f by (intro rnd_upper) simp
  also have "\<dots> \<le> sum_list (ps @ [p]) * (1 + ulp) ^ n * (1 + ulp)"
    using IH(2) pu u by (intro mult_right_mono) (simp_all add: distrib_right)
  finally have "fsum (ps @ [p]) \<le> sum_list (ps @ [p]) * (1 + ulp) ^ length (ps @ [p])"
    by (simp add: fsum_snoc n_def mult_ac)
  with lo show ?case by blast
qed (simp add: fsum_def)

lemma raw_bounds:
  assumes "0 \<le> p" "0 < T" "is_i32 q" "0 \<le> q"
  shows "of_int q * p / T * (1 - ulp) ^ 2 \<le> rebalance_raw T q p"
    and "rebalance_raw T q p \<le> of_int q * p / T * (1 + ulp) ^ 2"
proof -
  have q: "f_of_int q = of_int q" "(0::rat) \<le> of_int q" using assms by (auto simp: f_of_int_i32)
  define m where "m = fmul (of_int q) p"
  have m: "of_int q * p * (1 - ulp) \<le> m" "m \<le> of_int q * p * (1 + ulp)" "0 \<le> m"
    using q assms unfolding m_def by (auto intro!: rnd_lower rnd_upper f64.nonneg)
  have r: "m / T * (1 - ulp) \<le> rnd (m / T)" "rnd (m / T) \<le> m / T * (1 + ulp)"
    using m(3) assms rnd_lower [of "m / T"] rnd_upper [of "m / T"] by simp_all
  have eqs: "of_int q * p / T * (1 - ulp) ^ 2 = of_int q * p * (1 - ulp) / T * (1 - ulp)"
    "of_int q * p / T * (1 + ulp) ^ 2 = of_int q * p * (1 + ulp) / T * (1 + ulp)"
    by (simp_all only: power2_eq_square times_divide_eq_left mult.assoc)
  have lo: "of_int q * p * (1 - ulp) / T * (1 - ulp) \<le> m / T * (1 - ulp)"
    using m assms ulp_bounds by (intro mult_right_mono divide_right_mono) auto
  have hi: "m / T * (1 + ulp) \<le> of_int q * p * (1 + ulp) / T * (1 + ulp)"
    using m assms ulp_bounds by (intro mult_right_mono divide_right_mono) auto
  show "of_int q * p / T * (1 - ulp) ^ 2 \<le> rebalance_raw T q p"
    unfolding eqs rebalance_raw_def q m_def [symmetric] using lo r(1) by (rule order_trans)
  show "rebalance_raw T q p \<le> of_int q * p / T * (1 + ulp) ^ 2"
    unfolding eqs rebalance_raw_def q m_def [symmetric] using r(2) hi by (rule order_trans)
qed

lemma sum_list_raw_const:
  "sum_list (map (\<lambda>p. a * p / T * c) ps) = a * c * (sum_list ps / T :: rat)"
  by (induction ps) (simp_all add: field_simps add_divide_distrib)

lemma sum_ratio_bounds:
  assumes "\<forall>p \<in> set ps. 0 < p" "ps \<noteq> []" "length ps \<le> 1024"
  shows "0 < fsum ps" "(1 + ulp) ^ 2 * (sum_list ps / fsum ps) \<le> 1 + 1 / 2 ^ 33"
    "1 - 1 / 2 ^ 33 \<le> (1 - ulp) ^ 2 * (sum_list ps / fsum ps)"
proof -
  define n where "n = length ps"
  define S where "S = sum_list ps"
  define T where "T = fsum ps"
  have nn: "\<forall>p \<in> set ps. 0 \<le> p" using assms(1) by auto
  obtain p ps' where "ps = p # ps'" using assms(2) by (cases ps) auto
  then have S: "0 < S" using assms(1) by (auto simp: S_def intro!: add_pos_nonneg sum_list_nonneg)
  have n: "of_nat n \<le> (1024 :: rat)" using assms(3) by (simp add: n_def)
  have T: "S * (1 - ulp) ^ n \<le> T" "T \<le> S * (1 + ulp) ^ n"
    using fsum_bounds [OF nn] by (auto simp: S_def T_def n_def)
  have lo: "1 - 1 / 2 ^ 43 \<le> (1 - ulp) ^ n"
    using bernoulli_lower [of n] n by (simp add: ulp_def)
  have hi: "(1 + ulp) ^ n \<le> 1 + 1 / 2 ^ 42"
    using bernoulli_upper [of n] n by (simp add: ulp_def)
  have sq: "(1 + ulp) ^ 2 \<le> 1 + 1 / 2 ^ 50" "1 - 1 / 2 ^ 51 \<le> (1 - ulp) ^ 2"
    by (simp_all add: ulp_def power2_eq_square)
  have "S * (1 - 1 / 2 ^ 43) \<le> S * (1 - ulp) ^ n" using lo S by (intro mult_left_mono) auto
  with T(1) have Tlo: "S * (1 - 1 / 2 ^ 43) \<le> T" by linarith
  have "S * (1 + ulp) ^ n \<le> S * (1 + 1 / 2 ^ 42)" using hi S by (intro mult_left_mono) auto
  with T(2) have Thi: "T \<le> S * (1 + 1 / 2 ^ 42)" by linarith
  have "0 < S * (1 - 1 / 2 ^ 43)" using S by simp
  with Tlo have Tpos: "0 < T" by linarith
  then show "0 < fsum ps" by (simp add: T_def)
  have "S / T \<le> 1 + 1 / 2 ^ 42" using Tlo S Tpos by (simp add: field_simps)
  then have "(1 + ulp) ^ 2 * (S / T) \<le> (1 + 1 / 2 ^ 50) * (1 + 1 / 2 ^ 42)"
    using sq S Tpos by (intro mult_mono) auto
  also have "(1 + 1 / 2 ^ 50) * (1 + 1 / 2 ^ 42) \<le> (1 + 1 / 2 ^ 33 :: rat)" by simp
  finally show "(1 + ulp) ^ 2 * (sum_list ps / fsum ps) \<le> 1 + 1 / 2 ^ 33"
    unfolding S_def T_def .
  have "1 - 1 / 2 ^ 42 \<le> S / T" using Thi S Tpos by (simp add: field_simps)
  then have "(1 - 1 / 2 ^ 51) * (1 - 1 / 2 ^ 42) \<le> (1 - ulp) ^ 2 * (S / T)"
    using sq S Tpos by (intro mult_mono) auto
  moreover have "1 - 1 / 2 ^ 33 \<le> (1 - 1 / 2 ^ 51) * (1 - 1 / 2 ^ 42 :: rat)" by simp
  ultimately show "1 - 1 / 2 ^ 33 \<le> (1 - ulp) ^ 2 * (sum_list ps / fsum ps)"
    unfolding S_def T_def by (rule order_trans [rotated])
qed

lemma raw_sum_near:
  assumes "\<forall>p \<in> set ps. 0 < p" "ps \<noteq> []" "length ps \<le> 1024" "lot q"
  shows "\<bar>sum_list (map (rebalance_raw (fsum ps) q) ps) - of_int q\<bar> \<le> 1 / 4"
proof -
  note b = sum_ratio_bounds [OF assms(1-3)]
  define R where "R = sum_list ps / fsum ps"
  have q: "(0::rat) \<le> of_int q" "(of_int q :: rat) \<le> 2 ^ 30" "is_i32 q" "0 \<le> q"
    using assms(4) lot_i32 [of q] by (auto simp: lot_def)
  have "sum_list (map (\<lambda>p. of_int q * p / fsum ps * (1 - ulp) ^ 2) ps)
      \<le> sum_list (map (rebalance_raw (fsum ps) q) ps)"
    using raw_bounds(1) b(1) q assms(1) by (intro sum_list_mono) (auto simp: less_imp_le)
  moreover have "sum_list (map (rebalance_raw (fsum ps) q) ps)
      \<le> sum_list (map (\<lambda>p. of_int q * p / fsum ps * (1 + ulp) ^ 2) ps)"
    using raw_bounds(2) b(1) q assms(1) by (intro sum_list_mono) (auto simp: less_imp_le)
  ultimately have *: "of_int q * ((1 - ulp) ^ 2 * R) \<le> sum_list (map (rebalance_raw (fsum ps) q) ps)"
    "sum_list (map (rebalance_raw (fsum ps) q) ps) \<le> of_int q * ((1 + ulp) ^ 2 * R)"
    unfolding sum_list_raw_const R_def by (simp_all only: mult.assoc)
  have "of_int q * (1 - 1 / 2 ^ 33) \<le> of_int q * ((1 - ulp) ^ 2 * R)"
    "of_int q * ((1 + ulp) ^ 2 * R) \<le> of_int q * (1 + 1 / 2 ^ 33)"
    using mult_left_mono [OF b(3) q(1)] mult_left_mono [OF b(2) q(1)] unfolding R_def .
  with * have "of_int q * (1 - 1 / 2 ^ 33) \<le> sum_list (map (rebalance_raw (fsum ps) q) ps)"
    "sum_list (map (rebalance_raw (fsum ps) q) ps) \<le> of_int q * (1 + 1 / 2 ^ 33)"
    by linarith+
  moreover have "of_int q * (1 / 2 ^ 33) \<le> (1 / 4 :: rat)" using q(2) by simp
  ultimately show ?thesis unfolding right_diff_distrib distrib_left abs_le_iff by linarith
qed

subsection \<open>The drift correction always finds enough candidates\<close>

definition round_up :: "float64 \<Rightarrow> bool" where
  "round_up raw \<longleftrightarrow> 1 / 2 \<le> rebalance_frac raw"

definition round_int :: "float64 \<Rightarrow> int" where
  "round_int raw = \<lfloor>raw\<rfloor> + (if round_up raw then 1 else 0)"

lemma round_int_err:
  "of_int (round_int raw) - raw \<le> (if round_up raw then 1 / 2 + ulp else 0)"
  "raw - of_int (round_int raw) \<le> (if round_up raw then 0 else 1 / 2)"
proof -
  define d where "d = raw - of_int \<lfloor>raw\<rfloor>"
  have d: "0 \<le> d" "d < 1" unfolding d_def by linarith+
  have up: "round_up raw \<longleftrightarrow> 1 / 2 \<le> rnd d" by (simp add: round_up_def rebalance_frac_def d_def)
  have half: "rnd (1 / 2) = 1 / 2" using rnd_exact [of 1 "- 1"] by (simp add: power_int_minus)
  have "1 / 2 - ulp \<le> d" if "round_up raw"
  proof -
    have "1 / 2 \<le> d * (1 + ulp)" using that up rnd_upper [OF d(1)] by linarith
    moreover have "d * ulp \<le> 1 * ulp" using d ulp_bounds by (intro mult_right_mono) auto
    ultimately show ?thesis by (simp add: distrib_left)
  qed
  moreover have "d < 1 / 2" if "\<not> round_up raw"
    using that up f64.ge_fix [OF half, of d] by linarith
  ultimately show "of_int (round_int raw) - raw \<le> (if round_up raw then 1 / 2 + ulp else 0)"
    "raw - of_int (round_int raw) \<le> (if round_up raw then 0 else 1 / 2)"
    using d by (auto simp: round_int_def d_def)
qed

lemma round_int_sum_err:
  "of_int (sum_list (map round_int raws)) - sum_list raws \<le> of_nat (length (filter round_up raws)) * (1 / 2 + ulp)"
  "sum_list raws - of_int (sum_list (map round_int raws)) \<le> of_nat (length [r \<leftarrow> raws. \<not> round_up r]) * (1 / 2)"
proof (induction raws)
  case (Cons r raws)
  {
    case 1 then show ?case using Cons(1) round_int_err(1) [of r] by (auto simp: distrib_right)
  next
    case 2 then show ?case using Cons(2) round_int_err(2) [of r] by (auto simp: distrib_right)
  }
qed simp_all

lemma bump_nth:
  assumes "distinct idxs" "\<forall>i \<in> set idxs. i < length xs \<and> is_i32 (xs ! i + d)"
  shows "length (bump d idxs xs) = length xs \<and>
    (\<forall>j < length xs. bump d idxs xs ! j = xs ! j + (if j \<in> set idxs then d else 0))"
  using assms
proof (induction idxs arbitrary: xs)
  case (Cons i idxs)
  define ys where "ys = xs[i := xs ! i + d]"
  have i: "i < length xs" "i32 (xs ! i + d) = xs ! i + d" "i \<notin> set idxs"
    using Cons.prems by (auto simp: i32_id)
  then have "bump d (i # idxs) xs = bump d idxs ys" by (simp add: bump_def ys_def)
  moreover have "\<forall>k \<in> set idxs. k < length ys \<and> is_i32 (ys ! k + d)"
    using Cons.prems i by (auto simp: ys_def nth_list_update)
  moreover have "distinct idxs" using Cons.prems by simp
  ultimately show ?case using Cons.IH [of ys] i by (auto simp: ys_def nth_list_update)
qed (simp add: bump_def)

lemma bump_sum:
  assumes "distinct idxs" "\<forall>i \<in> set idxs. i < length xs \<and> is_i32 (xs ! i + d)"
  shows "sum_list (bump d idxs xs) = sum_list xs + d * int (length idxs)"
proof -
  note b = bump_nth [OF assms]
  have sub: "set idxs \<subseteq> {0..<length xs}" using assms(2) by auto
  have "sum_list (bump d idxs xs) = (\<Sum>j = 0..<length xs. xs ! j + (if j \<in> set idxs then d else 0))"
    unfolding sum_list_sum_nth using b by (intro sum.cong) auto
  also have "\<dots> = sum_list xs + (\<Sum>j = 0..<length xs. if j \<in> set idxs then d else 0)"
    by (simp add: sum.distrib sum_list_sum_nth)
  also have "(\<Sum>j = 0..<length xs. if j \<in> set idxs then d else 0) = (\<Sum>j \<in> set idxs. d)"
    using sub by (intro sum.mono_neutral_cong_right) auto
  also have "\<dots> = d * int (length idxs)" using assms(1) by (simp add: distinct_card)
  finally show ?thesis .
qed

lemma foldl_i32_sum: "foldl (\<lambda>s q. i32 (s + q)) (i32 a) xs = i32 (a + sum_list xs)"
  by (induction xs arbitrary: a) (simp_all add: add.assoc)

lemma length_filter_nth:
  "length [i \<leftarrow> [0..<length xs]. P (xs ! i)] = length (filter P xs)"
proof -
  have "filter P xs = filter P (map (nth xs) [0..<length xs])" by (simp add: map_nth)
  then show ?thesis by (metis (no_types, lifting) filter_map length_map comp_def filter_cong)
qed

text \<open>The facts about a call that its branches share.\<close>

definition rebalance_ok :: "float64 list \<Rightarrow> bool" where
  "rebalance_ok ps \<longleftrightarrow> (\<forall>p \<in> set ps. 0 < p) \<and> length ps \<le> 1024"

lemma rebalance_raw_nonneg:
  assumes "0 \<le> p" "0 < T" "lot q"
  shows "0 \<le> rebalance_raw T q p"
  using assms f_of_int_mono [of 0 q] unfolding rebalance_raw_def f_of_int_def lot_def
  by (intro f64.nonneg divide_nonneg_nonneg mult_nonneg_nonneg) auto

lemma rebalance_round_eq:
  assumes "rebalance_ok ps" "lot q" "p \<in> set ps"
  defines "raw \<equiv> rebalance_raw (fsum ps) q p"
  shows "rebalance_round raw = round_int raw" "0 \<le> \<lfloor>raw\<rfloor>" "\<lfloor>raw\<rfloor> \<le> 2 ^ 30"
proof -
  have ps: "\<forall>p \<in> set ps. 0 < p" "ps \<noteq> []" "length ps \<le> 1024"
    using assms by (auto simp: rebalance_ok_def)
  have nn: "0 \<le> rebalance_raw (fsum ps) q x" if "x \<in> set ps" for x
    using that ps sum_ratio_bounds(1) [OF ps] assms(2) by (intro rebalance_raw_nonneg) auto
  then show lo: "0 \<le> \<lfloor>raw\<rfloor>" using assms(3) by (simp add: raw_def)
  have "raw \<le> sum_list (map (rebalance_raw (fsum ps) q) ps)"
    using assms(3) nn unfolding raw_def by (intro member_le_sum_list) auto
  then have "raw \<le> of_int q + 1 / 4" using raw_sum_near [OF ps assms(2)] by linarith
  then show hi: "\<lfloor>raw\<rfloor> \<le> 2 ^ 30" using assms(2) by (simp add: lot_def)
  have "int32_of (of_int \<lfloor>raw\<rfloor>) = \<lfloor>raw\<rfloor>"
    using lo hi by (simp add: int32_of_def trunc_def is_i32_def)
  moreover have "i32 (\<lfloor>raw\<rfloor> + 1) = \<lfloor>raw\<rfloor> + 1" using lo hi by (intro i32_id) (simp add: is_i32_def)
  ultimately show "rebalance_round raw = round_int raw"
    by (simp add: rebalance_round_def round_int_def round_up_def)
qed

lemma rebalance_drift:
  assumes "rebalance_ok ps" "lot q" "ps \<noteq> []"
  defines "raws \<equiv> map (rebalance_raw (fsum ps) q) ps"
  defines "diff \<equiv> q - sum_list (map round_int raws)"
  shows "0 < diff \<Longrightarrow> nat diff \<le> length [r \<leftarrow> raws. \<not> round_up r]"
    and "diff < 0 \<Longrightarrow> nat (- diff) \<le> length (filter round_up raws)"
proof -
  have near: "\<bar>sum_list raws - of_int q\<bar> \<le> 1 / 4"
    using assms raw_sum_near [of ps q] by (auto simp: raws_def rebalance_ok_def)
  define U D where "U = length (filter round_up raws)" and "D = length [r \<leftarrow> raws. \<not> round_up r]"
  have "U \<le> length raws" by (simp add: U_def)
  then have "(of_nat U :: rat) \<le> 1024" using assms(1) by (simp add: raws_def rebalance_ok_def)
  then have small: "of_nat U * ulp \<le> 1 / 4" by (simp add: ulp_def)
  have d: "(of_int diff :: rat) = of_int q - of_int (sum_list (map round_int raws))"
    by (simp add: diff_def)
  have "of_int diff \<le> 1 / 4 + of_nat D * (1 / 2 :: rat)"
    using near round_int_sum_err(2) [of raws] unfolding d D_def by linarith
  moreover have "- of_int diff \<le> 1 / 2 + of_nat U * (1 / 2 :: rat)"
    using near small round_int_sum_err(1) [of raws] unfolding d U_def distrib_left by linarith
  ultimately have "of_int diff * 4 \<le> (of_int (1 + 2 * int D) :: rat)"
    "of_int (- diff) * 2 \<le> (of_int (1 + int U) :: rat)" by simp_all
  then have "diff * 4 \<le> 1 + 2 * int D" "- diff * 2 \<le> 1 + int U" by linarith+
  then show "0 < diff \<Longrightarrow> nat diff \<le> length [r \<leftarrow> raws. \<not> round_up r]"
    "diff < 0 \<Longrightarrow> nat (- diff) \<le> length (filter round_up raws)"
    unfolding U_def [symmetric] D_def [symmetric] by linarith+
qed

text \<open>The intermediate values of a call whose \<open>totalPct\<close> is the sum of the percentages.\<close>

definition reb_raws :: "float64 list \<Rightarrow> int \<Rightarrow> float64 list" where
  "reb_raws ps q = map (rebalance_raw (fsum ps) q) ps"

definition reb_diff :: "float64 list \<Rightarrow> int \<Rightarrow> int" where
  "reb_diff ps q = q - sum_list (map round_int (reb_raws ps q))"

definition reb_more :: "float64 list \<Rightarrow> int \<Rightarrow> nat list" where
  "reb_more ps q = take (nat (reb_diff ps q))
     (sort_key (\<lambda>i. - (map rebalance_frac (reb_raws ps q) ! i))
        [i \<leftarrow> [0..<length ps]. map rebalance_frac (reb_raws ps q) ! i < 1 / 2])"

definition reb_less :: "float64 list \<Rightarrow> int \<Rightarrow> nat list" where
  "reb_less ps q = take (nat (- reb_diff ps q))
     (sort_key (\<lambda>i. map rebalance_frac (reb_raws ps q) ! i)
        [i \<leftarrow> [0..<length ps]. 1 / 2 \<le> map rebalance_frac (reb_raws ps q) ! i])"

lemma length_reb_raws [simp]: "length (reb_raws ps q) = length ps"
  by (simp add: reb_raws_def)

lemma reb_counts:
  "length [i \<leftarrow> [0..<length ps]. map rebalance_frac (reb_raws ps q) ! i < 1 / 2]
     = length [r \<leftarrow> reb_raws ps q. \<not> round_up r]"
  "length [i \<leftarrow> [0..<length ps]. 1 / 2 \<le> map rebalance_frac (reb_raws ps q) ! i]
     = length (filter round_up (reb_raws ps q))"
proof -
  have up: "round_up = (\<lambda>r. 1 / 2 \<le> rebalance_frac r)" by (simp add: round_up_def fun_eq_iff)
  show "length [i \<leftarrow> [0..<length ps]. map rebalance_frac (reb_raws ps q) ! i < 1 / 2]
     = length [r \<leftarrow> reb_raws ps q. \<not> round_up r]"
    "length [i \<leftarrow> [0..<length ps]. 1 / 2 \<le> map rebalance_frac (reb_raws ps q) ! i]
     = length (filter round_up (reb_raws ps q))"
    unfolding up not_le
    using length_filter_nth [of "\<lambda>f. f < 1 / 2" "map rebalance_frac (reb_raws ps q)"]
      length_filter_nth [of "\<lambda>f. 1 / 2 \<le> f" "map rebalance_frac (reb_raws ps q)"]
    by (simp_all add: filter_map comp_def)
qed

lemma reb_more_less_length:
  assumes "rebalance_ok ps" "lot q" "ps \<noteq> []"
  shows "0 < reb_diff ps q \<Longrightarrow> int (length (reb_more ps q)) = reb_diff ps q"
    and "reb_diff ps q < 0 \<Longrightarrow> int (length (reb_less ps q)) = - reb_diff ps q"
    and "\<bar>reb_diff ps q\<bar> \<le> 1024"
proof -
  note d = rebalance_drift [OF assms, folded reb_raws_def reb_diff_def]
  show "0 < reb_diff ps q \<Longrightarrow> int (length (reb_more ps q)) = reb_diff ps q"
    "reb_diff ps q < 0 \<Longrightarrow> int (length (reb_less ps q)) = - reb_diff ps q"
    unfolding reb_more_def reb_less_def length_take length_sort reb_counts using d by simp_all
  have "length (filter P (reb_raws ps q)) \<le> 1024" for P
    using assms(1) length_filter_le [of P "reb_raws ps q"] by (simp add: rebalance_ok_def)
  then have "0 < reb_diff ps q \<Longrightarrow> nat (reb_diff ps q) \<le> 1024"
    "reb_diff ps q < 0 \<Longrightarrow> nat (- reb_diff ps q) \<le> 1024" using d order_trans by blast+
  then show "\<bar>reb_diff ps q\<bar> \<le> 1024" by linarith
qed

lemma computeRebalancedQtys_eq:
  assumes "rebalance_ok ps" "lot q"
  shows "computeRebalancedQtys ps (fsum ps) q =
    (if 0 < reb_diff ps q then bump 1 (reb_more ps q) (map round_int (reb_raws ps q))
     else if reb_diff ps q < 0 then bump (- 1) (reb_less ps q) (map round_int (reb_raws ps q))
     else map round_int (reb_raws ps q))"
proof -
  let ?xs = "map round_int (reb_raws ps q)"
  have rounded: "map rebalance_round (map (rebalance_raw (fsum ps) q) ps) = ?xs"
    using rebalance_round_eq(1) [OF assms] by (simp add: reb_raws_def)
  have "is_i32 (reb_diff ps q)"
    using reb_more_less_length(3) [OF assms] assms(2)
    by (cases "ps = []") (auto simp: is_i32_def reb_diff_def reb_raws_def lot_def)
  then have "i32 (q - foldl (\<lambda>s q. i32 (s + q)) 0 ?xs) = reb_diff ps q"
    using foldl_i32_sum [of 0 ?xs] by (simp add: reb_diff_def i32_id)
  then show ?thesis
    unfolding computeRebalancedQtys_def Let_def rounded
    by (simp only: reb_raws_def [symmetric] reb_more_def reb_less_def)
qed

lemma reb_indices:
  assumes "rebalance_ok ps" "lot q"
  defines "xs \<equiv> map round_int (reb_raws ps q)"
  shows "distinct (reb_more ps q)" "\<forall>i \<in> set (reb_more ps q). i < length xs \<and> is_i32 (xs ! i + 1)"
    "distinct (reb_less ps q)" "\<forall>i \<in> set (reb_less ps q). i < length xs \<and> is_i32 (xs ! i + - 1)"
    "i \<in> set (reb_more ps q) \<Longrightarrow> xs ! i = \<lfloor>reb_raws ps q ! i\<rfloor>"
    "i \<in> set (reb_less ps q) \<Longrightarrow> xs ! i = \<lfloor>reb_raws ps q ! i\<rfloor> + 1"
proof -
  have range: "0 \<le> \<lfloor>reb_raws ps q ! i\<rfloor>" "\<lfloor>reb_raws ps q ! i\<rfloor> \<le> 2 ^ 30" if "i < length ps" for i
    using that rebalance_round_eq [OF assms(1,2), of "ps ! i"] by (simp_all add: reb_raws_def)
  have more: "i < length ps \<and> xs ! i = \<lfloor>reb_raws ps q ! i\<rfloor>" if "i \<in> set (reb_more ps q)" for i
    using that by (auto simp: reb_more_def xs_def round_int_def round_up_def dest!: in_set_takeD)
  have less: "i < length ps \<and> xs ! i = \<lfloor>reb_raws ps q ! i\<rfloor> + 1" if "i \<in> set (reb_less ps q)" for i
    using that by (auto simp: reb_less_def xs_def round_int_def round_up_def dest!: in_set_takeD)
  show "i \<in> set (reb_more ps q) \<Longrightarrow> xs ! i = \<lfloor>reb_raws ps q ! i\<rfloor>"
    "i \<in> set (reb_less ps q) \<Longrightarrow> xs ! i = \<lfloor>reb_raws ps q ! i\<rfloor> + 1" using more less by auto
  show "distinct (reb_more ps q)" "distinct (reb_less ps q)"
    by (simp_all add: reb_more_def reb_less_def distinct_take)
  show "\<forall>i \<in> set (reb_more ps q). i < length xs \<and> is_i32 (xs ! i + 1)"
    using more range by (fastforce simp: xs_def is_i32_def)
  show "\<forall>i \<in> set (reb_less ps q). i < length xs \<and> is_i32 (xs ! i + - 1)"
    using less range by (fastforce simp: xs_def is_i32_def)
qed

lemma computeRebalancedQtys_sum:
  assumes "rebalance_ok ps" "lot q" "ps \<noteq> []"
  shows "sum_list (computeRebalancedQtys ps (fsum ps) q) = q"
  using bump_sum [OF reb_indices(1,2) [OF assms(1,2)]] bump_sum [OF reb_indices(3,4) [OF assms(1,2)]]
    reb_more_less_length [OF assms]
  by (auto simp: computeRebalancedQtys_eq [OF assms(1,2)] reb_diff_def)

lemma computeRebalancedQtys_nth:
  assumes "rebalance_ok ps" "lot q" "j < length ps"
  shows "computeRebalancedQtys ps (fsum ps) q ! j \<in> {\<lfloor>reb_raws ps q ! j\<rfloor>, \<lfloor>reb_raws ps q ! j\<rfloor> + 1}"
  using bump_nth [OF reb_indices(1,2) [OF assms(1,2)]] bump_nth [OF reb_indices(3,4) [OF assms(1,2)]]
    reb_indices(5,6) [OF assms(1,2), of j] assms(3)
  by (auto simp: computeRebalancedQtys_eq [OF assms(1,2)] round_int_def)

lemma bump_length: "length (bump d idxs xs) = length xs"
  unfolding bump_def by (induction idxs arbitrary: xs) auto

lemma computeRebalancedQtys_length: "length (computeRebalancedQtys ps T q) = length ps"
  by (simp add: computeRebalancedQtys_def Let_def bump_length)

interpretation rebalance_split: qty_splitter "\<lambda>ps. computeRebalancedQtys ps (fsum ps)" rebalance_ok
proof
  show "length (computeRebalancedQtys cs (fsum cs) q) = length cs" for cs q
    by (rule computeRebalancedQtys_length)
  show "sum_list (computeRebalancedQtys cs (fsum cs) q) = q" if "rebalance_ok cs" "cs \<noteq> []" "lot q" for cs q
    using computeRebalancedQtys_sum that by blast
  show "0 \<le> x" if h: "rebalance_ok cs" "lot q" "x \<in> set (computeRebalancedQtys cs (fsum cs) q)" for cs q x
  proof -
    obtain j where j: "j < length cs" "x = computeRebalancedQtys cs (fsum cs) q ! j"
      using h(3) by (metis in_set_conv_nth computeRebalancedQtys_length)
    then show ?thesis
      using computeRebalancedQtys_nth [OF h(1,2) j(1)] rebalance_round_eq(2) [OF h(1,2), of "cs ! j"]
      by (auto simp: reb_raws_def)
  qed
qed

end
