(* ===== verification/Models.thy ===== *)
theory Models
  imports Float64
begin

text \<open>
  The order model of the trade-execution service (\<open>internal/models/order.go\<close>,
  \<open>internal/models/multi_level.go\<close>): the order record with the fields the managers read
  or write, the status predicates, and the row of one exit level. A Go pointer field is
  an \<open>option\<close>. Fields carry the prefix \<open>o\<close> (\<open>r\<close> for rows). Timestamps, the raw broker
  payloads and the fields no modelled operation uses are left out. A \<open>uuid\<close> is a number
  drawn from a counter, so that two generated identifiers differ.
\<close>

type_synonym uuid = nat

section \<open>Orders\<close>

record AuthContext =
  auUserId :: string
  auBearerToken :: string
  auAppId :: string
  auSource :: string

record Order =
  oOrderID :: uuid
  oUserID :: string
  oStrategyID :: string
  oStrategyName :: string
  oEventID :: uuid
  oStockCode :: int
  oExchange :: string
  oSymbol :: string
  oOrderType :: string
  oOrderSide :: string
  oQuantity :: int
  oPrice :: "float64 option"
  oStopLoss :: "float64 option"
  oTakeProfit :: "float64 option"
  oValidity :: string
  oProductType :: string
  oStatus :: string
  oIndiraOrderID :: "string option"
  oBearerToken :: "string option"
  oAppId :: "string option"
  oSource :: "string option"
  oStopLossType :: "string option"
  oTrailingSLPct :: "float64 option"
  oHighestPrice :: "float64 option"
  oIsSquareOffOrder :: bool
  oIsPaperTrade :: bool
  oTradingMode :: string
  oPaperExitPrice :: "float64 option"
  oPaperPnL :: "float64 option"
  oOCOGroupID :: "uuid option"
  oOCORole :: "string option"
  oParentOrderID :: "uuid option"
  oFilledQuantity :: int
  oFilledPrice :: "float64 option"
  oRiskApproved :: bool
  oErrorMessage :: "string option"
  oRejectionReason :: "string option"
  oMaxMonitorPrice :: "float64 option"
  oAutoSquareOffTime :: "string option"
  oPaperExitTime :: "int option"
  oLiveExitPrice :: "float64 option"
  oLivePnL :: "float64 option"
  oLiveExitTime :: "int option"
  oOdinOrderID :: "string option"
  oExchangeOrderNumber :: "string option"
  oCreatedAt :: int
  oUpdatedAt :: int

text \<open>The zero value of the struct: what a Go composite literal leaves unset.\<close>

definition zero_order :: Order where
  "zero_order = \<lparr> oOrderID = 0, oUserID = [], oStrategyID = [], oStrategyName = [], oEventID = 0,
     oStockCode = 0, oExchange = [], oSymbol = [], oOrderType = [], oOrderSide = [], oQuantity = 0,
     oPrice = None, oStopLoss = None, oTakeProfit = None, oValidity = [], oProductType = [],
     oStatus = [], oIndiraOrderID = None, oBearerToken = None, oAppId = None, oSource = None,
     oStopLossType = None, oTrailingSLPct = None, oHighestPrice = None, oIsSquareOffOrder = False,
     oIsPaperTrade = False, oTradingMode = [], oPaperExitPrice = None, oPaperPnL = None,
     oOCOGroupID = None, oOCORole = None, oParentOrderID = None, oFilledQuantity = 0,
     oFilledPrice = None, oRiskApproved = False, oErrorMessage = None, oRejectionReason = None,
     oMaxMonitorPrice = None, oAutoSquareOffTime = None, oPaperExitTime = None, oLiveExitPrice = None,
     oLivePnL = None, oLiveExitTime = None, oOdinOrderID = None, oExchangeOrderNumber = None,
     oCreatedAt = 0, oUpdatedAt = 0 \<rparr>"

definition StatusReceived :: string where "StatusReceived = ''RECEIVED''"
definition StatusSubmitted :: string where "StatusSubmitted = ''SUBMITTED''"
definition StatusFilled :: string where "StatusFilled = ''FILLED''"
definition StatusFailed :: string where "StatusFailed = ''FAILED''"

definition OrderTypeMarket :: string where "OrderTypeMarket = ''MARKET''"
definition OrderTypeLimit :: string where "OrderTypeLimit = ''LIMIT''"
definition OrderTypeStopLoss :: string where "OrderTypeStopLoss = ''STOP_LOSS''"
definition OrderTypeStopLossMarket :: string where "OrderTypeStopLossMarket = ''SL-M''"

definition IsFilledStatus :: "string \<Rightarrow> bool" where
  "IsFilledStatus s \<longleftrightarrow> to_upper s \<in> {''FILLED'', ''EXECUTED'', ''TRADED''}"

definition IsPartiallyFilledStatus :: "string \<Rightarrow> bool" where
  "IsPartiallyFilledStatus s \<longleftrightarrow>
     to_upper s \<in> {''PARTIALLY_FILLED'', ''PARTIALLY TRADED'', ''PARTIALLY EXECUTED''}"

definition IsTerminalStatus :: "string \<Rightarrow> bool" where
  "IsTerminalStatus s \<longleftrightarrow>
     to_upper s \<in> {''FILLED'', ''EXECUTED'', ''TRADED'', ''CANCELLED'', ''REJECTED'', ''A.REJECTED'',
                   ''FAILED'', ''EXPIRED''}"

lemma IsFilledStatus_terminal: "IsFilledStatus s \<Longrightarrow> IsTerminalStatus s"
  by (auto simp: IsFilledStatus_def IsTerminalStatus_def)

lemma IsPartiallyFilledStatus_not_terminal: "IsPartiallyFilledStatus s \<Longrightarrow> \<not> IsTerminalStatus s"
  by (auto simp: IsPartiallyFilledStatus_def IsTerminalStatus_def)

section \<open>Rows of exit levels\<close>

definition MLExitTypeSL :: string where "MLExitTypeSL = ''SL''"
definition MLExitTypeTP :: string where "MLExitTypeTP = ''TP''"

definition MLStatusPending :: string where "MLStatusPending = ''PENDING''"
definition MLStatusActive :: string where "MLStatusActive = ''ACTIVE''"
definition MLStatusTriggered :: string where "MLStatusTriggered = ''TRIGGERED''"
definition MLStatusCancelled :: string where "MLStatusCancelled = ''CANCELLED''"

record MultiLevelExitRecord =
  rEntryOrderID :: uuid
  rExitType :: string
  rLevelNum :: int
  rPricePct :: float64
  rQtyPct :: float64
  rTriggerPrice :: "float64 option"
  rExitQty :: "int option"
  rStatus :: string
  rExitOrderID :: "uuid option"
  rBrokerOrderID :: "string option"
  rExitPrice :: "float64 option"
  rOriginalExitQty :: "int option"

end
