(* ===== verification/MlTypes.thy ===== *)
theory MlTypes
  imports ExitQty Models
begin

text \<open>
  The data of the multi-level exit manager (\<open>multilevel/types.go\<close>): exit levels with their
  status transitions, groups, the prices derived from the fill, and the trailing stop.
  Level fields carry the prefix \<open>l\<close>, group fields the prefix \<open>g\<close>. Locks and timestamps
  are not modelled: each operation under a lock is one function.
\<close>

section \<open>Levels\<close>

datatype GroupState = GroupStateActive | GroupStateCompleted | GroupStateCancelled

datatype LevelStatus = LevelPending | LevelActive | LevelTriggered | LevelCancelled

definition SLModeFixed :: string where "SLModeFixed = ''FIXED''"
definition SLModeTrailing :: string where "SLModeTrailing = ''TRAILING''"
definition SLModeMultiLevel :: string where "SLModeMultiLevel = ''MULTI_LEVEL''"
definition TPModeFixed :: string where "TPModeFixed = ''FIXED''"
definition TPModeMultiLevel :: string where "TPModeMultiLevel = ''MULTI_LEVEL''"

record ExitLevelState =
  lLevelNum :: int
  lTriggerPrice :: float64
  lExitQty :: int
  lOriginalExitQty :: int
  lStatus :: LevelStatus
  lBrokerOrderID :: string
  lExitOrderID :: uuid
  lExitPrice :: float64

text \<open>
  \<open>tryMarkTriggered\<close> returns the level and whether this call triggered it.
\<close>

definition tryMarkTriggered :: "ExitLevelState \<Rightarrow> float64 \<Rightarrow> ExitLevelState \<times> bool" where
  "tryMarkTriggered l price =
     (if lStatus l \<noteq> LevelActive then (l, False)
      else (l\<lparr>lStatus := LevelTriggered, lExitPrice := price\<rparr>, True))"

definition markCancelled :: "ExitLevelState \<Rightarrow> ExitLevelState" where
  "markCancelled l = l\<lparr>lStatus := LevelCancelled\<rparr>"

definition markTriggered :: "ExitLevelState \<Rightarrow> float64 \<Rightarrow> ExitLevelState" where
  "markTriggered l price = l\<lparr>lStatus := LevelTriggered, lExitPrice := price\<rparr>"

definition markActive :: "ExitLevelState \<Rightarrow> string \<Rightarrow> uuid \<Rightarrow> ExitLevelState" where
  "markActive l brokerOrderID exitOrderID =
     l\<lparr>lStatus := LevelActive, lBrokerOrderID := brokerOrderID, lExitOrderID := exitOrderID\<rparr>"

section \<open>Groups\<close>

record Group =
  gGroupID :: uuid
  gEntryOrderID :: uuid
  gUserID :: string
  gSymbol :: string
  gExchange :: string
  gStockCode :: int
  gOrderSide :: string
  gProductType :: string
  gValidity :: string
  gFillPrice :: float64
  gTotalQty :: int
  gSLLevels :: "ExitLevelState list"
  gTPLevels :: "ExitLevelState list"
  gSLMode :: string
  gFixedSLPct :: float64
  gTrailingSLPct :: float64
  gHighestPrice :: float64
  gCurrentSLTrigger :: float64
  gSingleSLBrokerID :: string
  gSingleSLOrderID :: uuid
  gTPMode :: string
  gState :: GroupState
  gRemainingQty :: int
  gTradingMode :: string
  gAuth :: "AuthContext option"
  gAuthBearer :: string
  gAuthAppID :: string
  gAuthSource :: string
  gStrategyID :: string
  gStrategyName :: string
  gEventID :: uuid
  gSLLevelConfigs :: "SLTPLevelConfig list"
  gTPLevelConfigs :: "SLTPLevelConfig list"
  gEntryFilled :: bool
  gEvaluating :: int

definition tryClaimEvaluation :: "Group \<Rightarrow> Group \<times> bool" where
  "tryClaimEvaluation g = (if gEvaluating g = 0 then (g\<lparr>gEvaluating := 1\<rparr>, True) else (g, False))"

definition releaseEvaluation :: "Group \<Rightarrow> Group" where
  "releaseEvaluation g = g\<lparr>gEvaluating := 0\<rparr>"

definition ExitSide :: "Group \<Rightarrow> string" where
  "ExitSide g = (if gOrderSide g = ''BUY'' then ''SELL'' else ''BUY'')"

definition CalcSLTriggerPrice :: "Group \<Rightarrow> float64 \<Rightarrow> float64" where
  "CalcSLTriggerPrice g pricePct =
     (if gOrderSide g = ''BUY'' then roundNSE (fmul (gFillPrice g) (fsub 1 (fdiv pricePct 100)))
      else roundNSE (fmul (gFillPrice g) (fadd 1 (fdiv pricePct 100))))"

definition CalcTPLimitPrice :: "Group \<Rightarrow> float64 \<Rightarrow> float64" where
  "CalcTPLimitPrice g pricePct =
     (if gOrderSide g = ''BUY'' then roundNSE (fmul (gFillPrice g) (fadd 1 (fdiv pricePct 100)))
      else roundNSE (fmul (gFillPrice g) (fsub 1 (fdiv pricePct 100))))"

definition SLBreached :: "Group \<Rightarrow> float64 \<Rightarrow> float64 \<Rightarrow> bool" where
  "SLBreached g triggerPrice ltp =
     (if gOrderSide g = ''BUY'' then ltp \<le> triggerPrice else triggerPrice \<le> ltp)"

definition TPReached :: "Group \<Rightarrow> float64 \<Rightarrow> float64 \<Rightarrow> bool" where
  "TPReached g limitPrice ltp =
     (if gOrderSide g = ''BUY'' then limitPrice \<le> ltp else ltp \<le> limitPrice)"

text \<open>\<open>CalcTrailingSL\<close>: \<open>None\<close> is the result \<open>(0, false)\<close>. The literal 0.1 is a double.\<close>

definition CalcTrailingSL :: "Group \<Rightarrow> float64 \<Rightarrow> float64 option" where
  "CalcTrailingSL g currentLTP =
     (if gSLMode g \<noteq> SLModeTrailing \<or> gSingleSLBrokerID g = [] then None
      else let minPct = (if gTrailingSLPct g \<le> 0 then rnd (1 / 10) else gTrailingSLPct g) in
      if gOrderSide g = ''BUY'' then
        if currentLTP \<le> gHighestPrice g then None
        else let newTrigger = roundNSE (fmul currentLTP (fsub 1 (fdiv (gTrailingSLPct g) 100))) in
             if 0 < gCurrentSLTrigger g \<and> newTrigger \<le> gCurrentSLTrigger g then None
             else if 0 < gCurrentSLTrigger g \<and>
                     fmul (fdiv (fsub newTrigger (gCurrentSLTrigger g)) (gCurrentSLTrigger g)) 100 < minPct
             then None else Some newTrigger
      else
        if gHighestPrice g \<le> 0 \<or> gHighestPrice g \<le> currentLTP then None
        else let newTrigger = roundNSE (fmul currentLTP (fadd 1 (fdiv (gTrailingSLPct g) 100))) in
             if 0 < gCurrentSLTrigger g \<and> gCurrentSLTrigger g \<le> newTrigger then None
             else if 0 < gCurrentSLTrigger g \<and>
                     fmul (fdiv (fsub (gCurrentSLTrigger g) newTrigger) (gCurrentSLTrigger g)) 100 < minPct
             then None else Some newTrigger)"

section \<open>Prices around the fill\<close>

lemma pct_factor:
  assumes "0 \<le> p" "p \<le> 100"
  shows "0 \<le> fsub 1 (fdiv p 100)" "fsub 1 (fdiv p 100) \<le> 1"
    "1 \<le> fadd 1 (fdiv p 100)" "fadd 1 (fdiv p 100) \<le> 2"
proof -
  have d: "0 \<le> fdiv p 100" "fdiv p 100 \<le> 1"
    using assms by (auto intro!: f64.nonneg f64.le_fix)
  then show "0 \<le> fsub 1 (fdiv p 100)" "fsub 1 (fdiv p 100) \<le> 1" "1 \<le> fadd 1 (fdiv p 100)"
    by (auto intro!: f64.nonneg f64.le_fix f64.ge_fix)
  have "rnd 2 = 2" by (rule f64.numeral_exact) simp
  then show "fadd 1 (fdiv p 100) \<le> 2" using d by (intro f64.le_fix) auto
qed

lemma pct_factor_mono:
  assumes "p \<le> q"
  shows "fsub 1 (fdiv q 100) \<le> fsub 1 (fdiv p 100)" "fadd 1 (fdiv p 100) \<le> fadd 1 (fdiv q 100)"
proof -
  have "fdiv p 100 \<le> fdiv q 100" using assms by (intro f64.mono) simp
  then show "fsub 1 (fdiv q 100) \<le> fsub 1 (fdiv p 100)" "fadd 1 (fdiv p 100) \<le> fadd 1 (fdiv q 100)"
    by (auto intro!: f64.mono)
qed

text \<open>A fill price for which twice the price is still in the range of \<open>roundNSE\<close>.\<close>

definition fill_ok :: "float64 \<Rightarrow> bool" where
  "fill_ok p \<longleftrightarrow> is_f64 p \<and> 0 < p \<and> p \<le> 10 ^ 11"

lemma price_range_scale:
  assumes "fill_ok p" "0 \<le> c" "c \<le> 2"
  shows "price_range (fmul p c)"
proof -
  have "p * c \<le> 10 ^ 11 * 2" using assms by (intro mult_mono) (auto simp: fill_ok_def)
  then have "fmul p c \<le> 10 ^ 12"
    using f64.of_int_exact [of "10 ^ 12"] by (intro f64.le_fix) auto
  moreover have "0 \<le> fmul p c" using assms by (intro f64.nonneg) (auto simp: fill_ok_def)
  ultimately show ?thesis by (simp add: price_range_def)
qed

lemma price_range_fill: "fill_ok p \<Longrightarrow> price_range p"
  by (auto simp: fill_ok_def price_range_def)

lemma scale_down_le: "fill_ok p \<Longrightarrow> c \<le> 1 \<Longrightarrow> fmul p c \<le> p"
  using f64.scale_le [of p c] by (auto simp: fill_ok_def is_f64_def)

lemma scale_up_ge: "fill_ok p \<Longrightarrow> 1 \<le> c \<Longrightarrow> p \<le> fmul p c"
  using f64.scale_ge [of p c] by (auto simp: fill_ok_def is_f64_def)

lemma below_fill:
  assumes "fill_ok p" "0 \<le> pct" "pct \<le> 100"
  shows "roundNSE (fmul p (fsub 1 (fdiv pct 100))) \<le> roundNSE p"
  using assms pct_factor [OF assms(2,3)]
  by (intro roundNSE_mono price_range_scale price_range_fill scale_down_le) auto

lemma above_fill:
  assumes "fill_ok p" "0 \<le> pct" "pct \<le> 100"
  shows "roundNSE p \<le> roundNSE (fmul p (fadd 1 (fdiv pct 100)))"
  using assms pct_factor [OF assms(2,3)]
  by (intro roundNSE_mono price_range_scale price_range_fill scale_up_ge) auto

lemma below_mono:
  assumes "fill_ok p" "0 \<le> a" "a \<le> b" "b \<le> 100"
  shows "roundNSE (fmul p (fsub 1 (fdiv b 100))) \<le> roundNSE (fmul p (fsub 1 (fdiv a 100)))"
proof (rule roundNSE_mono)
  show "price_range (fmul p (fsub 1 (fdiv b 100)))" "price_range (fmul p (fsub 1 (fdiv a 100)))"
    using assms pct_factor [of a] pct_factor [of b] by (auto intro!: price_range_scale)
  show "fmul p (fsub 1 (fdiv b 100)) \<le> fmul p (fsub 1 (fdiv a 100))"
    using assms pct_factor_mono [of a b] by (intro f64.mono [OF mult_left_mono]) (auto simp: fill_ok_def)
qed

lemma above_mono:
  assumes "fill_ok p" "0 \<le> a" "a \<le> b" "b \<le> 100"
  shows "roundNSE (fmul p (fadd 1 (fdiv a 100))) \<le> roundNSE (fmul p (fadd 1 (fdiv b 100)))"
proof (rule roundNSE_mono)
  show "price_range (fmul p (fadd 1 (fdiv a 100)))" "price_range (fmul p (fadd 1 (fdiv b 100)))"
    using assms pct_factor [of a] pct_factor [of b] by (auto intro!: price_range_scale)
  show "fmul p (fadd 1 (fdiv a 100)) \<le> fmul p (fadd 1 (fdiv b 100))"
    using assms pct_factor_mono [of a b] by (intro f64.mono [OF mult_left_mono]) (auto simp: fill_ok_def)
qed

end
