(* ===== verification/MlManager.thy ===== *)
theory MlManager
  imports MlTypes "HOL-Library.AList"
begin

text \<open>
  The multi-level exit manager (\<open>multilevel/manager.go\<close>, \<open>multilevel/reload.go\<close>).

  A group is a heap object that several indices point to: \<open>heap\<close> maps its identifier to
  it, \<open>groupsByEntry\<close>, \<open>shards\<close>, \<open>singleSLIndex\<close> and \<open>mlLevelIndex\<close> hold the identifier.
  A \<open>go\<close> statement appends a value of type \<open>task\<close> to \<open>tasks\<close>; \<open>run_task\<close> is the body of the
  goroutine, run later, in any order. Calls to the broker, the database, the price feed
  and the paper-trading hooks are recorded in \<open>out\<close>; what the broker and the price source
  answer is the parameter \<open>ml_env\<close>, and may depend on everything recorded before. Errors
  of database calls are only logged by the code and have no effect here.
\<close>

section \<open>State, tasks, effects\<close>

datatype effect =
    EPlace Order
  | EModify Order
  | ECancel string string string  \<comment> \<open>exchange, broker order ID, symbol\<close>
  | EDbLevelStatus uuid string int string float64
  | EDbUpsertLevel MultiLevelExitRecord
  | EDbPaperExit Order
  | EDbPaperQty uuid int
  | ESubscribe int
  | EUnsubscribe int
  | EPaperGroupCompleted string uuid float64 float64
  | EPaperLevelTriggered string uuid string int float64 int string int
  | EPaperQtyUpdated uuid int
  | EPaperSLMoved uuid float64

datatype task =
    TPersistExitLevels uuid
  | TPlaceFixedSL uuid int
  | TPlaceTrailingSL uuid
  | TPlaceMultiSL uuid
  | TPlaceMultiTP uuid
  | TPlaceSLLevel uuid nat
  | TPlaceTPLevel uuid nat
  | TExitMarket uuid int int float64 string
  | TReplaceSL uuid int
  | TReplaceSLTrailing uuid int
  | TModifyTrailing uuid Order float64
  | TModifyLevel uuid uuid string int float64 string
  | TCancelOrder uuid string
  | TOnEntryFill uuid float64 int
  | TOnMultiLevelFilled uuid string int "float64 option" int
  | TOnSingleSLFilled uuid "float64 option" int

record mlLevelRef =
  refGroup :: uuid
  refExitType :: string
  refLevelNum :: int

record ml_state =
  heap :: "uuid \<Rightarrow> Group option"
  groupsByEntry :: "(uuid \<times> uuid) list"
  shards :: "int \<Rightarrow> int \<Rightarrow> uuid list"
  singleSLIndex :: "string \<Rightarrow> uuid option"
  mlLevelIndex :: "string \<Rightarrow> mlLevelRef option"
  evalCh :: "(uuid \<times> float64) list"
  tasks :: "task list"
  nextID :: uuid
  out :: "effect list"

text \<open>
  The collaborators. \<open>ePlace\<close> is \<open>None\<close> when \<open>PlaceOrder\<close> fails; \<open>eModify\<close> and \<open>eCancel\<close> are
  true on success. The remaining fields say which optional collaborators are wired, and
  \<open>ePaperID\<close> is the formatted identifier of a paper exit.
\<close>

record ml_env =
  ePlace :: "effect list \<Rightarrow> Order \<Rightarrow> string option"
  eModify :: "effect list \<Rightarrow> Order \<Rightarrow> bool"
  eCancel :: "effect list \<Rightarrow> string \<Rightarrow> bool"
  eBroker :: bool
  eWS :: bool
  ePriceLookup :: "(effect list \<Rightarrow> string \<Rightarrow> int \<Rightarrow> float64 option) option"
  eHookCompleted :: bool
  eHookLevel :: bool
  eHookQty :: bool
  eHookSL :: bool
  ePaperID :: "uuid \<Rightarrow> int \<Rightarrow> string \<Rightarrow> string"

definition evalBufLen :: nat where "evalBufLen = 8192"
definition numShards :: int where "numShards = 16"

definition NewManager :: ml_state where
  "NewManager = \<lparr> heap = Map.empty, groupsByEntry = [], shards = (\<lambda>_ _. []),
     singleSLIndex = Map.empty, mlLevelIndex = Map.empty, evalCh = [], tasks = [], nextID = 1, out = [] \<rparr>"

definition emit :: "effect \<Rightarrow> ml_state \<Rightarrow> ml_state" where
  "emit e m = m\<lparr>out := out m @ [e]\<rparr>"

definition spawn :: "task \<Rightarrow> ml_state \<Rightarrow> ml_state" where
  "spawn t m = m\<lparr>tasks := tasks m @ [t]\<rparr>"

definition setg :: "Group \<Rightarrow> ml_state \<Rightarrow> ml_state" where
  "setg g m = m\<lparr>heap := (heap m)(gGroupID g \<mapsto> g)\<rparr>"

definition on_group :: "uuid \<Rightarrow> (Group \<Rightarrow> ml_state) \<Rightarrow> ml_state \<Rightarrow> ml_state" where
  "on_group gid f m = (case heap m gid of None \<Rightarrow> m | Some g \<Rightarrow> f g)"

section \<open>Subscription to the price feed\<close>

definition shardForStock :: "int \<Rightarrow> int" where
  "shardForStock stockCode =
     (let idx = go_rem stockCode numShards in if idx < 0 then - idx else idx)"

definition shard_list :: "ml_state \<Rightarrow> int \<Rightarrow> uuid list" where
  "shard_list m code = shards m (shardForStock code) code"

definition set_shard :: "int \<Rightarrow> uuid list \<Rightarrow> ml_state \<Rightarrow> ml_state" where
  "set_shard code gs m = m\<lparr>shards := (shards m)(shardForStock code :=
     (shards m (shardForStock code))(code := gs))\<rparr>"

definition subscribeGroup :: "ml_env \<Rightarrow> Group \<Rightarrow> ml_state \<Rightarrow> ml_state" where
  "subscribeGroup env g m =
     (let gs = shard_list m (gStockCode g) @ [gGroupID g]; m1 = set_shard (gStockCode g) gs m
      in if length gs = 1 \<and> eWS env then emit (ESubscribe (gStockCode g)) m1 else m1)"

definition unsubscribeGroup :: "ml_env \<Rightarrow> Group \<Rightarrow> ml_state \<Rightarrow> ml_state" where
  "unsubscribeGroup env g m =
     (let gs = remove1 (gGroupID g) (shard_list m (gStockCode g)); m1 = set_shard (gStockCode g) gs m
      in if gs = [] \<and> eWS env then emit (EUnsubscribe (gStockCode g)) m1 else m1)"

fun parse_code :: "int \<Rightarrow> string \<Rightarrow> int" where
  "parse_code code [] = code"
| "parse_code code (c # cs) =
     (if of_char c < (48::int) \<or> (57::int) < of_char c then 0
      else parse_code (i64 (code * 10 + (of_char c - 48))) cs)"

definition stockCodeFromKey :: "string \<Rightarrow> int" where
  "stockCodeFromKey key =
     (let rest = rev (takeWhile (\<lambda>c. c \<noteq> CHR '':'') (rev key))
      in if CHR '':'' \<notin> set key \<or> rest = [] then 0 else parse_code 0 rest)"

text \<open>One tick: a job per active, filled group of the stock, dropped when the channel is full.\<close>

definition enqueue :: "float64 \<Rightarrow> ml_state \<Rightarrow> uuid \<Rightarrow> ml_state" where
  "enqueue ltp m gid =
     on_group gid (\<lambda>g. if gState g = GroupStateActive \<and> gEntryFilled g \<and> length (evalCh m) < evalBufLen
                       then m\<lparr>evalCh := evalCh m @ [(gid, ltp)]\<rparr> else m) m"

definition OnPriceUpdate :: "string \<Rightarrow> float64 \<Rightarrow> ml_state \<Rightarrow> ml_state" where
  "OnPriceUpdate key ltp m =
     (let code = stockCodeFromKey key
      in if code \<le> 0 then m else foldl (enqueue ltp) m (shard_list m code))"

section \<open>Registration and entry fill\<close>

definition RegisterEntry ::
  "Order \<Rightarrow> string \<Rightarrow> string \<Rightarrow> SLTPLevelConfig list \<Rightarrow> SLTPLevelConfig list \<Rightarrow> float64 \<Rightarrow> float64
     \<Rightarrow> AuthContext option \<Rightarrow> ml_state \<Rightarrow> ml_state" where
  "RegisterEntry entryOrder slMode tpMode slLevels tpLevels fixedSLPct trailingSLPct auth m =
     (let g = \<lparr> gGroupID = nextID m, gEntryOrderID = oOrderID entryOrder, gUserID = oUserID entryOrder,
                gSymbol = oSymbol entryOrder, gExchange = oExchange entryOrder,
                gStockCode = oStockCode entryOrder, gOrderSide = oOrderSide entryOrder,
                gProductType = oProductType entryOrder, gValidity = oValidity entryOrder,
                gFillPrice = 0, gTotalQty = 0, gSLLevels = [], gTPLevels = [],
                gSLMode = (if slMode = [] then SLModeFixed else slMode), gFixedSLPct = fixedSLPct,
                gTrailingSLPct = trailingSLPct, gHighestPrice = 0, gCurrentSLTrigger = 0,
                gSingleSLBrokerID = [], gSingleSLOrderID = 0,
                gTPMode = (if tpMode = [] then TPModeFixed else tpMode),
                gState = GroupStateActive, gRemainingQty = 0, gTradingMode = oTradingMode entryOrder,
                gAuth = auth,
                gAuthBearer = (case auth of None \<Rightarrow> [] | Some a \<Rightarrow> auBearerToken a),
                gAuthAppID = (case auth of None \<Rightarrow> [] | Some a \<Rightarrow> auAppId a),
                gAuthSource = (case auth of None \<Rightarrow> [] | Some a \<Rightarrow> auSource a),
                gStrategyID = oStrategyID entryOrder, gStrategyName = oStrategyName entryOrder,
                gEventID = oEventID entryOrder, gSLLevelConfigs = slLevels, gTPLevelConfigs = tpLevels,
                gEntryFilled = False, gEvaluating = 0 \<rparr>
      in (setg g m)\<lparr>nextID := Suc (nextID m),
                    groupsByEntry := AList.update (oOrderID entryOrder) (gGroupID g) (groupsByEntry m)\<rparr>)"

definition build_levels ::
  "(float64 \<Rightarrow> float64) \<Rightarrow> SLTPLevelConfig list \<Rightarrow> int \<Rightarrow> uuid \<Rightarrow> ExitLevelState list" where
  "build_levels price cfgs qty fresh =
     map2 (\<lambda>(c, q) i. \<lparr> lLevelNum = cfgLevelNum c, lTriggerPrice = price (cfgPricePct c), lExitQty = q,
                        lOriginalExitQty = q, lStatus = LevelActive, lBrokerOrderID = [],
                        lExitOrderID = i, lExitPrice = 0 \<rparr>)
       (zip cfgs (computeInitialExitQtys cfgs qty)) [fresh..<fresh + length cfgs]"

text \<open>The part of \<open>OnEntryFill\<close> under the group's lock.\<close>

definition fill_group ::
  "Group \<Rightarrow> float64 \<Rightarrow> int \<Rightarrow> SLTPLevelConfig list \<Rightarrow> SLTPLevelConfig list \<Rightarrow> uuid \<Rightarrow> Group" where
  "fill_group g fillPrice filledQty slLevels tpLevels fresh =
     (let slc = sort_key cfgLevelNum (if slLevels = [] then gSLLevelConfigs g else slLevels);
          tpc = sort_key cfgLevelNum (if tpLevels = [] then gTPLevelConfigs g else tpLevels);
          g1 = g\<lparr>gFillPrice := fillPrice, gTotalQty := filledQty, gRemainingQty := filledQty,
                  gEntryFilled := True, gHighestPrice := fillPrice,
                  gSLLevelConfigs := slc, gTPLevelConfigs := tpc\<rparr>
      in g1\<lparr>gSLLevels := gSLLevels g1 @ build_levels (CalcSLTriggerPrice g1) slc filledQty fresh,
             gTPLevels := gTPLevels g1 @
               build_levels (CalcTPLimitPrice g1) tpc filledQty (fresh + length slc)\<rparr>)"

definition live_entry_tasks :: "Group \<Rightarrow> int \<Rightarrow> ml_state \<Rightarrow> ml_state" where
  "live_entry_tasks g filledQty m =
     (let gid = gGroupID g;
          m1 = (if gSLMode g = SLModeFixed then spawn (TPlaceFixedSL gid filledQty) m
                else if gSLMode g = SLModeTrailing then spawn (TPlaceTrailingSL gid) m
                else if gSLMode g = SLModeMultiLevel then spawn (TPlaceMultiSL gid) m else m)
      in if gTPMode g = TPModeMultiLevel then spawn (TPlaceMultiTP gid) m1 else m1)"

definition OnEntryFill ::
  "ml_env \<Rightarrow> uuid \<Rightarrow> float64 \<Rightarrow> int \<Rightarrow> SLTPLevelConfig list \<Rightarrow> SLTPLevelConfig list \<Rightarrow> ml_state \<Rightarrow> ml_state"
where
  "OnEntryFill env entryOrderID fillPrice filledQty slLevels tpLevels m =
     (case map_of (groupsByEntry m) entryOrderID of None \<Rightarrow> m | Some gid \<Rightarrow>
      on_group gid (\<lambda>g.
        if gEntryFilled g then m
        else let g1 = fill_group g fillPrice filledQty slLevels tpLevels (nextID m);
                 m1 = (setg g1 m)\<lparr>nextID := nextID m + length (gSLLevelConfigs g1) + length (gTPLevelConfigs g1)\<rparr>;
                 m2 = spawn (TPersistExitLevels gid) m1;
                 m3 = (if gTradingMode g1 = ''LIVE'' then live_entry_tasks g1 filledQty m2 else m2)
             in subscribeGroup env g1 m3) m)"

section \<open>Orders sent to the broker\<close>

definition buildExitOrder :: "Group \<Rightarrow> uuid \<Rightarrow> int \<Rightarrow> string \<Rightarrow> float64 option \<Rightarrow> float64 option \<Rightarrow> Order" where
  "buildExitOrder g orderID qty orderType limitPrice stopLoss =
     zero_order\<lparr>oOrderID := orderID, oUserID := gUserID g, oStrategyID := gStrategyID g,
       oStrategyName := gStrategyName g, oEventID := gEventID g, oStockCode := gStockCode g,
       oExchange := gExchange g, oSymbol := gSymbol g, oOrderType := orderType, oOrderSide := ExitSide g,
       oQuantity := qty, oPrice := limitPrice, oStopLoss := stopLoss, oValidity := ''IOC'',
       oProductType := ''INTRADAY'', oStatus := StatusReceived,
       oIsPaperTrade := (gTradingMode g = ''PAPER''), oTradingMode := gTradingMode g,
       oBearerToken := Some (gAuthBearer g), oAppId := Some (gAuthAppID g), oSource := Some (gAuthSource g)\<rparr>"

definition buildMultiSLOrder :: "Group \<Rightarrow> int \<Rightarrow> float64 \<Rightarrow> uuid \<Rightarrow> Order" where
  "buildMultiSLOrder g qty triggerPrice orderID =
     zero_order\<lparr>oOrderID := orderID, oUserID := gUserID g, oStrategyID := gStrategyID g,
       oStrategyName := gStrategyName g, oEventID := gEventID g, oStockCode := gStockCode g,
       oExchange := gExchange g, oSymbol := gSymbol g, oOrderType := OrderTypeStopLossMarket,
       oOrderSide := ExitSide g, oQuantity := qty, oStopLoss := Some triggerPrice,
       oValidity := gValidity g, oProductType := gProductType g, oStatus := StatusReceived,
       oTradingMode := gTradingMode g, oBearerToken := Some (gAuthBearer g),
       oAppId := Some (gAuthAppID g), oSource := Some (gAuthSource g)\<rparr>"

definition buildMultiTPOrder :: "Group \<Rightarrow> int \<Rightarrow> float64 \<Rightarrow> uuid \<Rightarrow> Order" where
  "buildMultiTPOrder g qty limitPrice orderID =
     zero_order\<lparr>oOrderID := orderID, oUserID := gUserID g, oStrategyID := gStrategyID g,
       oStrategyName := gStrategyName g, oEventID := gEventID g, oStockCode := gStockCode g,
       oExchange := gExchange g, oSymbol := gSymbol g, oOrderType := OrderTypeLimit,
       oOrderSide := ExitSide g, oQuantity := qty, oPrice := Some limitPrice,
       oValidity := gValidity g, oProductType := gProductType g, oStatus := StatusReceived,
       oTradingMode := gTradingMode g, oBearerToken := Some (gAuthBearer g),
       oAppId := Some (gAuthAppID g), oSource := Some (gAuthSource g)\<rparr>"

definition modify_order :: "Group \<Rightarrow> uuid \<Rightarrow> string \<Rightarrow> int \<Rightarrow> string \<Rightarrow> float64 option \<Rightarrow> float64 option \<Rightarrow> Order" where
  "modify_order g orderID brokerID qty orderType limitPrice stopLoss =
     zero_order\<lparr>oOrderID := orderID, oIndiraOrderID := Some brokerID, oStockCode := gStockCode g,
       oExchange := gExchange g, oSymbol := gSymbol g, oOrderType := orderType, oOrderSide := ExitSide g,
       oQuantity := qty, oPrice := limitPrice, oStopLoss := stopLoss, oValidity := gValidity g,
       oProductType := gProductType g, oUserID := gUserID g, oStrategyID := gStrategyID g,
       oStrategyName := gStrategyName g, oEventID := gEventID g, oBearerToken := Some (gAuthBearer g),
       oAppId := Some (gAuthAppID g), oSource := Some (gAuthSource g)\<rparr>"

section \<open>Rebalancing\<close>

definition cfg_pct :: "SLTPLevelConfig list \<Rightarrow> int \<Rightarrow> float64" where
  "cfg_pct configs levelNum =
     (case find (\<lambda>c. cfgLevelNum c = levelNum) configs of None \<Rightarrow> 0 | Some c \<Rightarrow> cfgQtyPct c)"

text \<open>A level takes part when it is active and its configured percentage is positive.\<close>

definition is_item :: "SLTPLevelConfig list \<Rightarrow> ExitLevelState \<Rightarrow> bool" where
  "is_item configs l \<longleftrightarrow> lStatus l = LevelActive \<and> \<not> cfg_pct configs (lLevelNum l) \<le> 0"

fun assign_qtys :: "SLTPLevelConfig list \<Rightarrow> ExitLevelState list \<Rightarrow> int list \<Rightarrow> ExitLevelState list" where
  "assign_qtys configs [] qs = []"
| "assign_qtys configs (l # ls) qs =
     (if is_item configs l
      then (case qs of [] \<Rightarrow> l # ls | q # qs' \<Rightarrow> l\<lparr>lExitQty := q\<rparr> # assign_qtys configs ls qs')
      else l # assign_qtys configs ls qs)"

definition rebalance_levels :: "SLTPLevelConfig list \<Rightarrow> int \<Rightarrow> ExitLevelState list \<Rightarrow> ExitLevelState list" where
  "rebalance_levels configs remainingQty levels =
     (let pcts = map (\<lambda>l. cfg_pct configs (lLevelNum l)) (filter (is_item configs) levels);
          totalPct = fsum pcts
      in if pcts = [] \<or> totalPct \<le> 0 then levels
         else assign_qtys configs levels (computeRebalancedQtys pcts totalPct remainingQty))"

text \<open>The \<open>ModifyOrder\<close> goroutines: one per level with a broker order whose quantity changed.\<close>

definition modify_tasks :: "uuid \<Rightarrow> string \<Rightarrow> ExitLevelState list \<Rightarrow> ExitLevelState list \<Rightarrow> task list" where
  "modify_tasks gid exitType old new =
     map (\<lambda>(l, l'). TModifyLevel gid (lExitOrderID l') (lBrokerOrderID l') (lExitQty l') (lTriggerPrice l') exitType)
       (filter (\<lambda>(l, l'). lBrokerOrderID l' \<noteq> [] \<and> lExitQty l' \<noteq> lExitQty l) (zip old new))"

definition rebalanceAndModifyLevels :: "uuid \<Rightarrow> string \<Rightarrow> int \<Rightarrow> ml_state \<Rightarrow> ml_state" where
  "rebalanceAndModifyLevels gid exitType remainingQty m =
     on_group gid (\<lambda>g.
       if exitType = MLExitTypeSL
       then let ls = rebalance_levels (gSLLevelConfigs g) remainingQty (gSLLevels g) in
            (setg (g\<lparr>gSLLevels := ls\<rparr>) m)\<lparr>tasks := tasks m @ modify_tasks gid exitType (gSLLevels g) ls\<rparr>
       else let ls = rebalance_levels (gTPLevelConfigs g) remainingQty (gTPLevels g) in
            (setg (g\<lparr>gTPLevels := ls\<rparr>) m)\<lparr>tasks := tasks m @ modify_tasks gid exitType (gTPLevels g) ls\<rparr>) m"

section \<open>Finishing a group\<close>

definition finishGroup :: "ml_env \<Rightarrow> Group \<Rightarrow> ml_state \<Rightarrow> ml_state" where
  "finishGroup env g m =
     (let m1 = m\<lparr>groupsByEntry := AList.delete (gEntryOrderID g) (groupsByEntry m)\<rparr>;
          m2 = unsubscribeGroup env g m1
      in if gSingleSLBrokerID g \<noteq> [] then m2\<lparr>singleSLIndex := (singleSLIndex m2)(gSingleSLBrokerID g := None)\<rparr>
         else m2)"

fun exit_totals :: "ExitLevelState list \<Rightarrow> float64 \<Rightarrow> int \<Rightarrow> float64 \<times> int" where
  "exit_totals [] v n = (v, n)"
| "exit_totals (l # ls) v n =
     (if lStatus l = LevelTriggered
      then exit_totals ls (fadd v (fmul (lExitPrice l) (f_of_int (lOriginalExitQty l)))) (i32 (n + lOriginalExitQty l))
      else exit_totals ls v n)"

definition paper_summary :: "Group \<Rightarrow> float64 \<Rightarrow> float64 \<times> float64" where
  "paper_summary g lastExitPrice =
     (let (v1, n1) = exit_totals (gSLLevels g) 0 0;
          (v, n) = exit_totals (gTPLevels g) v1 n1;
          avg = (if 0 < n then fdiv v (f_of_int n) else lastExitPrice);
          pnl = (if gOrderSide g = ''BUY'' then fmul (fsub avg (gFillPrice g)) (f_of_int (gTotalQty g))
                 else fmul (fsub (gFillPrice g) avg) (f_of_int (gTotalQty g)))
      in (pnl, avg))"

definition finishGroupPaper :: "ml_env \<Rightarrow> uuid \<Rightarrow> float64 \<Rightarrow> ml_state \<Rightarrow> ml_state" where
  "finishGroupPaper env gid lastExitPrice m =
     on_group gid (\<lambda>g.
       let m1 = finishGroup env g m
       in if \<not> eHookCompleted env then m1
          else let (pnl, avg) = paper_summary g lastExitPrice
               in emit (EPaperGroupCompleted (gUserID g) (gEntryOrderID g) pnl avg) m1) m"

section \<open>Paper exits\<close>

definition partial_pnl :: "Group \<Rightarrow> int \<Rightarrow> float64 \<Rightarrow> float64" where
  "partial_pnl g qty exitPrice =
     (if gOrderSide g = ''BUY'' then fmul (fsub exitPrice (gFillPrice g)) (f_of_int qty)
      else fmul (fsub (gFillPrice g) exitPrice) (f_of_int qty))"

definition recordPaperPartialExit :: "ml_env \<Rightarrow> Group \<Rightarrow> int \<Rightarrow> float64 \<Rightarrow> string \<Rightarrow> int \<Rightarrow> ml_state \<Rightarrow> ml_state" where
  "recordPaperPartialExit env g qty exitPrice reason levelNum m =
     (if qty \<le> 0 then m
      else (emit (EDbPaperExit (zero_order\<lparr>oOrderID := nextID m, oUserID := gUserID g,
              oStrategyID := gStrategyID g, oStrategyName := gStrategyName g, oStockCode := gStockCode g,
              oExchange := gExchange g, oSymbol := gSymbol g, oOrderType := OrderTypeMarket,
              oOrderSide := (if gOrderSide g = ''SELL'' then ''BUY'' else ''SELL''), oQuantity := qty,
              oPrice := Some (gFillPrice g), oValidity := ''IOC'', oProductType := gProductType g,
              oStatus := StatusFilled, oIsPaperTrade := True, oTradingMode := ''PAPER'',
              oFilledQuantity := qty, oFilledPrice := Some exitPrice, oPaperExitPrice := Some exitPrice,
              oPaperPnL := Some (partial_pnl g qty exitPrice), oIsSquareOffOrder := True,
              oRiskApproved := True,
              oIndiraOrderID := Some (ePaperID env (gEntryOrderID g) levelNum reason)\<rparr>)) m)
           \<lparr>nextID := Suc (nextID m)\<rparr>)"

definition computeNewSLAfterTP :: "Group \<Rightarrow> int \<Rightarrow> float64 \<Rightarrow> float64" where
  "computeNewSLAfterTP g levelNum exitPrice =
     (if levelNum = 1 then gFillPrice g
      else case find (\<lambda>l. lLevelNum l = levelNum - 1) (gTPLevels g) of
             Some l \<Rightarrow> lTriggerPrice l | None \<Rightarrow> exitPrice)"

text \<open>The locked part of \<open>recordPaperExit\<close> and of the other exits: the position shrinks.\<close>

definition reduce_remaining :: "int \<Rightarrow> Group \<Rightarrow> Group" where
  "reduce_remaining qty g =
     (let r = i32 (gRemainingQty g - qty)
      in g\<lparr>gRemainingQty := r, gState := (if r \<le> 0 then GroupStateCompleted else gState g)\<rparr>)"

definition recordPaperExit ::
  "ml_env \<Rightarrow> uuid \<Rightarrow> int \<Rightarrow> int \<Rightarrow> float64 \<Rightarrow> string \<Rightarrow> ml_state \<Rightarrow> ml_state" where
  "recordPaperExit env gid levelNum qty exitPrice exitType m =
     on_group gid (\<lambda>g.
       let g1 = reduce_remaining qty g;
           remaining = gRemainingQty g1;
           m1 = setg g1 m;
           m2 = emit (EDbLevelStatus (gEntryOrderID g1) exitType levelNum MLStatusTriggered exitPrice) m1;
           m3 = recordPaperPartialExit env g1 qty exitPrice exitType levelNum m2;
           m4 = emit (EDbPaperQty (gEntryOrderID g1) remaining) m3;
           m5 = (if eHookQty env then emit (EPaperQtyUpdated (gEntryOrderID g1) remaining) m4 else m4);
           m6 = (if 0 < remaining \<and> exitType = MLExitTypeTP then rebalanceAndModifyLevels gid MLExitTypeSL remaining m5
                 else if 0 < remaining \<and> exitType = MLExitTypeSL then rebalanceAndModifyLevels gid MLExitTypeTP remaining m5
                 else m5);
           m7 = (if eHookLevel env
                 then emit (EPaperLevelTriggered (gUserID g1) (gEntryOrderID g1) exitType levelNum exitPrice remaining [] 0) m6
                 else m6);
           newSL = computeNewSLAfterTP g1 levelNum exitPrice;
           m8 = (if exitType = MLExitTypeTP \<and> eHookSL env \<and> 0 < newSL
                 then emit (EPaperSLMoved (gEntryOrderID g1) newSL) m7 else m7)
       in if remaining \<le> 0 then finishGroupPaper env gid exitPrice m8 else m8) m"

section \<open>Evaluation of a tick\<close>

text \<open>The scan of both evaluation loops: the first active level the price has hit.\<close>

fun scan_levels :: "(float64 \<Rightarrow> bool) \<Rightarrow> float64 \<Rightarrow> nat \<Rightarrow> ExitLevelState list \<Rightarrow> (nat \<times> ExitLevelState) option" where
  "scan_levels hit ltp i [] = None"
| "scan_levels hit ltp i (l # ls) =
     (if lStatus l \<noteq> LevelActive \<or> \<not> hit (lTriggerPrice l) then scan_levels hit ltp (Suc i) ls
      else case tryMarkTriggered l ltp of
             (l', True) \<Rightarrow> Some (i, l') | (l', False) \<Rightarrow> scan_levels hit ltp (Suc i) ls)"

definition evaluateTrailingSL :: "uuid \<Rightarrow> float64 \<Rightarrow> ml_state \<Rightarrow> ml_state" where
  "evaluateTrailingSL gid ltp m =
     on_group gid (\<lambda>g.
       case CalcTrailingSL g ltp of None \<Rightarrow> m
       | Some newTrigger \<Rightarrow>
           spawn (TModifyTrailing gid
                    (modify_order g (gSingleSLOrderID g) (gSingleSLBrokerID g) (gRemainingQty g)
                       OrderTypeStopLossMarket None (Some newTrigger)) newTrigger)
             (setg (g\<lparr>gHighestPrice := ltp\<rparr>) m)) m"

text \<open>
  The second test of the trading mode in the source's loop is dead code: a live group has
  returned before the loop.
\<close>

definition evaluateSLLevels :: "ml_env \<Rightarrow> uuid \<Rightarrow> float64 \<Rightarrow> ml_state \<Rightarrow> ml_state \<times> bool" where
  "evaluateSLLevels env gid ltp m =
     (case heap m gid of None \<Rightarrow> (m, False) | Some g \<Rightarrow>
        if gSLMode g = SLModeTrailing \<and> gSingleSLBrokerID g \<noteq> [] then (evaluateTrailingSL gid ltp m, False)
        else if gSLMode g \<noteq> SLModeMultiLevel then (m, False)
        else if gTradingMode g = ''LIVE'' then (m, False)
        else case scan_levels (\<lambda>t. SLBreached g t ltp) ltp 0 (gSLLevels g) of None \<Rightarrow> (m, False)
             | Some (i, l) \<Rightarrow>
                 (recordPaperExit env gid (lLevelNum l) (lExitQty l) ltp MLExitTypeSL
                    (setg (g\<lparr>gSLLevels := (gSLLevels g)[i := l]\<rparr>) m), True))"

definition evaluateTPLevels :: "ml_env \<Rightarrow> uuid \<Rightarrow> float64 \<Rightarrow> ml_state \<Rightarrow> ml_state" where
  "evaluateTPLevels env gid ltp m =
     on_group gid (\<lambda>g.
       if gTPMode g = TPModeMultiLevel \<and> gTradingMode g = ''LIVE'' then m
       else case scan_levels (\<lambda>t. TPReached g t ltp) ltp 0 (gTPLevels g) of None \<Rightarrow> m
            | Some (i, l) \<Rightarrow>
                let g1 = g\<lparr>gTPLevels := (gTPLevels g)[i := l]\<rparr>; qty = lExitQty l in
                if gTradingMode g = ''LIVE'' then
                  let g2 = reduce_remaining qty g1;
                      remaining = gRemainingQty g2;
                      m1 = spawn (TExitMarket gid (lLevelNum l) qty ltp MLExitTypeTP) (setg g2 m);
                      m2 = (if gSingleSLBrokerID g2 \<noteq> [] \<and> gSLMode g2 = SLModeFixed then spawn (TReplaceSL gid remaining) m1
                            else if gSingleSLBrokerID g2 \<noteq> [] \<and> gSLMode g2 = SLModeTrailing then spawn (TReplaceSLTrailing gid remaining) m1
                            else m1)
                  in if remaining \<le> 0 then finishGroup env g2 m2 else m2
                else recordPaperExit env gid (lLevelNum l) qty ltp MLExitTypeTP (setg g1 m)) m"

definition runEvalJob :: "ml_env \<Rightarrow> uuid \<Rightarrow> float64 \<Rightarrow> ml_state \<Rightarrow> ml_state" where
  "runEvalJob env gid ltp m =
     on_group gid (\<lambda>g.
       case tryClaimEvaluation g of
         (_, False) \<Rightarrow> m
       | (g1, True) \<Rightarrow>
           let m1 = setg g1 m;
               m2 = (if gState g1 \<noteq> GroupStateActive then m1
                     else case evaluateSLLevels env gid ltp m1 of
                            (m', True) \<Rightarrow> m' | (m', False) \<Rightarrow> evaluateTPLevels env gid ltp m')
           in on_group gid (\<lambda>g'. setg (releaseEvaluation g') m2) m2) m"

text \<open>A worker takes the oldest job of the channel.\<close>

definition worker_step :: "ml_env \<Rightarrow> ml_state \<Rightarrow> ml_state" where
  "worker_step env m =
     (case evalCh m of [] \<Rightarrow> m | (gid, ltp) # js \<Rightarrow> runEvalJob env gid ltp (m\<lparr>evalCh := js\<rparr>))"

end
