(* ===== verification/MlLive.thy ===== *)
theory MlLive
  imports MlManager
begin

text \<open>
  The live side of the multi-level exit manager (\<open>multilevel/manager.go\<close>): placement,
  replacement and modification of broker orders, broker events, cancellation, persistence
  and the reload after a restart (\<open>multilevel/reload.go\<close>). \<open>run_task\<close> gives every goroutine
  its body, and \<open>ml_step\<close> is the relation of everything the manager may do next.
\<close>

section \<open>Broker calls\<close>

definition broker_place :: "ml_env \<Rightarrow> Order \<Rightarrow> ml_state \<Rightarrow> ml_state \<times> string option" where
  "broker_place env ord m = (emit (EPlace ord) m, ePlace env (out m) ord)"

definition broker_cancel :: "ml_env \<Rightarrow> Group \<Rightarrow> string \<Rightarrow> ml_state \<Rightarrow> ml_state \<times> bool" where
  "broker_cancel env g brokerID m =
     (emit (ECancel (gExchange g) brokerID (gSymbol g)) m, eCancel env (out m) brokerID)"

definition broker_modify :: "ml_env \<Rightarrow> Order \<Rightarrow> ml_state \<Rightarrow> ml_state \<times> bool" where
  "broker_modify env ord m = (emit (EModify ord) m, eModify env (out m) ord)"

definition fresh_id :: "ml_state \<Rightarrow> ml_state" where
  "fresh_id m = m\<lparr>nextID := Suc (nextID m)\<rparr>"

definition placeExitOrderMarket :: "ml_env \<Rightarrow> uuid \<Rightarrow> int \<Rightarrow> int \<Rightarrow> float64 \<Rightarrow> string \<Rightarrow> ml_state \<Rightarrow> ml_state" where
  "placeExitOrderMarket env gid levelNum qty exitPrice exitType m =
     on_group gid (\<lambda>g.
       case broker_place env (buildExitOrder g (nextID m) qty OrderTypeMarket None None) (fresh_id m) of
         (m1, None) \<Rightarrow> m1
       | (m1, Some brokerID) \<Rightarrow>
           emit (EDbLevelStatus (gEntryOrderID g) exitType levelNum MLStatusTriggered exitPrice) m1) m"

text \<open>
  The tail shared by the four placements of a single stop order: the stop is sent and, when
  the broker accepts it, recorded in the group and in \<open>singleSLIndex\<close>. \<open>setTrigger\<close> says
  whether \<open>CurrentSLTrigger\<close> follows.
\<close>

definition place_single_sl :: "ml_env \<Rightarrow> Group \<Rightarrow> int \<Rightarrow> float64 \<Rightarrow> bool \<Rightarrow> ml_state \<Rightarrow> ml_state" where
  "place_single_sl env g qty triggerPrice setTrigger m =
     (case broker_place env (buildExitOrder g (nextID m) qty OrderTypeStopLossMarket None (Some triggerPrice))
             (fresh_id m) of
        (m1, None) \<Rightarrow> m1
      | (m1, Some brokerID) \<Rightarrow>
          let g1 = g\<lparr>gSingleSLBrokerID := brokerID, gSingleSLOrderID := nextID m1,
                      gCurrentSLTrigger := (if setTrigger then triggerPrice else gCurrentSLTrigger g)\<rparr>;
              m2 = setg g1 (fresh_id m1)
          in m2\<lparr>singleSLIndex := (singleSLIndex m2)(brokerID \<mapsto> gGroupID g)\<rparr>)"

definition placeFixedSLOrder :: "ml_env \<Rightarrow> uuid \<Rightarrow> int \<Rightarrow> ml_state \<Rightarrow> ml_state" where
  "placeFixedSLOrder env gid qty m =
     on_group gid (\<lambda>g. place_single_sl env g qty (CalcSLTriggerPrice g (gFixedSLPct g)) False m) m"

definition placeLiveTrailingSL :: "ml_env \<Rightarrow> uuid \<Rightarrow> ml_state \<Rightarrow> ml_state" where
  "placeLiveTrailingSL env gid m =
     on_group gid (\<lambda>g. place_single_sl env g (gRemainingQty g) (CalcSLTriggerPrice g (gFixedSLPct g)) True m) m"

definition replaceSLWithReducedQty :: "ml_env \<Rightarrow> uuid \<Rightarrow> int \<Rightarrow> ml_state \<Rightarrow> ml_state" where
  "replaceSLWithReducedQty env gid remainingQty m =
     on_group gid (\<lambda>g.
       if remainingQty \<le> 0 \<or> gSingleSLBrokerID g = [] then m
       else let m1 = m\<lparr>singleSLIndex := (singleSLIndex m)(gSingleSLBrokerID g := None)\<rparr>;
                m2 = fst (broker_cancel env g (gSingleSLBrokerID g) m1)
            in place_single_sl env g remainingQty (CalcSLTriggerPrice g (gFixedSLPct g)) False m2) m"

definition replaceSLTrailing :: "ml_env \<Rightarrow> uuid \<Rightarrow> int \<Rightarrow> ml_state \<Rightarrow> ml_state" where
  "replaceSLTrailing env gid remainingQty m =
     on_group gid (\<lambda>g.
       if remainingQty \<le> 0 \<or> gSingleSLBrokerID g = [] then m
       else let triggerPrice = (if gCurrentSLTrigger g \<le> 0 then CalcSLTriggerPrice g (gFixedSLPct g)
                                else gCurrentSLTrigger g);
                m1 = m\<lparr>singleSLIndex := (singleSLIndex m)(gSingleSLBrokerID g := None)\<rparr>;
                m2 = fst (broker_cancel env g (gSingleSLBrokerID g) m1)
            in place_single_sl env g remainingQty triggerPrice True m2) m"

text \<open>The goroutine of \<open>evaluateTrailingSL\<close>: the trigger moves only when the broker accepts it.\<close>

definition modify_trailing :: "ml_env \<Rightarrow> uuid \<Rightarrow> Order \<Rightarrow> float64 \<Rightarrow> ml_state \<Rightarrow> ml_state" where
  "modify_trailing env gid modOrder newTrigger m =
     on_group gid (\<lambda>g.
       case broker_modify env modOrder m of
         (m1, False) \<Rightarrow> m1
       | (m1, True) \<Rightarrow> setg (g\<lparr>gCurrentSLTrigger := newTrigger\<rparr>) m1) m"

definition modifyLevelOrder ::
  "ml_env \<Rightarrow> uuid \<Rightarrow> uuid \<Rightarrow> string \<Rightarrow> int \<Rightarrow> float64 \<Rightarrow> string \<Rightarrow> ml_state \<Rightarrow> ml_state" where
  "modifyLevelOrder env gid orderID brokerID qty triggerPrice exitType m =
     on_group gid (\<lambda>g.
       fst (broker_modify env
         (if exitType = MLExitTypeSL
          then modify_order g orderID brokerID qty OrderTypeStopLossMarket None (Some triggerPrice)
          else modify_order g orderID brokerID qty OrderTypeLimit (Some triggerPrice) None) m)) m"

section \<open>Per-level orders\<close>

definition placeMultiSLOrders :: "uuid \<Rightarrow> ml_state \<Rightarrow> ml_state" where
  "placeMultiSLOrders gid m =
     on_group gid (\<lambda>g. m\<lparr>tasks := tasks m @ map (TPlaceSLLevel gid) [0..<length (gSLLevels g)]\<rparr>) m"

definition placeMultiTPOrders :: "uuid \<Rightarrow> ml_state \<Rightarrow> ml_state" where
  "placeMultiTPOrders gid m =
     on_group gid (\<lambda>g. m\<lparr>tasks := tasks m @ map (TPlaceTPLevel gid) [0..<length (gTPLevels g)]\<rparr>) m"

definition index_level :: "string \<Rightarrow> uuid \<Rightarrow> string \<Rightarrow> int \<Rightarrow> ml_state \<Rightarrow> ml_state" where
  "index_level brokerID gid exitType levelNum m =
     m\<lparr>mlLevelIndex := (mlLevelIndex m)(brokerID \<mapsto>
         \<lparr>refGroup = gid, refExitType = exitType, refLevelNum = levelNum\<rparr>)\<rparr>"

definition place_sl_level :: "ml_env \<Rightarrow> uuid \<Rightarrow> nat \<Rightarrow> ml_state \<Rightarrow> ml_state" where
  "place_sl_level env gid i m =
     on_group gid (\<lambda>g.
       if length (gSLLevels g) \<le> i then m
       else let l = gSLLevels g ! i in
         case broker_place env (buildMultiSLOrder g (lExitQty l) (lTriggerPrice l) (lExitOrderID l)) m of
           (m1, None) \<Rightarrow> m1
         | (m1, Some brokerID) \<Rightarrow>
             index_level brokerID gid MLExitTypeSL (lLevelNum l)
               (setg (g\<lparr>gSLLevels := (gSLLevels g)[i := l\<lparr>lBrokerOrderID := brokerID\<rparr>]\<rparr>) m1)) m"

definition place_tp_level :: "ml_env \<Rightarrow> uuid \<Rightarrow> nat \<Rightarrow> ml_state \<Rightarrow> ml_state" where
  "place_tp_level env gid i m =
     on_group gid (\<lambda>g.
       if length (gTPLevels g) \<le> i then m
       else let l = gTPLevels g ! i in
         case broker_place env (buildMultiTPOrder g (lExitQty l) (lTriggerPrice l) (lExitOrderID l)) m of
           (m1, None) \<Rightarrow> m1
         | (m1, Some brokerID) \<Rightarrow>
             index_level brokerID gid MLExitTypeTP (lLevelNum l)
               (setg (g\<lparr>gTPLevels := (gTPLevels g)[i := l\<lparr>lBrokerOrderID := brokerID\<rparr>]\<rparr>) m1)) m"

text \<open>
  \<open>cancelRemainingMLOrders\<close> on one side: active levels become cancelled, and those with a
  broker order leave the index and are cancelled at the broker by a goroutine each.
\<close>

definition cancel_active :: "ExitLevelState \<Rightarrow> ExitLevelState" where
  "cancel_active l = (if lStatus l = LevelActive then markCancelled l else l)"

definition live_broker_ids :: "ExitLevelState list \<Rightarrow> string list" where
  "live_broker_ids ls = map lBrokerOrderID (filter (\<lambda>l. lStatus l = LevelActive \<and> lBrokerOrderID l \<noteq> []) ls)"

definition drop_level_index :: "string list \<Rightarrow> ml_state \<Rightarrow> ml_state" where
  "drop_level_index bids m = m\<lparr>mlLevelIndex := (\<lambda>b. if b \<in> set bids then None else mlLevelIndex m b)\<rparr>"

definition cancelRemainingMLOrders :: "uuid \<Rightarrow> string \<Rightarrow> ml_state \<Rightarrow> ml_state" where
  "cancelRemainingMLOrders gid exitType m =
     on_group gid (\<lambda>g.
       let ls = (if exitType = MLExitTypeSL then gSLLevels g else gTPLevels g);
           bids = live_broker_ids ls;
           g1 = (if exitType = MLExitTypeSL then g\<lparr>gSLLevels := map cancel_active ls\<rparr>
                 else g\<lparr>gTPLevels := map cancel_active ls\<rparr>);
           m1 = drop_level_index bids (setg g1 m)
       in m1\<lparr>tasks := tasks m1 @ map (TCancelOrder gid) bids\<rparr>) m"

section \<open>Fills of exit orders\<close>

text \<open>
  The locked part of \<open>onMultiLevelFilled\<close>: the first level with the given number, if it is
  still active, is triggered and the position shrinks by its quantity.
\<close>

fun find_level :: "int \<Rightarrow> nat \<Rightarrow> ExitLevelState list \<Rightarrow> (nat \<times> ExitLevelState) option" where
  "find_level levelNum i [] = None"
| "find_level levelNum i (l # ls) =
     (if lLevelNum l = levelNum then Some (i, l) else find_level levelNum (Suc i) ls)"

definition trigger_level :: "string \<Rightarrow> nat \<Rightarrow> ExitLevelState \<Rightarrow> float64 \<Rightarrow> Group \<Rightarrow> Group" where
  "trigger_level exitType i l price g =
     (let l' = l\<lparr>lStatus := LevelTriggered, lExitPrice := price\<rparr>
      in reduce_remaining (lExitQty l)
           (if exitType = MLExitTypeSL then g\<lparr>gSLLevels := (gSLLevels g)[i := l']\<rparr>
            else g\<lparr>gTPLevels := (gTPLevels g)[i := l']\<rparr>))"

definition other_side :: "string \<Rightarrow> string" where
  "other_side exitType = (if exitType = MLExitTypeSL then MLExitTypeTP else MLExitTypeSL)"

definition price_of :: "float64 option \<Rightarrow> float64" where
  "price_of p = (case p of None \<Rightarrow> 0 | Some x \<Rightarrow> x)"

text \<open>The end of a live group: nothing is left to exit, so every remaining order goes.\<close>

definition close_live_group :: "ml_env \<Rightarrow> uuid \<Rightarrow> string \<Rightarrow> ml_state \<Rightarrow> ml_state" where
  "close_live_group env gid exitType m =
     (let m1 = cancelRemainingMLOrders gid exitType m;
          m2 = cancelRemainingMLOrders gid (other_side exitType) m1
      in on_group gid (\<lambda>g.
           let slBrokerID = gSingleSLBrokerID g;
               g1 = g\<lparr>gSingleSLBrokerID := []\<rparr>;
               m3 = setg g1 m2;
               m4 = (if slBrokerID \<noteq> []
                     then spawn (TCancelOrder gid slBrokerID)
                            (m3\<lparr>singleSLIndex := (singleSLIndex m3)(slBrokerID := None)\<rparr>)
                     else m3)
           in finishGroup env g1 m4) m2)"

definition onMultiLevelFilled ::
  "ml_env \<Rightarrow> uuid \<Rightarrow> string \<Rightarrow> int \<Rightarrow> float64 option \<Rightarrow> int \<Rightarrow> ml_state \<Rightarrow> ml_state" where
  "onMultiLevelFilled env gid exitType levelNum fillPrice filledQty m =
     on_group gid (\<lambda>g.
       case find_level levelNum 0 (if exitType = MLExitTypeSL then gSLLevels g else gTPLevels g) of
         None \<Rightarrow> m
       | Some (i, l) \<Rightarrow>
           if lStatus l \<noteq> LevelActive then m
           else let g1 = trigger_level exitType i l (price_of fillPrice) g;
                    remaining = gRemainingQty g1;
                    m1 = drop_level_index [lBrokerOrderID l] (setg g1 m);
                    m2 = emit (EDbLevelStatus (gEntryOrderID g) exitType levelNum MLStatusTriggered
                                 (price_of fillPrice)) m1
                in if remaining \<le> 0 then close_live_group env gid exitType m2
                   else rebalanceAndModifyLevels gid (other_side exitType) remaining
                          (rebalanceAndModifyLevels gid
                             (if exitType = MLExitTypeSL then MLExitTypeSL else MLExitTypeTP) remaining m2)) m"

text \<open>The single stop filled: every open target is cancelled.\<close>

definition cancel_open :: "ExitLevelState \<Rightarrow> ExitLevelState" where
  "cancel_open l = (if lStatus l = LevelActive \<or> lStatus l = LevelPending then l\<lparr>lStatus := LevelCancelled\<rparr> else l)"

definition onSingleSLFilled :: "ml_env \<Rightarrow> uuid \<Rightarrow> float64 option \<Rightarrow> int \<Rightarrow> ml_state \<Rightarrow> ml_state" where
  "onSingleSLFilled env gid fillPrice filledQty m =
     on_group gid (\<lambda>g.
       let g1 = reduce_remaining filledQty g;
           remaining = gRemainingQty g1;
           bids = (if gTPMode g = TPModeMultiLevel
                   then map lBrokerOrderID (filter (\<lambda>l. (lStatus l = LevelActive \<or> lStatus l = LevelPending)
                                                        \<and> lBrokerOrderID l \<noteq> []) (gTPLevels g))
                   else []);
           g2 = g1\<lparr>gTPLevels := map cancel_open (gTPLevels g)\<rparr>;
           m1 = drop_level_index bids (setg g2 m);
           m2 = m1\<lparr>tasks := tasks m1 @ map (TCancelOrder gid) bids\<rparr>;
           m3 = m2\<lparr>out := out m2 @
                  map (\<lambda>l. EDbLevelStatus (gEntryOrderID g) MLExitTypeTP (lLevelNum l) MLStatusCancelled 0)
                    (filter (\<lambda>l. lStatus l = LevelCancelled) (gTPLevels g2))\<rparr>;
           m4 = emit (EDbLevelStatus (gEntryOrderID g) MLExitTypeSL 0 MLStatusTriggered (price_of fillPrice)) m3;
           m5 = (if remaining \<le> 0 then finishGroup env g2 m4 else m4)
       in if gTradingMode g = ''PAPER'' \<and> eHookLevel env
          then emit (EPaperLevelTriggered (gUserID g) (gEntryOrderID g) MLExitTypeSL 0 (price_of fillPrice)
                       remaining MLExitTypeTP 0) m5
          else m5) m"

definition isFilledStatus :: "string \<Rightarrow> bool" where
  "isFilledStatus s \<longleftrightarrow> to_upper s \<in> {''FILLED'', ''EXECUTED'', ''TRADED''}"

text \<open>\<open>HandleBrokerUpdate\<close> routes an event to one goroutine: entry, level or single stop.\<close>

definition entry_fill_pending :: "Order \<Rightarrow> string \<Rightarrow> ml_state \<Rightarrow> bool" where
  "entry_fill_pending ord brokerStatus m \<longleftrightarrow>
     (case map_of (groupsByEntry m) (oOrderID ord) of None \<Rightarrow> False
      | Some gid \<Rightarrow> (case heap m gid of None \<Rightarrow> False | Some g \<Rightarrow>
          \<not> gEntryFilled g \<and> isFilledStatus brokerStatus \<and> 0 < oFilledQuantity ord \<and> oFilledPrice ord \<noteq> None))"

definition HandleBrokerUpdate :: "Order option \<Rightarrow> string \<Rightarrow> ml_state \<Rightarrow> ml_state" where
  "HandleBrokerUpdate order brokerStatus m =
     (case order of None \<Rightarrow> m | Some ord \<Rightarrow>
        if entry_fill_pending ord brokerStatus m
        then spawn (TOnEntryFill (oOrderID ord) (price_of (oFilledPrice ord)) (oFilledQuantity ord)) m
        else if \<not> isFilledStatus brokerStatus then m
        else case oIndiraOrderID ord of None \<Rightarrow> m | Some brokerID \<Rightarrow>
          (case mlLevelIndex m brokerID of
             Some ref \<Rightarrow> spawn (TOnMultiLevelFilled (refGroup ref) (refExitType ref) (refLevelNum ref)
                                  (oFilledPrice ord) (oFilledQuantity ord)) m
           | None \<Rightarrow> (case singleSLIndex m brokerID of
                 None \<Rightarrow> m
               | Some gid \<Rightarrow> spawn (TOnSingleSLFilled gid (oFilledPrice ord) (oFilledQuantity ord)) m)))"

definition IsKnownBrokerID :: "string \<Rightarrow> ml_state \<Rightarrow> bool" where
  "IsKnownBrokerID brokerID m \<longleftrightarrow> singleSLIndex m brokerID \<noteq> None \<or> mlLevelIndex m brokerID \<noteq> None"

section \<open>Cancellation\<close>

definition cancelGroupInternal :: "ml_env \<Rightarrow> uuid \<Rightarrow> ml_state \<Rightarrow> ml_state" where
  "cancelGroupInternal env gid m =
     on_group gid (\<lambda>g.
       if gState g \<noteq> GroupStateActive then m
       else let g1 = g\<lparr>gState := GroupStateCancelled\<rparr>;
                slBrokerID = gSingleSLBrokerID g;
                m1 = setg g1 m;
                m2 = m1\<lparr>groupsByEntry := AList.delete (gEntryOrderID g) (groupsByEntry m1)\<rparr>;
                m3 = unsubscribeGroup env g1 m2;
                m4 = (if slBrokerID \<noteq> [] then m3\<lparr>singleSLIndex := (singleSLIndex m3)(slBrokerID := None)\<rparr> else m3);
                m5 = (if gTradingMode g = ''LIVE'' \<and> slBrokerID \<noteq> [] \<and> gAuth g \<noteq> None
                      then spawn (TCancelOrder gid slBrokerID) m4 else m4)
            in if gTradingMode g = ''LIVE'' \<and> gAuth g \<noteq> None
               then cancelRemainingMLOrders gid MLExitTypeTP (cancelRemainingMLOrders gid MLExitTypeSL m5)
               else m5) m"

definition CancelGroup :: "ml_env \<Rightarrow> uuid \<Rightarrow> ml_state \<Rightarrow> ml_state" where
  "CancelGroup env entryOrderID m =
     (case map_of (groupsByEntry m) entryOrderID of None \<Rightarrow> m | Some gid \<Rightarrow> cancelGroupInternal env gid m)"

definition cancel_if_symbol :: "ml_env \<Rightarrow> string \<Rightarrow> string \<Rightarrow> ml_state \<Rightarrow> uuid \<Rightarrow> ml_state" where
  "cancel_if_symbol env userID symUpper m gid =
     on_group gid (\<lambda>g. if gUserID g = userID \<and> to_upper (gSymbol g) = symUpper \<and> gState g = GroupStateActive
                       then cancelGroupInternal env gid m else m) m"

definition CancelGroupsBySymbol :: "ml_env \<Rightarrow> string \<Rightarrow> string \<Rightarrow> ml_state \<Rightarrow> ml_state" where
  "CancelGroupsBySymbol env userID symbol m =
     foldl (cancel_if_symbol env userID (to_upper symbol)) m (map snd (groupsByEntry m))"

definition cancelSLOrder :: "ml_env \<Rightarrow> uuid \<Rightarrow> ml_state \<Rightarrow> ml_state" where
  "cancelSLOrder env gid m =
     on_group gid (\<lambda>g.
       let m1 = setg (g\<lparr>gSingleSLBrokerID := []\<rparr>) m
       in if gSingleSLBrokerID g = [] \<or> \<not> eBroker env \<or> gAuth g = None then m1
          else fst (broker_cancel env g (gSingleSLBrokerID g) m1)) m"

definition cancelTPOrder :: "ml_env \<Rightarrow> uuid \<Rightarrow> nat \<Rightarrow> string \<Rightarrow> ml_state \<Rightarrow> ml_state" where
  "cancelTPOrder env gid i brokerID m =
     on_group gid (\<lambda>g.
       if \<not> eBroker env \<or> gAuth g = None then m
       else case broker_cancel env g brokerID m of
              (m1, False) \<Rightarrow> m1
            | (m1, True) \<Rightarrow>
                emit (EDbLevelStatus (gEntryOrderID g) MLExitTypeTP (lLevelNum (gTPLevels g ! i)) MLStatusCancelled 0)
                  (drop_level_index [brokerID]
                    (setg (g\<lparr>gTPLevels := (gTPLevels g)[i := markCancelled (gTPLevels g ! i)]\<rparr>) m1))) m"

definition cancel_tp_at :: "ml_env \<Rightarrow> uuid \<Rightarrow> ml_state \<Rightarrow> nat \<Rightarrow> ml_state" where
  "cancel_tp_at env gid m i =
     on_group gid (\<lambda>g. if i < length (gTPLevels g) \<and> lStatus (gTPLevels g ! i) = LevelActive
                          \<and> lBrokerOrderID (gTPLevels g ! i) \<noteq> []
                       then cancelTPOrder env gid i (lBrokerOrderID (gTPLevels g ! i)) m else m) m"

definition paper_close :: "ml_env \<Rightarrow> Group \<Rightarrow> float64 \<Rightarrow> string \<Rightarrow> ml_state \<Rightarrow> ml_state" where
  "paper_close env g exitPrice reason m =
     emit (EDbPaperQty (gEntryOrderID g) 0) (recordPaperPartialExit env g (gRemainingQty g) exitPrice reason 0 m)"

text \<open>
  The deletion from \<open>singleSLIndex\<close> at the end uses the field that \<open>cancelSLOrder\<close> has
  just cleared, as in the source.
\<close>

definition CancelGroupForExit :: "ml_env \<Rightarrow> uuid \<Rightarrow> float64 \<Rightarrow> string \<Rightarrow> ml_state \<Rightarrow> ml_state" where
  "CancelGroupForExit env entryOrderID exitPrice reason m =
     (case map_of (groupsByEntry m) entryOrderID of None \<Rightarrow> m | Some gid \<Rightarrow>
      on_group gid (\<lambda>g.
        if gState g \<noteq> GroupStateActive then m
        else let m1 = setg (g\<lparr>gState := GroupStateCancelled\<rparr>) m;
                 m2 = foldl (cancel_tp_at env gid) m1 [0..<length (gTPLevels g)];
                 m3 = cancelSLOrder env gid m2
             in on_group gid (\<lambda>g'.
                  let m4 = (if gTradingMode g = ''PAPER'' \<and> 0 < gRemainingQty g \<and> 0 < exitPrice
                            then paper_close env g exitPrice reason m3 else m3);
                      m5 = m4\<lparr>groupsByEntry := AList.delete entryOrderID (groupsByEntry m4)\<rparr>;
                      m6 = unsubscribeGroup env g' m5
                  in m6\<lparr>singleSLIndex := (singleSLIndex m6)(gSingleSLBrokerID g' := None)\<rparr>) m3) m)"

definition cancel_if_strategy :: "ml_env \<Rightarrow> string \<Rightarrow> string \<Rightarrow> ml_state \<Rightarrow> uuid \<Rightarrow> ml_state" where
  "cancel_if_strategy env userID strategyID m gid =
     on_group gid (\<lambda>g.
       if gUserID g \<noteq> userID \<or> gStrategyID g \<noteq> strategyID \<or> gState g \<noteq> GroupStateActive then m
       else let g1 = g\<lparr>gState := GroupStateCancelled\<rparr>;
                m1 = setg g1 m;
                m2 = (if gTradingMode g = ''PAPER'' \<and> 0 < gRemainingQty g
                      then case ePriceLookup env of None \<Rightarrow> m1 | Some getLTP \<Rightarrow>
                             (case getLTP (out m1) (gExchange g) (gStockCode g) of
                                Some ltp \<Rightarrow> if 0 < ltp then paper_close env g ltp ''STRATEGY_DEACTIVATED'' m1 else m1
                              | None \<Rightarrow> m1)
                      else m1);
                m3 = m2\<lparr>groupsByEntry := AList.delete (gEntryOrderID g) (groupsByEntry m2)\<rparr>
            in unsubscribeGroup env g1 m3) m"

definition CancelGroupsByStrategy :: "ml_env \<Rightarrow> string \<Rightarrow> string \<Rightarrow> ml_state \<Rightarrow> ml_state" where
  "CancelGroupsByStrategy env userID strategyID m =
     foldl (cancel_if_strategy env userID strategyID) m (map snd (groupsByEntry m))"

section \<open>Persistence and reload\<close>

definition cfg_of :: "SLTPLevelConfig list \<Rightarrow> int \<Rightarrow> SLTPLevelConfig option" where
  "cfg_of configs levelNum = find (\<lambda>c. cfgLevelNum c = levelNum) configs"

definition level_record :: "Group \<Rightarrow> string \<Rightarrow> float64 \<Rightarrow> SLTPLevelConfig list \<Rightarrow> ExitLevelState \<Rightarrow> MultiLevelExitRecord" where
  "level_record g exitType defaultPct configs l =
     \<lparr> rEntryOrderID = gEntryOrderID g, rExitType = exitType, rLevelNum = lLevelNum l,
       rPricePct = (case cfg_of configs (lLevelNum l) of None \<Rightarrow> defaultPct | Some c \<Rightarrow> cfgPricePct c),
       rQtyPct = (case cfg_of configs (lLevelNum l) of None \<Rightarrow> 0 | Some c \<Rightarrow> cfgQtyPct c),
       rTriggerPrice = Some (lTriggerPrice l), rExitQty = Some (lExitQty l), rStatus = MLStatusActive,
       rExitOrderID = None, rBrokerOrderID = None, rExitPrice = None, rOriginalExitQty = None \<rparr>"

definition level_records :: "Group \<Rightarrow> MultiLevelExitRecord list" where
  "level_records g =
     map (level_record g MLExitTypeSL (gFixedSLPct g) (gSLLevelConfigs g)) (gSLLevels g) @
     map (level_record g MLExitTypeTP 0 (gTPLevelConfigs g)) (gTPLevels g)"

definition persistExitLevels :: "uuid \<Rightarrow> ml_state \<Rightarrow> ml_state" where
  "persistExitLevels gid m =
     on_group gid (\<lambda>g. m\<lparr>out := out m @ map EDbUpsertLevel (level_records g)\<rparr>) m"

definition levelStateFromRecord :: "MultiLevelExitRecord \<Rightarrow> ExitLevelState" where
  "levelStateFromRecord r =
     \<lparr> lLevelNum = rLevelNum r,
       lTriggerPrice = (case rTriggerPrice r of None \<Rightarrow> 0 | Some p \<Rightarrow> p),
       lExitQty = (case rExitQty r of None \<Rightarrow> 0 | Some q \<Rightarrow> q),
       lOriginalExitQty = (case rOriginalExitQty r of Some q \<Rightarrow> q
                           | None \<Rightarrow> (case rExitQty r of None \<Rightarrow> 0 | Some q \<Rightarrow> q)),
       lStatus = (if rStatus r = MLStatusPending then LevelPending
                  else if rStatus r = MLStatusActive then LevelActive
                  else if rStatus r = MLStatusTriggered then LevelTriggered
                  else if rStatus r = MLStatusCancelled then LevelCancelled else LevelPending),
       lBrokerOrderID = (case rBrokerOrderID r of None \<Rightarrow> [] | Some b \<Rightarrow> b),
       lExitOrderID = (case rExitOrderID r of None \<Rightarrow> 0 | Some i \<Rightarrow> i),
       lExitPrice = (case rExitPrice r of None \<Rightarrow> 0 | Some p \<Rightarrow> p) \<rparr>"

definition record_cfg :: "MultiLevelExitRecord \<Rightarrow> SLTPLevelConfig" where
  "record_cfg r = \<lparr> cfgLevelNum = rLevelNum r, cfgPricePct = rPricePct r, cfgQtyPct = rQtyPct r \<rparr>"

text \<open>One row of the loop of \<open>buildGroupFromDB\<close>.\<close>

definition add_record :: "Group \<Rightarrow> MultiLevelExitRecord \<Rightarrow> Group" where
  "add_record g r =
     (let g1 = (if rExitType r = MLExitTypeSL
                then g\<lparr>gSLLevels := gSLLevels g @ [levelStateFromRecord r],
                        gSLLevelConfigs := gSLLevelConfigs g @ [record_cfg r]\<rparr>
                else if rExitType r = MLExitTypeTP
                then g\<lparr>gTPLevels := gTPLevels g @ [levelStateFromRecord r],
                        gTPLevelConfigs := gTPLevelConfigs g @ [record_cfg r]\<rparr>
                else g)
      in case rExitQty r of None \<Rightarrow> g1
         | Some q \<Rightarrow> if rStatus r = MLStatusTriggered \<and> q \<le> gRemainingQty g1
                     then g1\<lparr>gRemainingQty := i32 (gRemainingQty g1 - q)\<rparr> else g1)"

definition index_record :: "uuid \<Rightarrow> ml_state \<Rightarrow> MultiLevelExitRecord \<Rightarrow> ml_state" where
  "index_record gid m r =
     (case rBrokerOrderID r of None \<Rightarrow> m
      | Some b \<Rightarrow> if b = [] then m else index_level b gid (rExitType r) (rLevelNum r) m)"

text \<open>
  \<open>buildGroupFromDB\<close> without the index updates, which \<open>Reload\<close> makes through
  \<open>index_record\<close>; the second component is \<open>singleSLLost\<close>.
\<close>

definition buildGroupFromDB :: "uuid \<Rightarrow> Order \<Rightarrow> MultiLevelExitRecord list \<Rightarrow> (Group \<times> bool) option" where
  "buildGroupFromDB gid entry levels =
     (case oFilledPrice entry of None \<Rightarrow> None | Some fillPrice \<Rightarrow>
      if oFilledQuantity entry \<le> 0 then None
      else let sawSL = (\<exists>r\<in>set levels. rExitType r = MLExitTypeSL);
               sawTP = (\<exists>r\<in>set levels. rExitType r = MLExitTypeTP);
               slLost = (\<not> sawSL \<and> oTradingMode entry = ''LIVE'');
               g = \<lparr> gGroupID = gid, gEntryOrderID = oOrderID entry, gUserID = oUserID entry,
                     gSymbol = oSymbol entry, gExchange = oExchange entry, gStockCode = oStockCode entry,
                     gOrderSide = oOrderSide entry, gProductType = oProductType entry,
                     gValidity = oValidity entry, gFillPrice = fillPrice, gTotalQty = oFilledQuantity entry,
                     gSLLevels = [], gTPLevels = [],
                     gSLMode = (if sawSL then SLModeMultiLevel else if slLost then SLModeFixed else []),
                     gFixedSLPct = 0, gTrailingSLPct = 0, gHighestPrice = fillPrice, gCurrentSLTrigger = 0,
                     gSingleSLBrokerID = [], gSingleSLOrderID = 0,
                     gTPMode = (if sawTP then TPModeMultiLevel else []),
                     gState = GroupStateActive, gRemainingQty = oFilledQuantity entry,
                     gTradingMode = oTradingMode entry, gAuth = None, gAuthBearer = [], gAuthAppID = [],
                     gAuthSource = [], gStrategyID = oStrategyID entry, gStrategyName = oStrategyName entry,
                     gEventID = oEventID entry, gSLLevelConfigs = [], gTPLevelConfigs = [],
                     gEntryFilled = True, gEvaluating = 0 \<rparr>
           in Some (foldl add_record g levels, slLost))"

record ReloadStats =
  EntriesScanned :: nat
  GroupsRestored :: nat
  GroupsSkipped :: nat
  LevelsRestored :: nat
  WarnSingleSLLost :: nat

definition reload_entry ::
  "ml_env \<Rightarrow> (uuid \<Rightarrow> MultiLevelExitRecord list) \<Rightarrow> ml_state \<times> ReloadStats \<Rightarrow> Order \<Rightarrow> ml_state \<times> ReloadStats" where
  "reload_entry env levelsByEntry = (\<lambda>(m, stats) entry.
     if map_of (groupsByEntry m) (oOrderID entry) \<noteq> None \<or> levelsByEntry (oOrderID entry) = []
     then (m, stats\<lparr>GroupsSkipped := Suc (GroupsSkipped stats)\<rparr>)
     else case buildGroupFromDB (nextID m) entry (levelsByEntry (oOrderID entry)) of
            None \<Rightarrow> (m, stats\<lparr>GroupsSkipped := Suc (GroupsSkipped stats)\<rparr>)
          | Some (g, slLost) \<Rightarrow>
              let levels = levelsByEntry (oOrderID entry);
                  m1 = foldl (index_record (gGroupID g)) (setg g (fresh_id m)) levels;
                  m2 = m1\<lparr>groupsByEntry := AList.update (oOrderID entry) (gGroupID g) (groupsByEntry m1)\<rparr>
              in (subscribeGroup env g m2,
                  stats\<lparr>GroupsRestored := Suc (GroupsRestored stats),
                         LevelsRestored := LevelsRestored stats + length levels,
                         WarnSingleSLLost := (if slLost then Suc (WarnSingleSLLost stats) else WarnSingleSLLost stats)\<rparr>))"

text \<open>
  \<open>Reload\<close> from what the two queries return; \<open>None\<close> is a failed query, reported as an error.
\<close>

definition Reload ::
  "ml_env \<Rightarrow> Order list option \<Rightarrow> (uuid \<Rightarrow> MultiLevelExitRecord list) option \<Rightarrow> ml_state
     \<Rightarrow> ml_state \<times> (string + ReloadStats)" where
  "Reload env entriesQ levelsQ m =
     (case entriesQ of None \<Rightarrow> (m, Inl ''fetch active ML entries'')
      | Some entries \<Rightarrow>
          let stats = \<lparr> EntriesScanned = length entries, GroupsRestored = 0, GroupsSkipped = 0,
                        LevelsRestored = 0, WarnSingleSLLost = 0 \<rparr>
          in if entries = [] then (m, Inr stats)
             else case levelsQ of None \<Rightarrow> (m, Inl ''fetch ML levels batch'')
                  | Some levelsByEntry \<Rightarrow>
                      (case foldl (reload_entry env levelsByEntry) (m, stats) entries of
                         (m', stats') \<Rightarrow> (m', Inr stats')))"

section \<open>Goroutines and steps\<close>

fun run_task :: "ml_env \<Rightarrow> task \<Rightarrow> ml_state \<Rightarrow> ml_state" where
  "run_task env (TPersistExitLevels gid) m = persistExitLevels gid m"
| "run_task env (TPlaceFixedSL gid qty) m = placeFixedSLOrder env gid qty m"
| "run_task env (TPlaceTrailingSL gid) m = placeLiveTrailingSL env gid m"
| "run_task env (TPlaceMultiSL gid) m = placeMultiSLOrders gid m"
| "run_task env (TPlaceMultiTP gid) m = placeMultiTPOrders gid m"
| "run_task env (TPlaceSLLevel gid i) m = place_sl_level env gid i m"
| "run_task env (TPlaceTPLevel gid i) m = place_tp_level env gid i m"
| "run_task env (TExitMarket gid n qty p et) m = placeExitOrderMarket env gid n qty p et m"
| "run_task env (TReplaceSL gid qty) m = replaceSLWithReducedQty env gid qty m"
| "run_task env (TReplaceSLTrailing gid qty) m = replaceSLTrailing env gid qty m"
| "run_task env (TModifyTrailing gid ord p) m = modify_trailing env gid ord p m"
| "run_task env (TModifyLevel gid oid b qty p et) m = modifyLevelOrder env gid oid b qty p et m"
| "run_task env (TCancelOrder gid b) m = on_group gid (\<lambda>g. fst (broker_cancel env g b m)) m"
| "run_task env (TOnEntryFill eid p qty) m = OnEntryFill env eid p qty [] [] m"
| "run_task env (TOnMultiLevelFilled gid et n p qty) m = onMultiLevelFilled env gid et n p qty m"
| "run_task env (TOnSingleSLFilled gid p qty) m = onSingleSLFilled env gid p qty m"

text \<open>The scheduler runs the goroutine at any position of the pool.\<close>

definition schedule :: "ml_env \<Rightarrow> nat \<Rightarrow> ml_state \<Rightarrow> ml_state" where
  "schedule env i m =
     (if i < length (tasks m)
      then run_task env (tasks m ! i) (m\<lparr>tasks := take i (tasks m) @ drop (Suc i) (tasks m)\<rparr>) else m)"

inductive ml_step :: "ml_env \<Rightarrow> ml_state \<Rightarrow> ml_state \<Rightarrow> bool" for env where
  step_register: "ml_step env m (RegisterEntry ord slm tpm sl tp fpct tpct auth m)"
| step_fill: "ml_step env m (OnEntryFill env eid p qty sl tp m)"
| step_price: "ml_step env m (OnPriceUpdate key ltp m)"
| step_worker: "ml_step env m (worker_step env m)"
| step_task: "ml_step env m (schedule env i m)"
| step_broker: "ml_step env m (HandleBrokerUpdate ord st m)"
| step_cancel: "ml_step env m (CancelGroup env eid m)"
| step_cancel_symbol: "ml_step env m (CancelGroupsBySymbol env u s m)"
| step_cancel_exit: "ml_step env m (CancelGroupForExit env eid p r m)"
| step_cancel_strategy: "ml_step env m (CancelGroupsByStrategy env u sid m)"
| step_reload: "ml_step env m (fst (Reload env es ls m))"

inductive ml_reachable :: "ml_env \<Rightarrow> ml_state \<Rightarrow> bool" for env where
  reach_init: "ml_reachable env NewManager"
| reach_step: "ml_reachable env m \<Longrightarrow> ml_step env m m' \<Longrightarrow> ml_reachable env m'"

end
