(* ===== verification/MlGroup.thy ===== *)
theory MlGroup
  imports MlLive
begin

text \<open>
  The life of one group, as an abstract state machine: \<open>group_step\<close> lists everything that
  can happen to a group object, without the manager's indices, channels and goroutines.
  Two invariants are proved of it by rule induction: what never changes and how the
  status of a level may move (\<open>evolves\<close>), and that the open quantity on each side is
  exactly the open position (\<open>conserved\<close>). \<open>MlRefine\<close> shows that the manager does nothing
  else to a group.
\<close>

section \<open>Exits of a group\<close>

definition rebal :: "string \<Rightarrow> int \<Rightarrow> Group \<Rightarrow> Group" where
  "rebal exitType r g =
     (if exitType = MLExitTypeSL then g\<lparr>gSLLevels := rebalance_levels (gSLLevelConfigs g) r (gSLLevels g)\<rparr>
      else g\<lparr>gTPLevels := rebalance_levels (gTPLevelConfigs g) r (gTPLevels g)\<rparr>)"

definition side_levels :: "string \<Rightarrow> Group \<Rightarrow> ExitLevelState list" where
  "side_levels exitType g = (if exitType = MLExitTypeSL then gSLLevels g else gTPLevels g)"

definition paper_exit :: "string \<Rightarrow> nat \<Rightarrow> float64 \<Rightarrow> Group \<Rightarrow> Group" where
  "paper_exit exitType i price g =
     (let g1 = trigger_level exitType i (side_levels exitType g ! i) price g
      in if 0 < gRemainingQty g1 then rebal (other_side exitType) (gRemainingQty g1) g1 else g1)"

definition live_exit :: "string \<Rightarrow> nat \<Rightarrow> float64 \<Rightarrow> Group \<Rightarrow> Group" where
  "live_exit exitType i price g =
     (let g1 = trigger_level exitType i (side_levels exitType g ! i) price g
      in if 0 < gRemainingQty g1
         then rebal (other_side exitType) (gRemainingQty g1) (rebal exitType (gRemainingQty g1) g1) else g1)"

text \<open>A group whose stop is one broker order.\<close>

definition single :: "Group \<Rightarrow> bool" where
  "single g \<longleftrightarrow> gTradingMode g = ''LIVE'' \<and> gSLMode g \<noteq> SLModeMultiLevel"

definition open_level :: "string \<Rightarrow> nat \<Rightarrow> Group \<Rightarrow> bool" where
  "open_level exitType i g \<longleftrightarrow> exitType \<in> {MLExitTypeSL, MLExitTypeTP} \<and>
     i < length (side_levels exitType g) \<and> lStatus (side_levels exitType g ! i) = LevelActive"

inductive group_step :: "Group \<Rightarrow> Group \<Rightarrow> bool" where
  gs_fill: "\<not> gEntryFilled g \<Longrightarrow> group_step g (fill_group g p q sl tp fresh)"
| gs_eval: "group_step g (g\<lparr>gEvaluating := e\<rparr>)"
| gs_place: "single g \<Longrightarrow>
    group_step g (g\<lparr>gSingleSLBrokerID := b, gSingleSLOrderID := i, gCurrentSLTrigger := t\<rparr>)"
| gs_clear: "group_step g (g\<lparr>gSingleSLBrokerID := []\<rparr>)"
| gs_peak: "CalcTrailingSL g ltp = Some t \<Longrightarrow> group_step g (g\<lparr>gHighestPrice := ltp\<rparr>)"
| gs_trail: "group_step g (g\<lparr>gCurrentSLTrigger := t\<rparr>)"
| gs_broker_sl: "i < length (gSLLevels g) \<Longrightarrow>
    group_step g (g\<lparr>gSLLevels := (gSLLevels g)[i := (gSLLevels g ! i)\<lparr>lBrokerOrderID := b\<rparr>]\<rparr>)"
| gs_broker_tp: "i < length (gTPLevels g) \<Longrightarrow>
    group_step g (g\<lparr>gTPLevels := (gTPLevels g)[i := (gTPLevels g ! i)\<lparr>lBrokerOrderID := b\<rparr>]\<rparr>)"
| gs_paper: "gTradingMode g \<noteq> ''LIVE'' \<Longrightarrow> gState g = GroupStateActive \<Longrightarrow> open_level et i g \<Longrightarrow>
    group_step g (paper_exit et i price g)"
| gs_live_tp: "gTradingMode g = ''LIVE'' \<Longrightarrow> gTPMode g \<noteq> TPModeMultiLevel \<Longrightarrow> gState g = GroupStateActive \<Longrightarrow>
    open_level MLExitTypeTP i g \<Longrightarrow>
    group_step g (trigger_level MLExitTypeTP i (gTPLevels g ! i) price g)"
| gs_live: "open_level et i g \<Longrightarrow> group_step g (live_exit et i price g)"
| gs_single_fill: "single g \<Longrightarrow>
    group_step g ((reduce_remaining q g)\<lparr>gTPLevels := map cancel_open (gTPLevels g)\<rparr>)"
| gs_cancel: "gState g = GroupStateActive \<Longrightarrow> group_step g (g\<lparr>gState := GroupStateCancelled\<rparr>)"
| gs_cancel_sl: "gState g \<noteq> GroupStateActive \<Longrightarrow> group_step g (g\<lparr>gSLLevels := map cancel_active (gSLLevels g)\<rparr>)"
| gs_cancel_tp: "gState g \<noteq> GroupStateActive \<Longrightarrow> group_step g (g\<lparr>gTPLevels := map cancel_active (gTPLevels g)\<rparr>)"
| gs_cancel_one: "gState g \<noteq> GroupStateActive \<Longrightarrow> open_level MLExitTypeTP i g \<Longrightarrow>
    group_step g (g\<lparr>gTPLevels := (gTPLevels g)[i := markCancelled (gTPLevels g ! i)]\<rparr>)"

lemma exit_types [simp]: "MLExitTypeSL \<noteq> MLExitTypeTP" "MLExitTypeTP \<noteq> MLExitTypeSL"
  by (simp_all add: MLExitTypeSL_def MLExitTypeTP_def)

lemma other_side_simps [simp]:
  "other_side MLExitTypeSL = MLExitTypeTP" "other_side MLExitTypeTP = MLExitTypeSL"
  by (simp_all add: other_side_def)

section \<open>Rebalancing one side\<close>

lemma map_update_same: "f x = f (xs ! i) \<Longrightarrow> map f (xs[i := x]) = map f xs"
  by (metis list_update_id map_update)

definition active_sum :: "ExitLevelState list \<Rightarrow> int" where
  "active_sum ls = sum_list (map lExitQty (filter (\<lambda>l. lStatus l = LevelActive) ls))"

lemma active_sum_simps [simp]:
  "active_sum [] = 0"
  "active_sum (l # ls) = (if lStatus l = LevelActive then lExitQty l else 0) + active_sum ls"
  by (auto simp: active_sum_def)

lemma active_sum_update:
  "i < length ls \<Longrightarrow> active_sum (ls[i := l]) =
     active_sum ls - (if lStatus (ls ! i) = LevelActive then lExitQty (ls ! i) else 0)
       + (if lStatus l = LevelActive then lExitQty l else 0)"
proof (induction ls arbitrary: i)
  case (Cons a ls) then show ?case by (cases i) auto
qed simp

lemma active_sum_elem:
  assumes "\<forall>l \<in> set ls. lStatus l = LevelActive \<longrightarrow> 0 \<le> lExitQty l"
  shows "0 \<le> active_sum ls" and "l \<in> set ls \<Longrightarrow> lStatus l = LevelActive \<Longrightarrow> lExitQty l \<le> active_sum ls"
  using assms by (induction ls) auto

text \<open>What rebalancing keeps of a level.\<close>

definition same_level :: "ExitLevelState \<Rightarrow> ExitLevelState \<Rightarrow> bool" where
  "same_level l l' \<longleftrightarrow> l' = l \<or> (lStatus l = LevelActive \<and> (\<exists>q. l' = l\<lparr>lExitQty := q\<rparr>))"

lemma same_level_refl [simp]: "same_level l l"
  by (simp add: same_level_def)

lemma assign_qtys_same: "list_all2 same_level ls (assign_qtys cfgs ls qs)"
proof (induction ls arbitrary: qs)
  case (Cons l ls)
  then show ?case
    by (auto simp: is_item_def same_level_def list_all2_refl split: list.splits)
qed simp

lemma rebalance_same: "list_all2 same_level ls (rebalance_levels cfgs r ls)"
  by (simp add: rebalance_levels_def Let_def assign_qtys_same list_all2_refl)

lemma assign_qtys_sum:
  assumes "length qs = length (filter (is_item cfgs) ls)"
    and "\<forall>l \<in> set ls. lStatus l = LevelActive \<longrightarrow> is_item cfgs l"
  shows "active_sum (assign_qtys cfgs ls qs) = sum_list qs"
  using assms
proof (induction ls arbitrary: qs)
  case (Cons l ls)
  then show ?case by (cases qs) (auto simp: is_item_def)
qed simp

lemma assign_qtys_nonneg:
  assumes "length qs = length (filter (is_item cfgs) ls)" "\<forall>q \<in> set qs. 0 \<le> q"
    and "\<forall>l \<in> set ls. lStatus l = LevelActive \<longrightarrow> is_item cfgs l"
  shows "\<forall>l \<in> set (assign_qtys cfgs ls qs). lStatus l = LevelActive \<longrightarrow> 0 \<le> lExitQty l"
  using assms
proof (induction ls arbitrary: qs)
  case (Cons l ls)
  then show ?case
  proof (cases "is_item cfgs l")
    case True
    with Cons.prems(1) obtain q qs' where "qs = q # qs'" by (cases qs) auto
    then show ?thesis using Cons True by auto
  next
    case False
    then have "lStatus l \<noteq> LevelActive" using Cons.prems(3) by auto
    then show ?thesis using Cons.IH [of qs] Cons.prems False by auto
  qed
qed simp

definition cfgs_ok :: "SLTPLevelConfig list \<Rightarrow> bool" where
  "cfgs_ok cs \<longleftrightarrow> (\<forall>c \<in> set cs. 0 < cfgQtyPct c \<and> cfgQtyPct c \<le> 100) \<and> length cs \<le> 1024"

definition side_ok :: "SLTPLevelConfig list \<Rightarrow> int \<Rightarrow> ExitLevelState list \<Rightarrow> bool" where
  "side_ok cs r ls \<longleftrightarrow> map lLevelNum ls = map cfgLevelNum cs \<and>
     (\<forall>l \<in> set ls. lStatus l = LevelActive \<longrightarrow> 0 \<le> lExitQty l) \<and> (ls \<noteq> [] \<longrightarrow> active_sum ls = r)"

lemma cfg_pct_pos:
  assumes "cfgs_ok cs" "n \<in> set (map cfgLevelNum cs)"
  shows "0 < cfg_pct cs n"
  using assms by (auto simp: cfg_pct_def cfgs_ok_def find_None_iff find_Some_iff split: option.splits)

lemma side_items:
  assumes "cfgs_ok cs" "map lLevelNum ls = map cfgLevelNum cs" "l \<in> set ls"
  shows "is_item cs l \<longleftrightarrow> lStatus l = LevelActive"
proof -
  have "lLevelNum l \<in> set (map cfgLevelNum cs)" using assms(2,3) by (metis image_eqI set_map)
  then have "0 < cfg_pct cs (lLevelNum l)" by (rule cfg_pct_pos [OF assms(1)])
  then show ?thesis by (simp add: is_item_def)
qed

lemma same_level_nums: "list_all2 same_level ls ls' \<Longrightarrow> map lLevelNum ls' = map lLevelNum ls"
  by (induction rule: list_all2_induct) (auto simp: same_level_def)

text \<open>Rebalancing makes a side fit any open quantity, whatever it summed to before.\<close>

lemma rebalance_side_ok:
  assumes "cfgs_ok cs" "map lLevelNum ls = map cfgLevelNum cs" "lot r"
    and act: "ls = [] \<or> (\<exists>l \<in> set ls. lStatus l = LevelActive)"
  shows "side_ok cs r (rebalance_levels cs r ls)"
proof (cases "ls = []")
  case False
  define ps where "ps = map (\<lambda>l. cfg_pct cs (lLevelNum l)) (filter (is_item cs) ls)"
  note it = side_items [OF assms(1,2)]
  have len: "length ls \<le> 1024" using assms(1,2) by (metis cfgs_ok_def length_map)
  have ok: "rebalance_ok ps"
    using le_trans [OF length_filter_le len] by (auto simp: rebalance_ok_def ps_def is_item_def)
  have ne: "ps \<noteq> []" using act False it by (auto simp: ps_def filter_empty_conv)
  have pos: "0 < fsum ps" using ok ne sum_ratio_bounds(1) by (auto simp: rebalance_ok_def)
  define qs where "qs = computeRebalancedQtys ps (fsum ps) r"
  have eq: "rebalance_levels cs r ls = assign_qtys cs ls qs"
    using ne pos by (simp add: rebalance_levels_def Let_def ps_def qs_def)
  have l: "length qs = length (filter (is_item cs) ls)"
    using rebalance_split.split_length [of ps r] by (simp add: qs_def ps_def)
  have s: "sum_list qs = r" using rebalance_split.split_sum [OF ok ne assms(3)] by (simp add: qs_def)
  have nn: "\<forall>q \<in> set qs. 0 \<le> q" using rebalance_split.split_nonneg [OF ok assms(3)] by (simp add: qs_def)
  have its: "\<forall>l \<in> set ls. lStatus l = LevelActive \<longrightarrow> is_item cs l" using it by blast
  show ?thesis
    unfolding side_ok_def eq
    using assign_qtys_sum [OF l its] s assign_qtys_nonneg [OF l nn its]
      same_level_nums [OF assign_qtys_same] assms(2) by auto
qed (use assms(2) in \<open>simp add: rebalance_levels_def side_ok_def\<close>)

lemma side_ok_active:
  assumes "side_ok cs r ls" "0 < r"
  shows "ls = [] \<or> (\<exists>l \<in> set ls. lStatus l = LevelActive)"
proof (rule ccontr)
  assume "\<not> ?thesis"
  then have "filter (\<lambda>l. lStatus l = LevelActive) ls = []" "ls \<noteq> []" by auto
  then have "active_sum ls = 0" by (simp add: active_sum_def)
  then show False using assms \<open>ls \<noteq> []\<close> by (auto simp: side_ok_def)
qed

text \<open>The level that fires takes its quantity out of its own side.\<close>

lemma side_ok_trigger:
  assumes "side_ok cs r ls" "i < length ls" "lStatus (ls ! i) = LevelActive"
  shows "side_ok cs (r - lExitQty (ls ! i)) (ls[i := (ls ! i)\<lparr>lStatus := LevelTriggered, lExitPrice := p\<rparr>])"
    and "0 \<le> lExitQty (ls ! i)" "lExitQty (ls ! i) \<le> r"
proof -
  let ?l = "(ls ! i)\<lparr>lStatus := LevelTriggered, lExitPrice := p\<rparr>"
  have ls: "ls \<noteq> []" and mem: "ls ! i \<in> set ls" using assms(2) by auto
  have n: "map lLevelNum (ls[i := ?l]) = map lLevelNum ls"
    by (rule map_update_same) simp
  have u: "active_sum (ls[i := ?l]) = r - lExitQty (ls ! i)"
    using active_sum_update [OF assms(2), of ?l] assms ls by (simp add: side_ok_def)
  have "\<forall>l \<in> set (ls[i := ?l]). lStatus l = LevelActive \<longrightarrow> 0 \<le> lExitQty l"
    using assms(1) set_update_subset_insert [of ls i ?l] by (auto simp: side_ok_def)
  then show "side_ok cs (r - lExitQty (ls ! i)) (ls[i := ?l])"
    using u n assms(1) by (simp add: side_ok_def)
  show "0 \<le> lExitQty (ls ! i)" "lExitQty (ls ! i) \<le> r"
    using active_sum_elem(2) [of ls "ls ! i"] assms ls mem by (auto simp: side_ok_def)
qed

section \<open>What never changes\<close>

definition level_evolves :: "ExitLevelState \<Rightarrow> ExitLevelState \<Rightarrow> bool" where
  "level_evolves l l' \<longleftrightarrow>
     lLevelNum l' = lLevelNum l \<and> lTriggerPrice l' = lTriggerPrice l \<and>
     lOriginalExitQty l' = lOriginalExitQty l \<and> lExitOrderID l' = lExitOrderID l \<and>
     (case lStatus l of
        LevelActive \<Rightarrow> lStatus l' \<noteq> LevelPending
      | LevelPending \<Rightarrow> lStatus l' = LevelPending \<or> lStatus l' = LevelCancelled
      | _ \<Rightarrow> lStatus l' = lStatus l \<and> lExitPrice l' = lExitPrice l \<and> lExitQty l' = lExitQty l)"

lemma level_evolves_refl [simp]: "level_evolves l l"
  by (simp add: level_evolves_def split: LevelStatus.splits)

lemma level_evolves_trans: "level_evolves l l1 \<Longrightarrow> level_evolves l1 l2 \<Longrightarrow> level_evolves l l2"
  by (auto simp: level_evolves_def split: LevelStatus.splits)

lemma level_evolves_all_trans:
  "list_all2 level_evolves ls ls1 \<Longrightarrow> list_all2 level_evolves ls1 ls2 \<Longrightarrow> list_all2 level_evolves ls ls2"
  by (rule list_all2_trans [OF level_evolves_trans])

lemma level_evolves_all_refl [simp]: "list_all2 level_evolves ls ls"
  by (simp add: list_all2_refl)

lemma level_evolves_update:
  "(i < length ls \<Longrightarrow> level_evolves (ls ! i) l) \<Longrightarrow> list_all2 level_evolves ls (ls[i := l])"
  by (cases "i < length ls") (auto simp: list_all2_conv_all_nth nth_list_update)

lemma level_evolves_map:
  "(\<And>l. level_evolves l (f l)) \<Longrightarrow> list_all2 level_evolves ls (map f ls)"
  by (simp add: list_all2_conv_all_nth)

lemma level_evolves_ops [simp]:
  "level_evolves l (cancel_active l)" "level_evolves l (cancel_open l)"
  "level_evolves l (l\<lparr>lBrokerOrderID := b\<rparr>)"
  "lStatus l = LevelActive \<Longrightarrow> level_evolves l (markCancelled l)"
  "lStatus l = LevelActive \<Longrightarrow> level_evolves l (l\<lparr>lStatus := LevelTriggered, lExitPrice := p\<rparr>)"
  by (auto simp: level_evolves_def cancel_active_def cancel_open_def markCancelled_def split: LevelStatus.splits)

lemma level_evolves_rebalance: "list_all2 level_evolves ls (rebalance_levels cs r ls)"
  by (rule list_all2_mono [OF rebalance_same]) (auto simp: same_level_def level_evolves_def split: LevelStatus.splits)

text \<open>
  The identity and the modes of a group never change; after the fill neither do the fill,
  the configurations and the set of levels; a group that stopped being active stays so.
\<close>

definition same_identity :: "Group \<Rightarrow> Group \<Rightarrow> bool" where
  "same_identity g g' \<longleftrightarrow> gGroupID g' = gGroupID g \<and> gEntryOrderID g' = gEntryOrderID g \<and>
     gUserID g' = gUserID g \<and> gSymbol g' = gSymbol g \<and> gExchange g' = gExchange g \<and>
     gStockCode g' = gStockCode g \<and> gOrderSide g' = gOrderSide g \<and> gSLMode g' = gSLMode g \<and>
     gTPMode g' = gTPMode g \<and> gTradingMode g' = gTradingMode g"

definition same_fill :: "Group \<Rightarrow> Group \<Rightarrow> bool" where
  "same_fill g g' \<longleftrightarrow> gEntryFilled g' \<and> gFillPrice g' = gFillPrice g \<and> gTotalQty g' = gTotalQty g \<and>
     gSLLevelConfigs g' = gSLLevelConfigs g \<and> gTPLevelConfigs g' = gTPLevelConfigs g \<and>
     list_all2 level_evolves (gSLLevels g) (gSLLevels g') \<and> list_all2 level_evolves (gTPLevels g) (gTPLevels g')"

definition evolves :: "Group \<Rightarrow> Group \<Rightarrow> bool" where
  "evolves g g' \<longleftrightarrow> same_identity g g' \<and> (gEntryFilled g \<longrightarrow> same_fill g g') \<and>
     (gState g \<noteq> GroupStateActive \<longrightarrow> gState g' \<noteq> GroupStateActive)"

lemmas evolves_defs = evolves_def same_identity_def same_fill_def

lemma evolves_refl: "evolves g g"
  by (simp add: evolves_defs)

lemma evolves_trans: "evolves g g1 \<Longrightarrow> evolves g1 g2 \<Longrightarrow> evolves g g2"
  by (auto simp: evolves_defs intro: level_evolves_all_trans)

lemma evolves_rebal: "evolves g (rebal et r g)"
  by (auto simp: evolves_defs rebal_def level_evolves_rebalance)

lemma reduce_remaining_frame [simp]:
  "gGroupID (reduce_remaining q g) = gGroupID g" "gSLLevels (reduce_remaining q g) = gSLLevels g"
  "gTPLevels (reduce_remaining q g) = gTPLevels g" "gEntryFilled (reduce_remaining q g) = gEntryFilled g"
  "gSLLevelConfigs (reduce_remaining q g) = gSLLevelConfigs g"
  "gTPLevelConfigs (reduce_remaining q g) = gTPLevelConfigs g"
  "gTotalQty (reduce_remaining q g) = gTotalQty g" "gRemainingQty (reduce_remaining q g) = i32 (gRemainingQty g - q)"
  by (simp_all add: reduce_remaining_def Let_def)

lemma evolves_reduce: "evolves g (reduce_remaining q g)"
  by (auto simp: evolves_defs reduce_remaining_def Let_def)

lemma evolves_trigger:
  assumes "open_level et i g"
  shows "evolves g (trigger_level et i (side_levels et g ! i) price g)"
proof -
  have "evolves g (if et = MLExitTypeSL
      then g\<lparr>gSLLevels := (gSLLevels g)[i := (side_levels et g ! i)\<lparr>lStatus := LevelTriggered, lExitPrice := price\<rparr>]\<rparr>
      else g\<lparr>gTPLevels := (gTPLevels g)[i := (side_levels et g ! i)\<lparr>lStatus := LevelTriggered, lExitPrice := price\<rparr>]\<rparr>)"
    using assms by (auto simp: open_level_def side_levels_def evolves_defs intro!: level_evolves_update)
  from evolves_trans [OF this evolves_reduce] show ?thesis by (simp add: trigger_level_def Let_def)
qed

lemma evolves_fill: "\<not> gEntryFilled g \<Longrightarrow> evolves g (fill_group g p q sl tp fresh)"
  by (simp add: evolves_defs fill_group_def Let_def)

lemma evolves_paper_exit: "open_level et i g \<Longrightarrow> evolves g (paper_exit et i price g)"
  using evolves_trigger [of et i g price] by (auto simp: paper_exit_def Let_def intro: evolves_trans evolves_rebal)

lemma evolves_live_exit: "open_level et i g \<Longrightarrow> evolves g (live_exit et i price g)"
  using evolves_trigger [of et i g price]
  by (auto simp: live_exit_def Let_def intro: evolves_trans [OF _ evolves_trans [OF evolves_rebal evolves_rebal]])

lemma evolves_single_fill: "evolves g ((reduce_remaining q g)\<lparr>gTPLevels := map cancel_open (gTPLevels g)\<rparr>)"
  by (rule evolves_trans [OF evolves_reduce]) (auto simp: evolves_defs level_evolves_map)

lemma group_step_evolves: "group_step g g' \<Longrightarrow> evolves g g'"
proof (induction rule: group_step.induct)
  case (gs_live_tp g i price)
  then show ?case using evolves_trigger [of MLExitTypeTP i g price] by (simp add: side_levels_def)
next
  case (gs_cancel_one g i)
  then show ?case
    by (auto simp: evolves_defs open_level_def side_levels_def intro!: level_evolves_update)
next
  case (gs_fill g p q sl tp fresh)
  then show ?case by (rule evolves_fill)
next
  case (gs_paper g et i price)
  then show ?case by (intro evolves_paper_exit)
next
  case (gs_live et i g price)
  then show ?case by (rule evolves_live_exit)
next
  case (gs_single_fill g q)
  show ?case by (rule evolves_single_fill)
qed (auto simp: evolves_defs intro!: level_evolves_update level_evolves_map)

lemma group_steps_evolves: "group_step\<^sup>*\<^sup>* g g' \<Longrightarrow> evolves g g'"
  by (induction rule: rtranclp_induct) (auto intro: evolves_refl evolves_trans group_step_evolves)

section \<open>Conservation of the position\<close>

text \<open>
  The groups whose exits are all counted by their levels: paper groups, and live groups
  with one broker order per level on every side they use.
\<close>

definition managed :: "Group \<Rightarrow> bool" where
  "managed g \<longleftrightarrow> gTradingMode g \<noteq> ''LIVE'' \<or>
     (gSLMode g = SLModeMultiLevel \<and> (gTPMode g = TPModeMultiLevel \<or> gTPLevels g = []))"

definition conserving :: "Group \<Rightarrow> bool" where
  "conserving g \<longleftrightarrow> gEntryFilled g \<and> gState g = GroupStateActive \<and> managed g \<and>
     cfgs_ok (gSLLevelConfigs g) \<and> cfgs_ok (gTPLevelConfigs g) \<and> lot (gTotalQty g)"

definition conserved :: "Group \<Rightarrow> bool" where
  "conserved g \<longleftrightarrow> (\<not> gEntryFilled g \<longrightarrow> gSLLevels g = [] \<and> gTPLevels g = []) \<and>
     (conserving g \<longrightarrow> 0 \<le> gRemainingQty g \<and> gRemainingQty g \<le> gTotalQty g \<and>
        side_ok (gSLLevelConfigs g) (gRemainingQty g) (gSLLevels g) \<and>
        side_ok (gTPLevelConfigs g) (gRemainingQty g) (gTPLevels g))"

lemma build_levels_simps:
  "map lLevelNum (build_levels price cs q fresh) = map cfgLevelNum cs"
  "map lExitQty (build_levels price cs q fresh) = computeInitialExitQtys cs q"
  "l \<in> set (build_levels price cs q fresh) \<Longrightarrow> lStatus l = LevelActive"
  "build_levels price cs q fresh = [] \<longleftrightarrow> cs = []"
proof -
  define f where "f = (\<lambda>(c :: SLTPLevelConfig, q') i. \<lparr> lLevelNum = cfgLevelNum c, lTriggerPrice = price (cfgPricePct c), lExitQty = q',
                        lOriginalExitQty = q', lStatus = LevelActive, lBrokerOrderID = [],
                        lExitOrderID = i, lExitPrice = 0 \<rparr>)"
  define zs where "zs = zip (zip cs (computeInitialExitQtys cs q)) [fresh..<fresh + length cs]"
  have len: "length zs = length cs" by (simp add: zs_def computeInitialExitQtys_length)
  have e: "build_levels price cs q fresh = map (\<lambda>(x, y). f x y) zs"
    by (simp add: build_levels_def f_def zs_def)
  show "map lLevelNum (build_levels price cs q fresh) = map cfgLevelNum cs"
    using len by (intro nth_equalityI) (auto simp: e f_def zs_def computeInitialExitQtys_length)
  show "map lExitQty (build_levels price cs q fresh) = computeInitialExitQtys cs q"
    using len by (intro nth_equalityI) (auto simp: e f_def zs_def computeInitialExitQtys_length)
  show "l \<in> set (build_levels price cs q fresh) \<Longrightarrow> lStatus l = LevelActive"
    by (auto simp: e f_def)
  show "build_levels price cs q fresh = [] \<longleftrightarrow> cs = []" using len e by (metis length_0_conv length_map)
qed

lemma active_sum_all: "(\<And>l. l \<in> set ls \<Longrightarrow> lStatus l = LevelActive) \<Longrightarrow> active_sum ls = sum_list (map lExitQty ls)"
  by (induction ls) auto

lemma build_levels_side_ok:
  assumes "cfgs_ok cs" "lot q"
  shows "side_ok cs q (build_levels price cs q fresh)"
proof -
  have ok: "pcts_ok cs" using assms(1) by (auto simp: cfgs_ok_def pcts_ok_def less_imp_le)
  have s: "active_sum (build_levels price cs q fresh) = sum_list (computeInitialExitQtys cs q)"
    using active_sum_all [of "build_levels price cs q fresh"] build_levels_simps(2,3) by metis
  have nn: "0 \<le> lExitQty l" if "l \<in> set (build_levels price cs q fresh)" for l
    using that initial_split.split_nonneg [OF ok assms(2)] build_levels_simps(2) [of price cs q fresh]
    by (metis image_eqI set_map)
  show ?thesis
    using s nn initial_split.split_sum [OF ok _ assms(2)]
    by (simp add: side_ok_def build_levels_simps(1,4))
qed

lemma fill_group_conserved:
  assumes "\<not> gEntryFilled g" "conserved g"
  shows "conserved (fill_group g p q sl tp fresh)"
proof -
  have "gSLLevels g = []" "gTPLevels g = []" using assms by (auto simp: conserved_def)
  then show ?thesis
    by (auto simp: conserved_def conserving_def fill_group_def Let_def lot_def build_levels_side_ok)
qed

lemma managed_rebal [simp]: "managed (rebal et r g) \<longleftrightarrow> managed g"
  using list_all2_lengthD [OF rebalance_same, of "gTPLevels g" "gTPLevelConfigs g" r]
  by (auto simp: managed_def rebal_def)

lemma conserving_back:
  assumes "evolves g g'" "gEntryFilled g" "conserving g'"
  shows "conserving g"
proof -
  have "gTPLevels g = [] \<longleftrightarrow> gTPLevels g' = []"
    using assms(1,2) by (auto simp: evolves_defs dest: list_all2_lengthD)
  then show ?thesis using assms by (auto simp: evolves_defs conserving_def managed_def)
qed

text \<open>An invariant need only be shown for the steps of a filled group that keep it conserving.\<close>

lemma conserved_step:
  assumes "conserved g" "evolves g g'" "gEntryFilled g"
    and "conserving g \<Longrightarrow> conserving g' \<Longrightarrow> 0 \<le> gRemainingQty g' \<and> gRemainingQty g' \<le> gTotalQty g' \<and>
        side_ok (gSLLevelConfigs g') (gRemainingQty g') (gSLLevels g') \<and>
        side_ok (gTPLevelConfigs g') (gRemainingQty g') (gTPLevels g')"
  shows "conserved g'"
  using assms conserving_back [OF assms(2,3)] unfolding conserved_def evolves_defs by blast

lemma lot_sub: "lot t \<Longrightarrow> 0 \<le> q \<Longrightarrow> q \<le> r \<Longrightarrow> r \<le> t \<Longrightarrow> i32 (r - q) = r - q \<and> lot (r - q)"
  by (auto simp: lot_def i32_id is_i32_def)

lemma trigger_simps:
  "gRemainingQty (trigger_level et i l p g) = i32 (gRemainingQty g - lExitQty l)"
  "gTotalQty (trigger_level et i l p g) = gTotalQty g"
  "gEntryFilled (trigger_level et i l p g) = gEntryFilled g"
  "gSLLevelConfigs (trigger_level et i l p g) = gSLLevelConfigs g"
  "gTPLevelConfigs (trigger_level et i l p g) = gTPLevelConfigs g"
  "gSLLevels (trigger_level MLExitTypeSL i l p g) = (gSLLevels g)[i := l\<lparr>lStatus := LevelTriggered, lExitPrice := p\<rparr>]"
  "gTPLevels (trigger_level MLExitTypeSL i l p g) = gTPLevels g"
  "gTPLevels (trigger_level MLExitTypeTP i l p g) = (gTPLevels g)[i := l\<lparr>lStatus := LevelTriggered, lExitPrice := p\<rparr>]"
  "gSLLevels (trigger_level MLExitTypeTP i l p g) = gSLLevels g"
  "gRemainingQty (trigger_level et i l p g) \<le> 0 \<Longrightarrow> gState (trigger_level et i l p g) = GroupStateCompleted"
  by (auto simp: trigger_level_def Let_def reduce_remaining_def)

lemma trigger_sides:
  fixes price :: float64
  assumes "conserved g" "conserving g" "open_level et i g"
  defines "l \<equiv> side_levels et g ! i" and "g1 \<equiv> trigger_level et i (side_levels et g ! i) price g"
  shows "gRemainingQty g1 = gRemainingQty g - lExitQty l" "lot (gRemainingQty g1)"
    "gRemainingQty g1 \<le> gRemainingQty g" "gRemainingQty g1 \<le> gTotalQty g1"
    "et = MLExitTypeSL \<Longrightarrow> side_ok (gSLLevelConfigs g1) (gRemainingQty g1) (gSLLevels g1)"
    "et = MLExitTypeSL \<Longrightarrow> side_ok (gTPLevelConfigs g1) (gRemainingQty g) (gTPLevels g1)"
    "et = MLExitTypeTP \<Longrightarrow> side_ok (gTPLevelConfigs g1) (gRemainingQty g1) (gTPLevels g1)"
    "et = MLExitTypeTP \<Longrightarrow> side_ok (gSLLevelConfigs g1) (gRemainingQty g) (gSLLevels g1)"
proof -
  define cs where "cs = (if et = MLExitTypeSL then gSLLevelConfigs g else gTPLevelConfigs g)"
  have inv: "0 \<le> gRemainingQty g" "gRemainingQty g \<le> gTotalQty g" "lot (gTotalQty g)"
    "side_ok (gSLLevelConfigs g) (gRemainingQty g) (gSLLevels g)"
    "side_ok (gTPLevelConfigs g) (gRemainingQty g) (gTPLevels g)"
    using assms(1,2) by (auto simp: conserved_def conserving_def)
  have o: "i < length (side_levels et g)" "lStatus l = LevelActive" "et \<in> {MLExitTypeSL, MLExitTypeTP}"
    using assms(3) by (auto simp: open_level_def l_def)
  have side: "side_ok cs (gRemainingQty g) (side_levels et g)"
    using inv(4,5) by (auto simp: cs_def side_levels_def)
  note t = side_ok_trigger [OF side o(1) o(2) [unfolded l_def], folded l_def]
  have q: "i32 (gRemainingQty g - lExitQty l) = gRemainingQty g - lExitQty l" "lot (gRemainingQty g - lExitQty l)"
    using lot_sub [OF inv(3) t(2,3) inv(2)] by auto
  show r: "gRemainingQty g1 = gRemainingQty g - lExitQty l"
    using q(1) unfolding g1_def l_def trigger_simps(1) .
  show "lot (gRemainingQty g1)" using q(2) r by simp
  show "gRemainingQty g1 \<le> gRemainingQty g" "gRemainingQty g1 \<le> gTotalQty g1"
    using r t(2) inv(2) by (auto simp: g1_def trigger_simps)
  show "et = MLExitTypeSL \<Longrightarrow> side_ok (gSLLevelConfigs g1) (gRemainingQty g1) (gSLLevels g1)"
    "et = MLExitTypeTP \<Longrightarrow> side_ok (gTPLevelConfigs g1) (gRemainingQty g1) (gTPLevels g1)"
    using t(1) [of price] unfolding r by (auto simp: g1_def trigger_simps cs_def side_levels_def l_def)
  show "et = MLExitTypeSL \<Longrightarrow> side_ok (gTPLevelConfigs g1) (gRemainingQty g) (gTPLevels g1)"
    "et = MLExitTypeTP \<Longrightarrow> side_ok (gSLLevelConfigs g1) (gRemainingQty g) (gSLLevels g1)"
    using inv(4,5) by (auto simp: g1_def trigger_simps)
qed

lemma side_ok_rebalance:
  assumes "cfgs_ok cs" "side_ok cs r ls" "0 < r" "lot r'"
  shows "side_ok cs r' (rebalance_levels cs r' ls)"
  using rebalance_side_ok [OF assms(1) _ assms(4) side_ok_active [OF assms(2,3)]] assms(2)
  by (simp add: side_ok_def)

lemma rebal_simps:
  "gRemainingQty (rebal et r g) = gRemainingQty g" "gTotalQty (rebal et r g) = gTotalQty g"
  "gState (rebal et r g) = gState g" "gSLLevelConfigs (rebal et r g) = gSLLevelConfigs g"
  "gTPLevelConfigs (rebal et r g) = gTPLevelConfigs g" "gEntryFilled (rebal et r g) = gEntryFilled g"
  "gSLLevels (rebal MLExitTypeSL r g) = rebalance_levels (gSLLevelConfigs g) r (gSLLevels g)"
  "gTPLevels (rebal MLExitTypeSL r g) = gTPLevels g" "gSLLevels (rebal MLExitTypeTP r g) = gSLLevels g"
  "gTPLevels (rebal MLExitTypeTP r g) = rebalance_levels (gTPLevelConfigs g) r (gTPLevels g)"
  by (simp_all add: rebal_def)

lemma open_level_filled: "conserved g \<Longrightarrow> open_level et i g \<Longrightarrow> gEntryFilled g"
  by (auto simp: conserved_def open_level_def side_levels_def split: if_splits)

text \<open>Both kinds of exit keep the position conserved.\<close>

lemma exit_conserved:
  assumes c: "conserved g" and o: "open_level et i g"
    and g': "g' = paper_exit et i price g \<or> g' = live_exit et i price g"
  shows "conserved g'"
proof -
  define g1 where "g1 = trigger_level et i (side_levels et g ! i) price g"
  have ev: "evolves g g'" using g' o evolves_paper_exit evolves_live_exit by blast
  have fl: "gEntryFilled g" by (rule open_level_filled [OF c o])
  show ?thesis
  proof (rule conserved_step [OF c ev fl])
    assume cg: "conserving g" and cg': "conserving g'"
    note t = trigger_sides [OF c cg o, of price, folded g1_def]
    have pos: "0 < gRemainingQty g1"
    proof (rule ccontr)
      assume "\<not> ?thesis"
      then have "g' = g1" "gState g1 = GroupStateCompleted"
        using g' trigger_simps(10) by (auto simp: paper_exit_def live_exit_def Let_def g1_def)
      then show False using cg' by (simp add: conserving_def)
    qed
    have ok: "cfgs_ok (gSLLevelConfigs g1)" "cfgs_ok (gTPLevelConfigs g1)" "0 < gRemainingQty g"
      using cg pos t(3) by (auto simp: conserving_def g1_def trigger_simps)
    have "et = MLExitTypeSL \<or> et = MLExitTypeTP" using o by (auto simp: open_level_def)
    then show "0 \<le> gRemainingQty g' \<and> gRemainingQty g' \<le> gTotalQty g' \<and>
        side_ok (gSLLevelConfigs g') (gRemainingQty g') (gSLLevels g') \<and>
        side_ok (gTPLevelConfigs g') (gRemainingQty g') (gTPLevels g')"
      using pos g' t ok unfolding paper_exit_def live_exit_def Let_def g1_def [symmetric]
      by (auto simp: rebal_simps side_ok_rebalance)
  qed
qed

lemma group_step_conserved: "group_step g g' \<Longrightarrow> conserved g \<Longrightarrow> conserved g'"
proof (induction rule: group_step.induct)
  case (gs_fill g p q sl tp fresh) then show ?case by (simp add: fill_group_conserved)
next
  case (gs_paper g et i price) then show ?case by (auto intro: exit_conserved)
next
  case (gs_live et i g price) then show ?case by (auto intro: exit_conserved)
next
  case (gs_live_tp g i price)
  then have "gTPLevels g \<noteq> []" by (auto simp: open_level_def side_levels_def)
  then have "\<not> managed (trigger_level MLExitTypeTP i (gTPLevels g ! i) price g)"
    using gs_live_tp by (auto simp: managed_def trigger_level_def Let_def reduce_remaining_def)
  moreover have "gEntryFilled g" using gs_live_tp open_level_filled by blast
  ultimately show ?case by (auto simp: conserved_def conserving_def trigger_simps)
next
  case (gs_single_fill g q)
  then show ?case
    by (auto simp: conserved_def conserving_def managed_def single_def reduce_remaining_def Let_def)
next
  case (gs_broker_sl i g b)
  let ?ls = "(gSLLevels g)[i := (gSLLevels g ! i)\<lparr>lBrokerOrderID := b\<rparr>]"
  have "side_ok cs r (gSLLevels g) \<Longrightarrow> side_ok cs r ?ls" for cs r
    using gs_broker_sl(1) set_update_subset_insert [of "gSLLevels g" i "(gSLLevels g ! i)\<lparr>lBrokerOrderID := b\<rparr>"]
    by (auto simp: side_ok_def active_sum_update map_update_same)
  then show ?case using gs_broker_sl by (auto simp: conserved_def conserving_def managed_def)
next
  case (gs_broker_tp i g b)
  let ?ls = "(gTPLevels g)[i := (gTPLevels g ! i)\<lparr>lBrokerOrderID := b\<rparr>]"
  have "side_ok cs r (gTPLevels g) \<Longrightarrow> side_ok cs r ?ls" for cs r
    using gs_broker_tp(1) set_update_subset_insert [of "gTPLevels g" i "(gTPLevels g ! i)\<lparr>lBrokerOrderID := b\<rparr>"]
    by (auto simp: side_ok_def active_sum_update map_update_same)
  then show ?case using gs_broker_tp by (auto simp: conserved_def conserving_def managed_def)
qed (auto simp: conserved_def conserving_def managed_def)

lemma group_steps_conserved: "group_step\<^sup>*\<^sup>* g g' \<Longrightarrow> conserved g \<Longrightarrow> conserved g'"
  by (induction rule: rtranclp_induct) (auto intro: group_step_conserved)

text \<open>A group has no levels before its fill.\<close>

definition no_levels_before_fill :: "Group \<Rightarrow> bool" where
  "no_levels_before_fill g \<longleftrightarrow> gEntryFilled g \<or> (gSLLevels g = [] \<and> gTPLevels g = [])"

lemma group_step_no_levels: "group_step g g' \<Longrightarrow> no_levels_before_fill g \<Longrightarrow> no_levels_before_fill g'"
proof (induction rule: group_step.induct)
  case (gs_paper g et i price)
  then have "gEntryFilled g" by (auto simp: open_level_def side_levels_def no_levels_before_fill_def split: if_splits)
  then show ?case
    using evolves_paper_exit gs_paper by (auto simp: evolves_defs no_levels_before_fill_def)
next
  case (gs_live et i g price)
  then have "gEntryFilled g" by (auto simp: open_level_def side_levels_def no_levels_before_fill_def split: if_splits)
  then show ?case
    using evolves_live_exit gs_live by (auto simp: evolves_defs no_levels_before_fill_def)
qed (auto simp: no_levels_before_fill_def open_level_def side_levels_def trigger_simps fill_group_def Let_def)

lemma group_steps_no_levels: "group_step\<^sup>*\<^sup>* g g' \<Longrightarrow> no_levels_before_fill g \<Longrightarrow> no_levels_before_fill g'"
  by (induction rule: rtranclp_induct) (auto intro: group_step_no_levels)

end
