(* ===== verification/MlRefine.thy ===== *)
theory MlRefine
  imports MlGroup
begin

text \<open>
  The manager refines the state machine of a group: whatever the manager does in one step,
  every group it holds makes some steps of \<open>group_step\<close>, and no other group appears under
  an identifier in use. The relation \<open>sim\<close> states this together with the well-formedness
  of the manager's indices (\<open>ml_wf\<close>) it depends on.
\<close>

section \<open>Well-formed states and simulation\<close>

definition single_at :: "ml_state \<Rightarrow> uuid \<Rightarrow> bool" where
  "single_at m gid \<longleftrightarrow> (\<exists>g. heap m gid = Some g \<and> single g)"

text \<open>The goroutines that act on the single stop order run for groups that have one.\<close>

definition task_single :: "task \<Rightarrow> uuid option" where
  "task_single t = (case t of
       TPlaceFixedSL gid qty \<Rightarrow> Some gid | TPlaceTrailingSL gid \<Rightarrow> Some gid
     | TReplaceSL gid qty \<Rightarrow> Some gid | TReplaceSLTrailing gid qty \<Rightarrow> Some gid
     | TOnSingleSLFilled gid p qty \<Rightarrow> Some gid | _ \<Rightarrow> None)"

definition ok_task :: "ml_state \<Rightarrow> task \<Rightarrow> bool" where
  "ok_task m t \<longleftrightarrow> (\<forall>gid. task_single t = Some gid \<longrightarrow> single_at m gid)"

definition ml_wf :: "ml_state \<Rightarrow> bool" where
  "ml_wf m \<longleftrightarrow> (\<forall>gid g. heap m gid = Some g \<longrightarrow> gGroupID g = gid \<and> gid < nextID m \<and> no_levels_before_fill g) \<and>
     (\<forall>b gid. singleSLIndex m b = Some gid \<longrightarrow> single_at m gid) \<and> (\<forall>t \<in> set (tasks m). ok_task m t)"

definition sim :: "ml_state \<Rightarrow> ml_state \<Rightarrow> bool" where
  "sim m m' \<longleftrightarrow>
     (\<forall>gid g. heap m gid = Some g \<longrightarrow> (\<exists>g'. heap m' gid = Some g' \<and> group_step\<^sup>*\<^sup>* g g')) \<and>
     (\<forall>gid g'. heap m gid = None \<longrightarrow> heap m' gid = Some g' \<longrightarrow>
        gGroupID g' = gid \<and> nextID m \<le> gid \<and> gid < nextID m' \<and> no_levels_before_fill g') \<and>
     nextID m \<le> nextID m' \<and>
     (\<forall>b gid. singleSLIndex m' b = Some gid \<longrightarrow> singleSLIndex m b = Some gid \<or> single_at m' gid) \<and>
     (\<forall>t \<in> set (tasks m'). t \<in> set (tasks m) \<or> ok_task m' t)"

lemma simD:
  assumes "sim m m'"
  shows "heap m gid = Some g \<Longrightarrow> \<exists>g'. heap m' gid = Some g' \<and> group_step\<^sup>*\<^sup>* g g'"
    and "heap m gid = None \<Longrightarrow> heap m' gid = Some g' \<Longrightarrow>
          gGroupID g' = gid \<and> nextID m \<le> gid \<and> gid < nextID m' \<and> no_levels_before_fill g'"
    and "nextID m \<le> nextID m'"
    and "singleSLIndex m' b = Some gid \<Longrightarrow> singleSLIndex m b = Some gid \<or> single_at m' gid"
    and "t \<in> set (tasks m') \<Longrightarrow> t \<in> set (tasks m) \<or> ok_task m' t"
  using assms by (auto simp: sim_def)

lemma ml_wfD:
  assumes "ml_wf m"
  shows "heap m gid = Some g \<Longrightarrow> gGroupID g = gid" and "heap m gid = Some g \<Longrightarrow> gid < nextID m"
    and "heap m gid = Some g \<Longrightarrow> no_levels_before_fill g"
    and "singleSLIndex m b = Some gid \<Longrightarrow> single_at m gid" and "t \<in> set (tasks m) \<Longrightarrow> ok_task m t"
  using assms by (auto simp: ml_wf_def)

lemma single_evolves: "evolves g g' \<Longrightarrow> single g' \<longleftrightarrow> single g"
  by (simp add: evolves_defs single_def)

lemma sim_single_at: "sim m m' \<Longrightarrow> single_at m gid \<Longrightarrow> single_at m' gid"
  unfolding sim_def single_at_def using single_evolves group_steps_evolves by blast

lemma sim_ok_task: "sim m m' \<Longrightarrow> ok_task m t \<Longrightarrow> ok_task m' t"
  by (auto simp: ok_task_def sim_single_at)

lemma sim_refl: "sim m m"
  by (auto simp: sim_def)

lemma sim_trans:
  assumes a: "sim m m1" and b: "sim m1 m2"
  shows "sim m m2"
proof -
  have "\<exists>g2. heap m2 gid = Some g2 \<and> group_step\<^sup>*\<^sup>* g g2" if g: "heap m gid = Some g" for gid g
  proof -
    from simD(1) [OF a g] obtain g1 where 1: "heap m1 gid = Some g1" "group_step\<^sup>*\<^sup>* g g1" by blast
    from simD(1) [OF b 1(1)] 1(2) show ?thesis by (metis rtranclp_trans)
  qed
  moreover have "gGroupID g2 = gid \<and> nextID m \<le> gid \<and> gid < nextID m2 \<and> no_levels_before_fill g2"
    if n: "heap m gid = None" "heap m2 gid = Some g2" for gid g2
  proof (cases "heap m1 gid")
    case None
    then show ?thesis using simD(2) [OF b None n(2)] simD(3) [OF a] by simp
  next
    case (Some g1)
    with simD(1) [OF b Some] n(2) have "group_step\<^sup>*\<^sup>* g1 g2" by auto
    then show ?thesis
      using simD(2) [OF a n(1) Some] simD(3) [OF b] group_steps_evolves [of g1 g2] group_steps_no_levels [of g1 g2]
      by (auto simp: evolves_defs)
  qed
  moreover have "nextID m \<le> nextID m2" using simD(3) [OF a] simD(3) [OF b] by simp
  moreover have "singleSLIndex m bid = Some gid \<or> single_at m2 gid" if "singleSLIndex m2 bid = Some gid" for bid gid
    using simD(4) [OF b that] simD(4) [OF a] sim_single_at [OF b] by blast
  moreover have "t \<in> set (tasks m) \<or> ok_task m2 t" if "t \<in> set (tasks m2)" for t
    using simD(5) [OF b that] simD(5) [OF a] sim_ok_task [OF b] by blast
  ultimately show ?thesis unfolding sim_def by blast
qed

lemma sim_wf:
  assumes "ml_wf m" "sim m m'"
  shows "ml_wf m'"
proof -
  have "gGroupID g' = gid \<and> gid < nextID m' \<and> no_levels_before_fill g'" if "heap m' gid = Some g'" for gid g'
  proof (cases "heap m gid")
    case None
    then show ?thesis using simD(2) [OF assms(2) None that] by simp
  next
    case (Some g)
    with simD(1) [OF assms(2) Some] that have "group_step\<^sup>*\<^sup>* g g'" by auto
    then show ?thesis
      using ml_wfD(1-3) [OF assms(1) Some] simD(3) [OF assms(2)] group_steps_evolves [of g g']
        group_steps_no_levels [of g g']
      by (auto simp: evolves_defs)
  qed
  moreover have "single_at m' gid" if "singleSLIndex m' b = Some gid" for b gid
    using simD(4) [OF assms(2) that] ml_wfD(4) [OF assms(1)] sim_single_at [OF assms(2)] by blast
  moreover have "ok_task m' t" if "t \<in> set (tasks m')" for t
    using simD(5) [OF assms(2) that] ml_wfD(5) [OF assms(1)] sim_ok_task [OF assms(2)] by blast
  ultimately show ?thesis unfolding ml_wf_def by blast
qed

text \<open>Sequential composition, with the invariant carried along.\<close>

lemma sim_seq: "ml_wf m \<Longrightarrow> sim m m1 \<Longrightarrow> (ml_wf m1 \<Longrightarrow> sim m1 m2) \<Longrightarrow> sim m m2"
  using sim_trans sim_wf by blast

lemma sim_foldl:
  assumes "\<And>m x. ml_wf m \<Longrightarrow> sim m (f m x)" "ml_wf m"
  shows "sim m (foldl f m xs)"
  using assms(2)
proof (induction xs arbitrary: m)
  case (Cons x xs)
  have "sim (f m x) (foldl f (f m x) xs)" if "ml_wf (f m x)" using Cons.IH that .
  then have "sim m (foldl f (f m x) xs)" by (rule sim_seq [OF Cons.prems assms(1) [OF Cons.prems]])
  then show ?case by simp
qed (simp add: sim_refl)

section \<open>Steps that leave the routing alone\<close>

text \<open>\<open>quiet\<close>: no new entry in \<open>singleSLIndex\<close>, and no goroutine for the single stop.\<close>

definition quiet :: "ml_state \<Rightarrow> ml_state \<Rightarrow> bool" where
  "quiet m m' \<longleftrightarrow> nextID m \<le> nextID m' \<and> singleSLIndex m' \<subseteq>\<^sub>m singleSLIndex m \<and>
     (\<forall>t \<in> set (tasks m'). t \<in> set (tasks m) \<or> task_single t = None)"

lemma quiet_refl [simp]: "quiet m m"
  by (simp add: quiet_def)

lemma quiet_trans: "quiet m m1 \<Longrightarrow> quiet m1 m2 \<Longrightarrow> quiet m m2"
  unfolding quiet_def by (meson map_le_trans order_trans)

lemma sim_quiet:
  assumes "quiet m m'" "heap m' = heap m"
  shows "sim m m'"
  using assms by (auto simp: sim_def quiet_def ok_task_def map_le_def dom_def)

lemma sim_quiet_update:
  assumes "ml_wf m" "quiet m m'" "heap m gid = Some g" "heap m' = (heap m)(gid \<mapsto> g')" "group_step\<^sup>*\<^sup>* g g'"
  shows "sim m m'"
proof -
  have "single_at m' gid' \<or> singleSLIndex m b = Some gid'" if "singleSLIndex m' b = Some gid'" for b gid'
    using assms(2) that by (auto simp: quiet_def map_le_def dom_def)
  then show ?thesis
    using assms unfolding sim_def quiet_def ok_task_def by auto
qed

named_theorems frame_simps

lemma emit_frame [simp, frame_simps]:
  "heap (emit e m) = heap m" "nextID (emit e m) = nextID m" "tasks (emit e m) = tasks m"
  "singleSLIndex (emit e m) = singleSLIndex m" "mlLevelIndex (emit e m) = mlLevelIndex m"
  "groupsByEntry (emit e m) = groupsByEntry m" "evalCh (emit e m) = evalCh m" "shards (emit e m) = shards m"
  "out (emit e m) = out m @ [e]"
  by (simp_all add: emit_def)

lemma spawn_frame [simp, frame_simps]:
  "heap (spawn t m) = heap m" "nextID (spawn t m) = nextID m" "tasks (spawn t m) = tasks m @ [t]"
  "singleSLIndex (spawn t m) = singleSLIndex m" "mlLevelIndex (spawn t m) = mlLevelIndex m"
  "groupsByEntry (spawn t m) = groupsByEntry m" "evalCh (spawn t m) = evalCh m" "shards (spawn t m) = shards m"
  "out (spawn t m) = out m"
  by (simp_all add: spawn_def)

lemma setg_frame [simp, frame_simps]:
  "heap (setg g m) = (heap m)(gGroupID g \<mapsto> g)" "nextID (setg g m) = nextID m" "tasks (setg g m) = tasks m"
  "singleSLIndex (setg g m) = singleSLIndex m" "mlLevelIndex (setg g m) = mlLevelIndex m"
  "groupsByEntry (setg g m) = groupsByEntry m" "evalCh (setg g m) = evalCh m" "shards (setg g m) = shards m"
  "out (setg g m) = out m"
  by (simp_all add: setg_def)

lemma fresh_frame [simp, frame_simps]:
  "heap (fresh_id m) = heap m" "nextID (fresh_id m) = Suc (nextID m)" "tasks (fresh_id m) = tasks m"
  "singleSLIndex (fresh_id m) = singleSLIndex m" "mlLevelIndex (fresh_id m) = mlLevelIndex m"
  "groupsByEntry (fresh_id m) = groupsByEntry m" "evalCh (fresh_id m) = evalCh m" "shards (fresh_id m) = shards m"
  "out (fresh_id m) = out m"
  by (simp_all add: fresh_id_def)

lemma level_index_frame [simp, frame_simps]:
  "heap (drop_level_index bs m) = heap m" "nextID (drop_level_index bs m) = nextID m"
  "tasks (drop_level_index bs m) = tasks m" "singleSLIndex (drop_level_index bs m) = singleSLIndex m"
  "groupsByEntry (drop_level_index bs m) = groupsByEntry m" "shards (drop_level_index bs m) = shards m"
  "evalCh (drop_level_index bs m) = evalCh m" "out (drop_level_index bs m) = out m"
  "heap (index_level b gid et n m) = heap m" "nextID (index_level b gid et n m) = nextID m"
  "tasks (index_level b gid et n m) = tasks m" "singleSLIndex (index_level b gid et n m) = singleSLIndex m"
  "groupsByEntry (index_level b gid et n m) = groupsByEntry m" "shards (index_level b gid et n m) = shards m"
  "evalCh (index_level b gid et n m) = evalCh m" "out (index_level b gid et n m) = out m"
  by (simp_all add: drop_level_index_def index_level_def)

lemma subscription_frame [simp, frame_simps]:
  "heap (subscribeGroup env g m) = heap m" "nextID (subscribeGroup env g m) = nextID m"
  "tasks (subscribeGroup env g m) = tasks m" "singleSLIndex (subscribeGroup env g m) = singleSLIndex m"
  "groupsByEntry (subscribeGroup env g m) = groupsByEntry m" "evalCh (subscribeGroup env g m) = evalCh m"
  "mlLevelIndex (subscribeGroup env g m) = mlLevelIndex m"
  "heap (unsubscribeGroup env g m) = heap m" "nextID (unsubscribeGroup env g m) = nextID m"
  "tasks (unsubscribeGroup env g m) = tasks m" "singleSLIndex (unsubscribeGroup env g m) = singleSLIndex m"
  "groupsByEntry (unsubscribeGroup env g m) = groupsByEntry m" "evalCh (unsubscribeGroup env g m) = evalCh m"
  "mlLevelIndex (unsubscribeGroup env g m) = mlLevelIndex m"
  by (simp_all add: subscribeGroup_def unsubscribeGroup_def set_shard_def Let_def)

lemma finish_frame [simp, frame_simps]:
  "heap (finishGroup env g m) = heap m" "heap (finishGroupPaper env gid p m) = heap m"
  "tasks (finishGroup env g m) = tasks m" "nextID (finishGroup env g m) = nextID m"
  "mlLevelIndex (finishGroup env g m) = mlLevelIndex m" "evalCh (finishGroup env g m) = evalCh m"
  by (simp_all add: finishGroup_def finishGroupPaper_def on_group_def Let_def split: option.splits prod.splits)

lemma quiet_finish: "quiet m (finishGroup env g m)"
  by (auto simp: quiet_def finishGroup_def Let_def map_le_def)

lemma quiet_finish_paper: "quiet m (finishGroupPaper env gid p m)"
  using quiet_finish by (auto simp: finishGroupPaper_def on_group_def Let_def quiet_def split: option.splits prod.splits)

lemma partial_exit_frame [simp, frame_simps]:
  "heap (recordPaperPartialExit env g q p r n m) = heap m"
  "tasks (recordPaperPartialExit env g q p r n m) = tasks m"
  "singleSLIndex (recordPaperPartialExit env g q p r n m) = singleSLIndex m"
  "groupsByEntry (recordPaperPartialExit env g q p r n m) = groupsByEntry m"
  "nextID (recordPaperPartialExit env g q p r n m) = (if q \<le> 0 then nextID m else Suc (nextID m))"
  by (simp_all add: recordPaperPartialExit_def)

lemma quiet_basic:
  "quiet m (emit e m)" "quiet m (fresh_id m)" "quiet m (drop_level_index bs m)" "quiet m (index_level b gid et n m)"
  "quiet m (setg g m)" "quiet m (subscribeGroup env g m)" "quiet m (unsubscribeGroup env g m)"
  "quiet m (recordPaperPartialExit env g q p r n m)"
  by (simp_all add: quiet_def)

lemma quiet_spawn: "task_single t = None \<Longrightarrow> quiet m (spawn t m)"
  by (simp add: quiet_def)

section \<open>Exits\<close>

lemma modify_tasks_single: "t \<in> set (modify_tasks gid et old new) \<Longrightarrow> task_single t = None"
  by (auto simp: modify_tasks_def task_single_def)

lemma rebalance_frame:
  "quiet m (rebalanceAndModifyLevels gid et r m)"
  "heap m gid = Some g \<Longrightarrow> gGroupID g = gid \<Longrightarrow>
     heap (rebalanceAndModifyLevels gid et r m) = (heap m)(gid \<mapsto> rebal et r g)"
  using modify_tasks_single
  by (auto simp: rebalanceAndModifyLevels_def on_group_def quiet_def Let_def rebal_def split: option.splits)

lemma rebal_id [simp]: "gGroupID (rebal et r g) = gGroupID g"
  by (simp add: rebal_def)

text \<open>The group after the paper exit of a level that has already been marked.\<close>

definition after_paper :: "string \<Rightarrow> int \<Rightarrow> Group \<Rightarrow> Group" where
  "after_paper et q g = (let g1 = reduce_remaining q g
     in if 0 < gRemainingQty g1 then rebal (other_side et) (gRemainingQty g1) g1 else g1)"

text \<open>The parts of \<open>recordPaperExit\<close> before and after the rebalancing.\<close>

lemma recordPaperExit_frame:
  assumes "heap m gid = Some g" "gGroupID g = gid" "et = MLExitTypeSL \<or> et = MLExitTypeTP"
  shows "quiet m (recordPaperExit env gid n q p et m)"
    and "heap (recordPaperExit env gid n q p et m) = (heap m)(gid \<mapsto> after_paper et q g)"
proof -
  define g1 where "g1 = reduce_remaining q g"
  define r where "r = gRemainingQty g1"
  define m5 where "m5 = (let m4 = emit (EDbPaperQty (gEntryOrderID g1) r) (recordPaperPartialExit env g1 q p et n
      (emit (EDbLevelStatus (gEntryOrderID g1) et n MLStatusTriggered p) (setg g1 m)))
    in if eHookQty env then emit (EPaperQtyUpdated (gEntryOrderID g1) r) m4 else m4)"
  define m6 where "m6 = (if 0 < r then rebalanceAndModifyLevels gid (other_side et) r m5 else m5)"
  define m8 where "m8 = (let m7 = (if eHookLevel env
        then emit (EPaperLevelTriggered (gUserID g1) (gEntryOrderID g1) et n p r [] 0) m6 else m6)
    in if et = MLExitTypeTP \<and> eHookSL env \<and> 0 < computeNewSLAfterTP g1 n p
       then emit (EPaperSLMoved (gEntryOrderID g1) (computeNewSLAfterTP g1 n p)) m7 else m7)"
  have id: "gGroupID g1 = gid" using assms(2) by (simp add: g1_def)
  have 5: "heap m5 = (heap m)(gid \<mapsto> g1)" "quiet m m5"
    using id by (auto simp: m5_def Let_def quiet_def)
  have 6: "heap m6 = (heap m)(gid \<mapsto> (if 0 < r then rebal (other_side et) r g1 else g1))" "quiet m m6"
    using 5 rebalance_frame [where m = m5 and gid = gid] id quiet_trans by (auto simp: m6_def)
  have 8: "heap m8 = heap m6" "quiet m m8"
    using 6(2) by (auto simp: m8_def Let_def quiet_def)
  have e: "recordPaperExit env gid n q p et m = (if r \<le> 0 then finishGroupPaper env gid p m8 else m8)"
    using assms(1,3) by (auto simp: recordPaperExit_def on_group_def Let_def m8_def m6_def m5_def r_def g1_def)
  show "quiet m (recordPaperExit env gid n q p et m)"
    unfolding e using 8(2) quiet_trans quiet_finish_paper by auto
  show "heap (recordPaperExit env gid n q p et m) = (heap m)(gid \<mapsto> after_paper et q g)"
    unfolding e using 8(1) 6(1) by (simp add: after_paper_def Let_def g1_def r_def)
qed

lemma scan_levels_Some:
  assumes "scan_levels hit ltp k ls = Some (i, l)"
  shows "k \<le> i \<and> i - k < length ls \<and> lStatus (ls ! (i - k)) = LevelActive \<and> hit (lTriggerPrice (ls ! (i - k))) \<and>
    l = (ls ! (i - k))\<lparr>lStatus := LevelTriggered, lExitPrice := ltp\<rparr>"
  using assms
proof (induction ls arbitrary: k)
  case (Cons a ls)
  show ?case
  proof (cases "lStatus a \<noteq> LevelActive \<or> \<not> hit (lTriggerPrice a)")
    case True
    then show ?thesis using Cons.IH [of "Suc k"] Cons.prems by (auto simp: Suc_diff_Suc [symmetric] nth_Cons')
  next
    case False
    then show ?thesis using Cons.prems by (auto simp: tryMarkTriggered_def)
  qed
qed simp

lemma paper_exit_after:
  assumes "et = MLExitTypeSL \<or> et = MLExitTypeTP"
    and "g1 = (if et = MLExitTypeSL
                then g\<lparr>gSLLevels := (gSLLevels g)[i := (gSLLevels g ! i)\<lparr>lStatus := LevelTriggered, lExitPrice := p\<rparr>]\<rparr>
                else g\<lparr>gTPLevels := (gTPLevels g)[i := (gTPLevels g ! i)\<lparr>lStatus := LevelTriggered, lExitPrice := p\<rparr>]\<rparr>)"
  shows "after_paper et (lExitQty (side_levels et g ! i)) g1 = paper_exit et i p g"
  using assms by (auto simp: after_paper_def paper_exit_def trigger_level_def side_levels_def Let_def)

lemma recordPaperExit_sim:
  assumes "ml_wf m" "heap m gid = Some g" "gGroupID g1 = gid" "et = MLExitTypeSL \<or> et = MLExitTypeTP"
    and "group_step\<^sup>*\<^sup>* g (after_paper et q g1)"
  shows "sim m (recordPaperExit env gid n q p et (setg g1 m))"
proof -
  have h: "heap (setg g1 m) gid = Some g1" using assms(3) by simp
  note f = recordPaperExit_frame [OF h assms(3,4), of env n q p]
  show ?thesis
    using f(2) assms(3) by (intro sim_quiet_update [OF assms(1) quiet_trans [OF quiet_basic(5) f(1)] assms(2) _ assms(5)]) simp
qed

lemma evaluateSL_cases:
  assumes "heap m gid = Some g"
  obtains (trail) "gSLMode g = SLModeTrailing" "gSingleSLBrokerID g \<noteq> []"
      "evaluateSLLevels env gid ltp m = (evaluateTrailingSL gid ltp m, False)"
    | (skip) "evaluateSLLevels env gid ltp m = (m, False)"
    | (fire) i l where "gTradingMode g \<noteq> ''LIVE''"
        "scan_levels (\<lambda>t. SLBreached g t ltp) ltp 0 (gSLLevels g) = Some (i, l)"
        "evaluateSLLevels env gid ltp m = (recordPaperExit env gid (lLevelNum l) (lExitQty l) ltp MLExitTypeSL
           (setg (g\<lparr>gSLLevels := (gSLLevels g)[i := l]\<rparr>) m), True)"
proof (cases "gSLMode g = SLModeTrailing \<and> gSingleSLBrokerID g \<noteq> []")
  case True
  then show ?thesis using assms trail by (simp add: evaluateSLLevels_def)
next
  case F: False
  show ?thesis
  proof (cases "gSLMode g \<noteq> SLModeMultiLevel \<or> gTradingMode g = ''LIVE''")
    case True
    with F show ?thesis using assms skip by (auto simp: evaluateSLLevels_def)
  next
    case False
    show ?thesis
      using F False assms skip fire
      by (cases "scan_levels (\<lambda>t. SLBreached g t ltp) ltp 0 (gSLLevels g)") (auto simp: evaluateSLLevels_def)
  qed
qed

lemma evaluateSL_sim:
  assumes "ml_wf m" "heap m gid = Some g" "gState g = GroupStateActive"
  shows "sim m (fst (evaluateSLLevels env gid ltp m))"
proof -
  have id: "gGroupID g = gid" using ml_wfD(1) assms by blast
  from assms(2) show ?thesis
  proof (cases rule: evaluateSL_cases [where env = env and ltp = ltp])
    case trail
    then have e: "fst (evaluateSLLevels env gid ltp m) = evaluateTrailingSL gid ltp m" by simp
    show ?thesis
    proof (cases "CalcTrailingSL g ltp")
      case None
      then show ?thesis unfolding e using assms(2) by (simp add: evaluateTrailingSL_def on_group_def sim_refl)
    next
      case (Some t)
      then have "group_step\<^sup>*\<^sup>* g (g\<lparr>gHighestPrice := ltp\<rparr>)" by (intro r_into_rtranclp gs_peak)
      then show ?thesis unfolding e using assms(2) Some id
        by (intro sim_quiet_update [OF assms(1) _ assms(2)])
          (auto simp: evaluateTrailingSL_def on_group_def quiet_def task_single_def)
    qed
  next
    case (fire i l)
    define g1 where "g1 = g\<lparr>gSLLevels := (gSLLevels g)[i := l]\<rparr>"
    note sc = scan_levels_Some [OF fire(2)]
    have o: "open_level MLExitTypeSL i g" using sc by (simp add: open_level_def side_levels_def)
    have g1: "heap (setg g1 m) gid = Some g1" "gGroupID g1 = gid" using id by (auto simp: g1_def)
    have af: "after_paper MLExitTypeSL (lExitQty l) g1 = paper_exit MLExitTypeSL i ltp g"
      using paper_exit_after [of MLExitTypeSL g1 g i ltp] sc by (simp add: g1_def side_levels_def)
    have st: "group_step\<^sup>*\<^sup>* g (paper_exit MLExitTypeSL i ltp g)"
      using fire(1) assms(3) o by (intro r_into_rtranclp gs_paper)
    show ?thesis unfolding fire(3) fst_conv g1_def [symmetric]
      using st af by (intro recordPaperExit_sim [OF assms(1,2) g1(2)]) auto
  qed (simp add: sim_refl)
qed

lemma evaluateTP_sim:
  assumes "ml_wf m" "heap m gid = Some g" "gState g = GroupStateActive"
  shows "sim m (evaluateTPLevels env gid ltp m)"
proof (cases "gTPMode g = TPModeMultiLevel \<and> gTradingMode g = ''LIVE'' \<or>
              scan_levels (\<lambda>t. TPReached g t ltp) ltp 0 (gTPLevels g) = None")
  case True
  then show ?thesis using assms(2) by (auto simp: evaluateTPLevels_def on_group_def sim_refl)
next
  case False
  then obtain i l where sc': "scan_levels (\<lambda>t. TPReached g t ltp) ltp 0 (gTPLevels g) = Some (i, l)" by auto
  note sc = scan_levels_Some [OF sc']
  define g1 where "g1 = g\<lparr>gTPLevels := (gTPLevels g)[i := l]\<rparr>"
  have id: "gGroupID g1 = gid" "heap (setg g1 m) gid = Some g1"
    using ml_wfD(1) [OF assms(1,2)] by (auto simp: g1_def)
  have o: "open_level MLExitTypeTP i g" using sc by (simp add: open_level_def side_levels_def)
  have lq: "lExitQty (gTPLevels g ! i) = lExitQty l" using sc by simp
  show ?thesis
  proof (cases "gTradingMode g = ''LIVE''")
    case paper: False
    have af: "after_paper MLExitTypeTP (lExitQty l) g1 = paper_exit MLExitTypeTP i ltp g"
      using paper_exit_after [of MLExitTypeTP g1 g i ltp] sc by (simp add: g1_def side_levels_def)
    have st: "group_step\<^sup>*\<^sup>* g (paper_exit MLExitTypeTP i ltp g)"
      using paper assms(3) o by (intro r_into_rtranclp gs_paper)
    have e: "evaluateTPLevels env gid ltp m =
        recordPaperExit env gid (lLevelNum l) (lExitQty l) ltp MLExitTypeTP (setg g1 m)"
      using assms(2) False paper sc' by (simp add: evaluateTPLevels_def on_group_def g1_def)
    show ?thesis unfolding e
      using st af by (intro recordPaperExit_sim [OF assms(1,2) id(1)]) auto
  next
    case live: True
    define g2 where "g2 = reduce_remaining (lExitQty l) g1"
    define r where "r = gRemainingQty g2"
    define m1 where "m1 = spawn (TExitMarket gid (lLevelNum l) (lExitQty l) ltp MLExitTypeTP) (setg g2 m)"
    define m2 where "m2 = (if gSingleSLBrokerID g2 \<noteq> [] \<and> gSLMode g2 = SLModeFixed then spawn (TReplaceSL gid r) m1
       else if gSingleSLBrokerID g2 \<noteq> [] \<and> gSLMode g2 = SLModeTrailing then spawn (TReplaceSLTrailing gid r) m1 else m1)"
    have g2: "g2 = trigger_level MLExitTypeTP i (gTPLevels g ! i) ltp g"
      using sc by (simp add: g2_def g1_def trigger_level_def Let_def)
    have st: "group_step\<^sup>*\<^sup>* g g2" unfolding g2
      using False live assms(3) o by (intro r_into_rtranclp gs_live_tp) auto
    have id2: "gGroupID g2 = gid" "gTradingMode g2 = ''LIVE''"
      using id(1) live by (auto simp: g2_def g1_def reduce_remaining_def Let_def)
    have 1: "sim m m1"
      using id2(1) by (intro sim_quiet_update [OF assms(1) _ assms(2) _ st])
        (auto simp: m1_def quiet_def task_single_def)
    have sg: "single_at m1 gid" if "gSLMode g2 = SLModeFixed \<or> gSLMode g2 = SLModeTrailing"
      using that id2 by (auto simp: single_at_def single_def m1_def SLModeFixed_def SLModeTrailing_def SLModeMultiLevel_def)
    have 2: "sim m1 m2"
      using sg by (auto simp: m2_def sim_def ok_task_def task_single_def single_at_def)
    have e: "evaluateTPLevels env gid ltp m = (if r \<le> 0 then finishGroup env g2 m2 else m2)"
      using assms(2) False live sc'
      by (simp add: evaluateTPLevels_def on_group_def g1_def g2_def r_def m1_def m2_def Let_def)
    show ?thesis unfolding e
      using sim_trans [OF 1 2] sim_trans [OF _ sim_quiet [OF quiet_finish finish_frame(1)]] by auto
  qed
qed

lemma sim_setg:
  assumes "ml_wf m" "heap m gid = Some g" "group_step\<^sup>*\<^sup>* g g'"
  shows "sim m (setg g' m)"
proof -
  have "gGroupID g' = gid"
    using group_steps_evolves [OF assms(3)] ml_wfD(1) [OF assms(1,2)] by (simp add: evolves_defs)
  then show ?thesis by (intro sim_quiet_update [OF assms(1) _ assms(2) _ assms(3)]) (auto simp: quiet_def)
qed

lemma sim_heap_same: "sim m m' \<Longrightarrow> heap m gid = Some g \<Longrightarrow> \<exists>g'. heap m' gid = Some g' \<and> evolves g g'"
  using simD(1) group_steps_evolves by blast

lemma runEvalJob_sim:
  assumes "ml_wf m"
  shows "sim m (runEvalJob env gid ltp m)"
proof (cases "heap m gid")
  case (Some g)
  show ?thesis
  proof (cases "gEvaluating g = 0")
    case True
    define g1 where "g1 = g\<lparr>gEvaluating := 1\<rparr>"
    define m1 where "m1 = setg g1 m"
    define m2 where "m2 = (if gState g1 \<noteq> GroupStateActive then m1
                     else case evaluateSLLevels env gid ltp m1 of
                            (m', True) \<Rightarrow> m' | (m', False) \<Rightarrow> evaluateTPLevels env gid ltp m')"
    have 1: "sim m m1" unfolding m1_def g1_def using gs_eval by (intro sim_setg [OF assms Some]) blast
    have w1: "ml_wf m1" using sim_wf assms 1 by blast
    have h1: "heap m1 gid = Some g1" using ml_wfD(1) [OF assms Some] by (simp add: m1_def g1_def)
    have 2: "sim m1 m2"
    proof (cases "gState g1 = GroupStateActive")
      case act: True
      obtain m' b where ev: "evaluateSLLevels env gid ltp m1 = (m', b)" by fastforce
      have s: "sim m1 m'" using evaluateSL_sim [OF w1 h1 act, of env ltp] ev by simp
      show ?thesis
      proof (cases b)
        case False
        then obtain g' where g': "heap m' gid = Some g'" "gState g' = GroupStateActive"
          using ev h1 act ml_wfD(1) [OF w1 h1]
          by (cases rule: evaluateSL_cases [OF h1, where env = env and ltp = ltp])
            (auto simp: evaluateTrailingSL_def on_group_def split: option.splits)
        have "sim m1 (evaluateTPLevels env gid ltp m')"
          using evaluateTP_sim [OF sim_wf [OF w1 s] g'] by (rule sim_trans [OF s])
        then show ?thesis using ev False act by (simp add: m2_def)
      qed (use s ev act in \<open>simp add: m2_def\<close>)
    qed (simp add: m2_def sim_refl)
    obtain g2 where h2: "heap m2 gid = Some g2" using sim_heap_same [OF 2 h1] by blast
    have 3: "sim m2 (setg (releaseEvaluation g2) m2)"
      unfolding releaseEvaluation_def using gs_eval by (intro sim_setg [OF sim_wf [OF w1 2] h2]) blast
    have "runEvalJob env gid ltp m = on_group gid (\<lambda>g'. setg (releaseEvaluation g') m2) m2"
      unfolding runEvalJob_def m2_def m1_def g1_def
      using Some True by (simp add: on_group_def [where m = m] tryClaimEvaluation_def Let_def)
    then have "runEvalJob env gid ltp m = setg (releaseEvaluation g2) m2"
      using h2 by (simp add: on_group_def)
    then show ?thesis using sim_trans [OF 1 sim_trans [OF 2 3]] by simp
  qed (use Some in \<open>simp add: runEvalJob_def on_group_def tryClaimEvaluation_def sim_refl\<close>)
qed (simp add: runEvalJob_def on_group_def sim_refl)

lemma worker_sim: "ml_wf m \<Longrightarrow> sim m (worker_step env m)"
proof (cases "evalCh m")
  case (Cons j js)
  assume wf: "ml_wf m"
  have "sim m (m\<lparr>evalCh := js\<rparr>)" by (rule sim_quiet) (auto simp: quiet_def)
  from sim_seq [OF wf this runEvalJob_sim] show ?thesis
    using Cons by (cases j) (simp add: worker_step_def)
qed (simp add: worker_step_def sim_refl)

section \<open>Entries and prices\<close>

lemma enqueue_sim: "sim m (enqueue ltp m gid)"
  by (auto intro!: sim_quiet simp: enqueue_def on_group_def quiet_def split: option.splits)

lemma OnPriceUpdate_sim: "ml_wf m \<Longrightarrow> sim m (OnPriceUpdate key ltp m)"
  unfolding OnPriceUpdate_def Let_def by (auto intro: sim_foldl sim_refl enqueue_sim)

lemma sim_new:
  assumes "ml_wf m" "heap m' = (heap m)(nextID m \<mapsto> g)" "gGroupID g = nextID m" "nextID m < nextID m'"
    "singleSLIndex m' = singleSLIndex m" "tasks m' = tasks m" "no_levels_before_fill g"
  shows "sim m m'"
proof -
  have "heap m (nextID m) = None" using ml_wfD(2) [OF assms(1), of "nextID m"] by (cases "heap m (nextID m)") auto
  then show ?thesis using assms(2-7) by (auto simp: sim_def)
qed

lemma RegisterEntry_sim: "ml_wf m \<Longrightarrow> sim m (RegisterEntry ord slm tpm sl tp fpct tpct auth m)"
  by (rule sim_new) (auto simp: RegisterEntry_def Let_def no_levels_before_fill_def)

lemma fill_group_static [simp]:
  "gGroupID (fill_group g p q sl tp fresh) = gGroupID g" "gTradingMode (fill_group g p q sl tp fresh) = gTradingMode g"
  "gSLMode (fill_group g p q sl tp fresh) = gSLMode g" "gTPMode (fill_group g p q sl tp fresh) = gTPMode g"
  by (simp_all add: fill_group_def Let_def)

lemma live_entry_tasks_frame [simp, frame_simps]:
  "heap (live_entry_tasks g q m) = heap m" "nextID (live_entry_tasks g q m) = nextID m"
  "singleSLIndex (live_entry_tasks g q m) = singleSLIndex m" "groupsByEntry (live_entry_tasks g q m) = groupsByEntry m"
  by (simp_all add: live_entry_tasks_def Let_def)

lemma live_entry_tasks_ok:
  assumes "t \<in> set (tasks (live_entry_tasks g q m))" "t \<notin> set (tasks m)" "task_single t = Some gid"
    "gTradingMode g = ''LIVE''"
  shows "gid = gGroupID g \<and> single g"
  using assms
  by (auto simp: live_entry_tasks_def Let_def task_single_def single_def SLModeFixed_def SLModeTrailing_def
      SLModeMultiLevel_def split: if_splits)

lemma OnEntryFill_sim:
  assumes "ml_wf m"
  shows "sim m (OnEntryFill env eid p q sl tp m)"
proof (cases "map_of (groupsByEntry m) eid")
  case (Some gid)
  show ?thesis
  proof (cases "heap m gid")
    case h: (Some g)
    show ?thesis
    proof (cases "gEntryFilled g")
      case False
      define g1 where "g1 = fill_group g p q sl tp (nextID m)"
      define m2 where "m2 = spawn (TPersistExitLevels gid)
        ((setg g1 m)\<lparr>nextID := nextID m + length (gSLLevelConfigs g1) + length (gTPLevelConfigs g1)\<rparr>)"
      define m3 where "m3 = (if gTradingMode g1 = ''LIVE'' then live_entry_tasks g1 q m2 else m2)"
      have id: "gGroupID g1 = gid" using ml_wfD(1) [OF assms h] by (simp add: g1_def)
      have "group_step\<^sup>*\<^sup>* g g1" unfolding g1_def using False by (intro r_into_rtranclp gs_fill)
      then have 2: "sim m m2"
        using id by (intro sim_quiet_update [OF assms _ h]) (auto simp: m2_def quiet_def task_single_def)
      have h2: "heap m2 gid = Some g1" using id by (simp add: m2_def)
      have 3: "sim m2 m3"
        using live_entry_tasks_ok [of _ g1 q m2] h2 id
        unfolding m3_def sim_def ok_task_def single_at_def by auto
      have "sim m3 (subscribeGroup env g1 m3)" by (rule sim_quiet) (auto simp: quiet_def)
      then have "sim m (subscribeGroup env g1 m3)" using sim_trans 2 3 by blast
      moreover have "OnEntryFill env eid p q sl tp m = subscribeGroup env g1 m3"
        using Some h False by (simp add: OnEntryFill_def on_group_def g1_def m2_def m3_def Let_def)
      ultimately show ?thesis by simp
    qed (use Some h in \<open>simp add: OnEntryFill_def on_group_def sim_refl\<close>)
  qed (use Some in \<open>simp add: OnEntryFill_def on_group_def sim_refl\<close>)
qed (simp add: OnEntryFill_def sim_refl)

section \<open>Broker orders\<close>

lemma place_single_sl_sim:
  assumes "ml_wf m" "heap m gid = Some g" "single g"
  shows "sim m (place_single_sl env g q p st m)"
proof (cases "ePlace env (out m) (buildExitOrder g (nextID m) q OrderTypeStopLossMarket None (Some p))")
  case None
  then show ?thesis
    by (auto simp: place_single_sl_def broker_place_def quiet_def intro!: sim_quiet)
next
  case (Some b)
  have id: "gGroupID g = gid" using ml_wfD(1) assms by blast
  have "group_step\<^sup>*\<^sup>* g (g\<lparr>gSingleSLBrokerID := b, gSingleSLOrderID := i, gCurrentSLTrigger := t\<rparr>)" for i t
    using assms(3) by (intro r_into_rtranclp gs_place)
  moreover from this [where t = "gCurrentSLTrigger g"]
  have "group_step\<^sup>*\<^sup>* g (g\<lparr>gSingleSLBrokerID := b, gSingleSLOrderID := i\<rparr>)" for i by simp
  ultimately show "sim m (place_single_sl env g q p st m)"
    using Some id assms(2,3)
    by (auto simp: place_single_sl_def broker_place_def sim_def Let_def single_at_def single_def)
qed

lemma single_tasks_sim:
  assumes "ml_wf m" "single_at m gid"
  shows "sim m (placeFixedSLOrder env gid q m)" "sim m (placeLiveTrailingSL env gid m)"
    "sim m (replaceSLWithReducedQty env gid q m)" "sim m (replaceSLTrailing env gid q m)"
proof -
  obtain g where g: "heap m gid = Some g" "single g" using assms(2) by (auto simp: single_at_def)
  show "sim m (placeFixedSLOrder env gid q m)" "sim m (placeLiveTrailingSL env gid m)"
    using g place_single_sl_sim [OF assms(1) g]
    by (simp_all add: placeFixedSLOrder_def placeLiveTrailingSL_def on_group_def)
  define m2 where "m2 = fst (broker_cancel env g (gSingleSLBrokerID g)
    (m\<lparr>singleSLIndex := (singleSLIndex m)(gSingleSLBrokerID g := None)\<rparr>))"
  have 2: "sim m m2" "heap m2 = heap m"
    by (auto simp: m2_def broker_cancel_def quiet_def map_le_def intro!: sim_quiet)
  have "sim m (place_single_sl env g q' p st m2)" for q' p st
    using sim_trans [OF 2(1) place_single_sl_sim [OF sim_wf [OF assms(1) 2(1)]]] g 2(2) by simp
  then show "sim m (replaceSLWithReducedQty env gid q m)" "sim m (replaceSLTrailing env gid q m)"
    using g by (simp_all add: replaceSLWithReducedQty_def replaceSLTrailing_def on_group_def Let_def m2_def sim_refl)
qed

lemma modify_trailing_sim: "ml_wf m \<Longrightarrow> sim m (modify_trailing env gid ord t m)"
proof (cases "heap m gid")
  case (Some g)
  assume wf: "ml_wf m"
  show ?thesis
  proof (cases "eModify env (out m) ord")
    case True
    have "group_step\<^sup>*\<^sup>* g (g\<lparr>gCurrentSLTrigger := t\<rparr>)" by (intro r_into_rtranclp gs_trail)
    then show ?thesis using Some True ml_wfD(1) [OF wf Some]
      by (intro sim_quiet_update [OF wf _ Some])
        (auto simp: modify_trailing_def on_group_def broker_modify_def quiet_def)
  qed (use Some in \<open>auto simp: modify_trailing_def on_group_def broker_modify_def quiet_def intro!: sim_quiet\<close>)
qed (simp add: modify_trailing_def on_group_def sim_refl)

lemma place_level_sim:
  assumes "ml_wf m"
  shows "sim m (place_sl_level env gid i m)" "sim m (place_tp_level env gid i m)"
proof -
  show "sim m (place_sl_level env gid i m)"
  proof (cases "heap m gid")
    case (Some g)
    let ?l = "gSLLevels g ! i"
    have st: "group_step\<^sup>*\<^sup>* g (g\<lparr>gSLLevels := (gSLLevels g)[i := ?l\<lparr>lBrokerOrderID := b\<rparr>]\<rparr>)"
      if "i < length (gSLLevels g)" for b using that by (intro r_into_rtranclp gs_broker_sl)
    show ?thesis
    proof (cases "ePlace env (out m) (buildMultiSLOrder g (lExitQty ?l) (lTriggerPrice ?l) (lExitOrderID ?l))")
      case None
      then show ?thesis using Some
        by (intro sim_quiet) (auto simp: place_sl_level_def on_group_def broker_place_def Let_def quiet_def)
    next
      case b: (Some b)
      then show ?thesis using Some ml_wfD(1) [OF assms Some] st [of b]
        by (cases "i < length (gSLLevels g)")
          (auto simp: place_sl_level_def on_group_def broker_place_def Let_def quiet_def sim_refl
            intro!: sim_quiet_update [OF assms _ Some])
    qed
  qed (simp add: place_sl_level_def on_group_def sim_refl)
  show "sim m (place_tp_level env gid i m)"
  proof (cases "heap m gid")
    case (Some g)
    let ?l = "gTPLevels g ! i"
    have st: "group_step\<^sup>*\<^sup>* g (g\<lparr>gTPLevels := (gTPLevels g)[i := ?l\<lparr>lBrokerOrderID := b\<rparr>]\<rparr>)"
      if "i < length (gTPLevels g)" for b using that by (intro r_into_rtranclp gs_broker_tp)
    show ?thesis
    proof (cases "ePlace env (out m) (buildMultiTPOrder g (lExitQty ?l) (lTriggerPrice ?l) (lExitOrderID ?l))")
      case None
      then show ?thesis using Some
        by (intro sim_quiet) (auto simp: place_tp_level_def on_group_def broker_place_def Let_def quiet_def)
    next
      case b: (Some b)
      then show ?thesis using Some ml_wfD(1) [OF assms Some] st [of b]
        by (cases "i < length (gTPLevels g)")
          (auto simp: place_tp_level_def on_group_def broker_place_def Let_def quiet_def sim_refl
            intro!: sim_quiet_update [OF assms _ Some])
    qed
  qed (simp add: place_tp_level_def on_group_def sim_refl)
qed

text \<open>The goroutines that change no group.\<close>

lemma heap_neutral_sim:
  "sim m (persistExitLevels gid m)" "sim m (placeMultiSLOrders gid m)" "sim m (placeMultiTPOrders gid m)"
  "sim m (placeExitOrderMarket env gid n q p et m)" "sim m (modifyLevelOrder env gid oid b q p et m)"
  "sim m (on_group gid (\<lambda>g. fst (broker_cancel env g b m)) m)"
  by (auto simp: persistExitLevels_def placeMultiSLOrders_def placeMultiTPOrders_def placeExitOrderMarket_def
      modifyLevelOrder_def on_group_def broker_place_def broker_modify_def broker_cancel_def quiet_def task_single_def
      intro!: sim_quiet split: option.splits)

section \<open>Fills and cancellations\<close>

lemma cancelRemaining_sim:
  assumes "ml_wf m" "heap m gid = Some g" "gState g \<noteq> GroupStateActive"
  shows "sim m (cancelRemainingMLOrders gid et m)"
    and "\<exists>g'. heap (cancelRemainingMLOrders gid et m) gid = Some g' \<and> gState g' = gState g \<and>
           gSingleSLBrokerID g' = gSingleSLBrokerID g"
proof -
  have st: "group_step\<^sup>*\<^sup>* g (g\<lparr>gSLLevels := map cancel_active (gSLLevels g)\<rparr>)"
    "group_step\<^sup>*\<^sup>* g (g\<lparr>gTPLevels := map cancel_active (gTPLevels g)\<rparr>)"
    using assms(3) by (auto intro: gs_cancel_sl gs_cancel_tp)
  have id: "gGroupID g = gid" using ml_wfD(1) assms by blast
  have q: "quiet m (cancelRemainingMLOrders gid et m)"
    using assms(2) by (auto simp: cancelRemainingMLOrders_def on_group_def quiet_def Let_def task_single_def)
  show "sim m (cancelRemainingMLOrders gid et m)"
  proof (cases "et = MLExitTypeSL")
    case True
    then show ?thesis using id assms(2)
      by (intro sim_quiet_update [OF assms(1) q assms(2) _ st(1)])
        (simp add: cancelRemainingMLOrders_def on_group_def Let_def)
  next
    case False
    then show ?thesis using id assms(2)
      by (intro sim_quiet_update [OF assms(1) q assms(2) _ st(2)])
        (simp add: cancelRemainingMLOrders_def on_group_def Let_def)
  qed
  show "\<exists>g'. heap (cancelRemainingMLOrders gid et m) gid = Some g' \<and> gState g' = gState g \<and>
      gSingleSLBrokerID g' = gSingleSLBrokerID g"
    using assms(2) id by (cases "et = MLExitTypeSL") (simp_all add: cancelRemainingMLOrders_def on_group_def Let_def)
qed

lemma sim_cancel_both:
  fixes et et' :: string
  assumes "ml_wf m" "heap m gid = Some g" "gState g \<noteq> GroupStateActive"
  defines "m2 \<equiv> cancelRemainingMLOrders gid et' (cancelRemainingMLOrders gid et m)"
  shows "sim m m2" and "\<exists>g'. heap m2 gid = Some g'"
proof -
  define m1 where "m1 = cancelRemainingMLOrders gid et m"
  note c1 = cancelRemaining_sim [OF assms(1-3), of et, folded m1_def]
  then obtain g1 where g1: "heap m1 gid = Some g1" "gState g1 \<noteq> GroupStateActive" using assms(3) by auto
  note c2 = cancelRemaining_sim [OF sim_wf [OF assms(1) c1(1)] g1, of et']
  show "sim m m2" unfolding m2_def m1_def [symmetric] using sim_trans c1(1) c2(1) by blast
  show "\<exists>g'. heap m2 gid = Some g'" unfolding m2_def m1_def [symmetric] using c2(2) by blast
qed

lemma close_live_group_sim:
  assumes "ml_wf m" "heap m gid = Some g" "gState g \<noteq> GroupStateActive"
  shows "sim m (close_live_group env gid et m)"
proof -
  define m2 where "m2 = cancelRemainingMLOrders gid (other_side et) (cancelRemainingMLOrders gid et m)"
  have 2: "sim m m2" using sim_cancel_both [OF assms] by (simp add: m2_def)
  obtain g2 where h2: "heap m2 gid = Some g2" using sim_cancel_both(2) [OF assms] by (auto simp: m2_def)
  define g3 where "g3 = g2\<lparr>gSingleSLBrokerID := []\<rparr>"
  define m3 where "m3 = setg g3 m2"
  define m4 where "m4 = (if gSingleSLBrokerID g2 \<noteq> []
    then spawn (TCancelOrder gid (gSingleSLBrokerID g2))
           (m3\<lparr>singleSLIndex := (singleSLIndex m3)(gSingleSLBrokerID g2 := None)\<rparr>) else m3)"
  have 3: "sim m2 m3"
    unfolding m3_def g3_def using gs_clear by (intro sim_setg [OF sim_wf [OF assms(1) 2] h2]) blast
  have 4: "sim m3 m4" by (rule sim_quiet) (auto simp: m4_def quiet_def task_single_def map_le_def)
  have 5: "sim m4 (finishGroup env g3 m4)" by (rule sim_quiet [OF quiet_finish]) simp
  have e: "close_live_group env gid et m = finishGroup env g3 m4"
    using h2 by (simp add: close_live_group_def on_group_def m2_def m3_def m4_def g3_def Let_def)
  show ?thesis unfolding e using sim_trans 2 3 4 5 by blast
qed

lemma find_level_Some:
  "find_level n k ls = Some (i, l) \<Longrightarrow> k \<le> i \<and> i - k < length ls \<and> l = ls ! (i - k) \<and> lLevelNum l = n"
proof (induction ls arbitrary: k)
  case (Cons a ls)
  then show ?case
    by (cases "lLevelNum a = n") (auto simp: Suc_diff_Suc [symmetric] nth_Cons' dest!: Cons.IH)
qed simp

text \<open>A fill of an active level, with the exit type normalised as the code's \<open>else\<close> branch does.\<close>

definition norm_side :: "string \<Rightarrow> string" where
  "norm_side et = (if et = MLExitTypeSL then MLExitTypeSL else MLExitTypeTP)"

lemma norm_side_eqs:
  "side_levels (norm_side et) g = side_levels et g" "other_side (norm_side et) = other_side et"
  "trigger_level (norm_side et) = trigger_level et"
  by (auto simp: norm_side_def side_levels_def other_side_def trigger_level_def fun_eq_iff Let_def)

lemma level_fill_sim:
  assumes wf: "ml_wf m" and Some: "heap m gid = Some g"
    and f: "find_level n 0 (side_levels et g) = Some (i, l)" and act: "lStatus l = LevelActive"
  shows "sim m (onMultiLevelFilled env gid et n fp fq m)"
    and "\<exists>g'. heap (onMultiLevelFilled env gid et n fp fq m) gid = Some g' \<and>
          evolves (trigger_level et i l (price_of fp) g) g'"
    and "0 < gRemainingQty (trigger_level et i l (price_of fp) g) \<Longrightarrow>
          heap (onMultiLevelFilled env gid et n fp fq m) gid = Some (live_exit (norm_side et) i (price_of fp) g)"
proof -
  note fl = find_level_Some [OF f]
  have o: "open_level (norm_side et) i g"
    unfolding open_level_def norm_side_eqs using fl act by (auto simp: norm_side_def)
  have id: "gGroupID g = gid" using ml_wfD(1) [OF wf Some] .
  define g1 where "g1 = trigger_level et i l (price_of fp) g"
  define r where "r = gRemainingQty g1"
  define m2 where "m2 = emit (EDbLevelStatus (gEntryOrderID g) et n MLStatusTriggered (price_of fp))
     (drop_level_index [lBrokerOrderID l] (setg g1 m))"
  define m' where "m' = onMultiLevelFilled env gid et n fp fq m"
  have id1: "gGroupID g1 = gid" using id by (simp add: g1_def trigger_level_def Let_def)
  have h2: "heap m2 = (heap m)(gid \<mapsto> g1)" "quiet m m2" "heap m2 gid = Some g1"
    using id1 by (auto simp: m2_def quiet_def)
  have le: "live_exit (norm_side et) i (price_of fp) g =
      (if 0 < r then rebal (other_side et) r (rebal (norm_side et) r g1) else g1)"
    using fl by (simp add: live_exit_def Let_def g1_def r_def norm_side_eqs)
  have st: "group_step\<^sup>*\<^sup>* g (live_exit (norm_side et) i (price_of fp) g)"
    using o by (intro r_into_rtranclp gs_live)
  have e: "m' = (if r \<le> 0 then close_live_group env gid et m2
       else rebalanceAndModifyLevels gid (other_side et) r (rebalanceAndModifyLevels gid (norm_side et) r m2))"
    using Some f act
    by (simp add: m'_def onMultiLevelFilled_def on_group_def side_levels_def g1_def r_def m2_def Let_def norm_side_def)
  have "sim m m' \<and> (\<exists>g'. heap m' gid = Some g' \<and> evolves g1 g') \<and>
      (0 < r \<longrightarrow> heap m' gid = Some (live_exit (norm_side et) i (price_of fp) g))"
  proof (cases "r \<le> 0")
    case True
    then have s: "sim m m2" using st le h2 by (intro sim_quiet_update [OF wf h2(2) Some]) auto
    have "gState g1 = GroupStateCompleted" using True trigger_simps(10) by (simp add: r_def g1_def)
    then have s2: "sim m2 m'"
      unfolding e using True close_live_group_sim [OF sim_wf [OF wf s] h2(3)] by simp
    show ?thesis using True sim_trans [OF s s2] sim_heap_same [OF s2 h2(3)] by auto
  next
    case False
    define m3 where "m3 = rebalanceAndModifyLevels gid (norm_side et) r m2"
    have h3: "heap m3 = (heap m)(gid \<mapsto> rebal (norm_side et) r g1)" "quiet m m3"
      using rebalance_frame(2) [OF h2(3) id1, of "norm_side et" r] h2 quiet_trans [OF h2(2) rebalance_frame(1)]
      by (auto simp: m3_def)
    have h3': "heap m3 gid = Some (rebal (norm_side et) r g1)" "gGroupID (rebal (norm_side et) r g1) = gid"
      using h3(1) id1 by auto
    have h: "heap m' = (heap m)(gid \<mapsto> live_exit (norm_side et) i (price_of fp) g)" "quiet m m'"
      using False e le rebalance_frame(2) [OF h3', of "other_side et" r] h3 quiet_trans [OF h3(2) rebalance_frame(1)]
      by (auto simp: m3_def)
    have "evolves g1 (live_exit (norm_side et) i (price_of fp) g)"
      using False le evolves_trans [OF evolves_rebal evolves_rebal] by simp
    then show ?thesis using h sim_quiet_update [OF wf h(2) Some h(1) st] by simp
  qed
  then show "sim m (onMultiLevelFilled env gid et n fp fq m)"
    "\<exists>g'. heap (onMultiLevelFilled env gid et n fp fq m) gid = Some g' \<and>
          evolves (trigger_level et i l (price_of fp) g) g'"
    "0 < gRemainingQty (trigger_level et i l (price_of fp) g) \<Longrightarrow>
          heap (onMultiLevelFilled env gid et n fp fq m) gid = Some (live_exit (norm_side et) i (price_of fp) g)"
    unfolding m'_def g1_def r_def by blast+
qed

lemma level_fill_skip:
  assumes "heap m gid = None \<or> (\<exists>g. heap m gid = Some g \<and> (find_level n 0 (side_levels et g) = None \<or>
     (\<exists>i l. find_level n 0 (side_levels et g) = Some (i, l) \<and> lStatus l \<noteq> LevelActive)))"
  shows "onMultiLevelFilled env gid et n fp fq m = m"
  using assms by (auto simp: onMultiLevelFilled_def on_group_def side_levels_def)

lemma onMultiLevelFilled_cases:
  obtains (skip) "\<And>fp fq. onMultiLevelFilled env gid et n fp fq m = m"
    | (fill) g i l where "heap m gid = Some g" "find_level n 0 (side_levels et g) = Some (i, l)" "lStatus l = LevelActive"
  using level_fill_skip [of m gid n et env] by (metis not_Some_eq surj_pair)

lemma onMultiLevelFilled_sim:
  assumes "ml_wf m"
  shows "sim m (onMultiLevelFilled env gid et n fp fq m)"
  by (rule onMultiLevelFilled_cases [of env gid et n m]) (auto simp: sim_refl intro: level_fill_sim(1) [OF assms])

lemma onSingleSLFilled_sim:
  assumes "ml_wf m" "single_at m gid"
  shows "sim m (onSingleSLFilled env gid fp q m)"
proof -
  obtain g where g: "heap m gid = Some g" "single g" using assms(2) by (auto simp: single_at_def)
  have id: "gGroupID g = gid" using ml_wfD(1) [OF assms(1) g(1)] .
  have st: "group_step\<^sup>*\<^sup>* g ((reduce_remaining q g)\<lparr>gTPLevels := map cancel_open (gTPLevels g)\<rparr>)"
    using g(2) by (intro r_into_rtranclp gs_single_fill)
  have "quiet m (onSingleSLFilled env gid fp q m)"
    using g(1) unfolding onSingleSLFilled_def on_group_def Let_def
    by (auto simp: quiet_def finishGroup_def map_le_def task_single_def Let_def)
  moreover have "heap (onSingleSLFilled env gid fp q m) =
      (heap m)(gid \<mapsto> (reduce_remaining q g)\<lparr>gTPLevels := map cancel_open (gTPLevels g)\<rparr>)"
    using g(1) id by (auto simp: onSingleSLFilled_def on_group_def Let_def)
  ultimately show ?thesis by (intro sim_quiet_update [OF assms(1) _ g(1) _ st])
qed

lemma cancelGroupInternal_sim:
  assumes "ml_wf m"
  shows "sim m (cancelGroupInternal env gid m)"
proof (cases "heap m gid")
  case (Some g)
  show ?thesis
  proof (cases "gState g = GroupStateActive")
    case True
    define g1 where "g1 = g\<lparr>gState := GroupStateCancelled\<rparr>"
    define b where "b = gSingleSLBrokerID g"
    define m1 where "m1 = setg g1 m"
    define m3 where "m3 = unsubscribeGroup env g1
      (m1\<lparr>groupsByEntry := AList.delete (gEntryOrderID g) (groupsByEntry m1)\<rparr>)"
    define m4 where "m4 = (if b \<noteq> [] then m3\<lparr>singleSLIndex := (singleSLIndex m3)(b := None)\<rparr> else m3)"
    define m5 where "m5 = (if gTradingMode g = ''LIVE'' \<and> b \<noteq> [] \<and> gAuth g \<noteq> None
                      then spawn (TCancelOrder gid b) m4 else m4)"
    have id: "gGroupID g1 = gid" using ml_wfD(1) [OF assms Some] by (simp add: g1_def)
    have st: "group_step\<^sup>*\<^sup>* g g1" unfolding g1_def using True by (intro r_into_rtranclp gs_cancel)
    have h5: "heap m5 = (heap m)(gid \<mapsto> g1)" "quiet m m5"
      using id by (auto simp: m5_def m4_def m3_def m1_def quiet_def map_le_def task_single_def)
    have s5: "sim m m5" by (rule sim_quiet_update [OF assms h5(2) Some h5(1) st])
    have c: "sim m5 (cancelRemainingMLOrders gid MLExitTypeTP (cancelRemainingMLOrders gid MLExitTypeSL m5))"
      using h5(1) by (intro sim_cancel_both(1) [OF sim_wf [OF assms s5]]) (auto simp: g1_def)
    have e: "cancelGroupInternal env gid m = (if gTradingMode g = ''LIVE'' \<and> gAuth g \<noteq> None
        then cancelRemainingMLOrders gid MLExitTypeTP (cancelRemainingMLOrders gid MLExitTypeSL m5) else m5)"
      using Some True by (simp add: cancelGroupInternal_def on_group_def g1_def b_def m1_def m3_def m4_def m5_def Let_def
          del: not_None_eq)
    show ?thesis unfolding e using s5 sim_trans [OF s5 c] by simp
  qed (use Some in \<open>simp add: cancelGroupInternal_def on_group_def sim_refl\<close>)
qed (simp add: cancelGroupInternal_def on_group_def sim_refl)

lemma cancel_symbol_sim: "ml_wf m \<Longrightarrow> sim m (CancelGroupsBySymbol env u s m)"
  unfolding CancelGroupsBySymbol_def
  by (rule sim_foldl) (auto simp: cancel_if_symbol_def on_group_def sim_refl cancelGroupInternal_sim split: option.splits)

lemma paper_close_frame [simp, frame_simps]:
  "heap (paper_close env g p r m) = heap m" "quiet m (paper_close env g p r m)"
  by (auto simp: paper_close_def quiet_def)

lemma cancel_strategy_sim:
  assumes "ml_wf m"
  shows "sim m (CancelGroupsByStrategy env u s m)"
  unfolding CancelGroupsByStrategy_def
proof (rule sim_foldl [OF _ assms])
  fix m gid
  assume wf: "ml_wf m"
  show "sim m (cancel_if_strategy env u s m gid)"
  proof (cases "heap m gid")
    case (Some g)
    show ?thesis
    proof (cases "gUserID g \<noteq> u \<or> gStrategyID g \<noteq> s \<or> gState g \<noteq> GroupStateActive")
      case False
      define g1 where "g1 = g\<lparr>gState := GroupStateCancelled\<rparr>"
      have st: "group_step\<^sup>*\<^sup>* g g1" unfolding g1_def using False by (intro r_into_rtranclp gs_cancel) simp
      have id: "gGroupID g1 = gid" using ml_wfD(1) [OF wf Some] by (simp add: g1_def)
      have "quiet m (cancel_if_strategy env u s m gid)" "heap (cancel_if_strategy env u s m gid) = (heap m)(gid \<mapsto> g1)"
        using Some False id
        by (auto simp: cancel_if_strategy_def on_group_def Let_def g1_def paper_close_def quiet_def split: option.splits)
      then show ?thesis by (rule sim_quiet_update [OF wf _ Some _ st])
    qed (use Some in \<open>auto simp: cancel_if_strategy_def on_group_def sim_refl\<close>)
  qed (simp add: cancel_if_strategy_def on_group_def sim_refl)
qed

lemma cancel_tp_at_sim:
  assumes "ml_wf m" "heap m gid = Some g" "gState g \<noteq> GroupStateActive"
  shows "sim m (cancel_tp_at env gid m i)"
proof (cases "i < length (gTPLevels g) \<and> lStatus (gTPLevels g ! i) = LevelActive \<and> lBrokerOrderID (gTPLevels g ! i) \<noteq> []
       \<and> eBroker env \<and> gAuth g \<noteq> None")
  case True
  have id: "gGroupID g = gid" using ml_wfD(1) [OF assms(1,2)] .
  have "open_level MLExitTypeTP i g" using True by (simp add: open_level_def side_levels_def)
  then have st: "group_step\<^sup>*\<^sup>* g (g\<lparr>gTPLevels := (gTPLevels g)[i := markCancelled (gTPLevels g ! i)]\<rparr>)"
    using assms(3) by (intro r_into_rtranclp gs_cancel_one)
  show ?thesis
  proof (cases "eCancel env (out m) (lBrokerOrderID (gTPLevels g ! i))")
    case c: True
    show ?thesis using True assms(2) id c
      by (intro sim_quiet_update [OF assms(1) _ assms(2) _ st])
        (auto simp: cancel_tp_at_def cancelTPOrder_def on_group_def broker_cancel_def quiet_def)
  next
    case False
    then show ?thesis using True assms(2)
      by (intro sim_quiet) (auto simp: cancel_tp_at_def cancelTPOrder_def on_group_def broker_cancel_def quiet_def)
  qed
qed (use assms(2) in \<open>auto simp: cancel_tp_at_def cancelTPOrder_def on_group_def sim_refl\<close>)

lemma cancel_tps_sim:
  assumes "ml_wf m" "heap m gid = Some g" "gState g \<noteq> GroupStateActive"
  shows "sim m (foldl (cancel_tp_at env gid) m is)"
  using assms
proof (induction "is" arbitrary: m g)
  case (Cons i "is")
  have s: "sim m (cancel_tp_at env gid m i)" using cancel_tp_at_sim Cons.prems .
  obtain g' where g': "heap (cancel_tp_at env gid m i) gid = Some g'" "evolves g g'"
    using sim_heap_same [OF s Cons.prems(2)] by blast
  then have "gState g' \<noteq> GroupStateActive" using Cons.prems(3) by (simp add: evolves_def)
  then have "sim (cancel_tp_at env gid m i) (foldl (cancel_tp_at env gid) (cancel_tp_at env gid m i) is)"
    by (rule Cons.IH [OF sim_wf [OF Cons.prems(1) s] g'(1)])
  then show ?case using sim_trans [OF s] by simp
qed (simp add: sim_refl)

lemma cancelSLOrder_sim:
  assumes "ml_wf m"
  shows "sim m (cancelSLOrder env gid m)"
proof (cases "heap m gid")
  case (Some g)
  have "group_step\<^sup>*\<^sup>* g (g\<lparr>gSingleSLBrokerID := []\<rparr>)" using gs_clear by blast
  from sim_quiet_update [OF assms _ Some _ this] show ?thesis
    using Some ml_wfD(1) [OF assms Some]
    by (auto simp: cancelSLOrder_def on_group_def broker_cancel_def Let_def quiet_def)
qed (simp add: cancelSLOrder_def on_group_def sim_refl)

lemma CancelGroupForExit_sim:
  assumes "ml_wf m"
  shows "sim m (CancelGroupForExit env eid p r m)"
proof (cases "map_of (groupsByEntry m) eid")
  case gid: (Some gid)
  show ?thesis
  proof (cases "heap m gid")
    case (Some g)
    show ?thesis
    proof (cases "gState g = GroupStateActive")
      case True
      define g1 where "g1 = g\<lparr>gState := GroupStateCancelled\<rparr>"
      define m1 where "m1 = setg g1 m"
      define m3 where "m3 = cancelSLOrder env gid (foldl (cancel_tp_at env gid) m1 [0..<length (gTPLevels g)])"
      have 1: "sim m m1" unfolding m1_def g1_def
        using True by (intro sim_setg [OF assms Some] r_into_rtranclp gs_cancel)
      have h1: "heap m1 gid = Some g1" "gState g1 \<noteq> GroupStateActive"
        using ml_wfD(1) [OF assms Some] by (auto simp: m1_def g1_def)
      have 2: "sim m1 (foldl (cancel_tp_at env gid) m1 [0..<length (gTPLevels g)])"
        by (rule cancel_tps_sim [OF sim_wf [OF assms 1] h1])
      have 3: "sim m m3" unfolding m3_def
        using sim_trans [OF 1 sim_trans [OF 2 cancelSLOrder_sim]] sim_wf [OF sim_wf [OF assms 1] 2] by blast
      then obtain g3 where h3: "heap m3 gid = Some g3" using sim_heap_same [OF 3 Some] by blast
      have "sim m3 (CancelGroupForExit env eid p r m)"
        using gid Some True h3 unfolding CancelGroupForExit_def
        by (intro sim_quiet)
          (auto simp: on_group_def [where m = m] on_group_def [where m = m3] m3_def [symmetric] m1_def [symmetric]
            g1_def [symmetric] Let_def quiet_def map_le_def paper_close_def)
      then show ?thesis using sim_trans [OF 3] by blast
    qed (use gid Some in \<open>simp add: CancelGroupForExit_def on_group_def sim_refl\<close>)
  qed (use gid in \<open>simp add: CancelGroupForExit_def on_group_def sim_refl\<close>)
qed (simp add: CancelGroupForExit_def sim_refl)

section \<open>Reload, goroutines, steps\<close>

lemma foldl_add_record_id: "gGroupID (foldl add_record g rs) = gGroupID g"
  by (induction rs arbitrary: g) (auto simp: add_record_def Let_def split: option.splits)

lemma buildGroupFromDB_id: "buildGroupFromDB gid entry rs = Some (g, lost) \<Longrightarrow> gGroupID g = gid"
  by (auto simp: buildGroupFromDB_def Let_def foldl_add_record_id split: option.splits if_splits)

lemma foldl_add_record_filled: "gEntryFilled (foldl add_record g rs) = gEntryFilled g"
  by (induction rs arbitrary: g) (auto simp: add_record_def Let_def split: option.splits)

lemma buildGroupFromDB_filled: "buildGroupFromDB gid entry rs = Some (g, lost) \<Longrightarrow> gEntryFilled g"
  by (auto simp: buildGroupFromDB_def Let_def foldl_add_record_filled split: option.splits if_splits)

lemma index_record_frame:
  "heap (foldl (index_record gid) m rs) = heap m" "nextID (foldl (index_record gid) m rs) = nextID m"
  "tasks (foldl (index_record gid) m rs) = tasks m" "singleSLIndex (foldl (index_record gid) m rs) = singleSLIndex m"
  "groupsByEntry (foldl (index_record gid) m rs) = groupsByEntry m"
  by (induction rs arbitrary: m) (auto simp: index_record_def split: option.splits)

lemma reload_entry_sim: "ml_wf m \<Longrightarrow> sim m (fst (reload_entry env lv (m, st) e))"
proof -
  assume wf: "ml_wf m"
  show ?thesis
  proof (cases "map_of (groupsByEntry m) (oOrderID e) \<noteq> None \<or> lv (oOrderID e) = []")
    case False
    show ?thesis
    proof (cases "buildGroupFromDB (nextID m) e (lv (oOrderID e))")
      case None
      then show ?thesis using False by (simp add: reload_entry_def sim_refl)
    next
      case (Some gl)
      obtain g lost where gl: "gl = (g, lost)" by fastforce
      have "gGroupID g = nextID m" "gEntryFilled g"
        using Some gl buildGroupFromDB_id buildGroupFromDB_filled by blast+
      then show ?thesis using Some gl False
        by (intro sim_new [OF wf]) (auto simp: reload_entry_def Let_def index_record_frame no_levels_before_fill_def)
    qed
  qed (auto simp: reload_entry_def sim_refl)
qed

lemma reload_entries_sim: "ml_wf m \<Longrightarrow> sim m (fst (foldl (reload_entry env lv) (m, st) es))"
proof (induction es arbitrary: m st)
  case (Cons e es)
  obtain m1 st1 where e: "reload_entry env lv (m, st) e = (m1, st1)" by fastforce
  have s: "sim m m1" using reload_entry_sim [OF Cons.prems, of env lv st e] e by simp
  then show ?case using sim_trans [OF s Cons.IH [OF sim_wf [OF Cons.prems s]]] e by simp
qed (simp add: sim_refl)

lemma Reload_sim: "ml_wf m \<Longrightarrow> sim m (fst (Reload env es ls m))"
  using reload_entries_sim [of m env]
  by (auto simp: Reload_def Let_def sim_refl split: option.splits prod.splits) (metis fst_conv)

lemma HandleBrokerUpdate_sim:
  assumes "ml_wf m"
  shows "sim m (HandleBrokerUpdate ord st m)"
proof -
  have sp: "sim m (spawn t m)" if "ok_task m t" for t
    using that by (auto simp: sim_def ok_task_def single_at_def)
  have "ok_task m (TOnSingleSLFilled gid p q)" if "singleSLIndex m b = Some gid" for b gid p q
    using ml_wfD(4) [OF assms that] by (simp add: ok_task_def task_single_def)
  moreover have "ok_task m (TOnEntryFill eid p q)" "ok_task m (TOnMultiLevelFilled gid et n p' q)" for eid p q gid et n p'
    by (simp_all add: ok_task_def task_single_def)
  ultimately show ?thesis
    using sp by (auto simp: HandleBrokerUpdate_def sim_refl split: option.splits)
qed

lemma run_task_sim:
  assumes "ml_wf m" "ok_task m t"
  shows "sim m (run_task env t m)"
  using assms single_tasks_sim [OF assms(1)] onSingleSLFilled_sim [OF assms(1)]
  by (cases t) (auto simp: ok_task_def task_single_def heap_neutral_sim place_level_sim modify_trailing_sim
      OnEntryFill_sim onMultiLevelFilled_sim)

lemma schedule_sim:
  assumes "ml_wf m"
  shows "sim m (schedule env i m)"
proof (cases "i < length (tasks m)")
  case True
  define m0 where "m0 = m\<lparr>tasks := take i (tasks m) @ drop (Suc i) (tasks m)\<rparr>"
  have s: "sim m m0"
    by (rule sim_quiet) (auto simp: m0_def quiet_def dest: in_set_takeD in_set_dropD)
  have "ok_task m0 (tasks m ! i)" using sim_ok_task [OF s] ml_wfD(5) [OF assms] True by auto
  then show ?thesis
    using sim_trans [OF s run_task_sim [OF sim_wf [OF assms s]]] True by (simp add: schedule_def m0_def)
qed (simp add: schedule_def sim_refl)

lemma ml_step_sim:
  assumes "ml_step env m m'" "ml_wf m"
  shows "sim m m'"
  using assms
  by (induction rule: ml_step.induct)
    (auto simp: RegisterEntry_sim OnEntryFill_sim OnPriceUpdate_sim worker_sim schedule_sim HandleBrokerUpdate_sim
      CancelGroup_def cancelGroupInternal_sim cancel_symbol_sim CancelGroupForExit_sim cancel_strategy_sim Reload_sim
      sim_refl split: option.splits)

lemma NewManager_wf: "ml_wf NewManager"
  by (simp add: ml_wf_def NewManager_def)

lemma reachable_wf: "ml_reachable env m \<Longrightarrow> ml_wf m"
  by (induction rule: ml_reachable.induct) (auto simp: NewManager_wf intro: sim_wf ml_step_sim)

text \<open>The manager is a store of groups that evolve by \<open>group_step\<close>.\<close>

interpretation ml_store: object_store "ml_step env" ml_wf heap "group_step\<^sup>*\<^sup>*" for env
proof
  show "group_step\<^sup>*\<^sup>* x x" for x by simp
  show "group_step\<^sup>*\<^sup>* x y \<Longrightarrow> group_step\<^sup>*\<^sup>* y z \<Longrightarrow> group_step\<^sup>*\<^sup>* x z" for x y z by (rule rtranclp_trans)
  show "ml_wf m \<Longrightarrow> ml_step env m m' \<Longrightarrow> ml_wf m'" for m m' using sim_wf ml_step_sim by blast
  show "ml_wf m \<Longrightarrow> ml_step env m m' \<Longrightarrow> heap m k = Some x \<Longrightarrow>
      \<exists>y. heap m' k = Some y \<and> group_step\<^sup>*\<^sup>* x y" for m m' k x
    using simD(1) ml_step_sim by blast
qed

end
