(* ===== verification/MlProps.thy ===== *)
theory MlProps
  imports MlRefine
begin

text \<open>
  The properties of the multi-level exit manager as a whole, over every run of the step
  relation \<open>ml_step\<close>, and a small concrete run (\<open>demo\<close>) that the witnesses evaluate.
\<close>

section \<open>A concrete run\<close>

definition demo_env :: ml_env where
  "demo_env = \<lparr> ePlace = (\<lambda>_ _. Some ''B1''), eModify = (\<lambda>_ _. True), eCancel = (\<lambda>_ _. True),
     eBroker = True, eWS = True, ePriceLookup = None, eHookCompleted = True, eHookLevel = False,
     eHookQty = False, eHookSL = False, ePaperID = (\<lambda>_ _ _. ''PAPER'') \<rparr>"

definition demo_order :: Order where
  "demo_order = zero_order\<lparr>oOrderID := 7, oUserID := ''u'', oStockCode := 42, oOrderSide := ''BUY'',
     oTradingMode := ''PAPER''\<rparr>"

definition demo_sl :: "SLTPLevelConfig list" where
  "demo_sl = [\<lparr>cfgLevelNum = 1, cfgPricePct = 5, cfgQtyPct = 100\<rparr>]"

definition demo_tp :: "SLTPLevelConfig list" where
  "demo_tp = [\<lparr>cfgLevelNum = 1, cfgPricePct = 10, cfgQtyPct = 50\<rparr>, \<lparr>cfgLevelNum = 2, cfgPricePct = 20, cfgQtyPct = 50\<rparr>]"

definition demo_registered :: "ml_state" where
  "demo_registered = RegisterEntry demo_order SLModeMultiLevel TPModeMultiLevel demo_sl demo_tp 0 0 None NewManager"

definition demo_filled :: "ml_state" where
  "demo_filled = OnEntryFill demo_env 7 100 100 [] [] demo_registered"

lemma demo_reachable: "ml_reachable demo_env demo_registered"
  unfolding demo_registered_def by (intro reach_step [OF reach_init] step_register)


lemma demo_filled_reachable: "ml_reachable demo_env demo_filled"
  unfolding demo_filled_def by (intro reach_step [OF demo_reachable] step_fill)

lemmas demo_defs = demo_env_def demo_order_def demo_registered_def demo_filled_def
  zero_order_def NewManager_def RegisterEntry_def OnEntryFill_def on_group_def fill_group_def Let_def
  SLModeMultiLevel_def TPModeMultiLevel_def SLModeTrailing_def SLModeFixed_def TPModeFixed_def
  live_entry_tasks_def

definition demo_level :: "int \<Rightarrow> float64 \<Rightarrow> int \<Rightarrow> uuid \<Rightarrow> ExitLevelState" where
  "demo_level n p q i = \<lparr> lLevelNum = n, lTriggerPrice = p, lExitQty = q, lOriginalExitQty = q,
     lStatus = LevelActive, lBrokerOrderID = [], lExitOrderID = i, lExitPrice = 0 \<rparr>"

definition demo_group :: Group where
  "demo_group = \<lparr> gGroupID = 1, gEntryOrderID = 7, gUserID = ''u'', gSymbol = [], gExchange = [], gStockCode = 42,
     gOrderSide = ''BUY'', gProductType = [], gValidity = [], gFillPrice = 100, gTotalQty = 100,
     gSLLevels = [demo_level 1 95 100 2], gTPLevels = [demo_level 1 110 50 3, demo_level 2 120 50 4],
     gSLMode = SLModeMultiLevel, gFixedSLPct = 0, gTrailingSLPct = 0, gHighestPrice = 100, gCurrentSLTrigger = 0,
     gSingleSLBrokerID = [], gSingleSLOrderID = 0, gTPMode = TPModeMultiLevel, gState = GroupStateActive,
     gRemainingQty = 100, gTradingMode = ''PAPER'', gAuth = None, gAuthBearer = [], gAuthAppID = [], gAuthSource = [],
     gStrategyID = [], gStrategyName = [], gEventID = 0, gSLLevelConfigs = demo_sl, gTPLevelConfigs = demo_tp,
     gEntryFilled = True, gEvaluating = 0 \<rparr>"

lemma demo_factors:
  "fmul 100 (fsub 1 (fdiv 5 100)) = 95" "fmul 100 (fadd 1 (fdiv 10 100)) = 7740561859543041 / 70368744177664"
  "fmul 100 (fadd 1 (fdiv 20 100)) = 120"
  by (simp_all add: f64_eval)

lemma demo_paise: "nse_paise 95 = 9500" "nse_paise (7740561859543041 / 70368744177664) = 11000" "nse_paise 120 = 12000"
  by (simp_all add: nse_paise_def tick_arg_def f64_eval i64_def go_div_def)

lemma demo_prices:
  "roundNSE (fmul 100 (fsub 1 (fdiv 5 100))) = 95" "roundNSE (fmul 100 (fadd 1 (fdiv 10 100))) = 110"
  "roundNSE (fmul 100 (fadd 1 (fdiv 20 100))) = 120"
  unfolding roundNSE_def demo_factors demo_paise by (simp_all add: f64_eval)

lemma demo_shares: "int32_of (fdiv (fmul (f_of_int 100) 50) 100) = 50"
  by (simp add: f64_eval)

lemma demo_qtys: "computeInitialExitQtys demo_sl 100 = [100]" "computeInitialExitQtys demo_tp 100 = [50, 50]"
  by (simp_all add: computeInitialExitQtys_def demo_sl_def demo_tp_def demo_shares i32_def)

lemma demo_sorted: "sort_key cfgLevelNum demo_sl = demo_sl" "sort_key cfgLevelNum demo_tp = demo_tp"
  by (simp_all add: demo_sl_def demo_tp_def)

lemma demo_calc:
  assumes "gOrderSide g = ''BUY''" "gFillPrice g = 100"
  shows "CalcSLTriggerPrice g 5 = 95" "CalcTPLimitPrice g 10 = 110" "CalcTPLimitPrice g 20 = 120"
  unfolding CalcSLTriggerPrice_def CalcTPLimitPrice_def assms demo_prices by simp_all

lemma demo_levels:
  assumes "gOrderSide g = ''BUY''" "gFillPrice g = 100"
  shows "build_levels (CalcSLTriggerPrice g) demo_sl 100 f = [demo_level 1 95 100 f]"
    "build_levels (CalcTPLimitPrice g) demo_tp 100 f = [demo_level 1 110 50 f, demo_level 2 120 50 (Suc f)]"
  unfolding build_levels_def demo_qtys
  by (auto simp: demo_sl_def demo_tp_def demo_level_def demo_calc [OF assms] upt_rec simp del: upt_Suc)

lemma demo_fill_heap: "heap demo_filled 1 = Some demo_group"
  by (simp add: demo_defs demo_sorted demo_levels demo_group_def) (simp add: demo_sl_def numeral_eq_Suc)

section \<open>Runs\<close>







definition demo_tp1 :: ml_state where
  "demo_tp1 = onMultiLevelFilled demo_env 1 MLExitTypeTP 1 (Some 110) 50 demo_filled"

text \<open>
  C4. A stopped group stays stopped. Once a group is completed or cancelled, no later step
  makes it active again, and a queued evaluation of it changes nothing at all.
\<close>

theorem stopped_group_inert:
  assumes "ml_reachable env m" "(ml_step env)\<^sup>*\<^sup>* m m'" "heap m gid = Some g" "gState g \<noteq> GroupStateActive"
  shows "(\<exists>g'. heap m' gid = Some g' \<and> gState g' \<noteq> GroupStateActive) \<and> runEvalJob env gid ltp m' = m'"
proof -
  have wf: "ml_wf m'" using ml_store.run_good [OF assms(2) reachable_wf [OF assms(1)]] .
  obtain g' where g': "heap m' gid = Some g'" "gState g' \<noteq> GroupStateActive"
    using ml_store.run_stable [OF assms(2) reachable_wf [OF assms(1)] assms(3),
        of "\<lambda>g. gState g \<noteq> GroupStateActive"] assms(4) group_steps_evolves by (auto simp: evolves_def)
  have "gGroupID g' = gid" using ml_wfD(1) [OF wf g'(1)] .
  then have "runEvalJob env gid ltp m' = m'"
    using g' by (cases "gEvaluating g' = 0")
      (auto simp: runEvalJob_def on_group_def tryClaimEvaluation_def releaseEvaluation_def setg_def Let_def
        intro!: ml_state.equality fun_upd_triv)
  then show ?thesis using g' by blast
qed

text \<open>
  \<open>OnEntryFill\<close> is idempotent: a second fill notification for the same entry, whatever
  it says, leaves the state as it is.
\<close>

theorem OnEntryFill_idempotent:
  assumes "ml_reachable env m"
  shows "OnEntryFill env eid p' q' sl' tp' (OnEntryFill env eid p q sl tp m) = OnEntryFill env eid p q sl tp m"
proof (cases "map_of (groupsByEntry m) eid")
  case (Some gid)
  show ?thesis
  proof (cases "heap m gid")
    case h: (Some g)
    show ?thesis
    proof (cases "gEntryFilled g")
      case False
      define m1 where "m1 = OnEntryFill env eid p q sl tp m"
      have "gGroupID g = gid" using ml_wfD(1) [OF reachable_wf [OF assms] h] .
      then have "\<exists>g1. heap m1 gid = Some g1 \<and> gEntryFilled g1" "groupsByEntry m1 = groupsByEntry m"
        using Some h False by (auto simp: m1_def OnEntryFill_def on_group_def Let_def fill_group_def)
      then show ?thesis using Some unfolding m1_def [symmetric] by (auto simp: OnEntryFill_def on_group_def)
    qed (use Some h in \<open>simp add: OnEntryFill_def on_group_def\<close>)
  qed (use Some in \<open>simp add: OnEntryFill_def on_group_def\<close>)
qed (simp add: OnEntryFill_def)

theorem OnEntryFill_idempotent_witness:
  "OnEntryFill demo_env 7 50 3 [] demo_tp demo_filled = demo_filled \<and> heap demo_filled 1 = Some demo_group"
  using OnEntryFill_idempotent [OF demo_reachable, of 7 50 3 "[]" demo_tp 100 100 "[]" "[]"] demo_fill_heap
  unfolding demo_filled_def by simp

lemma find_level_evolves:
  assumes "find_level n k ls = Some (i, l)" "lLevelNum l' = lLevelNum l"
    and "list_all2 level_evolves (ls[i - k := l']) ls''"
  shows "\<exists>l''. find_level n k ls'' = Some (i, l'') \<and> level_evolves l' l''"
  using assms
proof (induction ls arbitrary: k ls'')
  case (Cons a ls)
  show ?case
  proof (cases "lLevelNum a = n")
    case True
    then show ?thesis using Cons.prems by (auto simp: list_all2_Cons1 level_evolves_def)
  next
    case False
    then have f: "find_level n (Suc k) ls = Some (i, l)" using Cons.prems(1) by simp
    then have "k < i" using find_level_Some by fastforce
    then have "(a # ls)[i - k := l'] = a # ls[i - Suc k := l']" by (cases "i - k") (auto simp: diff_Suc)
    then obtain b bs where b: "ls'' = b # bs" "level_evolves a b" "list_all2 level_evolves (ls[i - Suc k := l']) bs"
      using Cons.prems(3) by (auto simp: list_all2_Cons1)
    have "lLevelNum b = lLevelNum a" using b(2) by (simp add: level_evolves_def)
    then show ?thesis using Cons.IH [OF f Cons.prems(2) b(3)] False b(1) by simp
  qed
qed simp

text \<open>
  C8. The broker may repeat the execution report of a level: the second report changes
  nothing, so the position is reduced once for each level.
\<close>

theorem onMultiLevelFilled_idempotent:
  assumes "ml_reachable env m"
  shows "onMultiLevelFilled env gid et n fp' q' (onMultiLevelFilled env gid et n fp q m) =
     onMultiLevelFilled env gid et n fp q m"
proof (rule onMultiLevelFilled_cases [of env gid et n m])
  assume skip: "\<And>fp fq. onMultiLevelFilled env gid et n fp fq m = m"
  then show ?thesis by simp
next
  fix g i l
  assume h: "heap m gid = Some g" and f: "find_level n 0 (side_levels et g) = Some (i, l)" and a: "lStatus l = LevelActive"
  define m1 where "m1 = onMultiLevelFilled env gid et n fp q m"
  define g1 where "g1 = trigger_level et i l (price_of fp) g"
  obtain g' where g': "heap m1 gid = Some g'" "evolves g1 g'"
    using level_fill_sim(2) [OF reachable_wf [OF assms] h f a, of env fp q] by (auto simp: m1_def g1_def)
  note fl = find_level_Some [OF f]
  have "gEntryFilled g"
    using ml_wfD(3) [OF reachable_wf [OF assms] h] fl
    by (auto simp: no_levels_before_fill_def side_levels_def split: if_splits)
  then have ev: "list_all2 level_evolves (side_levels et g1) (side_levels et g')"
    using g'(2) by (auto simp: evolves_defs g1_def trigger_simps side_levels_def)
  have s1: "side_levels et g1 = (side_levels et g)[i := l\<lparr>lStatus := LevelTriggered, lExitPrice := price_of fp\<rparr>]"
    by (auto simp: g1_def side_levels_def trigger_level_def Let_def)
  obtain l' where l': "find_level n 0 (side_levels et g') = Some (i, l')" "lStatus l' = LevelTriggered"
    using find_level_evolves [OF f, of "l\<lparr>lStatus := LevelTriggered, lExitPrice := price_of fp\<rparr>" "side_levels et g'"]
      ev s1 by (auto simp: level_evolves_def)
  have "onMultiLevelFilled env gid et n fp' q' m1 = m1"
    using l' g'(1) by (intro level_fill_skip) auto
  then show ?thesis by (simp add: m1_def)
qed

section \<open>One tick of a paper group\<close>

text \<open>
  The abstract tick: the first active stop level the price has breached fires; only if
  there is none, the first active target level the price has reached.
\<close>

definition first_hit :: "(float64 \<Rightarrow> bool) \<Rightarrow> ExitLevelState list \<Rightarrow> nat option" where
  "first_hit hit ls = find (\<lambda>i. lStatus (ls ! i) = LevelActive \<and> hit (lTriggerPrice (ls ! i))) [0..<length ls]"

definition tick_spec :: "float64 \<Rightarrow> Group \<Rightarrow> Group" where
  "tick_spec ltp g =
     (case (if gSLMode g = SLModeMultiLevel then first_hit (\<lambda>t. SLBreached g t ltp) (gSLLevels g) else None) of
        Some i \<Rightarrow> paper_exit MLExitTypeSL i ltp g
      | None \<Rightarrow> (case first_hit (\<lambda>t. TPReached g t ltp) (gTPLevels g) of
          Some i \<Rightarrow> paper_exit MLExitTypeTP i ltp g | None \<Rightarrow> g))"

lemma find_upt_Cons:
  "find P [k..<Suc n] = (if n < k then None else if P k then Some k else find P [Suc k..<Suc n])"
  by (cases "n < k") (auto simp: upt_rec simp del: upt_Suc)

lemma scan_levels_find:
  "scan_levels hit ltp k ls =
     map_option (\<lambda>i. (i, (ls ! (i - k))\<lparr>lStatus := LevelTriggered, lExitPrice := ltp\<rparr>))
       (find (\<lambda>i. lStatus (ls ! (i - k)) = LevelActive \<and> hit (lTriggerPrice (ls ! (i - k)))) [k..<k + length ls])"
proof (induction ls arbitrary: k)
  case (Cons a ls)
  define P where "P = (\<lambda>i. lStatus ((a # ls) ! (i - k)) = LevelActive \<and> hit (lTriggerPrice ((a # ls) ! (i - k))))"
  define Q where "Q = (\<lambda>i. lStatus (ls ! (i - Suc k)) = LevelActive \<and> hit (lTriggerPrice (ls ! (i - Suc k))))"
  have sh: "(a # ls) ! (i - k) = ls ! (i - Suc k)" if "Suc k \<le> i" for i
    using that by (auto simp: nth_Cons')
  have pq: "P i = Q i" if "Suc k \<le> i" for i using sh [OF that] by (simp add: P_def Q_def)
  have "find P [Suc k..<k + length (a # ls)] = find Q [Suc k..<Suc k + length ls]"
    by (rule find_cong) (simp, rule pq, auto)
  moreover have "find P [k..<k + length (a # ls)] = (if P k then Some k else find P [Suc k..<k + length (a # ls)])"
    using find_upt_Cons [of P k "k + length ls"] by simp
  moreover have "P k \<longleftrightarrow> lStatus a = LevelActive \<and> hit (lTriggerPrice a)" by (simp add: P_def)
  moreover have "map_option (\<lambda>i. (i, (ls ! (i - Suc k))\<lparr>lStatus := LevelTriggered, lExitPrice := ltp\<rparr>)) (find Q xs) =
      map_option (\<lambda>i. (i, ((a # ls) ! (i - k))\<lparr>lStatus := LevelTriggered, lExitPrice := ltp\<rparr>)) (find Q xs)"
    if "xs = [Suc k..<Suc k + length ls]" for xs
  proof (rule option.map_cong0)
    fix i
    assume "i \<in> set_option (find Q xs)"
    then have "find Q xs = Some i" by (simp add: elem_set)
    then have "i \<in> set xs" by (auto simp: find_Some_iff)
    then have "Suc k \<le> i" using that by auto
    then show "(i, (ls ! (i - Suc k))\<lparr>lStatus := LevelTriggered, lExitPrice := ltp\<rparr>) =
        (i, ((a # ls) ! (i - k))\<lparr>lStatus := LevelTriggered, lExitPrice := ltp\<rparr>)" using sh by simp
  qed
  ultimately show ?case
    unfolding P_def [symmetric] using Cons.IH [of "Suc k", folded Q_def] by (auto simp: tryMarkTriggered_def)
qed simp

lemma scan_levels_first:
  "scan_levels hit ltp 0 ls =
     map_option (\<lambda>i. (i, (ls ! i)\<lparr>lStatus := LevelTriggered, lExitPrice := ltp\<rparr>)) (first_hit hit ls)"
  using scan_levels_find [of hit ltp 0 ls] by (simp add: first_hit_def)

lemma first_hit_Some:
  "first_hit hit ls = Some i \<Longrightarrow> i < length ls \<and> lStatus (ls ! i) = LevelActive \<and> hit (lTriggerPrice (ls ! i))"
  by (auto simp: first_hit_def find_Some_iff)

lemma eval_flag_commutes:
  "paper_exit et i p (g\<lparr>gEvaluating := e\<rparr>) = (paper_exit et i p g)\<lparr>gEvaluating := e\<rparr>"
  "SLBreached (g\<lparr>gEvaluating := e\<rparr>) = SLBreached g" "TPReached (g\<lparr>gEvaluating := e\<rparr>) = TPReached g"
  by (auto simp: paper_exit_def trigger_level_def reduce_remaining_def rebal_def side_levels_def Let_def
      SLBreached_def TPReached_def fun_eq_iff)

lemma tick_spec_flag: "tick_spec ltp (g\<lparr>gEvaluating := e\<rparr>) = (tick_spec ltp g)\<lparr>gEvaluating := e\<rparr>"
  by (simp add: tick_spec_def eval_flag_commutes split: option.splits)

lemma paper_levels_heap:
  assumes wf: "ml_wf m" and h: "heap m gid = Some g"
    and "gTradingMode g \<noteq> ''LIVE''" "gSingleSLBrokerID g = []"
  shows "heap (case evaluateSLLevels env gid ltp m of (m', True) \<Rightarrow> m' | (m', False) \<Rightarrow> evaluateTPLevels env gid ltp m') =
    (heap m)(gid \<mapsto> tick_spec ltp g)"
proof -
  have id: "gGroupID g = gid" using ml_wfD(1) [OF wf h] .
  have fire: "heap (recordPaperExit env gid n (lExitQty (side_levels et g ! i)) ltp et (setg g1 m)) =
      (heap m)(gid \<mapsto> paper_exit et i ltp g)"
    if "et = MLExitTypeSL \<or> et = MLExitTypeTP"
      "g1 = (if et = MLExitTypeSL
             then g\<lparr>gSLLevels := (gSLLevels g)[i := (gSLLevels g ! i)\<lparr>lStatus := LevelTriggered, lExitPrice := ltp\<rparr>]\<rparr>
             else g\<lparr>gTPLevels := (gTPLevels g)[i := (gTPLevels g ! i)\<lparr>lStatus := LevelTriggered, lExitPrice := ltp\<rparr>]\<rparr>)"
    for et n i g1
  proof -
    have id1: "gGroupID g1 = gid" "heap (setg g1 m) gid = Some g1" using that(2) id by auto
    show ?thesis
      using recordPaperExit_frame(2) [OF id1(2,1) that(1)] paper_exit_after [OF that] id1(1) by simp
  qed
  define sl where "sl = (if gSLMode g = SLModeMultiLevel then first_hit (\<lambda>t. SLBreached g t ltp) (gSLLevels g) else None)"
  have ev: "evaluateSLLevels env gid ltp m = (case sl of None \<Rightarrow> (m, False) | Some i \<Rightarrow>
      (recordPaperExit env gid (lLevelNum (gSLLevels g ! i)) (lExitQty (gSLLevels g ! i)) ltp MLExitTypeSL
        (setg (g\<lparr>gSLLevels := (gSLLevels g)[i := (gSLLevels g ! i)\<lparr>lStatus := LevelTriggered, lExitPrice := ltp\<rparr>]\<rparr>) m), True))"
    using h assms(3,4) by (simp add: evaluateSLLevels_def scan_levels_first sl_def split: option.splits)
  have et: "evaluateTPLevels env gid ltp m = (case first_hit (\<lambda>t. TPReached g t ltp) (gTPLevels g) of None \<Rightarrow> m | Some i \<Rightarrow>
      recordPaperExit env gid (lLevelNum (gTPLevels g ! i)) (lExitQty (gTPLevels g ! i)) ltp MLExitTypeTP
        (setg (g\<lparr>gTPLevels := (gTPLevels g)[i := (gTPLevels g ! i)\<lparr>lStatus := LevelTriggered, lExitPrice := ltp\<rparr>]\<rparr>) m))"
    using h assms(3) by (simp add: evaluateTPLevels_def on_group_def scan_levels_first Let_def split: option.splits)
  show ?thesis
    using fire [of MLExitTypeSL] fire [of MLExitTypeTP] h
    by (auto simp: ev et tick_spec_def sl_def [symmetric] side_levels_def split: option.splits intro: fun_upd_triv [symmetric])
qed

lemma paper_tick_heap:
  assumes wf: "ml_wf m" and h: "heap m gid = Some g" and "gState g = GroupStateActive" "gEvaluating g = 0"
    and "gTradingMode g \<noteq> ''LIVE''" "gSingleSLBrokerID g = []"
  shows "heap (runEvalJob env gid ltp m) = (heap m)(gid \<mapsto> tick_spec ltp g)"
proof -
  define g1 where "g1 = g\<lparr>gEvaluating := 1\<rparr>"
  define m1 where "m1 = setg g1 m"
  define m2 where "m2 = (case evaluateSLLevels env gid ltp m1 of
     (m', True) \<Rightarrow> m' | (m', False) \<Rightarrow> evaluateTPLevels env gid ltp m')"
  have id: "gGroupID g = gid" using ml_wfD(1) [OF wf h] .
  have w1: "ml_wf m1" unfolding m1_def g1_def
    using sim_wf [OF wf sim_setg [OF wf h]] gs_eval by blast
  have h1: "heap m1 gid = Some g1" using id by (simp add: m1_def g1_def)
  have h2: "heap m2 = (heap m1)(gid \<mapsto> tick_spec ltp g1)"
    unfolding m2_def using assms(5,6) by (intro paper_levels_heap [OF w1 h1]) (auto simp: g1_def)
  have idt: "gGroupID (tick_spec ltp g) = gid"
    using id by (auto simp: tick_spec_def paper_exit_def trigger_level_def Let_def split: option.splits)
  have ev0: "(tick_spec ltp g)\<lparr>gEvaluating := 0\<rparr> = tick_spec ltp g"
  proof -
    have "g\<lparr>gEvaluating := 0\<rparr> = g" using assms(4) by simp
    then show ?thesis using tick_spec_flag [where ltp = ltp and g = g and e = 0] by simp
  qed
  have "runEvalJob env gid ltp m = on_group gid (\<lambda>g'. setg (releaseEvaluation g') m2) m2"
    unfolding runEvalJob_def m2_def m1_def g1_def
    using h assms(3,4) by (simp add: on_group_def [where m = m] tryClaimEvaluation_def Let_def)
  then have "runEvalJob env gid ltp m = setg (releaseEvaluation (tick_spec ltp g1)) m2"
    using h2 by (simp add: on_group_def)
  moreover have "releaseEvaluation (tick_spec ltp g1) = tick_spec ltp g"
    by (simp add: releaseEvaluation_def g1_def tick_spec_flag ev0)
  ultimately show ?thesis using idt h2 id by (simp add: m1_def g1_def)
qed

text \<open>
  C5. One evaluation of an active paper group is the abstract tick: stops before targets, at
  most one level, the first in list order, filled at the traded price; no other group
  changes.
\<close>

theorem paper_tick:
  assumes "ml_reachable env m" "heap m gid = Some g" "gState g = GroupStateActive" "gEvaluating g = 0"
    and "gTradingMode g \<noteq> ''LIVE''" "gSingleSLBrokerID g = []"
  shows "heap (runEvalJob env gid ltp m) = (heap m)(gid \<mapsto> tick_spec ltp g)"
  by (rule paper_tick_heap [OF reachable_wf [OF assms(1)] assms(2-6)])

lemma demo_tick_spec:
  "tick_spec 94 demo_group = demo_group\<lparr>gSLLevels := [(demo_level 1 95 100 2)\<lparr>lStatus := LevelTriggered, lExitPrice := 94\<rparr>],
     gRemainingQty := 0, gState := GroupStateCompleted\<rparr>"
  by (simp add: tick_spec_def first_hit_def demo_group_def demo_level_def SLBreached_def paper_exit_def side_levels_def
      trigger_level_def reduce_remaining_def Let_def)

theorem paper_tick_witness:
  "\<exists>g. heap (runEvalJob demo_env 1 94 demo_filled) 1 = Some g \<and> gRemainingQty g = 0 \<and> gState g = GroupStateCompleted \<and>
     map lStatus (gSLLevels g) = [LevelTriggered] \<and> map lStatus (gTPLevels g) = [LevelActive, LevelActive]"
proof -
  have "heap (runEvalJob demo_env 1 94 demo_filled) = (heap demo_filled)(1 \<mapsto> tick_spec 94 demo_group)"
    by (rule paper_tick [OF demo_filled_reachable demo_fill_heap]) (simp_all add: demo_group_def)
  then show ?thesis by (simp add: demo_tick_spec) (simp add: demo_group_def demo_level_def)
qed

definition demo_queued :: ml_state where "demo_queued = OnPriceUpdate ''X:42'' 94 demo_filled"
definition demo_ticked :: ml_state where "demo_ticked = worker_step demo_env demo_queued"

lemma demo_shard: "shard_list demo_filled 42 = [1]" "evalCh demo_filled = []"
  by (simp_all add: demo_defs subscribeGroup_def shard_list_def set_shard_def)

lemma demo_code: "stockCodeFromKey ''X:42'' = 42"
  by (simp add: stockCodeFromKey_def i64_def Let_def)

lemma demo_queued: "evalCh demo_queued = [(1, 94)]" "heap demo_queued = heap demo_filled"
  by (simp_all add: demo_queued_def OnPriceUpdate_def demo_code demo_shard enqueue_def on_group_def demo_fill_heap
      evalBufLen_def del: One_nat_def) (simp_all add: demo_group_def)

lemma demo_ticked_heap: "heap demo_ticked 1 = Some (tick_spec 94 demo_group)"
proof -
  define m where "m = demo_queued\<lparr>evalCh := []\<rparr>"
  have "sim demo_queued m" by (rule sim_quiet) (simp_all add: m_def quiet_def)
  then have wf: "ml_wf m"
    using reachable_wf [OF demo_filled_reachable] sim_wf OnPriceUpdate_sim unfolding demo_queued_def by blast
  have "heap m 1 = Some demo_group" by (simp add: m_def demo_queued demo_fill_heap del: One_nat_def)
  from paper_tick_heap [OF wf this, of demo_env 94] show ?thesis
    by (simp add: demo_ticked_def worker_step_def demo_queued m_def demo_group_def)
qed

lemma demo_ticked_reachable: "ml_reachable demo_env demo_ticked"
  unfolding demo_ticked_def demo_queued_def
  by (intro reach_step [OF reach_step [OF demo_filled_reachable step_price] step_worker])


theorem stopped_group_inert_witness:
  "gState (tick_spec 94 demo_group) = GroupStateCompleted \<and> runEvalJob demo_env 1 200 demo_ticked = demo_ticked"
  using stopped_group_inert [OF demo_ticked_reachable rtranclp.rtrancl_refl demo_ticked_heap, of 200]
  by (simp add: demo_tick_spec)

lemma demo_tp1_heap: "\<exists>g. heap demo_tp1 1 = Some g \<and> lStatus (gTPLevels g ! 0) = LevelTriggered"
proof -
  have f: "find_level 1 0 (side_levels MLExitTypeTP demo_group) = Some (0, demo_level 1 110 50 3)"
    by (simp add: side_levels_def demo_group_def demo_level_def)
  have act: "lStatus (demo_level 1 110 50 3) = LevelActive" by (simp add: demo_level_def)
  obtain g where g: "heap demo_tp1 1 = Some g"
    "evolves (trigger_level MLExitTypeTP 0 (demo_level 1 110 50 3) (price_of (Some 110)) demo_group) g"
    using level_fill_sim(2) [OF reachable_wf [OF demo_filled_reachable] demo_fill_heap f act]
    unfolding demo_tp1_def by blast
  have "gTPLevels (trigger_level MLExitTypeTP 0 (demo_level 1 110 50 3) p demo_group) =
      [(demo_level 1 110 50 3)\<lparr>lStatus := LevelTriggered, lExitPrice := p\<rparr>, demo_level 2 120 50 4]" for p
    by (simp add: trigger_simps) (simp add: demo_group_def)
  moreover have "gEntryFilled demo_group" by (simp add: demo_group_def)
  ultimately have "lStatus (gTPLevels g ! 0) = LevelTriggered"
    using g(2) by (auto simp: evolves_defs trigger_simps list_all2_Cons1 level_evolves_def)
  then show ?thesis using g(1) by blast
qed

theorem onMultiLevelFilled_idempotent_witness:
  "onMultiLevelFilled demo_env 1 MLExitTypeTP 1 None 50 demo_tp1 = demo_tp1 \<and> demo_tp1 \<noteq> demo_filled"
proof -
  have "lStatus (gTPLevels demo_group ! 0) = LevelActive" by (simp add: demo_group_def demo_level_def)
  then have "demo_tp1 \<noteq> demo_filled" using demo_tp1_heap demo_fill_heap by auto
  then show ?thesis
    using onMultiLevelFilled_idempotent [OF demo_filled_reachable, where gid = 1 and et = MLExitTypeTP
        and n = 1 and fp' = None and q' = 50 and fp = "Some 110" and q = 50]
    unfolding demo_tp1_def by auto
qed

end
