(* ===== verification/MlContracts.thy ===== *)
theory MlContracts
  imports MlProps
begin

text \<open>
  Contracts of single operations of the multi-level exit manager: prices and the tick grid,
  the splitting of quantities, the trailing stop, routing of ticks, cancellation, and the
  round trip through the database.
\<close>

section \<open>Prices\<close>

text \<open>
  C12. The tick rounding is monotone, returns its own results unchanged, moves a price by at
  most three paise, and its paise are a multiple of five.
\<close>

theorem roundNSE_contract:
  assumes "0 \<le> p" "p \<le> q" "q \<le> 10 ^ 11"
  shows "roundNSE p \<le> roundNSE q \<and> roundNSE (roundNSE p) = roundNSE p \<and> \<bar>roundNSE p - p\<bar> \<le> 3 / 100 \<and>
    5 dvd nse_paise p"
proof -
  have r: "price_range p" "price_range q" using assms by (auto simp: price_range_def)
  note n = roundNSE_near [OF r(1)]
  have "roundNSE p \<le> p + 3 / 100" using n by linarith
  then have "price_range (roundNSE p)"
    using roundNSE_nonneg [OF r(1)] assms by (simp add: price_range_def)
  then show ?thesis
    using roundNSE_mono [OF r assms(2)] roundNSE_idem [OF r(1)] n nse_paise_range(3) [OF r(1)] by simp
qed

theorem roundNSE_contract_witness: "roundNSE 95 \<le> roundNSE 120 \<and> \<bar>roundNSE 95 - 95\<bar> \<le> 3 / 100"
  using roundNSE_contract [of 95 120] by simp

text \<open>
  C11. For a fill price in range and percentages between 0 and 100, the stop of a long
  position is at or below the (tick-rounded) fill and its target at or above; a short
  position mirrors this; and a larger percentage never gives a tighter price.
\<close>

theorem exit_prices_bracket_fill:
  assumes "fill_ok (gFillPrice g)" "0 \<le> a" "a \<le> b" "b \<le> 100"
  shows "if gOrderSide g = ''BUY''
    then CalcSLTriggerPrice g b \<le> CalcSLTriggerPrice g a \<and> CalcSLTriggerPrice g a \<le> roundNSE (gFillPrice g) \<and>
         roundNSE (gFillPrice g) \<le> CalcTPLimitPrice g a \<and> CalcTPLimitPrice g a \<le> CalcTPLimitPrice g b
    else CalcTPLimitPrice g b \<le> CalcTPLimitPrice g a \<and> CalcTPLimitPrice g a \<le> roundNSE (gFillPrice g) \<and>
         roundNSE (gFillPrice g) \<le> CalcSLTriggerPrice g a \<and> CalcSLTriggerPrice g a \<le> CalcSLTriggerPrice g b"
  using below_fill [OF assms(1), of a] above_fill [OF assms(1), of a] below_mono [OF assms] above_mono [OF assms] assms
  by (auto simp: CalcSLTriggerPrice_def CalcTPLimitPrice_def)

theorem exit_prices_bracket_fill_witness:
  "CalcSLTriggerPrice demo_group 20 \<le> CalcSLTriggerPrice demo_group 5 \<and>
   CalcTPLimitPrice demo_group 5 \<le> CalcTPLimitPrice demo_group 20"
proof -
  have "fill_ok (gFillPrice demo_group)" by (simp add: fill_ok_def demo_group_def f64_eval)
  from exit_prices_bracket_fill [OF this, of 5 20] show ?thesis by (simp add: demo_group_def)
qed

text \<open>
  C10. The trailing stop only ratchets: a new trigger is proposed only when the price beats
  the best price seen, it is strictly better than the trigger in place (if there is one),
  and taking it together with the new best price, the same tick proposes nothing more.
\<close>

theorem trailing_stop_ratchets:
  assumes "CalcTrailingSL g ltp = Some t"
  shows "gSLMode g = SLModeTrailing \<and>
    (if gOrderSide g = ''BUY'' then gHighestPrice g < ltp \<and> (0 < gCurrentSLTrigger g \<longrightarrow> gCurrentSLTrigger g < t)
     else ltp < gHighestPrice g \<and> (0 < gCurrentSLTrigger g \<longrightarrow> t < gCurrentSLTrigger g)) \<and>
    CalcTrailingSL (g\<lparr>gHighestPrice := ltp, gCurrentSLTrigger := t\<rparr>) ltp = None"
  using assms unfolding CalcTrailingSL_def Let_def by (auto split: if_splits)

definition demo_trailing :: Group where
  "demo_trailing = demo_group\<lparr>gSLMode := SLModeTrailing, gSingleSLBrokerID := ''B1'', gTrailingSLPct := 25 / 2,
     gCurrentSLTrigger := 95\<rparr>"

lemma demo_trailing_trigger: "roundNSE (fmul 128 (fsub 1 (fdiv (25 / 2) 100))) = 112"
proof -
  have "fmul 128 (fsub 1 (fdiv (25 / 2) 100)) = 112" by (simp add: f64_eval)
  moreover have "nse_paise 112 = 11200" by (simp add: nse_paise_def tick_arg_def f64_eval i64_def go_div_def)
  ultimately show ?thesis unfolding roundNSE_def by (simp add: f64_eval)
qed

lemma demo_trailing_calc: "CalcTrailingSL demo_trailing 128 = Some 112"
proof -
  have e: "\<not> fmul (fdiv (fsub 112 95) 95) 100 < 25 / 2" by (simp add: f64_eval)
  have g: "gSLMode demo_trailing = SLModeTrailing" "gSingleSLBrokerID demo_trailing = ''B1''"
    "gTrailingSLPct demo_trailing = 25 / 2" "gOrderSide demo_trailing = ''BUY''" "gHighestPrice demo_trailing = 100"
    "gCurrentSLTrigger demo_trailing = 95"
    by (simp_all add: demo_trailing_def demo_group_def)
  show ?thesis unfolding CalcTrailingSL_def g demo_trailing_trigger Let_def using e by simp
qed

theorem trailing_stop_ratchets_witness:
  "CalcTrailingSL (demo_trailing\<lparr>gHighestPrice := 128, gCurrentSLTrigger := 112\<rparr>) 128 = None"
  using trailing_stop_ratchets [OF demo_trailing_calc] by blast

section \<open>Quantities\<close>

text \<open>
  C7. The initial quantities of one side: one per level, none negative, adding up to exactly
  the filled quantity, for any percentages between 0 and 100 (their sum need not be 100).
\<close>

theorem initial_quantities:
  assumes "cfgs \<noteq> []" "0 < q" "q < 2 ^ 30" "\<forall>c \<in> set cfgs. 0 \<le> cfgQtyPct c \<and> cfgQtyPct c \<le> 100"
  shows "length (computeInitialExitQtys cfgs q) = length cfgs \<and>
    (\<forall>x \<in> set (computeInitialExitQtys cfgs q). 0 \<le> x \<and> x \<le> q) \<and> sum_list (computeInitialExitQtys cfgs q) = q"
proof -
  have ok: "pcts_ok cfgs" "lot q" using assms by (auto simp: pcts_ok_def lot_def)
  show ?thesis
    using initial_split.split_length [of cfgs q] initial_split.split_sum [OF ok(1) assms(1) ok(2)]
      initial_split.split_nonneg [OF ok] initial_split.split_le [OF ok] by blast
qed

theorem initial_quantities_witness: "sum_list (computeInitialExitQtys demo_tp 99) = 99"
  using initial_quantities [of demo_tp 99] by (simp add: demo_tp_def)

text \<open>
  C6. Rebalancing gives every remaining level its proportional share, rounded down or up to
  the next integer, and the shares add up to exactly the open quantity, whatever the
  rounding of the doubles did.
\<close>

theorem rebalanced_quantities:
  assumes "pcts \<noteq> []" "length pcts \<le> 1024" "\<forall>p \<in> set pcts. 0 < p" "0 \<le> q" "q < 2 ^ 30"
  shows "sum_list (computeRebalancedQtys pcts (fsum pcts) q) = q \<and>
    (\<forall>j < length pcts. computeRebalancedQtys pcts (fsum pcts) q ! j \<in>
       {\<lfloor>rebalance_raw (fsum pcts) q (pcts ! j)\<rfloor>, \<lfloor>rebalance_raw (fsum pcts) q (pcts ! j)\<rfloor> + 1})"
proof -
  have ok: "rebalance_ok pcts" "lot q" using assms by (auto simp: rebalance_ok_def lot_def)
  show ?thesis
    using rebalance_split.split_sum [OF ok(1) assms(1) ok(2)] computeRebalancedQtys_nth [OF ok]
    by (auto simp: reb_raws_def)
qed

theorem rebalanced_quantities_witness: "sum_list (computeRebalancedQtys [50, 30, 20] (fsum [50, 30, 20]) 7) = 7"
  using rebalanced_quantities [of "[50, 30, 20]" 7] by simp

section \<open>Routing of ticks\<close>

lemma enqueue_all:
  assumes "length (evalCh m) \<le> evalBufLen"
  shows "evalCh (foldl (enqueue ltp) m gs) = evalCh m @ take (evalBufLen - length (evalCh m))
     (map (\<lambda>gid. (gid, ltp)) (filter (\<lambda>gid. \<exists>g. heap m gid = Some g \<and> gState g = GroupStateActive \<and> gEntryFilled g) gs))
   \<and> heap (foldl (enqueue ltp) m gs) = heap m"
  using assms
proof (induction gs arbitrary: m)
  case (Cons gid gs)
  have h: "heap (enqueue ltp m gid) = heap m" by (simp add: enqueue_def on_group_def split: option.splits)
  show ?case
  proof (cases "\<exists>g. heap m gid = Some g \<and> gState g = GroupStateActive \<and> gEntryFilled g")
    case True
    then have e: "evalCh (enqueue ltp m gid) =
        (if length (evalCh m) < evalBufLen then evalCh m @ [(gid, ltp)] else evalCh m)"
      by (auto simp: enqueue_def on_group_def)
    obtain k where k: "evalBufLen - length (evalCh m) = k" "evalBufLen - Suc (length (evalCh m)) = k - 1" by simp
    show ?thesis
      using Cons.IH [of "enqueue ltp m gid"] Cons.prems True e h k
      by (cases k) (auto simp: take_Cons' Suc_diff_Suc)
  next
    case False
    then have "enqueue ltp m gid = m" by (auto simp: enqueue_def on_group_def split: option.splits)
    then show ?thesis using Cons.IH [OF Cons.prems] False by auto
  qed
qed simp

text \<open>
  A tick for a stock queues one evaluation for each subscribed group of that stock that
  is active and filled, in subscription order, until the channel's 8192 places are used up;
  it touches no group.
\<close>

theorem tick_routing:
  assumes "length (evalCh m) \<le> evalBufLen" "0 < stockCodeFromKey key"
  shows "evalCh (OnPriceUpdate key ltp m) = evalCh m @ take (evalBufLen - length (evalCh m))
     (map (\<lambda>gid. (gid, ltp))
       (filter (\<lambda>gid. \<exists>g. heap m gid = Some g \<and> gState g = GroupStateActive \<and> gEntryFilled g)
         (shard_list m (stockCodeFromKey key)))) \<and>
    heap (OnPriceUpdate key ltp m) = heap m"
  using enqueue_all [OF assms(1)] assms(2) by (simp add: OnPriceUpdate_def Let_def)

theorem tick_routing_witness: "evalCh (OnPriceUpdate ''X:42'' 94 demo_filled) = [(1, 94)]"
  using tick_routing [of demo_filled "''X:42''" 94]
  by (simp add: demo_code demo_shard evalBufLen_def demo_fill_heap del: One_nat_def) (simp add: demo_group_def)

text \<open>
  Unsubscribing undoes subscribing: the list of the group's stock is as before and no
  other stock is affected; the price feed is asked for the stock exactly when the group is
  its first subscriber, and dropped when it was the last.
\<close>

theorem subscription_roundtrip:
  assumes "gGroupID g \<notin> set (shard_list m (gStockCode g))"
  shows "shards (unsubscribeGroup env g (subscribeGroup env g m)) = shards m \<and>
    out (unsubscribeGroup env g (subscribeGroup env g m)) = out m @
      (if shard_list m (gStockCode g) = [] \<and> eWS env then [ESubscribe (gStockCode g), EUnsubscribe (gStockCode g)] else [])"
  using assms
  by (auto simp: subscribeGroup_def unsubscribeGroup_def set_shard_def shard_list_def Let_def remove1_append fun_eq_iff)

theorem subscription_roundtrip_witness:
  "out (unsubscribeGroup demo_env demo_group (subscribeGroup demo_env demo_group NewManager)) = [ESubscribe 42, EUnsubscribe 42]"
  using subscription_roundtrip [of demo_group NewManager demo_env]
  by (simp add: shard_list_def NewManager_def demo_env_def demo_group_def)

section \<open>Cancellation\<close>

lemma cancelRemaining_tasks:
  assumes "heap m gid = Some g"
  shows "set (tasks m) \<subseteq> set (tasks (cancelRemainingMLOrders gid et m))"
    and "b \<in> set (live_broker_ids (side_levels et g)) \<Longrightarrow>
      TCancelOrder gid b \<in> set (tasks (cancelRemainingMLOrders gid et m)) \<and>
      mlLevelIndex (cancelRemainingMLOrders gid et m) b = None"
    and "mlLevelIndex m b = None \<Longrightarrow> mlLevelIndex (cancelRemainingMLOrders gid et m) b = None"
  using assms
  by (auto simp: cancelRemainingMLOrders_def on_group_def side_levels_def Let_def drop_level_index_def)

lemma cancelRemaining_heap:
  assumes "heap m gid = Some g" "gGroupID g = gid"
  shows "heap (cancelRemainingMLOrders gid et m) gid =
    Some (if et = MLExitTypeSL then g\<lparr>gSLLevels := map cancel_active (gSLLevels g)\<rparr>
          else g\<lparr>gTPLevels := map cancel_active (gTPLevels g)\<rparr>)"
  using assms by (cases "et = MLExitTypeSL") (auto simp: cancelRemainingMLOrders_def on_group_def Let_def)

lemma cancel_active_not_active: "lStatus (cancel_active l) \<noteq> LevelActive"
  by (simp add: cancel_active_def markCancelled_def)

text \<open>
  C9. Cancelling an active live group leaves nothing open: the group is cancelled, no level
  of either side is active, each active level that had a broker order is sent for
  cancellation at the broker and can no longer be routed to, the single stop order (if any)
  is sent for cancellation, and the entry is forgotten.
\<close>

theorem CancelGroup_closes_everything:
  assumes "ml_reachable env m" "map_of (groupsByEntry m) eid = Some gid" "heap m gid = Some g"
    and "gState g = GroupStateActive" "gTradingMode g = ''LIVE''" "gAuth g \<noteq> None"
  shows "let m' = CancelGroup env eid m in
    (\<exists>g'. heap m' gid = Some g' \<and> gState g' = GroupStateCancelled \<and>
       (\<forall>l \<in> set (gSLLevels g') \<union> set (gTPLevels g'). lStatus l \<noteq> LevelActive)) \<and>
    (\<forall>b \<in> set (live_broker_ids (gSLLevels g) @ live_broker_ids (gTPLevels g)).
       TCancelOrder gid b \<in> set (tasks m') \<and> mlLevelIndex m' b = None) \<and>
    (gSingleSLBrokerID g \<noteq> [] \<longrightarrow> TCancelOrder gid (gSingleSLBrokerID g) \<in> set (tasks m')) \<and>
    map_of (groupsByEntry m') (gEntryOrderID g) = None"
proof -
  define g1 where "g1 = g\<lparr>gState := GroupStateCancelled\<rparr>"
  define m3 where "m3 = unsubscribeGroup env g1
    ((setg g1 m)\<lparr>groupsByEntry := AList.delete (gEntryOrderID g) (groupsByEntry (setg g1 m))\<rparr>)"
  define m5 where "m5 = (if gSingleSLBrokerID g \<noteq> []
    then spawn (TCancelOrder gid (gSingleSLBrokerID g)) (m3\<lparr>singleSLIndex := (singleSLIndex m3)(gSingleSLBrokerID g := None)\<rparr>)
    else m3)"
  define m6 where "m6 = cancelRemainingMLOrders gid MLExitTypeSL m5"
  define m7 where "m7 = cancelRemainingMLOrders gid MLExitTypeTP m6"
  define g2 where "g2 = g1\<lparr>gSLLevels := map cancel_active (gSLLevels g)\<rparr>"
  have id: "gGroupID g1 = gid" "gGroupID g2 = gid"
    using ml_wfD(1) [OF reachable_wf [OF assms(1)] assms(3)] by (auto simp: g1_def g2_def)
  have e: "CancelGroup env eid m = m7"
    using assms(2-6)
    by (simp add: CancelGroup_def cancelGroupInternal_def on_group_def m7_def m6_def m5_def m3_def g1_def Let_def
        del: not_None_eq)
  have h5: "heap m5 gid = Some g1" using id by (simp add: m5_def m3_def)
  have h6: "heap m6 gid = Some g2" using cancelRemaining_heap [OF h5 id(1), of MLExitTypeSL]
    by (simp add: m6_def g1_def g2_def)
  have h7: "heap m7 gid = Some (g2\<lparr>gTPLevels := map cancel_active (gTPLevels g)\<rparr>)"
    using cancelRemaining_heap [OF h6 id(2), of MLExitTypeTP] by (simp add: m7_def g1_def g2_def)
  have sides: "side_levels MLExitTypeSL g1 = gSLLevels g" "side_levels MLExitTypeTP g2 = gTPLevels g"
    by (simp_all add: side_levels_def g1_def g2_def)
  note t5 = cancelRemaining_tasks [OF h5, where et = MLExitTypeSL, folded m6_def, unfolded sides]
  note t6 = cancelRemaining_tasks [OF h6, where et = MLExitTypeTP, folded m7_def, unfolded sides]
  have "groupsByEntry m7 = groupsByEntry m5"
    using h5 h6 by (simp add: m7_def m6_def cancelRemainingMLOrders_def on_group_def Let_def)
  then have "map_of (groupsByEntry m7) (gEntryOrderID g) = None" by (simp add: m5_def m3_def delete_conv)
  moreover have "gSingleSLBrokerID g \<noteq> [] \<longrightarrow> TCancelOrder gid (gSingleSLBrokerID g) \<in> set (tasks m7)"
    using t5(1) t6(1) by (auto simp: m5_def)
  moreover have "\<forall>b \<in> set (live_broker_ids (gSLLevels g) @ live_broker_ids (gTPLevels g)).
      TCancelOrder gid b \<in> set (tasks m7) \<and> mlLevelIndex m7 b = None"
    using t5 t6 by auto
  ultimately show ?thesis
    using h7 cancel_active_not_active unfolding e by (auto simp: Let_def g1_def g2_def)
qed

text \<open>A live group with one fixed stop order at the broker.\<close>

definition demo_auth :: AuthContext where
  "demo_auth = \<lparr> auUserId = ''u'', auBearerToken = ''t'', auAppId = ''a'', auSource = ''s'' \<rparr>"

definition demo_live0 :: ml_state where
  "demo_live0 = RegisterEntry (demo_order\<lparr>oTradingMode := ''LIVE''\<rparr>) SLModeFixed TPModeFixed [] [] 5 0 (Some demo_auth) NewManager"

definition demo_live1 :: ml_state where
  "demo_live1 = OnEntryFill demo_env 7 100 100 [] [] demo_live0"

definition demo_live :: ml_state where
  "demo_live = schedule demo_env 1 demo_live1"

lemma demo_live_reachable: "ml_reachable demo_env demo_live"
  unfolding demo_live_def demo_live1_def demo_live0_def
  by (intro reach_step [OF reach_step [OF reach_step [OF reach_init step_register] step_fill] step_task])

lemma demo_live1_facts:
  "\<exists>g. heap demo_live1 1 = Some g \<and> gGroupID g = 1 \<and> gState g = GroupStateActive \<and> gTradingMode g = ''LIVE'' \<and>
     gAuth g = Some demo_auth \<and> gEntryOrderID g = 7"
  "tasks demo_live1 = [TPersistExitLevels 1, TPlaceFixedSL 1 100]" "groupsByEntry demo_live1 = [(7, 1)]"
  by (simp_all add: demo_live1_def demo_live0_def demo_order_def zero_order_def NewManager_def RegisterEntry_def
      OnEntryFill_def on_group_def fill_group_def Let_def SLModeFixed_def SLModeTrailing_def SLModeMultiLevel_def
      TPModeFixed_def TPModeMultiLevel_def live_entry_tasks_def spawn_def setg_def)

lemma demo_live_facts:
  "\<exists>g. heap demo_live 1 = Some g \<and> gState g = GroupStateActive \<and> gTradingMode g = ''LIVE'' \<and>
     gAuth g = Some demo_auth \<and> gSingleSLBrokerID g = ''B1'' \<and> gEntryOrderID g = 7"
  "map_of (groupsByEntry demo_live) 7 = Some 1"
  using demo_live1_facts
  by (auto simp: demo_live_def schedule_def placeFixedSLOrder_def on_group_def place_single_sl_def broker_place_def
      demo_env_def Let_def)

theorem CancelGroup_closes_everything_witness:
  "TCancelOrder 1 ''B1'' \<in> set (tasks (CancelGroup demo_env 7 demo_live)) \<and>
   map_of (groupsByEntry (CancelGroup demo_env 7 demo_live)) 7 = None"
proof -
  obtain g where g: "heap demo_live 1 = Some g" "gState g = GroupStateActive" "gTradingMode g = ''LIVE''"
     "gAuth g = Some demo_auth" "gSingleSLBrokerID g = ''B1''" "gEntryOrderID g = 7" using demo_live_facts(1) by blast
  show ?thesis
    using CancelGroup_closes_everything [OF demo_live_reachable demo_live_facts(2) g(1-3)] g(4-6) by (simp add: Let_def)
qed

section \<open>Round trip through the database\<close>



lemma ml_status_simps [simp]:
  "MLStatusActive \<noteq> MLStatusPending" "MLStatusActive \<noteq> MLStatusTriggered" "MLStatusTriggered \<noteq> MLStatusActive"
  by (simp_all add: MLStatusActive_def MLStatusPending_def MLStatusTriggered_def)

lemma level_record_fields [simp]:
  "rExitType (level_record g et d cs l) = et" "rStatus (level_record g et d cs l) = MLStatusActive"
  by (simp_all add: level_record_def)








end
