(* ===== verification/MlFindings.thy ===== *)
theory MlFindings
  imports MlContracts
begin

text \<open>
  Behaviour of the multi-level exit manager that its comments and callers do not expect:
  each theorem states what the code does.
\<close>

section \<open>Profit and loss of a mixed exit\<close>

text \<open>
  Half of the demo position leaves at the first target (110), which halves the stop level;
  the rest leaves at the stop (90). The position made nothing.
\<close>

definition demo_mixed :: Group where
  "demo_mixed = paper_exit MLExitTypeSL 0 90 (paper_exit MLExitTypeTP 0 110 demo_group)"

definition demo_half :: "ExitLevelState list" where
  "demo_half = [\<lparr> lLevelNum = 1, lTriggerPrice = 95, lExitQty = 50, lOriginalExitQty = 100, lStatus = LevelActive,
     lBrokerOrderID = [], lExitOrderID = 2, lExitPrice = 0 \<rparr>]"

lemma demo_rebalance: "computeRebalancedQtys [100] 100 50 = [50]" "fsum [100] = 100"
proof -
  show s: "fsum [100] = 100" by (simp add: fsum_def f64_eval)
  have "sum_list (computeRebalancedQtys [100] (fsum [100]) 50) = 50"
    by (rule rebalance_split.split_sum) (auto simp: rebalance_ok_def lot_def)
  moreover have "length (computeRebalancedQtys [100] (fsum [100]) 50) = 1"
    by (simp add: computeRebalancedQtys_length)
  ultimately show "computeRebalancedQtys [100] 100 50 = [50]"
    unfolding s by (cases "computeRebalancedQtys [100] 100 50") auto
qed

lemma demo_after_tp: "paper_exit MLExitTypeTP 0 110 demo_group = demo_group\<lparr>gSLLevels := demo_half,
    gTPLevels := [(demo_level 1 110 50 3)\<lparr>lStatus := LevelTriggered, lExitPrice := 110\<rparr>, demo_level 2 120 50 4],
    gRemainingQty := 50\<rparr>"
  by (simp add: paper_exit_def side_levels_def trigger_level_def reduce_remaining_def rebal_def Let_def
      rebalance_levels_def demo_group_def demo_level_def demo_half_def is_item_def cfg_pct_def demo_sl_def i32_def
      demo_rebalance)

lemma demo_mixed_eq: "demo_mixed = demo_group\<lparr>
    gSLLevels := map (\<lambda>l. l\<lparr>lStatus := LevelTriggered, lExitPrice := 90\<rparr>) demo_half,
    gTPLevels := [(demo_level 1 110 50 3)\<lparr>lStatus := LevelTriggered, lExitPrice := 110\<rparr>, demo_level 2 120 50 4],
    gRemainingQty := 0, gState := GroupStateCompleted\<rparr>"
  unfolding demo_mixed_def demo_after_tp
  by (simp add: paper_exit_def side_levels_def trigger_level_def reduce_remaining_def Let_def demo_group_def demo_half_def)

text \<open>
  After exits on both sides the reported average exit price and profit are wrong: the
  100 shares bought at 100 were sold 50 at 110 and 50 at 90, a profit of 0 at an average of
  100, but the summary weights the stop level by the quantity it had before rebalancing and
  reports an average below 97 and a loss above 333.
\<close>

theorem paper_summary_mixed_exit:
  "gRemainingQty demo_mixed = 0 \<and>
   map (\<lambda>l. (lExitQty l, lExitPrice l)) (filter (\<lambda>l. lStatus l = LevelTriggered) (gSLLevels demo_mixed @ gTPLevels demo_mixed))
     = [(50, 90), (50, 110)] \<and>
   snd (paper_summary demo_mixed 90) < 97 \<and> fst (paper_summary demo_mixed 90) < - 333"
proof -
  have e: "exit_totals (gSLLevels demo_mixed) 0 0 = (9000, 100)"
    by (simp add: demo_mixed_eq demo_half_def f64_eval i32_def)
  have e2: "exit_totals (gTPLevels demo_mixed) 9000 100 = (14500, 150)"
    by (simp add: demo_mixed_eq demo_level_def f64_eval i32_def)
  have f: "f_of_int 150 = 150" "f_of_int 100 = 100" by (simp_all add: f64_eval)
  have a: "fdiv 14500 150 = 425239697637031 / 4398046511104 \<or> True" by simp
  have g: "gOrderSide demo_mixed = ''BUY''" "gFillPrice demo_mixed = 100" "gTotalQty demo_mixed = 100"
    by (simp_all add: demo_mixed_eq demo_group_def)
  have s: "paper_summary demo_mixed 90 = (fmul (fsub (fdiv 14500 150) 100) 100, fdiv 14500 150)"
    unfolding paper_summary_def e Let_def prod.case e2 g f by simp
  have "fdiv 14500 150 < 97" "fmul (fsub (fdiv 14500 150) 100) 100 < - 333" by (simp_all add: f64_eval)
  then show ?thesis unfolding s by (simp add: demo_mixed_eq demo_half_def demo_level_def)
qed

section \<open>Stops that are not evaluated or not resized\<close>

text \<open>
  A paper group in \<open>FIXED\<close> or \<open>TRAILING\<close> mode never leaves at its stop: whatever the
  price, its evaluation leaves all stop levels as they are unless a target is reached.
\<close>

theorem paper_single_stop_never_fires:
  assumes "ml_reachable env m" "heap m gid = Some g" "gTradingMode g \<noteq> ''LIVE''" "gSLMode g \<noteq> SLModeMultiLevel"
    and "gSingleSLBrokerID g = []" "\<forall>l \<in> set (gTPLevels g). \<not> TPReached g (lTriggerPrice l) ltp"
    and "gState g = GroupStateActive" "gEvaluating g = 0"
  shows "heap (runEvalJob env gid ltp m) = heap m"
proof -
  have "first_hit (\<lambda>t. TPReached g t ltp) (gTPLevels g) = None"
    using first_hit_Some [of "\<lambda>t. TPReached g t ltp" "gTPLevels g"] assms(6)
    by (cases "first_hit (\<lambda>t. TPReached g t ltp) (gTPLevels g)") auto
  then have "tick_spec ltp g = g" using assms(4) by (simp add: tick_spec_def)
  then show ?thesis
    using paper_tick_heap [OF reachable_wf [OF assms(1)] assms(2,7,8,3,5), of env ltp] assms(2)
    by (simp add: fun_upd_idem)
qed

definition demo_fixed0 :: ml_state where
  "demo_fixed0 = RegisterEntry demo_order SLModeFixed TPModeFixed demo_sl [] 5 0 None NewManager"

definition demo_fixed :: ml_state where
  "demo_fixed = OnEntryFill demo_env 7 100 100 [] [] demo_fixed0"

lemma demo_fixed_reachable: "ml_reachable demo_env demo_fixed"
  unfolding demo_fixed_def demo_fixed0_def
  by (intro reach_step [OF reach_step [OF reach_init step_register] step_fill])

lemma demo_fixed_heap: "heap demo_fixed 1 = Some (demo_group\<lparr>gSLMode := SLModeFixed, gTPMode := TPModeFixed,
    gFixedSLPct := 5, gTPLevels := [], gTPLevelConfigs := []\<rparr>)"
  by (simp add: demo_fixed_def demo_fixed0_def demo_env_def demo_order_def zero_order_def NewManager_def
      RegisterEntry_def OnEntryFill_def on_group_def fill_group_def Let_def SLModeFixed_def TPModeFixed_def
      demo_sorted demo_levels demo_group_def computeInitialExitQtys_def build_levels_def [of _ "[]"])
    (simp add: numeral_eq_Suc)

theorem paper_single_stop_never_fires_witness: "heap (runEvalJob demo_env 1 1 demo_fixed) = heap demo_fixed"
  by (rule paper_single_stop_never_fires [OF demo_fixed_reachable demo_fixed_heap])
    (simp_all add: demo_group_def SLModeFixed_def SLModeMultiLevel_def)

text \<open>
  A live group with one stop order for the whole position and one order per target: when
  a target fills and some quantity is left, the stop order is left alone. The only new
  goroutines are quantity changes of level orders, so the stop still covers the quantity
  before the fill, more than is held.
\<close>

theorem level_fill_keeps_single_stop:
  assumes "ml_reachable env m" "heap m gid = Some g" "gSLLevels g = []"
    and "find_level n 0 (gTPLevels g) = Some (i, l)" "lStatus l = LevelActive"
    and "0 < i32 (gRemainingQty g - lExitQty l)"
  shows "let m' = onMultiLevelFilled env gid MLExitTypeTP n fp q m in
    (\<exists>g'. heap m' gid = Some g' \<and> gRemainingQty g' = i32 (gRemainingQty g - lExitQty l) \<and>
       gSingleSLBrokerID g' = gSingleSLBrokerID g) \<and>
    singleSLIndex m' = singleSLIndex m \<and>
    (\<forall>t \<in> set (tasks m'). t \<in> set (tasks m) \<or> (\<exists>oid b q p. t = TModifyLevel gid oid b q p MLExitTypeTP))"
proof -
  define g1 where "g1 = trigger_level MLExitTypeTP i l (price_of fp) g"
  have id: "gGroupID g = gid" using ml_wfD(1) [OF reachable_wf [OF assms(1)] assms(2)] .
  have r: "gRemainingQty g1 = i32 (gRemainingQty g - lExitQty l)" by (simp add: g1_def trigger_simps)
  have g1: "gGroupID g1 = gid" "gSLLevels g1 = []" "gSingleSLBrokerID g1 = gSingleSLBrokerID g"
    using id assms(3) by (auto simp: g1_def trigger_level_def Let_def reduce_remaining_def)
  define m2 where "m2 = emit (EDbLevelStatus (gEntryOrderID g) MLExitTypeTP n MLStatusTriggered (price_of fp))
     (drop_level_index [lBrokerOrderID l] (setg g1 m))"
  define m3 where "m3 = rebalanceAndModifyLevels gid MLExitTypeTP (gRemainingQty g1) m2"
  have e: "onMultiLevelFilled env gid MLExitTypeTP n fp q m =
      rebalanceAndModifyLevels gid MLExitTypeSL (gRemainingQty g1) m3"
    using assms(2,4,5) r assms(6)
    by (simp add: onMultiLevelFilled_def on_group_def [where m = m] g1_def [symmetric] m3_def m2_def Let_def)
  have h2: "heap m2 gid = Some g1" using g1(1) by (simp add: m2_def)
  have h3: "heap m3 gid = Some (rebal MLExitTypeTP (gRemainingQty g1) g1)"
    using rebalance_frame(2) [OF h2 g1(1)] by (simp add: m3_def)
  have t3: "\<forall>t \<in> set (tasks m3). t \<in> set (tasks m) \<or> (\<exists>oid b q p. t = TModifyLevel gid oid b q p MLExitTypeTP)"
    using h2 by (auto simp: m3_def rebalanceAndModifyLevels_def on_group_def Let_def modify_tasks_def m2_def)
  have s3: "singleSLIndex m3 = singleSLIndex m"
    using h2 by (simp add: m3_def rebalanceAndModifyLevels_def on_group_def Let_def m2_def)
  have emp: "gSLLevels (rebal MLExitTypeTP r' g1) = []" for r' using g1(2) by (simp add: rebal_simps)
  show ?thesis unfolding e Let_def
    using h3 g1(1,3) r s3 t3 emp
    by (auto simp: rebalanceAndModifyLevels_def on_group_def Let_def rebalance_levels_def modify_tasks_def rebal_simps)
      (simp_all add: rebal_def)
qed

definition demo_over :: ml_state where
  "demo_over = schedule demo_env 1 (OnEntryFill demo_env 7 100 100 [] []
     (RegisterEntry (demo_order\<lparr>oTradingMode := ''LIVE''\<rparr>) SLModeFixed TPModeMultiLevel [] demo_tp 5 0 None NewManager))"

lemma demo_over_reachable: "ml_reachable demo_env demo_over"
  unfolding demo_over_def
  by (intro reach_step [OF reach_step [OF reach_step [OF reach_init step_register] step_fill] step_task])

lemma demo_over_heap:
  "\<exists>g. heap demo_over 1 = Some g \<and> gSLLevels g = [] \<and> gTPLevels g = [demo_level 1 110 50 2, demo_level 2 120 50 3] \<and>
     gRemainingQty g = 100 \<and> gSingleSLBrokerID g = ''B1''"
  by (simp add: demo_over_def demo_env_def demo_order_def zero_order_def NewManager_def
      RegisterEntry_def OnEntryFill_def on_group_def fill_group_def Let_def SLModeFixed_def TPModeMultiLevel_def
      SLModeTrailing_def SLModeMultiLevel_def demo_sorted demo_levels live_entry_tasks_def schedule_def
      placeFixedSLOrder_def place_single_sl_def broker_place_def computeInitialExitQtys_def build_levels_def [of _ "[]"])
    (simp add: demo_level_def numeral_eq_Suc)

theorem level_fill_keeps_single_stop_witness:
  "\<exists>g. heap (onMultiLevelFilled demo_env 1 MLExitTypeTP 1 (Some 110) 50 demo_over) 1 = Some g \<and>
     gRemainingQty g = 50 \<and> gSingleSLBrokerID g = ''B1''"
proof -
  obtain g where g: "heap demo_over 1 = Some g" "gSLLevels g = []"
    "gTPLevels g = [demo_level 1 110 50 2, demo_level 2 120 50 3]" "gRemainingQty g = 100" "gSingleSLBrokerID g = ''B1''"
    using demo_over_heap by blast
  have f: "find_level 1 0 (gTPLevels g) = Some (0, demo_level 1 110 50 2)" "lStatus (demo_level 1 110 50 2) = LevelActive"
    "0 < i32 (gRemainingQty g - lExitQty (demo_level 1 110 50 2))"
    "i32 (gRemainingQty g - lExitQty (demo_level 1 110 50 2)) = 50"
    using g(3,4) by (simp_all add: demo_level_def i32_def)
  show ?thesis
    using level_fill_keeps_single_stop [OF demo_over_reachable g(1,2) f(1-3), of "Some 110" 50] f(4) g(5)
    by (auto simp: Let_def)
qed

section \<open>Cancelling for an exit\<close>

text \<open>
  \<open>CancelGroupForExit\<close> forgets the single stop order in the group but not in the index:
  the deletion uses the field that has just been cleared, so a later execution report for
  that order is still routed to the cancelled group.
\<close>

theorem CancelGroupForExit_keeps_stop_routed:
  assumes "map_of (groupsByEntry m) eid = Some gid" "heap m gid = Some g" "gGroupID g = gid"
    and "gState g = GroupStateActive" "gTPLevels g = []" "gSingleSLBrokerID g = b" "b \<noteq> []" "singleSLIndex m b = Some gid"
  shows "let m' = CancelGroupForExit env eid p reason m in
    (\<exists>g'. heap m' gid = Some g' \<and> gState g' = GroupStateCancelled \<and> gSingleSLBrokerID g' = []) \<and>
    singleSLIndex m' b = Some gid"
proof -
  define g1 where "g1 = g\<lparr>gState := GroupStateCancelled\<rparr>"
  define m3 where "m3 = cancelSLOrder env gid (setg g1 m)"
  have h3: "heap m3 gid = Some (g1\<lparr>gSingleSLBrokerID := []\<rparr>)" "singleSLIndex m3 = singleSLIndex m"
    using assms(3) by (auto simp: m3_def cancelSLOrder_def on_group_def g1_def Let_def broker_cancel_def)
  show ?thesis
    using assms h3 unfolding CancelGroupForExit_def
    by (auto simp: on_group_def [where m = m] on_group_def [where m = m3] m3_def [symmetric] g1_def [symmetric] Let_def
        paper_close_def) (auto simp: g1_def)
qed

theorem CancelGroupForExit_keeps_stop_routed_witness:
  "singleSLIndex (CancelGroupForExit demo_env 7 99 ''FORCE_EXIT'' demo_live) ''B1'' = Some 1"
proof -
  obtain g where g: "heap demo_live 1 = Some g" "gState g = GroupStateActive" "gSingleSLBrokerID g = ''B1''"
    using demo_live_facts(1) by blast
  have "gTPLevels g = [] \<and> singleSLIndex demo_live ''B1'' = Some 1"
    using g(1) demo_live1_facts(2)
    by (auto simp: demo_live_def demo_live1_def demo_live0_def demo_order_def zero_order_def NewManager_def RegisterEntry_def
      OnEntryFill_def on_group_def fill_group_def Let_def SLModeFixed_def SLModeTrailing_def SLModeMultiLevel_def
      TPModeFixed_def TPModeMultiLevel_def live_entry_tasks_def schedule_def placeFixedSLOrder_def place_single_sl_def
      broker_place_def demo_env_def build_levels_def)
  then show ?thesis
    using CancelGroupForExit_keeps_stop_routed [OF demo_live_facts(2) g(1) ml_wfD(1) [OF reachable_wf [OF demo_live_reachable] g(1)] g(2)]
      g(3) by (auto simp: Let_def)
qed

end
