(* ===== verification/OcoTypes.thy ===== *)
theory OcoTypes
  imports NseTick Models
begin

text \<open>
  The data of the one-cancels-the-other manager (\<open>oco/types.go\<close>): the life-cycle states, the
  group that ties an entry order to its stop-loss and take-profit legs, and the prices
  derived from the fill. Group fields carry the prefix \<open>c\<close>. An order identifier that is
  not set is 0, a broker identifier that is not set is the empty string, as in the source.
\<close>

section \<open>States and groups\<close>

datatype OCOState =
    StatePendingEntry | StatePlacingLegs | StateLegsSubmitted | StateActive
  | StateSLTriggered | StateTPTriggered | StateCompleted | StateFailed | StateCancelled

fun IsTerminal :: "OCOState \<Rightarrow> bool" where
  "IsTerminal StateCompleted = True"
| "IsTerminal StateFailed = True"
| "IsTerminal StateCancelled = True"
| "IsTerminal _ = False"

definition RoleEntry :: string where "RoleEntry = ''ENTRY''"
definition RoleSLLeg :: string where "RoleSLLeg = ''SL_LEG''"
definition RoleTPLeg :: string where "RoleTPLeg = ''TP_LEG''"

text \<open>
  \<open>cPartialFillCancelFunc\<close> holds the identity of the timer that the stored function
  cancels.
\<close>

record OCOGroup =
  cGroupID :: uuid
  cUserID :: string
  cEntryOrderID :: uuid
  cEntryBrokerID :: string
  cEntryFillPrice :: float64
  cSLOrderID :: uuid
  cSLBrokerID :: string
  cSLTriggerPrice :: float64
  cSLLimitPrice :: float64
  cTPOrderID :: uuid
  cTPBrokerID :: string
  cTPLimitPrice :: float64
  cSLPercent :: float64
  cTPPercent :: float64
  cTrailingSL :: bool
  cTrailingSLPct :: float64
  cState :: OCOState
  cHighestPrice :: float64
  cPnL :: float64
  cSLLegConfirmed :: bool
  cTPLegConfirmed :: bool
  cSymbol :: string
  cExchange :: string
  cStockCode :: int
  cQuantity :: int
  cOrderSide :: string
  cAuth :: "AuthContext option"
  cProductType :: string
  cValidity :: string
  cStrategyID :: string
  cStrategyName :: string
  cEventID :: uuid
  cFilledQty :: int
  cPartialFillActive :: bool
  cPartialFillCancelFunc :: "nat option"
  cPartialFillTimerStarted :: bool

definition zero_oco :: OCOGroup where
  "zero_oco = \<lparr> cGroupID = 0, cUserID = [], cEntryOrderID = 0, cEntryBrokerID = [], cEntryFillPrice = 0,
     cSLOrderID = 0, cSLBrokerID = [], cSLTriggerPrice = 0, cSLLimitPrice = 0, cTPOrderID = 0,
     cTPBrokerID = [], cTPLimitPrice = 0, cSLPercent = 0, cTPPercent = 0, cTrailingSL = False,
     cTrailingSLPct = 0, cState = StatePendingEntry, cHighestPrice = 0, cPnL = 0, cSLLegConfirmed = False,
     cTPLegConfirmed = False, cSymbol = [], cExchange = [], cStockCode = 0, cQuantity = 0, cOrderSide = [],
     cAuth = None, cProductType = [], cValidity = [], cStrategyID = [], cStrategyName = [], cEventID = 0,
     cFilledQty = 0, cPartialFillActive = False, cPartialFillCancelFunc = None,
     cPartialFillTimerStarted = False \<rparr>"

definition ocoExitSide :: "OCOGroup \<Rightarrow> string" where
  "ocoExitSide g = (if cOrderSide g = ''BUY'' then ''SELL'' else ''BUY'')"

section \<open>Prices from the fill\<close>

text \<open>The untyped constants \<open>1 - 0.005\<close> and \<open>1 + 0.005\<close> are exact until they become doubles.\<close>

definition below_buffer :: float64 where "below_buffer = rnd (199 / 200)"
definition above_buffer :: float64 where "above_buffer = rnd (201 / 200)"

definition CalculateSLFromFill :: "OCOGroup \<Rightarrow> float64 \<Rightarrow> float64 \<times> float64" where
  "CalculateSLFromFill g fillPrice =
     (if cOrderSide g = ''BUY''
      then let trigger = fmul fillPrice (fsub 1 (fdiv (cSLPercent g) 100)); limit = fmul trigger below_buffer
           in (roundNSE trigger, roundNSE limit)
      else let trigger = fmul fillPrice (fadd 1 (fdiv (cSLPercent g) 100)); limit = fmul trigger above_buffer
           in (roundNSE trigger, roundNSE limit))"

definition CalculateTPFromFill :: "OCOGroup \<Rightarrow> float64 \<Rightarrow> float64" where
  "CalculateTPFromFill g fillPrice =
     (if cOrderSide g = ''BUY'' then roundNSE (fmul fillPrice (fadd 1 (fdiv (cTPPercent g) 100)))
      else roundNSE (fmul fillPrice (fsub 1 (fdiv (cTPPercent g) 100))))"

text \<open>
  \<open>CalculateTrailingSL\<close>: \<open>None\<close> is \<open>(0, 0, false)\<close>. The first part is the two branches on the
  side, which compute the unrounded stop; the second the threshold on its relative change.
\<close>

definition trail_raw :: "OCOGroup \<Rightarrow> float64 \<Rightarrow> (float64 \<times> float64) option" where
  "trail_raw g currentLTP =
     (let trigger = fmul (cSLTriggerPrice g) (fdiv currentLTP (cHighestPrice g)) in
      if cOrderSide g = ''BUY''
      then if currentLTP \<le> cHighestPrice g \<or> trigger \<le> cSLTriggerPrice g then None
           else Some (trigger, fmul trigger below_buffer)
      else if cHighestPrice g \<le> currentLTP \<or> cSLTriggerPrice g \<le> trigger then None
           else Some (trigger, fmul trigger above_buffer))"

definition trail_min_pct :: "OCOGroup \<Rightarrow> float64" where
  "trail_min_pct g = (if cTrailingSLPct g \<le> 0 \<or> 1 / 2 < cTrailingSLPct g then rnd (1 / 10) else cTrailingSLPct g)"

definition CalculateTrailingSL :: "OCOGroup \<Rightarrow> float64 \<Rightarrow> (float64 \<times> float64) option" where
  "CalculateTrailingSL g currentLTP =
     (if \<not> cTrailingSL g \<or> cState g \<noteq> StateActive then None
      else if cHighestPrice g \<le> 0 \<or> cSLTriggerPrice g \<le> 0 then None
      else case trail_raw g currentLTP of None \<Rightarrow> None
           | Some (trigger, limit) \<Rightarrow>
               let change = fmul (fdiv (fsub trigger (cSLTriggerPrice g)) (cSLTriggerPrice g)) 100
               in if \<bar>change\<bar> < trail_min_pct g then None else Some (roundNSE trigger, roundNSE limit))"

end
