(* ===== verification/OcoManager.thy ===== *)
theory OcoManager
  imports OcoTypes
begin

text \<open>
  The one-cancels-the-other manager (\<open>oco/manager.go\<close>): state, collaborators, the entry
  order, the placement of the legs and the broker calls with their retry loops.

  A group is an object shared by the registry, the broker index and the running
  goroutines: \<open>oheap\<close> maps identifiers to objects, \<open>ogroups\<close> lists the registered ones. A
  \<open>go\<close> statement (and \<open>time.AfterFunc\<close>) appends a value of type \<open>otask\<close>; \<open>run_otask\<close> runs one,
  in any order. A goroutine that works without the group's lock and takes it later is two
  tasks, so that other events can come between. The two legs are placed one after the
  other, one of the orders their two goroutines can take. Calls to collaborators are
  recorded with their answers in \<open>oout\<close>; \<open>oco_env\<close> gives the answers, which may depend on
  everything recorded before. A nil dereference stops the process: \<open>opanic\<close>.
\<close>

section \<open>State, tasks, effects\<close>

definition maxEntryRetries :: nat where "maxEntryRetries = 2"
definition maxLegPlacementRetries :: nat where "maxLegPlacementRetries = 3"
definition dbRetryAttempts :: nat where "dbRetryAttempts = 3"

datatype oeffect =
    OCreate Order
  | OUpdate Order
  | OTag uuid uuid string
  | OPlace Order "AuthContext option" "string + string"
  | OModify Order "AuthContext option" "string option"
  | OCancel string string string "AuthContext option" "string option"
  | OInvalidate string
  | OGetCreds string
  | OBroadcast string string "Order option"

datatype otask =
    OTPlaceLegs uuid bool
  | OTFinishLegs uuid "Order option" "Order option" "string + string" "string + string" bool
  | OTArmTimer uuid
  | OTStartTimer uuid
  | OTTimer uuid nat
  | OTModifyLegs uuid int
  | OTModifyLegsEnd uuid int
  | OTCancelLeg uuid string string string
  | OTCancelDone uuid
  | OTCleanup uuid
  | OTDbUpdate Order
  | OTTag uuid uuid string

record oco_state =
  oheap :: "uuid \<Rightarrow> OCOGroup option"
  ogroups :: "uuid list"
  brokerIndex :: "string \<Rightarrow> uuid option"
  otasks :: "otask list"
  onext :: nat
  opanic :: bool
  oout :: "oeffect list"

text \<open>
  Answers of the collaborators. A failing call answers an error text: \<open>Inl\<close> from
  \<open>PlaceOrder\<close> (\<open>Inr\<close> is the broker's order identifier), \<open>Some\<close> from the others.
  \<open>xCreds\<close> is the optional credentials cache, whose \<open>Get\<close> is \<open>None\<close> on an error.
\<close>

record oco_env =
  xCreate :: "oeffect list \<Rightarrow> Order \<Rightarrow> string option"
  xUpdate :: "oeffect list \<Rightarrow> Order \<Rightarrow> string option"
  xPlace :: "oeffect list \<Rightarrow> Order \<Rightarrow> AuthContext option \<Rightarrow> string + string"
  xModify :: "oeffect list \<Rightarrow> Order \<Rightarrow> AuthContext option \<Rightarrow> string option"
  xCancel :: "oeffect list \<Rightarrow> string \<Rightarrow> string \<Rightarrow> string \<Rightarrow> AuthContext option \<Rightarrow> string option"
  xCreds :: "(oeffect list \<Rightarrow> string \<Rightarrow> AuthContext option) option"
  xBroadcast :: bool

definition NewOCOManager :: "nat \<Rightarrow> oco_state" where
  "NewOCOManager n = \<lparr> oheap = Map.empty, ogroups = [], brokerIndex = Map.empty, otasks = [],
     onext = n, opanic = False, oout = [] \<rparr>"

definition oemit :: "oeffect \<Rightarrow> oco_state \<Rightarrow> oco_state" where
  "oemit e m = m\<lparr>oout := oout m @ [e]\<rparr>"

definition ospawn :: "otask \<Rightarrow> oco_state \<Rightarrow> oco_state" where
  "ospawn t m = m\<lparr>otasks := otasks m @ [t]\<rparr>"

definition setc :: "OCOGroup \<Rightarrow> oco_state \<Rightarrow> oco_state" where
  "setc g m = m\<lparr>oheap := (oheap m)(cGroupID g \<mapsto> g)\<rparr>"

definition on_oco :: "uuid \<Rightarrow> (OCOGroup \<Rightarrow> oco_state) \<Rightarrow> oco_state \<Rightarrow> oco_state" where
  "on_oco gid f m = (case oheap m gid of None \<Rightarrow> m | Some g \<Rightarrow> f g)"

definition index_broker :: "string \<Rightarrow> uuid \<Rightarrow> oco_state \<Rightarrow> oco_state" where
  "index_broker b gid m = m\<lparr>brokerIndex := (brokerIndex m)(b \<mapsto> gid)\<rparr>"

definition register :: "OCOGroup \<Rightarrow> oco_state \<Rightarrow> oco_state" where
  "register g m = (setc g m)\<lparr>ogroups := List.insert (cGroupID g) (ogroups m)\<rparr>"

definition broadcast :: "oco_env \<Rightarrow> string \<Rightarrow> string \<Rightarrow> Order option \<Rightarrow> oco_state \<Rightarrow> oco_state" where
  "broadcast env user event ord m = (if xBroadcast env then oemit (OBroadcast user event ord) m else m)"

definition next_id :: "oco_state \<Rightarrow> oco_state" where
  "next_id m = m\<lparr>onext := Suc (onext m)\<rparr>"

section \<open>Broker and database calls\<close>

definition db_create :: "oco_env \<Rightarrow> Order \<Rightarrow> oco_state \<Rightarrow> oco_state \<times> string option" where
  "db_create env ord m = (oemit (OCreate ord) m, xCreate env (oout m) ord)"

definition db_update :: "oco_env \<Rightarrow> Order \<Rightarrow> oco_state \<Rightarrow> oco_state \<times> string option" where
  "db_update env ord m = (oemit (OUpdate ord) m, xUpdate env (oout m) ord)"

definition place_order :: "oco_env \<Rightarrow> Order \<Rightarrow> AuthContext option \<Rightarrow> oco_state \<Rightarrow> oco_state \<times> (string + string)" where
  "place_order env ord auth m =
     (let r = xPlace env (oout m) ord auth in (oemit (OPlace ord auth r) m, r))"

definition modify_order_at :: "oco_env \<Rightarrow> Order \<Rightarrow> AuthContext option \<Rightarrow> oco_state \<Rightarrow> oco_state \<times> string option" where
  "modify_order_at env ord auth m =
     (let r = xModify env (oout m) ord auth in (oemit (OModify ord auth r) m, r))"

definition cancel_order_at :: "oco_env \<Rightarrow> OCOGroup \<Rightarrow> string \<Rightarrow> oco_state \<Rightarrow> oco_state \<times> string option" where
  "cancel_order_at env g b m =
     (let r = xCancel env (oout m) (cExchange g) b (cSymbol g) (cAuth g)
      in (oemit (OCancel (cExchange g) b (cSymbol g) (cAuth g) r) m, r))"

definition isSessionExpiredError :: "string option \<Rightarrow> bool" where
  "isSessionExpiredError err = (case err of None \<Rightarrow> False
     | Some msg \<Rightarrow> contains msg ''HTTP error 401'' \<or> contains msg ''Session expired'')"

definition isSessionNotReadyError :: "string option \<Rightarrow> bool" where
  "isSessionNotReadyError err = (case err of None \<Rightarrow> False
     | Some msg \<Rightarrow> contains msg ''AU004'' \<or> contains msg ''Session data not received'')"

definition refreshAuth :: "oco_env \<Rightarrow> string \<Rightarrow> AuthContext option \<Rightarrow> oco_state \<Rightarrow> oco_state \<times> AuthContext option" where
  "refreshAuth env userID currentAuth m =
     (case xCreds env of None \<Rightarrow> (m, None)
      | Some get \<Rightarrow>
          let m1 = oemit (OInvalidate userID) m; r = get (oout m1) userID; m2 = oemit (OGetCreds userID) m1
          in case r of None \<Rightarrow> (m2, None)
             | Some fresh \<Rightarrow>
                 (case currentAuth of None \<Rightarrow> (m2\<lparr>opanic := True\<rparr>, None)
                  | Some cur \<Rightarrow> if auBearerToken fresh = auBearerToken cur then (m2, None) else (m2, Some fresh)))"

text \<open>The tokens of an order are those of the context it is placed with.\<close>

definition with_auth :: "AuthContext \<Rightarrow> Order \<Rightarrow> Order" where
  "with_auth a ord = ord\<lparr>oBearerToken := Some (auBearerToken a), oAppId := Some (auAppId a), oSource := Some (auSource a)\<rparr>"

text \<open>The body of \<open>dbUpdateAsync\<close>: up to three attempts until one succeeds.\<close>

fun db_update_attempts :: "oco_env \<Rightarrow> nat \<Rightarrow> Order \<Rightarrow> oco_state \<Rightarrow> oco_state" where
  "db_update_attempts env 0 ord m = m"
| "db_update_attempts env (Suc n) ord m =
     (case db_update env ord m of (m1, None) \<Rightarrow> m1 | (m1, Some _) \<Rightarrow> db_update_attempts env n ord m1)"

definition dbUpdateAsync :: "Order \<Rightarrow> oco_state \<Rightarrow> oco_state" where
  "dbUpdateAsync ord m = ospawn (OTDbUpdate ord) m"

section \<open>The entry order\<close>

text \<open>
  The attempts to place the entry: \<open>n\<close> are left. Only a stale session, after the
  credentials were refreshed, and a session that is not ready yet are tried again.
\<close>

fun entry_attempts ::
  "oco_env \<Rightarrow> nat \<Rightarrow> Order \<Rightarrow> AuthContext \<Rightarrow> oco_state \<Rightarrow> oco_state \<times> Order \<times> AuthContext \<times> (string + string)" where
  "entry_attempts env 0 ord auth m = (m, ord, auth, Inl [])"
| "entry_attempts env (Suc n) ord auth m =
     (case place_order env ord (Some auth) m of
        (m1, Inr b) \<Rightarrow> (m1, ord, auth, Inr b)
      | (m1, Inl e) \<Rightarrow>
          if \<not> isSessionExpiredError (Some e) \<and> \<not> isSessionNotReadyError (Some e) then (m1, ord, auth, Inl e)
          else if n = 0 then (m1, ord, auth, Inl e)
          else if isSessionExpiredError (Some e)
          then (case refreshAuth env (oUserID ord) (Some auth) m1 of
                  (m2, None) \<Rightarrow> (m2, ord, auth, Inl e)
                | (m2, Some a) \<Rightarrow> entry_attempts env n (with_auth a ord) a m2)
          else entry_attempts env n ord auth m1)"

definition entry_group ::
  "uuid \<Rightarrow> uuid \<Rightarrow> string \<Rightarrow> string \<Rightarrow> uuid \<Rightarrow> int \<Rightarrow> string \<Rightarrow> string \<Rightarrow> string \<Rightarrow> int \<Rightarrow> float64 \<Rightarrow> float64
     \<Rightarrow> bool \<Rightarrow> float64 \<Rightarrow> AuthContext option \<Rightarrow> OCOGroup" where
  "entry_group groupID entryOrderID userID strategyID eventID stockCode exchange symbol orderSide quantity
     slPercent tpPercent trailingSL trailingSLPct auth =
     zero_oco\<lparr> cGroupID := groupID, cUserID := userID, cEntryOrderID := entryOrderID,
       cSLPercent := slPercent, cTPPercent := tpPercent, cTrailingSL := trailingSL,
       cTrailingSLPct := trailingSLPct, cState := StatePendingEntry, cSymbol := symbol,
       cExchange := exchange, cStockCode := stockCode, cQuantity := quantity, cOrderSide := orderSide,
       cAuth := auth, cProductType := ''INTRADAY'', cValidity := ''DAY'', cStrategyID := strategyID,
       cEventID := eventID \<rparr>"

definition entry_limit :: "string \<Rightarrow> float64 \<Rightarrow> float64" where
  "entry_limit orderSide trigger =
     (if orderSide = ''BUY'' then roundNSE (fmul trigger above_buffer) else roundNSE (fmul trigger below_buffer))"

definition entry_order :: "OCOGroup \<Rightarrow> AuthContext \<Rightarrow> float64 \<Rightarrow> Order" where
  "entry_order g auth limit = with_auth auth (zero_order\<lparr>
     oOrderID := cEntryOrderID g, oUserID := cUserID g, oStrategyID := cStrategyID g,
     oStrategyName := cStrategyName g, oEventID := cEventID g, oStockCode := cStockCode g,
     oExchange := cExchange g, oSymbol := cSymbol g, oOrderType := OrderTypeLimit, oOrderSide := cOrderSide g,
     oQuantity := cQuantity g, oPrice := Some limit, oValidity := ''DAY'', oProductType := cProductType g,
     oStatus := StatusReceived, oRiskApproved := True, oTradingMode := ''LIVE'',
     oOCOGroupID := Some (cGroupID g), oOCORole := Some RoleEntry,
     oStopLossType := (if cTrailingSL g then Some ''TRAILING'' else None),
     oTrailingSLPct := (if 0 < cTrailingSLPct g then Some (cTrailingSLPct g) else None)\<rparr>)"

text \<open>
  \<open>CreateOCOEntry\<close> answers an error, or the identifier of the group. The parameter
  \<open>productType\<close> is overwritten by \<open>INTRADAY\<close> in the source.
\<close>

definition CreateOCOEntry ::
  "oco_env \<Rightarrow> string \<Rightarrow> string \<Rightarrow> uuid \<Rightarrow> int \<Rightarrow> string \<Rightarrow> string \<Rightarrow> string \<Rightarrow> int \<Rightarrow> float64 \<Rightarrow> float64 \<Rightarrow> float64
     \<Rightarrow> bool \<Rightarrow> float64 \<Rightarrow> AuthContext \<Rightarrow> oco_state \<Rightarrow> oco_state \<times> (string + uuid)" where
  "CreateOCOEntry env userID strategyID eventID stockCode exchange symbol orderSide quantity
     entryTriggerPrice slPercent tpPercent trailingSL trailingSLPct auth m =
     (let groupID = onext m; entryOrderID = Suc (onext m); m0 = next_id (next_id m);
          group = entry_group groupID entryOrderID userID strategyID eventID stockCode exchange symbol orderSide
                    quantity slPercent tpPercent trailingSL trailingSLPct (Some auth);
          entryOrder = entry_order group auth (entry_limit orderSide entryTriggerPrice)
      in case db_create env entryOrder m0 of
           (m1, Some e) \<Rightarrow> (m1, Inl (''failed to persist OCO entry order: '' @ e))
         | (m1, None) \<Rightarrow>
             (case entry_attempts env (Suc maxEntryRetries) entryOrder auth m1 of
                (m2, ord, _, Inl e) \<Rightarrow>
                  (fst (db_update env (ord\<lparr>oStatus := StatusFailed, oErrorMessage := Some e\<rparr>) m2),
                   Inl (''failed to place OCO entry order: '' @ e))
              | (m2, ord, auth', Inr b) \<Rightarrow>
                  let ord' = ord\<lparr>oIndiraOrderID := Some b, oStatus := StatusSubmitted\<rparr>;
                      group' = group\<lparr>cAuth := Some auth', cEntryBrokerID := b\<rparr>;
                      m3 = index_broker b groupID (register group' m2);
                      m4 = fst (db_update env ord' m3)
                  in (broadcast env userID ''oco_entry_placed'' (Some ord') m4, Inr groupID)))"

section \<open>Placement of the legs\<close>

definition buildLegOrder ::
  "OCOGroup \<Rightarrow> uuid \<Rightarrow> string \<Rightarrow> string \<Rightarrow> float64 option \<Rightarrow> float64 option \<Rightarrow> string \<Rightarrow> Order option" where
  "buildLegOrder g orderID side orderType price triggerPrice role =
     (case cAuth g of None \<Rightarrow> None | Some auth \<Rightarrow> Some (with_auth auth (zero_order\<lparr>
        oOrderID := orderID, oUserID := cUserID g, oStrategyID := cStrategyID g, oStrategyName := cStrategyName g,
        oEventID := cEventID g, oStockCode := cStockCode g, oExchange := cExchange g, oSymbol := cSymbol g,
        oOrderType := orderType, oOrderSide := side,
        oQuantity := (if 0 < cFilledQty g then cFilledQty g else cQuantity g),
        oPrice := price, oStopLoss := triggerPrice, oValidity := cValidity g, oProductType := cProductType g,
        oStatus := StatusReceived, oRiskApproved := True, oTradingMode := ''LIVE'',
        oOCOGroupID := Some (cGroupID g), oOCORole := Some role, oParentOrderID := Some (cEntryOrderID g)\<rparr>)))"

text \<open>The attempts to place a leg; the order comes back as the loop leaves it.\<close>

fun leg_attempts ::
  "oco_env \<Rightarrow> nat \<Rightarrow> Order \<Rightarrow> AuthContext \<Rightarrow> oco_state \<Rightarrow> oco_state \<times> Order \<times> (string + string)" where
  "leg_attempts env 0 ord auth m = (m, ord, Inl [])"
| "leg_attempts env (Suc n) ord auth m =
     (case place_order env ord (Some auth) m of
        (m1, Inr b) \<Rightarrow>
          let ord' = ord\<lparr>oIndiraOrderID := Some b, oStatus := StatusSubmitted\<rparr>
          in (fst (db_update env ord' m1), ord', Inr b)
      | (m1, Inl e) \<Rightarrow>
          if n = 0 then (m1, ord, Inl e)
          else if isSessionExpiredError (Some e)
          then (case refreshAuth env (oUserID ord) (Some auth) m1 of
                  (m2, None) \<Rightarrow> leg_attempts env n ord auth m2
                | (m2, Some a) \<Rightarrow> leg_attempts env n (with_auth a ord) a m2)
          else leg_attempts env n ord auth m1)"

definition placeLegWithRetry ::
  "oco_env \<Rightarrow> Order \<Rightarrow> AuthContext \<Rightarrow> string \<Rightarrow> oco_state \<Rightarrow> oco_state \<times> Order \<times> (string + string)" where
  "placeLegWithRetry env ord auth legName m =
     (case leg_attempts env maxLegPlacementRetries ord auth m of
        (m1, ord1, Inr b) \<Rightarrow> (m1, ord1, Inr b)
      | (m1, ord1, Inl e) \<Rightarrow>
          let errMsg = legName @ '' leg placement failed after 3 attempts: '' @ e;
              ord2 = ord1\<lparr>oStatus := StatusFailed, oErrorMessage := Some errMsg\<rparr>
          in (fst (db_update env ord2 m1), ord2, Inl errMsg))"

text \<open>The checks of \<open>placeOCOLegs\<close> on the prices of the enabled legs.\<close>

definition sl_sane :: "OCOGroup \<Rightarrow> bool" where
  "sl_sane g = (let fillPrice = cEntryFillPrice g; slTrigger = fst (CalculateSLFromFill g fillPrice)
     in \<not> (cOrderSide g = ''BUY'' \<and> fillPrice \<le> slTrigger) \<and> \<not> (cOrderSide g = ''SELL'' \<and> slTrigger \<le> fillPrice))"

definition tp_sane :: "OCOGroup \<Rightarrow> bool" where
  "tp_sane g = (let fillPrice = cEntryFillPrice g; tpLimit = CalculateTPFromFill g fillPrice
     in \<not> (cOrderSide g = ''BUY'' \<and> tpLimit \<le> fillPrice) \<and> \<not> (cOrderSide g = ''SELL'' \<and> fillPrice \<le> tpLimit))"

text \<open>
  The group with the legs' prices and fresh identifiers \<open>i\<close> (stop) and \<open>j\<close> (target);
  a disabled leg needs no confirmation.
\<close>

definition prepare_legs :: "uuid \<Rightarrow> uuid \<Rightarrow> OCOGroup \<Rightarrow> OCOGroup" where
  "prepare_legs i j g =
     (let fillPrice = cEntryFillPrice g;
          g1 = (if 0 < cSLPercent g
                then g\<lparr>cSLOrderID := i, cSLTriggerPrice := fst (CalculateSLFromFill g fillPrice),
                        cSLLimitPrice := snd (CalculateSLFromFill g fillPrice)\<rparr>
                else g\<lparr>cSLLegConfirmed := True\<rparr>)
      in if 0 < cTPPercent g then g1\<lparr>cTPOrderID := j, cTPLimitPrice := CalculateTPFromFill g fillPrice\<rparr>
         else g1\<lparr>cTPLegConfirmed := True\<rparr>)"

definition sl_order :: "OCOGroup \<Rightarrow> Order option" where
  "sl_order g = buildLegOrder g (cSLOrderID g) (ocoExitSide g) OrderTypeStopLoss
     (Some (cSLLimitPrice g)) (Some (cSLTriggerPrice g)) RoleSLLeg"

definition tp_order :: "OCOGroup \<Rightarrow> Order option" where
  "tp_order g = buildLegOrder g (cTPOrderID g) (ocoExitSide g) OrderTypeLimit
     (Some (cTPLimitPrice g)) None RoleTPLeg"

definition create_leg :: "oco_env \<Rightarrow> Order option \<Rightarrow> oco_state \<Rightarrow> oco_state" where
  "create_leg env leg m = (case leg of None \<Rightarrow> m | Some ord \<Rightarrow> fst (db_create env ord m))"

definition place_leg ::
  "oco_env \<Rightarrow> Order option \<Rightarrow> AuthContext \<Rightarrow> string \<Rightarrow> oco_state \<Rightarrow> oco_state \<times> Order option \<times> (string + string)" where
  "place_leg env leg auth legName m =
     (case leg of None \<Rightarrow> (m, None, Inr [])
      | Some ord \<Rightarrow> (case placeLegWithRetry env ord auth legName m of (m1, ord1, r) \<Rightarrow> (m1, Some ord1, r)))"

text \<open>
  \<open>placeOCOLegs\<close> up to the answers of the broker. \<open>buildLegOrder\<close> dereferences the
  authentication context, which is nil in a group reloaded from a row without tokens.
\<close>

definition placeOCOLegs :: "oco_env \<Rightarrow> uuid \<Rightarrow> bool \<Rightarrow> oco_state \<Rightarrow> oco_state" where
  "placeOCOLegs env gid partial m =
     on_oco gid (\<lambda>g.
       let hasSL = 0 < cSLPercent g; hasTP = 0 < cTPPercent g;
           failed = (let m1 = setc (g\<lparr>cState := StateFailed\<rparr>) m
                     in if partial then ospawn (OTArmTimer gid) m1 else m1)
       in if \<not> hasSL \<and> \<not> hasTP then failed
          else if hasSL \<and> \<not> sl_sane g then failed
          else if hasTP \<and> \<not> tp_sane g then failed
          else let g1 = prepare_legs (onext m) (Suc (onext m)) g; m1 = setc g1 (next_id (next_id m))
               in case cAuth g of None \<Rightarrow> m1\<lparr>opanic := True\<rparr>
                  | Some auth \<Rightarrow>
                      let slOrder = (if hasSL then sl_order g1 else None);
                          tpOrder = (if hasTP then tp_order g1 else None);
                          m2 = create_leg env tpOrder (create_leg env slOrder m1)
                      in case place_leg env slOrder auth ''SL'' m2 of (m3, slOrder', slRes) \<Rightarrow>
                           (case place_leg env tpOrder auth ''TP'' m3 of (m4, tpOrder', tpRes) \<Rightarrow>
                              ospawn (OTFinishLegs gid slOrder' tpOrder' slRes tpRes partial) m4)) m"

definition checkLegsConfirmed :: "oco_env \<Rightarrow> OCOGroup \<Rightarrow> oco_state \<Rightarrow> oco_state" where
  "checkLegsConfirmed env g m =
     (if cState g \<noteq> StateLegsSubmitted then setc g m
      else let slOK = (cSLLegConfirmed g \<or> cSLBrokerID g = []);
               tpOK = (cTPLegConfirmed g \<or> cTPBrokerID g = [])
           in if slOK \<and> tpOK
              then broadcast env (cUserID g) ''oco_legs_confirmed'' None (setc (g\<lparr>cState := StateActive\<rparr>) m)
              else setc g m)"

definition scheduleCleanup :: "uuid \<Rightarrow> oco_state \<Rightarrow> oco_state" where
  "scheduleCleanup gid m = ospawn (OTCleanup gid) m"

definition take_sl :: "string \<Rightarrow> OCOGroup \<Rightarrow> OCOGroup" where
  "take_sl b g = (if b \<noteq> [] then g\<lparr>cSLBrokerID := b, cSLLegConfirmed := True\<rparr> else g)"

definition take_tp :: "string \<Rightarrow> OCOGroup \<Rightarrow> OCOGroup" where
  "take_tp b g = (if b \<noteq> [] then g\<lparr>cTPBrokerID := b, cTPLegConfirmed := True\<rparr> else g)"

definition index_if :: "string \<Rightarrow> uuid \<Rightarrow> oco_state \<Rightarrow> oco_state" where
  "index_if b gid m = (if b \<noteq> [] then index_broker b gid m else m)"

text \<open>The locked end of \<open>placeOCOLegs\<close>, on the answers for the two legs.\<close>

definition finish_legs ::
  "oco_env \<Rightarrow> uuid \<Rightarrow> Order option \<Rightarrow> string + string \<Rightarrow> string + string \<Rightarrow> oco_state \<Rightarrow> oco_state" where
  "finish_legs env gid slOrder slRes tpRes m =
     on_oco gid (\<lambda>g.
       case (slRes, tpRes) of
         (Inl _, Inl _) \<Rightarrow>
           broadcast env (cUserID g) ''oco_legs_failed'' slOrder
             (scheduleCleanup gid (setc (g\<lparr>cState := StateFailed\<rparr>) m))
       | (Inl _, Inr tpB) \<Rightarrow>
           let g1 = (if tpB \<noteq> [] then g\<lparr>cTPBrokerID := tpB\<rparr> else g);
               m1 = index_if tpB gid (setc (g1\<lparr>cState := StateFailed\<rparr>) m);
               m2 = ospawn (OTCancelLeg gid tpB ''TP'' ''SL leg failed (no protection)'') m1
           in broadcast env (cUserID g) ''oco_legs_failed'' slOrder m2
       | (Inr slB, Inl _) \<Rightarrow>
           let g1 = (take_sl slB g)\<lparr>cTPLegConfirmed := True, cState := StateLegsSubmitted\<rparr>
           in broadcast env (cUserID g) ''oco_tp_rejected'' slOrder (checkLegsConfirmed env g1 (index_if slB gid m))
       | (Inr slB, Inr tpB) \<Rightarrow>
           let g1 = (take_tp tpB (take_sl slB g))\<lparr>cState := StateLegsSubmitted\<rparr>
           in broadcast env (cUserID g) ''oco_legs_submitted'' slOrder
                (checkLegsConfirmed env g1 (index_if tpB gid (index_if slB gid m)))) m"

end
