(* ===== verification/OcoEvents.thy ===== *)
theory OcoEvents
  imports OcoManager
begin

text \<open>
  The one-cancels-the-other manager, continued (\<open>oco/manager.go\<close>): the broker's events,
  partial fills, cancellation and cleanup, modification of the stop, restart recovery,
  the lookups, adoption of an order, and the goroutines.
\<close>

section \<open>Events of the entry order\<close>

definition executed_status :: "string \<Rightarrow> bool" where
  "executed_status s \<longleftrightarrow> s \<in> {''EXECUTED'', ''TRADED''}"

definition partial_status :: "string \<Rightarrow> bool" where
  "partial_status s \<longleftrightarrow> s \<in> {''PARTIALLY TRADED'', ''PARTIALLY EXECUTED'', ''PARTIALLY_FILLED''}"

definition pending_status :: "string \<Rightarrow> bool" where
  "pending_status s \<longleftrightarrow> s \<in> {''PENDING'', ''OPEN'', ''TRIGGER PENDING'', ''TRIGGER_PENDING'',
     ''AFTER MARKET ORDER REQ RECEIVED''}"

definition event_fill_price :: "Order \<Rightarrow> float64" where
  "event_fill_price ord =
     (case oFilledPrice ord of
        Some p \<Rightarrow> if 0 < p then p else (case oPrice ord of Some q \<Rightarrow> if 0 < q then q else 0 | None \<Rightarrow> 0)
      | None \<Rightarrow> (case oPrice ord of Some q \<Rightarrow> if 0 < q then q else 0 | None \<Rightarrow> 0))"

text \<open>
  Calling the stored cancel function ends the timer's goroutine, which then does nothing;
  then the partial-fill fields are cleared.
\<close>

definition stop_timer :: "OCOGroup \<Rightarrow> oco_state \<Rightarrow> oco_state" where
  "stop_timer g m = (case cPartialFillCancelFunc g of None \<Rightarrow> m
     | Some k \<Rightarrow> m\<lparr>otasks := filter (\<lambda>t. t \<noteq> OTTimer (cGroupID g) k) (otasks m)\<rparr>)"

definition clear_partial :: "OCOGroup \<Rightarrow> OCOGroup" where
  "clear_partial g = g\<lparr>cPartialFillCancelFunc := None, cPartialFillActive := False, cPartialFillTimerStarted := False\<rparr>"

definition handleEntryUpdate :: "oco_env \<Rightarrow> OCOGroup \<Rightarrow> Order \<Rightarrow> string \<Rightarrow> oco_state \<Rightarrow> oco_state" where
  "handleEntryUpdate env g ord status m =
     (if executed_status status
      then if cPartialFillActive g
           then ospawn (OTModifyLegs (cGroupID g) (cQuantity g))
                  (setc ((clear_partial g)\<lparr>cFilledQty := cQuantity g\<rparr>) (stop_timer g m))
           else if cState g \<noteq> StatePendingEntry then m
           else let fillPrice = event_fill_price ord
                in if fillPrice \<le> 0 then setc (g\<lparr>cState := StateFailed\<rparr>) m
                   else ospawn (OTPlaceLegs (cGroupID g) False)
                          (setc (g\<lparr>cFilledQty := cQuantity g, cEntryFillPrice := fillPrice,
                                    cHighestPrice := fillPrice, cState := StatePlacingLegs\<rparr>) m)
      else if partial_status status
      then let filledQty = oFilledQuantity ord
           in if filledQty \<le> 0 then m
              else if cState g = StatePendingEntry \<and> \<not> cPartialFillActive g
              then let fillPrice = event_fill_price ord
                   in if fillPrice \<le> 0 then m
                      else ospawn (OTPlaceLegs (cGroupID g) True)
                             (setc (g\<lparr>cFilledQty := filledQty, cPartialFillActive := True,
                                       cEntryFillPrice := fillPrice, cHighestPrice := fillPrice,
                                       cState := StatePlacingLegs\<rparr>) m)
              else if cPartialFillActive g
              then ospawn (OTModifyLegs (cGroupID g) filledQty) (setc (g\<lparr>cFilledQty := filledQty\<rparr>) m)
              else m
      else if status \<in> {''REJECTED'', ''A.REJECTED'', ''CANCELLED''}
      then if cPartialFillActive g then setc (clear_partial g) (stop_timer g m)
           else broadcast env (cUserID g) ''oco_entry_rejected'' (Some ord)
                  (scheduleCleanup (cGroupID g) (setc (g\<lparr>cState := StateFailed\<rparr>) m))
      else m)"

section \<open>Events of the legs\<close>

definition leg_live :: "OCOGroup \<Rightarrow> bool" where
  "leg_live g \<longleftrightarrow> cState g = StateActive \<or> cState g = StateLegsSubmitted"

definition leg_pnl :: "OCOGroup \<Rightarrow> Order \<Rightarrow> float64" where
  "leg_pnl g ord =
     (let pnlQty = (if 0 < cFilledQty g then cFilledQty g else cQuantity g)
      in case oFilledPrice ord of None \<Rightarrow> cPnL g
         | Some p \<Rightarrow> if cOrderSide g = ''BUY'' then fmul (fsub p (cEntryFillPrice g)) (f_of_int pnlQty)
                     else fmul (fsub (cEntryFillPrice g) p) (f_of_int pnlQty))"

definition handleSLLegUpdate :: "oco_env \<Rightarrow> OCOGroup \<Rightarrow> Order \<Rightarrow> string \<Rightarrow> oco_state \<Rightarrow> oco_state" where
  "handleSLLegUpdate env g ord status m =
     (let gid = cGroupID g in
      if pending_status status
      then if cSLLegConfirmed g then m else checkLegsConfirmed env (g\<lparr>cSLLegConfirmed := True\<rparr>) m
      else if executed_status status
      then if \<not> leg_live g then m
           else let g1 = g\<lparr>cState := StateSLTriggered, cPnL := leg_pnl g ord\<rparr>
                in if cTPBrokerID g \<noteq> []
                   then ospawn (OTCancelLeg gid (cTPBrokerID g) ''TP'' ''SL leg executed (OCO)'') (setc g1 m)
                   else broadcast env (cUserID g) ''oco_completed'' None (setc (g1\<lparr>cState := StateCompleted\<rparr>) m)
      else if status \<in> {''REJECTED'', ''A.REJECTED''}
      then scheduleCleanup gid (ospawn (OTCancelLeg gid (cTPBrokerID g) ''TP'' ''SL leg rejected (OCO cleanup)'')
             (setc (g\<lparr>cState := StateFailed\<rparr>) m))
      else if partial_status status
      then if \<not> leg_live g then m
           else ospawn (OTCancelLeg gid (cTPBrokerID g) ''TP'' ''SL leg partially filled (OCO)'')
                  (setc (g\<lparr>cState := StateSLTriggered\<rparr>) m)
      else if status = ''CANCELLED'' \<and> leg_live g
      then scheduleCleanup gid (ospawn (OTCancelLeg gid (cTPBrokerID g) ''TP'' ''SL leg cancelled externally (OCO)'')
             (setc (g\<lparr>cState := StateCancelled\<rparr>) m))
      else m)"

definition handleTPLegUpdate :: "oco_env \<Rightarrow> OCOGroup \<Rightarrow> Order \<Rightarrow> string \<Rightarrow> oco_state \<Rightarrow> oco_state" where
  "handleTPLegUpdate env g ord status m =
     (let gid = cGroupID g in
      if pending_status status
      then if cTPLegConfirmed g then m else checkLegsConfirmed env (g\<lparr>cTPLegConfirmed := True\<rparr>) m
      else if executed_status status
      then if \<not> leg_live g then m
           else let g1 = g\<lparr>cState := StateTPTriggered, cPnL := leg_pnl g ord\<rparr>
                in if cSLBrokerID g \<noteq> []
                   then ospawn (OTCancelLeg gid (cSLBrokerID g) ''SL'' ''TP leg executed (OCO)'') (setc g1 m)
                   else broadcast env (cUserID g) ''oco_completed'' None (setc (g1\<lparr>cState := StateCompleted\<rparr>) m)
      else if status \<in> {''REJECTED'', ''A.REJECTED''}
      then broadcast env (cUserID g) ''oco_tp_rejected'' (Some ord) m
      else if partial_status status
      then if \<not> leg_live g then m
           else ospawn (OTCancelLeg gid (cSLBrokerID g) ''SL'' ''TP leg partially filled (OCO)'')
                  (setc (g\<lparr>cState := StateTPTriggered\<rparr>) m)
      else if status = ''CANCELLED'' \<and> leg_live g
      then scheduleCleanup gid (ospawn (OTCancelLeg gid (cSLBrokerID g) ''SL'' ''TP leg cancelled externally (OCO)'')
             (setc (g\<lparr>cState := StateCancelled\<rparr>) m))
      else m)"

text \<open>
  \<open>HandleBrokerUpdate\<close> on an order without its raw status; the model's orders always exist.
\<close>

definition route_update :: "oco_env \<Rightarrow> OCOGroup \<Rightarrow> string \<Rightarrow> Order \<Rightarrow> string \<Rightarrow> oco_state \<Rightarrow> oco_state" where
  "route_update env g brokerID ord status m =
     (if brokerID = cEntryBrokerID g then handleEntryUpdate env g ord status m
      else if brokerID = cSLBrokerID g then handleSLLegUpdate env g ord status m
      else if brokerID = cTPBrokerID g then handleTPLegUpdate env g ord status m
      else if oOCORole ord = Some RoleSLLeg
      then if cSLBrokerID g = []
           then let g1 = g\<lparr>cSLBrokerID := brokerID\<rparr>
                in handleSLLegUpdate env g1 ord status (index_broker brokerID (cGroupID g) (setc g1 m))
           else handleSLLegUpdate env g ord status m
      else if oOCORole ord = Some RoleTPLeg
      then if cTPBrokerID g = []
           then let g1 = g\<lparr>cTPBrokerID := brokerID\<rparr>
                in handleTPLegUpdate env g1 ord status (index_broker brokerID (cGroupID g) (setc g1 m))
           else handleTPLegUpdate env g ord status m
      else m)"

definition HandleOCOUpdate :: "oco_env \<Rightarrow> Order \<Rightarrow> string \<Rightarrow> oco_state \<Rightarrow> oco_state" where
  "HandleOCOUpdate env ord brokerStatus m =
     (case oIndiraOrderID ord of None \<Rightarrow> m | Some brokerID \<Rightarrow>
      let found = (case brokerIndex m brokerID of Some gid \<Rightarrow> Some gid | None \<Rightarrow> oOCOGroupID ord)
      in case found of None \<Rightarrow> m | Some gid \<Rightarrow>
         if gid \<notin> set (ogroups m) then m
         else on_oco gid (\<lambda>g. if IsTerminal (cState g) then m
                else route_update env g brokerID ord (to_upper (trim_space brokerStatus)) m) m)"

section \<open>Partial fills\<close>

definition arm_timer :: "uuid \<Rightarrow> oco_state \<Rightarrow> oco_state" where
  "arm_timer gid m = on_oco gid (\<lambda>g.
     if cState g \<noteq> StateFailed \<and> cPartialFillActive g \<and> \<not> cPartialFillTimerStarted g
     then ospawn (OTStartTimer gid) (setc (g\<lparr>cPartialFillTimerStarted := True\<rparr>) m) else m) m"

definition startPartialFillTimer :: "uuid \<Rightarrow> oco_state \<Rightarrow> oco_state" where
  "startPartialFillTimer gid m = on_oco gid (\<lambda>g.
     ospawn (OTTimer gid (onext m)) (setc (g\<lparr>cPartialFillCancelFunc := Some (onext m)\<rparr>) (next_id m))) m"

text \<open>Errors that say the order is gone already end a cancellation loop.\<close>

definition cancel_done :: "string \<Rightarrow> bool" where
  "cancel_done e \<longleftrightarrow> contains (to_lower e) ''already'' \<or> contains (to_lower e) ''traded'' \<or>
     contains (to_lower e) ''executed''"

fun cancel_attempts :: "oco_env \<Rightarrow> nat \<Rightarrow> OCOGroup \<Rightarrow> string \<Rightarrow> oco_state \<Rightarrow> oco_state" where
  "cancel_attempts env 0 g b m = m"
| "cancel_attempts env (Suc n) g b m =
     (case cancel_order_at env g b m of
        (m1, None) \<Rightarrow> m1
      | (m1, Some e) \<Rightarrow> if cancel_done e then m1 else cancel_attempts env n g b m1)"

definition cancelEntryRemaining :: "oco_env \<Rightarrow> OCOGroup \<Rightarrow> oco_state \<Rightarrow> oco_state" where
  "cancelEntryRemaining env g m =
     (if cEntryBrokerID g = [] then m else cancel_attempts env 3 g (cEntryBrokerID g) m)"

definition timer_expired :: "oco_env \<Rightarrow> uuid \<Rightarrow> oco_state \<Rightarrow> oco_state" where
  "timer_expired env gid m = on_oco gid (\<lambda>g.
     if \<not> cPartialFillActive g then m
     else let g1 = clear_partial g
          in broadcast env (cUserID g) ''oco_partial_fill_timeout'' None
               (cancelEntryRemaining env g1 (setc g1 m))) m"

definition leg_change :: "OCOGroup \<Rightarrow> uuid \<Rightarrow> string \<Rightarrow> string \<Rightarrow> int \<Rightarrow> float64 \<Rightarrow> float64 option \<Rightarrow> Order" where
  "leg_change g orderID brokerID orderType qty price triggerPrice = zero_order\<lparr>
     oOrderID := orderID, oIndiraOrderID := Some brokerID, oStockCode := cStockCode g, oExchange := cExchange g,
     oSymbol := cSymbol g, oOrderType := orderType, oOrderSide := ocoExitSide g, oQuantity := qty,
     oPrice := Some price, oStopLoss := triggerPrice, oValidity := cValidity g, oProductType := cProductType g\<rparr>"

definition modify_leg :: "oco_env \<Rightarrow> OCOGroup \<Rightarrow> string \<Rightarrow> Order \<Rightarrow> oco_state \<Rightarrow> oco_state" where
  "modify_leg env g brokerID ord m =
     (if brokerID = [] then m
      else case modify_order_at env ord (cAuth g) m of
             (m1, Some _) \<Rightarrow> m1 | (m1, None) \<Rightarrow> dbUpdateAsync ord m1)"

definition modifyLegsQty :: "oco_env \<Rightarrow> uuid \<Rightarrow> int \<Rightarrow> oco_state \<Rightarrow> oco_state" where
  "modifyLegsQty env gid newQty m = on_oco gid (\<lambda>g.
     let slOrder = leg_change g (cSLOrderID g) (cSLBrokerID g) OrderTypeStopLoss newQty (cSLLimitPrice g)
                     (Some (cSLTriggerPrice g));
         tpOrder = leg_change g (cTPOrderID g) (cTPBrokerID g) OrderTypeLimit newQty (cTPLimitPrice g) None
     in ospawn (OTModifyLegsEnd gid newQty)
          (modify_leg env g (cTPBrokerID g) tpOrder (modify_leg env g (cSLBrokerID g) slOrder m))) m"

definition modify_legs_end :: "uuid \<Rightarrow> int \<Rightarrow> oco_state \<Rightarrow> oco_state" where
  "modify_legs_end gid newQty m = on_oco gid (\<lambda>g. setc (g\<lparr>cFilledQty := newQty\<rparr>) m) m"

section \<open>Cancellation and cleanup\<close>

text \<open>\<open>cancelLeg\<close>: the broker calls, then the write of the state, which takes no lock.\<close>

definition cancelLeg :: "oco_env \<Rightarrow> uuid \<Rightarrow> string \<Rightarrow> oco_state \<Rightarrow> oco_state" where
  "cancelLeg env gid brokerID m = on_oco gid (\<lambda>g.
     if brokerID = [] then m
     else ospawn (OTCancelDone gid) (cancel_attempts env 3 g brokerID m)) m"

definition cancel_leg_end :: "oco_env \<Rightarrow> uuid \<Rightarrow> oco_state \<Rightarrow> oco_state" where
  "cancel_leg_end env gid m = on_oco gid (\<lambda>g.
     broadcast env (cUserID g) ''oco_completed'' None (setc (g\<lparr>cState := StateCompleted\<rparr>) m)) m"

definition unindex :: "string \<Rightarrow> oco_state \<Rightarrow> oco_state" where
  "unindex b m = (if b \<noteq> [] then m\<lparr>brokerIndex := (brokerIndex m)(b := None)\<rparr> else m)"

definition cleanup :: "uuid \<Rightarrow> oco_state \<Rightarrow> oco_state" where
  "cleanup gid m = on_oco gid (\<lambda>g.
     unindex (cTPBrokerID g) (unindex (cSLBrokerID g) (unindex (cEntryBrokerID g)
       (m\<lparr>ogroups := remove1 gid (ogroups m)\<rparr>)))) m"

text \<open>\<open>CancelGroup\<close> answers an error text or nothing.\<close>

definition CancelOCOGroup :: "uuid \<Rightarrow> oco_state \<Rightarrow> oco_state \<times> string option" where
  "CancelOCOGroup gid m =
     (if gid \<notin> set (ogroups m) then (m, Some ''not found'')
      else case oheap m gid of None \<Rightarrow> (m, Some ''not found'') | Some g \<Rightarrow>
        if IsTerminal (cState g) then (m, Some ''already in terminal state'')
        else let m1 = (if cState g = StatePendingEntry \<and> cEntryBrokerID g \<noteq> []
                       then ospawn (OTCancelLeg gid (cEntryBrokerID g) ''ENTRY'' ''User cancelled OCO'') m else m);
                 m2 = (if leg_live g \<and> cSLBrokerID g \<noteq> []
                       then ospawn (OTCancelLeg gid (cSLBrokerID g) ''SL'' ''User cancelled OCO'') m1 else m1);
                 m3 = (if leg_live g \<and> cTPBrokerID g \<noteq> []
                       then ospawn (OTCancelLeg gid (cTPBrokerID g) ''TP'' ''User cancelled OCO'') m2 else m2)
             in (scheduleCleanup gid (setc (g\<lparr>cState := StateCancelled\<rparr>) m3), None))"

text \<open>The lookups over the registry; \<open>sync.Map.Range\<close> visits it in some order.\<close>

definition select_groups :: "(OCOGroup \<Rightarrow> bool) \<Rightarrow> oco_state \<Rightarrow> uuid list" where
  "select_groups P m = filter (\<lambda>gid. case oheap m gid of None \<Rightarrow> False | Some g \<Rightarrow> P g) (ogroups m)"

definition GetActiveGroups :: "oco_state \<Rightarrow> uuid list" where
  "GetActiveGroups m = select_groups (\<lambda>g. cState g = StateActive) m"

definition GetGroupsByUser :: "string \<Rightarrow> oco_state \<Rightarrow> uuid list" where
  "GetGroupsByUser userID m = select_groups (\<lambda>g. cUserID g = userID \<and> \<not> IsTerminal (cState g)) m"

definition GetGroup :: "uuid \<Rightarrow> oco_state \<Rightarrow> OCOGroup option" where
  "GetGroup gid m = (if gid \<in> set (ogroups m) then oheap m gid else None)"

definition ActiveCount :: "oco_state \<Rightarrow> nat" where
  "ActiveCount m = length (select_groups (\<lambda>g. \<not> IsTerminal (cState g)) m)"

definition cancel_each :: "uuid list \<Rightarrow> oco_state \<Rightarrow> oco_state" where
  "cancel_each gids m = foldl (\<lambda>m gid. fst (CancelOCOGroup gid m)) m gids"

definition CancelAllGroupsByUser :: "string \<Rightarrow> oco_state \<Rightarrow> oco_state" where
  "CancelAllGroupsByUser userID m = cancel_each (GetGroupsByUser userID m) m"

definition CancelOCOGroupsByStrategy :: "string \<Rightarrow> string \<Rightarrow> oco_state \<Rightarrow> oco_state" where
  "CancelOCOGroupsByStrategy userID strategyID m = cancel_each
     (select_groups (\<lambda>g. cUserID g = userID \<and> cStrategyID g = strategyID \<and> \<not> IsTerminal (cState g)) m) m"

definition CancelOCOGroupsBySymbol :: "string \<Rightarrow> string \<Rightarrow> oco_state \<Rightarrow> oco_state" where
  "CancelOCOGroupsBySymbol userID symbol m = cancel_each
     (select_groups (\<lambda>g. cUserID g = userID \<and> cSymbol g = symbol \<and> \<not> IsTerminal (cState g)) m) m"

definition IsKnownOCOBrokerID :: "string \<Rightarrow> oco_state \<Rightarrow> bool" where
  "IsKnownOCOBrokerID b m \<longleftrightarrow> brokerIndex m b \<noteq> None"

section \<open>Modification of the stop\<close>

text \<open>\<open>ModifySLLeg\<close> answers an error text or nothing.\<close>

definition ModifySLLeg :: "oco_env \<Rightarrow> uuid \<Rightarrow> float64 \<Rightarrow> float64 \<Rightarrow> float64 \<Rightarrow> oco_state \<Rightarrow> oco_state \<times> string option" where
  "ModifySLLeg env gid newTrigger newLimit newHighestPrice m =
     (case oheap m gid of None \<Rightarrow> (m, Some ''group missing'') | Some g \<Rightarrow>
      if cState g \<noteq> StateActive \<or> cSLBrokerID g = [] then (m, Some ''not in ACTIVE state or SL broker ID missing'')
      else let legQty = (if 0 < cFilledQty g then cFilledQty g else cQuantity g);
               slOrder = leg_change g (cSLOrderID g) (cSLBrokerID g) OrderTypeStopLoss legQty newLimit (Some newTrigger);
               (m1, err1) = modify_order_at env slOrder (cAuth g) m;
               (m2, g2, err2) =
                 (if isSessionExpiredError err1 \<and> xCreds env \<noteq> None
                  then case refreshAuth env (cUserID g) (cAuth g) m1 of
                         (m', None) \<Rightarrow> (m', g, err1)
                       | (m', Some a) \<Rightarrow>
                           (let g' = g\<lparr>cAuth := Some a\<rparr>; (m'', e) = modify_order_at env slOrder (Some a) (setc g' m')
                            in (m'', g', e))
                  else (m1, g, err1))
           in case err2 of Some e \<Rightarrow> (m2, Some (''modify SL leg failed: '' @ e))
              | None \<Rightarrow>
                  let g3 = g2\<lparr>cSLTriggerPrice := newTrigger, cSLLimitPrice := newLimit,
                              cHighestPrice := (if 0 < newHighestPrice then newHighestPrice else cHighestPrice g2)\<rparr>
                  in (fst (db_update env slOrder (setc g3 m2)), None))"

section \<open>Restart recovery\<close>

definition isConfirmedOnExchange :: "string \<Rightarrow> bool" where
  "isConfirmedOnExchange s \<longleftrightarrow> to_upper s \<in> {''PENDING'', ''OPEN'', ''TRIGGER PENDING'', ''TRIGGER_PENDING'',
     ''AFTER MARKET ORDER REQ RECEIVED'', ''PARTIALLY_FILLED'', ''PARTIALLY TRADED''}"

text \<open>The status of the last row with a role, or the empty string.\<close>

definition role_status :: "Order list \<Rightarrow> string \<Rightarrow> string" where
  "role_status orders role =
     foldl (\<lambda>s ord. if oOCORole ord = Some role then oStatus ord else s) [] orders"

definition inferState :: "Order list \<Rightarrow> OCOState" where
  "inferState orders =
     (let entryStatus = role_status orders RoleEntry; slStatus = role_status orders RoleSLLeg;
          tpStatus = role_status orders RoleTPLeg
      in if \<not> IsFilledStatus entryStatus \<and> \<not> IsTerminalStatus entryStatus \<and> \<not> IsPartiallyFilledStatus entryStatus
         then StatePendingEntry
         else if IsTerminalStatus entryStatus \<and> \<not> IsFilledStatus entryStatus \<and> \<not> IsPartiallyFilledStatus entryStatus
         then StateFailed
         else if slStatus = [] \<and> tpStatus = [] then StatePlacingLegs
         else if IsFilledStatus slStatus then StateCompleted
         else if IsFilledStatus tpStatus then StateCompleted
         else if isConfirmedOnExchange slStatus \<and> (isConfirmedOnExchange tpStatus \<or> tpStatus = []) then StateActive
         else StateLegsSubmitted)"

definition orelse :: "'a option \<Rightarrow> 'a \<Rightarrow> 'a" where
  "orelse x d = (case x of None \<Rightarrow> d | Some y \<Rightarrow> y)"

definition restore_entry :: "OCOGroup \<Rightarrow> Order \<Rightarrow> OCOGroup" where
  "restore_entry g ord =
     (let price = (case oPrice ord of Some p \<Rightarrow> if 0 < p then Some p else oFilledPrice ord | None \<Rightarrow> oFilledPrice ord)
      in g\<lparr> cUserID := oUserID ord, cEntryOrderID := oOrderID ord, cSymbol := oSymbol ord,
            cExchange := oExchange ord, cStockCode := oStockCode ord, cQuantity := oQuantity ord,
            cOrderSide := oOrderSide ord,
            cFilledQty := (if 0 < oFilledQuantity ord then oFilledQuantity ord else cFilledQty g),
            cProductType := oProductType ord, cValidity := oValidity ord, cStrategyID := oStrategyID ord,
            cStrategyName := oStrategyName ord, cEventID := oEventID ord,
            cEntryBrokerID := orelse (oIndiraOrderID ord) (cEntryBrokerID g),
            cEntryFillPrice := orelse price (cEntryFillPrice g),
            cSLPercent := orelse (oStopLoss ord) (cSLPercent g),
            cTPPercent := orelse (oTakeProfit ord) (cTPPercent g),
            cTrailingSL := (oStopLossType ord = Some ''TRAILING'' \<or> cTrailingSL g),
            cTrailingSLPct := orelse (oTrailingSLPct ord) (cTrailingSLPct g),
            cHighestPrice := orelse (oHighestPrice ord) (orelse price (cHighestPrice g)),
            cAuth := (case (oBearerToken ord, oAppId ord, oSource ord) of
                        (Some t, Some a, Some s) \<Rightarrow> Some \<lparr> auUserId = oUserID ord, auBearerToken = t, auAppId = a, auSource = s \<rparr>
                      | _ \<Rightarrow> cAuth g) \<rparr>)"

definition restore_order :: "OCOGroup \<Rightarrow> Order \<Rightarrow> OCOGroup" where
  "restore_order g ord =
     (if oOCORole ord = Some RoleEntry then restore_entry g ord
      else if oOCORole ord = Some RoleSLLeg
      then g\<lparr> cSLOrderID := oOrderID ord, cSLBrokerID := orelse (oIndiraOrderID ord) (cSLBrokerID g),
              cSLTriggerPrice := orelse (oStopLoss ord) (cSLTriggerPrice g),
              cSLLimitPrice := orelse (oPrice ord) (cSLLimitPrice g) \<rparr>
      else if oOCORole ord = Some RoleTPLeg
      then g\<lparr> cTPOrderID := oOrderID ord, cTPBrokerID := orelse (oIndiraOrderID ord) (cTPBrokerID g),
              cTPLimitPrice := orelse (oPrice ord) (cTPLimitPrice g) \<rparr>
      else g)"

definition reconstructGroup :: "uuid \<Rightarrow> Order list \<Rightarrow> OCOGroup option" where
  "reconstructGroup groupID orders =
     (let g = foldl restore_order (zero_oco\<lparr>cGroupID := groupID\<rparr>) orders; g1 = g\<lparr>cState := inferState orders\<rparr>
      in if IsTerminal (cState g1) then None
         else Some (if 0 < cFilledQty g1 \<and> cFilledQty g1 < cQuantity g1 \<and> cSLBrokerID g1 \<noteq> []
                    then g1\<lparr>cPartialFillActive := True\<rparr> else g1))"

definition reload_group :: "Order list \<Rightarrow> oco_state \<Rightarrow> uuid \<Rightarrow> oco_state" where
  "reload_group orders m groupID =
     (case reconstructGroup groupID (filter (\<lambda>ord. oOCOGroupID ord = Some groupID) orders) of None \<Rightarrow> m
      | Some g \<Rightarrow>
          let m1 = index_if (cTPBrokerID g) groupID (index_if (cSLBrokerID g) groupID
                     (index_if (cEntryBrokerID g) groupID (register g m)))
          in if cPartialFillActive g
             then startPartialFillTimer groupID (setc (g\<lparr>cPartialFillTimerStarted := True\<rparr>) m1) else m1)"

text \<open>The groups in the order of their first row; the source ranges over a Go map.\<close>

definition group_ids :: "Order list \<Rightarrow> uuid list" where
  "group_ids orders = remdups (map the (filter (\<lambda>i. i \<noteq> None) (map oOCOGroupID orders)))"

definition ReloadOCO :: "Order list option \<Rightarrow> oco_state \<Rightarrow> oco_state \<times> string option" where
  "ReloadOCO query m =
     (case query of None \<Rightarrow> (m, Some ''failed to load active OCO orders'')
      | Some orders \<Rightarrow> (foldl (reload_group orders) m (group_ids orders), None))"

section \<open>Adoption\<close>

text \<open>
  \<open>AdoptOrder\<close>; the tags it writes into the caller's order are the first component of the
  result.
\<close>

definition AdoptOrder ::
  "Order \<Rightarrow> float64 \<Rightarrow> float64 \<Rightarrow> bool \<Rightarrow> float64 \<Rightarrow> AuthContext option \<Rightarrow> oco_state \<Rightarrow> Order \<times> oco_state" where
  "AdoptOrder ord slPercent tpPercent trailingSL trailingSLPct auth m =
     (case oIndiraOrderID ord of None \<Rightarrow> (ord, m) | Some brokerID \<Rightarrow>
      if brokerID = [] then (ord, m)
      else let groupID = onext m;
               g = (entry_group groupID (oOrderID ord) (oUserID ord) (oStrategyID ord) (oEventID ord)
                      (oStockCode ord) (oExchange ord) (oSymbol ord) (oOrderSide ord) (oQuantity ord)
                      slPercent tpPercent trailingSL trailingSLPct auth)\<lparr>cEntryBrokerID := brokerID\<rparr>;
               ord' = ord\<lparr>oOCOGroupID := Some groupID, oOCORole := Some RoleEntry,
                          oStopLossType := Some (if trailingSL then ''TRAILING'' else ''FIXED''),
                          oTrailingSLPct := (if 0 < trailingSLPct then Some trailingSLPct else oTrailingSLPct ord)\<rparr>
           in (ord', index_broker brokerID groupID (register g
                 (ospawn (OTTag (oOrderID ord) groupID RoleEntry) (next_id m)))))"

section \<open>Goroutines and steps\<close>

fun run_otask :: "oco_env \<Rightarrow> otask \<Rightarrow> oco_state \<Rightarrow> oco_state" where
  "run_otask env (OTPlaceLegs gid partial) m = placeOCOLegs env gid partial m"
| "run_otask env (OTFinishLegs gid slOrder tpOrder slRes tpRes partial) m =
     (let m1 = finish_legs env gid slOrder slRes tpRes m in if partial then ospawn (OTArmTimer gid) m1 else m1)"
| "run_otask env (OTArmTimer gid) m = arm_timer gid m"
| "run_otask env (OTStartTimer gid) m = startPartialFillTimer gid m"
| "run_otask env (OTTimer gid k) m = timer_expired env gid m"
| "run_otask env (OTModifyLegs gid q) m = modifyLegsQty env gid q m"
| "run_otask env (OTModifyLegsEnd gid q) m = modify_legs_end gid q m"
| "run_otask env (OTCancelLeg gid b leg reason) m = cancelLeg env gid b m"
| "run_otask env (OTCancelDone gid) m = cancel_leg_end env gid m"
| "run_otask env (OTCleanup gid) m = cleanup gid m"
| "run_otask env (OTDbUpdate ord) m = db_update_attempts env dbRetryAttempts ord m"
| "run_otask env (OTTag oid gid role) m = oemit (OTag oid gid role) m"

definition oschedule :: "oco_env \<Rightarrow> nat \<Rightarrow> oco_state \<Rightarrow> oco_state" where
  "oschedule env i m =
     (if i < length (otasks m)
      then run_otask env (otasks m ! i) (m\<lparr>otasks := take i (otasks m) @ drop (Suc i) (otasks m)\<rparr>) else m)"

end
