(* ===== verification/OcoTrailing.thy ===== *)
theory OcoTrailing
  imports OcoEvents "HOL-Library.Word"
begin

text \<open>
  The price feed and the trailing-stop monitor of the one-cancels-the-other manager
  (\<open>oco/trailing.go\<close>): decoding of a binary market-data frame, the price cache and the
  subscriptions of the feed client, the index of watched groups, and the adjustment of a
  stop on a new price. The connection loops are not modelled; the JSON library is the
  parameter \<open>parse\<close>. Prices are finite: a frame with an infinite price is set apart.
\<close>

section \<open>Frames\<close>

type_synonym byte = "8 word"

definition wsMsgMarketData :: byte where "wsMsgMarketData = 1"
definition wsMsgWelcome :: byte where "wsMsgWelcome = 2"
definition wsMsgSubscription :: byte where "wsMsgSubscription = 3"
definition wsMsgPing :: byte where "wsMsgPing = 4"
definition wsMsgPong :: byte where "wsMsgPong = 5"
definition wsMsgError :: byte where "wsMsgError = 6"
definition wsMsgMarketStatus :: byte where "wsMsgMarketStatus = 8"
definition wsMsgSubscriptionAck :: byte where "wsMsgSubscriptionAck = 10"

definition bytes_string :: "byte list \<Rightarrow> string" where
  "bytes_string bs = map (\<lambda>b. char_of (unat b)) bs"

definition le_uint32 :: "byte list \<Rightarrow> nat" where
  "le_uint32 bs = foldr (\<lambda>b n. unat b + 256 * n) bs 0"

text \<open>A 32-bit float: its exact value, or one of the values outside the model.\<close>

datatype f32 = F32 float64 | F32Inf | F32NegInf | F32NaN

definition Float32frombits :: "nat \<Rightarrow> f32" where
  "Float32frombits n =
     (let neg = (2 ^ 31 \<le> n); e = (n div 2 ^ 23) mod 256; f = n mod 2 ^ 23; s = (if neg then - 1 else 1 :: rat)
      in if e = 255 then (if f \<noteq> 0 then F32NaN else if neg then F32NegInf else F32Inf)
         else if e = 0 then F32 (s * of_nat f * 2 powi - 149)
         else F32 (s * of_nat (2 ^ 23 + f) * 2 powi (int e - 150)))"

text \<open>\<open>TickNone\<close> is \<open>ok = false\<close>.\<close>

datatype tick = TickNone | Tick string string float64 | TickInf string string

text \<open>A length-prefixed field at an offset: its text and the offset after it.\<close>

definition read_field :: "byte list \<Rightarrow> nat \<Rightarrow> (string \<times> nat) option" where
  "read_field data offset =
     (if length data \<le> offset then None
      else let len = unat (data ! offset); start = Suc offset
           in if length data < start + len then None
              else Some (bytes_string (take len (drop start data)), start + len))"

definition decodeBinaryTick :: "byte list \<Rightarrow> tick" where
  "decodeBinaryTick data =
     (if length data < 10 \<or> data ! 0 \<noteq> wsMsgMarketData then TickNone
      else case read_field data 9 of None \<Rightarrow> TickNone
      | Some (token, o1) \<Rightarrow>
          (case read_field data o1 of None \<Rightarrow> TickNone
           | Some (symbol, o2) \<Rightarrow>
               let offset = Suc o2
               in if length data < offset + 4 then TickNone
                  else case Float32frombits (le_uint32 (take 4 (drop offset data))) of
                         F32 ltp \<Rightarrow> if 0 < ltp then Tick token symbol ltp else TickNone
                       | F32Inf \<Rightarrow> TickInf token symbol
                       | _ \<Rightarrow> TickNone))"

section \<open>The feed client\<close>

datatype json = JNull | JBool bool | JNum float64 | JStr string | JArr "json list" | JObj "(string \<times> json) list"

record market_client =
  subscribed :: "string list"
  connected :: bool
  ltpCache :: "string \<Rightarrow> float64 option"
  healthy :: bool
  sent :: "string list list"

definition NewOCOMarketClient :: market_client where
  "NewOCOMarketClient = \<lparr> subscribed = [], connected = False, ltpCache = Map.empty, healthy = False, sent = [] \<rparr>"

definition GetLTP :: "market_client \<Rightarrow> string \<Rightarrow> float64 option" where
  "GetLTP c symbol = (case ltpCache c symbol of None \<Rightarrow> None | Some ltp \<Rightarrow> if 0 < ltp then Some ltp else None)"

definition sendSubscribe :: "string list \<Rightarrow> market_client \<Rightarrow> market_client" where
  "sendSubscribe tokens c = c\<lparr>sent := sent c @ [tokens]\<rparr>"

fun new_tokens :: "string list \<Rightarrow> string list \<Rightarrow> string list" where
  "new_tokens known [] = []"
| "new_tokens known (t # ts) =
     (if t \<noteq> [] \<and> t \<notin> set known then t # new_tokens (known @ [t]) ts else new_tokens known ts)"

definition SubscribeTokens :: "string list \<Rightarrow> market_client \<Rightarrow> market_client" where
  "SubscribeTokens tokens c =
     (let news = new_tokens (subscribed c) tokens; c1 = c\<lparr>subscribed := subscribed c @ news\<rparr>
      in if news = [] then c else if \<not> connected c then c1 else sendSubscribe news c1)"

definition UnsubscribeTokens :: "string list \<Rightarrow> market_client \<Rightarrow> market_client" where
  "UnsubscribeTokens tokens c = c\<lparr>subscribed := filter (\<lambda>t. t \<notin> set tokens) (subscribed c)\<rparr>"

text \<open>The state changes of \<open>connect\<close>: after a successful dial, and when the connection ends.\<close>

definition on_connected :: "market_client \<Rightarrow> market_client" where
  "on_connected c =
     (let c1 = c\<lparr>connected := True, healthy := True\<rparr>
      in if subscribed c = [] then c1 else sendSubscribe (subscribed c) c1)"

definition on_disconnected :: "market_client \<Rightarrow> market_client" where
  "on_disconnected c = c\<lparr>connected := False, healthy := False\<rparr>"

fun extractString :: "(string \<times> json) list \<Rightarrow> string list \<Rightarrow> string" where
  "extractString obj [] = []"
| "extractString obj (k # ks) =
     (case map_of obj k of Some (JStr v) \<Rightarrow> if v \<noteq> [] then v else extractString obj ks
      | _ \<Rightarrow> extractString obj ks)"

fun extractFloat :: "(string \<times> json) list \<Rightarrow> string list \<Rightarrow> float64" where
  "extractFloat obj [] = 0"
| "extractFloat obj (k # ks) = (case map_of obj k of Some (JNum v) \<Rightarrow> v | _ \<Rightarrow> extractFloat obj ks)"

definition cache_ltp :: "string \<Rightarrow> float64 \<Rightarrow> market_client \<Rightarrow> market_client" where
  "cache_ltp key ltp c = c\<lparr>ltpCache := (ltpCache c)(key \<mapsto> ltp)\<rparr>"

text \<open>
  \<open>processMessage\<close>: the client afterwards and the callbacks made, in order. \<open>parse\<close> is
  \<open>json.Unmarshal\<close> into an object.
\<close>

definition processMessage ::
  "(byte list \<Rightarrow> (string \<times> json) list option) \<Rightarrow> byte list \<Rightarrow> market_client
     \<Rightarrow> market_client \<times> (string \<times> float64) list" where
  "processMessage parse msg c =
     (if msg = [] then (c, [])
      else if msg ! 0 = wsMsgMarketData
      then (case decodeBinaryTick msg of
              Tick token symbol ltp \<Rightarrow>
                let keys = (if symbol \<noteq> [] then [symbol] else []) @
                           (if token \<noteq> [] \<and> token \<noteq> symbol then [token] else [])
                in (fold (\<lambda>k. cache_ltp k ltp) keys c, map (\<lambda>k. (k, ltp)) keys)
            | _ \<Rightarrow> (c, []))
      else if msg ! 0 \<in> {wsMsgWelcome, wsMsgPong, wsMsgSubscriptionAck, wsMsgSubscription, wsMsgError,
                         wsMsgPing, wsMsgMarketStatus} then (c, [])
      else case parse msg of None \<Rightarrow> (c, [])
           | Some envelope \<Rightarrow>
               if map_of envelope ''type'' = Some (JStr ''market_data'')
               then let symbol = extractString envelope [''symbol''];
                        ltp = (case map_of envelope ''data'' of
                                 Some (JObj nested) \<Rightarrow> extractFloat nested [''ltp'', ''last_traded_price'']
                               | _ \<Rightarrow> 0)
                    in if symbol \<noteq> [] \<and> 0 < ltp then (cache_ltp symbol ltp c, [(symbol, ltp)]) else (c, [])
               else (c, []))"

section \<open>The monitor\<close>

text \<open>\<open>fmt.Sprintf("%d", n)\<close>.\<close>

fun digits :: "nat \<Rightarrow> string" where
  "digits n = (if n < 10 then [char_of (48 + n)] else digits (n div 10) @ [char_of (48 + n mod 10)])"

declare digits.simps [simp del]

definition format_int :: "int \<Rightarrow> string" where
  "format_int n = (if n < 0 then CHR ''-'' # digits (nat (- n)) else digits (nat n))"

fun add_watch :: "string \<Rightarrow> uuid \<Rightarrow> (string \<times> uuid list) list \<Rightarrow> (string \<times> uuid list) list" where
  "add_watch k gid [] = [(k, [gid])]"
| "add_watch k gid ((k', gs) # rest) =
     (if k = k' then (k, gs @ [gid]) # rest else (k', gs) # add_watch k gid rest)"

text \<open>The index \<open>symbolGroups\<close> with the tokens subscribed on the way.\<close>

definition watch_group ::
  "oco_state \<Rightarrow> (string \<times> uuid list) list \<times> market_client option \<Rightarrow> uuid
     \<Rightarrow> (string \<times> uuid list) list \<times> market_client option" where
  "watch_group m = (\<lambda>(idx, client) gid. case oheap m gid of None \<Rightarrow> (idx, client) | Some g \<Rightarrow>
     if \<not> cTrailingSL g then (idx, client)
     else let token = format_int (cStockCode g);
              idx1 = add_watch (cSymbol g) gid idx;
              idx2 = (if token \<noteq> cSymbol g then add_watch token gid idx1 else idx1)
          in (idx2, map_option (SubscribeTokens [token]) client))"

definition refreshGroups ::
  "oco_state \<Rightarrow> market_client option \<Rightarrow> (string \<times> uuid list) list \<times> market_client option" where
  "refreshGroups m client = foldl (watch_group m) ([], client) (GetActiveGroups m)"

definition evaluateTrailing :: "oco_env \<Rightarrow> uuid \<Rightarrow> float64 \<Rightarrow> oco_state \<Rightarrow> oco_state" where
  "evaluateTrailing env gid ltp m = on_oco gid (\<lambda>g.
     case CalculateTrailingSL g ltp of None \<Rightarrow> m
     | Some (newTrigger, newLimit) \<Rightarrow> fst (ModifySLLeg env gid newTrigger newLimit ltp m)) m"

definition trail_if_active :: "oco_env \<Rightarrow> float64 \<Rightarrow> oco_state \<Rightarrow> uuid \<Rightarrow> oco_state" where
  "trail_if_active env ltp m gid = on_oco gid (\<lambda>g.
     if cState g \<noteq> StateActive \<or> \<not> cTrailingSL g then m else evaluateTrailing env gid ltp m) m"

definition OnTrailingPrice ::
  "oco_env \<Rightarrow> (string \<times> uuid list) list \<Rightarrow> string \<Rightarrow> float64 \<Rightarrow> oco_state \<Rightarrow> oco_state" where
  "OnTrailingPrice env symbolGroups symbol ltp m =
     (case map_of symbolGroups symbol of None \<Rightarrow> m | Some gids \<Rightarrow> foldl (trail_if_active env ltp) m gids)"

text \<open>
  One group of \<open>pollRedisForMissingSymbols\<close>; \<open>redis\<close> answers \<open>None\<close> on a miss.
\<close>

definition poll_group ::
  "oco_env \<Rightarrow> market_client option \<Rightarrow> (oeffect list \<Rightarrow> string \<Rightarrow> int \<Rightarrow> float64 option) \<Rightarrow> oco_state \<Rightarrow> uuid
     \<Rightarrow> oco_state" where
  "poll_group env client redis m gid = on_oco gid (\<lambda>g.
     if cState g \<noteq> StateActive \<or> \<not> cTrailingSL g then m
     else if (case client of None \<Rightarrow> False | Some c \<Rightarrow> healthy c \<and> GetLTP c (cSymbol g) \<noteq> None) then m
     else case redis (oout m) (to_lower (cExchange g)) (cStockCode g) of None \<Rightarrow> m
          | Some ltp \<Rightarrow> evaluateTrailing env gid ltp m) m"

definition pollRedisForMissingSymbols ::
  "oco_env \<Rightarrow> market_client option \<Rightarrow> (oeffect list \<Rightarrow> string \<Rightarrow> int \<Rightarrow> float64 option) option
     \<Rightarrow> (string \<times> uuid list) list \<Rightarrow> oco_state \<Rightarrow> oco_state" where
  "pollRedisForMissingSymbols env client redis symbolGroups m =
     (case redis of None \<Rightarrow> m
      | Some r \<Rightarrow> foldl (poll_group env client r) m (concat (map snd symbolGroups)))"

section \<open>Steps of the manager and the monitor\<close>

inductive oco_step :: "oco_env \<Rightarrow> oco_state \<Rightarrow> oco_state \<Rightarrow> bool" for env where
  step_create: "\<not> opanic m \<Longrightarrow> oco_step env m (fst (CreateOCOEntry env u sid eid code ex sy side q t sl tp tr trp a m))"
| step_adopt: "\<not> opanic m \<Longrightarrow> oco_step env m (snd (AdoptOrder ord sl tp tr trp a m))"
| step_update: "\<not> opanic m \<Longrightarrow> oco_step env m (HandleOCOUpdate env ord st m)"
| step_otask: "\<not> opanic m \<Longrightarrow> oco_step env m (oschedule env i m)"
| step_cancel_group: "\<not> opanic m \<Longrightarrow> oco_step env m (fst (CancelOCOGroup gid m))"
| step_cancel_user: "\<not> opanic m \<Longrightarrow> oco_step env m (CancelAllGroupsByUser u m)"
| step_cancel_ostrategy: "\<not> opanic m \<Longrightarrow> oco_step env m (CancelOCOGroupsByStrategy u sid m)"
| step_cancel_osymbol: "\<not> opanic m \<Longrightarrow> oco_step env m (CancelOCOGroupsBySymbol u sy m)"
| step_price_tick: "\<not> opanic m \<Longrightarrow> oco_step env m (OnTrailingPrice env idx key ltp m)"
| step_poll: "\<not> opanic m \<Longrightarrow> oco_step env m (pollRedisForMissingSymbols env client redis idx m)"

text \<open>
  The process starts by reloading the groups of the database; identifiers generated later
  are larger than every identifier in its rows.
\<close>

inductive oco_start :: "oco_state \<Rightarrow> bool" where
  "(\<And>ord. ord \<in> set orders \<Longrightarrow> oOrderID ord < n \<and> (\<forall>gid. oOCOGroupID ord = Some gid \<longrightarrow> gid < n))
     \<Longrightarrow> oco_start (fst (ReloadOCO (Some orders) (NewOCOManager n)))"

inductive oco_reachable :: "oco_env \<Rightarrow> oco_state \<Rightarrow> bool" for env where
  oreach_init: "oco_start m \<Longrightarrow> oco_reachable env m"
| oreach_step: "oco_reachable env m \<Longrightarrow> oco_step env m m' \<Longrightarrow> oco_reachable env m'"

end
