(* ===== verification/OcoInv.thy ===== *)
theory OcoInv
  imports OcoTrailing
begin

text \<open>
  The invariant of the one-cancels-the-other manager and the preorder along which every
  step moves every group: its identity and configuration never change, it passes from
  waiting for the entry to the placement of the legs and on, never back, and its entry
  price is fixed when the entry fills. Each operation is shown to preserve both; the last
  section makes the manager an instance of \<open>object_store\<close>.
\<close>

section \<open>Vocabulary\<close>

text \<open>The phases of the life cycle: before the fill, placing the legs, afterwards.\<close>

fun ophase :: "OCOState \<Rightarrow> nat" where
  "ophase StatePendingEntry = 0"
| "ophase StatePlacingLegs = 1"
| "ophase _ = 2"

definition oconfig :: "OCOGroup \<Rightarrow> (uuid \<times> uuid \<times> string \<times> string) \<times> (float64 \<times> float64 \<times> bool \<times> float64)
    \<times> (string \<times> string \<times> int \<times> int \<times> string) \<times> string \<times> string \<times> string \<times> uuid" where
  "oconfig g = ((cGroupID g, cEntryOrderID g, cEntryBrokerID g, cUserID g),
     (cSLPercent g, cTPPercent g, cTrailingSL g, cTrailingSLPct g),
     (cSymbol g, cExchange g, cStockCode g, cQuantity g, cOrderSide g),
     cProductType g, cValidity g, cStrategyID g, cEventID g)"

definition advances :: "OCOGroup \<Rightarrow> OCOGroup \<Rightarrow> bool" where
  "advances g g' \<longleftrightarrow> oconfig g' = oconfig g \<and> ophase (cState g) \<le> ophase (cState g') \<and>
     (0 < ophase (cState g) \<longrightarrow> cEntryFillPrice g' = cEntryFillPrice g)"

fun task_group :: "otask \<Rightarrow> uuid option" where
  "task_group (OTPlaceLegs gid _) = Some gid"
| "task_group (OTFinishLegs gid _ _ _ _ _) = Some gid"
| "task_group (OTArmTimer gid) = Some gid"
| "task_group (OTStartTimer gid) = Some gid"
| "task_group (OTTimer gid _) = Some gid"
| "task_group (OTModifyLegs gid _) = Some gid"
| "task_group (OTModifyLegsEnd gid _) = Some gid"
| "task_group (OTCancelLeg gid _ _ _) = Some gid"
| "task_group (OTCancelDone gid) = Some gid"
| "task_group (OTCleanup gid) = Some gid"
| "task_group (OTDbUpdate _) = None"
| "task_group (OTTag _ _ _) = None"

text \<open>The goroutines that can still write the state of their group.\<close>

fun writes_state :: "otask \<Rightarrow> bool" where
  "writes_state (OTPlaceLegs _ _) = True"
| "writes_state (OTFinishLegs _ _ _ _ _ _) = True"
| "writes_state (OTCancelLeg _ _ _ _) = True"
| "writes_state (OTCancelDone _) = True"
| "writes_state _ = False"

fun is_launch :: "uuid \<Rightarrow> otask \<Rightarrow> bool" where
  "is_launch gid (OTPlaceLegs i _) = (i = gid)"
| "is_launch gid _ = False"

text \<open>A leg order of the group that the broker accepted.\<close>

fun is_accept :: "uuid \<Rightarrow> string \<Rightarrow> oeffect \<Rightarrow> bool" where
  "is_accept gid r (OPlace ord _ (Inr _)) = (oOCOGroupID ord = Some gid \<and> oOCORole ord = Some r)"
| "is_accept gid r _ = False"

definition launches :: "uuid \<Rightarrow> oco_state \<Rightarrow> nat" where
  "launches gid m = length (filter (is_launch gid) (otasks m))"

definition accepted :: "uuid \<Rightarrow> string \<Rightarrow> oco_state \<Rightarrow> nat" where
  "accepted gid r m = length (filter (is_accept gid r) (oout m))"

definition busy :: "uuid \<Rightarrow> oco_state \<Rightarrow> bool" where
  "busy gid m \<longleftrightarrow> (\<exists>t \<in> set (otasks m). task_group t = Some gid \<and> writes_state t)"

definition settled :: "uuid \<Rightarrow> oco_state \<Rightarrow> bool" where
  "settled gid m \<longleftrightarrow> (\<exists>g. oheap m gid = Some g \<and> IsTerminal (cState g)) \<and> \<not> busy gid m"

definition leg_role :: "string \<Rightarrow> bool" where
  "leg_role r \<longleftrightarrow> r = RoleSLLeg \<or> r = RoleTPLeg"

definition pending_or_new :: "uuid \<Rightarrow> oco_state \<Rightarrow> bool" where
  "pending_or_new gid m \<longleftrightarrow> (case oheap m gid of None \<Rightarrow> True | Some g \<Rightarrow> cState g = StatePendingEntry)"

definition oco_wf :: "oco_state \<Rightarrow> bool" where
  "oco_wf m \<longleftrightarrow>
     (\<forall>gid g. oheap m gid = Some g \<longrightarrow> cGroupID g = gid \<and> gid < onext m) \<and>
     distinct (ogroups m) \<and> (\<forall>gid \<in> set (ogroups m). oheap m gid \<noteq> None) \<and>
     (\<forall>b gid. brokerIndex m b = Some gid \<longrightarrow> oheap m gid \<noteq> None) \<and>
     (\<forall>t \<in> set (otasks m). \<forall>gid. task_group t = Some gid \<longrightarrow> oheap m gid \<noteq> None) \<and>
     (\<forall>gid r. leg_role r \<longrightarrow> launches gid m + accepted gid r m \<le> (if pending_or_new gid m then 0 else 1))"

definition moved :: "oco_state \<Rightarrow> oco_state \<Rightarrow> bool" where
  "moved m m' \<longleftrightarrow> (\<forall>gid g. oheap m gid = Some g \<longrightarrow> (\<exists>g'. oheap m' gid = Some g' \<and> advances g g' \<and>
     (settled gid m \<longrightarrow> settled gid m' \<and> cState g' = cState g)))"

definition preserved :: "oco_state \<Rightarrow> oco_state \<Rightarrow> bool" where
  "preserved m m' \<longleftrightarrow> oco_wf m' \<and> moved m m'"

definition osim :: "oco_state \<Rightarrow> oco_state \<Rightarrow> bool" where
  "osim m m' \<longleftrightarrow> (oco_wf m \<longrightarrow> preserved m m')"

lemma ophase_zero [simp]: "ophase s = 0 \<longleftrightarrow> s = StatePendingEntry"
  by (cases s) auto

lemma advances_refl [simp, intro]: "advances g g"
  by (simp add: advances_def)

lemma advances_trans: "advances a b \<Longrightarrow> advances b c \<Longrightarrow> advances a c"
  by (auto simp: advances_def)

lemma moved_refl [simp, intro]: "moved m m"
  by (auto simp: moved_def)

lemma moved_trans:
  assumes "moved a b" "moved b c"
  shows "moved a c"
  unfolding moved_def
proof (intro allI impI)
  fix gid g assume "oheap a gid = Some g"
  then obtain g1 where 1: "oheap b gid = Some g1" "advances g g1"
      "settled gid a \<longrightarrow> settled gid b \<and> cState g1 = cState g"
    using assms(1) unfolding moved_def by blast
  then obtain g2 where 2: "oheap c gid = Some g2" "advances g1 g2"
      "settled gid b \<longrightarrow> settled gid c \<and> cState g2 = cState g1"
    using assms(2) unfolding moved_def by blast
  show "\<exists>g'. oheap c gid = Some g' \<and> advances g g' \<and> (settled gid a \<longrightarrow> settled gid c \<and> cState g' = cState g)"
    using 1 2 advances_trans by (intro exI [of _ g2]) auto
qed

lemma preserved_refl: "oco_wf m \<Longrightarrow> preserved m m"
  by (simp add: preserved_def)

lemma osim_refl [simp, intro]: "osim m m"
  by (simp add: osim_def preserved_refl)

lemma osim_trans: "osim a b \<Longrightarrow> osim b c \<Longrightarrow> osim a c"
  unfolding osim_def preserved_def using moved_trans by blast

lemma preserved_trans: "preserved a b \<Longrightarrow> preserved b c \<Longrightarrow> preserved a c"
  unfolding preserved_def using moved_trans by blast

lemma osim_fold: "(\<And>m x. osim m (f m x)) \<Longrightarrow> osim m (foldl f m xs)"
  by (induction xs arbitrary: m) (auto intro: osim_trans)

lemma oco_wfD:
  assumes "oco_wf m"
  shows "oheap m gid = Some g \<Longrightarrow> cGroupID g = gid" "oheap m gid = Some g \<Longrightarrow> gid < onext m"
    "distinct (ogroups m)" "gid \<in> set (ogroups m) \<Longrightarrow> oheap m gid \<noteq> None"
    "brokerIndex m b = Some gid \<Longrightarrow> oheap m gid \<noteq> None"
    "t \<in> set (otasks m) \<Longrightarrow> task_group t = Some gid \<Longrightarrow> oheap m gid \<noteq> None"
    "leg_role r \<Longrightarrow> launches gid m + accepted gid r m \<le> 1"
    "leg_role r \<Longrightarrow> pending_or_new gid m \<Longrightarrow> launches gid m = 0 \<and> accepted gid r m = 0"
proof -
  note w = assms [unfolded oco_wf_def]
  show "oheap m gid = Some g \<Longrightarrow> cGroupID g = gid" "oheap m gid = Some g \<Longrightarrow> gid < onext m"
    "distinct (ogroups m)" "gid \<in> set (ogroups m) \<Longrightarrow> oheap m gid \<noteq> None"
    "brokerIndex m b = Some gid \<Longrightarrow> oheap m gid \<noteq> None"
    "t \<in> set (otasks m) \<Longrightarrow> task_group t = Some gid \<Longrightarrow> oheap m gid \<noteq> None"
    using w by blast+
  have l: "launches gid m + accepted gid r m \<le> (if pending_or_new gid m then 0 else 1)" if "leg_role r"
    using w that by blast
  show "launches gid m + accepted gid r m \<le> 1" if "leg_role r"
    using l [OF that] by (simp split: if_splits)
  show "launches gid m = 0 \<and> accepted gid r m = 0" if "leg_role r" "pending_or_new gid m"
    using l [OF that(1)] that(2) by simp
qed

section \<open>The update of one group\<close>

text \<open>
  The pattern all operations follow: one group advances, goroutines for it may start or
  end, the log grows. A launch of the legs needs a group that still waits for its entry.
\<close>

lemma update_sim:
  assumes wf: "oco_wf m" and g: "oheap m gid = Some g" and g': "advances g g'"
    and heap: "oheap m' = (oheap m)(gid \<mapsto> g')"
    and reg: "distinct (ogroups m')" "set (ogroups m') \<subseteq> insert gid (set (ogroups m))"
    and idx: "\<And>b i. brokerIndex m' b = Some i \<Longrightarrow> brokerIndex m b = Some i \<or> i = gid"
    and tsk: "\<And>t i. t \<in> set (otasks m') \<Longrightarrow> task_group t = Some i \<Longrightarrow> t \<in> set (otasks m) \<or> i = gid"
    and nxt: "onext m \<le> onext m'"
    and cnt: "\<And>i r. leg_role r \<Longrightarrow> launches i m' + accepted i r m' \<le> launches i m + accepted i r m \<or>
                i = gid \<and> cState g' \<noteq> StatePendingEntry \<and> launches i m' + accepted i r m' \<le> 1"
    and st: "settled gid m \<Longrightarrow> \<not> busy gid m' \<and> cState g' = cState g"
  shows "preserved m m'"
  unfolding preserved_def
proof
  note w = oco_wfD [OF wf]
  have old: "oheap m i \<noteq> None \<Longrightarrow> oheap m' i \<noteq> None" for i by (simp add: heap)
  have gid': "cGroupID g' = gid" using g' w(1) [OF g] by (simp add: advances_def oconfig_def)
  show "oco_wf m'"
    unfolding oco_wf_def
  proof (intro conjI allI impI ballI)
    fix i h assume h: "oheap m' i = Some h"
    show "cGroupID h = i" using h w(1) gid' by (simp add: heap split: if_splits)
    show "i < onext m'" using h w(2) [of i] w(2) [OF g] nxt by (auto simp: heap split: if_splits)
  next
    show "distinct (ogroups m')" by (rule reg)
  next
    fix i assume "i \<in> set (ogroups m')"
    then show "oheap m' i \<noteq> None" using reg(2) w(4) g old by (auto simp: heap)
  next
    fix b i assume "brokerIndex m' b = Some i"
    then have "i = gid \<or> oheap m i \<noteq> None" using idx w(5) by blast
    then show "oheap m' i \<noteq> None" using old g by auto
  next
    fix t i assume "t \<in> set (otasks m')" "task_group t = Some i"
    then have "i = gid \<or> oheap m i \<noteq> None" using tsk w(6) by blast
    then show "oheap m' i \<noteq> None" using old g by auto
  next
    fix i r assume r: "leg_role r"
    have pend: "pending_or_new i m" if "pending_or_new i m'"
    proof (cases "i = gid")
      case True
      with that have "cState g' = StatePendingEntry" by (simp add: pending_or_new_def heap)
      then have "ophase (cState g) = 0" using g' unfolding advances_def by simp
      then show ?thesis using True g by (simp add: pending_or_new_def)
    qed (use that in \<open>simp add: pending_or_new_def heap\<close>)
    show "launches i m' + accepted i r m' \<le> (if pending_or_new i m' then 0 else 1)"
      using cnt [OF r, of i] w(7) [OF r, of i] w(8) [OF r, of i] pend
      by (auto simp: pending_or_new_def heap split: if_splits)
  qed
  show "moved m m'"
    unfolding moved_def
  proof (intro allI impI)
    fix i h assume h: "oheap m i = Some h"
    show "\<exists>h'. oheap m' i = Some h' \<and> advances h h' \<and> (settled i m \<longrightarrow> settled i m' \<and> cState h' = cState h)"
    proof (cases "i = gid")
      case True
      then show ?thesis using g g' st h by (auto simp: heap settled_def)
    next
      case False
      have "busy i m" if "busy i m'"
        using that False tsk unfolding busy_def by blast
      then show ?thesis using False h by (auto simp: heap settled_def)
    qed
  qed
qed

text \<open>Steps that touch no group: they log, allocate identifiers, drop entries, or start other work.\<close>

lemma quiet_sim:
  assumes wf: "oco_wf m" and heap: "oheap m' = oheap m"
    and reg: "distinct (ogroups m')" "set (ogroups m') \<subseteq> set (ogroups m)"
    and idx: "\<And>b i. brokerIndex m' b = Some i \<Longrightarrow> brokerIndex m b = Some i"
    and tsk: "\<And>t i. t \<in> set (otasks m') \<Longrightarrow> task_group t = Some i \<Longrightarrow>
                t \<in> set (otasks m) \<or> oheap m i \<noteq> None \<and> (writes_state t \<longrightarrow> \<not> settled i m)"
    and nxt: "onext m \<le> onext m'"
    and cnt: "\<And>i r. leg_role r \<Longrightarrow> launches i m' + accepted i r m' \<le> launches i m + accepted i r m"
  shows "preserved m m'"
  unfolding preserved_def
proof
  note w = oco_wfD [OF wf]
  show "oco_wf m'"
    unfolding oco_wf_def heap
  proof (intro conjI allI impI ballI)
    fix i h assume h: "oheap m i = Some h"
    show "cGroupID h = i" using w(1) [OF h] .
    show "i < onext m'" using w(2) [OF h] nxt by simp
  next
    show "distinct (ogroups m')" by (rule reg)
  next
    fix i assume "i \<in> set (ogroups m')" then show "oheap m i \<noteq> None" using reg(2) w(4) by blast
  next
    fix b i assume "brokerIndex m' b = Some i" then show "oheap m i \<noteq> None" using idx w(5) by blast
  next
    fix t i assume "t \<in> set (otasks m')" "task_group t = Some i"
    then show "oheap m i \<noteq> None" using tsk w(6) by blast
  next
    fix i r assume r: "leg_role r"
    have "pending_or_new i m' = pending_or_new i m" by (simp add: pending_or_new_def heap)
    then show "launches i m' + accepted i r m' \<le> (if pending_or_new i m' then 0 else 1)"
      using cnt [OF r, of i] w(7) [OF r, of i] w(8) [OF r, of i] by auto
  qed
  show "moved m m'"
    unfolding moved_def
  proof (intro allI impI)
    fix i h assume h: "oheap m i = Some h"
    have "busy i m" if "busy i m'" "settled i m"
      using that tsk unfolding busy_def by blast
    then have "settled i m' \<and> cState h = cState h" if "settled i m"
      using that by (auto simp: settled_def heap)
    then show "\<exists>h'. oheap m' i = Some h' \<and> advances h h' \<and> (settled i m \<longrightarrow> settled i m' \<and> cState h' = cState h)"
      using h by (auto simp: heap)
  qed
qed


section \<open>Calls to the collaborators only log\<close>

fun is_place :: "oeffect \<Rightarrow> bool" where
  "is_place (OPlace _ _ _) = True"
| "is_place _ = False"

fun is_cancel :: "oeffect \<Rightarrow> bool" where
  "is_cancel (OCancel _ _ _ _ _) = True"
| "is_cancel _ = False"

fun is_update :: "oeffect \<Rightarrow> bool" where
  "is_update (OUpdate _) = True"
| "is_update _ = False"

definition no_accept :: "oeffect \<Rightarrow> bool" where
  "no_accept e \<longleftrightarrow> (\<forall>i r. leg_role r \<longrightarrow> \<not> is_accept i r e)"

text \<open>\<open>logs P n m m'\<close>: only the log grew, by at most \<open>n\<close> effects that satisfy \<open>P\<close>, and no leg was accepted.\<close>

definition logs :: "(oeffect \<Rightarrow> bool) \<Rightarrow> nat \<Rightarrow> oco_state \<Rightarrow> oco_state \<Rightarrow> bool" where
  "logs P n m m' \<longleftrightarrow> (\<exists>es p. m' = m\<lparr>opanic := p, oout := oout m @ es\<rparr> \<and> length (filter P es) \<le> n \<and>
     (\<forall>e \<in> set es. no_accept e))"

lemma no_accept_simps [simp]:
  "no_accept (OCreate ord)" "no_accept (OUpdate ord)" "no_accept (OTag i j s)" "no_accept (OModify ord a e)"
  "no_accept (OCancel x b y a e)" "no_accept (OInvalidate u)" "no_accept (OGetCreds u)"
  "no_accept (OBroadcast u v o1)" "no_accept (OPlace ord a (Inl z))"
  by (simp_all add: no_accept_def)

lemma filter_no_accept: "leg_role r \<Longrightarrow> \<forall>e \<in> set es. no_accept e \<Longrightarrow> filter (is_accept i r) es = []"
  by (auto simp: no_accept_def filter_empty_conv)

lemma logs_refl [simp, intro]: "logs P n m m"
  unfolding logs_def by (intro exI [of _ "[]"] exI [of _ "opanic m"]) simp

lemma logs_trans: "logs P a m m1 \<Longrightarrow> logs P b m1 m2 \<Longrightarrow> a + b \<le> n \<Longrightarrow> logs P n m m2"
  unfolding logs_def
proof (elim exE conjE)
  fix es es' p p'
  assume a: "a + b \<le> n" and 1: "m1 = m\<lparr>opanic := p, oout := oout m @ es\<rparr>" "length (filter P es) \<le> a" "\<forall>e \<in> set es. no_accept e"
    and 2: "m2 = m1\<lparr>opanic := p', oout := oout m1 @ es'\<rparr>" "length (filter P es') \<le> b" "\<forall>e \<in> set es'. no_accept e"
  show "\<exists>es p. m2 = m\<lparr>opanic := p, oout := oout m @ es\<rparr> \<and> length (filter P es) \<le> n \<and> (\<forall>e \<in> set es. no_accept e)"
    using a 1 2 by (intro exI [of _ "es @ es'"] exI [of _ p']) auto
qed

lemma logs_emit: "no_accept e \<Longrightarrow> (if P e then 1 else 0) \<le> n \<Longrightarrow> logs P n m (oemit e m)"
  unfolding logs_def oemit_def by (intro exI [of _ "[e]"] exI [of _ "opanic m"]) (auto split: if_splits)

lemma logs_mono: "logs P a m m1 \<Longrightarrow> a \<le> b \<Longrightarrow> logs P b m m1"
  using logs_trans [OF _ logs_refl, of P a m m1 0 b] by simp

lemma logs_fields:
  assumes "logs P n m m'"
  shows "oheap m' = oheap m" "ogroups m' = ogroups m" "brokerIndex m' = brokerIndex m" "otasks m' = otasks m"
    "onext m' = onext m" "launches i m' = launches i m" "leg_role r \<Longrightarrow> accepted i r m' = accepted i r m"
    "busy i m' = busy i m" "settled i m' = settled i m"
proof -
  obtain es p where m': "m' = m\<lparr>opanic := p, oout := oout m @ es\<rparr>" "\<forall>e \<in> set es. no_accept e"
    using assms unfolding logs_def by blast
  show "oheap m' = oheap m" "ogroups m' = ogroups m" "brokerIndex m' = brokerIndex m" "otasks m' = otasks m"
    "onext m' = onext m" "launches i m' = launches i m" "busy i m' = busy i m" "settled i m' = settled i m"
    by (simp_all add: m'(1) launches_def busy_def settled_def)
  show "accepted i r m' = accepted i r m" if "leg_role r"
    by (simp add: accepted_def m'(1) filter_no_accept [OF that m'(2)])
qed

lemma logs_broadcast [intro]: "logs P n m m1 \<Longrightarrow> \<not> P (OBroadcast u ev o1) \<Longrightarrow> logs P n m (broadcast env u ev o1 m1)"
  unfolding broadcast_def using logs_trans [OF _ logs_emit [of "OBroadcast u ev o1" P 0], of n m m1 n] by simp

lemma db_create_logs: "db_create env ord m = (m', r) \<Longrightarrow> \<not> P (OCreate ord) \<Longrightarrow> logs P n m m'"
  by (auto simp: db_create_def intro!: logs_emit)

lemma db_update_logs: "db_update env ord m = (m', r) \<Longrightarrow> \<not> P (OUpdate ord) \<Longrightarrow> logs P n m m'"
  by (auto simp: db_update_def intro!: logs_emit)

lemma fst_db_update_logs: "\<not> P (OUpdate ord) \<Longrightarrow> logs P n m (fst (db_update env ord m))"
  by (auto simp: db_update_def intro!: logs_emit)

lemma modify_order_at_logs: "modify_order_at env ord a m = (m', r) \<Longrightarrow> \<not> P (OModify ord a r) \<Longrightarrow> logs P n m m'"
  by (auto simp: modify_order_at_def Let_def intro!: logs_emit)

lemma place_failed_logs: "place_order env ord a m = (m', Inl e) \<Longrightarrow> 1 \<le> n \<Longrightarrow> logs P n m m'"
  by (auto simp: place_order_def Let_def intro!: logs_emit)

lemma logs_panic: "logs P n m m1 \<Longrightarrow> logs P n m (m1\<lparr>opanic := p\<rparr>)"
  unfolding logs_def
proof (elim exE conjE)
  fix es p1
  assume "m1 = m\<lparr>opanic := p1, oout := oout m @ es\<rparr>" "length (filter P es) \<le> n" "\<forall>e \<in> set es. no_accept e"
  then show "\<exists>es p'. m1\<lparr>opanic := p\<rparr> = m\<lparr>opanic := p', oout := oout m @ es\<rparr> \<and> length (filter P es) \<le> n \<and>
      (\<forall>e \<in> set es. no_accept e)"
    by (intro exI [of _ es] exI [of _ p]) simp
qed

lemma refreshAuth_logs:
  assumes "refreshAuth env u a m = (m', r)" "\<And>x. \<not> P (OInvalidate x)" "\<And>x. \<not> P (OGetCreds x)"
  shows "logs P n m m'"
proof (cases "xCreds env")
  case (Some get)
  define m2 where "m2 = oemit (OGetCreds u) (oemit (OInvalidate u) m)"
  have l: "logs P n m m2"
    unfolding m2_def using assms(2,3)
    by (intro logs_trans [OF logs_emit logs_emit, of _ P 0 _ 0]) auto
  have "m' = m2 \<or> m' = m2\<lparr>opanic := True\<rparr>"
    using assms(1) Some unfolding refreshAuth_def Let_def m2_def
    by (auto split: option.splits if_splits)
  then show ?thesis using l logs_panic [OF l] by auto
qed (use assms in \<open>auto simp: refreshAuth_def\<close>)

lemma db_update_attempts_logs: "logs is_update n m (db_update_attempts env n ord m)"
proof (induction n arbitrary: m)
  case (Suc n)
  obtain m1 r where d: "db_update env ord m = (m1, r)" by fastforce
  then have l: "logs is_update 1 m m1" by (auto simp: db_update_def intro!: logs_emit)
  then show ?case using d logs_mono [OF l, of "Suc n"] logs_trans [OF l Suc.IH, of "Suc n"]
    by (auto split: option.split)
qed simp

lemma cancel_attempts_logs: "logs is_cancel n m (cancel_attempts env n g b m)"
proof (induction n arbitrary: m)
  case (Suc n)
  obtain m1 r where d: "cancel_order_at env g b m = (m1, r)" by fastforce
  then have l: "logs is_cancel 1 m m1" by (auto simp: cancel_order_at_def Let_def intro!: logs_emit)
  then show ?case using d logs_mono [OF l, of "Suc n"] logs_trans [OF l Suc.IH, of "Suc n"]
    by (auto split: option.split)
qed simp

text \<open>An accepted order ends the entry loop; as it is no leg, it counts for nobody.\<close>

lemma with_auth_simps [simp]:
  "oOCOGroupID (with_auth a ord) = oOCOGroupID ord" "oOCORole (with_auth a ord) = oOCORole ord"
  "oUserID (with_auth a ord) = oUserID ord" "oPrice (with_auth a ord) = oPrice ord"
  "oStopLoss (with_auth a ord) = oStopLoss ord" "oQuantity (with_auth a ord) = oQuantity ord"
  "oOrderSide (with_auth a ord) = oOrderSide ord" "oOrderID (with_auth a ord) = oOrderID ord"
  "with_auth a (with_auth b ord) = with_auth a ord"
  by (simp_all add: with_auth_def)

lemma entry_attempts_logs:
  assumes "entry_attempts env n ord auth m = (m', ord', auth', r)" "oOCORole ord = Some RoleEntry"
  shows "logs is_place n m m'"
  using assms
proof (induction n arbitrary: ord auth m)
  case (Suc n)
  obtain m1 r1 where p: "place_order env ord (Some auth) m = (m1, r1)" by fastforce
  have "no_accept (OPlace ord (Some auth) r1)"
    using Suc.prems(2) by (cases r1) (auto simp: no_accept_def leg_role_def RoleEntry_def RoleSLLeg_def RoleTPLeg_def)
  then have l1: "logs is_place 1 m m1" using p by (auto simp: place_order_def Let_def intro!: logs_emit)
  obtain m2 a where ra: "refreshAuth env (oUserID ord) (Some auth) m1 = (m2, a)" by fastforce
  then have l2: "logs is_place 0 m1 m2" by (rule refreshAuth_logs) auto
  have l12: "logs is_place 1 m m2" using logs_trans [OF l1 l2, of 1] by simp
  have d: "m' = m1 \<or> m' = m2 \<or> (\<exists>a. entry_attempts env n (with_auth a ord) a m2 = (m', ord', auth', r)) \<or>
      entry_attempts env n ord auth m1 = (m', ord', auth', r)"
    using Suc.prems(1) unfolding entry_attempts.simps p ra prod.case
    by (cases r1) (auto split: if_splits option.splits)
  have "logs is_place n m2 m'" if "entry_attempts env n (with_auth a ord) a m2 = (m', ord', auth', r)" for a
    using Suc.IH [OF that] Suc.prems(2) by simp
  moreover have "logs is_place n m1 m'" if "entry_attempts env n ord auth m1 = (m', ord', auth', r)"
    using Suc.IH [OF that] Suc.prems(2) by simp
  ultimately show ?case
    using d logs_mono [OF l1, of "Suc n"] logs_mono [OF l12, of "Suc n"]
      logs_trans [OF l1, of n m' "Suc n"] logs_trans [OF l12, of n m' "Suc n"] by auto
qed simp

text \<open>How a leg loop goes on after a rejected attempt.\<close>

lemma leg_attempts_step:
  assumes "leg_attempts env (Suc n) ord auth m = (m', ord', r)" "place_order env ord (Some auth) m = (m1, Inl e)"
    "refreshAuth env (oUserID ord) (Some auth) m1 = (m2, a)"
  obtains (stop) "m' = m1" "ord' = ord" "r = Inl e" "n = 0"
    | (same) "leg_attempts env n ord auth m2 = (m', ord', r)"
    | (fresh) b where "leg_attempts env n (with_auth b ord) b m2 = (m', ord', r)"
    | (plain) "leg_attempts env n ord auth m1 = (m', ord', r)"
proof -
  note eq = assms(1) [unfolded leg_attempts.simps assms(2,3) prod.case sum.case]
  consider "n = 0" | "n \<noteq> 0" "\<not> isSessionExpiredError (Some e)"
    | "n \<noteq> 0" "isSessionExpiredError (Some e)" "a = None" | b where "n \<noteq> 0" "isSessionExpiredError (Some e)" "a = Some b"
    by (cases a) auto
  then show thesis
  proof cases
    case 1 then show thesis using eq stop by simp
  next
    case 2 then show thesis using eq plain by simp
  next
    case 3 then show thesis using eq same by simp
  next
    case 4 then show thesis using eq fresh by simp
  qed
qed

text \<open>A leg loop accepts at most one order, the one of its leg, and only as its last call.\<close>

lemma leg_attempts_logs:
  assumes "leg_attempts env n ord auth m = (m', ord', r)"
  shows "\<exists>es p. m' = m\<lparr>opanic := p, oout := oout m @ es\<rparr> \<and> length (filter is_place es) \<le> n \<and>
    (\<forall>i q. leg_role q \<longrightarrow> length (filter (is_accept i q) es)
       \<le> (if oOCOGroupID ord = Some i \<and> oOCORole ord = Some q \<and> \<not> isl r then 1 else 0)) \<and>
    (\<exists>a. with_auth a ord' = with_auth a (ord\<lparr>oIndiraOrderID := oIndiraOrderID ord', oStatus := oStatus ord'\<rparr>))"
  using assms
proof (induction n arbitrary: ord auth m)
  case 0
  then show ?case by (intro exI [of _ "[]"] exI [of _ "opanic m"] conjI) auto
next
  case (Suc n)
  let ?P = "\<lambda>i q. oOCOGroupID ord = Some i \<and> oOCORole ord = Some q"
  obtain m1 r1 where p: "place_order env ord (Some auth) m = (m1, r1)" by fastforce
  then have m1: "m1 = m\<lparr>oout := oout m @ [OPlace ord (Some auth) r1]\<rparr>"
    by (auto simp: place_order_def Let_def oemit_def)
  obtain m2 a where ra: "refreshAuth env (oUserID ord) (Some auth) m1 = (m2, a)" by fastforce
  show ?case
  proof (cases r1)
    case (Inr b)
    then have "m' = oemit (OUpdate (ord\<lparr>oIndiraOrderID := Some b, oStatus := StatusSubmitted\<rparr>)) m1"
        "ord' = ord\<lparr>oIndiraOrderID := Some b, oStatus := StatusSubmitted\<rparr>" "r = Inr b"
      using Suc.prems by (auto simp: p db_update_def Let_def)
    then show ?thesis
      by (intro exI [of _ "[OPlace ord (Some auth) (Inr b),
             OUpdate (ord\<lparr>oIndiraOrderID := Some b, oStatus := StatusSubmitted\<rparr>)]"] exI [of _ "opanic m"] conjI)
        (auto simp: m1 Inr oemit_def)
  next
    case (Inl e)
    have l2: "logs is_place 0 m1 m2" using ra by (rule refreshAuth_logs) auto
    have base: ?thesis if "m' = m1" "ord' = ord" "r = Inl e"
      using that by (intro exI [of _ "[OPlace ord (Some auth) (Inl e)]"] exI [of _ "opanic m"] conjI)
        (auto simp: m1 Inl)
    have rec: ?thesis if l: "logs is_place 0 m1 m3" and at: "leg_attempts env n o3 a3 m3 = (m', ord', r)"
      and o3: "o3 = ord \<or> (\<exists>a. o3 = with_auth a ord)" for m3 o3 a3
    proof -
      obtain es p where e: "m' = m3\<lparr>opanic := p, oout := oout m3 @ es\<rparr>" "length (filter is_place es) \<le> n"
          "\<forall>i q. leg_role q \<longrightarrow> length (filter (is_accept i q) es)
             \<le> (if oOCOGroupID o3 = Some i \<and> oOCORole o3 = Some q \<and> \<not> isl r then 1 else 0)"
        and o': "\<exists>a. with_auth a ord' = with_auth a (o3\<lparr>oIndiraOrderID := oIndiraOrderID ord', oStatus := oStatus ord'\<rparr>)"
        using Suc.IH [OF at] by blast
      obtain es3 p3 where e3: "m3 = m1\<lparr>opanic := p3, oout := oout m1 @ es3\<rparr>" "length (filter is_place es3) = 0"
          "\<forall>e \<in> set es3. no_accept e"
        using l unfolding logs_def by auto
      have "oOCOGroupID o3 = oOCOGroupID ord" "oOCORole o3 = oOCORole ord" using o3 by auto
      moreover have "\<exists>a. with_auth a ord' = with_auth a (ord\<lparr>oIndiraOrderID := oIndiraOrderID ord', oStatus := oStatus ord'\<rparr>)"
        using o' o3 by (auto simp: with_auth_def)
      ultimately show ?thesis
        using e e3(2) filter_no_accept [OF _ e3(3)]
        by (intro exI [of _ "OPlace ord (Some auth) (Inl e) # es3 @ es"] exI [of _ p] conjI)
          (auto simp: m1 Inl e3(1) split: if_splits)
    qed
    from Suc.prems p [unfolded Inl] ra show ?thesis
    proof (cases rule: leg_attempts_step)
      case stop then show ?thesis by (intro base)
    next
      case same show ?thesis by (rule rec [OF l2 same]) simp
    next
      case fresh show ?thesis by (rule rec [OF l2 fresh]) blast
    next
      case plain show ?thesis by (rule rec [OF logs_refl plain]) simp
    qed
  qed
qed

end
