(* ===== verification/OcoSteps.thy ===== *)
theory OcoSteps
  imports OcoInv
begin

text \<open>
  Every operation of the one-cancels-the-other manager preserves its invariant and moves
  its groups along \<open>advances\<close>; a group that is terminal and has no goroutine left that
  writes its state keeps its state. The interpretation of \<open>object_store\<close> lifts this to runs.
\<close>

section \<open>What the primitive updates change\<close>

lemma oemit_simps [simp]:
  "oheap (oemit e m) = oheap m" "ogroups (oemit e m) = ogroups m" "brokerIndex (oemit e m) = brokerIndex m"
  "otasks (oemit e m) = otasks m" "onext (oemit e m) = onext m" "launches i (oemit e m) = launches i m"
  "busy i (oemit e m) = busy i m" "opanic (oemit e m) = opanic m" "oout (oemit e m) = oout m @ [e]"
  by (simp_all add: oemit_def launches_def busy_def)

lemma ospawn_simps [simp]:
  "oheap (ospawn t m) = oheap m" "ogroups (ospawn t m) = ogroups m" "brokerIndex (ospawn t m) = brokerIndex m"
  "otasks (ospawn t m) = otasks m @ [t]" "onext (ospawn t m) = onext m" "accepted i r (ospawn t m) = accepted i r m"
  "launches i (ospawn t m) = launches i m + (if is_launch i t then 1 else 0)"
  "busy i (ospawn t m) \<longleftrightarrow> busy i m \<or> task_group t = Some i \<and> writes_state t" "oout (ospawn t m) = oout m"
  "opanic (ospawn t m) = opanic m"
  by (auto simp: ospawn_def accepted_def launches_def busy_def)

lemma setc_simps [simp]:
  "oheap (setc g m) = (oheap m)(cGroupID g \<mapsto> g)" "ogroups (setc g m) = ogroups m"
  "brokerIndex (setc g m) = brokerIndex m" "otasks (setc g m) = otasks m" "onext (setc g m) = onext m"
  "accepted i r (setc g m) = accepted i r m" "launches i (setc g m) = launches i m" "busy i (setc g m) = busy i m"
  "oout (setc g m) = oout m" "opanic (setc g m) = opanic m"
  by (simp_all add: setc_def accepted_def launches_def busy_def)

lemma next_id_simps [simp]:
  "oheap (next_id m) = oheap m" "ogroups (next_id m) = ogroups m" "brokerIndex (next_id m) = brokerIndex m"
  "otasks (next_id m) = otasks m" "onext (next_id m) = Suc (onext m)"
  "accepted i r (next_id m) = accepted i r m" "launches i (next_id m) = launches i m"
  "busy i (next_id m) = busy i m" "oout (next_id m) = oout m" "opanic (next_id m) = opanic m"
  by (simp_all add: next_id_def accepted_def launches_def busy_def)

lemma index_broker_simps [simp]:
  "oheap (index_broker b gid m) = oheap m" "ogroups (index_broker b gid m) = ogroups m"
  "brokerIndex (index_broker b gid m) = (brokerIndex m)(b \<mapsto> gid)" "otasks (index_broker b gid m) = otasks m"
  "onext (index_broker b gid m) = onext m" "accepted i r (index_broker b gid m) = accepted i r m"
  "launches i (index_broker b gid m) = launches i m" "busy i (index_broker b gid m) = busy i m"
  "oout (index_broker b gid m) = oout m" "opanic (index_broker b gid m) = opanic m"
  by (simp_all add: index_broker_def accepted_def launches_def busy_def)

lemma index_if_simps [simp]:
  "oheap (index_if b gid m) = oheap m" "ogroups (index_if b gid m) = ogroups m"
  "otasks (index_if b gid m) = otasks m" "onext (index_if b gid m) = onext m"
  "accepted i r (index_if b gid m) = accepted i r m" "launches i (index_if b gid m) = launches i m"
  "busy i (index_if b gid m) = busy i m" "oout (index_if b gid m) = oout m"
  "opanic (index_if b gid m) = opanic m"
  by (simp_all add: index_if_def)

lemma index_if_index: "brokerIndex (index_if b gid m) x = Some i \<Longrightarrow> brokerIndex m x = Some i \<or> i = gid"
  by (auto simp: index_if_def split: if_splits)

lemma broadcast_simps [simp]:
  "oheap (broadcast env u ev o1 m) = oheap m" "ogroups (broadcast env u ev o1 m) = ogroups m"
  "brokerIndex (broadcast env u ev o1 m) = brokerIndex m" "otasks (broadcast env u ev o1 m) = otasks m"
  "onext (broadcast env u ev o1 m) = onext m" "launches i (broadcast env u ev o1 m) = launches i m"
  "busy i (broadcast env u ev o1 m) = busy i m" "opanic (broadcast env u ev o1 m) = opanic m"
  "accepted i r (broadcast env u ev o1 m) = accepted i r m"
  by (simp_all add: broadcast_def accepted_def)

lemma scheduleCleanup_simps [simp]:
  "oheap (scheduleCleanup gid m) = oheap m" "ogroups (scheduleCleanup gid m) = ogroups m"
  "brokerIndex (scheduleCleanup gid m) = brokerIndex m" "otasks (scheduleCleanup gid m) = otasks m @ [OTCleanup gid]"
  "onext (scheduleCleanup gid m) = onext m" "launches i (scheduleCleanup gid m) = launches i m"
  "busy i (scheduleCleanup gid m) = busy i m" "oout (scheduleCleanup gid m) = oout m"
  "accepted i r (scheduleCleanup gid m) = accepted i r m"
  by (simp_all add: scheduleCleanup_def)

lemma stop_timer_simps [simp]:
  "oheap (stop_timer g m) = oheap m" "ogroups (stop_timer g m) = ogroups m"
  "brokerIndex (stop_timer g m) = brokerIndex m" "onext (stop_timer g m) = onext m"
  "accepted i r (stop_timer g m) = accepted i r m" "launches i (stop_timer g m) = launches i m"
  "busy i (stop_timer g m) = busy i m" "oout (stop_timer g m) = oout m"
proof -
  have "filter (is_launch i) (filter (\<lambda>t. t \<noteq> OTTimer (cGroupID g) k) ts) = filter (is_launch i) ts" for k ts
    by (induction ts) auto
  then show "launches i (stop_timer g m) = launches i m"
    by (simp add: stop_timer_def launches_def split: option.split)
  show "busy i (stop_timer g m) = busy i m"
    by (auto simp: stop_timer_def busy_def split: option.split)
qed (simp_all add: stop_timer_def accepted_def split: option.split)

lemma stop_timer_tasks: "t \<in> set (otasks (stop_timer g m)) \<Longrightarrow> t \<in> set (otasks m)"
  by (auto simp: stop_timer_def split: option.splits)

lemma register_simps [simp]:
  "oheap (register g m) = (oheap m)(cGroupID g \<mapsto> g)" "ogroups (register g m) = List.insert (cGroupID g) (ogroups m)"
  "brokerIndex (register g m) = brokerIndex m" "otasks (register g m) = otasks m" "onext (register g m) = onext m"
  "accepted i r (register g m) = accepted i r m" "launches i (register g m) = launches i m"
  "busy i (register g m) = busy i m" "oout (register g m) = oout m" "opanic (register g m) = opanic m"
  by (simp_all add: register_def accepted_def launches_def busy_def setc_def)

lemma panic_simps [simp]:
  "launches i (m\<lparr>opanic := p\<rparr>) = launches i m" "accepted i r (m\<lparr>opanic := p\<rparr>) = accepted i r m"
  "busy i (m\<lparr>opanic := p\<rparr>) = busy i m"
  "launches i (m\<lparr>ogroups := gs\<rparr>) = launches i m" "accepted i r (m\<lparr>ogroups := gs\<rparr>) = accepted i r m"
  by (simp_all add: accepted_def launches_def busy_def)

lemma advances_state: "\<lbrakk>oconfig g' = oconfig g; cEntryFillPrice g' = cEntryFillPrice g; ophase (cState g) \<le> ophase (cState g')\<rbrakk>
    \<Longrightarrow> advances g g'"
  by (simp add: advances_def)

lemma ophase_le2 [simp]: "ophase s \<le> 2"
  by (cases s) auto

lemma not_settled: "oheap m gid = Some g \<Longrightarrow> \<not> IsTerminal (cState g) \<Longrightarrow> \<not> settled gid m"
  by (simp add: settled_def)

lemma osim_logs: "logs P n m m' \<Longrightarrow> osim m m'"
  unfolding osim_def
proof (intro impI)
  assume l: "logs P n m m'" and wf: "oco_wf m"
  note f = logs_fields [OF l]
  show "preserved m m'"
    using oco_wfD [OF wf] by (intro quiet_sim [OF wf]) (simp_all add: f)
qed

section \<open>Events\<close>

text \<open>The update of one group together with new goroutines of that group, none of them a launch.\<close>

lemma event_sim:
  assumes wf: "oco_wf m" and g: "oheap m gid = Some g" and g': "advances g g'" and id: "cGroupID g' = gid"
    and st: "IsTerminal (cState g) \<longrightarrow> cState g' = cState g \<and> (\<forall>t \<in> set ts. \<not> writes_state t)"
    and ts: "\<And>t. t \<in> set ts \<Longrightarrow> task_group t = Some gid \<or> task_group t = None" "\<And>t. t \<in> set ts \<Longrightarrow> \<not> is_launch gid t"
    and m': "oheap m' = (oheap m)(gid \<mapsto> g')" "ogroups m' = ogroups m" "onext m \<le> onext m'"
      "\<And>b i. brokerIndex m' b = Some i \<Longrightarrow> brokerIndex m b = Some i \<or> i = gid"
      "set (otasks m') \<subseteq> set (otasks m) \<union> set ts" "\<And>i. launches i m' \<le> launches i m"
      "\<And>i r. leg_role r \<Longrightarrow> accepted i r m' = accepted i r m"
  shows "preserved m m'"
proof (rule update_sim [OF wf g g' m'(1)])
  note w = oco_wfD [OF wf]
  show "distinct (ogroups m')" "set (ogroups m') \<subseteq> insert gid (set (ogroups m))" using w(3) m'(2) by auto
  show "brokerIndex m b = Some i \<or> i = gid" if "brokerIndex m' b = Some i" for b i using m'(4) that .
  show "t \<in> set (otasks m) \<or> i = gid" if "t \<in> set (otasks m')" "task_group t = Some i" for t i
    using m'(5) that ts(1) by fastforce
  show "onext m \<le> onext m'" by (rule m')
  show "launches i m' + accepted i r m' \<le> launches i m + accepted i r m \<or>
        i = gid \<and> cState g' \<noteq> StatePendingEntry \<and> launches i m' + accepted i r m' \<le> 1" if "leg_role r" for i r
    using m'(6) [of i] m'(7) [OF that, of i] by simp
  assume "settled gid m"
  then have t: "IsTerminal (cState g)" "\<not> busy gid m" using g by (auto simp: settled_def)
  then show "\<not> busy gid m' \<and> cState g' = cState g" using st m'(5) unfolding busy_def by blast
qed

lemma launch_sim:
  assumes wf: "oco_wf m" and g: "oheap m gid = Some g" and g': "advances g g'" and id: "cGroupID g' = gid"
    and st: "cState g = StatePendingEntry" "cState g' \<noteq> StatePendingEntry"
  shows "preserved m (ospawn (OTPlaceLegs gid p) (setc g' m))"
proof (rule update_sim [OF wf g g'])
  note w = oco_wfD [OF wf]
  have "pending_or_new gid m" using g st by (simp add: pending_or_new_def)
  then show "launches i (ospawn (OTPlaceLegs gid p) (setc g' m)) + accepted i r (ospawn (OTPlaceLegs gid p) (setc g' m))
      \<le> launches i m + accepted i r m \<or> i = gid \<and> cState g' \<noteq> StatePendingEntry \<and>
      launches i (ospawn (OTPlaceLegs gid p) (setc g' m)) + accepted i r (ospawn (OTPlaceLegs gid p) (setc g' m)) \<le> 1"
    if "leg_role r" for i r
    using w(8) [OF that, of gid] st(2) by auto
qed (use oco_wfD [OF wf] id st in \<open>auto simp: not_settled [OF g]\<close>)

lemma oconfig_updates [simp]:
  "oconfig (g\<lparr>cState := s\<rparr>) = oconfig g" "oconfig (g\<lparr>cPnL := x\<rparr>) = oconfig g"
  "oconfig (g\<lparr>cFilledQty := q\<rparr>) = oconfig g" "oconfig (g\<lparr>cEntryFillPrice := x\<rparr>) = oconfig g"
  "oconfig (g\<lparr>cHighestPrice := x\<rparr>) = oconfig g" "oconfig (g\<lparr>cPartialFillActive := b\<rparr>) = oconfig g"
  "oconfig (g\<lparr>cPartialFillCancelFunc := k\<rparr>) = oconfig g" "oconfig (g\<lparr>cPartialFillTimerStarted := b\<rparr>) = oconfig g"
  "oconfig (g\<lparr>cSLLegConfirmed := b\<rparr>) = oconfig g" "oconfig (g\<lparr>cTPLegConfirmed := b\<rparr>) = oconfig g"
  "oconfig (g\<lparr>cSLBrokerID := s1\<rparr>) = oconfig g" "oconfig (g\<lparr>cTPBrokerID := s1\<rparr>) = oconfig g"
  "oconfig (g\<lparr>cSLOrderID := i\<rparr>) = oconfig g" "oconfig (g\<lparr>cTPOrderID := i\<rparr>) = oconfig g"
  "oconfig (g\<lparr>cSLTriggerPrice := x\<rparr>) = oconfig g" "oconfig (g\<lparr>cSLLimitPrice := x\<rparr>) = oconfig g"
  "oconfig (g\<lparr>cTPLimitPrice := x\<rparr>) = oconfig g" "oconfig (g\<lparr>cAuth := a\<rparr>) = oconfig g"
  by (simp_all add: oconfig_def)

lemma handleEntry_sim:
  assumes wf: "oco_wf m" and g: "oheap m gid = Some g" and nt: "\<not> IsTerminal (cState g)"
  shows "preserved m (handleEntryUpdate env g ord st m)"
proof -
  note id = oco_wfD(1) [OF wf g]
  have ev: "preserved m m'" if "cGroupID g' = gid" "advances g g'"
      "oheap m' = (oheap m)(gid \<mapsto> g')" "ogroups m' = ogroups m" "onext m' = onext m" "brokerIndex m' = brokerIndex m"
      "set (otasks m') \<subseteq> set (otasks m) \<union> set ts" "\<And>i. launches i m' \<le> launches i m"
      "\<And>i r. leg_role r \<Longrightarrow> accepted i r m' = accepted i r m"
      "\<And>t. t \<in> set ts \<Longrightarrow> task_group t = Some gid \<and> \<not> is_launch gid t" for m' g' ts
    by (rule event_sim [OF wf g that(2,1), where ts = ts]) (use that nt in auto)
  have partial_done: "preserved m (ospawn (OTModifyLegs gid q) (setc ((clear_partial g)\<lparr>cFilledQty := q\<rparr>) (stop_timer g m)))" for q
    by (rule ev [of "(clear_partial g)\<lparr>cFilledQty := q\<rparr>" _ "[OTModifyLegs gid q]"])
      (auto simp: clear_partial_def id advances_def dest: stop_timer_tasks)
  have partial_more: "preserved m (ospawn (OTModifyLegs gid q) (setc (g\<lparr>cFilledQty := q\<rparr>) m))" for q
    by (rule ev [of "g\<lparr>cFilledQty := q\<rparr>" _ "[OTModifyLegs gid q]"]) (auto simp: id advances_def)
  have stopped: "preserved m (setc (clear_partial g) (stop_timer g m))"
    by (rule ev [of "clear_partial g" _ "[]"]) (auto simp: clear_partial_def id advances_def dest: stop_timer_tasks)
  have failed: "preserved m (setc (g\<lparr>cState := StateFailed\<rparr>) m)"
    by (rule ev [of "g\<lparr>cState := StateFailed\<rparr>" _ "[]"]) (auto simp: id advances_def)
  have rejected: "preserved m (broadcast env u e o1 (scheduleCleanup gid (setc (g\<lparr>cState := StateFailed\<rparr>) m)))" for u e o1
    by (rule ev [of "g\<lparr>cState := StateFailed\<rparr>" _ "[OTCleanup gid]"]) (auto simp: id advances_def)
  have launch: "preserved m (ospawn (OTPlaceLegs gid p) (setc g' m))"
    if "cState g = StatePendingEntry" "cState g' = StatePlacingLegs" "oconfig g' = oconfig g" "cGroupID g' = gid" for p g'
    by (rule launch_sim [OF wf g]) (use that in \<open>auto simp: advances_def\<close>)
  show ?thesis
    unfolding handleEntryUpdate_def Let_def id
    by (simp add: id partial_done partial_more stopped failed rejected preserved_refl [OF wf] launch)
qed


text \<open>The update of a group that is not terminal, with any goroutines of the group but a launch.\<close>

lemma live_event:
  assumes wf: "oco_wf m" and g: "oheap m gid = Some g" and nt: "\<not> IsTerminal (cState g)"
    and "cGroupID g' = gid" "advances g g'"
    and "oheap m' = (oheap m)(gid \<mapsto> g')" "ogroups m' = ogroups m" "onext m' = onext m"
    and "\<And>b i. brokerIndex m' b = Some i \<Longrightarrow> brokerIndex m b = Some i \<or> i = gid"
    and "set (otasks m') \<subseteq> set (otasks m) \<union> set ts" "\<And>i. launches i m' \<le> launches i m"
    and "\<And>i r. leg_role r \<Longrightarrow> accepted i r m' = accepted i r m"
    and "\<And>t. t \<in> set ts \<Longrightarrow> task_group t = Some gid \<and> \<not> is_launch gid t"
  shows "preserved m m'"
  by (rule event_sim [OF wf g assms(5,4), where ts = ts]) (use assms nt in auto)

lemma checkLegs_sim:
  assumes wf: "oco_wf m" and g: "oheap m gid = Some g" and nt: "\<not> IsTerminal (cState g)"
    and g': "cGroupID g' = gid" "advances g g'"
  shows "preserved m (checkLegsConfirmed env g' m)"
proof -
  have a: "advances g (g'\<lparr>cState := StateActive\<rparr>)" if "cState g' = StateLegsSubmitted"
    using g'(2) that by (auto simp: advances_def)
  have 1: "preserved m (setc g' m)"
    by (rule live_event [OF wf g nt g', of _ "[]"]) (auto simp: g')
  have 2: "preserved m (broadcast env u e o1 (setc (g'\<lparr>cState := StateActive\<rparr>) m))" if "cState g' = StateLegsSubmitted" for u e o1
    by (rule live_event [OF wf g nt _ a [OF that], of _ "[]"]) (auto simp: g')
  show ?thesis unfolding checkLegsConfirmed_def Let_def by (simp add: 1 2)
qed

lemma advances_end: "ophase s = 2 \<Longrightarrow> advances g (g\<lparr>cState := s, cPnL := x\<rparr>)" "ophase s = 2 \<Longrightarrow> advances g (g\<lparr>cState := s\<rparr>)"
  "ophase s = 2 \<Longrightarrow> advances g (g\<lparr>cPnL := x, cState := s\<rparr>)"
  by (auto simp: advances_def)

text \<open>The four shapes in which a leg's event ends.\<close>

lemma leg_event:
  assumes wf: "oco_wf m" and g: "oheap m gid = Some g" and nt: "\<not> IsTerminal (cState g)"
    and g': "advances g g'" "cGroupID g' = gid"
  shows "preserved m (ospawn (OTCancelLeg gid b l rs) (setc g' m))"
    and "preserved m (scheduleCleanup gid (ospawn (OTCancelLeg gid b l rs) (setc g' m)))"
    and "preserved m (broadcast env u e o1 (setc g' m))"
    and "preserved m (broadcast env u e o1 m)"
proof -
  note ev = live_event [OF wf g nt g'(2,1)]
  show "preserved m (ospawn (OTCancelLeg gid b l rs) (setc g' m))"
    by (rule ev [of _ "[OTCancelLeg gid b l rs]"]) (auto simp: g')
  show "preserved m (scheduleCleanup gid (ospawn (OTCancelLeg gid b l rs) (setc g' m)))"
    by (rule ev [of _ "[OTCancelLeg gid b l rs, OTCleanup gid]"]) (auto simp: g')
  show "preserved m (broadcast env u e o1 (setc g' m))"
    by (rule ev [of _ "[]"]) (auto simp: g')
  show "preserved m (broadcast env u e o1 m)"
    by (rule live_event [OF wf g nt oco_wfD(1) [OF wf g] advances_refl, of _ "[]"]) (auto simp: g fun_upd_idem)
qed

lemma handleSL_sim:
  assumes wf: "oco_wf m" and g: "oheap m gid = Some g" and nt: "\<not> IsTerminal (cState g)"
  shows "preserved m (handleSLLegUpdate env g ord st m)"
proof -
  note id = oco_wfD(1) [OF wf g]
  have "preserved m (checkLegsConfirmed env (g\<lparr>cSLLegConfirmed := True\<rparr>) m)"
    by (rule checkLegs_sim [OF wf g nt]) (auto simp: id advances_def)
  then show ?thesis
    unfolding handleSLLegUpdate_def Let_def id
    by (simp add: id preserved_refl [OF wf] advances_end leg_event [OF wf g nt])
qed

lemma handleTP_sim:
  assumes wf: "oco_wf m" and g: "oheap m gid = Some g" and nt: "\<not> IsTerminal (cState g)"
  shows "preserved m (handleTPLegUpdate env g ord st m)"
proof -
  note id = oco_wfD(1) [OF wf g]
  have "preserved m (checkLegsConfirmed env (g\<lparr>cTPLegConfirmed := True\<rparr>) m)"
    by (rule checkLegs_sim [OF wf g nt]) (auto simp: id advances_def)
  then show ?thesis
    unfolding handleTPLegUpdate_def Let_def id
    by (simp add: id preserved_refl [OF wf] advances_end leg_event(1-3) [OF wf g nt]
        leg_event(4) [OF wf g nt advances_refl id])
qed

lemma route_sim:
  assumes wf: "oco_wf m" and g: "oheap m gid = Some g" and nt: "\<not> IsTerminal (cState g)"
  shows "preserved m (route_update env g b ord st m)"
proof -
  note id = oco_wfD(1) [OF wf g]
  have fill: "preserved m (index_broker b gid (setc g' m))"
    if "advances g g'" "cGroupID g' = gid" for g'
    by (rule live_event [OF wf g nt that(2,1), of _ "[]"]) (auto simp: that split: if_splits)
  have sl: "preserved m (handleSLLegUpdate env (g\<lparr>cSLBrokerID := b\<rparr>) ord st
      (index_broker b gid (setc (g\<lparr>cSLBrokerID := b\<rparr>) m)))"
  proof (rule preserved_trans)
    show p: "preserved m (index_broker b gid (setc (g\<lparr>cSLBrokerID := b\<rparr>) m))"
      by (rule fill) (auto simp: id advances_def)
    show "preserved (index_broker b gid (setc (g\<lparr>cSLBrokerID := b\<rparr>) m))
        (handleSLLegUpdate env (g\<lparr>cSLBrokerID := b\<rparr>) ord st (index_broker b gid (setc (g\<lparr>cSLBrokerID := b\<rparr>) m)))"
      by (rule handleSL_sim [of _ gid]) (use p nt id in \<open>auto simp: preserved_def\<close>)
  qed
  have tp: "preserved m (handleTPLegUpdate env (g\<lparr>cTPBrokerID := b\<rparr>) ord st
      (index_broker b gid (setc (g\<lparr>cTPBrokerID := b\<rparr>) m)))"
  proof (rule preserved_trans)
    show p: "preserved m (index_broker b gid (setc (g\<lparr>cTPBrokerID := b\<rparr>) m))"
      by (rule fill) (auto simp: id advances_def)
    show "preserved (index_broker b gid (setc (g\<lparr>cTPBrokerID := b\<rparr>) m))
        (handleTPLegUpdate env (g\<lparr>cTPBrokerID := b\<rparr>) ord st (index_broker b gid (setc (g\<lparr>cTPBrokerID := b\<rparr>) m)))"
      by (rule handleTP_sim [of _ gid]) (use p nt id in \<open>auto simp: preserved_def\<close>)
  qed
  show ?thesis
    unfolding route_update_def Let_def
    by (simp add: id sl tp handleEntry_sim [OF wf g nt] handleSL_sim [OF wf g nt] handleTP_sim [OF wf g nt]
        preserved_refl [OF wf])
qed

lemma HandleOCOUpdate_sim: "osim m (HandleOCOUpdate env ord st m)"
  unfolding osim_def
proof
  assume wf: "oco_wf m"
  show "preserved m (HandleOCOUpdate env ord st m)"
    unfolding HandleOCOUpdate_def Let_def on_oco_def
    by (simp add: preserved_refl [OF wf] route_sim [OF wf] split: option.split)
qed


section \<open>Goroutines that do not write the state\<close>

lemma on_oco_sim:
  assumes "\<And>g. oco_wf m \<Longrightarrow> oheap m gid = Some g \<Longrightarrow> cGroupID g = gid \<Longrightarrow> preserved m (f g)"
  shows "osim m (on_oco gid f m)"
  unfolding osim_def on_oco_def
  using assms oco_wfD(1) preserved_refl by (auto split: option.split)

text \<open>A change of bookkeeping fields that leaves the state of the group alone.\<close>

lemma field_event:
  assumes wf: "oco_wf m" and g: "oheap m gid = Some g"
    and g': "cGroupID g' = gid" "oconfig g' = oconfig g" "cState g' = cState g" "cEntryFillPrice g' = cEntryFillPrice g"
    and m': "oheap m' = (oheap m)(gid \<mapsto> g')" "ogroups m' = ogroups m" "onext m \<le> onext m'" "brokerIndex m' = brokerIndex m"
      "set (otasks m') \<subseteq> set (otasks m) \<union> set ts" "\<And>i. launches i m' \<le> launches i m"
      "\<And>i r. leg_role r \<Longrightarrow> accepted i r m' = accepted i r m"
    and ts: "\<And>t. t \<in> set ts \<Longrightarrow> (task_group t = Some gid \<or> task_group t = None) \<and> \<not> writes_state t"
  shows "preserved m m'"
proof (rule event_sim [OF wf g _ g'(1), where ts = ts])
  show "advances g g'" using g' by (simp add: advances_def)
  show "\<not> is_launch gid t" if "t \<in> set ts" for t using ts [OF that] by (cases t) auto
qed (use assms in auto)

lemma arm_timer_sim: "osim m (arm_timer gid m)"
  unfolding arm_timer_def
proof (rule on_oco_sim)
  fix g assume g: "oco_wf m" "oheap m gid = Some g" "cGroupID g = gid"
  have "preserved m (ospawn (OTStartTimer gid) (setc (g\<lparr>cPartialFillTimerStarted := True\<rparr>) m))"
    by (rule field_event [OF g(1,2), where g' = "g\<lparr>cPartialFillTimerStarted := True\<rparr>" and ts = "[OTStartTimer gid]"])
      (auto simp: g)
  then show "preserved m (if cState g \<noteq> StateFailed \<and> cPartialFillActive g \<and> \<not> cPartialFillTimerStarted g
      then ospawn (OTStartTimer gid) (setc (g\<lparr>cPartialFillTimerStarted := True\<rparr>) m) else m)"
    by (simp add: preserved_refl g)
qed

lemma startTimer_sim: "osim m (startPartialFillTimer gid m)"
  unfolding startPartialFillTimer_def
proof (rule on_oco_sim)
  fix g assume g: "oco_wf m" "oheap m gid = Some g" "cGroupID g = gid"
  show "preserved m (ospawn (OTTimer gid (onext m)) (setc (g\<lparr>cPartialFillCancelFunc := Some (onext m)\<rparr>) (next_id m)))"
    by (rule field_event [OF g(1,2), where g' = "g\<lparr>cPartialFillCancelFunc := Some (onext m)\<rparr>" and ts = "[OTTimer gid (onext m)]"])
      (auto simp: g)
qed

lemma clear_partial_simps [simp]:
  "cGroupID (clear_partial g) = cGroupID g" "oconfig (clear_partial g) = oconfig g"
  "cState (clear_partial g) = cState g" "cEntryFillPrice (clear_partial g) = cEntryFillPrice g"
  by (simp_all add: clear_partial_def)

lemma timer_expired_sim: "osim m (timer_expired env gid m)"
  unfolding timer_expired_def Let_def
proof (rule on_oco_sim)
  fix g assume g: "oco_wf m" "oheap m gid = Some g" "cGroupID g = gid"
  have l: "logs is_cancel 3 (setc (clear_partial g) m) (cancelEntryRemaining env (clear_partial g) (setc (clear_partial g) m))"
    unfolding cancelEntryRemaining_def using cancel_attempts_logs [of 3] by simp
  have "preserved m (broadcast env u e o1 (cancelEntryRemaining env (clear_partial g) (setc (clear_partial g) m)))" for u e o1
    by (rule field_event [OF g(1,2), where g' = "clear_partial g" and ts = "[]"])
      (simp_all add: g logs_fields [OF l])
  then show "preserved m (if \<not> cPartialFillActive g then m
      else broadcast env (cUserID g) ''oco_partial_fill_timeout'' None
        (cancelEntryRemaining env (clear_partial g) (setc (clear_partial g) m)))"
    by (simp add: preserved_refl g)
qed

lemma modify_leg_fields:
  "oheap (modify_leg env g b ord m) = oheap m" "ogroups (modify_leg env g b ord m) = ogroups m"
  "onext (modify_leg env g b ord m) = onext m" "brokerIndex (modify_leg env g b ord m) = brokerIndex m"
  "launches i (modify_leg env g b ord m) = launches i m"
  "leg_role r \<Longrightarrow> accepted i r (modify_leg env g b ord m) = accepted i r m"
  "set (otasks (modify_leg env g b ord m)) \<subseteq> set (otasks m) \<union> {OTDbUpdate ord}"
  by (auto simp: modify_leg_def modify_order_at_def dbUpdateAsync_def Let_def accepted_def split: option.split)

lemma modifyLegsQty_sim: "osim m (modifyLegsQty env gid q m)"
  unfolding modifyLegsQty_def Let_def
proof (rule on_oco_sim)
  fix g assume g: "oco_wf m" "oheap m gid = Some g" "cGroupID g = gid"
  show "preserved m (ospawn (OTModifyLegsEnd gid q) (modify_leg env g b1 o1 (modify_leg env g b2 o2 m)))" for b1 o1 b2 o2
    by (rule field_event [OF g(1,2), where g' = g and ts = "[OTModifyLegsEnd gid q, OTDbUpdate o1, OTDbUpdate o2]"])
      (use modify_leg_fields(7) [of env g b1 o1] modify_leg_fields(7) [of env g b2 o2 m]
        in \<open>auto simp: g modify_leg_fields(1-6) fun_upd_idem\<close>)
qed

lemma modify_legs_end_sim: "osim m (modify_legs_end gid q m)"
  unfolding modify_legs_end_def
proof (rule on_oco_sim)
  fix g assume g: "oco_wf m" "oheap m gid = Some g" "cGroupID g = gid"
  show "preserved m (setc (g\<lparr>cFilledQty := q\<rparr>) m)"
    by (rule field_event [OF g(1,2), where g' = "g\<lparr>cFilledQty := q\<rparr>" and ts = "[]"]) (auto simp: g)
qed

lemma unindex_fields:
  "oheap (unindex b m) = oheap m" "ogroups (unindex b m) = ogroups m" "onext (unindex b m) = onext m"
  "otasks (unindex b m) = otasks m" "launches i (unindex b m) = launches i m" "accepted i r (unindex b m) = accepted i r m"
  "brokerIndex (unindex b m) x = Some i \<Longrightarrow> brokerIndex m x = Some i"
  by (auto simp: unindex_def launches_def accepted_def split: if_splits)

lemma cleanup_sim: "osim m (cleanup gid m)"
  unfolding cleanup_def
proof (rule on_oco_sim)
  fix g assume g: "oco_wf m" "oheap m gid = Some g" "cGroupID g = gid"
  show "preserved m (unindex a (unindex b (unindex c (m\<lparr>ogroups := remove1 gid (ogroups m)\<rparr>))))" for a b c
    by (rule quiet_sim [OF g(1)])
      (use oco_wfD [OF g(1)] in \<open>auto simp: unindex_fields(1-6)
        dest!: unindex_fields(7) dest: notin_set_remove1 [rotated] set_mp [OF set_remove1_subset]\<close>)
qed

lemma tag_sim: "osim m (oemit (OTag i j r) m)"
  by (rule osim_logs [of "\<lambda>e. False" 0]) (simp add: logs_emit)

section \<open>Cancellation by the user\<close>

lemma CancelOCOGroup_sim: "osim m (fst (CancelOCOGroup gid m))"
proof (cases "oheap m gid")
  case None then show ?thesis by (simp add: CancelOCOGroup_def)
next
  case (Some g)
  show ?thesis
  proof (cases "gid \<notin> set (ogroups m) \<or> IsTerminal (cState g)")
    case True then show ?thesis using Some by (auto simp: CancelOCOGroup_def)
  next
    case False
    then have nt: "\<not> IsTerminal (cState g)" by simp
    show ?thesis
      unfolding osim_def
    proof
      assume wf: "oco_wf m"
      note id = oco_wfD(1) [OF wf Some]
      show "preserved m (fst (CancelOCOGroup gid m))"
        by (rule live_event [OF wf Some nt, where g' = "g\<lparr>cState := StateCancelled\<rparr>" and
              ts = "[OTCancelLeg gid (cEntryBrokerID g) ''ENTRY'' ''User cancelled OCO'',
                     OTCancelLeg gid (cSLBrokerID g) ''SL'' ''User cancelled OCO'',
                     OTCancelLeg gid (cTPBrokerID g) ''TP'' ''User cancelled OCO'', OTCleanup gid]"])
          (use False Some id in \<open>auto simp: CancelOCOGroup_def Let_def advances_end split: if_splits\<close>)
    qed
  qed
qed

lemma cancel_each_sim: "osim m (cancel_each gids m)"
  unfolding cancel_each_def by (rule osim_fold) (rule CancelOCOGroup_sim)

section \<open>Modification of the stop\<close>

lemma ModifySLLeg_sim: "osim m (fst (ModifySLLeg env gid t l h m))"
  unfolding osim_def
proof
  assume wf: "oco_wf m"
  show "preserved m (fst (ModifySLLeg env gid t l h m))"
  proof (cases "oheap m gid")
    case None then show ?thesis by (simp add: ModifySLLeg_def preserved_refl [OF wf])
  next
    case g: (Some g)
    note id = oco_wfD(1) [OF wf g]
    define ord where "ord = leg_change g (cSLOrderID g) (cSLBrokerID g) OrderTypeStopLoss
      (if 0 < cFilledQty g then cFilledQty g else cQuantity g) l (Some t)"
    obtain m1 e1 where 1: "modify_order_at env ord (cAuth g) m = (m1, e1)" by fastforce
    have l1: "logs (\<lambda>_. False) 0 m m1" using 1 by (rule modify_order_at_logs) simp
    obtain m2 a where 2: "refreshAuth env (cUserID g) (cAuth g) m1 = (m2, a)" by fastforce
    then have l2: "logs (\<lambda>_. False) 0 m1 m2" by (rule refreshAuth_logs) simp_all
    have l12: "logs (\<lambda>_. False) 0 m m2" using logs_trans [OF l1 l2, of 0] by simp
    have keep: "preserved m m'" if "logs (\<lambda>_. False) 0 m m'" for m'
      using osim_logs [OF that] wf by (simp add: osim_def)
    have put: "preserved m m''" if la: "logs (\<lambda>_. False) 0 m ma" and lb: "logs (\<lambda>_. False) 0 (setc g' ma) m''"
      and g': "cGroupID g' = gid" "oconfig g' = oconfig g" "cState g' = cState g" "cEntryFillPrice g' = cEntryFillPrice g"
      for ma m'' g'
      by (rule field_event [OF wf g g', of _ "[]"]) (simp_all add: logs_fields [OF lb] logs_fields [OF la] g')
    have twice: "preserved m m''" if la: "logs (\<lambda>_. False) 0 m ma" and lb: "logs (\<lambda>_. False) 0 (setc g1 ma) mb"
      and lc: "logs (\<lambda>_. False) 0 (setc g' mb) m''" and g1: "cGroupID g1 = gid"
      and g': "cGroupID g' = gid" "oconfig g' = oconfig g" "cState g' = cState g" "cEntryFillPrice g' = cEntryFillPrice g"
      for ma mb m'' g1 g'
      by (rule field_event [OF wf g g', of _ "[]"])
        (simp_all add: logs_fields [OF lc] logs_fields [OF lb] logs_fields [OF la] g' g1)
    have upd: "logs (\<lambda>_. False) 0 x (fst (db_update env ord x))" for x by (rule fst_db_update_logs) simp
    have mod: "logs (\<lambda>_. False) 0 x y" if "modify_order_at env ord b x = (y, r)" for b x y r
      using that by (rule modify_order_at_logs) simp
    show ?thesis
      unfolding ModifySLLeg_def g option.case Let_def ord_def [symmetric] 1 2 prod.case
      by (auto simp: keep l1 l12 preserved_refl [OF wf] id split: option.split prod.split if_splits
          intro: put [OF l1 upd] put [OF l12 upd] put [OF l12 mod] twice [OF l12 mod upd] twice [OF l12 mod])
  qed
qed

lemma evaluateTrailing_sim: "osim m (evaluateTrailing env gid ltp m)"
  unfolding evaluateTrailing_def
proof (rule on_oco_sim)
  fix g assume g: "oco_wf m"
  then show "preserved m (case CalculateTrailingSL g ltp of None \<Rightarrow> m
      | Some (t, l) \<Rightarrow> fst (ModifySLLeg env gid t l ltp m))"
    using ModifySLLeg_sim [of m env gid _ _ ltp] preserved_refl [OF g]
    by (auto simp: osim_def split: option.split)
qed

lemma OnTrailingPrice_sim: "osim m (OnTrailingPrice env idx key ltp m)"
proof -
  have "osim m (trail_if_active env ltp m gid)" for m gid
    unfolding trail_if_active_def
    by (rule on_oco_sim) (use evaluateTrailing_sim [of m env gid ltp] preserved_refl in \<open>auto simp: osim_def\<close>)
  then show ?thesis unfolding OnTrailingPrice_def by (auto split: option.split intro: osim_fold)
qed

lemma poll_sim: "osim m (pollRedisForMissingSymbols env client redis idx m)"
proof -
  have "osim m (poll_group env client r m gid)" for r m gid
    unfolding poll_group_def
    by (rule on_oco_sim)
      (use evaluateTrailing_sim [of m env gid] preserved_refl in \<open>auto simp: osim_def split: option.split\<close>)
  then show ?thesis unfolding pollRedisForMissingSymbols_def by (auto split: option.split intro: osim_fold)
qed


section \<open>Goroutines that write the state\<close>

definition drop_task :: "nat \<Rightarrow> oco_state \<Rightarrow> oco_state" where
  "drop_task i m = m\<lparr>otasks := take i (otasks m) @ drop (Suc i) (otasks m)\<rparr>"

lemma drop_task_simps [simp]:
  "oheap (drop_task i m) = oheap m" "ogroups (drop_task i m) = ogroups m" "brokerIndex (drop_task i m) = brokerIndex m"
  "onext (drop_task i m) = onext m" "accepted j r (drop_task i m) = accepted j r m" "oout (drop_task i m) = oout m"
  by (simp_all add: drop_task_def accepted_def)

lemma drop_task_set: "set (otasks (drop_task i m)) \<subseteq> set (otasks m)"
  by (auto simp: drop_task_def dest: in_set_takeD in_set_dropD)

lemma drop_task_launches:
  assumes "i < length (otasks m)"
  shows "launches j m = launches j (drop_task i m) + (if is_launch j (otasks m ! i) then 1 else 0)"
  using arg_cong [OF id_take_nth_drop [OF assms], of "\<lambda>ts. length (filter (is_launch j) ts)"]
  by (simp add: launches_def drop_task_def)

lemma drop_task_sim: "osim m (drop_task i m)"
proof (cases "i < length (otasks m)")
  case True
  show ?thesis unfolding osim_def
  proof
    assume wf: "oco_wf m"
    show "preserved m (drop_task i m)"
      by (rule quiet_sim [OF wf])
        (use oco_wfD(3) [OF wf] drop_task_set [of i m] drop_task_launches [OF True] in auto)
  qed
qed (simp add: drop_task_def)

lemma task_group_exists:
  assumes "oco_wf m" "i < length (otasks m)" "task_group (otasks m ! i) = Some gid"
  shows "oheap m gid \<noteq> None"
  using oco_wfD(6) [OF assms(1) nth_mem [OF assms(2)] assms(3)] .

text \<open>The goroutine at position \<open>i\<close> owns the state of its group: the group is not settled.\<close>

lemma owned_event:
  assumes wf: "oco_wf m" and i: "i < length (otasks m)" and t: "task_group (otasks m ! i) = Some gid" "writes_state (otasks m ! i)"
    and g: "oheap m gid = Some g" and g': "advances g g'" "cGroupID g' = gid"
    and m': "oheap m' = (oheap m)(gid \<mapsto> g')" "ogroups m' = ogroups m" "onext m' = onext m"
      "\<And>b i. brokerIndex m' b = Some i \<Longrightarrow> brokerIndex m b = Some i \<or> i = gid"
      "set (otasks m') \<subseteq> set (otasks (drop_task i m)) \<union> set ts" "\<And>j. launches j m' \<le> launches j (drop_task i m)"
      "\<And>i r. leg_role r \<Longrightarrow> accepted i r m' = accepted i r m"
    and ts: "\<And>t. t \<in> set ts \<Longrightarrow> task_group t = Some gid \<and> \<not> is_launch gid t"
  shows "preserved m m'"
proof (rule update_sim [OF wf g g'(1) m'(1)])
  note w = oco_wfD [OF wf]
  show "distinct (ogroups m')" "set (ogroups m') \<subseteq> insert gid (set (ogroups m))" using w(3) m'(2) by auto
  show "brokerIndex m b = Some j \<or> j = gid" if "brokerIndex m' b = Some j" for b j using m'(4) that .
  show "t \<in> set (otasks m) \<or> j = gid" if "t \<in> set (otasks m')" "task_group t = Some j" for t j
    using m'(5) that ts(1) drop_task_set [of i m] by fastforce
  show "onext m \<le> onext m'" by (simp add: m')
  show "launches j m' + accepted j r m' \<le> launches j m + accepted j r m \<or>
        j = gid \<and> cState g' \<noteq> StatePendingEntry \<and> launches j m' + accepted j r m' \<le> 1" if "leg_role r" for j r
    using m'(6) [of j] m'(7) [OF that, of j] drop_task_launches [OF i, of j] by simp
  have "busy gid m" using t i unfolding busy_def by (intro bexI [of _ "otasks m ! i"]) auto
  then show "\<not> busy gid m' \<and> cState g' = cState g" if "settled gid m" using that by (simp add: settled_def)
qed

lemma owned_skip:
  assumes "oco_wf m"
  shows "preserved m (drop_task i m)"
  using drop_task_sim [of m i] assms by (simp add: osim_def)

lemma take_leg_simps [simp]:
  "cGroupID (take_sl b g) = cGroupID g" "oconfig (take_sl b g) = oconfig g"
  "cEntryFillPrice (take_sl b g) = cEntryFillPrice g" "cGroupID (take_tp b g) = cGroupID g"
  "oconfig (take_tp b g) = oconfig g" "cEntryFillPrice (take_tp b g) = cEntryFillPrice g"
  by (simp_all add: take_sl_def take_tp_def)

lemma checkLegs_fields [simp]:
  "ogroups (checkLegsConfirmed env g m) = ogroups m" "onext (checkLegsConfirmed env g m) = onext m"
  "brokerIndex (checkLegsConfirmed env g m) = brokerIndex m" "otasks (checkLegsConfirmed env g m) = otasks m"
  "launches i (checkLegsConfirmed env g m) = launches i m"
  "leg_role r \<Longrightarrow> accepted i r (checkLegsConfirmed env g m) = accepted i r m"
  by (simp_all add: checkLegsConfirmed_def Let_def)

lemma checkLegs_heap:
  "\<exists>s. oheap (checkLegsConfirmed env g m) = (oheap m)(cGroupID g \<mapsto> g\<lparr>cState := s\<rparr>) \<and> (s = cState g \<or> s = StateActive)"
proof -
  have "g\<lparr>cState := cState g\<rparr> = g" by (cases g) simp
  then have "oheap (setc g m) = (oheap m)(cGroupID g \<mapsto> g\<lparr>cState := cState g\<rparr>)" by simp
  then show ?thesis
    unfolding checkLegsConfirmed_def Let_def
    by (cases "cState g = StateLegsSubmitted \<and> (cSLLegConfirmed g \<or> cSLBrokerID g = []) \<and> (cTPLegConfirmed g \<or> cTPBrokerID g = [])")
      (rule exI [of _ StateActive], simp, rule exI [of _ "cState g"], auto)
qed

lemma finish_legs_sim:
  assumes wf: "oco_wf m" and i: "i < length (otasks m)" and t: "otasks m ! i = OTFinishLegs gid slo tpo slRes tpRes partial"
  shows "preserved m (run_otask env (otasks m ! i) (drop_task i m))"
proof (cases "oheap m gid")
  case None then show ?thesis using task_group_exists [OF wf i, of gid] t by simp
next
  case (Some g)
  note id = oco_wfD(1) [OF wf Some]
  note ev = owned_event [OF wf i, of gid g, unfolded t task_group.simps writes_state.simps, OF refl TrueI Some]
  have fin: "preserved m (if partial then ospawn (OTArmTimer gid) x else x)"
    if g': "oheap x = (oheap m)(gid \<mapsto> g')" "oconfig g' = oconfig g" "cEntryFillPrice g' = cEntryFillPrice g" "ophase (cState g') = 2"
      "cGroupID g' = gid" and x: "ogroups x = ogroups m" "onext x = onext m"
      "\<And>b i. brokerIndex x b = Some i \<Longrightarrow> brokerIndex m b = Some i \<or> i = gid"
      "set (otasks x) \<subseteq> set (otasks (drop_task i m)) \<union> set ts" "\<And>j. launches j x \<le> launches j (drop_task i m)"
      "\<And>i r. leg_role r \<Longrightarrow> accepted i r x = accepted i r m"
      "\<And>t. t \<in> set ts \<Longrightarrow> task_group t = Some gid \<and> \<not> is_launch gid t" for x g' ts
    by (rule ev [where g' = g' and ts = "OTArmTimer gid # ts"]) (use g' x in \<open>auto simp: advances_def split: if_splits\<close>)
  have chk: "preserved m (if partial then ospawn (OTArmTimer gid) x else x)"
    if x: "x = broadcast env u e o1 (checkLegsConfirmed env g' m1)" and m1: "oheap m1 = oheap m" "ogroups m1 = ogroups m"
      "onext m1 = onext m" "\<And>b i. brokerIndex m1 b = Some i \<Longrightarrow> brokerIndex m b = Some i \<or> i = gid"
      "otasks m1 = otasks (drop_task i m)" "\<And>j. launches j m1 = launches j (drop_task i m)"
      "\<And>i r. leg_role r \<Longrightarrow> accepted i r m1 = accepted i r m"
      and g': "oconfig g' = oconfig g" "cEntryFillPrice g' = cEntryFillPrice g" "cState g' = StateLegsSubmitted" "cGroupID g' = gid"
    for x u e o1 g' m1
  proof -
    obtain s where s: "oheap (checkLegsConfirmed env g' m1) = (oheap m)(gid \<mapsto> g'\<lparr>cState := s\<rparr>)"
        "s = StateLegsSubmitted \<or> s = StateActive"
      using checkLegs_heap [of env g' m1] g' m1(1) by auto
    show ?thesis
      by (rule fin [where g' = "g'\<lparr>cState := s\<rparr>" and ts = "[]"]) (use s g' in \<open>auto simp: x m1\<close>)
  qed
  show ?thesis
  proof (cases slRes)
    case sl: (Inl e)
    show ?thesis
    proof (cases tpRes)
      case (Inl e')
      show ?thesis unfolding t run_otask.simps Let_def finish_legs_def on_oco_def drop_task_simps Some option.case sl Inl prod.case sum.case
        by (rule fin [where g' = "g\<lparr>cState := StateFailed\<rparr>" and ts = "[OTCleanup gid]"]) (auto simp: id)
    next
      case (Inr b)
      show ?thesis unfolding t run_otask.simps Let_def finish_legs_def on_oco_def drop_task_simps Some option.case sl Inr prod.case sum.case
        by (rule fin [where g' = "(if b \<noteq> [] then g\<lparr>cTPBrokerID := b\<rparr> else g)\<lparr>cState := StateFailed\<rparr>" and
              ts = "[OTCancelLeg gid b ''TP'' ''SL leg failed (no protection)'']"])
          (auto simp: id dest: index_if_index)
    qed
  next
    case sl: (Inr a)
    show ?thesis
    proof (cases tpRes)
      case (Inl e')
      show ?thesis unfolding t run_otask.simps Let_def finish_legs_def on_oco_def drop_task_simps Some option.case sl Inl prod.case sum.case
        by (rule chk [OF refl]) (auto simp: id dest: index_if_index)
    next
      case (Inr b)
      show ?thesis unfolding t run_otask.simps Let_def finish_legs_def on_oco_def drop_task_simps Some option.case sl Inr prod.case sum.case
        by (rule chk [OF refl]) (auto simp: id dest!: index_if_index)
    qed
  qed
qed

lemma cancelLeg_sim:
  assumes wf: "oco_wf m" and i: "i < length (otasks m)" and t: "otasks m ! i = OTCancelLeg gid b l rs"
  shows "preserved m (run_otask env (otasks m ! i) (drop_task i m))"
proof (cases "oheap m gid")
  case None then show ?thesis using task_group_exists [OF wf i, of gid] t by simp
next
  case (Some g)
  have l: "logs is_cancel 3 (drop_task i m) (cancel_attempts env 3 g b (drop_task i m))" by (rule cancel_attempts_logs)
  have "preserved m (ospawn (OTCancelDone gid) (cancel_attempts env 3 g b (drop_task i m)))"
    by (rule owned_event [OF wf i _ _ Some, where g' = g and ts = "[OTCancelDone gid]"])
      (auto simp: t logs_fields [OF l] oco_wfD(1) [OF wf Some] Some fun_upd_idem)
  then show ?thesis using owned_skip [OF wf, of i] by (simp add: t cancelLeg_def on_oco_def Some)
qed

lemma cancel_end_sim:
  assumes wf: "oco_wf m" and i: "i < length (otasks m)" and t: "otasks m ! i = OTCancelDone gid"
  shows "preserved m (run_otask env (otasks m ! i) (drop_task i m))"
proof (cases "oheap m gid")
  case None then show ?thesis using task_group_exists [OF wf i, of gid] t by simp
next
  case (Some g)
  have "preserved m (broadcast env u e o1 (setc (g\<lparr>cState := StateCompleted\<rparr>) (drop_task i m)))" for u e o1
    by (rule owned_event [OF wf i _ _ Some, where g' = "g\<lparr>cState := StateCompleted\<rparr>" and ts = "[]"])
      (auto simp: t oco_wfD(1) [OF wf Some] advances_end)
  then show ?thesis by (simp add: t cancel_leg_end_def on_oco_def Some)
qed

section \<open>Placement\<close>

lemma place_leg_logs:
  assumes "place_leg env leg auth nm m = (m', leg', r)"
  shows "\<exists>es p. m' = m\<lparr>opanic := p, oout := oout m @ es\<rparr> \<and> length (filter is_place es) \<le> 3 \<and>
    (\<forall>i q. leg_role q \<longrightarrow> length (filter (is_accept i q) es)
       \<le> (if leg \<noteq> None \<and> oOCOGroupID (the leg) = Some i \<and> oOCORole (the leg) = Some q \<and> \<not> isl r then 1 else 0))"
proof (cases leg)
  case None
  then show ?thesis using assms by (intro exI [of _ "[]"] exI [of _ "opanic m"]) (auto simp: place_leg_def)
next
  case (Some ord)
  obtain m1 o1 r1 where a: "leg_attempts env maxLegPlacementRetries ord auth m = (m1, o1, r1)" by (metis prod_cases3)
  then obtain es p where e: "m1 = m\<lparr>opanic := p, oout := oout m @ es\<rparr>" "length (filter is_place es) \<le> maxLegPlacementRetries"
      "\<forall>i q. leg_role q \<longrightarrow> length (filter (is_accept i q) es)
       \<le> (if oOCOGroupID ord = Some i \<and> oOCORole ord = Some q \<and> \<not> isl r1 then 1 else 0)"
    using leg_attempts_logs [OF a] by blast
  show ?thesis
  proof (cases r1)
    case (Inr b)
    then have "m' = m1" "r = Inr b" using assms by (simp_all add: place_leg_def Some placeLegWithRetry_def a)
    then show ?thesis using e
      by (intro exI [of _ es] exI [of _ p]) (auto simp: Some Inr maxLegPlacementRetries_def)
  next
    case (Inl x)
    define o2 where "o2 = o1\<lparr>oStatus := StatusFailed, oErrorMessage := Some (nm @ '' leg placement failed after 3 attempts: '' @ x)\<rparr>"
    have "m' = oemit (OUpdate o2) m1" "isl r"
      using assms by (auto simp: place_leg_def Some placeLegWithRetry_def a Inl Let_def db_update_def o2_def)
    then show ?thesis using e
      by (intro exI [of _ "es @ [OUpdate o2]"] exI [of _ p]) (auto simp: oemit_def Inl maxLegPlacementRetries_def)
  qed
qed

lemma leg_orders:
  "sl_order g = Some ord \<Longrightarrow> oOCOGroupID ord = Some (cGroupID g) \<and> oOCORole ord = Some RoleSLLeg"
  "tp_order g = Some ord \<Longrightarrow> oOCOGroupID ord = Some (cGroupID g) \<and> oOCORole ord = Some RoleTPLeg"
  by (auto simp: sl_order_def tp_order_def buildLegOrder_def split: option.splits)

lemma prepare_legs_simps [simp]:
  "cGroupID (prepare_legs i j g) = cGroupID g" "oconfig (prepare_legs i j g) = oconfig g"
  "cState (prepare_legs i j g) = cState g" "cEntryFillPrice (prepare_legs i j g) = cEntryFillPrice g"
  "cAuth (prepare_legs i j g) = cAuth g"
  by (simp_all add: prepare_legs_def Let_def)

lemma create_leg_logs: "logs is_place 0 m (create_leg env leg m)"
  by (auto simp: create_leg_def db_create_def intro!: logs_emit split: option.split)

lemma accepted_append: "accepted i r (m\<lparr>opanic := p, oout := oout m @ es\<rparr>) = accepted i r m + length (filter (is_accept i r) es)"
  by (simp add: accepted_def)

text \<open>
  \<open>placeOCOLegs\<close> in a group that still owns its one launch: afterwards at most one leg of
  each role was accepted.
\<close>

lemma place_sim:
  assumes wf: "oco_wf m" and i: "i < length (otasks m)" and t: "otasks m ! i = OTPlaceLegs gid partial"
  shows "preserved m (run_otask env (otasks m ! i) (drop_task i m))"
proof (cases "oheap m gid")
  case None then show ?thesis using task_group_exists [OF wf i, of gid] t by simp
next
  case g: (Some g)
  note id = oco_wfD(1) [OF wf g]
  define m0 where "m0 = drop_task i m"
  have l0: "launches j m = launches j m0 + (if j = gid then 1 else 0)" for j
    using drop_task_launches [OF i, of j] t by (auto simp: m0_def)
  have m0: "oheap m0 = oheap m" "ogroups m0 = ogroups m" "brokerIndex m0 = brokerIndex m" "onext m0 = onext m"
      "\<And>j r. accepted j r m0 = accepted j r m" "set (otasks m0) \<subseteq> set (otasks m)"
    using drop_task_set [of i m] by (simp_all add: m0_def)
  have one: "launches gid m0 = 0 \<and> accepted gid r m = 0" if "leg_role r" for r
    using oco_wfD(7) [OF wf that, of gid] l0 [of gid] by simp
  have np: "cState g \<noteq> StatePendingEntry"
  proof
    assume "cState g = StatePendingEntry"
    then have "launches gid m = 0" using oco_wfD(8) [OF wf, of RoleSLLeg gid] g by (simp add: pending_or_new_def leg_role_def)
    then show False using l0 [of gid] by simp
  qed
  note ev = owned_event [OF wf i, of gid g, unfolded t task_group.simps writes_state.simps, OF refl TrueI g]
  have failed: "preserved m (let m1 = setc (g\<lparr>cState := StateFailed\<rparr>) m0 in if partial then ospawn (OTArmTimer gid) m1 else m1)"
    unfolding Let_def
    by (rule ev [where g' = "g\<lparr>cState := StateFailed\<rparr>" and ts = "[OTArmTimer gid]"])
      (use m0 m0_def id in \<open>auto simp: advances_end split: if_splits\<close>)
  define g1 where "g1 = prepare_legs (onext m0) (Suc (onext m0)) g"
  define m1 where "m1 = setc g1 (next_id (next_id m0))"
  have put: "preserved m x" if x: "oheap x = oheap m1" "ogroups x = ogroups m1" "brokerIndex x = brokerIndex m1" "onext x = onext m1"
      "set (otasks x) \<subseteq> set (otasks m1) \<union> {OTFinishLegs gid a b c d partial}" "\<And>j. launches j x = launches j m1"
      "\<And>j r. leg_role r \<Longrightarrow> accepted j r x \<le> accepted j r m + (if j = gid then 1 else 0)" for x a b c d
  proof (rule update_sim [OF wf g, of g1])
    show "advances g g1" "oheap x = (oheap m)(gid \<mapsto> g1)"
      by (simp_all add: x m1_def m0 g1_def id advances_def)
    show "distinct (ogroups x)" "set (ogroups x) \<subseteq> insert gid (set (ogroups m))"
      using oco_wfD(3) [OF wf] by (auto simp: x m1_def m0)
    show "onext m \<le> onext x" by (simp add: x m1_def m0)
    show "brokerIndex m b = Some j \<or> j = gid" if "brokerIndex x b = Some j" for b j
      using that by (simp add: x m1_def m0)
    show "t \<in> set (otasks m) \<or> j = gid" if "t \<in> set (otasks x)" "task_group t = Some j" for t j
      using that x(5) m0(6) by (auto simp: m1_def)
    show "launches j x + accepted j r x \<le> launches j m + accepted j r m \<or>
        j = gid \<and> cState g1 \<noteq> StatePendingEntry \<and> launches j x + accepted j r x \<le> 1" if "leg_role r" for j r
      using x(6) [of j] x(7) [OF that, of j] one [OF that] l0 [of j] np by (auto simp: m1_def g1_def)
    have "busy gid m" unfolding busy_def by (rule bexI [OF _ nth_mem [OF i]]) (simp add: t)
    then show "\<not> busy gid x \<and> cState g1 = cState g" if "settled gid m" using that by (simp add: settled_def)
  qed
  show ?thesis
  proof (cases "cAuth g")
    case None
    have "preserved m (m1\<lparr>opanic := True\<rparr>)" by (rule put) (auto simp: m1_def m0)
    then show ?thesis using failed
      by (simp add: t placeOCOLegs_def on_oco_def m0_def [symmetric] m0 g Let_def None g1_def m1_def)
  next
    case (Some auth)
    define sl where "sl = (if 0 < cSLPercent g then sl_order g1 else None)"
    define tp where "tp = (if 0 < cTPPercent g then tp_order g1 else None)"
    define m2 where "m2 = create_leg env tp (create_leg env sl m1)"
    have l2: "logs is_place 0 m1 m2" unfolding m2_def by (rule logs_trans [OF create_leg_logs create_leg_logs]) simp
    obtain m3 sl' slRes where p3: "place_leg env sl auth ''SL'' m2 = (m3, sl', slRes)" by (metis prod_cases3)
    obtain m4 tp' tpRes where p4: "place_leg env tp auth ''TP'' m3 = (m4, tp', tpRes)" by (metis prod_cases3)
    obtain es3 q3 where 3: "m3 = m2\<lparr>opanic := q3, oout := oout m2 @ es3\<rparr>"
      "\<forall>i q. leg_role q \<longrightarrow> length (filter (is_accept i q) es3)
       \<le> (if sl \<noteq> None \<and> oOCOGroupID (the sl) = Some i \<and> oOCORole (the sl) = Some q \<and> \<not> isl slRes then 1 else 0)"
      using place_leg_logs [OF p3] by blast
    obtain es4 q4 where 4: "m4 = m3\<lparr>opanic := q4, oout := oout m3 @ es4\<rparr>"
      "\<forall>i q. leg_role q \<longrightarrow> length (filter (is_accept i q) es4)
       \<le> (if tp \<noteq> None \<and> oOCOGroupID (the tp) = Some i \<and> oOCORole (the tp) = Some q \<and> \<not> isl tpRes then 1 else 0)"
      using place_leg_logs [OF p4] by blast
    have sl: "oOCOGroupID (the sl) = Some gid \<and> oOCORole (the sl) = Some RoleSLLeg" if "sl \<noteq> None"
      using that leg_orders(1) [of g1] by (auto simp: sl_def g1_def id split: if_splits)
    have tp: "oOCOGroupID (the tp) = Some gid \<and> oOCORole (the tp) = Some RoleTPLeg" if "tp \<noteq> None"
      using that leg_orders(2) [of g1] by (auto simp: tp_def g1_def id split: if_splits)
    have acc: "accepted j r m4 \<le> accepted j r m + (if j = gid then 1 else 0)" if r: "leg_role r" for j r
    proof -
      have "accepted j r m4 = accepted j r m2 + length (filter (is_accept j r) es3) + length (filter (is_accept j r) es4)"
        by (simp add: 4(1) 3(1) accepted_def)
      moreover have "accepted j r m2 = accepted j r m" using logs_fields(7) [OF l2 r] by (simp add: m1_def m0)
      moreover have "length (filter (is_accept j r) es3) \<le> (if j = gid \<and> r = RoleSLLeg then 1 else 0)"
        using 3(2) [rule_format, OF r, of j] sl by (auto split: if_splits)
      moreover have "length (filter (is_accept j r) es4) \<le> (if j = gid \<and> r = RoleTPLeg then 1 else 0)"
        using 4(2) [rule_format, OF r, of j] tp by (auto split: if_splits)
      moreover have "RoleSLLeg \<noteq> RoleTPLeg" by (simp add: RoleSLLeg_def RoleTPLeg_def)
      ultimately show ?thesis by (auto split: if_splits)
    qed
    have f4: "oheap m4 = oheap m1" "ogroups m4 = ogroups m1" "brokerIndex m4 = brokerIndex m1" "onext m4 = onext m1"
        "otasks m4 = otasks m1" "\<And>j. launches j m4 = launches j m1"
      using logs_fields [OF l2] by (simp_all add: 4(1) 3(1) launches_def)
    have "preserved m (ospawn (OTFinishLegs gid sl' tp' slRes tpRes partial) m4)"
      by (rule put [of _ sl' tp' slRes tpRes]) (auto simp: f4 acc)
    then show ?thesis
      using failed unfolding t run_otask.simps placeOCOLegs_def on_oco_def m0_def [symmetric] m0(1) g option.case Let_def Some
        g1_def [symmetric] m1_def [symmetric] sl_def [symmetric] tp_def [symmetric] m2_def [symmetric] p3 p4 prod.case
      by simp
  qed
qed

end
