(* ===== verification/OcoRuns.thy ===== *)
theory OcoRuns
  imports OcoSteps
begin

text \<open>
  Runs of the one-cancels-the-other manager: creation and adoption of groups, the start
  from the database, the step relation, and the interpretation of \<open>object_store\<close> that
  gives the properties of all reachable states.
\<close>

section \<open>The scheduler\<close>

lemma run_quiet_task:
  assumes "\<not> writes_state t"
  shows "osim m (run_otask env t m)"
  using assms
proof (cases t)
  case (OTDbUpdate ord)
  then show ?thesis using osim_logs [OF db_update_attempts_logs] by simp
qed (simp_all add: arm_timer_sim startTimer_sim timer_expired_sim modifyLegsQty_sim modify_legs_end_sim cleanup_sim tag_sim)

lemma oschedule_sim: "osim m (oschedule env i m)"
proof (cases "i < length (otasks m)")
  case i: True
  have eq: "oschedule env i m = run_otask env (otasks m ! i) (drop_task i m)"
    using i by (simp add: oschedule_def drop_task_def)
  show ?thesis
  proof (cases "writes_state (otasks m ! i)")
    case False
    show ?thesis unfolding eq by (rule osim_trans [OF drop_task_sim run_quiet_task [OF False]])
  next
    case True
    then consider gid p where "otasks m ! i = OTPlaceLegs gid p"
      | gid a b c d p where "otasks m ! i = OTFinishLegs gid a b c d p"
      | gid b l r where "otasks m ! i = OTCancelLeg gid b l r" | gid where "otasks m ! i = OTCancelDone gid"
      by (cases "otasks m ! i") auto
    then show ?thesis
    proof cases
      case 1 show ?thesis unfolding osim_def eq using place_sim [OF _ i 1] by simp
    next
      case 2 show ?thesis unfolding osim_def eq using finish_legs_sim [OF _ i 2] by simp
    next
      case 3 show ?thesis unfolding osim_def eq using cancelLeg_sim [OF _ i 3] by simp
    next
      case 4 show ?thesis unfolding osim_def eq using cancel_end_sim [OF _ i 4] by simp
    qed
  qed
qed (simp add: oschedule_def)

section \<open>New groups\<close>

text \<open>A group under an identifier that was never used.\<close>

lemma new_group_sim:
  assumes wf: "oco_wf m" and fresh: "onext m \<le> gid" "oheap m gid = None" and id: "cGroupID g = gid"
    and m': "oheap m' = (oheap m)(gid \<mapsto> g)" "ogroups m' = List.insert gid (ogroups m)" "gid < onext m'"
      "\<And>b i. brokerIndex m' b = Some i \<Longrightarrow> brokerIndex m b = Some i \<or> i = gid"
      "set (otasks m') \<subseteq> set (otasks m) \<union> set ts" "\<And>i. launches i m' = launches i m"
      "\<And>i r. leg_role r \<Longrightarrow> accepted i r m' = accepted i r m"
    and ts: "\<And>t. t \<in> set ts \<Longrightarrow> task_group t = None"
  shows "preserved m m'"
  unfolding preserved_def
proof
  note w = oco_wfD [OF wf]
  have "pending_or_new gid m" using fresh by (simp add: pending_or_new_def)
  show "oco_wf m'"
    unfolding oco_wf_def
  proof (intro conjI allI impI ballI)
    fix i h assume h: "oheap m' i = Some h"
    then show "cGroupID h = i" using w(1) id by (auto simp: m'(1) split: if_splits)
    show "i < onext m'" using h w(2) [of i] m'(3) fresh by (fastforce simp: m'(1) split: if_splits)
  next
    show "distinct (ogroups m')" using w(3) by (simp add: m'(2))
  next
    fix i assume "i \<in> set (ogroups m')"
    then show "oheap m' i \<noteq> None" using w(4) by (auto simp: m'(1,2))
  next
    fix b i assume "brokerIndex m' b = Some i"
    then have "i = gid \<or> oheap m i \<noteq> None" using m'(4) w(5) by blast
    then show "oheap m' i \<noteq> None" by (auto simp: m'(1))
  next
    fix t i assume t: "t \<in> set (otasks m')" "task_group t = Some i"
    then have "t \<in> set (otasks m)" using m'(5) ts by fastforce
    then show "oheap m' i \<noteq> None" using w(6) [of t i] t(2) by (simp add: m'(1))
  next
    fix i r assume r: "leg_role r"
    have p: "pending_or_new i m" if "pending_or_new i m'"
      using that fresh(2) by (auto simp: pending_or_new_def m'(1) split: if_splits)
    show "launches i m' + accepted i r m' \<le> (if pending_or_new i m' then 0 else 1)"
      using p w(7) [OF r, of i] w(8) [OF r, of i] by (simp add: m'(6) m'(7) [OF r])
  qed
  show "moved m m'"
    unfolding moved_def
  proof (intro allI impI)
    fix i h assume h: "oheap m i = Some h"
    then have ne: "i \<noteq> gid" using fresh by auto
    have "busy i m" if "busy i m'" using that m'(5) ts unfolding busy_def by fastforce
    then show "\<exists>g'. oheap m' i = Some g' \<and> advances h g' \<and> (settled i m \<longrightarrow> settled i m' \<and> cState g' = cState h)"
      using h ne by (auto simp: m'(1) settled_def)
  qed
qed

lemma fresh_id: "oco_wf m \<Longrightarrow> onext m \<le> gid \<Longrightarrow> oheap m gid = None"
  using oco_wfD(2) [of m gid] by (cases "oheap m gid") auto

lemma CreateOCOEntry_sim:
  "osim m (fst (CreateOCOEntry env u sid eid code ex sy side q tp0 sl tp tr trp auth m))"
  unfolding osim_def
proof
  assume wf: "oco_wf m"
  define gid where "gid = onext m"
  define m0 where "m0 = next_id (next_id m)"
  define g where "g = entry_group gid (Suc gid) u sid eid code ex sy side q sl tp tr trp (Some auth)"
  define ord where "ord = entry_order g auth (entry_limit side tp0)"
  have role: "oOCORole ord = Some RoleEntry" by (simp add: ord_def entry_order_def)
  obtain m1 e1 where 1: "db_create env ord m0 = (m1, e1)" by fastforce
  have l1: "logs is_place 0 m0 m1" using 1 by (rule db_create_logs) simp
  obtain m2 o2 a2 r2 where 2: "entry_attempts env (Suc maxEntryRetries) ord auth m1 = (m2, o2, a2, r2)" by (metis prod_cases4)
  have l2: "logs is_place (Suc maxEntryRetries) m1 m2" using entry_attempts_logs [OF 2 role] .
  have l12: "logs is_place (Suc maxEntryRetries) m0 m2" by (rule logs_trans [OF l1 l2]) simp
  have upd: "logs is_place 0 x (fst (db_update env o1 x))" for x o1 by (rule fst_db_update_logs) simp
  have keep: "preserved m x" if "logs is_place n m0 x" for x n
    by (rule quiet_sim [OF wf]) (use oco_wfD(3) [OF wf] in \<open>simp_all add: logs_fields [OF that] m0_def\<close>)
  have failed: "preserved m (fst (db_update env o1 m2))" for o1
    by (rule keep [OF logs_trans [OF l12 upd]]) (rule order_refl)
  have reg: "preserved m (broadcast env u' ev o3 (fst (db_update env o1 (index_broker b gid (register g' m2)))))"
    if "cGroupID g' = gid" for u' ev o3 o1 b g'
    by (rule new_group_sim [OF wf, of gid g' _ "[]"])
      (use that wf in \<open>auto simp: logs_fields [OF upd] logs_fields [OF l12] m0_def gid_def fresh_id split: if_splits\<close>)
  have "cGroupID g = gid" by (simp add: g_def entry_group_def)
  then show "preserved m (fst (CreateOCOEntry env u sid eid code ex sy side q tp0 sl tp tr trp auth m))"
    unfolding CreateOCOEntry_def Let_def gid_def [symmetric] g_def [symmetric] m0_def [symmetric] ord_def [symmetric] 1 2 prod.case
    using keep [OF l1] failed reg by (auto split: option.split sum.split)
qed

lemma AdoptOrder_sim: "osim m (snd (AdoptOrder ord sl tp tr trp auth m))"
  unfolding osim_def
proof
  assume wf: "oco_wf m"
  have "preserved m (index_broker b (onext m) (register g (ospawn (OTTag i (onext m) r) (next_id m))))"
    if "cGroupID g = onext m" for b g i r
    by (rule new_group_sim [OF wf, of "onext m" g _ "[OTTag i (onext m) r]"])
      (use that wf in \<open>auto simp: fresh_id split: if_splits\<close>)
  then show "preserved m (snd (AdoptOrder ord sl tp tr trp auth m))"
    by (auto simp: AdoptOrder_def Let_def entry_group_def preserved_refl [OF wf] split: option.split)
qed

section \<open>The start from the database\<close>

lemma NewOCOManager_wf: "oco_wf (NewOCOManager n)"
  by (simp add: oco_wf_def NewOCOManager_def launches_def accepted_def)

lemma restore_id: "cGroupID (foldl restore_order g orders) = cGroupID g"
  by (induction orders arbitrary: g) (auto simp: restore_order_def restore_entry_def Let_def)

lemma reconstruct_id: "reconstructGroup gid orders = Some g \<Longrightarrow> cGroupID g = gid \<and> \<not> IsTerminal (cState g)"
  by (auto simp: reconstructGroup_def Let_def restore_id zero_oco_def split: if_splits)

text \<open>While the rows are loaded nothing was placed and only timers run.\<close>

definition loading :: "nat \<Rightarrow> oco_state \<Rightarrow> bool" where
  "loading n m \<longleftrightarrow> n \<le> onext m \<and> oout m = [] \<and> (\<forall>gid g. oheap m gid = Some g \<longrightarrow> cGroupID g = gid \<and> gid < n) \<and>
     distinct (ogroups m) \<and> (\<forall>gid \<in> set (ogroups m). oheap m gid \<noteq> None) \<and>
     (\<forall>b gid. brokerIndex m b = Some gid \<longrightarrow> oheap m gid \<noteq> None) \<and>
     (\<forall>t \<in> set (otasks m). \<exists>gid k. t = OTTimer gid k \<and> oheap m gid \<noteq> None) \<and> \<not> opanic m"

lemma loading_wf: "loading n m \<Longrightarrow> oco_wf m"
proof -
  assume l: "loading n m"
  then have "launches gid m = 0" for gid
    unfolding loading_def launches_def by (auto simp: filter_empty_conv)
  then show ?thesis using l unfolding oco_wf_def loading_def accepted_def
    by (fastforce intro: less_le_trans)
qed

lemma loading_update:
  assumes l: "loading n m" and gid: "gid < n" "cGroupID g = gid"
    and m': "oheap m' = (oheap m)(gid \<mapsto> g)" "onext m \<le> onext m'" "oout m' = []" "distinct (ogroups m')"
      "set (ogroups m') \<subseteq> insert gid (set (ogroups m))" "\<not> opanic m'"
      "\<And>b i. brokerIndex m' b = Some i \<Longrightarrow> brokerIndex m b = Some i \<or> i = gid"
      "\<And>t. t \<in> set (otasks m') \<Longrightarrow> t \<in> set (otasks m) \<or> (\<exists>k. t = OTTimer gid k)"
  shows "loading n m'"
proof -
  have old: "oheap m' i \<noteq> None" if "i = gid \<or> oheap m i \<noteq> None" for i using that by (auto simp: m'(1))
  note d = l [unfolded loading_def]
  show ?thesis
    unfolding loading_def
  proof (intro conjI allI impI ballI)
    show "n \<le> onext m'" using d m'(2) by linarith
    fix i h assume "oheap m' i = Some h"
    then show "cGroupID h = i" "i < n" using d gid by (auto simp: m'(1) split: if_splits)
  next
    fix i assume "i \<in> set (ogroups m')" then show "oheap m' i \<noteq> None" using d m'(5) old by blast
  next
    fix b i assume "brokerIndex m' b = Some i" then show "oheap m' i \<noteq> None" using d m'(7) old by blast
  next
    fix t assume t: "t \<in> set (otasks m')"
    show "\<exists>i k. t = OTTimer i k \<and> oheap m' i \<noteq> None"
    proof (cases "t \<in> set (otasks m)")
      case True
      then obtain i k where "t = OTTimer i k" "oheap m i \<noteq> None" using d by blast
      then show ?thesis using old by blast
    next
      case False
      then show ?thesis using m'(8) [OF t] old by blast
    qed
  qed (use m' in auto)
qed

lemma reload_group_loading:
  assumes l: "loading n m" and gid: "gid < n"
  shows "loading n (reload_group orders m gid)"
proof (cases "reconstructGroup gid (filter (\<lambda>ord. oOCOGroupID ord = Some gid) orders)")
  case None then show ?thesis using l by (simp add: reload_group_def)
next
  case (Some g)
  have id: "cGroupID g = gid" using reconstruct_id [OF Some] by simp
  define m1 where "m1 = index_if (cTPBrokerID g) gid (index_if (cSLBrokerID g) gid (index_if (cEntryBrokerID g) gid (register g m)))"
  have l1: "loading n m1"
    by (rule loading_update [OF l gid id]) (use l id in \<open>auto simp: m1_def loading_def dest!: index_if_index\<close>)
  define g2 where "g2 = g\<lparr>cPartialFillTimerStarted := True, cPartialFillCancelFunc := Some (onext m1)\<rparr>"
  have eq: "startPartialFillTimer gid (setc (g\<lparr>cPartialFillTimerStarted := True\<rparr>) m1) =
      ospawn (OTTimer gid (onext m1)) (setc g2 (next_id (setc (g\<lparr>cPartialFillTimerStarted := True\<rparr>) m1)))"
    using id by (simp add: startPartialFillTimer_def on_oco_def g2_def)
  have "cGroupID g2 = gid" using id by (simp add: g2_def)
  then have "loading n (startPartialFillTimer gid (setc (g\<lparr>cPartialFillTimerStarted := True\<rparr>) m1))"
    unfolding eq by (intro loading_update [OF l1 gid, of g2]) (use l1 id in \<open>auto simp: loading_def\<close>)
  then show ?thesis using l1 by (simp add: reload_group_def Some Let_def m1_def)
qed

lemma reload_loading:
  "loading n m \<Longrightarrow> \<forall>gid \<in> set gids. gid < n \<Longrightarrow> loading n (foldl (reload_group orders) m gids)"
  by (induction gids arbitrary: m) (auto simp: reload_group_loading)

lemma oco_start_loading: "oco_start m \<Longrightarrow> \<exists>n. loading n m"
proof (elim oco_start.cases)
  fix orders n
  assume m: "m = fst (ReloadOCO (Some orders) (NewOCOManager n))"
    and o: "\<And>ord. ord \<in> set orders \<Longrightarrow> oOrderID ord < n \<and> (\<forall>gid. oOCOGroupID ord = Some gid \<longrightarrow> gid < n)"
  have "loading n (NewOCOManager n)" by (simp add: loading_def NewOCOManager_def)
  moreover have "\<forall>gid \<in> set (group_ids orders). gid < n" using o by (force simp: group_ids_def)
  ultimately show "\<exists>n. loading n m" using reload_loading [of n] m by (intro exI [of _ n]) (simp add: ReloadOCO_def)
qed

lemma oco_start_wf: "oco_start m \<Longrightarrow> oco_wf m"
  using oco_start_loading loading_wf by blast

section \<open>Steps and runs\<close>

lemma oco_step_sim: "oco_step env m m' \<Longrightarrow> osim m m'"
  by (induction rule: oco_step.induct)
    (auto simp: CancelAllGroupsByUser_def CancelOCOGroupsByStrategy_def CancelOCOGroupsBySymbol_def
      intro: CreateOCOEntry_sim AdoptOrder_sim HandleOCOUpdate_sim oschedule_sim CancelOCOGroup_sim cancel_each_sim
        OnTrailingPrice_sim poll_sim)

interpretation oco_store: object_store "oco_step env" oco_wf oheap advances
proof
  fix s s' k x assume "oco_wf s" "oco_step env s s'"
  then have p: "preserved s s'" using oco_step_sim by (simp add: osim_def)
  then show "oco_wf s'" by (simp add: preserved_def)
  show "\<exists>y. oheap s' k = Some y \<and> advances x y" if "oheap s k = Some x"
    using p that unfolding preserved_def moved_def by blast
qed (auto intro: advances_trans)

lemma oco_reachable_wf: "oco_reachable env m \<Longrightarrow> oco_wf m"
  by (induction rule: oco_reachable.induct) (auto intro: oco_start_wf oco_store.step_good)

lemma oco_settled_run:
  assumes "(oco_step env)\<^sup>*\<^sup>* m m'" "oco_wf m" "settled gid m" "oheap m gid = Some g"
  shows "\<exists>g'. oheap m' gid = Some g' \<and> cState g' = cState g \<and> settled gid m'"
  using assms
proof (induction rule: rtranclp_induct)
  case (step a b)
  then obtain g1 where 1: "oheap a gid = Some g1" "cState g1 = cState g" "settled gid a" by blast
  have "moved a b"
    using oco_step_sim [OF step(2)] oco_store.run_good [OF step(1) step(4)] by (simp add: osim_def preserved_def)
  then show ?case using 1 unfolding moved_def by fastforce
qed auto

end
