(* ===== verification/OcoProps.thy ===== *)
theory OcoProps
  imports OcoRuns
begin

text \<open>
  Properties of all runs of the one-cancels-the-other manager, with a demonstration run
  as their witness: an entry for ten shares filled at 100, a stop at half and a target at
  twice the fill, a broker that accepts everything.
\<close>

section \<open>The demonstration run\<close>

definition demo_auth :: AuthContext where
  "demo_auth = \<lparr> auUserId = ''U'', auBearerToken = ''T'', auAppId = ''A'', auSource = ''S'' \<rparr>"

definition demo_oco_env :: oco_env where
  "demo_oco_env = \<lparr> xCreate = (\<lambda>_ _. None), xUpdate = (\<lambda>_ _. None),
     xPlace = (\<lambda>_ ord _. Inr (if oOCORole ord = Some RoleSLLeg then ''B2''
                               else if oOCORole ord = Some RoleTPLeg then ''B3'' else ''B1'')),
     xModify = (\<lambda>_ _ _. None), xCancel = (\<lambda>_ _ _ _ _. None), xCreds = None, xBroadcast = False \<rparr>"

definition demo_created :: oco_state where
  "demo_created = fst (CreateOCOEntry demo_oco_env ''U'' ''ST'' 9 77 ''NSE'' ''TCS'' ''BUY'' 10 100 50 100 True 0
     demo_auth (NewOCOManager 1))"

definition demo_event :: "string \<Rightarrow> float64 \<Rightarrow> Order" where
  "demo_event b p = zero_order\<lparr>oIndiraOrderID := Some b, oFilledPrice := Some p\<rparr>"

definition demo_filled :: oco_state where
  "demo_filled = HandleOCOUpdate demo_oco_env (demo_event ''B1'' 100) ''EXECUTED'' demo_created"

definition demo_placed :: oco_state where "demo_placed = oschedule demo_oco_env 0 demo_filled"
definition demo_active :: oco_state where "demo_active = oschedule demo_oco_env 0 demo_placed"

definition demo_stopped :: oco_state where
  "demo_stopped = HandleOCOUpdate demo_oco_env (demo_event ''B2'' 50) ''TRADED'' demo_active"

definition demo_cancelled :: oco_state where "demo_cancelled = oschedule demo_oco_env 0 demo_stopped"
definition demo_closed :: oco_state where "demo_closed = oschedule demo_oco_env 0 demo_cancelled"

lemma demo_created_reachable: "oco_reachable demo_oco_env demo_created"
proof -
  have "oco_start (fst (ReloadOCO (Some []) (NewOCOManager 1)))" by (rule oco_start.intros) simp
  then have "oco_reachable demo_oco_env (NewOCOManager 1)"
    by (intro oreach_init) (simp add: ReloadOCO_def group_ids_def)
  then show ?thesis unfolding demo_created_def
    by (rule oreach_step) (rule step_create, simp add: NewOCOManager_def)
qed

definition demo_oco :: OCOGroup where
  "demo_oco = (entry_group 1 2 ''U'' ''ST'' 9 77 ''NSE'' ''TCS'' ''BUY'' 10 50 100 True 0 (Some demo_auth))\<lparr>cEntryBrokerID := ''B1''\<rparr>"

lemma demo_created_eq: "oheap demo_created = [1 \<mapsto> demo_oco]" "ogroups demo_created = [1]"
  "brokerIndex demo_created = [''B1'' \<mapsto> 1]" "otasks demo_created = []" "onext demo_created = 3" "\<not> opanic demo_created"
  by (simp_all add: demo_created_def CreateOCOEntry_def NewOCOManager_def demo_oco_env_def db_create_def db_update_def
      Let_def maxEntryRetries_def numeral_2_eq_2 place_order_def entry_order_def next_id_def oemit_def register_def setc_def
      index_broker_def broadcast_def demo_oco_def entry_group_def zero_oco_def RoleEntry_def RoleSLLeg_def RoleTPLeg_def)

definition demo_oco_filled :: OCOGroup where
  "demo_oco_filled = demo_oco\<lparr>cFilledQty := 10, cEntryFillPrice := 100, cHighestPrice := 100, cState := StatePlacingLegs\<rparr>"

lemmas demo_fields = demo_oco_def entry_group_def zero_oco_def

lemma demo_filled_eq: "demo_filled = ospawn (OTPlaceLegs 1 False) (setc demo_oco_filled demo_created)"
  by (simp add: demo_filled_def HandleOCOUpdate_def demo_event_def demo_created_eq on_oco_def route_update_def
      handleEntryUpdate_def executed_status_def trim_space_def is_space_def to_upper_def upper_char_def
      event_fill_price_def zero_order_def demo_oco_filled_def demo_fields)

lemma demo_oco_prices: "CalculateSLFromFill demo_oco_filled 100 = (50, roundNSE (fmul 50 below_buffer))"
  "CalculateTPFromFill demo_oco_filled 100 = 200"
proof -
  have r: "roundNSE 50 = 50" "roundNSE 200 = 200" by (simp_all add: roundNSE_def nse_paise_def tick_arg_def f64_eval go_div_def i64_def)
  have h: "rnd (1 / 2) = 1 / 2" "rnd 50 = 50" "rnd 1 = 1" "rnd 2 = 2" "rnd 200 = 200"
    by (simp_all add: f64_eval)
  show "CalculateSLFromFill demo_oco_filled 100 = (50, roundNSE (fmul 50 below_buffer))"
    by (simp add: CalculateSLFromFill_def demo_oco_filled_def demo_fields h r Let_def)
  show "CalculateTPFromFill demo_oco_filled 100 = 200"
    by (simp add: CalculateTPFromFill_def demo_oco_filled_def demo_fields h r)
qed


section \<open>A broker that accepts\<close>

text \<open>The legs of a group: its two orders under the identifiers the manager gives them.\<close>

definition accepts :: "oco_env \<Rightarrow> string \<Rightarrow> string \<Rightarrow> bool" where
  "accepts env slB tpB \<longleftrightarrow> (\<forall>l ord a. (oOCORole ord = Some RoleSLLeg \<longrightarrow> xPlace env l ord a = Inr slB) \<and>
     (oOCORole ord = Some RoleTPLeg \<longrightarrow> xPlace env l ord a = Inr tpB))"

lemma placeLeg_accepted:
  assumes "xPlace env (oout m) ord (Some auth) = Inr b"
  shows "placeLegWithRetry env ord auth nm m =
    (oemit (OUpdate (ord\<lparr>oIndiraOrderID := Some b, oStatus := StatusSubmitted\<rparr>)) (oemit (OPlace ord (Some auth) (Inr b)) m),
     ord\<lparr>oIndiraOrderID := Some b, oStatus := StatusSubmitted\<rparr>, Inr b)"
  using assms
  by (simp add: placeLegWithRetry_def maxLegPlacementRetries_def numeral_3_eq_3 place_order_def db_update_def Let_def)

lemma placed_state:
  assumes g: "oheap m gid = Some g" and auth: "cAuth g = Some auth" and sl: "0 < cSLPercent g" "sl_sane g"
    and tp: "0 < cTPPercent g" "tp_sane g" and acc: "accepts env slB tpB" and id: "cGroupID g = gid"
  shows "\<exists>es slo tpo. placeOCOLegs env gid partial m =
    ospawn (OTFinishLegs gid (Some slo) (Some tpo) (Inr slB) (Inr tpB) partial)
      ((setc (prepare_legs (onext m) (Suc (onext m)) g) (next_id (next_id m)))\<lparr>oout := oout m @ es\<rparr>)"
proof -
  define g1 where "g1 = prepare_legs (onext m) (Suc (onext m)) g"
  define m1 where "m1 = setc g1 (next_id (next_id m))"
  have a1: "cAuth g1 = Some auth" by (simp add: g1_def auth)
  obtain slo where slo: "sl_order g1 = Some slo" by (simp add: sl_order_def buildLegOrder_def a1)
  obtain tpo where tpo: "tp_order g1 = Some tpo" by (simp add: tp_order_def buildLegOrder_def a1)
  have x: "xPlace env l slo (Some auth) = Inr slB" "xPlace env l tpo (Some auth) = Inr tpB" for l
    using acc leg_orders(1) [OF slo] leg_orders(2) [OF tpo] by (simp_all add: accepts_def)
  have "placeOCOLegs env gid partial m = (case place_leg env (Some slo) auth ''SL'' (create_leg env (Some tpo) (create_leg env (Some slo) m1)) of
      (m3, slOrder', slRes) \<Rightarrow> (case place_leg env (Some tpo) auth ''TP'' m3 of (m4, tpOrder', tpRes) \<Rightarrow>
        ospawn (OTFinishLegs gid slOrder' tpOrder' slRes tpRes partial) m4))"
    using sl tp auth by (simp add: placeOCOLegs_def on_oco_def g Let_def g1_def [symmetric] m1_def [symmetric] slo tpo)
  then show ?thesis
    unfolding m1_def [symmetric, unfolded g1_def]
    by (simp add: place_leg_def placeLeg_accepted x create_leg_def db_create_def m1_def g1_def oemit_def setc_def next_id_def, blast)
qed

lemma finished_state:
  assumes g: "oheap m gid = Some g" and b: "slB \<noteq> []" "tpB \<noteq> []" and id: "cGroupID g = gid"
  shows "oheap (finish_legs env gid slo (Inr slB) (Inr tpB) m) gid =
      Some ((take_tp tpB (take_sl slB g))\<lparr>cState := StateActive\<rparr>)"
    "brokerIndex (finish_legs env gid slo (Inr slB) (Inr tpB) m) = (brokerIndex m)(slB \<mapsto> gid, tpB \<mapsto> gid)"
    "otasks (finish_legs env gid slo (Inr slB) (Inr tpB) m) = otasks m"
    "ogroups (finish_legs env gid slo (Inr slB) (Inr tpB) m) = ogroups m"
  using b by (simp_all add: finish_legs_def on_oco_def g checkLegsConfirmed_def Let_def take_sl_def take_tp_def index_if_def id)

lemma oschedule_last: "oschedule env (length ts) (m\<lparr>otasks := ts @ [t]\<rparr>) = run_otask env t (m\<lparr>otasks := ts\<rparr>)"
  by (simp add: oschedule_def)

lemma ospawn_last: "oschedule env (length (otasks m)) (ospawn t m) = run_otask env t m"
  by (simp add: oschedule_def ospawn_def)

lemma entry_filled:
  assumes reg: "gid \<in> set (ogroups m)" "oheap m gid = Some g" "cGroupID g = gid" and st: "cState g = StatePendingEntry" "\<not> cPartialFillActive g"
    and ev: "oIndiraOrderID ord = Some (cEntryBrokerID g)" "brokerIndex m (cEntryBrokerID g) = Some gid"
      "executed_status (to_upper (trim_space s))" "0 < event_fill_price ord"
  shows "HandleOCOUpdate env ord s m = ospawn (OTPlaceLegs gid False)
    (setc (g\<lparr>cFilledQty := cQuantity g, cEntryFillPrice := event_fill_price ord,
             cHighestPrice := event_fill_price ord, cState := StatePlacingLegs\<rparr>) m)"
  using assms by (simp add: HandleOCOUpdate_def on_oco_def route_update_def handleEntryUpdate_def Let_def)

section \<open>From the fill of the entry to two live legs\<close>

lemma entry_to_active:
  assumes "oco_reachable env m" "gid \<in> set (ogroups m)" "oheap m gid = Some g"
    and "cState g = StatePendingEntry" "\<not> cPartialFillActive g" "cAuth g = Some auth"
    and "oIndiraOrderID ord = Some (cEntryBrokerID g)" "brokerIndex m (cEntryBrokerID g) = Some gid"
    and "executed_status (to_upper (trim_space s))" "0 < event_fill_price ord"
    and "0 < cSLPercent g" "0 < cTPPercent g"
    and "sl_sane (g\<lparr>cEntryFillPrice := event_fill_price ord\<rparr>)" "tp_sane (g\<lparr>cEntryFillPrice := event_fill_price ord\<rparr>)"
    and "accepts env slB tpB" "slB \<noteq> []" "tpB \<noteq> []"
  shows "\<exists>g'. oheap (oschedule env (length (otasks m)) (oschedule env (length (otasks m)) (HandleOCOUpdate env ord s m))) gid = Some g' \<and>
    cState g' = StateActive \<and> cSLBrokerID g' = slB \<and> cTPBrokerID g' = tpB \<and> cFilledQty g' = cQuantity g \<and>
    (cSLTriggerPrice g', cSLLimitPrice g') = CalculateSLFromFill g (event_fill_price ord) \<and>
    cTPLimitPrice g' = CalculateTPFromFill g (event_fill_price ord) \<and>
    IsKnownOCOBrokerID slB (oschedule env (length (otasks m)) (oschedule env (length (otasks m)) (HandleOCOUpdate env ord s m))) \<and>
    IsKnownOCOBrokerID tpB (oschedule env (length (otasks m)) (oschedule env (length (otasks m)) (HandleOCOUpdate env ord s m)))"
proof -
  note id = oco_wfD(1) [OF oco_reachable_wf [OF assms(1)] assms(3)]
  define p where "p = event_fill_price ord"
  define g1 where "g1 = g\<lparr>cFilledQty := cQuantity g, cEntryFillPrice := p, cHighestPrice := p, cState := StatePlacingLegs\<rparr>"
  define m1 where "m1 = setc g1 m"
  have e1: "HandleOCOUpdate env ord s m = ospawn (OTPlaceLegs gid False) m1"
    unfolding m1_def g1_def p_def by (rule entry_filled [OF assms(2,3) id assms(4,5,7-10)])
  have calc: "CalculateSLFromFill g1 x = CalculateSLFromFill g x" "CalculateTPFromFill g1 x = CalculateTPFromFill g x" for x
    by (simp_all add: g1_def CalculateSLFromFill_def CalculateTPFromFill_def)
  have sane: "sl_sane g1" "tp_sane g1"
    using assms(13,14) by (simp_all add: sl_sane_def tp_sane_def g1_def p_def CalculateSLFromFill_def CalculateTPFromFill_def)
  define g2 where "g2 = prepare_legs (onext m1) (Suc (onext m1)) g1"
  have "\<exists>es slo tpo. placeOCOLegs env gid False m1 = ospawn (OTFinishLegs gid (Some slo) (Some tpo) (Inr slB) (Inr tpB) False)
      ((setc g2 (next_id (next_id m1)))\<lparr>oout := oout m1 @ es\<rparr>)"
    unfolding g2_def
    by (rule placed_state) (use assms id sane in \<open>simp_all add: m1_def g1_def\<close>)
  then obtain es slo tpo where e2: "placeOCOLegs env gid False m1 = ospawn (OTFinishLegs gid (Some slo) (Some tpo) (Inr slB) (Inr tpB) False)
      ((setc g2 (next_id (next_id m1)))\<lparr>oout := oout m1 @ es\<rparr>)" by blast
  define m2 where "m2 = (setc g2 (next_id (next_id m1)))\<lparr>oout := oout m1 @ es\<rparr>"
  have g2: "oheap m2 gid = Some g2" "cGroupID g2 = gid" using id by (simp_all add: m2_def g2_def g1_def)
  have n: "otasks m1 = otasks m" "otasks m2 = otasks m" by (simp_all add: m2_def m1_def)
  have e3: "oschedule env (length (otasks m)) (oschedule env (length (otasks m)) (HandleOCOUpdate env ord s m)) =
      finish_legs env gid (Some slo) (Inr slB) (Inr tpB) m2"
    using ospawn_last [of env m1 "OTPlaceLegs gid False"] ospawn_last [of env m2] by (simp add: e1 n e2 m2_def [symmetric])
  show ?thesis
    unfolding e3 IsKnownOCOBrokerID_def finished_state(2) [OF g2(1) assms(16,17) g2(2)] finished_state(1) [OF g2(1) assms(16,17) g2(2)]
    using assms(11,12,16,17) calc
    by (simp add: take_tp_def take_sl_def g2_def prepare_legs_def Let_def p_def [symmetric] g1_def)
qed


text \<open>
  C17. When the entry of a registered group executes and the broker accepts both legs, the
  two goroutines it starts bring the group to \<open>ACTIVE\<close>, with both broker identifiers
  recorded and indexed and with the prices computed from the fill.
\<close>

theorem entry_fill_reaches_active:
  assumes "oco_reachable env m" "gid \<in> set (ogroups m)" "oheap m gid = Some g"
    and "cState g = StatePendingEntry" "\<not> cPartialFillActive g" "cAuth g = Some auth"
    and "oIndiraOrderID ord = Some (cEntryBrokerID g)" "brokerIndex m (cEntryBrokerID g) = Some gid"
    and "executed_status (to_upper (trim_space s))" "0 < event_fill_price ord"
    and "0 < cSLPercent g" "0 < cTPPercent g"
    and "sl_sane (g\<lparr>cEntryFillPrice := event_fill_price ord\<rparr>)" "tp_sane (g\<lparr>cEntryFillPrice := event_fill_price ord\<rparr>)"
    and "accepts env slB tpB" "slB \<noteq> []" "tpB \<noteq> []"
  shows "\<exists>g'. oheap (oschedule env (length (otasks m)) (oschedule env (length (otasks m)) (HandleOCOUpdate env ord s m))) gid = Some g' \<and>
    cState g' = StateActive \<and> cSLBrokerID g' = slB \<and> cTPBrokerID g' = tpB \<and> cFilledQty g' = cQuantity g \<and>
    (cSLTriggerPrice g', cSLLimitPrice g') = CalculateSLFromFill g (event_fill_price ord) \<and>
    cTPLimitPrice g' = CalculateTPFromFill g (event_fill_price ord) \<and>
    IsKnownOCOBrokerID slB (oschedule env (length (otasks m)) (oschedule env (length (otasks m)) (HandleOCOUpdate env ord s m))) \<and>
    IsKnownOCOBrokerID tpB (oschedule env (length (otasks m)) (oschedule env (length (otasks m)) (HandleOCOUpdate env ord s m)))"
  using assms by (rule entry_to_active)

lemma demo_accepts: "accepts demo_oco_env ''B2'' ''B3''"
  by (simp add: accepts_def demo_oco_env_def RoleSLLeg_def RoleTPLeg_def)

lemma demo_sane: "sl_sane (demo_oco\<lparr>cEntryFillPrice := 100\<rparr>)" "tp_sane (demo_oco\<lparr>cEntryFillPrice := 100\<rparr>)"
proof -
  have "CalculateSLFromFill (demo_oco\<lparr>cEntryFillPrice := 100\<rparr>) 100 = CalculateSLFromFill demo_oco_filled 100"
    "CalculateTPFromFill (demo_oco\<lparr>cEntryFillPrice := 100\<rparr>) 100 = CalculateTPFromFill demo_oco_filled 100"
    by (simp_all add: CalculateSLFromFill_def CalculateTPFromFill_def demo_oco_filled_def)
  then show "sl_sane (demo_oco\<lparr>cEntryFillPrice := 100\<rparr>)" "tp_sane (demo_oco\<lparr>cEntryFillPrice := 100\<rparr>)"
    by (simp_all add: sl_sane_def tp_sane_def demo_oco_prices demo_fields)
qed

lemma demo_entry_event:
  "oIndiraOrderID (demo_event b p) = Some b" "oFilledPrice (demo_event b p) = Some p" "oOCORole (demo_event b p) = None"
  "0 < p \<Longrightarrow> event_fill_price (demo_event b p) = p" "executed_status (to_upper (trim_space ''EXECUTED''))"
  "executed_status (to_upper (trim_space ''TRADED''))"
  by (simp_all add: demo_event_def event_fill_price_def zero_order_def executed_status_def trim_space_def is_space_def
      to_upper_def upper_char_def)

theorem entry_fill_reaches_active_witness:
  "\<exists>g'. oheap demo_active 1 = Some g' \<and> cState g' = StateActive \<and> cSLBrokerID g' = ''B2'' \<and> cTPBrokerID g' = ''B3''"
proof -
  have e: "demo_active = oschedule demo_oco_env (length (otasks demo_created)) (oschedule demo_oco_env (length (otasks demo_created))
      (HandleOCOUpdate demo_oco_env (demo_event ''B1'' 100) ''EXECUTED'' demo_created))"
    by (simp add: demo_active_def demo_placed_def demo_filled_def demo_created_eq)
  show ?thesis
    unfolding e
    using entry_fill_reaches_active [OF demo_created_reachable, where gid = 1 and g = demo_oco and auth = demo_auth and
        ord = "demo_event ''B1'' 100" and s = "''EXECUTED''" and slB = "''B2''" and tpB = "''B3''"] demo_accepts demo_sane
    by (auto simp: demo_created_eq demo_entry_event demo_fields)
qed

lemma demo_active_eq: "oheap demo_active = [1 \<mapsto> (take_tp ''B3'' (take_sl ''B2'' (prepare_legs 3 4 demo_oco_filled)))\<lparr>cState := StateActive\<rparr>]"
  "ogroups demo_active = [1]" "brokerIndex demo_active = [''B1'' \<mapsto> 1, ''B2'' \<mapsto> 1, ''B3'' \<mapsto> 1]" "otasks demo_active = []"
  "\<not> opanic demo_active" "\<not> opanic demo_placed"
proof -
  define m1 where "m1 = setc demo_oco_filled demo_created"
  have f: "cGroupID demo_oco_filled = 1" "cAuth demo_oco_filled = Some demo_auth" "0 < cSLPercent demo_oco_filled"
      "0 < cTPPercent demo_oco_filled" "cEntryFillPrice demo_oco_filled = 100" "cOrderSide demo_oco_filled = ''BUY''"
    by (simp_all add: demo_oco_filled_def demo_fields)
  have h: "oheap m1 1 = Some demo_oco_filled" "onext m1 = 3" "otasks m1 = []" "ogroups m1 = [1]" "brokerIndex m1 = [''B1'' \<mapsto> 1]"
      "\<not> opanic m1" "oheap m1 = [1 \<mapsto> demo_oco_filled]"
    using f by (simp_all add: m1_def demo_created_eq)
  have sane: "sl_sane demo_oco_filled" "tp_sane demo_oco_filled"
    by (simp_all add: sl_sane_def tp_sane_def f demo_oco_prices)
  obtain es slo tpo where e2: "placeOCOLegs demo_oco_env 1 False m1 = ospawn (OTFinishLegs 1 (Some slo) (Some tpo) (Inr ''B2'') (Inr ''B3'') False)
      ((setc (prepare_legs 3 4 demo_oco_filled) (next_id (next_id m1)))\<lparr>oout := oout m1 @ es\<rparr>)"
    using placed_state [OF h(1) f(2,3) sane(1) f(4) sane(2) demo_accepts f(1), of False] by (auto simp: h(2))
  define m2 where "m2 = (setc (prepare_legs 3 4 demo_oco_filled) (next_id (next_id m1)))\<lparr>oout := oout m1 @ es\<rparr>"
  have g2: "oheap m2 1 = Some (prepare_legs 3 4 demo_oco_filled)" "cGroupID (prepare_legs 3 4 demo_oco_filled) = 1"
    using f by (simp_all add: m2_def)
  have a: "demo_active = finish_legs demo_oco_env 1 (Some slo) (Inr ''B2'') (Inr ''B3'') m2"
    using ospawn_last [of demo_oco_env m1 "OTPlaceLegs 1 False"] ospawn_last [of demo_oco_env m2]
    by (simp add: demo_active_def demo_placed_def demo_filled_eq m1_def [symmetric] h e2 m2_def [symmetric] del: One_nat_def)
      (simp add: m2_def h del: One_nat_def)
  have pl: "demo_placed = placeOCOLegs demo_oco_env 1 False m1"
    using ospawn_last [of demo_oco_env m1 "OTPlaceLegs 1 False"]
    by (simp add: demo_placed_def demo_filled_eq m1_def [symmetric] h del: One_nat_def)
  show "\<not> opanic demo_placed" unfolding pl e2 using h(6) by simp
  show "oheap demo_active = [1 \<mapsto> (take_tp ''B3'' (take_sl ''B2'' (prepare_legs 3 4 demo_oco_filled)))\<lparr>cState := StateActive\<rparr>]"
    "ogroups demo_active = [1]" "brokerIndex demo_active = [''B1'' \<mapsto> 1, ''B2'' \<mapsto> 1, ''B3'' \<mapsto> 1]" "otasks demo_active = []"
    "\<not> opanic demo_active"
    using g2(2) h unfolding a
    by (simp_all add: finish_legs_def on_oco_def g2(1) checkLegsConfirmed_def Let_def take_sl_def take_tp_def index_if_def)
      (simp_all add: m2_def h)
qed


lemma demo_oco_filled_reachable: "oco_reachable demo_oco_env demo_filled"
  unfolding demo_filled_def using demo_created_eq
  by (intro oreach_step [OF demo_created_reachable step_update]) simp

lemma demo_active_run: "(oco_step demo_oco_env)\<^sup>*\<^sup>* demo_filled demo_active" "oco_reachable demo_oco_env demo_active"
proof -
  have s: "oco_step demo_oco_env demo_filled demo_placed" "oco_step demo_oco_env demo_placed demo_active"
    unfolding demo_placed_def demo_active_def using demo_active_eq(6) demo_created_eq(6)
    by (auto simp: demo_filled_eq demo_placed_def intro!: step_otask)
  then show "(oco_step demo_oco_env)\<^sup>*\<^sup>* demo_filled demo_active" by simp
  show "oco_reachable demo_oco_env demo_active" using s by (blast intro: oreach_step demo_oco_filled_reachable)
qed

section \<open>Invariants of all runs\<close>



text \<open>
  C15. Legs are placed once: in every reachable state the broker has accepted at most one
  stop order and at most one target order of a group, and none while the group still
  waits for its entry.
\<close>

theorem legs_accepted_once:
  assumes "oco_reachable env m" "oheap m gid = Some g" "r = RoleSLLeg \<or> r = RoleTPLeg"
  shows "accepted gid r m \<le> 1 \<and> (cState g = StatePendingEntry \<longrightarrow> accepted gid r m = 0)"
  using oco_wfD(7,8) [OF oco_reachable_wf [OF assms(1)], of r gid] assms(2,3)
  by (auto simp: leg_role_def pending_or_new_def)

theorem legs_accepted_once_witness: "accepted 1 RoleSLLeg demo_active \<le> 1"
  using legs_accepted_once [OF demo_active_run(2), of 1 _ RoleSLLeg] by (simp add: demo_active_eq)

text \<open>
  C16. The life cycle: along every run a group keeps its identity and configuration, moves
  from waiting to placing to the later states and never back, and its entry price does
  not change once the entry has filled.
\<close>

theorem oco_lifecycle:
  assumes "oco_reachable env m" "(oco_step env)\<^sup>*\<^sup>* m m'" "oheap m gid = Some g"
  shows "\<exists>g'. oheap m' gid = Some g' \<and> oconfig g' = oconfig g \<and> ophase (cState g) \<le> ophase (cState g') \<and>
    (cState g \<noteq> StatePendingEntry \<longrightarrow> cEntryFillPrice g' = cEntryFillPrice g)"
proof -
  obtain g' where g': "oheap m' gid = Some g'" "advances g g'"
    using oco_store.run_R [OF assms(2) oco_reachable_wf [OF assms(1)] assms(3)] by blast
  then have "cState g \<noteq> StatePendingEntry \<longrightarrow> cEntryFillPrice g' = cEntryFillPrice g"
    unfolding advances_def by (cases "cState g") auto
  then show ?thesis using g' by (auto simp: advances_def)
qed

theorem oco_lifecycle_witness:
  "\<exists>g'. oheap demo_active 1 = Some g' \<and> oconfig g' = oconfig demo_oco_filled \<and> cEntryFillPrice g' = 100"
proof -
  have h: "oheap demo_filled 1 = Some demo_oco_filled"
    by (simp add: demo_filled_eq) (simp add: demo_oco_filled_def demo_fields)
  have "cEntryFillPrice demo_oco_filled = 100" "cState demo_oco_filled \<noteq> StatePendingEntry" by (simp_all add: demo_oco_filled_def)
  then show ?thesis using oco_lifecycle [OF demo_oco_filled_reachable demo_active_run(1) h] by auto
qed

text \<open>
  C24. A terminal group with no goroutine left that places or cancels its legs keeps its
  state for ever, whatever the broker, the user, the price feed or other groups do.
\<close>

theorem terminal_group_final:
  assumes "oco_reachable env m" "(oco_step env)\<^sup>*\<^sup>* m m'" "oheap m gid = Some g" "IsTerminal (cState g)"
    and "\<forall>t \<in> set (otasks m). task_group t = Some gid \<longrightarrow> \<not> writes_state t"
  shows "\<exists>g'. oheap m' gid = Some g' \<and> cState g' = cState g"
proof -
  have "settled gid m" using assms(3-5) by (auto simp: settled_def busy_def)
  then show ?thesis using oco_settled_run [OF assms(2) oco_reachable_wf [OF assms(1)]] assms(3) by blast
qed

section \<open>Termination of the goroutines\<close>

text \<open>The work a goroutine can still cause.\<close>

fun task_weight :: "otask \<Rightarrow> nat" where
  "task_weight (OTPlaceLegs _ _) = 8"
| "task_weight (OTFinishLegs _ _ _ _ _ _) = 7"
| "task_weight (OTArmTimer _) = 3"
| "task_weight (OTStartTimer _) = 2"
| "task_weight (OTModifyLegs _ _) = 4"
| "task_weight (OTCancelLeg _ _ _ _) = 2"
| "task_weight _ = 1"

definition pool_weight :: "oco_state \<Rightarrow> nat" where
  "pool_weight m = sum_list (map task_weight (otasks m))"

lemma logs_tasks: "logs P n m m' \<Longrightarrow> otasks m' = otasks m"
  by (rule logs_fields(4))

lemma place_leg_tasks:
  assumes "place_leg env leg auth nm m = (m', leg', r)"
  shows "otasks m' = otasks m"
  using place_leg_logs [OF assms] by auto

lemma finish_legs_weight: "sum_list (map task_weight (otasks (finish_legs env gid slo a b m)))
    \<le> sum_list (map task_weight (otasks m)) + 3"
  by (auto simp: finish_legs_def on_oco_def Let_def split: option.split sum.split)

lemma run_otask_weight:
  "sum_list (map task_weight (otasks (run_otask env t m))) < sum_list (map task_weight (otasks m)) + task_weight t"
proof (cases t)
  case (OTPlaceLegs gid p)
  have "otasks (create_leg env a x) = otasks x" for a x by (rule logs_tasks [OF create_leg_logs])
  then show ?thesis
    unfolding OTPlaceLegs run_otask.simps placeOCOLegs_def on_oco_def Let_def
    by (auto dest!: place_leg_tasks split: option.split prod.split)
next
  case (OTFinishLegs gid a b c d p)
  then show ?thesis using finish_legs_weight [of env gid a c d m] by (simp add: Let_def)
next
  case (OTTimer gid k)
  have "otasks (cancelEntryRemaining env g x) = otasks x" for g x
    using logs_tasks [OF cancel_attempts_logs] by (simp add: cancelEntryRemaining_def)
  then show ?thesis by (simp add: OTTimer timer_expired_def on_oco_def Let_def split: option.split)
next
  case (OTModifyLegs gid q)
  have l: "sum_list (map task_weight (otasks (modify_leg env g b ord x))) \<le> sum_list (map task_weight (otasks x)) + 1" for g b ord x
    by (auto simp: modify_leg_def modify_order_at_def dbUpdateAsync_def Let_def split: option.split)
  have "sum_list (map task_weight (otasks (modify_leg env g b ord (modify_leg env g b' ord' m))))
      < 3 + sum_list (map task_weight (otasks m))" for g b ord b' ord'
    using l [of g b ord "modify_leg env g b' ord' m"] l [of g b' ord' m] by linarith
  then show ?thesis
    unfolding OTModifyLegs run_otask.simps modifyLegsQty_def on_oco_def Let_def
    by (simp split: option.split)
next
  case (OTCancelLeg gid b l rs)
  then show ?thesis by (simp add: cancelLeg_def on_oco_def logs_tasks [OF cancel_attempts_logs] split: option.split)
next
  case (OTDbUpdate ord)
  then show ?thesis by (simp add: logs_tasks [OF db_update_attempts_logs])
next
  case (OTCleanup gid)
  then show ?thesis by (simp add: cleanup_def on_oco_def unindex_def split: option.split)
qed (simp_all add: arm_timer_def startPartialFillTimer_def modify_legs_end_def cancel_leg_end_def on_oco_def split: option.split)

text \<open>
  C19. The goroutines terminate: whatever the broker answers and in whatever order they are
  scheduled, running a pending goroutine always leaves less work, so without new events
  the pool is empty after finitely many runs.
\<close>

theorem goroutines_terminate:
  "wfP (\<lambda>m' m. \<exists>i < length (otasks m). m' = oschedule env i m)"
proof (rule wfp_if_convertible_to_nat [of _ pool_weight])
  fix m' m assume "\<exists>i < length (otasks m). m' = oschedule env i m"
  then obtain i where i: "i < length (otasks m)" "m' = oschedule env i m" by blast
  have "pool_weight m' < sum_list (map task_weight (take i (otasks m) @ drop (Suc i) (otasks m))) + task_weight (otasks m ! i)"
    using run_otask_weight [of env "otasks m ! i" "m\<lparr>otasks := take i (otasks m) @ drop (Suc i) (otasks m)\<rparr>"] i
    by (simp add: oschedule_def pool_weight_def)
  also have "\<dots> = pool_weight m"
    using arg_cong [OF id_take_nth_drop [OF i(1)], of "\<lambda>ts. sum_list (map task_weight ts)"] by (simp add: pool_weight_def)
  finally show "pool_weight m' < pool_weight m" .
qed

end
