(* ===== verification/OcoContracts.thy ===== *)
theory OcoContracts
  imports OcoProps
begin

text \<open>
  Contracts of the operations of the one-cancels-the-other manager: errors and retries,
  the prices of the legs, one leg cancelling the other, the trailing stop, the price feed.
\<close>

section \<open>Retries and errors\<close>

text \<open>What the attempts to place an order leave in the log.\<close>

definition same_order :: "Order \<Rightarrow> Order \<Rightarrow> bool" where
  "same_order ord o1 \<longleftrightarrow> o1 = ord \<or> (\<exists>a. o1 = with_auth a ord)"

lemma same_order_trans: "same_order ord o1 \<Longrightarrow> same_order o1 o2 \<Longrightarrow> same_order ord o2"
  by (auto simp: same_order_def)

lemma quiet_places: "logs is_place 0 m m' \<Longrightarrow> \<exists>es. oout m' = oout m @ es \<and> filter is_place es = []"
  by (auto simp: logs_def)

lemma refreshAuth_quiet:
  assumes "refreshAuth env u a m = (m', r)"
  shows "\<exists>es. oout m' = oout m @ es \<and> filter is_place es = []"
  by (rule quiet_places) (rule refreshAuth_logs [OF assms], simp_all)

lemma leg_attempts_log:
  assumes "leg_attempts env n ord auth m = (m', ord', r)"
  shows "\<exists>es. oout m' = oout m @ es \<and> (\<forall>o1 a x. OPlace o1 a x \<in> set es \<longrightarrow> same_order ord o1) \<and>
    (case r of Inl e \<Rightarrow> length (filter is_place es) = n \<and> (\<forall>o1 a b. OPlace o1 a (Inr b) \<notin> set es)
     | Inr b \<Rightarrow> length (filter is_place es) \<le> n \<and> filter is_place es \<noteq> [] \<and>
         (\<exists>o1 a. last (filter is_place es) = OPlace o1 a (Inr b)) \<and>
         oIndiraOrderID ord' = Some b \<and> oStatus ord' = StatusSubmitted)"
  using assms
proof (induction n arbitrary: ord auth m)
  case 0
  then show ?case by (intro exI [of _ "[]"]) auto
next
  case (Suc n)
  obtain m1 r1 where p: "place_order env ord (Some auth) m = (m1, r1)" by fastforce
  then have m1: "oout m1 = oout m @ [OPlace ord (Some auth) r1]"
    by (auto simp: place_order_def Let_def oemit_def)
  obtain m2 a where ra: "refreshAuth env (oUserID ord) (Some auth) m1 = (m2, a)" by fastforce
  show ?case
  proof (cases r1)
    case (Inr b)
    then have "m' = oemit (OUpdate (ord\<lparr>oIndiraOrderID := Some b, oStatus := StatusSubmitted\<rparr>)) m1"
        "ord' = ord\<lparr>oIndiraOrderID := Some b, oStatus := StatusSubmitted\<rparr>" "r = Inr b"
      using Suc.prems by (auto simp: p db_update_def Let_def)
    then show ?thesis
      by (intro exI [of _ "[OPlace ord (Some auth) (Inr b),
            OUpdate (ord\<lparr>oIndiraOrderID := Some b, oStatus := StatusSubmitted\<rparr>)]"]) (auto simp: m1 Inr same_order_def)
  next
    case (Inl e)
    have rec: ?thesis if q: "oout m3 = oout m1 @ es3" "filter is_place es3 = []"
      and at: "leg_attempts env n o3 a3 m3 = (m', ord', r)" and o3: "same_order ord o3" for m3 o3 a3 es3
    proof -
      obtain es where es: "oout m' = oout m3 @ es" "\<forall>o1 a x. OPlace o1 a x \<in> set es \<longrightarrow> same_order o3 o1"
        "case r of Inl e \<Rightarrow> length (filter is_place es) = n \<and> (\<forall>o1 a b. OPlace o1 a (Inr b) \<notin> set es)
         | Inr b \<Rightarrow> length (filter is_place es) \<le> n \<and> filter is_place es \<noteq> [] \<and>
             (\<exists>o1 a. last (filter is_place es) = OPlace o1 a (Inr b)) \<and>
             oIndiraOrderID ord' = Some b \<and> oStatus ord' = StatusSubmitted"
        using Suc.IH [OF at] by blast
      have "OPlace o1 a x \<notin> set es3" for o1 a x using q(2) by (force simp: filter_empty_conv)
      then show ?thesis using es q o3 same_order_trans
        by (intro exI [of _ "OPlace ord (Some auth) (Inl e) # es3 @ es"])
          (auto simp: m1 Inl same_order_def split: sum.splits)
    qed
    have last: ?thesis if "m' = m1" "r = Inl e" "n = 0"
      using that by (intro exI [of _ "[OPlace ord (Some auth) (Inl e)]"]) (auto simp: m1 Inl same_order_def)
    obtain es2 where q2: "oout m2 = oout m1 @ es2" "filter is_place es2 = []" using refreshAuth_quiet [OF ra] by blast
    have q1: "oout m1 = oout m1 @ []" "filter is_place [] = []" by simp_all
    from Suc.prems p [unfolded Inl] ra show ?thesis
    proof (cases rule: leg_attempts_step)
      case stop then show ?thesis by (intro last)
    next
      case same show ?thesis by (rule rec [OF q2 same]) (simp add: same_order_def)
    next
      case fresh show ?thesis by (rule rec [OF q2 fresh]) (auto simp: same_order_def)
    next
      case plain show ?thesis by (rule rec [OF q1 plain]) (simp add: same_order_def)
    qed
  qed
qed


definition new_log :: "oco_state \<Rightarrow> oco_state \<Rightarrow> oeffect list" where
  "new_log m m' = drop (length (oout m)) (oout m')"

lemma new_log_append: "oout m' = oout m @ es \<Longrightarrow> new_log m m' = es"
  by (simp add: new_log_def)

text \<open>
  C21. Placing a leg calls the broker at most three times. It reports an error exactly when
  all three calls were rejected, and leaves the order \<open>FAILED\<close> with a message; otherwise
  its last call was accepted and the order carries that identifier as \<open>SUBMITTED\<close>.
\<close>

theorem leg_retry_contract:
  "case placeLegWithRetry env ord auth legName m of (m', ord', r) \<Rightarrow>
     length (filter is_place (new_log m m')) \<le> 3 \<and>
     (case r of
        Inl e \<Rightarrow> length (filter is_place (new_log m m')) = 3 \<and> (\<forall>o1 a b. OPlace o1 a (Inr b) \<notin> set (new_log m m')) \<and>
          oStatus ord' = StatusFailed \<and> oErrorMessage ord' = Some e
      | Inr b \<Rightarrow> (\<exists>o1 a. last (filter is_place (new_log m m')) = OPlace o1 a (Inr b)) \<and>
          oIndiraOrderID ord' = Some b \<and> oStatus ord' = StatusSubmitted)"
proof -
  obtain m1 o1 r1 where a: "leg_attempts env maxLegPlacementRetries ord auth m = (m1, o1, r1)" by (metis prod_cases3)
  note l = leg_attempts_log [OF a]
  show ?thesis
  proof (cases r1)
    case (Inl e)
    then obtain es where es: "oout m1 = oout m @ es" "length (filter is_place es) = 3" "\<forall>o1 a b. OPlace o1 a (Inr b) \<notin> set es"
      using l by (auto simp: maxLegPlacementRetries_def)
    have "new_log m (oemit (OUpdate x) m1) = es @ [OUpdate x]" for x
      using es(1) by (intro new_log_append) simp
    then show ?thesis using es by (simp add: placeLegWithRetry_def a Inl Let_def db_update_def)
  next
    case (Inr b)
    have eq: "placeLegWithRetry env ord auth legName m = (m1, o1, Inr b)" by (simp add: placeLegWithRetry_def a Inr)
    show ?thesis unfolding eq using l new_log_append [of m1 m] by (auto simp: Inr maxLegPlacementRetries_def)
  qed
qed

lemma entry_attempts_accepted:
  "entry_attempts env n ord auth m = (m', ord', auth', Inr b) \<Longrightarrow> \<exists>o1 a. OPlace o1 a (Inr b) \<in> set (oout m')"
proof (induction n arbitrary: ord auth m)
  case (Suc n)
  obtain m1 r1 where p: "place_order env ord (Some auth) m = (m1, r1)" by fastforce
  show ?case
  proof (cases r1)
    case (Inr b')
    then have "OPlace ord (Some auth) (Inr b) \<in> set (oout m')"
      using Suc.prems p by (auto simp: place_order_def Let_def oemit_def)
    then show ?thesis by blast
  next
    case (Inl e)
    then show ?thesis using Suc by (auto simp: p split: if_splits option.splits prod.splits)
  qed
qed simp

text \<open>
  C20. Creating a group either fails or registers it. On an error nothing was registered,
  indexed or started, the broker was asked at most three times and the groups are as
  before. On success the group waits for its entry under an identifier the broker
  answered, and is found by that identifier.
\<close>

theorem CreateOCOEntry_contract:
  "case CreateOCOEntry env u sid eid code ex sy side q trigger sl tp tr trp auth m of
     (m', Inl e) \<Rightarrow> oheap m' = oheap m \<and> ogroups m' = ogroups m \<and> brokerIndex m' = brokerIndex m \<and> otasks m' = otasks m \<and>
       length (filter is_place (new_log m m')) \<le> 3
   | (m', Inr gid) \<Rightarrow> gid = onext m \<and> gid \<in> set (ogroups m') \<and> otasks m' = otasks m \<and>
       length (filter is_place (new_log m m')) \<le> 3 \<and>
       (\<exists>g b o1 a. oheap m' gid = Some g \<and> cState g = StatePendingEntry \<and> cEntryBrokerID g = b \<and>
          brokerIndex m' b = Some gid \<and> OPlace o1 a (Inr b) \<in> set (oout m') \<and>
          cSLPercent g = sl \<and> cTPPercent g = tp \<and> cProductType g = ''INTRADAY'')"
proof -
  define gid where "gid = onext m"
  define m0 where "m0 = next_id (next_id m)"
  define g where "g = entry_group gid (Suc gid) u sid eid code ex sy side q sl tp tr trp (Some auth)"
  define ord where "ord = entry_order g auth (entry_limit side trigger)"
  have role: "oOCORole ord = Some RoleEntry" by (simp add: ord_def entry_order_def)
  have gf: "cGroupID g = gid" "cState g = StatePendingEntry" "cSLPercent g = sl" "cTPPercent g = tp" "cProductType g = ''INTRADAY''"
    by (simp_all add: g_def entry_group_def zero_oco_def)
  have base: "oheap m0 = oheap m" "ogroups m0 = ogroups m" "brokerIndex m0 = brokerIndex m" "otasks m0 = otasks m" "oout m0 = oout m"
    by (simp_all add: m0_def)
  obtain m1 e1 where 1: "db_create env ord m0 = (m1, e1)" by fastforce
  have l1: "logs is_place 0 m0 m1" using 1 by (rule db_create_logs) simp
  obtain m2 o2 a2 r2 where 2: "entry_attempts env (Suc maxEntryRetries) ord auth m1 = (m2, o2, a2, r2)" by (metis prod_cases4)
  have l12: "logs is_place 3 m0 m2"
    by (rule logs_trans [OF l1 entry_attempts_logs [OF 2 role]]) (simp add: maxEntryRetries_def)
  have cnt: "length (filter is_place (new_log m x)) \<le> n" if "logs is_place n m0 x" for x n
    using that base(5) by (auto simp: logs_def new_log_def)
  note f = logs_fields(1-4)
  show ?thesis
  proof (cases e1)
    case (Some e)
    then show ?thesis
      unfolding CreateOCOEntry_def Let_def gid_def [symmetric] g_def [symmetric] m0_def [symmetric] ord_def [symmetric] 1
      using f [OF l1] base cnt [OF l1] by simp
  next
    case None
    show ?thesis
    proof (cases r2)
      case (Inl e)
      have l3: "logs is_place 3 m0 (fst (db_update env x m2))" for x
        using logs_trans [OF l12 fst_db_update_logs [of is_place x 0]] by simp
      show ?thesis
        unfolding CreateOCOEntry_def Let_def gid_def [symmetric] g_def [symmetric] m0_def [symmetric] ord_def [symmetric] 1 None
          prod.case option.case 2 Inl sum.case
        using f [OF l3] base cnt [OF l3] by simp
    next
      case (Inr b)
      obtain o1 a where acc: "OPlace o1 a (Inr b) \<in> set (oout m2)" using entry_attempts_accepted 2 Inr by blast
      obtain es where ext: "oout m2 = oout m @ es" using l12 base(5) by (auto simp: logs_def)
      show ?thesis
        unfolding CreateOCOEntry_def Let_def gid_def [symmetric] g_def [symmetric] m0_def [symmetric] ord_def [symmetric] 1 None
          prod.case option.case 2 Inr sum.case
        using f [OF l12] base cnt [OF l12] acc gf ext
        by (auto simp: db_update_def broadcast_def new_log_def)
    qed
  qed
qed

section \<open>The prices of the legs\<close>

lemma place_leg_orders:
  assumes "place_leg env leg auth nm m = (m', leg', r)"
  shows "\<exists>es. oout m' = oout m @ es \<and> (\<forall>o1 a x. OPlace o1 a x \<in> set es \<longrightarrow> (\<exists>ord. leg = Some ord \<and> same_order ord o1))"
proof (cases leg)
  case None then show ?thesis using assms by (auto simp: place_leg_def)
next
  case (Some ord)
  obtain m1 o1 r1 where a: "leg_attempts env maxLegPlacementRetries ord auth m = (m1, o1, r1)" by (metis prod_cases3)
  obtain es where es: "oout m1 = oout m @ es" "\<forall>o1 a x. OPlace o1 a x \<in> set es \<longrightarrow> same_order ord o1"
    using leg_attempts_log [OF a] by blast
  have "\<exists>e2. oout m' = oout m1 @ e2 \<and> (\<forall>o1 a x. OPlace o1 a x \<notin> set e2)"
    using assms by (auto simp: place_leg_def Some placeLegWithRetry_def a Let_def db_update_def split: sum.splits)
  then obtain e2 where e2: "oout m' = oout m1 @ e2" "\<forall>o1 a x. OPlace o1 a x \<notin> set e2" by blast
  show ?thesis using es e2 by (intro exI [of _ "es @ e2"]) (auto simp: Some)
qed

lemma create_leg_log: "\<exists>es. oout (create_leg env leg m) = oout m @ es \<and> (\<forall>o1 a x. OPlace o1 a x \<notin> set es)"
  by (auto simp: create_leg_def db_create_def split: option.split)

lemma placeOCOLegs_orders:
  assumes "oheap m gid = Some g" "OPlace o1 a x \<in> set (new_log m (placeOCOLegs env gid partial m))"
  shows "(0 < cSLPercent g \<and> sl_sane g \<and> (\<exists>ord. sl_order (prepare_legs (onext m) (Suc (onext m)) g) = Some ord \<and> same_order ord o1)) \<or>
    (0 < cTPPercent g \<and> tp_sane g \<and> (\<exists>ord. tp_order (prepare_legs (onext m) (Suc (onext m)) g) = Some ord \<and> same_order ord o1))"
proof -
  define ok where "ok \<longleftrightarrow> \<not> (\<not> 0 < cSLPercent g \<and> \<not> 0 < cTPPercent g) \<and> \<not> (0 < cSLPercent g \<and> \<not> sl_sane g) \<and> \<not> (0 < cTPPercent g \<and> \<not> tp_sane g)"
  define g1 where "g1 = prepare_legs (onext m) (Suc (onext m)) g"
  define m1 where "m1 = setc g1 (next_id (next_id m))"
  define sl where "sl = (if 0 < cSLPercent g then sl_order g1 else None)"
  define tp where "tp = (if 0 < cTPPercent g then tp_order g1 else None)"
  define m2 where "m2 = create_leg env tp (create_leg env sl m1)"
  have no: "new_log m x = [] \<Longrightarrow> x = placeOCOLegs env gid partial m \<Longrightarrow> False" for x using assms(2) by auto
  have ok: "ok"
  proof (rule ccontr)
    assume "\<not> ok"
    then have "placeOCOLegs env gid partial m = (let m1 = setc (g\<lparr>cState := StateFailed\<rparr>) m in if partial then ospawn (OTArmTimer gid) m1 else m1)"
      by (auto simp: placeOCOLegs_def on_oco_def assms(1) ok_def Let_def)
    then have "oout (placeOCOLegs env gid partial m) = oout m" by (simp add: Let_def)
    then show False using no [OF _ refl] by (simp add: new_log_def)
  qed
  obtain auth where auth: "cAuth g = Some auth"
  proof (cases "cAuth g")
    case None
    have "placeOCOLegs env gid partial m = m1\<lparr>opanic := True\<rparr>"
      using ok by (auto simp: placeOCOLegs_def on_oco_def assms(1) ok_def Let_def None m1_def g1_def)
    then show ?thesis using no [OF _ refl] by (simp add: new_log_def m1_def)
  qed blast
  obtain m3 sl' slRes where p3: "place_leg env sl auth ''SL'' m2 = (m3, sl', slRes)" by (metis prod_cases3)
  obtain m4 tp' tpRes where p4: "place_leg env tp auth ''TP'' m3 = (m4, tp', tpRes)" by (metis prod_cases3)
  have "placeOCOLegs env gid partial m = ospawn (OTFinishLegs gid sl' tp' slRes tpRes partial) m4"
    using ok unfolding placeOCOLegs_def on_oco_def assms(1) option.case Let_def auth ok_def
      g1_def [symmetric] m1_def [symmetric] sl_def [symmetric] tp_def [symmetric] m2_def [symmetric] p3 p4 prod.case
    by (cases "0 < cSLPercent g"; cases "0 < cTPPercent g"; simp)
  moreover obtain c1 where "oout (create_leg env sl m1) = oout m1 @ c1" "\<forall>o1 a x. OPlace o1 a x \<notin> set c1" using create_leg_log by blast
  moreover obtain c2 where "oout m2 = oout (create_leg env sl m1) @ c2" "\<forall>o1 a x. OPlace o1 a x \<notin> set c2"
    unfolding m2_def using create_leg_log by blast
  moreover obtain e3 where "oout m3 = oout m2 @ e3" "\<forall>o1 a x. OPlace o1 a x \<in> set e3 \<longrightarrow> (\<exists>ord. sl = Some ord \<and> same_order ord o1)"
    using place_leg_orders [OF p3] by blast
  moreover obtain e4 where "oout m4 = oout m3 @ e4" "\<forall>o1 a x. OPlace o1 a x \<in> set e4 \<longrightarrow> (\<exists>ord. tp = Some ord \<and> same_order ord o1)"
    using place_leg_orders [OF p4] by blast
  ultimately have "(\<exists>ord. sl = Some ord \<and> same_order ord o1) \<or> (\<exists>ord. tp = Some ord \<and> same_order ord o1)"
    using assms(2) by (auto simp: new_log_def m1_def) blast+
  then show ?thesis using ok unfolding sl_def tp_def g1_def ok_def by (auto split: if_splits)
qed

text \<open>
  C22. Every leg order that is sent protects the position: it is for the exit side and the
  filled quantity, a stop lies strictly on the losing side of the fill and a target
  strictly on the winning side. A group whose percentages do not give such prices sends
  nothing.
\<close>

theorem placed_legs_bracket_fill:
  assumes "oheap m gid = Some g" "cOrderSide g = ''BUY'' \<or> cOrderSide g = ''SELL''"
    and "OPlace ord a r \<in> set (new_log m (placeOCOLegs env gid partial m))"
  shows "oOrderSide ord = (if cOrderSide g = ''BUY'' then ''SELL'' else ''BUY'') \<and>
    oQuantity ord = (if 0 < cFilledQty g then cFilledQty g else cQuantity g) \<and>
    (case oStopLoss ord of
       Some t \<Rightarrow> oOCORole ord = Some RoleSLLeg \<and> (if cOrderSide g = ''BUY'' then t < cEntryFillPrice g else cEntryFillPrice g < t)
     | None \<Rightarrow> oOCORole ord = Some RoleTPLeg \<and>
         (\<exists>l. oPrice ord = Some l \<and> (if cOrderSide g = ''BUY'' then cEntryFillPrice g < l else l < cEntryFillPrice g)))"
proof -
  define g1 where "g1 = prepare_legs (onext m) (Suc (onext m)) g"
  have f: "cOrderSide g1 = cOrderSide g" "cFilledQty g1 = cFilledQty g" "cQuantity g1 = cQuantity g"
    by (simp_all add: g1_def prepare_legs_def Let_def)
  from placeOCOLegs_orders [OF assms(1,3)] show ?thesis
  proof (elim disjE conjE exE)
    fix o1 assume h: "0 < cSLPercent g" "sl_sane g" "sl_order (prepare_legs (onext m) (Suc (onext m)) g) = Some o1" "same_order o1 ord"
    have t: "cSLTriggerPrice g1 = fst (CalculateSLFromFill g (cEntryFillPrice g))"
      using h(1) by (simp add: g1_def prepare_legs_def Let_def)
    have "oOrderSide o1 = ocoExitSide g1 \<and> oQuantity o1 = (if 0 < cFilledQty g1 then cFilledQty g1 else cQuantity g1) \<and>
        oStopLoss o1 = Some (cSLTriggerPrice g1) \<and> oOCORole o1 = Some RoleSLLeg"
      using h(3) by (auto simp: g1_def [symmetric] sl_order_def buildLegOrder_def split: option.splits)
    then show ?thesis using h(2,4) assms(2) f by (auto simp: same_order_def sl_sane_def Let_def ocoExitSide_def t)
  next
    fix o1 assume h: "0 < cTPPercent g" "tp_sane g" "tp_order (prepare_legs (onext m) (Suc (onext m)) g) = Some o1" "same_order o1 ord"
    have t: "cTPLimitPrice g1 = CalculateTPFromFill g (cEntryFillPrice g)"
      using h(1) by (simp add: g1_def prepare_legs_def Let_def)
    have "oOrderSide o1 = ocoExitSide g1 \<and> oQuantity o1 = (if 0 < cFilledQty g1 then cFilledQty g1 else cQuantity g1) \<and>
        oStopLoss o1 = None \<and> oPrice o1 = Some (cTPLimitPrice g1) \<and> oOCORole o1 = Some RoleTPLeg"
      using h(3) by (auto simp: g1_def [symmetric] tp_order_def buildLegOrder_def split: option.splits)
    then show ?thesis using h(2,4) assms(2) f by (auto simp: same_order_def tp_sane_def Let_def ocoExitSide_def t)
  qed
qed


lemma demo_place_log: "\<exists>ord a r. OPlace ord a r \<in> set (new_log (setc demo_oco_filled demo_created) (placeOCOLegs demo_oco_env 1 False (setc demo_oco_filled demo_created)))
    \<and> oOCORole ord = Some RoleSLLeg"
proof -
  define m1 where "m1 = setc demo_oco_filled demo_created"
  have f: "cAuth demo_oco_filled = Some demo_auth" "0 < cSLPercent demo_oco_filled" "0 < cTPPercent demo_oco_filled"
      "cEntryFillPrice demo_oco_filled = 100" "cOrderSide demo_oco_filled = ''BUY''" "oheap m1 1 = Some demo_oco_filled"
    by (simp_all add: demo_oco_filled_def demo_fields m1_def)
  have sane: "sl_sane demo_oco_filled" "tp_sane demo_oco_filled" by (simp_all add: sl_sane_def tp_sane_def f demo_oco_prices)
  define g1 where "g1 = prepare_legs (onext m1) (Suc (onext m1)) demo_oco_filled"
  obtain slo where slo: "sl_order g1 = Some slo" by (simp add: sl_order_def buildLegOrder_def g1_def f)
  obtain tpo where tpo: "tp_order g1 = Some tpo" by (simp add: tp_order_def buildLegOrder_def g1_def f)
  have x: "xPlace demo_oco_env l slo a = Inr ''B2''" "xPlace demo_oco_env l tpo a = Inr ''B3''" for l a
    using demo_accepts leg_orders(1) [OF slo] leg_orders(2) [OF tpo] by (simp_all add: accepts_def)
  have "OPlace slo (Some demo_auth) (Inr ''B2'') \<in> set (new_log m1 (placeOCOLegs demo_oco_env 1 False m1))"
    using f sane by (simp add: placeOCOLegs_def on_oco_def Let_def g1_def [symmetric] slo tpo place_leg_def placeLeg_accepted x
        create_leg_def db_create_def new_log_def del: One_nat_def)
  then show ?thesis using leg_orders(1) [OF slo] unfolding m1_def by blast
qed

theorem placed_legs_bracket_fill_witness:
  "\<exists>ord a r. OPlace ord a r \<in> set (new_log (setc demo_oco_filled demo_created) (placeOCOLegs demo_oco_env 1 False (setc demo_oco_filled demo_created)))
    \<and> oOrderSide ord = ''SELL'' \<and> oQuantity ord = 10"
proof -
  obtain ord a r where o: "OPlace ord a r \<in> set (new_log (setc demo_oco_filled demo_created) (placeOCOLegs demo_oco_env 1 False (setc demo_oco_filled demo_created)))"
    using demo_place_log by blast
  have h: "oheap (setc demo_oco_filled demo_created) 1 = Some demo_oco_filled" "cOrderSide demo_oco_filled = ''BUY''" "cFilledQty demo_oco_filled = 10"
    by (simp_all add: demo_oco_filled_def demo_fields)
  show ?thesis using placed_legs_bracket_fill [OF h(1) _ o] o h by auto
qed

section \<open>One leg cancels the other\<close>

lemma leg_executed:
  assumes reg: "gid \<in> set (ogroups m)" "oheap m gid = Some g" "cGroupID g = gid" and live: "leg_live g"
    and ev: "oIndiraOrderID ord = Some (cSLBrokerID g)" "brokerIndex m (cSLBrokerID g) = Some gid"
      "cSLBrokerID g \<noteq> cEntryBrokerID g" "executed_status (to_upper (trim_space s))" and tp: "cTPBrokerID g \<noteq> []"
  shows "HandleOCOUpdate env ord s m = ospawn (OTCancelLeg gid (cTPBrokerID g) ''TP'' ''SL leg executed (OCO)'')
    (setc (g\<lparr>cState := StateSLTriggered, cPnL := leg_pnl g ord\<rparr>) m)"
proof -
  have "\<not> IsTerminal (cState g)" using live by (auto simp: leg_live_def)
  moreover have "\<not> pending_status x" if "executed_status x" for x
    using that by (auto simp: executed_status_def pending_status_def)
  ultimately show ?thesis
    using assms by (simp add: HandleOCOUpdate_def on_oco_def route_update_def handleSLLegUpdate_def Let_def)
qed

lemma cancel_attempts_some:
  "0 < n \<Longrightarrow> \<exists>es. cancel_attempts env n g b m = m\<lparr>oout := oout m @ es\<rparr> \<and> es \<noteq> [] \<and> length es \<le> n \<and>
     (\<forall>e \<in> set es. \<exists>x. e = OCancel (cExchange g) b (cSymbol g) (cAuth g) x)"
proof (induction n arbitrary: m)
  case (Suc n)
  define r where "r = xCancel env (oout m) (cExchange g) b (cSymbol g) (cAuth g)"
  define m1 where "m1 = m\<lparr>oout := oout m @ [OCancel (cExchange g) b (cSymbol g) (cAuth g) r]\<rparr>"
  have c: "cancel_order_at env g b m = (m1, r)" by (simp add: cancel_order_at_def r_def m1_def oemit_def Let_def)
  have d: "cancel_attempts env (Suc n) g b m = m1 \<or> cancel_attempts env (Suc n) g b m = cancel_attempts env n g b m1"
    by (auto simp: c split: option.split)
  show ?case
  proof (cases "cancel_attempts env (Suc n) g b m = m1 \<or> n = 0")
    case True
    then have "cancel_attempts env (Suc n) g b m = m1" using d by auto
    then show ?thesis by (intro exI [of _ "[OCancel (cExchange g) b (cSymbol g) (cAuth g) r]"]) (simp add: m1_def)
  next
    case False
    then obtain es where "cancel_attempts env n g b m1 = m1\<lparr>oout := oout m1 @ es\<rparr>" "length es \<le> n"
        "\<forall>e \<in> set es. \<exists>x. e = OCancel (cExchange g) b (cSymbol g) (cAuth g) x"
      using Suc.IH [of m1] by auto
    then show ?thesis using False d
      by (intro exI [of _ "OCancel (cExchange g) b (cSymbol g) (cAuth g) r # es"]) (auto simp: m1_def)
  qed
qed simp

lemma cancel_attempts_opanic [simp]: "opanic (cancel_attempts env n g b m) = opanic m"
  using cancel_attempts_some [of n env g b m] by (cases "n = 0") auto

lemma stop_completes:
  fixes env :: oco_env
  assumes reg: "gid \<in> set (ogroups m)" "oheap m gid = Some g" "cGroupID g = gid" and live: "leg_live g"
    and ev: "oIndiraOrderID ord = Some (cSLBrokerID g)" "brokerIndex m (cSLBrokerID g) = Some gid"
      "cSLBrokerID g \<noteq> cEntryBrokerID g" "executed_status (to_upper (trim_space s))" and tp: "cTPBrokerID g \<noteq> []"
  defines "m3 \<equiv> oschedule env (length (otasks m)) (oschedule env (length (otasks m)) (HandleOCOUpdate env ord s m))"
  shows "oheap m3 = (oheap m)(gid \<mapsto> g\<lparr>cState := StateCompleted, cPnL := leg_pnl g ord\<rparr>)" "otasks m3 = otasks m"
    "ogroups m3 = ogroups m" "opanic m3 = opanic m"
    "filter is_cancel (new_log m m3) \<noteq> []" "length (filter is_cancel (new_log m m3)) \<le> 3"
    "\<forall>e \<in> set (filter is_cancel (new_log m m3)). \<exists>x. e = OCancel (cExchange g) (cTPBrokerID g) (cSymbol g) (cAuth g) x"
proof -
  define g1 where "g1 = g\<lparr>cState := StateSLTriggered, cPnL := leg_pnl g ord\<rparr>"
  define m1 where "m1 = setc g1 m"
  have h1: "oheap m1 gid = Some g1" "otasks m1 = otasks m" "cGroupID g1 = gid" using reg(3) by (simp_all add: m1_def g1_def)
  have e1: "HandleOCOUpdate env ord s m = ospawn (OTCancelLeg gid (cTPBrokerID g) ''TP'' ''SL leg executed (OCO)'') m1"
    unfolding m1_def g1_def by (rule leg_executed [OF reg live ev tp])
  obtain es where es: "cancel_attempts env 3 g1 (cTPBrokerID g) m1 = m1\<lparr>oout := oout m1 @ es\<rparr>" "es \<noteq> []" "length es \<le> 3"
      "\<forall>e \<in> set es. \<exists>x. e = OCancel (cExchange g1) (cTPBrokerID g) (cSymbol g1) (cAuth g1) x"
    using cancel_attempts_some [of 3 env g1 "cTPBrokerID g" m1] by auto
  define m2 where "m2 = m1\<lparr>oout := oout m1 @ es\<rparr>"
  have e2: "oschedule env (length (otasks m)) (HandleOCOUpdate env ord s m) = ospawn (OTCancelDone gid) m2"
    using ospawn_last [of env m1] h1 tp by (simp add: e1 cancelLeg_def on_oco_def es m2_def)
  have e3: "m3 = cancel_leg_end env gid m2"
    using ospawn_last [of env m2 "OTCancelDone gid"] h1 by (simp add: m3_def e2 m2_def)
  have c: "filter is_cancel es = es" using es(4) by (intro filter_True) force
  have "m3 = broadcast env (cUserID g1) ''oco_completed'' None (setc (g1\<lparr>cState := StateCompleted\<rparr>) m2)"
    using h1 by (simp add: e3 cancel_leg_end_def on_oco_def m2_def)
  then show "oheap m3 = (oheap m)(gid \<mapsto> g\<lparr>cState := StateCompleted, cPnL := leg_pnl g ord\<rparr>)" "otasks m3 = otasks m"
    "ogroups m3 = ogroups m" "opanic m3 = opanic m"
    "filter is_cancel (new_log m m3) \<noteq> []" "length (filter is_cancel (new_log m m3)) \<le> 3"
    "\<forall>e \<in> set (filter is_cancel (new_log m m3)). \<exists>x. e = OCancel (cExchange g) (cTPBrokerID g) (cSymbol g) (cAuth g) x"
    using es(2-4) c h1 by (auto simp: m2_def m1_def g1_def broadcast_def new_log_def reg(3))
qed

text \<open>
  C18. When the stop of a live group executes, the two goroutines that follow ask the broker
  one to three times to cancel the target, and nothing else, and complete the group with
  the profit of the stop's price on the filled quantity, whatever the broker answers.
\<close>

theorem stop_execution_completes:
  assumes "oco_reachable env m" "gid \<in> set (ogroups m)" "oheap m gid = Some g"
    and "cState g = StateActive \<or> cState g = StateLegsSubmitted"
    and "oIndiraOrderID ord = Some (cSLBrokerID g)" "brokerIndex m (cSLBrokerID g) = Some gid"
    and "cSLBrokerID g \<noteq> cEntryBrokerID g" "executed_status (to_upper (trim_space s))" "cTPBrokerID g \<noteq> []"
    and "m3 = oschedule env (length (otasks m)) (oschedule env (length (otasks m)) (HandleOCOUpdate env ord s m))"
  shows "oheap m3 gid = Some (g\<lparr>cState := StateCompleted, cPnL := leg_pnl g ord\<rparr>) \<and> otasks m3 = otasks m \<and>
    1 \<le> length (filter is_cancel (new_log m m3)) \<and> length (filter is_cancel (new_log m m3)) \<le> 3 \<and>
    (\<forall>e \<in> set (filter is_cancel (new_log m m3)). \<exists>x. e = OCancel (cExchange g) (cTPBrokerID g) (cSymbol g) (cAuth g) x)"
proof -
  have live: "leg_live g" using assms(4) by (simp add: leg_live_def)
  note c = stop_completes [OF assms(2,3) oco_wfD(1) [OF oco_reachable_wf [OF assms(1)] assms(3)] live assms(5-9), of env,
      folded assms(10)]
  show ?thesis using c by (simp add: Suc_le_eq)
qed

definition demo_oco_active :: OCOGroup where
  "demo_oco_active = (take_tp ''B3'' (take_sl ''B2'' (prepare_legs 3 4 demo_oco_filled)))\<lparr>cState := StateActive\<rparr>"

lemma demo_active_fields: "cGroupID demo_oco_active = 1" "cState demo_oco_active = StateActive" "cSLBrokerID demo_oco_active = ''B2''"
  "cTPBrokerID demo_oco_active = ''B3''" "cEntryBrokerID demo_oco_active = ''B1''" "cEntryFillPrice demo_oco_active = 100"
  "cFilledQty demo_oco_active = 10" "cOrderSide demo_oco_active = ''BUY''" "cTrailingSL demo_oco_active"
  "cSLTriggerPrice demo_oco_active = 50" "cHighestPrice demo_oco_active = 100" "cTrailingSLPct demo_oco_active = 0"
  "cStockCode demo_oco_active = 77" "cSymbol demo_oco_active = ''TCS''" "cAuth demo_oco_active = Some demo_auth"
proof -
  have "cEntryFillPrice demo_oco_filled = 100" "0 < cSLPercent demo_oco_filled" by (simp_all add: demo_oco_filled_def demo_fields)
  then have "cSLTriggerPrice (prepare_legs 3 4 demo_oco_filled) = 50"
    by (simp add: prepare_legs_def Let_def demo_oco_prices)
  then show "cSLTriggerPrice demo_oco_active = 50" by (simp add: demo_oco_active_def take_sl_def take_tp_def)
qed (simp_all add: demo_oco_active_def take_sl_def take_tp_def prepare_legs_def Let_def demo_oco_filled_def demo_fields)

lemma demo_active_heap: "oheap demo_active 1 = Some demo_oco_active" "brokerIndex demo_active ''B2'' = Some 1"
    "brokerIndex demo_active ''B3'' = Some 1" "1 \<in> set (ogroups demo_active)" "otasks demo_active = []"
  by (simp_all add: demo_active_eq demo_oco_active_def)

theorem stop_execution_completes_witness:
  "oheap demo_closed 1 = Some (demo_oco_active\<lparr>cState := StateCompleted, cPnL := leg_pnl demo_oco_active (demo_event ''B2'' 50)\<rparr>)"
proof -
  have e: "demo_closed = oschedule demo_oco_env (length (otasks demo_active)) (oschedule demo_oco_env (length (otasks demo_active))
      (HandleOCOUpdate demo_oco_env (demo_event ''B2'' 50) ''TRADED'' demo_active))"
    by (simp add: demo_closed_def demo_cancelled_def demo_stopped_def demo_active_eq(4))
  show ?thesis
    using stop_execution_completes [OF demo_active_run(2) demo_active_heap(4,1) _ _ _ _ _ _ e]
    by (simp add: demo_active_fields demo_active_heap demo_entry_event)
qed

text \<open>
  C23. The first leg wins: once one leg of a group has executed, an execution of the other
  leg changes nothing, so only one of two simultaneous executions is booked.
\<close>

theorem first_leg_wins:
  assumes "oco_reachable env m" "gid \<in> set (ogroups m)" "oheap m gid = Some g"
    and "cState g \<noteq> StateActive" "cState g \<noteq> StateLegsSubmitted"
    and "oIndiraOrderID ord = Some b" "brokerIndex m b = Some gid" "b = cSLBrokerID g \<or> b = cTPBrokerID g" "b \<noteq> cEntryBrokerID g"
    and "executed_status (to_upper (trim_space s))"
  shows "HandleOCOUpdate env ord s m = m"
proof -
  have "\<not> pending_status x" if "executed_status x" for x
    using that by (auto simp: executed_status_def pending_status_def)
  then show ?thesis
    using assms(2-) by (auto simp: HandleOCOUpdate_def on_oco_def route_update_def handleSLLegUpdate_def handleTPLegUpdate_def
        leg_live_def Let_def)
qed

lemma demo_stopped_eq: "demo_stopped = ospawn (OTCancelLeg 1 ''B3'' ''TP'' ''SL leg executed (OCO)'')
    (setc (demo_oco_active\<lparr>cState := StateSLTriggered, cPnL := leg_pnl demo_oco_active (demo_event ''B2'' 50)\<rparr>) demo_active)"
  unfolding demo_stopped_def
  using leg_executed [OF demo_active_heap(4,1) demo_active_fields(1), of "demo_event ''B2'' 50" "''TRADED''" demo_oco_env]
  by (simp add: demo_active_fields demo_active_heap demo_entry_event leg_live_def)

lemma demo_stopped_reachable: "oco_reachable demo_oco_env demo_stopped"
  unfolding demo_stopped_def by (intro oreach_step [OF demo_active_run(2) step_update] demo_active_eq(5))

theorem first_leg_wins_witness:
  "HandleOCOUpdate demo_oco_env (demo_event ''B3'' 200) ''EXECUTED'' demo_stopped = demo_stopped"
  by (rule first_leg_wins [OF demo_stopped_reachable, where gid = 1 and b = "''B3''" and
        g = "demo_oco_active\<lparr>cState := StateSLTriggered, cPnL := leg_pnl demo_oco_active (demo_event ''B2'' 50)\<rparr>"])
    (simp_all add: demo_stopped_eq demo_active_fields demo_active_eq(2,3) demo_entry_event)

lemma demo_closed_run: "oco_reachable demo_oco_env demo_closed" "oheap demo_closed 1 =
    Some (demo_oco_active\<lparr>cState := StateCompleted, cPnL := leg_pnl demo_oco_active (demo_event ''B2'' 50)\<rparr>)"
  "otasks demo_closed = []" "\<not> opanic demo_closed"
proof -
  have e: "demo_closed = oschedule demo_oco_env (length (otasks demo_active)) (oschedule demo_oco_env (length (otasks demo_active))
      (HandleOCOUpdate demo_oco_env (demo_event ''B2'' 50) ''TRADED'' demo_active))"
    by (simp add: demo_closed_def demo_cancelled_def demo_stopped_def demo_active_eq(4))
  have h: "leg_live demo_oco_active" "oIndiraOrderID (demo_event ''B2'' 50) = Some (cSLBrokerID demo_oco_active)"
      "brokerIndex demo_active (cSLBrokerID demo_oco_active) = Some 1" "cSLBrokerID demo_oco_active \<noteq> cEntryBrokerID demo_oco_active"
      "executed_status (to_upper (trim_space ''TRADED''))" "cTPBrokerID demo_oco_active \<noteq> []"
    by (simp_all add: demo_active_fields demo_active_heap demo_entry_event leg_live_def)
  note c = stop_completes [OF demo_active_heap(4,1) demo_active_fields(1) h, of demo_oco_env, folded e]
  show "oheap demo_closed 1 = Some (demo_oco_active\<lparr>cState := StateCompleted, cPnL := leg_pnl demo_oco_active (demo_event ''B2'' 50)\<rparr>)"
    "otasks demo_closed = []" "\<not> opanic demo_closed"
    using c(1,2,4) demo_active_heap(5) demo_active_eq(5) by simp_all
  have n: "\<not> opanic demo_stopped" using demo_active_eq(5) by (simp add: demo_stopped_eq)
  have "opanic demo_cancelled = opanic demo_stopped"
    by (simp add: demo_cancelled_def oschedule_def demo_stopped_eq demo_active_eq(4) cancelLeg_def on_oco_def split: option.split)
  then show "oco_reachable demo_oco_env demo_closed"
    using n unfolding demo_closed_def demo_cancelled_def
    by (intro oreach_step [OF oreach_step [OF demo_stopped_reachable step_otask] step_otask]) simp_all
qed

end
