(* ===== verification/OcoFeed.thy ===== *)
theory OcoFeed
  imports OcoContracts
begin

text \<open>
  The trailing stop and the price feed of the one-cancels-the-other manager: what a price
  can do to a stop, how frames are decoded, which groups a price reaches.
\<close>

section \<open>A closed group\<close>

theorem terminal_group_final_witness:
  "\<exists>g'. oheap (CancelAllGroupsByUser ''U'' demo_closed) 1 = Some g' \<and> cState g' = StateCompleted"
proof -
  have "oco_step demo_oco_env demo_closed (CancelAllGroupsByUser ''U'' demo_closed)"
    by (rule step_cancel_user) (rule demo_closed_run)
  then show ?thesis
    using terminal_group_final [OF demo_closed_run(1) r_into_rtranclp demo_closed_run(2)] demo_closed_run(3) by simp
qed

section \<open>Modification of the stop\<close>

lemma ModifySLLeg_atomic_aux:
  assumes "oheap m gid = Some g" "cGroupID g = gid"
  shows "case ModifySLLeg env gid t l h m of
     (m', Some e) \<Rightarrow> (\<exists>g'. oheap m' gid = Some g' \<and> cState g' = cState g \<and>
        (cSLTriggerPrice g', cSLLimitPrice g', cHighestPrice g') = (cSLTriggerPrice g, cSLLimitPrice g, cHighestPrice g))
   | (m', None) \<Rightarrow> cState g = StateActive \<and> cSLBrokerID g \<noteq> [] \<and>
       (\<exists>g' ord a. oheap m' gid = Some g' \<and> cState g' = StateActive \<and>
        (cSLTriggerPrice g', cSLLimitPrice g') = (t, l) \<and> cHighestPrice g' = (if 0 < h then h else cHighestPrice g) \<and>
        OModify ord a None \<in> set (oout m') \<and> oIndiraOrderID ord = Some (cSLBrokerID g) \<and>
        oStopLoss ord = Some t \<and> oPrice ord = Some l \<and>
        oQuantity ord = (if 0 < cFilledQty g then cFilledQty g else cQuantity g))"
proof (cases "cState g \<noteq> StateActive \<or> cSLBrokerID g = []")
  case True then show ?thesis using assms by (simp add: ModifySLLeg_def)
next
  case False
  define ord where "ord = leg_change g (cSLOrderID g) (cSLBrokerID g) OrderTypeStopLoss
    (if 0 < cFilledQty g then cFilledQty g else cQuantity g) l (Some t)"
  have o: "oIndiraOrderID ord = Some (cSLBrokerID g)" "oStopLoss ord = Some t" "oPrice ord = Some l"
      "oQuantity ord = (if 0 < cFilledQty g then cFilledQty g else cQuantity g)"
    by (simp_all add: ord_def leg_change_def)
  obtain m1 e1 where mo: "modify_order_at env ord (cAuth g) m = (m1, e1)" by fastforce
  have h1: "oheap m1 = oheap m" "OModify ord (cAuth g) e1 \<in> set (oout m1)"
    using mo by (auto simp: modify_order_at_def Let_def)
  obtain m2 a where ra: "refreshAuth env (cUserID g) (cAuth g) m1 = (m2, a)" by fastforce
  then have l2: "logs (\<lambda>_. False) 0 m1 m2" by (rule refreshAuth_logs) simp_all
  have h2: "oheap m2 = oheap m" using logs_fields(1) [OF l2] h1 by simp
  define retry where "retry \<longleftrightarrow> isSessionExpiredError e1 \<and> xCreds env \<noteq> None"
  define put where "put g' x = fst (db_update env ord (setc (g'\<lparr>cSLTriggerPrice := t, cSLLimitPrice := l,
    cHighestPrice := (if 0 < h then h else cHighestPrice g')\<rparr>) x))" for g' x
  obtain m3 e3 where m3: "modify_order_at env ord a (setc (g\<lparr>cAuth := a\<rparr>) m2) = (m3, e3)" by fastforce
  have eq: "ModifySLLeg env gid t l h m =
      (case (if retry then (case a of None \<Rightarrow> (m2, g, e1) | Some _ \<Rightarrow> (m3, g\<lparr>cAuth := a\<rparr>, e3)) else (m1, g, e1)) of
         (m', g', Some e) \<Rightarrow> (m', Some (''modify SL leg failed: '' @ e)) | (m', g', None) \<Rightarrow> (put g' m', None))"
    using False m3 unfolding ModifySLLeg_def assms(1) option.case Let_def ord_def [symmetric] mo prod.case
      retry_def [symmetric] ra put_def
    by (auto split: option.splits prod.splits if_splits)
  have e1: "e1 \<noteq> None" if retry using that by (auto simp: retry_def isSessionExpiredError_def split: option.splits)
  have h3: "oheap m3 gid = Some (g\<lparr>cAuth := a\<rparr>)" "OModify ord a e3 \<in> set (oout m3)"
    using m3 assms(2) by (auto simp: modify_order_at_def Let_def)
  have success: "\<exists>g1 ord a'. oheap (put g' x) gid = Some g1 \<and> cState g1 = StateActive \<and>
      (cSLTriggerPrice g1, cSLLimitPrice g1) = (t, l) \<and> cHighestPrice g1 = (if 0 < h then h else cHighestPrice g) \<and>
      OModify ord a' None \<in> set (oout (put g' x)) \<and> oIndiraOrderID ord = Some (cSLBrokerID g) \<and>
      oStopLoss ord = Some t \<and> oPrice ord = Some l \<and>
      oQuantity ord = (if 0 < cFilledQty g then cFilledQty g else cQuantity g)"
    if "g' = g\<lparr>cAuth := b\<rparr>" "OModify ord a' None \<in> set (oout x)" for g' x b a'
    using that o False assms(2) by (intro exI [of _ ord] exI [of _ a'] exI [of _ "g'\<lparr>cSLTriggerPrice := t, cSLLimitPrice := l,
        cHighestPrice := (if 0 < h then h else cHighestPrice g')\<rparr>"]) (auto simp: put_def db_update_def)
  have self: "g = g\<lparr>cAuth := cAuth g\<rparr>" by simp
  consider "retry" "a = None" | b where "retry" "a = Some b" | "\<not> retry" by (cases a; cases retry) auto
  then show ?thesis
  proof cases
    case 1
    then show ?thesis unfolding eq using e1 h2 assms(1) by auto
  next
    case 2
    then show ?thesis unfolding eq using success [of _ a a m3] h3 False by (cases e3) auto
  next
    case 3
    then show ?thesis unfolding eq using success [OF self, of "cAuth g" m1] h1 False assms(1) by (cases e1) auto
  qed
qed

text \<open>
  C25. \<open>ModifySLLeg\<close> changes the recorded stop and best price together, and only when the
  broker accepted a modification to exactly these prices; on an error they are as before.
\<close>

theorem ModifySLLeg_atomic:
  assumes "oheap m gid = Some g" "cGroupID g = gid"
  shows "case ModifySLLeg env gid t l h m of
     (m', Some e) \<Rightarrow> (\<exists>g'. oheap m' gid = Some g' \<and> cState g' = cState g \<and>
        (cSLTriggerPrice g', cSLLimitPrice g', cHighestPrice g') = (cSLTriggerPrice g, cSLLimitPrice g, cHighestPrice g))
   | (m', None) \<Rightarrow> cState g = StateActive \<and> cSLBrokerID g \<noteq> [] \<and>
       (\<exists>g' ord a. oheap m' gid = Some g' \<and> cState g' = StateActive \<and>
        (cSLTriggerPrice g', cSLLimitPrice g') = (t, l) \<and> cHighestPrice g' = (if 0 < h then h else cHighestPrice g) \<and>
        OModify ord a None \<in> set (oout m') \<and> oIndiraOrderID ord = Some (cSLBrokerID g) \<and>
        oStopLoss ord = Some t \<and> oPrice ord = Some l \<and>
        oQuantity ord = (if 0 < cFilledQty g then cFilledQty g else cQuantity g))"
  using assms by (rule ModifySLLeg_atomic_aux)

theorem ModifySLLeg_atomic_witness:
  "case ModifySLLeg demo_oco_env 1 60 59 120 demo_active of (m', r) \<Rightarrow> (\<exists>g'. oheap m' 1 = Some g' \<and> cState g' = StateActive)"
  using ModifySLLeg_atomic [OF demo_active_heap(1) demo_active_fields(1), where env = demo_oco_env and t = 60 and l = 59 and h = 120]
  by (auto simp: demo_active_fields split: prod.splits option.splits)

section \<open>The stop trails the price\<close>

lemma trail_raw_better:
  assumes "CalculateTrailingSL g ltp = Some (t, l)"
  shows "\<exists>raw. t = roundNSE raw \<and> raw = fmul (cSLTriggerPrice g) (fdiv ltp (cHighestPrice g)) \<and>
    (if cOrderSide g = ''BUY'' then cHighestPrice g < ltp \<and> cSLTriggerPrice g < raw
     else ltp < cHighestPrice g \<and> raw < cSLTriggerPrice g)"
  using assms unfolding CalculateTrailingSL_def trail_raw_def Let_def
  by (auto split: if_splits option.splits)

lemma trail_tightens:
  assumes "CalculateTrailingSL g ltp = Some (t, l)" "roundNSE (cSLTriggerPrice g) = cSLTriggerPrice g"
    and "price_range (cSLTriggerPrice g)" "price_range (fmul (cSLTriggerPrice g) (fdiv ltp (cHighestPrice g)))"
  shows "if cOrderSide g = ''BUY'' then cHighestPrice g < ltp \<and> cSLTriggerPrice g \<le> t
    else ltp < cHighestPrice g \<and> t \<le> cSLTriggerPrice g"
  using trail_raw_better [OF assms(1)] roundNSE_mono [OF assms(3,4)] roundNSE_mono [OF assms(4,3)] assms(2)
  by (auto split: if_splits)

text \<open>
  C26. One price moves a stop only in the direction of profit: after the evaluation of a
  price the stop of a group is the same, with the same best price, or it is at least as
  tight on the right side, and then the price itself was a new best price and is recorded.
\<close>

theorem evaluateTrailing_tightens:
  assumes "oheap m gid = Some g" "cGroupID g = gid" "roundNSE (cSLTriggerPrice g) = cSLTriggerPrice g"
    and "price_range (cSLTriggerPrice g)" "price_range (fmul (cSLTriggerPrice g) (fdiv ltp (cHighestPrice g)))" "0 < ltp"
  shows "\<exists>g'. oheap (evaluateTrailing env gid ltp m) gid = Some g' \<and>
    ((cSLTriggerPrice g', cHighestPrice g') = (cSLTriggerPrice g, cHighestPrice g) \<or>
     cHighestPrice g' = ltp \<and> (if cOrderSide g = ''BUY'' then cHighestPrice g < ltp \<and> cSLTriggerPrice g \<le> cSLTriggerPrice g'
       else ltp < cHighestPrice g \<and> cSLTriggerPrice g' \<le> cSLTriggerPrice g))"
proof (cases "CalculateTrailingSL g ltp")
  case None then show ?thesis using assms by (simp add: evaluateTrailing_def on_oco_def)
next
  case (Some tl)
  obtain t l where tl: "tl = (t, l)" by fastforce
  note better = trail_tightens [OF Some [unfolded tl] assms(3-5)]
  obtain m' r where M: "ModifySLLeg env gid t l ltp m = (m', r)" by fastforce
  have "\<exists>g'. oheap m' gid = Some g' \<and> ((cSLTriggerPrice g', cHighestPrice g') = (cSLTriggerPrice g, cHighestPrice g) \<or>
      (cSLTriggerPrice g', cHighestPrice g') = (t, ltp))"
    using ModifySLLeg_atomic_aux [OF assms(1,2), where env = env and t = t and l = l and h = ltp] assms(6) by (auto simp: M split: option.splits)
  then show ?thesis using better assms by (auto simp: evaluateTrailing_def on_oco_def Some tl M split: if_splits)
qed

theorem evaluateTrailing_tightens_witness:
  "\<exists>g'. oheap (evaluateTrailing demo_oco_env 1 200 demo_active) 1 = Some g' \<and> 50 \<le> cSLTriggerPrice g'"
proof -
  have h: "rnd 2 = 2" "rnd 100 = 100" by (simp_all add: f64_eval)
  have r: "roundNSE 50 = 50" by (simp add: roundNSE_def nse_paise_def tick_arg_def f64_eval go_div_def i64_def)
  show ?thesis
    using evaluateTrailing_tightens [OF demo_active_heap(1) demo_active_fields(1), where ltp = 200 and env = demo_oco_env]
    by (auto simp: demo_active_fields r h price_range_def split: if_splits)
qed

section \<open>Frames\<close>

text \<open>The frame the feed sends, following the layout the decoder documents.\<close>

definition string_bytes :: "string \<Rightarrow> byte list" where
  "string_bytes s = map (\<lambda>c. of_nat (of_char c)) s"

definition le_bytes :: "nat \<Rightarrow> byte list" where
  "le_bytes n = [of_nat n, of_nat (n div 256), of_nat (n div 65536), of_nat (n div 16777216)]"

definition encode_tick :: "byte list \<Rightarrow> string \<Rightarrow> string \<Rightarrow> byte \<Rightarrow> nat \<Rightarrow> byte list" where
  "encode_tick timestamp token symbol exchange ltpBits =
     [wsMsgMarketData] @ timestamp @ [of_nat (length token)] @ string_bytes token @
     [of_nat (length symbol)] @ string_bytes symbol @ [exchange] @ le_bytes ltpBits"

lemma bytes_string_bytes: "bytes_string (string_bytes s) = s"
  by (induction s) (simp_all add: bytes_string_def string_bytes_def unat_of_nat take_bit_eq_mod)

lemma length_string_bytes [simp]: "length (string_bytes s) = length s"
  by (simp add: string_bytes_def)

lemma le_uint32_le_bytes: "n < 2 ^ 32 \<Longrightarrow> le_uint32 (le_bytes n) = n"
proof -
  assume n: "n < 2 ^ 32"
  have d: "n div 256 div 256 = n div 65536" "n div 65536 div 256 = n div 16777216"
    by (simp_all add: div_mult2_eq [symmetric])
  have "n mod 256 + 256 * (n div 256) = n" "n div 256 mod 256 + 256 * (n div 65536) = n div 256"
    "n div 65536 mod 256 + 256 * (n div 16777216) = n div 65536"
    unfolding d [symmetric] by simp_all
  moreover have "n div 16777216 mod 256 = n div 16777216" using n by simp
  ultimately show ?thesis
    by (simp add: le_uint32_def le_bytes_def unat_of_nat take_bit_eq_mod)
qed

lemma read_field_string:
  assumes "length s < 256" "length pre = k"
  shows "read_field (pre @ [of_nat (length s)] @ string_bytes s @ rest) k = Some (s, k + 1 + length s)"
  using assms by (simp add: read_field_def Let_def nth_append unat_of_nat take_bit_eq_mod bytes_string_bytes)

text \<open>
  C27. Decoding a frame gives back the token, the symbol and the price that were encoded,
  for every price that is a positive finite 32-bit float and all names of up to 255 bytes.
\<close>

theorem decode_encode_tick:
  assumes "length timestamp = 8" "length token < 256" "length symbol < 256" "bits < 2 ^ 32"
    and "Float32frombits bits = F32 ltp" "0 < ltp"
  shows "decodeBinaryTick (encode_tick timestamp token symbol exchange bits) = Tick token symbol ltp"
proof -
  define tail where "tail = [exchange] @ le_bytes bits"
  define body where "body = [of_nat (length symbol)] @ string_bytes symbol @ tail"
  define data where "data = encode_tick timestamp token symbol exchange bits"
  have d1: "data = ([wsMsgMarketData] @ timestamp) @ [of_nat (length token)] @ string_bytes token @ body"
    by (simp add: data_def encode_tick_def body_def tail_def)
  have r1: "read_field data 9 = Some (token, 10 + length token)"
    unfolding d1 using read_field_string [OF assms(2), of "[wsMsgMarketData] @ timestamp" 9] assms(1) by simp
  have d2: "data = ([wsMsgMarketData] @ timestamp @ [of_nat (length token)] @ string_bytes token) @ body"
    by (simp add: d1)
  have r2: "read_field data (10 + length token) = Some (symbol, 10 + length token + 1 + length symbol)"
    unfolding d2 body_def
    using read_field_string [OF assms(3), of "[wsMsgMarketData] @ timestamp @ [of_nat (length token)] @ string_bytes token" "10 + length token" tail]
      assms(1) by simp
  have len: "length data = 16 + length token + length symbol"
    using assms(1) by (simp add: d1 body_def tail_def le_bytes_def)
  have dr: "drop (12 + (length token + length symbol)) data = le_bytes bits"
  proof -
    define pre where "pre = [wsMsgMarketData] @ timestamp @ [of_nat (length token)] @ string_bytes token @
      [of_nat (length symbol)] @ string_bytes symbol @ [exchange]"
    have "data = pre @ le_bytes bits" by (simp add: d1 body_def tail_def pre_def)
    moreover have "length pre = 12 + length token + length symbol" using assms(1) by (simp add: pre_def)
    ultimately show ?thesis by simp
  qed
  have h: "data ! 0 = wsMsgMarketData" by (simp add: d1)
  have t: "take 4 (le_bytes bits) = le_bytes bits" by (simp add: le_bytes_def)
  show ?thesis
    unfolding data_def [symmetric] decodeBinaryTick_def
    using len h assms(5,6) dr
    by (simp add: r1 r2 Let_def t le_uint32_le_bytes [OF assms(4)])
qed

text \<open>A frame for token 11536 and symbol TCS at 100.5 (bits 0x42C90000).\<close>

theorem decode_encode_tick_witness:
  "decodeBinaryTick (encode_tick (replicate 8 0) ''11536'' ''TCS'' 1 1120468992) = Tick ''11536'' ''TCS'' (201 / 2)"
  by (rule decode_encode_tick) (simp_all add: Float32frombits_def Let_def power_int_def power_divide)


section \<open>Which groups a price reaches\<close>

lemma map_of_add_watch: "map_of (add_watch k gid idx) k' =
    (if k' = k then Some ((case map_of idx k of None \<Rightarrow> [] | Some gs \<Rightarrow> gs) @ [gid]) else map_of idx k')"
  by (induction idx rule: add_watch.induct) (auto split: option.split)

definition watched :: "uuid \<Rightarrow> string \<Rightarrow> (string \<times> uuid list) list \<Rightarrow> bool" where
  "watched gid k idx \<longleftrightarrow> (\<exists>gs. map_of idx k = Some gs \<and> gid \<in> set gs)"

lemma watched_add: "watched i k' idx \<Longrightarrow> watched i k' (add_watch k gid idx)" "watched gid k (add_watch k gid idx)"
  by (auto simp: watched_def map_of_add_watch)

lemma new_tokens_single: "set known \<union> set (new_tokens known [t]) = set known \<union> (if t = [] then {} else {t})"
  by auto

lemma SubscribeTokens_single: "set (subscribed (SubscribeTokens [t] c)) = set (subscribed c) \<union> (if t = [] then {} else {t})"
  by (auto simp: SubscribeTokens_def sendSubscribe_def Let_def)

lemma digits_nonempty: "digits n \<noteq> []"
  by (subst digits.simps) simp

lemma format_int_nonempty: "format_int n \<noteq> []"
  by (simp add: format_int_def digits_nonempty)

lemma watch_group_mono:
  assumes "watch_group m (idx, client) gid = (idx', client')"
  shows "watched i k idx \<Longrightarrow> watched i k idx'"
    and "\<lbrakk>client = Some c; t \<in> set (subscribed c)\<rbrakk> \<Longrightarrow> \<exists>c'. client' = Some c' \<and> t \<in> set (subscribed c')"
  using assms
  by (auto simp: watch_group_def Let_def watched_add SubscribeTokens_single split: option.splits if_splits)

lemma watch_fold_idx:
  "foldl (watch_group m) (idx, client) gids = (idx', client') \<Longrightarrow> watched i k idx \<Longrightarrow> watched i k idx'"
proof (induction gids arbitrary: idx client)
  case (Cons g gs)
  obtain i1 c1 where w: "watch_group m (idx, client) g = (i1, c1)" by fastforce
  then show ?case using Cons watch_group_mono(1) [OF w] by auto
qed simp

lemma watch_fold_client:
  "foldl (watch_group m) (idx, Some c) gids = (idx', client') \<Longrightarrow> t \<in> set (subscribed c) \<Longrightarrow>
    \<exists>c'. client' = Some c' \<and> t \<in> set (subscribed c')"
proof (induction gids arbitrary: idx c)
  case (Cons g gs)
  obtain i1 c1 where w: "watch_group m (idx, Some c) g = (i1, c1)" by fastforce
  then obtain c2 where "c1 = Some c2" "t \<in> set (subscribed c2)" using watch_group_mono(2) [OF w refl Cons.prems(2)] by blast
  then show ?case using Cons.IH [of i1 c2] Cons.prems(1) w by simp
qed auto

lemma watch_fold_in:
  assumes "foldl (watch_group m) (idx, Some c) gids = (idx', client')" "gid \<in> set gids" "oheap m gid = Some g" "cTrailingSL g"
  shows "watched gid (cSymbol g) idx' \<and> watched gid (format_int (cStockCode g)) idx' \<and>
    (\<exists>c'. client' = Some c' \<and> format_int (cStockCode g) \<in> set (subscribed c'))"
  using assms
proof (induction gids arbitrary: idx c)
  case (Cons x xs)
  obtain i1 c1 where w: "watch_group m (idx, Some c) x = (i1, c1)" by fastforce
  then obtain c2 where c2: "c1 = Some c2"
    by (auto simp: watch_group_def Let_def split: option.splits if_splits)
  have f: "foldl (watch_group m) (i1, Some c2) xs = (idx', client')" using Cons.prems(1) w c2 by simp
  show ?case
  proof (cases "gid = x")
    case False
    then show ?thesis using Cons.IH [OF f _ Cons.prems(3,4)] Cons.prems(2) by simp
  next
    case True
    have i1: "watched gid (cSymbol g) i1" "watched gid (format_int (cStockCode g)) i1"
      "format_int (cStockCode g) \<in> set (subscribed c2)"
      using w assms(3,4) format_int_nonempty c2
      by (auto simp: watch_group_def Let_def watched_add SubscribeTokens_single True split: if_splits)
    show ?thesis using watch_fold_idx [OF f i1(1)] watch_fold_idx [OF f i1(2)] watch_fold_client [OF f i1(3)] by simp
  qed
qed simp

text \<open>
  C28. Every active group with a trailing stop is watched: after a refresh it is listed
  under its symbol and under its numeric token, and the feed client is subscribed to the
  token, so a price under either name reaches the group.
\<close>

theorem active_groups_are_watched:
  assumes "gid \<in> set (ogroups m)" "oheap m gid = Some g" "cState g = StateActive" "cTrailingSL g"
  shows "\<exists>c' gs gs'. snd (refreshGroups m (Some c)) = Some c' \<and> format_int (cStockCode g) \<in> set (subscribed c') \<and>
    map_of (fst (refreshGroups m (Some c))) (cSymbol g) = Some gs \<and> gid \<in> set gs \<and>
    map_of (fst (refreshGroups m (Some c))) (format_int (cStockCode g)) = Some gs' \<and> gid \<in> set gs'"
proof -
  have "gid \<in> set (GetActiveGroups m)" using assms by (simp add: GetActiveGroups_def select_groups_def)
  then show ?thesis
    using watch_fold_in [of m "[]" c "GetActiveGroups m" "fst (refreshGroups m (Some c))" "snd (refreshGroups m (Some c))" gid g]
      assms(2,4) by (auto simp: refreshGroups_def watched_def)
qed

theorem active_groups_are_watched_witness:
  "\<exists>gs'. map_of (fst (refreshGroups demo_active (Some NewOCOMarketClient))) ''77'' = Some gs' \<and> 1 \<in> set gs'"
proof -
  have "format_int 77 = ''77''" by code_simp
  then show ?thesis
    using active_groups_are_watched [OF demo_active_heap(4,1) demo_active_fields(2,9)]
    by (simp add: demo_active_fields) blast
qed

end
