(* ===== verification/OcoFindings.thy ===== *)
theory OcoFindings
  imports OcoFeed
begin

text \<open>
  Behaviour of the one-cancels-the-other manager that its comments and callers do not
  expect: each lemma states what the code does.
\<close>

section \<open>Legs that are abandoned\<close>

text \<open>
  When the partial-fill timer expires the manager cancels the rest of the entry order. The
  broker confirms with \<open>CANCELLED\<close> for the entry, and by then the partial-fill flag is
  cleared: the group is failed and forgotten although both legs are live, no leg is
  cancelled, and a later execution of the stop does not cancel the target.
\<close>

lemma timer_clears_flag:
  assumes "oheap m gid = Some g" "cGroupID g = gid" "cPartialFillActive g"
  shows "oheap (timer_expired env gid m) gid = Some (clear_partial g)"
proof -
  have l: "logs is_cancel 3 (setc (clear_partial g) m) (cancelEntryRemaining env (clear_partial g) (setc (clear_partial g) m))"
    unfolding cancelEntryRemaining_def using cancel_attempts_logs [of 3] by simp
  show ?thesis using assms by (simp add: timer_expired_def on_oco_def Let_def logs_fields [OF l])
qed

lemma entry_cancel_abandons_legs:
  fixes env :: oco_env
  assumes "gid \<in> set (ogroups m)" "oheap m gid = Some g" "cGroupID g = gid" "leg_live g" "\<not> cPartialFillActive g"
    and "oIndiraOrderID ordE = Some (cEntryBrokerID g)" "brokerIndex m (cEntryBrokerID g) = Some gid"
    and "oIndiraOrderID ordS = Some (cSLBrokerID g)" "brokerIndex m (cSLBrokerID g) = Some gid"
  defines "m1 \<equiv> HandleOCOUpdate env ordE ''CANCELLED'' m"
  shows "oheap m1 gid = Some (g\<lparr>cState := StateFailed\<rparr>)" "otasks m1 = otasks m @ [OTCleanup gid]"
    "HandleOCOUpdate env ordS ''EXECUTED'' m1 = m1"
proof -
  have s: "to_upper (trim_space ''CANCELLED'') = ''CANCELLED''"
    by (simp add: trim_space_def is_space_def to_upper_def upper_char_def)
  have m1: "m1 = broadcast env (cUserID g) ''oco_entry_rejected'' (Some ordE) (scheduleCleanup gid (setc (g\<lparr>cState := StateFailed\<rparr>) m))"
    using assms(1-7) by (auto simp: m1_def HandleOCOUpdate_def on_oco_def route_update_def handleEntryUpdate_def s
        executed_status_def partial_status_def leg_live_def)
  then show "oheap m1 gid = Some (g\<lparr>cState := StateFailed\<rparr>)" "otasks m1 = otasks m @ [OTCleanup gid]"
    using assms(3) by simp_all
  then show "HandleOCOUpdate env ordS ''EXECUTED'' m1 = m1"
    using assms(1,3,8,9) by (simp add: HandleOCOUpdate_def on_oco_def m1)
qed

section \<open>Groups that are active without protection\<close>

text \<open>
  In a group with a target but no stop, a rejected target is taken for the stop-only case:
  the group becomes \<open>ACTIVE\<close> although no leg exists.
\<close>

lemma target_only_failure_is_active:
  assumes "oheap m gid = Some g" "cGroupID g = gid" "cSLBrokerID g = []" "cTPBrokerID g = []"
  shows "\<exists>g'. oheap (finish_legs env gid None (Inr []) (Inl e) m) gid = Some g' \<and> cState g' = StateActive \<and>
    cSLBrokerID g' = [] \<and> cTPBrokerID g' = []"
  using assms by (simp add: finish_legs_def on_oco_def checkLegsConfirmed_def take_sl_def Let_def)

text \<open>
  A group cancelled while its legs are being placed asks the broker to cancel nothing, and
  the end of the placement makes it active again.
\<close>

lemma cancel_while_placing_is_lost:
  assumes "gid \<in> set (ogroups m)" "oheap m gid = Some g" "cGroupID g = gid" "cState g = StatePlacingLegs" "slB \<noteq> []" "tpB \<noteq> []"
  shows "otasks (fst (CancelOCOGroup gid m)) = otasks m @ [OTCleanup gid]" "snd (CancelOCOGroup gid m) = None"
    "\<exists>g'. oheap (fst (CancelOCOGroup gid m)) gid = Some g' \<and> cState g' = StateCancelled"
    "\<exists>g'. oheap (finish_legs env gid slo (Inr slB) (Inr tpB) (fst (CancelOCOGroup gid m))) gid = Some g' \<and> cState g' = StateActive"
proof -
  have c: "CancelOCOGroup gid m = (scheduleCleanup gid (setc (g\<lparr>cState := StateCancelled\<rparr>) m), None)"
    using assms by (simp add: CancelOCOGroup_def Let_def leg_live_def)
  show "otasks (fst (CancelOCOGroup gid m)) = otasks m @ [OTCleanup gid]" "snd (CancelOCOGroup gid m) = None"
    "\<exists>g'. oheap (fst (CancelOCOGroup gid m)) gid = Some g' \<and> cState g' = StateCancelled"
    using assms(3) by (simp_all add: c)
  show "\<exists>g'. oheap (finish_legs env gid slo (Inr slB) (Inr tpB) (fst (CancelOCOGroup gid m))) gid = Some g' \<and> cState g' = StateActive"
    using finished_state(1) [of "fst (CancelOCOGroup gid m)" gid "g\<lparr>cState := StateCancelled\<rparr>" slB tpB env slo] assms
    by (simp add: c)
qed

section \<open>Restart\<close>

text \<open>
  The entry row never carries the percentages, so after a restart both are 0 and the fill
  of the entry fails the group instead of placing its legs.
\<close>

lemma restart_loses_percentages:
  assumes "ord = (entry_order g auth limit)\<lparr>oIndiraOrderID := Some b, oStatus := StatusSubmitted\<rparr>" "cGroupID g = gid"
  shows "\<exists>g'. reconstructGroup gid [ord] = Some g' \<and> cState g' = StatePendingEntry \<and> cSLPercent g' = 0 \<and> cTPPercent g' = 0"
  by (simp add: assms reconstructGroup_def restore_order_def restore_entry_def entry_order_def with_auth_def zero_order_def
      zero_oco_def inferState_def role_status_def RoleEntry_def RoleSLLeg_def RoleTPLeg_def StatusSubmitted_def IsFilledStatus_def
      IsTerminalStatus_def IsPartiallyFilledStatus_def to_upper_def upper_char_def orelse_def Let_def)

text \<open>
  An adopted order carries the absolute stop price of its signal in the column that a
  restart reads as the percentage.
\<close>

lemma restart_reads_price_as_percentage:
  assumes "oStopLoss ord = Some p" "oIndiraOrderID ord = Some b" "b \<noteq> []" "oStatus ord = StatusSubmitted"
  shows "\<exists>g'. reconstructGroup gid [fst (AdoptOrder ord slPct tpPct tr trp auth m)] = Some g' \<and> cSLPercent g' = p"
  using assms
  by (simp add: AdoptOrder_def Let_def reconstructGroup_def restore_order_def restore_entry_def zero_oco_def inferState_def
      role_status_def RoleEntry_def RoleSLLeg_def RoleTPLeg_def StatusSubmitted_def IsFilledStatus_def
      IsTerminalStatus_def IsPartiallyFilledStatus_def to_upper_def upper_char_def orelse_def)

lemma no_percentages_no_legs:
  assumes "oheap m gid = Some g" "cGroupID g = gid" "cSLPercent g = 0" "cTPPercent g = 0"
  shows "placeOCOLegs env gid False m = setc (g\<lparr>cState := StateFailed\<rparr>) m"
  using assms by (simp add: placeOCOLegs_def on_oco_def Let_def)

text \<open>
  A group whose entry filled before the restart and whose legs were not written yet is
  restored as \<open>PLACING_LEGS\<close>; nothing places them, and the entry's execution is ignored.
\<close>

lemma restart_while_placing_is_stuck:
  assumes "gid \<in> set (ogroups m)" "oheap m gid = Some g" "cState g = StatePlacingLegs" "\<not> cPartialFillActive g"
    and "oIndiraOrderID ord = Some (cEntryBrokerID g)" "brokerIndex m (cEntryBrokerID g) = Some gid" "executed_status (to_upper (trim_space s))"
  shows "HandleOCOUpdate env ord s m = m"
  using assms by (simp add: HandleOCOUpdate_def on_oco_def route_update_def handleEntryUpdate_def)

section \<open>Goroutines that overwrite\<close>

text \<open>The end of \<open>cancelLeg\<close> completes a group that has failed or was cancelled.\<close>

lemma cancel_overwrites_failure:
  assumes "oheap m gid = Some g" "cGroupID g = gid" "cState g = StateFailed"
  shows "\<exists>g'. oheap (cancel_leg_end env gid m) gid = Some g' \<and> cState g' = StateCompleted"
  using assms by (simp add: cancel_leg_end_def on_oco_def)

text \<open>
  A partial execution of the only leg leaves the group triggered for ever: the goroutine
  that would complete it returns at once because there is no other leg.
\<close>

lemma partial_only_leg_is_stuck:
  fixes env :: oco_env
  assumes "gid \<in> set (ogroups m)" "oheap m gid = Some g" "cGroupID g = gid" "leg_live g" "cTPBrokerID g = []"
    and "oIndiraOrderID ord = Some (cSLBrokerID g)" "brokerIndex m (cSLBrokerID g) = Some gid" "cSLBrokerID g \<noteq> cEntryBrokerID g"
    and "otasks m = []"
  defines "m1 \<equiv> oschedule env 0 (HandleOCOUpdate env ord ''PARTIALLY TRADED'' m)"
  shows "oheap m1 gid = Some (g\<lparr>cState := StateSLTriggered\<rparr>)" "otasks m1 = []" "HandleOCOUpdate env ord ''EXECUTED'' m1 = m1"
proof -
  have s: "to_upper (trim_space ''PARTIALLY TRADED'') = ''PARTIALLY TRADED''" "to_upper (trim_space ''EXECUTED'') = ''EXECUTED''"
    by (simp_all add: trim_space_def is_space_def to_upper_def upper_char_def)
  define m2 where "m2 = setc (g\<lparr>cState := StateSLTriggered\<rparr>) m"
  have nt: "\<not> IsTerminal (cState g)" using assms(4) by (auto simp: leg_live_def)
  have *: "HandleOCOUpdate env ord ''PARTIALLY TRADED'' m = ospawn (OTCancelLeg gid [] ''TP'' ''SL leg partially filled (OCO)'') m2"
    using assms(1-8) nt by (simp add: HandleOCOUpdate_def on_oco_def route_update_def handleSLLegUpdate_def s m2_def Let_def
        executed_status_def partial_status_def pending_status_def)
  have h: "oheap m2 gid = Some (g\<lparr>cState := StateSLTriggered\<rparr>)" "otasks m2 = []"
    using assms(3,9) by (simp_all add: m2_def)
  have idx: "brokerIndex m2 = brokerIndex m" "ogroups m2 = ogroups m" by (simp_all add: m2_def)
  from * h have m1: "m1 = m2" using ospawn_last [of env m2] by (simp add: m1_def cancelLeg_def on_oco_def)
  then show "oheap m1 gid = Some (g\<lparr>cState := StateSLTriggered\<rparr>)" "otasks m1 = []" using h by simp_all
  show "HandleOCOUpdate env ord ''EXECUTED'' m1 = m1"
    using assms(1-8) h idx by (simp add: m1 HandleOCOUpdate_def on_oco_def route_update_def handleSLLegUpdate_def s Let_def
        executed_status_def pending_status_def leg_live_def)
qed

section \<open>Concurrent prices\<close>

text \<open>
  The decision to trail and the modification are two critical sections. When the feed and
  the poller evaluate prices 400 and 200 of the demonstration group at the same time and
  the modification for 200 comes last, the stop falls back from 200 to 100.
\<close>

lemma ModifySLLeg_accepted:
  assumes "oheap m gid = Some g" "cState g = StateActive" "cSLBrokerID g \<noteq> []" "\<And>a b c. xModify env a b c = None"
  shows "oheap (fst (ModifySLLeg env gid t l h m)) = (oheap m)(cGroupID g \<mapsto> g\<lparr>cSLTriggerPrice := t, cSLLimitPrice := l,
    cHighestPrice := (if 0 < h then h else cHighestPrice g)\<rparr>)"
  using assms by (simp add: ModifySLLeg_def Let_def modify_order_at_def isSessionExpiredError_def db_update_def)

lemma trailing_race_lowers_stop:
  "\<exists>l1 l2 g'. CalculateTrailingSL demo_oco_active 400 = Some (200, l1) \<and> CalculateTrailingSL demo_oco_active 200 = Some (100, l2) \<and>
    oheap (fst (ModifySLLeg demo_oco_env 1 100 l2 200 (fst (ModifySLLeg demo_oco_env 1 200 l1 400 demo_active)))) 1 = Some g' \<and>
    cSLTriggerPrice g' = 100 \<and> cHighestPrice g' = 200"
proof -
  have h: "rnd 2 = 2" "rnd 4 = 4" "rnd 100 = 100" "rnd 200 = 200" "rnd 1 = 1" "rnd 3 = 3" "rnd 300 = 300" "rnd 50 = 50" "rnd 150 = 150"
      "rnd (1 / 10) = 3602879701896397 / 36028797018963968"
    by (simp_all add: f64_eval)
  have r: "roundNSE 100 = 100" "roundNSE 200 = 200" by (simp_all add: roundNSE_def nse_paise_def tick_arg_def f64_eval go_div_def i64_def)
  have c: "CalculateTrailingSL demo_oco_active 400 = Some (200, roundNSE (fmul 200 below_buffer))"
    "CalculateTrailingSL demo_oco_active 200 = Some (100, roundNSE (fmul 100 below_buffer))"
    by (simp_all add: CalculateTrailingSL_def trail_raw_def trail_min_pct_def Let_def demo_active_fields h r)
  show ?thesis
  proof (intro exI conjI)
    define m1 where "m1 = fst (ModifySLLeg demo_oco_env 1 200 (roundNSE (fmul 200 below_buffer)) 400 demo_active)"
    define g1 where "g1 = demo_oco_active\<lparr>cSLTriggerPrice := 200, cSLLimitPrice := roundNSE (fmul 200 below_buffer), cHighestPrice := 400\<rparr>"
    have x: "xModify demo_oco_env a b c = None" for a b c by (simp add: demo_oco_env_def)
    have m1: "oheap m1 1 = Some g1"
      using ModifySLLeg_accepted [OF demo_active_heap(1) demo_active_fields(2) _ x, of "200" "roundNSE (fmul 200 below_buffer)" 400]
      by (simp add: m1_def g1_def demo_active_fields)
    show "CalculateTrailingSL demo_oco_active 400 = Some (200, roundNSE (fmul 200 below_buffer))"
      "CalculateTrailingSL demo_oco_active 200 = Some (100, roundNSE (fmul 100 below_buffer))"
      by (rule c)+
    show "oheap (fst (ModifySLLeg demo_oco_env 1 100 (roundNSE (fmul 100 below_buffer)) 200
        (fst (ModifySLLeg demo_oco_env 1 200 (roundNSE (fmul 200 below_buffer)) 400 demo_active)))) 1 =
        Some (g1\<lparr>cSLTriggerPrice := 100, cSLLimitPrice := roundNSE (fmul 100 below_buffer), cHighestPrice := 200\<rparr>)"
      unfolding m1_def [symmetric]
      using ModifySLLeg_accepted [OF m1 _ _ x, of 100 "roundNSE (fmul 100 below_buffer)" 200]
      by (simp add: g1_def demo_active_fields)
  qed simp_all
qed

section \<open>Quantities\<close>

text \<open>
  A further fill of the entry that is handled before the legs have broker identifiers
  changes only the recorded quantity: the legs stay at the first partial quantity.
\<close>

lemma modify_before_placement_is_lost:
  assumes "oheap m gid = Some g" "cGroupID g = gid" "cSLBrokerID g = []" "cTPBrokerID g = []"
  shows "oout (modifyLegsQty env gid q m) = oout m" "oheap (modify_legs_end gid q m) gid = Some (g\<lparr>cFilledQty := q\<rparr>)"
  using assms by (simp_all add: modifyLegsQty_def modify_legs_end_def on_oco_def modify_leg_def Let_def)

end
