(* ===== verification/ReTypes.thy ===== *)
theory ReTypes
  imports Prelude Float64 "HOL-Library.Word"
begin

text \<open>
  The data of the rules engine (\<open>services/rules-engine/internal/models\<close> and
  \<open>configsync/event.go\<close>): market events, strategies, the configuration messages of the
  user-config service and the mapping from a message's payload to a strategy. A time is
  \<open>Some\<close> of its Unix nanoseconds, Go's zero time is \<open>None\<close>; a version is a 64-bit word.
\<close>

type_synonym version = "64 word"
type_synonym go_time = "int option"

section \<open>Errors (models/errors.go)\<close>

datatype re_error = ErrInvalidEventID | ErrInvalidStockCode | ErrInvalidExchange | ErrInvalidImpactScore
  | ErrInvalidStrategyID | ErrInvalidUserID | ErrInvalidQuantity | ErrInvalidOrderType
  | ErrInvalidOrderID | ErrInvalidPrice | ErrText string

section \<open>Market events (models/event.go)\<close>

record PriceMap =
  mpOpen :: float64
  mpHigh :: float64
  mpLow :: float64
  mpVolume :: int
  mpPrevClose :: float64

record MarketData =
  mdLastTradedPrice :: float64
  mdPctChange :: float64
  mdNewsFirstPrice :: float64
  mdNewsPctChange :: float64
  mdPriceMap :: PriceMap

record Analysis =
  aSentiment :: string
  aImpact :: string
  aImpactScore :: int

record NewsData =
  nNewsID :: string
  nNewsLink :: string
  nCategory :: string
  nShortSummary :: string

record StockData =
  sdStockCode :: int
  sdNSECode :: int
  sdBSECode :: int
  sdExchange :: string
  sdSymbol :: string
  sdISIN :: string
  sdCompanyName :: string
  sdMCap :: float64
  sdMCapType :: string

record MarketEvent =
  evEventID :: string
  evEventType :: string
  evStockData :: StockData
  evNewsData :: NewsData
  evAnalysis :: Analysis
  evMarketData :: MarketData

text \<open>\<open>Validate\<close> fills in a missing event type; the checks come in the order of the code.\<close>

definition ValidateEvent :: "MarketEvent \<Rightarrow> MarketEvent \<times> re_error option" where
  "ValidateEvent e =
     (if evEventID e = [] then (e, Some ErrInvalidEventID)
      else let e1 = (if evEventType e = [] then e\<lparr>evEventType := ''news''\<rparr> else e)
           in (e1,
               if sdStockCode (evStockData e1) \<le> 0 then Some ErrInvalidStockCode
               else if sdExchange (evStockData e1) = [] then Some ErrInvalidExchange
               else if aImpactScore (evAnalysis e1) < 0 \<or> 10 < aImpactScore (evAnalysis e1)
               then Some ErrInvalidImpactScore else None))"

definition GetSentimentValue :: "Analysis \<Rightarrow> string" where
  "GetSentimentValue a =
     (if aSentiment a \<in> {''Positive'', ''positive'', ''POSITIVE''} then ''positive''
      else if aSentiment a \<in> {''Negative'', ''negative'', ''NEGATIVE''} then ''negative''
      else ''neutral'')"

section \<open>Strategies (models/strategy.go)\<close>

record PriceRange =
  prMinPrice :: float64
  prMaxPrice :: float64

record MarketCapRange =
  mrMinMcap :: float64
  mrMaxMcap :: float64

record Conditions =
  kMatchAllNews :: bool
  kImpactScoreMin :: int
  kImpactScoreMax :: int
  kSentiments :: "string list"
  kCategories :: "string list"
  kPriceRange :: PriceRange
  kMinPctChange :: float64
  kMaxPctChange :: float64
  kExchanges :: "string list"
  kMarketCapTypes :: "string list"
  kMarketCapRange :: MarketCapRange

record MultiLevelExitLevel =
  xLevelNum :: int
  xPricePct :: float64
  xQtyPct :: float64

record TradeConfig =
  tOrderType :: string
  tQuantity :: int
  tMaxPositionSize :: float64
  tStopLossPct :: float64
  tTakeProfitPct :: float64
  tExchange :: string
  tOrderSide :: string
  tValidity :: string
  tLimitPrice :: float64
  tStopLossType :: string
  tTakeProfitType :: string
  tTrailingSLPct :: float64
  tProductType :: string
  tMultiLevelSL :: "MultiLevelExitLevel list"
  tMultiLevelTP :: "MultiLevelExitLevel list"
  tTradeWindowStart :: string
  tTradeWindowEnd :: string

record RiskLimits =
  rMaxDailyTrades :: int
  rMaxLossPerDay :: float64
  rMaxPositionSize :: float64
  rMaxPerTradeRisk :: float64
  rPositionSizing :: string
  rEnableAutoSquareOff :: bool
  rAutoSquareOffTime :: string
  rMaxAmountPerStock :: float64
  rMaxTradesPerStrategy :: int

record Strategy =
  stStrategyID :: string
  stUserID :: string
  stStrategyName :: string
  stVersion :: version
  stActive :: bool
  stTradingMode :: string
  stConditions :: Conditions
  stTradeConfig :: TradeConfig
  stRiskLimits :: RiskLimits
  stCreatedAt :: go_time
  stUpdatedAt :: go_time
  stBearerToken :: string
  stAppId :: string
  stSource :: string

definition ValidateStrategy :: "Strategy \<Rightarrow> re_error option" where
  "ValidateStrategy s =
     (if stStrategyID s = [] then Some ErrInvalidStrategyID
      else if stUserID s = [] then Some ErrInvalidUserID
      else if kImpactScoreMin (stConditions s) < 0 \<or> 10 < kImpactScoreMin (stConditions s)
      then Some ErrInvalidImpactScore
      else if kImpactScoreMax (stConditions s) < 0 \<or> 10 < kImpactScoreMax (stConditions s)
      then Some ErrInvalidImpactScore
      else if rMaxAmountPerStock (stRiskLimits s) = 0 \<and> tQuantity (stTradeConfig s) \<le> 0
      then Some ErrInvalidQuantity
      else if tOrderType (stTradeConfig s) \<notin> {''MARKET'', ''LIMIT'', ''BRACKET'', ''STOP_LOSS''}
      then Some ErrInvalidOrderType
      else None)"

definition MatchesSentiment :: "Strategy \<Rightarrow> string \<Rightarrow> bool" where
  "MatchesSentiment s sentiment \<longleftrightarrow>
     kSentiments (stConditions s) = [] \<or> sentiment \<in> set (kSentiments (stConditions s))"

definition MatchesCategory :: "Strategy \<Rightarrow> string \<Rightarrow> bool" where
  "MatchesCategory s category \<longleftrightarrow>
     kCategories (stConditions s) = [] \<or> category \<in> set (kCategories (stConditions s))"

section \<open>Configuration messages (configsync/event.go)\<close>

definition ConfigCreated :: string where "ConfigCreated = ''CONFIG_CREATED''"
definition ConfigUpdated :: string where "ConfigUpdated = ''CONFIG_UPDATED''"
definition ConfigDeleted :: string where "ConfigDeleted = ''CONFIG_DELETED''"
definition ConfigPaused :: string where "ConfigPaused = ''CONFIG_PAUSED''"
definition ConfigResumed :: string where "ConfigResumed = ''CONFIG_RESUMED''"

lemmas config_types = ConfigCreated_def ConfigUpdated_def ConfigDeleted_def ConfigPaused_def ConfigResumed_def

record ConditionsPayload =
  qMatchAllNews :: bool
  qImpactScoreMin :: int
  qImpactScoreMax :: int
  qSentiments :: "string list"
  qCategories :: "string list"
  qMarketCapTypes :: "string list"
  qMinMarketCap :: float64
  qMaxMarketCap :: float64
  qMinPriceChangePct :: float64
  qMaxPriceChangePct :: float64
  qExchanges :: "string list"

record TradeConfigPayload =
  yOrderType :: string
  yProductType :: string
  yValidity :: string
  yQuantity :: int
  yExchange :: string
  yOrderSide :: string
  yLimitPrice :: float64
  yStopLossPct :: float64
  yTakeProfitPct :: float64
  yTrailingSLPct :: float64
  yStopLossType :: string
  yTakeProfitType :: string
  yMultiLevelSL :: "MultiLevelExitLevel list"
  yMultiLevelTP :: "MultiLevelExitLevel list"
  yTradeWindowStart :: string
  yTradeWindowEnd :: string

record RiskLimitsPayload =
  zMaxDailyTrades :: int
  zMaxPerTradeRisk :: float64
  zMaxPortfolioExposurePct :: float64
  zMaxLossPerDay :: float64
  zEnableRiskChecks :: bool
  zEnableAutoSquareOff :: bool
  zAutoSquareOffTime :: string
  zMaxAmountPerStock :: float64
  zMaxTradesPerStrategy :: int

record StrategyPayload =
  wStrategyID :: string
  wUserID :: string
  wStrategyName :: string
  wActive :: bool
  wTradingMode :: string
  wConditions :: ConditionsPayload
  wTradeConfig :: TradeConfigPayload
  wRiskLimits :: RiskLimitsPayload
  wVersion :: version
  wCreatedAt :: int
  wUpdatedAt :: int

record ConfigEvent =
  ceType :: string
  ceUserID :: string
  ceStrategyID :: string
  ceVersion :: version
  ceTimestamp :: int
  ceConfig :: "StrategyPayload option"

section \<open>From a payload to a strategy (configsync/mapper.go)\<close>

definition unixNanosToTime :: "int \<Rightarrow> go_time" where
  "unixNanosToTime n = (if n \<le> 0 then None else Some n)"

definition normalizeOrderType :: "string \<Rightarrow> string" where
  "normalizeOrderType v =
     (if v = ''ORDER_TYPE_MARKET'' \<or> v = ''MARKET'' then ''MARKET''
      else if v = ''ORDER_TYPE_LIMIT'' \<or> v = ''LIMIT'' then ''LIMIT''
      else if v = ''ORDER_TYPE_BRACKET'' \<or> v = ''BRACKET'' then ''BRACKET''
      else ''MARKET'')"

definition normalizeExchange :: "string \<Rightarrow> string" where
  "normalizeExchange v =
     (if v = ''EXCHANGE_NSE'' \<or> v = ''NSE'' then ''NSE''
      else if v = ''EXCHANGE_BSE'' \<or> v = ''BSE'' then ''BSE'' else v)"

definition normalizeExchanges :: "string list \<Rightarrow> string list" where
  "normalizeExchanges vs = map normalizeExchange vs"

definition normalizeOrderSide :: "string \<Rightarrow> string" where
  "normalizeOrderSide v =
     (if v = ''ORDER_SIDE_BUY'' \<or> v = ''BUY'' then ''BUY''
      else if v = ''ORDER_SIDE_SELL'' \<or> v = ''SELL'' then ''SELL'' else ''BUY'')"

definition normalizeValidity :: "string \<Rightarrow> string" where
  "normalizeValidity v = (if v = [] then ''DAY'' else v)"

definition normalizeStopLossType :: "string \<Rightarrow> string" where
  "normalizeStopLossType v =
     (if v = ''FIXED'' \<or> v = ''STOP_LOSS_TYPE_FIXED'' then ''FIXED''
      else if v = ''TRAILING'' \<or> v = ''STOP_LOSS_TYPE_TRAILING'' then ''TRAILING''
      else if v = ''MULTI_LEVEL'' \<or> v = ''STOP_LOSS_TYPE_MULTI_LEVEL'' then ''MULTI_LEVEL''
      else ''FIXED'')"

definition normalizeTakeProfitType :: "string \<Rightarrow> string" where
  "normalizeTakeProfitType v =
     (if v = ''MULTI_LEVEL'' \<or> v = ''TAKE_PROFIT_TYPE_MULTI_LEVEL'' then ''MULTI_LEVEL'' else ''FIXED'')"

definition normalizeProductType :: "string \<Rightarrow> string" where
  "normalizeProductType v = (if v = [] then ''INTRADAY'' else v)"

definition to_conditions :: "ConditionsPayload \<Rightarrow> Conditions" where
  "to_conditions p =
     \<lparr>kMatchAllNews = qMatchAllNews p, kImpactScoreMin = qImpactScoreMin p,
      kImpactScoreMax = qImpactScoreMax p, kSentiments = qSentiments p, kCategories = qCategories p,
      kPriceRange = \<lparr>prMinPrice = 0, prMaxPrice = 0\<rparr>, kMinPctChange = qMinPriceChangePct p,
      kMaxPctChange = qMaxPriceChangePct p, kExchanges = normalizeExchanges (qExchanges p),
      kMarketCapTypes = qMarketCapTypes p,
      kMarketCapRange = \<lparr>mrMinMcap = qMinMarketCap p, mrMaxMcap = qMaxMarketCap p\<rparr>\<rparr>"

definition to_trade_config :: "TradeConfigPayload \<Rightarrow> TradeConfig" where
  "to_trade_config p =
     \<lparr>tOrderType = normalizeOrderType (yOrderType p), tQuantity = yQuantity p, tMaxPositionSize = 0,
      tStopLossPct = yStopLossPct p, tTakeProfitPct = yTakeProfitPct p,
      tExchange = normalizeExchange (yExchange p), tOrderSide = normalizeOrderSide (yOrderSide p),
      tValidity = normalizeValidity (yValidity p), tLimitPrice = yLimitPrice p,
      tStopLossType = normalizeStopLossType (yStopLossType p),
      tTakeProfitType = normalizeTakeProfitType (yTakeProfitType p), tTrailingSLPct = yTrailingSLPct p,
      tProductType = normalizeProductType (yProductType p), tMultiLevelSL = yMultiLevelSL p,
      tMultiLevelTP = yMultiLevelTP p, tTradeWindowStart = yTradeWindowStart p,
      tTradeWindowEnd = yTradeWindowEnd p\<rparr>"

definition to_risk_limits :: "RiskLimitsPayload \<Rightarrow> RiskLimits" where
  "to_risk_limits p =
     \<lparr>rMaxDailyTrades = zMaxDailyTrades p, rMaxLossPerDay = zMaxLossPerDay p, rMaxPositionSize = 0,
      rMaxPerTradeRisk = zMaxPerTradeRisk p, rPositionSizing = [],
      rEnableAutoSquareOff = zEnableAutoSquareOff p, rAutoSquareOffTime = zAutoSquareOffTime p,
      rMaxAmountPerStock = zMaxAmountPerStock p, rMaxTradesPerStrategy = zMaxTradesPerStrategy p\<rparr>"

definition ToModelStrategy :: "StrategyPayload option \<Rightarrow> string + Strategy" where
  "ToModelStrategy payload =
     (case payload of None \<Rightarrow> Inl ''payload is nil''
      | Some p \<Rightarrow>
          if wUserID p = [] \<or> wStrategyID p = [] then Inl ''missing user_id/strategy_id''
          else Inr \<lparr>stStrategyID = wStrategyID p, stUserID = wUserID p, stStrategyName = wStrategyName p,
                    stVersion = wVersion p, stActive = wActive p, stTradingMode = wTradingMode p,
                    stConditions = to_conditions (wConditions p),
                    stTradeConfig = to_trade_config (wTradeConfig p),
                    stRiskLimits = to_risk_limits (wRiskLimits p),
                    stCreatedAt = unixNanosToTime (wCreatedAt p),
                    stUpdatedAt = unixNanosToTime (wUpdatedAt p),
                    stBearerToken = [], stAppId = [], stSource = []\<rparr>)"

lemma ToModelStrategy_ids:
  "ToModelStrategy p = Inr s \<Longrightarrow> stUserID s \<noteq> [] \<and> stStrategyID s \<noteq> []"
  by (auto simp: ToModelStrategy_def split: option.splits if_splits)

end
