(* ===== verification/ReMatcher.thy ===== *)
theory ReMatcher
  imports ReTypes "HOL-Library.Multiset"
begin

text \<open>
  The rules engine's matcher (\<open>internal/matcher/evaluator.go\<close>, \<open>scorer.go\<close>): the evaluation
  of a strategy's conditions against a market event, condition by condition into a result
  with matched and failed conditions and a score each, and the weighted score of a result.
  A Go map that is iterated over takes the iteration order, which the language leaves open,
  as an argument.
\<close>

section \<open>Results of an evaluation\<close>

type_synonym scores = "string \<rightharpoonup> float64"

record EvaluationResult =
  erMatched :: "string list"
  erFailed :: "string list"
  erScores :: scores
  erPctChangeStatus :: string

definition PctChangeWithinRange :: string where "PctChangeWithinRange = ''within_range''"
definition PctChangeBelowMin :: string where "PctChangeBelowMin = ''below_min''"
definition PctChangeAboveMax :: string where "PctChangeAboveMax = ''above_max''"

lemmas pct_status = PctChangeWithinRange_def PctChangeBelowMin_def PctChangeAboveMax_def

definition empty_result :: EvaluationResult where
  "empty_result = \<lparr>erMatched = [], erFailed = [], erScores = Map.empty, erPctChangeStatus = []\<rparr>"

definition matched :: "string \<Rightarrow> float64 \<Rightarrow> EvaluationResult \<Rightarrow> EvaluationResult" where
  "matched condition score r =
     r\<lparr>erMatched := erMatched r @ [condition], erScores := (erScores r)(condition \<mapsto> score)\<rparr>"

definition failed :: "string \<Rightarrow> EvaluationResult \<Rightarrow> EvaluationResult" where
  "failed condition r = r\<lparr>erFailed := erFailed r @ [condition], erScores := (erScores r)(condition \<mapsto> 0)\<rparr>"

definition GetMatchedConditionCount :: "EvaluationResult \<Rightarrow> nat" where
  "GetMatchedConditionCount r = length (erMatched r)"

definition GetFailedConditionCount :: "EvaluationResult \<Rightarrow> nat" where
  "GetFailedConditionCount r = length (erFailed r)"

definition GetTotalConditionCount :: "EvaluationResult \<Rightarrow> nat" where
  "GetTotalConditionCount r = length (erMatched r) + length (erFailed r)"

definition IsFullMatch :: "EvaluationResult \<Rightarrow> bool" where
  "IsFullMatch r \<longleftrightarrow> erFailed r = []"

section \<open>The conditions\<close>

definition MaxFloat64 :: float64 where
  "MaxFloat64 = of_int ((2 ^ 53 - 1) * 2 ^ 971)"

definition evaluateImpactScore :: "MarketEvent \<Rightarrow> Strategy \<Rightarrow> EvaluationResult \<Rightarrow> EvaluationResult" where
  "evaluateImpactScore ev s r =
     (let lo = kImpactScoreMin (stConditions s);
          hi = (if kImpactScoreMax (stConditions s) = 0 then 10 else kImpactScoreMax (stConditions s));
          x = aImpactScore (evAnalysis ev)
      in if lo \<le> x \<and> x \<le> hi
         then matched ''impact_score'' (fmul (fdiv (f_of_int x) 10) 100) r
         else failed ''impact_score'' r)"

text \<open>
  Sentiment, category, market-cap and exchange conditions share one shape: an empty list
  accepts everything, otherwise one entry has to agree with the event up to case.
\<close>

definition evaluate_list :: "string \<Rightarrow> string list \<Rightarrow> string \<Rightarrow> EvaluationResult \<Rightarrow> EvaluationResult" where
  "evaluate_list condition wanted actual r =
     (if wanted = [] then matched condition 100 r
      else if list_ex (\<lambda>w. equal_fold w actual) wanted then matched condition 100 r
      else failed condition r)"

definition evaluateSentiment :: "MarketEvent \<Rightarrow> Strategy \<Rightarrow> EvaluationResult \<Rightarrow> EvaluationResult" where
  "evaluateSentiment ev s =
     evaluate_list ''sentiment'' (kSentiments (stConditions s)) (GetSentimentValue (evAnalysis ev))"

definition evaluateCategory :: "MarketEvent \<Rightarrow> Strategy \<Rightarrow> EvaluationResult \<Rightarrow> EvaluationResult" where
  "evaluateCategory ev s =
     evaluate_list ''category'' (kCategories (stConditions s)) (nCategory (evNewsData ev))"

definition evaluateMarketCap :: "MarketEvent \<Rightarrow> Strategy \<Rightarrow> EvaluationResult \<Rightarrow> EvaluationResult" where
  "evaluateMarketCap ev s =
     evaluate_list ''market_cap'' (kMarketCapTypes (stConditions s)) (sdMCapType (evStockData ev))"

definition evaluateExchange :: "MarketEvent \<Rightarrow> Strategy \<Rightarrow> EvaluationResult \<Rightarrow> EvaluationResult" where
  "evaluateExchange ev s =
     evaluate_list ''exchange'' (kExchanges (stConditions s)) (sdExchange (evStockData ev))"

definition evaluatePriceRange :: "MarketEvent \<Rightarrow> Strategy \<Rightarrow> EvaluationResult \<Rightarrow> EvaluationResult" where
  "evaluatePriceRange ev s r =
     (let price = mdLastTradedPrice (evMarketData ev);
          minPrice = prMinPrice (kPriceRange (stConditions s));
          maxPrice = prMaxPrice (kPriceRange (stConditions s))
      in if minPrice = 0 \<and> maxPrice = 0 then matched ''price_range'' 100 r
         else if minPrice \<le> price \<and> price \<le> maxPrice then matched ''price_range'' 100 r
         else failed ''price_range'' r)"

text \<open>The score of a percent change inside the range: its position between the bounds.\<close>

definition pct_score :: "float64 \<Rightarrow> float64 \<Rightarrow> float64 \<Rightarrow> float64" where
  "pct_score absPctChange lo effectiveMax =
     (if effectiveMax = MaxFloat64
      then let ratio = (if 0 < lo then fdiv absPctChange lo else 1)
           in fmul (fdiv (min ratio 2) 2) 100
      else let span = fsub effectiveMax lo
           in if span \<le> 0 then 100
              else let score = fmul (fdiv (fsub absPctChange lo) span) 100
                   in if score < 0 then 0 else if 100 < score then 100 else score)"

definition evaluatePctChange :: "MarketEvent \<Rightarrow> Strategy \<Rightarrow> EvaluationResult \<Rightarrow> EvaluationResult" where
  "evaluatePctChange ev s r =
     (let absPctChange = \<bar>mdPctChange (evMarketData ev)\<bar>;
          lo = kMinPctChange (stConditions s);
          hi = kMaxPctChange (stConditions s);
          effectiveMax = (if hi = 0 then MaxFloat64 else hi)
      in if lo = 0 \<and> hi = 0 then matched ''pct_change'' 100 r
         else if effectiveMax \<le> absPctChange
         then failed ''pct_change'' (r\<lparr>erPctChangeStatus := PctChangeAboveMax\<rparr>)
         else if lo \<le> absPctChange
         then matched ''pct_change'' (pct_score absPctChange lo effectiveMax)
                (r\<lparr>erPctChangeStatus := PctChangeWithinRange\<rparr>)
         else matched ''pct_change'' 50 (r\<lparr>erPctChangeStatus := PctChangeBelowMin\<rparr>))"

definition auto_matched :: "string list" where
  "auto_matched = [''match_all_news'', ''sentiment'', ''category'', ''market_cap'', ''price_range'',
                   ''pct_change'', ''exchange'']"

definition evaluateMatchAllStrategy :: "MarketEvent \<Rightarrow> Strategy \<Rightarrow> EvaluationResult \<Rightarrow> EvaluationResult" where
  "evaluateMatchAllStrategy ev s r =
     (let r1 = evaluateImpactScore ev s r
      in r1\<lparr>erMatched := erMatched r1 @ auto_matched,
             erScores := foldl (\<lambda>sc c. sc(c \<mapsto> 100)) (erScores r1) auto_matched\<rparr>)"

definition Evaluate :: "MarketEvent \<Rightarrow> Strategy \<Rightarrow> EvaluationResult" where
  "Evaluate ev s =
     (if kMatchAllNews (stConditions s) then evaluateMatchAllStrategy ev s empty_result
      else evaluateExchange ev s (evaluatePctChange ev s (evaluatePriceRange ev s (evaluateMarketCap ev s
             (evaluateCategory ev s (evaluateSentiment ev s (evaluateImpactScore ev s empty_result)))))))"

section \<open>The scorer\<close>

type_synonym weights = "string \<rightharpoonup> float64"

text \<open>Reading a missing key of a Go map gives the zero value.\<close>

definition GetWeight :: "weights \<Rightarrow> string \<Rightarrow> float64" where
  "GetWeight w condition = (case w condition of None \<Rightarrow> 0 | Some x \<Rightarrow> x)"

definition SetWeight :: "weights \<Rightarrow> string \<Rightarrow> float64 \<Rightarrow> weights" where
  "SetWeight w condition weight = w(condition \<mapsto> weight)"

definition NewScorer :: weights where
  "NewScorer = [''impact_score'' \<mapsto> 25, ''stock'' \<mapsto> 20, ''sentiment'' \<mapsto> 15, ''category'' \<mapsto> 15,
                ''price_range'' \<mapsto> 10, ''volume'' \<mapsto> 15 / 2, ''pct_change'' \<mapsto> 5, ''exchange'' \<mapsto> 5 / 2]"

definition weight_or_default :: "weights \<Rightarrow> string \<Rightarrow> float64" where
  "weight_or_default w condition = (if GetWeight w condition = 0 then 10 else GetWeight w condition)"

definition custom_weight :: "weights \<Rightarrow> weights \<Rightarrow> string \<Rightarrow> float64" where
  "custom_weight w custom condition =
     (if GetWeight custom condition = 0 then weight_or_default w condition else GetWeight custom condition)"

text \<open>The loop over the scores: weighted sum and sum of the weights, in the map's order.\<close>

fun score_loop :: "(string \<Rightarrow> float64) \<Rightarrow> scores \<Rightarrow> string list \<Rightarrow> float64 \<times> float64 \<Rightarrow> float64 \<times> float64" where
  "score_loop weight sc [] acc = acc"
| "score_loop weight sc (c # cs) (totalScore, totalWeight) =
     score_loop weight sc cs
       (fadd totalScore (fmul (case sc c of None \<Rightarrow> 0 | Some x \<Rightarrow> x) (fdiv (weight c) 100)),
        fadd totalWeight (weight c))"

definition failure_rate :: "EvaluationResult \<Rightarrow> float64" where
  "failure_rate r = fdiv (f_of_int (int (GetFailedConditionCount r))) (f_of_int (int (GetTotalConditionCount r)))"

text \<open>
  A result without conditions has the rate \<open>0/0\<close>, a NaN, which is not above one half; here
  it is \<open>0\<close>, which is not either. \<open>order\<close> lists the keys of the score map.
\<close>

definition CalculateScore :: "weights \<Rightarrow> string list \<Rightarrow> EvaluationResult option \<Rightarrow> float64" where
  "CalculateScore w order result =
     (case result of None \<Rightarrow> 0 | Some r \<Rightarrow>
      let (totalScore, totalWeight) = score_loop (weight_or_default w) (erScores r) order (0, 0)
      in if totalWeight = 0 then 0
         else let n = fmul (fdiv totalScore totalWeight) 100;
                  n1 = (if IsFullMatch r then min (fmul n (rnd (11 / 10))) 100 else n)
              in if 1 / 2 < failure_rate r
                 then fmul n1 (fsub 1 (fmul (failure_rate r) (rnd (1 / 5)))) else n1)"

definition CalculateWeightedScore :: "weights \<Rightarrow> weights \<Rightarrow> string list \<Rightarrow> EvaluationResult option \<Rightarrow> float64" where
  "CalculateWeightedScore w custom order result =
     (case result of None \<Rightarrow> 0 | Some r \<Rightarrow>
      let (totalScore, totalWeight) = score_loop (custom_weight w custom) (erScores r) order (0, 0)
      in if totalWeight = 0 then 0 else fmul (fdiv totalScore totalWeight) 100)"

fun weight_sum :: "weights \<Rightarrow> string list \<Rightarrow> float64 \<Rightarrow> string option \<times> float64" where
  "weight_sum w [] tot = (None, tot)"
| "weight_sum w (c # cs) tot =
     (if GetWeight w c < 0 then (Some ''weight cannot be negative'', tot)
      else weight_sum w cs (fadd tot (GetWeight w c)))"

definition ValidateWeights :: "weights \<Rightarrow> string list \<Rightarrow> string option" where
  "ValidateWeights w order =
     (case weight_sum w order 0 of
        (Some e, _) \<Rightarrow> Some e
      | (None, tot) \<Rightarrow>
          if tot < 90 \<or> 110 < tot then Some ''weights should sum to approximately 100'' else None)"

section \<open>The reference: when a strategy matches\<close>

text \<open>
  What the conditions mean, one clause each: a declarative predicate on the strategy and the
  event, and the three-way classification of the percent change.
\<close>

definition accepts :: "string list \<Rightarrow> string \<Rightarrow> bool" where
  "accepts wanted actual \<longleftrightarrow> wanted = [] \<or> (\<exists>w \<in> set wanted. to_lower w = to_lower actual)"

definition impact_ok :: "Conditions \<Rightarrow> MarketEvent \<Rightarrow> bool" where
  "impact_ok k ev \<longleftrightarrow> kImpactScoreMin k \<le> aImpactScore (evAnalysis ev) \<and>
     aImpactScore (evAnalysis ev) \<le> (if kImpactScoreMax k = 0 then 10 else kImpactScoreMax k)"

definition pct_filter_off :: "Conditions \<Rightarrow> bool" where
  "pct_filter_off k \<longleftrightarrow> kMinPctChange k = 0 \<and> kMaxPctChange k = 0"

definition below_max :: "Conditions \<Rightarrow> MarketEvent \<Rightarrow> bool" where
  "below_max k ev \<longleftrightarrow>
     \<bar>mdPctChange (evMarketData ev)\<bar> < (if kMaxPctChange k = 0 then MaxFloat64 else kMaxPctChange k)"

definition price_ok :: "Conditions \<Rightarrow> MarketEvent \<Rightarrow> bool" where
  "price_ok k ev \<longleftrightarrow> (prMinPrice (kPriceRange k) = 0 \<and> prMaxPrice (kPriceRange k) = 0) \<or>
     (prMinPrice (kPriceRange k) \<le> mdLastTradedPrice (evMarketData ev) \<and>
      mdLastTradedPrice (evMarketData ev) \<le> prMaxPrice (kPriceRange k))"

definition strategy_matches :: "Strategy \<Rightarrow> MarketEvent \<Rightarrow> bool" where
  "strategy_matches s ev \<longleftrightarrow>
     (let k = stConditions s in
      impact_ok k ev \<and>
      (kMatchAllNews k \<or>
       accepts (kSentiments k) (GetSentimentValue (evAnalysis ev)) \<and>
       accepts (kCategories k) (nCategory (evNewsData ev)) \<and>
       accepts (kMarketCapTypes k) (sdMCapType (evStockData ev)) \<and>
       accepts (kExchanges k) (sdExchange (evStockData ev)) \<and>
       price_ok k ev \<and> (pct_filter_off k \<or> below_max k ev)))"

definition pct_class :: "Strategy \<Rightarrow> MarketEvent \<Rightarrow> string" where
  "pct_class s ev =
     (let k = stConditions s in
      if kMatchAllNews k \<or> pct_filter_off k then []
      else if \<not> below_max k ev then ''above_max''
      else if kMinPctChange k \<le> \<bar>mdPctChange (evMarketData ev)\<bar> then ''within_range''
      else ''below_min'')"

definition condition_names :: "Strategy \<Rightarrow> string list" where
  "condition_names s =
     (if kMatchAllNews (stConditions s) then ''impact_score'' # auto_matched
      else [''impact_score'', ''sentiment'', ''category'', ''market_cap'', ''price_range'', ''pct_change'',
            ''exchange''])"

section \<open>Lemmas\<close>

text \<open>Every condition adds its name to exactly one of the two lists and sets one score.\<close>

definition verdict :: "string \<Rightarrow> bool \<Rightarrow> EvaluationResult \<Rightarrow> EvaluationResult \<Rightarrow> bool" where
  "verdict c ok r r' \<longleftrightarrow>
     erMatched r' = erMatched r @ (if ok then [c] else []) \<and>
     erFailed r' = erFailed r @ (if ok then [] else [c]) \<and>
     (\<exists>x. erScores r' = (erScores r)(c \<mapsto> x))"

lemma verdict_matched: "verdict c True r (matched c x r)"
  by (auto simp: verdict_def matched_def)

lemma verdict_failed: "verdict c False r (failed c r)"
  by (auto simp: verdict_def failed_def)

lemmas verdict_intros = verdict_matched verdict_failed

lemma evaluate_list_verdict: "verdict c (accepts wanted actual) r (evaluate_list c wanted actual r)"
  using verdict_matched [of c r 100] verdict_failed [of c r]
  by (auto simp: evaluate_list_def accepts_def equal_fold_def list_ex_iff)

lemma evaluate_list_status [simp]: "erPctChangeStatus (evaluate_list c wanted actual r) = erPctChangeStatus r"
  by (simp add: evaluate_list_def matched_def failed_def)

lemma impact_verdict: "verdict ''impact_score'' (impact_ok (stConditions s) ev) r (evaluateImpactScore ev s r)"
  using verdict_matched [of "''impact_score''" r "fmul (fdiv (f_of_int (aImpactScore (evAnalysis ev))) 10) 100"]
    verdict_failed [of "''impact_score''" r]
  by (auto simp: evaluateImpactScore_def impact_ok_def Let_def)

lemma price_verdict: "verdict ''price_range'' (price_ok (stConditions s) ev) r (evaluatePriceRange ev s r)"
  using verdict_matched [of "''price_range''" r 100] verdict_failed [of "''price_range''" r]
  by (auto simp: evaluatePriceRange_def price_ok_def Let_def)

lemma verdict_status: "verdict c ok (r\<lparr>erPctChangeStatus := x\<rparr>) r' = verdict c ok r r'"
  by (simp add: verdict_def)

lemma pct_verdict:
  "verdict ''pct_change'' (pct_filter_off (stConditions s) \<or> below_max (stConditions s) ev) r (evaluatePctChange ev s r)"
proof -
  note m = verdict_matched [of "''pct_change''" "r\<lparr>erPctChangeStatus := x\<rparr>" for x, unfolded verdict_status]
    and f = verdict_failed [of "''pct_change''" "r\<lparr>erPctChangeStatus := x\<rparr>" for x, unfolded verdict_status]
  show ?thesis
  proof (cases "pct_filter_off (stConditions s)")
    case True
    then show ?thesis using verdict_matched [of "''pct_change''" r 100]
      by (simp add: evaluatePctChange_def pct_filter_off_def Let_def)
  next
    case off: False
    show ?thesis
    proof (cases "below_max (stConditions s) ev")
      case True
      with off m show ?thesis
        by (auto simp: evaluatePctChange_def pct_filter_off_def below_max_def Let_def)
    next
      case False
      with off f show ?thesis
        by (auto simp: evaluatePctChange_def pct_filter_off_def below_max_def Let_def)
    qed
  qed
qed

lemma status_matched [simp]: "erPctChangeStatus (matched c x r) = erPctChangeStatus r"
  by (simp add: matched_def)

lemma status_failed [simp]: "erPctChangeStatus (failed c r) = erPctChangeStatus r"
  by (simp add: failed_def)

lemma status_impact [simp]: "erPctChangeStatus (evaluateImpactScore ev s r) = erPctChangeStatus r"
  by (simp add: evaluateImpactScore_def Let_def)

lemma status_price [simp]: "erPctChangeStatus (evaluatePriceRange ev s r) = erPctChangeStatus r"
  by (simp add: evaluatePriceRange_def Let_def)

lemma status_pct:
  "erPctChangeStatus (evaluatePctChange ev s r) =
     (if pct_filter_off (stConditions s) then erPctChangeStatus r
      else if \<not> below_max (stConditions s) ev then PctChangeAboveMax
      else if kMinPctChange (stConditions s) \<le> \<bar>mdPctChange (evMarketData ev)\<bar> then PctChangeWithinRange
      else PctChangeBelowMin)"
  by (auto simp: evaluatePctChange_def pct_filter_off_def below_max_def Let_def)

lemmas list_conditions = evaluateSentiment_def evaluateCategory_def evaluateMarketCap_def evaluateExchange_def

lemma verdict_step:
  assumes "verdict c ok r r'"
  shows "mset (erMatched r' @ erFailed r') = add_mset c (mset (erMatched r @ erFailed r))"
    and "erFailed r' = [] \<longleftrightarrow> erFailed r = [] \<and> ok"
    and "dom (erScores r') = insert c (dom (erScores r))"
  using assms by (auto simp: verdict_def split: if_splits)

lemma fold_scores_dom: "dom (foldl (\<lambda>sc c. sc(c \<mapsto> x)) sc cs) = dom sc \<union> set cs"
  by (induction cs arbitrary: sc) auto


section \<open>The evaluation is the reference\<close>

lemma Evaluate_reference_aux:
  fixes s ev
  defines "r \<equiv> Evaluate ev s"
  shows "(IsFullMatch r = strategy_matches s ev) \<and>
    mset (erMatched r @ erFailed r) = mset (condition_names s) \<and>
    dom (erScores r) = set (condition_names s) \<and>
    erPctChangeStatus r = pct_class s ev"
proof (cases "kMatchAllNews (stConditions s)")
  case True
  have v: "verdict ''impact_score'' (impact_ok (stConditions s) ev) empty_result (evaluateImpactScore ev s empty_result)"
    by (rule impact_verdict)
  from True have r: "r = evaluateMatchAllStrategy ev s empty_result" by (simp add: r_def Evaluate_def)
  have "erMatched r = erMatched (evaluateImpactScore ev s empty_result) @ auto_matched"
    "erFailed r = erFailed (evaluateImpactScore ev s empty_result)"
    "erPctChangeStatus r = []"
    "dom (erScores r) = dom (erScores (evaluateImpactScore ev s empty_result)) \<union> set auto_matched"
    by (simp_all add: r evaluateMatchAllStrategy_def Let_def fold_scores_dom empty_result_def)
  with verdict_step [OF v] True show ?thesis
    by (auto simp: IsFullMatch_def strategy_matches_def condition_names_def pct_class_def Let_def empty_result_def)
next
  case False
  let ?k = "stConditions s"
  define r1 where "r1 = evaluateImpactScore ev s empty_result"
  define r2 where "r2 = evaluateSentiment ev s r1"
  define r3 where "r3 = evaluateCategory ev s r2"
  define r4 where "r4 = evaluateMarketCap ev s r3"
  define r5 where "r5 = evaluatePriceRange ev s r4"
  define r6 where "r6 = evaluatePctChange ev s r5"
  define r7 where "r7 = evaluateExchange ev s r6"
  have r: "r = r7"
    using False by (simp add: r_def Evaluate_def r1_def r2_def r3_def r4_def r5_def r6_def r7_def)
  have v1: "verdict ''impact_score'' (impact_ok ?k ev) empty_result r1" unfolding r1_def by (rule impact_verdict)
  have v2: "verdict ''sentiment'' (accepts (kSentiments ?k) (GetSentimentValue (evAnalysis ev))) r1 r2"
    unfolding r2_def evaluateSentiment_def by (rule evaluate_list_verdict)
  have v3: "verdict ''category'' (accepts (kCategories ?k) (nCategory (evNewsData ev))) r2 r3"
    unfolding r3_def evaluateCategory_def by (rule evaluate_list_verdict)
  have v4: "verdict ''market_cap'' (accepts (kMarketCapTypes ?k) (sdMCapType (evStockData ev))) r3 r4"
    unfolding r4_def evaluateMarketCap_def by (rule evaluate_list_verdict)
  have v5: "verdict ''price_range'' (price_ok ?k ev) r4 r5" unfolding r5_def by (rule price_verdict)
  have v6: "verdict ''pct_change'' (pct_filter_off ?k \<or> below_max ?k ev) r5 r6" unfolding r6_def by (rule pct_verdict)
  have v7: "verdict ''exchange'' (accepts (kExchanges ?k) (sdExchange (evStockData ev))) r6 r7"
    unfolding r7_def evaluateExchange_def by (rule evaluate_list_verdict)
  note st = verdict_step [OF v1] verdict_step [OF v2] verdict_step [OF v3] verdict_step [OF v4]
    verdict_step [OF v5] verdict_step [OF v6] verdict_step [OF v7]
  have full: "IsFullMatch r = strategy_matches s ev"
    using False unfolding IsFullMatch_def r strategy_matches_def Let_def
    by (simp add: st(2,5,8,11,14,17,20) empty_result_def; blast)
  have names: "mset (erMatched r @ erFailed r) = mset (condition_names s)"
    using False unfolding r
    by (simp add: st(1,4,7,10,13,16,19) empty_result_def condition_names_def del: mset_append)
  have "dom (erScores r) = set (rev (condition_names s))"
    using False unfolding r
    by (simp add: st(3,6,9,12,15,18,21) empty_result_def condition_names_def del: set_rev)
  then have dm: "dom (erScores r) = set (condition_names s)" by (simp only: set_rev)
  have "erPctChangeStatus r = pct_class s ev"
    using False unfolding r r7_def r6_def r5_def r4_def r3_def r2_def r1_def
    by (simp add: list_conditions status_pct pct_class_def pct_status empty_result_def Let_def)
  with full names dm show ?thesis by blast
qed

lemma Evaluate_full: "IsFullMatch (Evaluate ev s) = strategy_matches s ev"
  using Evaluate_reference_aux [of ev s] by blast

lemma Evaluate_status: "erPctChangeStatus (Evaluate ev s) = pct_class s ev"
  using Evaluate_reference_aux [of ev s] by blast


end
