(* ===== verification/ReStore.thy ===== *)
theory ReStore
  imports ReTypes "HOL-Library.AList" "HOL-Library.List_Lexorder" "HOL-Library.Char_ord"
begin

text \<open>
  The rules engine's configuration store (\<open>configstore/store.go\<close>, \<open>config_store.go\<close>), its
  loading at startup (\<open>startup/bootstrap.go\<close>) and the two consumers of configuration
  messages (\<open>kafka/config_consumer.go\<close>, which the service runs, and
  \<open>configsync/consumer.go\<close>). Go maps that are iterated over are association lists, the other
  maps are functions; snapshots are immutable values, so the copies the code makes before
  writing are not visible here. The time a snapshot was made at is left out.
\<close>

section \<open>Snapshots\<close>

record UserView =
  uvActive :: "(string \<times> Strategy) list"
  uvPaused :: "(string \<times> Strategy) list"

record Snapshot =
  snByUser :: "(string \<times> UserView) list"
  snAllActive :: "Strategy list"
  snTotalUsers :: nat
  snTotalStrategies :: nat
  snTotalActive :: nat
  snTotalPaused :: nat

definition newEmptySnapshot :: Snapshot where
  "newEmptySnapshot = \<lparr>snByUser = [], snAllActive = [], snTotalUsers = 0, snTotalStrategies = 0,
     snTotalActive = 0, snTotalPaused = 0\<rparr>"

text \<open>Reading a user that is not in the map gives the zero view, whose maps are empty.\<close>

definition view_of :: "(string \<times> UserView) list \<Rightarrow> string \<Rightarrow> UserView" where
  "view_of byUser uid = (case map_of byUser uid of None \<Rightarrow> \<lparr>uvActive = [], uvPaused = []\<rparr> | Some uv \<Rightarrow> uv)"

definition sorted_active :: "UserView \<Rightarrow> Strategy list" where
  "sorted_active uv = map (\<lambda>sid. the (map_of (uvActive uv) sid)) (sort (map fst (uvActive uv)))"

definition rebuildAllActive :: "Snapshot \<Rightarrow> Snapshot" where
  "rebuildAllActive s =
     s\<lparr>snAllActive := concat (map (\<lambda>uid. sorted_active (view_of (snByUser s) uid)) (sort (map fst (snByUser s)))),
       snTotalUsers := length (snByUser s),
       snTotalStrategies := sum_list (map (\<lambda>(_, uv). length (uvActive uv) + length (uvPaused uv)) (snByUser s)),
       snTotalActive := sum_list (map (\<lambda>(_, uv). length (uvActive uv)) (snByUser s)),
       snTotalPaused := sum_list (map (\<lambda>(_, uv). length (uvPaused uv)) (snByUser s))\<rparr>"

definition FinalizeSnapshot :: "Snapshot \<Rightarrow> Snapshot" where
  "FinalizeSnapshot s = rebuildAllActive s"

definition cloneSnapshotShallow :: "Snapshot \<Rightarrow> Snapshot" where
  "cloneSnapshotShallow cur = newEmptySnapshot\<lparr>snByUser := snByUser cur\<rparr>"

section \<open>The store and its writer\<close>

record ConfigStore =
  csSnap :: Snapshot
  csCurrent :: Snapshot
  csTombstones :: "string \<rightharpoonup> version"
  csVersions :: "string \<rightharpoonup> version"

definition NewConfigStore :: ConfigStore where
  "NewConfigStore = \<lparr>csSnap = newEmptySnapshot, csCurrent = newEmptySnapshot,
     csTombstones = Map.empty, csVersions = Map.empty\<rparr>"

definition writer_key :: "string \<Rightarrow> string \<Rightarrow> string" where
  "writer_key userID strategyID = userID @ ''|'' @ strategyID"

definition ReplaceSnapshot :: "Snapshot \<Rightarrow> ConfigStore \<Rightarrow> ConfigStore" where
  "ReplaceSnapshot nxt cs = cs\<lparr>csSnap := nxt\<rparr>"

definition Commit :: "Snapshot \<Rightarrow> ConfigStore \<Rightarrow> ConfigStore" where
  "Commit nxt cs = (ReplaceSnapshot nxt cs)\<lparr>csCurrent := nxt\<rparr>"

definition resetFromStore :: "ConfigStore \<Rightarrow> ConfigStore" where
  "resetFromStore cs = cs\<lparr>csCurrent := csSnap cs\<rparr>"

text \<open>\<open>next.ByUser[userID] = uv\<close>, finalised and committed.\<close>

definition commit_view :: "string \<Rightarrow> UserView \<Rightarrow> ConfigStore \<Rightarrow> ConfigStore" where
  "commit_view userID uv cs =
     (let nxt = cloneSnapshotShallow (csCurrent cs)
      in Commit (FinalizeSnapshot (nxt\<lparr>snByUser := AList.update userID uv (snByUser nxt)\<rparr>)) cs)"

definition not_newer :: "(string \<rightharpoonup> version) \<Rightarrow> string \<Rightarrow> version \<Rightarrow> bool" where
  "not_newer m k version = (case m k of None \<Rightarrow> False | Some v \<Rightarrow> version \<le> v)"

definition ApplyUpsert :: "Strategy option \<Rightarrow> version \<Rightarrow> ConfigStore \<Rightarrow> ConfigStore \<times> (string + bool)" where
  "ApplyUpsert strategy version cs =
     (case strategy of None \<Rightarrow> (cs, Inl ''strategy is nil'') | Some s \<Rightarrow>
      if stUserID s = [] \<or> stStrategyID s = [] then (cs, Inl ''missing user_id/strategy_id'')
      else if \<not> stActive s then (cs, Inr False)
      else let k = writer_key (stUserID s) (stStrategyID s)
           in if not_newer (csTombstones cs) k version then (cs, Inr False)
              else if not_newer (csVersions cs) k version then (cs, Inr False)
              else let uv = view_of (snByUser (csCurrent cs)) (stUserID s);
                       uv1 = uv\<lparr>uvPaused := AList.delete (stStrategyID s) (uvPaused uv),
                               uvActive := AList.update (stStrategyID s) (s\<lparr>stVersion := version\<rparr>) (uvActive uv)\<rparr>
                   in (commit_view (stUserID s) uv1 (cs\<lparr>csVersions := (csVersions cs)(k \<mapsto> version)\<rparr>), Inr True))"

definition ApplyPause :: "string \<Rightarrow> string \<Rightarrow> version \<Rightarrow> ConfigStore \<Rightarrow> ConfigStore \<times> (string + bool)" where
  "ApplyPause userID strategyID version cs =
     (if userID = [] \<or> strategyID = [] then (cs, Inl ''missing user_id/strategy_id'')
      else let k = writer_key userID strategyID
           in if not_newer (csTombstones cs) k version then (cs, Inr False)
              else if not_newer (csVersions cs) k version then (cs, Inr False)
              else case map_of (snByUser (csCurrent cs)) userID of None \<Rightarrow> (cs, Inr False)
              | Some uv \<Rightarrow>
                  (case map_of (uvActive uv) strategyID of None \<Rightarrow> (cs, Inr False)
                   | Some strat \<Rightarrow>
                       (commit_view userID
                          (uv\<lparr>uvActive := AList.delete strategyID (uvActive uv),
                              uvPaused := AList.update strategyID strat (uvPaused uv)\<rparr>)
                          (cs\<lparr>csVersions := (csVersions cs)(k \<mapsto> version)\<rparr>), Inr True)))"

definition ApplyResume :: "string \<Rightarrow> string \<Rightarrow> version \<Rightarrow> ConfigStore \<Rightarrow> ConfigStore \<times> (string + bool)" where
  "ApplyResume userID strategyID version cs =
     (if userID = [] \<or> strategyID = [] then (cs, Inl ''missing user_id/strategy_id'')
      else let k = writer_key userID strategyID
           in if not_newer (csTombstones cs) k version then (cs, Inr False)
              else if not_newer (csVersions cs) k version then (cs, Inr False)
              else case map_of (snByUser (csCurrent cs)) userID of None \<Rightarrow> (cs, Inr False)
              | Some uv \<Rightarrow>
                  (case map_of (uvPaused uv) strategyID of None \<Rightarrow> (cs, Inr False)
                   | Some strat \<Rightarrow>
                       (commit_view userID
                          (uv\<lparr>uvPaused := AList.delete strategyID (uvPaused uv),
                              uvActive := AList.update strategyID (strat\<lparr>stActive := True, stVersion := version\<rparr>)
                                            (uvActive uv)\<rparr>)
                          (cs\<lparr>csVersions := (csVersions cs)(k \<mapsto> version)\<rparr>), Inr True)))"

definition ApplyDelete :: "string \<Rightarrow> string \<Rightarrow> version \<Rightarrow> ConfigStore \<Rightarrow> ConfigStore \<times> (string + bool)" where
  "ApplyDelete userID strategyID version cs =
     (if userID = [] \<or> strategyID = [] then (cs, Inl ''missing user_id/strategy_id'')
      else let k = writer_key userID strategyID
           in if not_newer (csTombstones cs) k version then (cs, Inr False)
              else let cs1 = cs\<lparr>csTombstones := (csTombstones cs)(k \<mapsto> version),
                                csVersions := (csVersions cs)(k \<mapsto> version)\<rparr>
                   in case map_of (snByUser (csCurrent cs1)) userID of None \<Rightarrow> (cs1, Inr False)
                      | Some uv \<Rightarrow>
                          (commit_view userID
                             (uv\<lparr>uvActive := AList.delete strategyID (uvActive uv),
                                 uvPaused := AList.delete strategyID (uvPaused uv)\<rparr>) cs1,
                           Inr (map_of (uvActive uv) strategyID \<noteq> None \<or> map_of (uvPaused uv) strategyID \<noteq> None)))"

section \<open>The facade (config_store.go)\<close>

definition load_one :: "(string \<times> UserView) list \<Rightarrow> Strategy option \<Rightarrow> (string \<times> UserView) list" where
  "load_one byUser strategy =
     (case strategy of None \<Rightarrow> byUser | Some st \<Rightarrow>
      if \<not> stActive st then byUser
      else let uv = view_of byUser (stUserID st)
           in AList.update (stUserID st)
                (uv\<lparr>uvActive := AList.update (stStrategyID st) st (uvActive uv)\<rparr>) byUser)"

definition BulkLoad :: "Strategy option list \<Rightarrow> ConfigStore \<Rightarrow> ConfigStore" where
  "BulkLoad strategies cs =
     resetFromStore (ReplaceSnapshot
       (FinalizeSnapshot (newEmptySnapshot\<lparr>snByUser := foldl load_one [] strategies\<rparr>)) cs)"

text \<open>The error a store operation returns, its boolean being dropped.\<close>

definition drop_applied :: "ConfigStore \<times> (string + bool) \<Rightarrow> ConfigStore \<times> string option" where
  "drop_applied = (\<lambda>(cs, r). (cs, case r of Inl e \<Rightarrow> Some e | Inr _ \<Rightarrow> None))"

definition StoreUpsert :: "Strategy option \<Rightarrow> ConfigStore \<Rightarrow> ConfigStore \<times> string option" where
  "StoreUpsert cfg cs =
     (case cfg of None \<Rightarrow> (cs, Some ''strategy config is nil'')
      | Some s \<Rightarrow> drop_applied (ApplyUpsert (Some s) (stVersion s) cs))"

definition StorePause :: "string \<Rightarrow> string \<Rightarrow> version \<Rightarrow> ConfigStore \<Rightarrow> ConfigStore \<times> string option" where
  "StorePause userID strategyID version cs = drop_applied (ApplyPause userID strategyID version cs)"

definition StoreResume :: "string \<Rightarrow> string \<Rightarrow> version \<Rightarrow> ConfigStore \<Rightarrow> ConfigStore \<times> string option" where
  "StoreResume userID strategyID version cs = drop_applied (ApplyResume userID strategyID version cs)"

definition StoreRemove :: "string \<Rightarrow> string \<Rightarrow> version \<Rightarrow> ConfigStore \<Rightarrow> ConfigStore \<times> string option" where
  "StoreRemove userID strategyID version cs = drop_applied (ApplyDelete userID strategyID version cs)"

definition GetStrategy :: "ConfigStore \<Rightarrow> string \<Rightarrow> string \<Rightarrow> Strategy option" where
  "GetStrategy cs userID strategyID =
     (case map_of (snByUser (csSnap cs)) userID of None \<Rightarrow> None
      | Some uv \<Rightarrow> (case map_of (uvActive uv) strategyID of Some st \<Rightarrow> Some st
                   | None \<Rightarrow> map_of (uvPaused uv) strategyID))"

section \<open>Loading at startup (bootstrap.go)\<close>

definition validateStrategyConfig :: "Strategy \<Rightarrow> string option" where
  "validateStrategyConfig s =
     (let k = stConditions s in
      if stStrategyID s = [] then Some ''strategy_id empty''
      else if stUserID s = [] then Some ''user_id empty''
      else if kImpactScoreMax k < kImpactScoreMin k then Some ''impact_score_min > impact_score_max''
      else if 0 < kMinPctChange k \<and> 0 < kMaxPctChange k \<and> kMaxPctChange k < kMinPctChange k
      then Some ''min_pct_change > max_pct_change''
      else if tQuantity (stTradeConfig s) \<le> 0 then Some ''quantity <= 0''
      else if rMaxDailyTrades (stRiskLimits s) < 0 then Some ''max_daily_trades < 0''
      else None)"

definition keep_valid :: "Strategy option \<Rightarrow> bool" where
  "keep_valid s = (case s of None \<Rightarrow> False | Some st \<Rightarrow> validateStrategyConfig st = None)"

text \<open>\<open>fetched\<close> is the answer of the user-config service: an error or strategies.\<close>

definition Bootstrap :: "string + Strategy option list \<Rightarrow> ConfigStore \<Rightarrow> ConfigStore \<times> string option" where
  "Bootstrap fetched cs =
     (case fetched of Inl e \<Rightarrow> (cs, Some e)
      | Inr strategies \<Rightarrow>
          let cs1 = BulkLoad (filter keep_valid strategies) cs
          in (cs1, if snTotalStrategies (csSnap cs1) = 0 \<and> strategies \<noteq> []
                   then Some ''FATAL: fetched strategies but 0 loaded'' else None))"

section \<open>The consumers of configuration messages\<close>

text \<open>A message is its decoded form, \<open>None\<close> when it is not valid JSON.\<close>

record ConfigConsumer =
  ccStore :: ConfigStore
  ccProcessed :: nat
  ccErrors :: nat

definition count_error :: "ConfigConsumer \<Rightarrow> ConfigConsumer" where
  "count_error c = c\<lparr>ccErrors := Suc (ccErrors c)\<rparr>"

definition count_processed :: "ConfigConsumer \<Rightarrow> ConfigConsumer" where
  "count_processed c = c\<lparr>ccProcessed := Suc (ccProcessed c)\<rparr>"

definition apply_result :: "ConfigStore \<times> string option \<Rightarrow> ConfigConsumer \<Rightarrow> ConfigConsumer" where
  "apply_result r c =
     (case r of (cs, None) \<Rightarrow> c\<lparr>ccStore := cs\<rparr> | (cs, Some _) \<Rightarrow> count_error (c\<lparr>ccStore := cs\<rparr>))"

definition consume_upsert :: "ConfigEvent \<Rightarrow> ConfigConsumer \<Rightarrow> ConfigConsumer" where
  "consume_upsert ev c =
     (case ceConfig ev of None \<Rightarrow> c
      | Some p \<Rightarrow>
          if (case GetStrategy (ccStore c) (ceUserID ev) (ceStrategyID ev) of None \<Rightarrow> False
              | Some existing \<Rightarrow> ceVersion ev \<le> stVersion existing) then c
          else case ToModelStrategy (Some p) of Inl e \<Rightarrow> count_error c
               | Inr m \<Rightarrow> count_processed (apply_result
                   (StoreUpsert (Some (m\<lparr>stVersion := ceVersion ev, stActive := True\<rparr>)) (ccStore c)) c))"

definition consume_message :: "ConfigConsumer \<Rightarrow> ConfigEvent option \<Rightarrow> ConfigConsumer" where
  "consume_message c msg =
     (case msg of None \<Rightarrow> count_error c
      | Some ev \<Rightarrow>
          if ceType ev = ConfigCreated \<or> ceType ev = ConfigUpdated then consume_upsert ev c
          else if ceType ev = ConfigPaused
          then count_processed (apply_result (StorePause (ceUserID ev) (ceStrategyID ev) (ceVersion ev) (ccStore c)) c)
          else if ceType ev = ConfigResumed
          then count_processed (apply_result (StoreResume (ceUserID ev) (ceStrategyID ev) (ceVersion ev) (ccStore c)) c)
          else if ceType ev = ConfigDeleted
          then count_processed (apply_result (StoreRemove (ceUserID ev) (ceStrategyID ev) (ceVersion ev) (ccStore c)) c)
          else count_processed c)"

definition ProcessMessage :: "ConfigEvent option \<Rightarrow> ConfigStore \<Rightarrow> ConfigStore \<times> string option" where
  "ProcessMessage msg cs =
     (case msg of None \<Rightarrow> (cs, Some ''unmarshal ConfigEvent'')
      | Some ev \<Rightarrow>
          if ceUserID ev = [] \<or> ceStrategyID ev = [] then (cs, None)
          else if (case GetStrategy cs (ceUserID ev) (ceStrategyID ev) of None \<Rightarrow> False
                   | Some cur \<Rightarrow> ceVersion ev \<noteq> 0 \<and> ceVersion ev \<le> stVersion cur) then (cs, None)
          else if ceType ev = ConfigCreated \<or> ceType ev = ConfigUpdated
          then (case ceConfig ev of None \<Rightarrow> (cs, None)
                | Some p \<Rightarrow> (case ToModelStrategy (Some p) of Inl e \<Rightarrow> (cs, None)
                            | Inr m \<Rightarrow> StoreUpsert (Some (m\<lparr>stVersion := ceVersion ev\<rparr>)) cs))
          else if ceType ev = ConfigPaused then StorePause (ceUserID ev) (ceStrategyID ev) (ceVersion ev) cs
          else if ceType ev = ConfigResumed then StoreResume (ceUserID ev) (ceStrategyID ev) (ceVersion ev) cs
          else if ceType ev = ConfigDeleted then StoreRemove (ceUserID ev) (ceStrategyID ev) (ceVersion ev) cs
          else (cs, None))"

section \<open>Runs of the store\<close>

datatype config_op = StartUp "string + Strategy option list" | Consume "ConfigEvent option" | Process "ConfigEvent option"

definition config_step :: "ConfigConsumer \<Rightarrow> config_op \<Rightarrow> ConfigConsumer" where
  "config_step c x =
     (case x of StartUp fetched \<Rightarrow> c\<lparr>ccStore := fst (Bootstrap fetched (ccStore c))\<rparr>
      | Consume msg \<Rightarrow> consume_message c msg
      | Process msg \<Rightarrow> c\<lparr>ccStore := fst (ProcessMessage msg (ccStore c))\<rparr>)"

definition NewConfigConsumer :: "ConfigStore \<Rightarrow> ConfigConsumer" where
  "NewConfigConsumer cs = \<lparr>ccStore = cs, ccProcessed = 0, ccErrors = 0\<rparr>"

definition config_after :: "config_op list \<Rightarrow> ConfigStore" where
  "config_after ops = ccStore (foldl config_step (NewConfigConsumer NewConfigStore) ops)"

end
