(* ===== verification/ReStoreInv.thy ===== *)
theory ReStoreInv
  imports ReStore
begin

text \<open>
  The invariant of the configuration store: the writer's snapshot is the published one, its
  views hold every strategy under its own identifiers and never twice, and the flat list of
  active strategies and the totals are those of the views.
\<close>

definition view_ok :: "string \<Rightarrow> UserView \<Rightarrow> bool" where
  "view_ok u uv \<longleftrightarrow> distinct (map fst (uvActive uv)) \<and> distinct (map fst (uvPaused uv)) \<and>
     (\<forall>i. map_of (uvActive uv) i = None \<or> map_of (uvPaused uv) i = None) \<and>
     (\<forall>i s. map_of (uvActive uv) i = Some s \<longrightarrow> stStrategyID s = i \<and> stUserID s = u \<and> stActive s) \<and>
     (\<forall>i s. map_of (uvPaused uv) i = Some s \<longrightarrow> stStrategyID s = i \<and> stUserID s = u \<and> stActive s)"

definition users_ok :: "(string \<times> UserView) list \<Rightarrow> bool" where
  "users_ok l \<longleftrightarrow> distinct (map fst l) \<and> (\<forall>u uv. map_of l u = Some uv \<longrightarrow> view_ok u uv)"

definition snapshot_ok :: "Snapshot \<Rightarrow> bool" where
  "snapshot_ok sn \<longleftrightarrow> users_ok (snByUser sn) \<and> sn = FinalizeSnapshot (newEmptySnapshot\<lparr>snByUser := snByUser sn\<rparr>)"

definition store_ok :: "ConfigStore \<Rightarrow> bool" where
  "store_ok cs \<longleftrightarrow> csCurrent cs = csSnap cs \<and> snapshot_ok (csSnap cs)"

section \<open>Views\<close>

lemma view_of_ok: "users_ok l \<Longrightarrow> view_ok u (view_of l u)"
  by (auto simp: users_ok_def view_of_def view_ok_def split: option.splits)

lemma users_ok_update: "users_ok l \<Longrightarrow> view_ok u uv \<Longrightarrow> users_ok (AList.update u uv l)"
  by (auto simp: users_ok_def distinct_update update_conv')

lemma view_ok_activate:
  assumes "view_ok u uv" "stStrategyID s = i" "stUserID s = u" "stActive s"
  shows "view_ok u (uv\<lparr>uvPaused := AList.delete i (uvPaused uv), uvActive := AList.update i s (uvActive uv)\<rparr>)"
  using assms by (auto simp: view_ok_def distinct_update distinct_delete update_conv' delete_conv')

lemma view_ok_pause:
  assumes "view_ok u uv" "map_of (uvActive uv) i = Some s"
  shows "view_ok u (uv\<lparr>uvActive := AList.delete i (uvActive uv), uvPaused := AList.update i s (uvPaused uv)\<rparr>)"
  using assms by (auto simp: view_ok_def distinct_update distinct_delete update_conv' delete_conv')

lemma view_ok_remove:
  assumes "view_ok u uv"
  shows "view_ok u (uv\<lparr>uvActive := AList.delete i (uvActive uv), uvPaused := AList.delete i (uvPaused uv)\<rparr>)"
  using assms by (auto simp: view_ok_def distinct_delete delete_conv')

lemma view_ok_load:
  assumes "view_ok u uv" "uvPaused uv = []" "stUserID s = u" "stActive s"
  shows "view_ok u (uv\<lparr>uvActive := AList.update (stStrategyID s) s (uvActive uv)\<rparr>)"
  using assms by (auto simp: view_ok_def distinct_update update_conv')

section \<open>Operations\<close>

lemma rebuild_ByUser [simp]: "snByUser (FinalizeSnapshot s) = snByUser s"
  by (simp add: FinalizeSnapshot_def rebuildAllActive_def)

lemma clone_ByUser [simp]: "snByUser (cloneSnapshotShallow s) = snByUser s"
  by (simp add: cloneSnapshotShallow_def)

lemma snapshot_ok_Finalize: "users_ok l \<Longrightarrow> snapshot_ok (FinalizeSnapshot (newEmptySnapshot\<lparr>snByUser := l\<rparr>))"
  by (simp add: snapshot_ok_def)

lemma store_ok_users: "store_ok cs \<Longrightarrow> users_ok (snByUser (csCurrent cs))"
  by (simp add: store_ok_def snapshot_ok_def)

lemma users_view:
  "store_ok cs \<Longrightarrow> map_of (snByUser (csCurrent cs)) u = Some uv \<Longrightarrow> view_ok u uv"
  using store_ok_users by (simp add: users_ok_def)

lemma commit_view_snap:
  "csSnap (commit_view u uv cs) =
     FinalizeSnapshot (newEmptySnapshot\<lparr>snByUser := AList.update u uv (snByUser (csCurrent cs))\<rparr>)"
  by (simp add: commit_view_def Commit_def ReplaceSnapshot_def cloneSnapshotShallow_def)

lemma commit_view_proj [simp]:
  "csCurrent (commit_view u uv cs) = csSnap (commit_view u uv cs)"
  "csTombstones (commit_view u uv cs) = csTombstones cs"
  "csVersions (commit_view u uv cs) = csVersions cs"
  by (simp_all add: commit_view_def Commit_def ReplaceSnapshot_def Let_def)

lemma commit_view_ok:
  assumes "store_ok cs" "view_ok u uv" "csCurrent cs' = csCurrent cs"
  shows "store_ok (commit_view u uv cs')"
  using assms store_ok_users [OF assms(1)] unfolding store_ok_def
  by (simp add: commit_view_snap snapshot_ok_Finalize users_ok_update)

lemma ApplyUpsert_ok: "store_ok cs \<Longrightarrow> store_ok (fst (ApplyUpsert strategy v cs))"
  unfolding ApplyUpsert_def Let_def
  by (auto split: option.split intro!: commit_view_ok view_ok_activate view_of_ok store_ok_users)

lemma ApplyPause_ok: "store_ok cs \<Longrightarrow> store_ok (fst (ApplyPause u i v cs))"
  unfolding ApplyPause_def Let_def
  by (auto split: option.split intro!: commit_view_ok view_ok_pause [OF users_view])

lemma view_ok_found:
  assumes "view_ok u uv" "map_of (uvPaused uv) i = Some s"
  shows "view_ok u (uv\<lparr>uvPaused := AList.delete i (uvPaused uv),
           uvActive := AList.update i (s\<lparr>stActive := True, stVersion := v\<rparr>) (uvActive uv)\<rparr>)"
  using assms by (intro view_ok_activate) (auto simp: view_ok_def)

lemma ApplyResume_ok: "store_ok cs \<Longrightarrow> store_ok (fst (ApplyResume u i v cs))"
  unfolding ApplyResume_def Let_def
  by (auto split: option.split intro!: commit_view_ok view_ok_found [OF users_view])

lemma store_ok_cong: "csCurrent cs' = csCurrent cs \<Longrightarrow> csSnap cs' = csSnap cs \<Longrightarrow> store_ok cs' = store_ok cs"
  by (simp add: store_ok_def)

lemma ApplyDelete_ok: "store_ok cs \<Longrightarrow> store_ok (fst (ApplyDelete u i v cs))"
  unfolding ApplyDelete_def Let_def
  by (auto split: option.split intro!: commit_view_ok view_ok_remove [OF users_view]
      simp: store_ok_cong [of "cs\<lparr>csTombstones := x, csVersions := y\<rparr>" cs for x y])

lemma fst_drop_applied [simp]: "fst (drop_applied r) = fst r"
  by (simp add: drop_applied_def split: prod.split)

lemma load_one_ok:
  assumes "users_ok l" "\<forall>u. uvPaused (view_of l u) = []"
  shows "users_ok (load_one l s) \<and> (\<forall>u. uvPaused (view_of (load_one l s) u) = [])"
proof (cases s)
  case None then show ?thesis using assms by (simp add: load_one_def)
next
  case (Some st)
  show ?thesis
  proof (cases "stActive st")
    case True
    have "view_ok (stUserID st) (view_of l (stUserID st)\<lparr>uvActive :=
        AList.update (stStrategyID st) st (uvActive (view_of l (stUserID st)))\<rparr>)"
      using True assms(2) by (intro view_ok_load view_of_ok assms(1)) auto
    then show ?thesis using Some True assms
      by (auto simp: load_one_def Let_def users_ok_update view_of_def update_conv')
  qed (simp add: Some load_one_def assms)
qed

lemma load_all_ok:
  assumes "users_ok l" "\<forall>u. uvPaused (view_of l u) = []"
  shows "users_ok (foldl load_one l ss)"
  using assms
proof (induction ss arbitrary: l)
  case (Cons s ss)
  then show ?case using load_one_ok [of l s] by (metis foldl_Cons)
qed simp

lemma BulkLoad_ok: "store_ok (BulkLoad ss cs)"
proof -
  have "users_ok (foldl load_one [] ss)" by (rule load_all_ok) (simp_all add: users_ok_def view_of_def)
  then show ?thesis
    by (simp add: BulkLoad_def resetFromStore_def ReplaceSnapshot_def store_ok_def snapshot_ok_Finalize)
qed

lemma StoreUpsert_ok: "store_ok cs \<Longrightarrow> store_ok (fst (StoreUpsert s cs))"
  by (simp add: StoreUpsert_def ApplyUpsert_ok split: option.split)

lemma StorePause_ok: "store_ok cs \<Longrightarrow> store_ok (fst (StorePause u i v cs))"
  by (simp add: StorePause_def ApplyPause_ok)

lemma StoreResume_ok: "store_ok cs \<Longrightarrow> store_ok (fst (StoreResume u i v cs))"
  by (simp add: StoreResume_def ApplyResume_ok)

lemma StoreRemove_ok: "store_ok cs \<Longrightarrow> store_ok (fst (StoreRemove u i v cs))"
  by (simp add: StoreRemove_def ApplyDelete_ok)

lemmas facade_ok = StoreUpsert_ok StorePause_ok StoreResume_ok StoreRemove_ok

lemma ccStore_simps [simp]:
  "ccStore (count_error c) = ccStore c" "ccStore (count_processed c) = ccStore c"
  "ccStore (apply_result r c) = fst r"
  by (simp_all add: count_error_def count_processed_def apply_result_def split: prod.split option.split)

lemma consume_ok: "store_ok (ccStore c) \<Longrightarrow> store_ok (ccStore (consume_message c msg))"
  unfolding consume_message_def consume_upsert_def
  by (cases msg) (auto simp: facade_ok split: option.split sum.split)

lemma Process_ok: "store_ok cs \<Longrightarrow> store_ok (fst (ProcessMessage msg cs))"
  by (simp add: ProcessMessage_def facade_ok split: option.split sum.split)

lemma step_ok: "store_ok (ccStore c) \<Longrightarrow> store_ok (ccStore (config_step c x))"
  by (simp add: config_step_def Bootstrap_def Let_def BulkLoad_ok consume_ok Process_ok
      split: config_op.split sum.split)

lemma config_after_ok: "store_ok (config_after ops)"
proof -
  have "store_ok (ccStore (foldl config_step c ops))" if "store_ok (ccStore c)" for c
    using that by (induction ops arbitrary: c) (auto intro: step_ok)
  moreover have "store_ok NewConfigStore"
    by (simp add: store_ok_def NewConfigStore_def snapshot_ok_def users_ok_def newEmptySnapshot_def
        FinalizeSnapshot_def rebuildAllActive_def)
  ultimately show ?thesis by (simp add: config_after_def NewConfigConsumer_def)
qed

section \<open>What the invariant gives\<close>

definition active_in :: "ConfigStore \<Rightarrow> string \<Rightarrow> string \<Rightarrow> Strategy \<Rightarrow> bool" where
  "active_in cs u i s \<longleftrightarrow> (\<exists>uv. map_of (snByUser (csSnap cs)) u = Some uv \<and> map_of (uvActive uv) i = Some s)"

definition paused_in :: "ConfigStore \<Rightarrow> string \<Rightarrow> string \<Rightarrow> Strategy \<Rightarrow> bool" where
  "paused_in cs u i s \<longleftrightarrow> (\<exists>uv. map_of (snByUser (csSnap cs)) u = Some uv \<and> map_of (uvPaused uv) i = Some s)"

definition strategy_less :: "Strategy \<Rightarrow> Strategy \<Rightarrow> bool" where
  "strategy_less s t \<longleftrightarrow> stUserID s < stUserID t \<or> (stUserID s = stUserID t \<and> stStrategyID s < stStrategyID t)"

lemma GetStrategy_iff:
  assumes "store_ok cs"
  shows "GetStrategy cs u i = Some s \<longleftrightarrow> active_in cs u i s \<or> paused_in cs u i s"
proof (cases "map_of (snByUser (csSnap cs)) u")
  case None then show ?thesis by (simp add: GetStrategy_def active_in_def paused_in_def)
next
  case (Some uv)
  with assms have "view_ok u uv" by (simp add: store_ok_def snapshot_ok_def users_ok_def)
  then have "map_of (uvActive uv) i = None \<or> map_of (uvPaused uv) i = None" by (simp add: view_ok_def)
  with Some show ?thesis
    by (auto simp: GetStrategy_def active_in_def paused_in_def split: option.split)
qed

lemma active_not_paused:
  assumes "store_ok cs" "active_in cs u i s"
  shows "\<not> paused_in cs u i t"
proof -
  obtain uv where uv: "map_of (snByUser (csSnap cs)) u = Some uv" "map_of (uvActive uv) i = Some s"
    using assms(2) by (auto simp: active_in_def)
  then have "view_ok u uv" using assms(1) by (simp add: store_ok_def users_view)
  then have "map_of (uvPaused uv) i = None" using uv(2) unfolding view_ok_def by (metis option.distinct(1))
  with uv(1) show ?thesis by (simp add: paused_in_def)
qed

lemma key_found: "i \<in> set (map fst l) \<longleftrightarrow> (\<exists>s. map_of l i = Some s)"
proof -
  have "i \<in> dom (map_of l) \<longleftrightarrow> i \<in> fst ` set l" by (simp only: dom_map_of_conv_image_fst)
  then show ?thesis by (simp only: dom_def set_map mem_Collect_eq not_None_eq)
qed

lemma set_sorted_active:
  assumes "view_ok u uv"
  shows "s \<in> set (sorted_active uv) \<longleftrightarrow> map_of (uvActive uv) (stStrategyID s) = Some s"
proof
  assume "s \<in> set (sorted_active uv)"
  then obtain i where i: "i \<in> set (map fst (uvActive uv))" "s = the (map_of (uvActive uv) i)"
    by (auto simp: sorted_active_def)
  then have "map_of (uvActive uv) i = Some s" unfolding key_found by auto
  with assms show "map_of (uvActive uv) (stStrategyID s) = Some s" by (simp add: view_ok_def)
next
  assume a: "map_of (uvActive uv) (stStrategyID s) = Some s"
  then have "stStrategyID s \<in> set (map fst (uvActive uv))" unfolding key_found by blast
  then have "the (map_of (uvActive uv) (stStrategyID s)) \<in> set (sorted_active uv)"
    by (simp add: sorted_active_def)
  with a show "s \<in> set (sorted_active uv)" by simp
qed

lemma sorted_sorted_active:
  assumes "view_ok u uv"
  shows "sorted_wrt strategy_less (sorted_active uv)"
proof -
  have d: "distinct (map fst (uvActive uv))" using assms by (simp add: view_ok_def)
  have "strategy_less (the (map_of (uvActive uv) i)) (the (map_of (uvActive uv) j))"
    if "i \<in> set (map fst (uvActive uv))" "j \<in> set (map fst (uvActive uv))" "i < j" for i j
  proof -
    from that obtain s t where "map_of (uvActive uv) i = Some s" "map_of (uvActive uv) j = Some t"
      unfolding key_found by blast
    with assms that(3) show ?thesis by (auto simp: strategy_less_def view_ok_def)
  qed
  then show ?thesis unfolding sorted_active_def sorted_wrt_map
    using d by (intro sorted_wrt_mono_rel [OF _ strict_sorted_iff [THEN iffD2]]) auto
qed

lemma users_sorted:
  assumes "\<forall>u\<in>set us. \<forall>s\<in>set (f u). stUserID s = u" "\<forall>u\<in>set us. sorted_wrt strategy_less (f u)"
    "sorted_wrt (<) us"
  shows "sorted_wrt strategy_less (concat (map f us))"
  using assms by (induction us) (auto simp: sorted_wrt_append strategy_less_def)

end
