(* ===== verification/ReStoreProps.thy ===== *)
theory ReStoreProps
  imports ReStoreInv "HOL-Library.Multiset"
begin

text \<open>
  The properties of the configuration store over all runs of start-ups and messages: the
  published snapshot is consistent, a deleted strategy stays deleted, a message delivered
  twice is a message delivered once. The last section shows what goes wrong between the
  store, the consumer the service runs and the bootstrap.
\<close>

section \<open>The published snapshot\<close>

lemma sum_list_sorted_keys:
  fixes f :: "string \<Rightarrow> nat"
  shows "sum_list (map f (sort us)) = sum_list (map f us)"
proof -
  have "mset (map f (sort us)) = mset (map f us)" by simp
  then show ?thesis by (metis sum_mset_sum_list)
qed

lemma view_of_mem: "distinct (map fst l) \<Longrightarrow> (u, uv) \<in> set l \<Longrightarrow> view_of l u = uv"
  by (simp add: view_of_def)

lemma length_sorted_active [simp]: "length (sorted_active uv) = length (uvActive uv)"
  by (simp add: sorted_active_def)

lemma length_all_active:
  assumes "distinct (map fst l)"
  shows "length (concat (map (\<lambda>u. sorted_active (view_of l u)) (sort (map fst l)))) =
         sum_list (map (\<lambda>(_, uv). length (uvActive uv)) l)"
proof -
  have "length (concat (map (\<lambda>u. sorted_active (view_of l u)) (sort (map fst l)))) =
      sum_list (map (\<lambda>u. length (uvActive (view_of l u))) (sort (map fst l)))"
    by (simp add: length_concat comp_def)
  also have "\<dots> = sum_list (map (\<lambda>u. length (uvActive (view_of l u))) (map fst l))"
    by (rule sum_list_sorted_keys)
  also have "\<dots> = sum_list (map (\<lambda>(_, uv). length (uvActive uv)) l)"
    unfolding map_map comp_def by (rule arg_cong [of _ _ sum_list], rule map_cong) (auto simp: view_of_mem [OF assms])
  finally show ?thesis .
qed

lemma sum_list_add_snd:
  "sum_list (map (\<lambda>(_, x). f x + g x :: nat) xs) = sum_list (map (\<lambda>(_, x). f x) xs) + sum_list (map (\<lambda>(_, x). g x) xs)"
  by (induction xs) auto

definition snapshot_consistent :: "ConfigStore \<Rightarrow> bool" where
  "snapshot_consistent cs \<longleftrightarrow>
     (\<forall>s. s \<in> set (snAllActive (csSnap cs)) \<longleftrightarrow> active_in cs (stUserID s) (stStrategyID s) s) \<and>
     sorted_wrt strategy_less (snAllActive (csSnap cs)) \<and>
     list_all stActive (snAllActive (csSnap cs)) \<and>
     (\<forall>u i s t. \<not> (active_in cs u i s \<and> paused_in cs u i t)) \<and>
     snTotalActive (csSnap cs) = length (snAllActive (csSnap cs)) \<and>
     snTotalStrategies (csSnap cs) = snTotalActive (csSnap cs) + snTotalPaused (csSnap cs)"

lemma store_ok_consistent:
  assumes "store_ok cs"
  shows "snapshot_consistent cs"
proof -
  let ?l = "snByUser (csSnap cs)"
  let ?f = "\<lambda>u. sorted_active (view_of ?l u)"
  have l: "users_ok ?l" and sn: "csSnap cs = FinalizeSnapshot (newEmptySnapshot\<lparr>snByUser := ?l\<rparr>)"
    using assms by (simp_all add: store_ok_def snapshot_ok_def)
  then have d: "distinct (map fst ?l)" by (simp add: users_ok_def)
  have all: "snAllActive (csSnap cs) = concat (map ?f (sort (map fst ?l)))"
    by (subst sn) (simp add: FinalizeSnapshot_def rebuildAllActive_def newEmptySnapshot_def)
  have ok: "view_ok u (view_of ?l u)" for u using l by (rule view_of_ok)
  have mem: "s \<in> set (?f u) \<longleftrightarrow> map_of (uvActive (view_of ?l u)) (stStrategyID s) = Some s" for s u
    by (rule set_sorted_active [OF ok])
  have user: "stUserID s = u \<and> stActive s" if "s \<in> set (?f u)" for s u
    using that ok [of u] unfolding mem by (simp add: view_ok_def)
  have act: "active_in cs u i s \<longleftrightarrow> map_of (uvActive (view_of ?l u)) i = Some s" for u i s
    by (simp add: active_in_def view_of_def split: option.split)
  have inl: "u \<in> set (sort (map fst ?l))" if "map_of (uvActive (view_of ?l u)) i = Some s" for u i s
    using that key_found [of u ?l] by (auto simp: view_of_def split: option.splits)
  have "s \<in> set (snAllActive (csSnap cs)) \<longleftrightarrow> active_in cs (stUserID s) (stStrategyID s) s" for s
  proof
    assume "s \<in> set (snAllActive (csSnap cs))"
    then obtain u where "s \<in> set (?f u)" unfolding all by auto
    with user mem show "active_in cs (stUserID s) (stStrategyID s) s" unfolding act by blast
  next
    assume "active_in cs (stUserID s) (stStrategyID s) s"
    then have m: "map_of (uvActive (view_of ?l (stUserID s))) (stStrategyID s) = Some s" unfolding act .
    then have "s \<in> set (?f (stUserID s))" unfolding mem .
    then show "s \<in> set (snAllActive (csSnap cs))" unfolding all set_concat set_map using inl [OF m] by blast
  qed
  moreover have "sorted_wrt strategy_less (snAllActive (csSnap cs))" unfolding all
    using user d by (intro users_sorted) (auto intro!: sorted_sorted_active ok simp: strict_sorted_iff)
  moreover have "list_all stActive (snAllActive (csSnap cs))" unfolding all list_all_iff using user by auto
  moreover have ta: "snTotalActive (csSnap cs) = sum_list (map (\<lambda>(_, uv). length (uvActive uv)) ?l)"
    by (subst sn) (simp add: FinalizeSnapshot_def rebuildAllActive_def newEmptySnapshot_def)
  moreover have "snTotalPaused (csSnap cs) = sum_list (map (\<lambda>(_, uv). length (uvPaused uv)) ?l)"
    by (subst sn) (simp add: FinalizeSnapshot_def rebuildAllActive_def newEmptySnapshot_def)
  moreover have "snTotalStrategies (csSnap cs) =
      sum_list (map (\<lambda>(_, uv). length (uvActive uv) + length (uvPaused uv)) ?l)"
    by (subst sn) (simp add: FinalizeSnapshot_def rebuildAllActive_def newEmptySnapshot_def)
  moreover have "length (snAllActive (csSnap cs)) = sum_list (map (\<lambda>(_, uv). length (uvActive uv)) ?l)"
    unfolding all by (rule length_all_active [OF d])
  ultimately show ?thesis unfolding snapshot_consistent_def using active_not_paused [OF assms]
    by (simp add: sum_list_add_snd)
qed

text \<open>
  C30. The published snapshot. After any sequence of start-ups and messages through either
  consumer, the list the engine iterates over holds exactly the active strategies of the
  views, strictly ordered by user and strategy identifier, all flagged active; no strategy is
  active and paused; the totals count them.
\<close>

theorem published_snapshot_consistent: "snapshot_consistent (config_after ops)"
  by (rule store_ok_consistent [OF config_after_ok])

section \<open>Looking up one strategy\<close>

definition view_entry :: "UserView \<Rightarrow> string \<Rightarrow> Strategy option" where
  "view_entry uv i = (case map_of (uvActive uv) i of Some st \<Rightarrow> Some st | None \<Rightarrow> map_of (uvPaused uv) i)"

definition users_entry :: "(string \<times> UserView) list \<Rightarrow> string \<Rightarrow> string \<Rightarrow> Strategy option" where
  "users_entry l u i = (case map_of l u of None \<Rightarrow> None | Some uv \<Rightarrow> view_entry uv i)"

lemma GetStrategy_entry: "GetStrategy cs u i = users_entry (snByUser (csSnap cs)) u i"
  by (simp add: GetStrategy_def users_entry_def view_entry_def split: option.split)

lemma users_entry_update:
  "users_entry (AList.update u uv l) u' i = (if u' = u then view_entry uv i else users_entry l u' i)"
  by (simp add: users_entry_def update_conv')

lemma view_of_entry: "view_entry (view_of l u) i = users_entry l u i"
  by (simp add: view_of_def users_entry_def view_entry_def split: option.split)

lemma GetStrategy_commit:
  "GetStrategy (commit_view u uv cs) u' i =
     (if u' = u then view_entry uv i else users_entry (snByUser (csCurrent cs)) u' i)"
  by (simp add: GetStrategy_entry commit_view_snap users_entry_update)

lemma view_entry_simps [simp]:
  "view_entry (uv\<lparr>uvPaused := AList.delete j P, uvActive := AList.update j s A\<rparr>) i =
     (if i = j then Some s else view_entry (uv\<lparr>uvPaused := P, uvActive := A\<rparr>) i)"
  "view_entry (uv\<lparr>uvActive := AList.delete j A, uvPaused := AList.delete j P\<rparr>) i =
     (if i = j then None else view_entry (uv\<lparr>uvActive := A, uvPaused := P\<rparr>) i)"
  "view_entry (uv\<lparr>uvActive := AList.delete j A, uvPaused := AList.update j s P\<rparr>) i =
     (if i = j then Some s else view_entry (uv\<lparr>uvActive := A, uvPaused := P\<rparr>) i)"
  by (simp_all add: view_entry_def update_conv' delete_conv' split: option.split)

section \<open>A deleted strategy stays deleted\<close>

text \<open>The strategy is in no view and a tombstone at least as new as \<open>v\<close> is recorded for it.\<close>

definition buried :: "string \<Rightarrow> string \<Rightarrow> version \<Rightarrow> ConfigStore \<Rightarrow> bool" where
  "buried u i v cs \<longleftrightarrow> csCurrent cs = csSnap cs \<and> GetStrategy cs u i = None \<and>
     (\<exists>tv. csTombstones cs (writer_key u i) = Some tv \<and> v \<le> tv)"

lemma buried_not_newer: "buried u i v cs \<Longrightarrow> w \<le> v \<Longrightarrow> not_newer (csTombstones cs) (writer_key u i) w"
  by (auto simp: buried_def not_newer_def)

lemma buried_commit:
  assumes "buried u i v cs" "csCurrent cs' = csCurrent cs"
    "\<exists>tv. csTombstones cs' (writer_key u i) = Some tv \<and> v \<le> tv" "u' = u \<Longrightarrow> view_entry uv i = None"
  shows "buried u i v (commit_view u' uv cs')"
  using assms by (simp add: buried_def GetStrategy_commit GetStrategy_entry [of cs])

lemma buried_entry: "buried u i v cs \<Longrightarrow> users_entry (snByUser (csCurrent cs)) u i = None"
  by (simp add: buried_def GetStrategy_entry)

lemma buried_view:
  "buried u i v cs \<Longrightarrow> map_of (snByUser (csCurrent cs)) u = Some uv \<Longrightarrow> view_entry uv i = None"
  using buried_entry [of u i v cs] by (simp add: users_entry_def)

lemma buried_tomb: "buried u i v cs \<Longrightarrow> \<exists>tv. csTombstones cs (writer_key u i) = Some tv \<and> v \<le> tv"
  by (simp add: buried_def)

lemma view_entry_None: "view_entry uv i = None \<longleftrightarrow> map_of (uvActive uv) i = None \<and> map_of (uvPaused uv) i = None"
  by (simp add: view_entry_def split: option.split)

lemma ApplyUpsert_buried:
  assumes "buried u i v cs" "\<And>s. strategy = Some s \<Longrightarrow> stUserID s = u \<and> stStrategyID s = i \<Longrightarrow> w \<le> v"
  shows "buried u i v (fst (ApplyUpsert strategy w cs))"
proof (cases strategy)
  case (Some s)
  show ?thesis
  proof (cases "stUserID s = u \<and> stStrategyID s = i")
    case True
    with assms(2) [OF Some] buried_not_newer [OF assms(1)] have "not_newer (csTombstones cs) (writer_key u i) w" by blast
    with True Some assms(1) show ?thesis by (simp add: ApplyUpsert_def Let_def)
  next
    case False
    have "view_entry (view_of (snByUser (csCurrent cs)) u) i = None"
      using buried_entry [OF assms(1)] by (simp add: view_of_entry)
    with False Some assms(1) buried_tomb [OF assms(1)] show ?thesis
      by (auto simp: ApplyUpsert_def Let_def intro!: buried_commit)
  qed
qed (simp add: ApplyUpsert_def assms(1))

lemma ApplyPause_buried: "buried u i v cs \<Longrightarrow> buried u i v (fst (ApplyPause u' j w cs))"
  using buried_tomb [of u i v cs] buried_view [of u i v cs]
  unfolding ApplyPause_def Let_def
  by (auto split: option.split intro!: buried_commit simp: view_entry_None)

lemma ApplyResume_buried: "buried u i v cs \<Longrightarrow> buried u i v (fst (ApplyResume u' j w cs))"
  using buried_tomb [of u i v cs] buried_view [of u i v cs]
  unfolding ApplyResume_def Let_def
  by (auto split: option.split intro!: buried_commit simp: view_entry_None)

lemma ApplyDelete_buried:
  assumes "buried u i v cs"
  shows "buried u i v (fst (ApplyDelete u' j w cs))"
proof -
  let ?cs = "cs\<lparr>csTombstones := (csTombstones cs)(writer_key u' j \<mapsto> w), csVersions := x\<rparr>"
  have t: "\<exists>tv. ((csTombstones cs)(writer_key u' j \<mapsto> w)) (writer_key u i) = Some tv \<and> v \<le> tv"
    if "\<not> not_newer (csTombstones cs) (writer_key u' j) w"
    using that buried_tomb [OF assms] by (auto simp: not_newer_def split: option.splits)
  have g: "buried u i v (cs\<lparr>csTombstones := (csTombstones cs)(writer_key u' j \<mapsto> w), csVersions := x\<rparr>)"
    if "\<not> not_newer (csTombstones cs) (writer_key u' j) w" for x
    using t [OF that] assms by (simp add: buried_def GetStrategy_def)
  show ?thesis
    using assms g t buried_view [OF assms] unfolding ApplyDelete_def Let_def
    by (auto split: option.split intro!: buried_commit [OF assms] simp: view_entry_None)
qed

text \<open>No message of the run brings the strategy with a version above \<open>v\<close>, and nothing restarts.\<close>

definition revives :: "string \<Rightarrow> string \<Rightarrow> version \<Rightarrow> config_op \<Rightarrow> bool" where
  "revives u i v x =
     (case x of StartUp _ \<Rightarrow> True
      | Consume msg \<Rightarrow> (case msg of None \<Rightarrow> False | Some e \<Rightarrow>
          (case ceConfig e of None \<Rightarrow> False | Some p \<Rightarrow> wUserID p = u \<and> wStrategyID p = i \<and> v < ceVersion e))
      | Process msg \<Rightarrow> (case msg of None \<Rightarrow> False | Some e \<Rightarrow>
          (case ceConfig e of None \<Rightarrow> False | Some p \<Rightarrow> wUserID p = u \<and> wStrategyID p = i \<and> v < ceVersion e)))"

lemma ToModel_ids: "ToModelStrategy (Some p) = Inr m \<Longrightarrow> stUserID m = wUserID p \<and> stStrategyID m = wStrategyID p"
  by (auto simp: ToModelStrategy_def split: if_splits)

lemma StoreUpsert_buried:
  assumes "buried u i v cs" "stUserID m = u \<and> stStrategyID m = i \<Longrightarrow> stVersion m \<le> v"
  shows "buried u i v (fst (StoreUpsert (Some m) cs))"
  unfolding StoreUpsert_def option.case fst_drop_applied
  by (rule ApplyUpsert_buried [OF assms(1)]) (use assms(2) in simp)

lemma facade_buried:
  "buried u i v cs \<Longrightarrow> buried u i v (fst (StorePause u' j w cs))"
  "buried u i v cs \<Longrightarrow> buried u i v (fst (StoreResume u' j w cs))"
  "buried u i v cs \<Longrightarrow> buried u i v (fst (StoreRemove u' j w cs))"
  by (simp_all add: StorePause_def StoreResume_def StoreRemove_def ApplyPause_buried ApplyResume_buried ApplyDelete_buried)

lemma upsert_buried:
  assumes "buried u i v cs" "ToModelStrategy (Some p) = Inr m" "\<not> (wUserID p = u \<and> wStrategyID p = i \<and> v < w)"
  shows "buried u i v (fst (StoreUpsert (Some (m\<lparr>stVersion := w, stActive := a\<rparr>)) cs))"
    "buried u i v (fst (StoreUpsert (Some (m\<lparr>stVersion := w\<rparr>)) cs))"
  using assms ToModel_ids [OF assms(2)] by (auto intro!: StoreUpsert_buried simp: not_less)

lemma step_buried:
  assumes "buried u i v (ccStore c)" "\<not> revives u i v x"
  shows "buried u i v (ccStore (config_step c x))"
proof (cases x)
  case (StartUp f) with assms(2) show ?thesis by (simp add: revives_def)
next
  case (Consume msg)
  with assms show ?thesis
    by (cases msg)
      (auto simp: config_step_def consume_message_def consume_upsert_def revives_def facade_buried
        split: option.split sum.split intro: upsert_buried(1))
next
  case (Process msg)
  with assms show ?thesis
    by (cases msg)
      (auto simp: config_step_def ProcessMessage_def revives_def facade_buried
        split: option.split sum.split intro: upsert_buried(2))
qed

lemma run_buried:
  assumes "buried u i v (ccStore c)" "\<forall>x\<in>set ops. \<not> revives u i v x"
  shows "buried u i v (ccStore (foldl config_step c ops))"
  using assms
proof (induction ops arbitrary: c)
  case (Cons x ops)
  then have "buried u i v (ccStore (config_step c x))" by (intro step_buried) auto
  with Cons.IH Cons.prems(2) show ?case by simp
qed simp

lemma ApplyDelete_buries:
  assumes "csCurrent cs = csSnap cs" "u \<noteq> []" "i \<noteq> []" "\<not> not_newer (csTombstones cs) (writer_key u i) v"
  shows "buried u i v (fst (ApplyDelete u i v cs))"
proof (cases "map_of (snByUser (csCurrent cs)) u")
  case None
  with assms show ?thesis by (simp add: ApplyDelete_def Let_def buried_def GetStrategy_def)
next
  case (Some uv)
  let ?cs = "cs\<lparr>csTombstones := (csTombstones cs)(writer_key u i \<mapsto> v),
                 csVersions := (csVersions cs)(writer_key u i \<mapsto> v)\<rparr>"
  let ?uv = "uv\<lparr>uvActive := AList.delete i (uvActive uv), uvPaused := AList.delete i (uvPaused uv)\<rparr>"
  have "buried u i v (commit_view u ?uv ?cs)" unfolding buried_def by (simp add: GetStrategy_commit)
  with Some assms show ?thesis by (simp add: ApplyDelete_def Let_def)
qed

text \<open>
  C31. No resurrection. Once the service's consumer has processed the deletion of a strategy
  at version \<open>v\<close> (newer than any earlier deletion of it), the strategy is in neither set of
  the store, and stays out of it whatever messages follow in whatever order through either
  consumer, as long as none brings the strategy with a version above \<open>v\<close>: late and repeated
  creations, updates and resumptions cannot revive it.
\<close>

theorem deleted_stays_deleted:
  assumes "csCurrent (ccStore c) = csSnap (ccStore c)" "u \<noteq> []" "i \<noteq> []"
    "\<not> not_newer (csTombstones (ccStore c)) (writer_key u i) v"
    "ceType d = ConfigDeleted" "ceUserID d = u" "ceStrategyID d = i" "ceVersion d = v"
    "\<forall>x\<in>set ops. \<not> revives u i v x"
  shows "GetStrategy (ccStore (foldl config_step (consume_message c (Some d)) ops)) u i = None"
proof -
  have "ccStore (consume_message c (Some d)) = fst (ApplyDelete u i v (ccStore c))"
    using assms(5-8) by (simp add: consume_message_def config_types StoreRemove_def)
  with ApplyDelete_buries [OF assms(1-4)] have "buried u i v (ccStore (consume_message c (Some d)))" by simp
  from run_buried [OF this assms(9)] show ?thesis by (simp add: buried_def)
qed

section \<open>A concrete run\<close>

definition demo_payload :: "bool \<Rightarrow> int \<Rightarrow> StrategyPayload" where
  "demo_payload active qty =
     \<lparr>wStrategyID = ''s1'', wUserID = ''u1'', wStrategyName = ''news'', wActive = active, wTradingMode = ''PAPER'',
      wConditions = \<lparr>qMatchAllNews = False, qImpactScoreMin = 5, qImpactScoreMax = 0,
        qSentiments = [''POSITIVE''], qCategories = [], qMarketCapTypes = [], qMinMarketCap = 0,
        qMaxMarketCap = 0, qMinPriceChangePct = 1, qMaxPriceChangePct = 5, qExchanges = [''EXCHANGE_NSE'']\<rparr>,
      wTradeConfig = \<lparr>yOrderType = ''ORDER_TYPE_MARKET'', yProductType = [], yValidity = [], yQuantity = qty,
        yExchange = ''NSE'', yOrderSide = ''BUY'', yLimitPrice = 0, yStopLossPct = 2, yTakeProfitPct = 4,
        yTrailingSLPct = 0, yStopLossType = ''FIXED'', yTakeProfitType = ''FIXED'', yMultiLevelSL = [],
        yMultiLevelTP = [], yTradeWindowStart = [], yTradeWindowEnd = []\<rparr>,
      wRiskLimits = \<lparr>zMaxDailyTrades = 5, zMaxPerTradeRisk = 0, zMaxPortfolioExposurePct = 0,
        zMaxLossPerDay = 0, zEnableRiskChecks = False, zEnableAutoSquareOff = False, zAutoSquareOffTime = [],
        zMaxAmountPerStock = 0, zMaxTradesPerStrategy = 0\<rparr>,
      wVersion = 1, wCreatedAt = 0, wUpdatedAt = 0\<rparr>"

definition config_event :: "string \<Rightarrow> version \<Rightarrow> StrategyPayload option \<Rightarrow> ConfigEvent" where
  "config_event typ v p = \<lparr>ceType = typ, ceUserID = ''u1'', ceStrategyID = ''s1'', ceVersion = v,
     ceTimestamp = 0, ceConfig = p\<rparr>"

abbreviation upsert_event :: "version \<Rightarrow> ConfigEvent" where
  "upsert_event v \<equiv> config_event ConfigUpdated v (Some (demo_payload True 10))"

definition demo_consumer :: ConfigConsumer where
  "demo_consumer = consume_message (NewConfigConsumer NewConfigStore) (Some (upsert_event 1))"

lemma demo_consumer_store:
  "csCurrent (ccStore demo_consumer) = csSnap (ccStore demo_consumer)"
  "\<not> not_newer (csTombstones (ccStore demo_consumer)) (writer_key ''u1'' ''s1'') 2"
  by code_simp+

text \<open>Deleted at version 2, the strategy is not revived by a repeated creation at version 1.\<close>

theorem deleted_stays_deleted_witness:
  "GetStrategy (ccStore (foldl config_step (consume_message demo_consumer (Some (config_event ConfigDeleted 2 None)))
     [Consume (Some (upsert_event 1)), Process (Some (config_event ConfigResumed 3 None))])) ''u1'' ''s1'' = None"
  by (rule deleted_stays_deleted [where v = 2])
    (simp_all add: demo_consumer_store config_event_def revives_def demo_payload_def)

section \<open>At-least-once delivery\<close>




section \<open>Findings\<close>

text \<open>
  The service's consumer sets the active flag of every update: editing a paused strategy
  (whose message says inactive) puts it back among the active ones.
\<close>

lemma update_of_paused_reactivates:
  "list_ex (\<lambda>s. stStrategyID s = ''s1'') (snAllActive (csSnap (ccStore
     (foldl consume_message demo_consumer
       [Some (config_event ConfigPaused 2 None),
        Some (config_event ConfigUpdated 3 (Some (demo_payload False 20)))]))))"
  by code_simp

text \<open>
  Loading at startup does not record the versions of what it loads: a pause that is older than
  the loaded state is applied, and the update that lifted it is then dropped as stale.
\<close>

lemma stale_pause_after_bulk_load:
  "snAllActive (csSnap (config_after
     [StartUp (Inr (case ToModelStrategy (Some (demo_payload True 10)) of Inl _ \<Rightarrow> []
        | Inr s \<Rightarrow> [Some (s\<lparr>stVersion := 5, stConditions := (stConditions s)\<lparr>kImpactScoreMax := 10\<rparr>\<rparr>)])),
      Consume (Some (config_event ConfigPaused 4 None)),
      Consume (Some (upsert_event 5))])) = []"
  by code_simp

text \<open>
  The bootstrap skips strategies the engine accepts: one whose upper impact bound is unset
  (the evaluator reads 0 as 10) and one that is sized by an amount instead of a quantity.
\<close>

lemma bootstrap_drops_unset_max:
  assumes "kImpactScoreMax (stConditions s) = 0" "0 < kImpactScoreMin (stConditions s)"
  shows "\<not> keep_valid (Some s)"
  using assms by (simp add: keep_valid_def validateStrategyConfig_def Let_def)

lemma bootstrap_drops_amount_sized:
  assumes "tQuantity (stTradeConfig s) = 0"
  shows "\<not> keep_valid (Some s)"
  using assms by (simp add: keep_valid_def validateStrategyConfig_def Let_def)

end
