(* ===== verification/ReEngine.thy ===== *)
theory ReEngine
  imports ReMatcher ReStoreProps
begin

text \<open>
  The rules engine's hot path (\<open>internal/engine\<close>): the deduplication of events, the worker
  pool and the evaluation of an event against the published snapshot. Times are nanoseconds;
  the iteration order of a Go map, the answers of the pool and the order in which workers
  finish are arguments.
\<close>

section \<open>Deduplication (deduper.go)\<close>

record Deduper =
  dWindow :: int
  dMaxEntries :: int
  dItems :: "(string \<times> int) list"

definition NewDeduper :: "int \<Rightarrow> int \<Rightarrow> Deduper" where
  "NewDeduper window maxEntries =
     \<lparr>dWindow = (if window \<le> 0 then 120000000000 else window),
      dMaxEntries = (if maxEntries \<le> 0 then 100000 else maxEntries), dItems = []\<rparr>"

text \<open>The second eviction loop: delete in iteration order until the map is small enough.\<close>

fun purge :: "int \<Rightarrow> string list \<Rightarrow> (string \<times> int) list \<Rightarrow> (string \<times> int) list" where
  "purge maxEntries [] items = items"
| "purge maxEntries (k # ks) items =
     (let items1 = AList.delete k items
      in if int (length items1) \<le> maxEntries then items1 else purge maxEntries ks items1)"

definition evict :: "Deduper \<Rightarrow> int \<Rightarrow> string list \<Rightarrow> (string \<times> int) list" where
  "evict d oldest order =
     (if dMaxEntries d < int (length (dItems d))
      then purge (dMaxEntries d) order (filter (\<lambda>(_, t). \<not> t < oldest) (dItems d))
      else dItems d)"

definition AllowID :: "Deduper \<Rightarrow> int \<Rightarrow> string list \<Rightarrow> string \<Rightarrow> Deduper \<times> bool" where
  "AllowID d now order i =
     (if i = [] then (d, True)
      else let oldest = now - dWindow d;
               items = evict d oldest order
           in if (case map_of items i of None \<Rightarrow> False | Some t \<Rightarrow> oldest < t)
              then (d\<lparr>dItems := items\<rparr>, False)
              else (d\<lparr>dItems := AList.update i now items\<rparr>, True))"

section \<open>The worker pool (worker_pool.go)\<close>

text \<open>
  The queue of a channel with a buffer, the two close flags and the counter of the wait
  group. A job is a number. A submission is two steps, as another goroutine can shut the pool
  down in between: the check of the flag, and the send with the recovery of its panic.
\<close>

record WorkerPool =
  wpJobs :: "nat list"
  wpBuffer :: int
  wpClosed :: bool
  wpChanClosed :: bool
  wpWaiting :: int

definition NewWorkerPool :: "int \<Rightarrow> int \<Rightarrow> WorkerPool" where
  "NewWorkerPool workers buffer =
     (let w = (if workers \<le> 0 then 1 else workers)
      in \<lparr>wpJobs = [], wpBuffer = (if buffer \<le> 0 then w * 4 else buffer), wpClosed = False,
          wpChanClosed = False, wpWaiting = 0\<rparr>)"

datatype submit_result = Submitted | SubmitError string | SubmitBlocked

definition submit_check :: "WorkerPool \<Rightarrow> WorkerPool \<times> string option" where
  "submit_check wp =
     (if wpClosed wp then (wp, Some ''worker pool closed'') else (wp\<lparr>wpWaiting := wpWaiting wp + 1\<rparr>, None))"

text \<open>
  Sending on a closed channel panics; the deferred function recovers, takes back the count,
  and the call returns the zero value of its result, a nil error.
\<close>

definition submit_send :: "nat \<Rightarrow> WorkerPool \<Rightarrow> WorkerPool \<times> submit_result" where
  "submit_send job wp =
     (if wpChanClosed wp then (wp\<lparr>wpWaiting := wpWaiting wp - 1\<rparr>, Submitted)
      else if wpBuffer wp \<le> int (length (wpJobs wp)) then (wp, SubmitBlocked)
      else (wp\<lparr>wpJobs := wpJobs wp @ [job]\<rparr>, Submitted))"

definition SubmitJob :: "nat \<Rightarrow> WorkerPool \<Rightarrow> WorkerPool \<times> submit_result" where
  "SubmitJob job wp =
     (case submit_check wp of (wp1, Some e) \<Rightarrow> (wp1, SubmitError e) | (wp1, None) \<Rightarrow> submit_send job wp1)"

definition worker_take :: "WorkerPool \<Rightarrow> WorkerPool \<times> nat option" where
  "worker_take wp =
     (case wpJobs wp of [] \<Rightarrow> (wp, None)
      | j # js \<Rightarrow> (wp\<lparr>wpJobs := js, wpWaiting := wpWaiting wp - 1\<rparr>, Some j))"

definition ShutdownPool :: "WorkerPool \<Rightarrow> WorkerPool" where
  "ShutdownPool wp = wp\<lparr>wpClosed := True, wpChanClosed := True\<rparr>"

text \<open>Workers run what is queued; the pool is drained when nothing is left to wait for.\<close>

fun drain :: "nat \<Rightarrow> WorkerPool \<Rightarrow> WorkerPool \<times> nat list" where
  "drain 0 wp = (wp, [])"
| "drain (Suc n) wp =
     (case worker_take wp of (wp1, None) \<Rightarrow> (wp1, [])
      | (wp1, Some j) \<Rightarrow> (case drain n wp1 of (wp2, js) \<Rightarrow> (wp2, j # js)))"

section \<open>Evaluating one strategy (engine.go)\<close>

record RuleMatch =
  rmUserID :: string
  rmStrategyID :: string
  rmStrategyName :: string
  rmStrategy :: "Strategy option"
  rmMatchScore :: float64
  rmMatchedConditions :: "string list"
  rmFailedConditions :: "string list"
  rmApprovedByRisk :: bool
  rmEventID :: string
  rmPctChangeStatus :: string

text \<open>\<open>order\<close> is the iteration order of the score map.\<close>

definition evaluateOne :: "string list \<Rightarrow> MarketEvent \<Rightarrow> Strategy option \<Rightarrow> RuleMatch option" where
  "evaluateOne order ev strategy =
     (case strategy of None \<Rightarrow> None | Some s \<Rightarrow>
      if \<not> stActive s then None
      else if ValidateStrategy s \<noteq> None then None
      else let res = Evaluate ev s
           in if \<not> IsFullMatch res then None
              else Some \<lparr>rmUserID = stUserID s, rmStrategyID = stStrategyID s, rmStrategyName = stStrategyName s,
                     rmStrategy = Some s, rmMatchScore = CalculateScore NewScorer order (Some res),
                     rmMatchedConditions = erMatched res, rmFailedConditions = erFailed res,
                     rmApprovedByRisk = False, rmEventID = evEventID ev,
                     rmPctChangeStatus = erPctChangeStatus res\<rparr>)"

section \<open>Evaluating an event\<close>

record Engine =
  enStore :: ConfigStore
  enDedup :: Deduper

definition NewEngine :: "ConfigStore \<Rightarrow> int \<Rightarrow> int \<Rightarrow> Engine" where
  "NewEngine store window maxEntries =
     \<lparr>enStore = store, enDedup = NewDeduper (if window \<le> 0 then 120000000000 else window)
        (if maxEntries \<le> 0 then 100000 else maxEntries)\<rparr>"

text \<open>
  What happens around one evaluation: the time, iteration orders, for each strategy the
  outcome of its turn in the submission loop, and the order in which the jobs finish.
\<close>

datatype turn = TurnSubmitted | TurnLost | TurnError string

record eval_env =
  eeNow :: int
  eePurge :: "string list"
  eeScoreOrder :: "string list"
  eeTurn :: "nat \<Rightarrow> turn"
  eeSchedule :: "nat list"

text \<open>
  \<open>TurnError\<close> is a cancelled context, a closed engine or pool; \<open>TurnLost\<close> a submission whose
  panic was recovered: no error, and the job never runs, so waiting for it never ends.
\<close>

datatype eval_outcome = Matches "RuleMatch list" | EvalError re_error | Hangs

fun submit_loop :: "(nat \<Rightarrow> turn) \<Rightarrow> nat \<Rightarrow> nat \<Rightarrow> bool \<Rightarrow> string option \<times> bool" where
  "submit_loop turn i 0 lost = (None, lost)"
| "submit_loop turn i (Suc n) lost =
     (case turn i of TurnSubmitted \<Rightarrow> submit_loop turn (Suc i) n lost
      | TurnLost \<Rightarrow> submit_loop turn (Suc i) n True
      | TurnError e \<Rightarrow> (Some e, lost))"

definition run_jobs :: "eval_env \<Rightarrow> MarketEvent \<Rightarrow> Strategy list \<Rightarrow> RuleMatch option list" where
  "run_jobs env ev strategies =
     foldl (\<lambda>ms i. ms[i := evaluateOne (eeScoreOrder env) ev (Some (strategies ! i))])
       (replicate (length strategies) None) (eeSchedule env)"

definition EvaluateEvent :: "eval_env \<Rightarrow> MarketEvent \<Rightarrow> Engine \<Rightarrow> Engine \<times> eval_outcome" where
  "EvaluateEvent env event en =
     (case ValidateEvent event of (_, Some e) \<Rightarrow> (en, EvalError e)
      | (ev, None) \<Rightarrow>
          (case AllowID (enDedup en) (eeNow env) (eePurge env) (evEventID ev) of
             (d, False) \<Rightarrow> (en\<lparr>enDedup := d\<rparr>, Matches [])
           | (d, True) \<Rightarrow>
               let strategies = snAllActive (csSnap (enStore en))
               in (en\<lparr>enDedup := d\<rparr>,
                   if strategies = [] then Matches []
                   else case submit_loop (eeTurn env) 0 (length strategies) False of
                          (Some e, _) \<Rightarrow> EvalError (ErrText e)
                        | (None, True) \<Rightarrow> Hangs
                        | (None, False) \<Rightarrow>
                            Matches (List.map_filter (\<lambda>m. m) (run_jobs env ev strategies)))))"

section \<open>Lemmas\<close>

subsection \<open>The worker pool\<close>

lemma worker_take_cases:
  "worker_take wp = (wp, None) \<and> wpJobs wp = [] \<or>
   (\<exists>j js. wpJobs wp = j # js \<and> worker_take wp = (wp\<lparr>wpJobs := js, wpWaiting := wpWaiting wp - 1\<rparr>, Some j))"
  by (cases "wpJobs wp") (simp_all add: worker_take_def)

text \<open>Draining runs everything that was queued, in order, whether or not the pool was closed.\<close>

lemma drain_runs_queue:
  "length (wpJobs wp) \<le> n \<Longrightarrow>
   drain n wp = (wp\<lparr>wpJobs := [], wpWaiting := wpWaiting wp - int (length (wpJobs wp))\<rparr>, wpJobs wp)"
proof (induction n arbitrary: wp)
  case (Suc n)
  then show ?case by (cases "wpJobs wp") (simp_all add: worker_take_def)
qed simp

subsection \<open>Jobs in any order\<close>

lemma foldl_update_notin:
  "i \<notin> set is \<Longrightarrow> foldl (\<lambda>ms i. ms[i := f i]) ms is ! i = ms ! i"
  by (induction "is" arbitrary: ms) auto

lemma foldl_update_length [simp]: "length (foldl (\<lambda>ms i. ms[i := f i]) ms is) = length ms"
  by (induction "is" arbitrary: ms) auto

lemma foldl_update_nth:
  "i \<in> set is \<Longrightarrow> i < length ms \<Longrightarrow> foldl (\<lambda>ms i. ms[i := f i]) ms is ! i = f i"
proof (induction "is" arbitrary: ms)
  case (Cons j js)
  then show ?case by (cases "i \<in> set js") (auto simp: foldl_update_notin)
qed simp

lemma run_jobs_any_order:
  assumes "{..<length strategies} \<subseteq> set (eeSchedule env)"
  shows "run_jobs env ev strategies = map (\<lambda>s. evaluateOne (eeScoreOrder env) ev (Some s)) strategies"
  unfolding run_jobs_def by (rule nth_equalityI) (use assms in \<open>auto simp: foldl_update_nth\<close>)

lemma submit_all:
  "\<forall>j. i \<le> j \<and> j < i + n \<longrightarrow> turn j = TurnSubmitted \<Longrightarrow> submit_loop turn i n lost = (None, lost)"
  by (induction n arbitrary: i) simp_all

subsection \<open>Scores\<close>

lemma pct_score_nonneg: "0 \<le> a \<Longrightarrow> 0 \<le> pct_score a lo hi"
  by (auto simp: pct_score_def Let_def intro!: f64.nonneg divide_nonneg_nonneg mult_nonneg_nonneg)

definition scores_nonneg :: "EvaluationResult \<Rightarrow> bool" where
  "scores_nonneg r \<longleftrightarrow> (\<forall>c x. erScores r c = Some x \<longrightarrow> 0 \<le> x)"

lemma scores_matched: "scores_nonneg r \<Longrightarrow> 0 \<le> x \<Longrightarrow> scores_nonneg (matched c x r)"
  by (simp add: scores_nonneg_def matched_def)

lemma scores_failed: "scores_nonneg r \<Longrightarrow> scores_nonneg (failed c r)"
  by (simp add: scores_nonneg_def failed_def)

lemma scores_status: "scores_nonneg (r\<lparr>erPctChangeStatus := x\<rparr>) = scores_nonneg r"
  by (simp add: scores_nonneg_def)

lemmas scores_intros = scores_matched scores_failed

lemma scores_list: "scores_nonneg r \<Longrightarrow> scores_nonneg (evaluate_list c wanted actual r)"
  by (simp add: evaluate_list_def scores_intros)

lemma scores_impact:
  "scores_nonneg r \<Longrightarrow> 0 \<le> aImpactScore (evAnalysis ev) \<Longrightarrow> scores_nonneg (evaluateImpactScore ev s r)"
  by (auto simp: evaluateImpactScore_def Let_def f_of_int_def
      intro!: scores_intros f64.nonneg divide_nonneg_nonneg mult_nonneg_nonneg)

lemma scores_price: "scores_nonneg r \<Longrightarrow> scores_nonneg (evaluatePriceRange ev s r)"
  by (simp add: evaluatePriceRange_def Let_def scores_intros)

lemma scores_pct: "scores_nonneg r \<Longrightarrow> scores_nonneg (evaluatePctChange ev s r)"
  by (simp add: evaluatePctChange_def Let_def scores_intros scores_status pct_score_nonneg)

lemma scores_foldl:
  assumes "\<forall>c x. sc c = Some x \<longrightarrow> 0 \<le> x"
  shows "\<forall>c x. foldl (\<lambda>sc c. sc(c \<mapsto> 100)) sc cs c = Some x \<longrightarrow> 0 \<le> (x::float64)"
  using assms
proof (induction cs arbitrary: sc)
  case (Cons a cs)
  from Cons.prems have "\<forall>c x. (sc(a \<mapsto> 100)) c = Some x \<longrightarrow> 0 \<le> x" by simp
  from Cons.IH [OF this] show ?case by simp
qed simp

lemma scores_Evaluate:
  assumes "0 \<le> aImpactScore (evAnalysis ev)"
  shows "scores_nonneg (Evaluate ev s)"
proof -
  have e: "scores_nonneg empty_result" by (simp add: scores_nonneg_def empty_result_def)
  have "scores_nonneg (evaluateMatchAllStrategy ev s empty_result)"
    using scores_impact [OF e assms, of s] scores_foldl [of "erScores (evaluateImpactScore ev s empty_result)"]
    by (auto simp: evaluateMatchAllStrategy_def Let_def scores_nonneg_def)
  then show ?thesis
    by (simp add: Evaluate_def list_conditions scores_list scores_pct scores_price scores_impact [OF e assms])
qed

lemma score_loop_nonneg:
  assumes "\<And>c. 0 \<le> weight c" "\<And>c x. sc c = Some x \<Longrightarrow> 0 \<le> x" "0 \<le> a" "0 \<le> b"
  shows "0 \<le> fst (score_loop weight sc order (a, b)) \<and> 0 \<le> snd (score_loop weight sc order (a, b))"
  using assms(3,4)
proof (induction order arbitrary: a b)
  case (Cons c cs)
  have "0 \<le> (case sc c of None \<Rightarrow> 0 | Some x \<Rightarrow> x)" using assms(2) by (simp split: option.split)
  then have "0 \<le> fadd a (fmul (case sc c of None \<Rightarrow> 0 | Some x \<Rightarrow> x) (fdiv (weight c) 100))"
    using assms(1) Cons.prems by (intro f64.nonneg add_nonneg_nonneg mult_nonneg_nonneg divide_nonneg_nonneg) auto
  moreover have "0 \<le> fadd b (weight c)" using assms(1) Cons.prems by (intro f64.nonneg) simp
  ultimately show ?case using Cons.IH by simp
qed simp

lemma default_weight_nonneg: "0 \<le> weight_or_default NewScorer c"
  by (simp add: weight_or_default_def GetWeight_def NewScorer_def)

lemma CalculateScore_range:
  assumes "scores_nonneg r" "IsFullMatch r"
  shows "0 \<le> CalculateScore NewScorer order (Some r) \<and> CalculateScore NewScorer order (Some r) \<le> 100"
proof -
  obtain a b where l: "score_loop (weight_or_default NewScorer) (erScores r) order (0, 0) = (a, b)"
    by (cases "score_loop (weight_or_default NewScorer) (erScores r) order (0, 0)")
  have "0 \<le> a \<and> 0 \<le> b"
    using score_loop_nonneg [of "weight_or_default NewScorer" "erScores r" 0 0 order] default_weight_nonneg assms(1) l
    by (simp add: scores_nonneg_def)
  then have "0 \<le> fmul (fmul (fdiv a b) 100) (rnd (11 / 10))"
    by (intro f64.nonneg mult_nonneg_nonneg divide_nonneg_nonneg) auto
  moreover have "failure_rate r = 0"
    using assms(2) by (simp add: failure_rate_def GetFailedConditionCount_def IsFullMatch_def f_of_int_def)
  ultimately show ?thesis using assms(2) by (simp add: CalculateScore_def l Let_def min_def)
qed

end
