(* ===== verification/TickSize.thy ===== *)
theory TickSize
  imports Float64
begin

text \<open>
  Rounding to an instrument's tick: \<open>roundToTickSize\<close> of the rules engine
  (\<open>consumer/market_data.go\<close>), which works in integers scaled by a hundred million, and
  \<open>RoundToTick\<close>, \<open>RoundToTickSize\<close> of \<open>pkg/indira/utils.go\<close>, which round the quotient.
\<close>

text \<open>\<open>math.Round\<close>: to the nearest integer, halves away from zero.\<close>

definition round_away :: "rat \<Rightarrow> int" where
  "round_away x = (if 0 \<le> x then \<lfloor>x + 1 / 2\<rfloor> else - \<lfloor>- x + 1 / 2\<rfloor>)"

definition tick_scale :: float64 where
  "tick_scale = 100000000"

definition scaled :: "float64 \<Rightarrow> int" where
  "scaled x = int64_of (of_int (round_away (fmul x tick_scale)))"

definition roundToTickSize :: "float64 \<Rightarrow> float64 \<Rightarrow> float64" where
  "roundToTickSize price tickSize =
     (if tickSize \<le> 0 then price
      else let priceSc = scaled price; tickSc = scaled tickSize
           in if tickSc \<le> 0 then price
              else let rounded = i64 (go_div (i64 (priceSc + go_div tickSc 2)) tickSc * tickSc)
                   in fdiv (f_of_int rounded) tick_scale)"

definition RoundToTick :: "float64 \<Rightarrow> float64" where
  "RoundToTick price =
     (if price \<le> 0 then price
      else let tick = (if price < 1 then rnd (1 / 100) else rnd (5 / 100));
               rounded = fmul (of_int (round_away (fdiv price tick))) tick
           in fdiv (of_int (round_away (fmul rounded 100))) 100)"

definition RoundToTickSize :: "float64 \<Rightarrow> float64 \<Rightarrow> float64" where
  "RoundToTickSize price tickSize =
     (if price \<le> 0 then price
      else if tickSize \<le> 0 then RoundToTick price
      else let rounded = fmul (of_int (round_away (fdiv price tickSize))) tickSize
           in fdiv (of_int (round_away (fmul rounded 100))) 100)"

section \<open>Lemmas\<close>

lemma round_away_mono:
  assumes "x \<le> y"
  shows "round_away x \<le> round_away y"
proof -
  have neg: "0 \<le> \<lfloor>- x + 1 / 2\<rfloor>" if "x < 0" using that by (subst le_floor_iff) simp
  have pos: "0 \<le> \<lfloor>y + 1 / 2\<rfloor>" if "0 \<le> y" using that by (subst le_floor_iff) simp
  have "\<lfloor>- y + 1 / 2\<rfloor> \<le> \<lfloor>- x + 1 / 2\<rfloor>" "\<lfloor>x + 1 / 2\<rfloor> \<le> \<lfloor>y + 1 / 2\<rfloor>"
    using assms by (auto intro: floor_mono)
  moreover have "- \<lfloor>- x + 1 / 2\<rfloor> \<le> \<lfloor>y + 1 / 2\<rfloor>" if "x < 0" "0 \<le> y"
    using neg [OF that(1)] pos [OF that(2)] by linarith
  ultimately show ?thesis using assms by (auto simp: round_away_def)
qed

lemma round_away_nonneg: "0 \<le> x \<Longrightarrow> 0 \<le> round_away x"
  by (simp add: round_away_def le_floor_iff)

text \<open>A price up to ten thousand million: its scaled value is far inside an \<open>int64\<close>.\<close>

definition tick_range :: "float64 \<Rightarrow> bool" where
  "tick_range p \<longleftrightarrow> 0 \<le> p \<and> p \<le> 10 ^ 10"

lemma scaled_range:
  assumes "tick_range p"
  shows "scaled p = round_away (fmul p tick_scale)" "0 \<le> scaled p" "scaled p \<le> 10 ^ 18"
proof -
  have p: "0 \<le> p" "p \<le> 10 ^ 10" using assms by (simp_all add: tick_range_def)
  have n: "0 \<le> fmul p tick_scale" using p by (intro f64.nonneg) (simp add: tick_scale_def)
  have fx: "rnd (10 ^ 18) = 10 ^ 18"
    using rnd_exact [of "5 ^ 18" 18] by (simp add: power_int_def)
  have u: "fmul p tick_scale \<le> 10 ^ 18"
    using p by (intro f64.le_fix [OF fx]) (simp add: tick_scale_def)
  have "\<lfloor>(10 ^ 18 :: rat) + 1 / 2\<rfloor> = 10 ^ 18" by (simp add: floor_eq_iff)
  then have r18: "round_away (10 ^ 18) = 10 ^ 18" by (simp add: round_away_def)
  have r: "0 \<le> round_away (fmul p tick_scale)" "round_away (fmul p tick_scale) \<le> 10 ^ 18"
    using round_away_nonneg [OF n] round_away_mono [OF u] r18 by simp_all
  have t: "trunc (of_int k) = k" for k by (simp add: trunc_def)
  show e: "scaled p = round_away (fmul p tick_scale)"
    using r by (simp add: scaled_def int64_of_def t is_i64_def)
  show "0 \<le> scaled p" "scaled p \<le> 10 ^ 18" using r by (simp_all only: e)
qed

lemma scaled_mono:
  assumes "tick_range p" "tick_range q" "p \<le> q"
  shows "scaled p \<le> scaled q"
  unfolding scaled_range(1) [OF assms(1)] scaled_range(1) [OF assms(2)]
  using assms(3) by (intro round_away_mono f64.mono) (simp add: tick_scale_def)

text \<open>In range, with a tick of at most a million and a positive scaled value, nothing wraps.\<close>

definition good_tick :: "float64 \<Rightarrow> bool" where
  "good_tick t \<longleftrightarrow> 0 < t \<and> t \<le> 10 ^ 6 \<and> 0 < scaled t"

lemma roundToTickSize_eq:
  assumes "tick_range p" "good_tick t"
  shows "roundToTickSize p t = rnd (f_of_int ((scaled p + scaled t div 2) div scaled t * scaled t) / tick_scale)"
proof -
  have t: "0 < t" "t \<le> 10 ^ 6" "0 < scaled t" using assms(2) by (simp_all add: good_tick_def)
  note p = scaled_range [OF assms(1)]
  have tr: "tick_range t" using t by (simp add: tick_range_def)
  note ts = scaled_range [OF tr]
  define s where "s = scaled p + scaled t div 2"
  have s: "0 \<le> s" "s \<le> 2 * 10 ^ 18" using p(2,3) ts(2,3) by (simp_all add: s_def)
  have "s div scaled t * scaled t = s - s mod scaled t" by (simp add: minus_mod_eq_div_mult)
  then have m: "0 \<le> s div scaled t * scaled t" "s div scaled t * scaled t \<le> s"
    using zmod_le_nonneg_dividend [OF s(1), of "scaled t"] pos_mod_sign [OF t(3), of s] by simp_all
  have "i64 s = s" "i64 (s div scaled t * scaled t) = s div scaled t * scaled t"
    using s m by (auto intro!: i64_id simp: is_i64_def)
  then show ?thesis
    using t s p(2) ts(2) by (simp add: roundToTickSize_def Let_def go_div_nonneg s_def)
qed

lemma roundToTickSize_mono:
  assumes "tick_range p" "tick_range q" "good_tick t" "p \<le> q"
  shows "roundToTickSize p t \<le> roundToTickSize q t"
proof -
  have t: "0 < scaled t" using assms(3) by (simp add: good_tick_def)
  have "(scaled p + scaled t div 2) div scaled t * scaled t \<le> (scaled q + scaled t div 2) div scaled t * scaled t"
    using scaled_mono [OF assms(1,2,4)] t by (intro mult_right_mono zdiv_mono1) auto
  then show ?thesis
    unfolding roundToTickSize_eq [OF assms(1,3)] roundToTickSize_eq [OF assms(2,3)]
    by (intro f64.mono divide_right_mono f_of_int_mono) (simp_all add: tick_scale_def)
qed

lemma roundToTickSize_nonneg:
  assumes "tick_range p" "good_tick t"
  shows "0 \<le> roundToTickSize p t"
proof -
  have "0 < scaled t" "0 \<le> scaled p" using assms scaled_range by (auto simp: good_tick_def)
  then have "0 \<le> (scaled p + scaled t div 2) div scaled t * scaled t"
    by (simp add: pos_imp_zdiv_nonneg_iff)
  then have "0 \<le> f_of_int ((scaled p + scaled t div 2) div scaled t * scaled t)"
    unfolding f_of_int_def by (intro f64.nonneg) (simp only: of_int_0_le_iff)
  then show ?thesis unfolding roundToTickSize_eq [OF assms]
    by (intro f64.nonneg divide_nonneg_nonneg) (simp_all add: tick_scale_def)
qed

lemma roundToTickSize_f64 [simp]: "is_f64 p \<Longrightarrow> is_f64 (roundToTickSize p t)"
  by (simp add: roundToTickSize_def Let_def)

end
