(* ===== verification/IstClock.thy ===== *)
theory IstClock
  imports Prelude
begin

text \<open>
  The Indian clock both services read: the day, minute and weekday of an instant, dates and
  times of day as text, and the parser of a configured time of day.
\<close>

section \<open>Time of day\<close>

text \<open>
  Unix nanoseconds to India Standard Time, which is five and a half hours ahead of UTC all
  year: the day number, the minutes since midnight and the weekday (0 is Sunday).
\<close>

definition ist_seconds :: "int \<Rightarrow> int" where
  "ist_seconds now = now div 1000000000 + 19800"

definition ist_day :: "int \<Rightarrow> int" where
  "ist_day now = ist_seconds now div 86400"

definition ist_minutes :: "int \<Rightarrow> int" where
  "ist_minutes now = ist_seconds now mod 86400 div 60"

definition ist_weekday :: "int \<Rightarrow> int" where
  "ist_weekday now = (ist_day now + 4) mod 7"

text \<open>A day number as a date in the proleptic Gregorian calendar, printed as \<open>2006-01-02\<close>.\<close>

definition civil_date :: "int \<Rightarrow> int \<times> int \<times> int" where
  "civil_date day =
     (let z = day + 719468; era = z div 146097; doe = z mod 146097;
          yoe = (doe - doe div 1460 + doe div 36524 - doe div 146096) div 365;
          doy = doe - (365 * yoe + yoe div 4 - yoe div 100);
          mp = (5 * doy + 2) div 153;
          d = doy - (153 * mp + 2) div 5 + 1;
          m = (if mp < 10 then mp + 3 else mp - 9);
          y = yoe + era * 400
      in (if m \<le> 2 then y + 1 else y, m, d))"

definition two_digits :: "int \<Rightarrow> string" where
  "two_digits n = (if n < 10 then CHR ''0'' # show_int n else show_int n)"

definition date_string :: "int \<Rightarrow> string" where
  "date_string day =
     (case civil_date day of (y, m, d) \<Rightarrow> show_int y @ ''-'' @ two_digits m @ ''-'' @ two_digits d)"

definition clock_string :: "int \<Rightarrow> string" where
  "clock_string now = two_digits (ist_minutes now div 60) @ '':'' @ two_digits (ist_minutes now mod 60)"

section \<open>Parsing a time of day\<close>

text \<open>\<open>fmt.Sscanf\<close> with \<open>%d\<close>: blanks, an optional sign, digits; the value has to fit an int64.\<close>

definition is_digit :: "char \<Rightarrow> bool" where
  "is_digit c \<longleftrightarrow> 48 \<le> (of_char c :: nat) \<and> (of_char c :: nat) \<le> 57"

definition digits_value :: "string \<Rightarrow> int" where
  "digits_value = foldl (\<lambda>n c. n * 10 + (of_char c - 48)) 0"

definition scan_digits :: "bool \<Rightarrow> string \<Rightarrow> (int \<times> string) option" where
  "scan_digits negative s =
     (let ds = takeWhile (\<lambda>c. is_digit c \<or> c = CHR ''_'') s;
          v = (if negative then - digits_value ds else digits_value ds)
      in if ds = [] \<or> CHR ''_'' \<in> set ds \<or> \<not> is_i64 v then None
         else Some (v, drop (length ds) s))"

definition scan_int :: "string \<Rightarrow> (int \<times> string) option" where
  "scan_int s =
     (case dropWhile (\<lambda>c. is_space c \<and> of_char c \<noteq> (10 :: nat)) s of [] \<Rightarrow> None
      | c # cs \<Rightarrow> if c = CHR ''-'' then scan_digits True cs
                 else if c = CHR ''+'' then scan_digits False cs
                 else scan_digits False (c # cs))"

definition parseHHMM :: "string \<Rightarrow> (int \<times> int) option" where
  "parseHHMM s =
     (case scan_int s of None \<Rightarrow> None
      | Some (h, rest) \<Rightarrow>
          (case rest of c # cs \<Rightarrow> if c = CHR '':'' then map_option (\<lambda>(m, _). (h, m)) (scan_int cs) else None
           | [] \<Rightarrow> None))"

end
