(* ===== verification/ReHandler.thy ===== *)
theory ReHandler
  imports ReEngine TickSize IstClock
begin

text \<open>
  From a matched strategy to a published order (\<open>consumer/handler.go\<close>, \<open>market_data.go\<close>,
  \<open>models/order.go\<close>, \<open>utils/market_hours.go\<close>, \<open>holiday/checker.go\<close>,
  \<open>repository/trade_signal_repository.go\<close>, \<open>kafka/news_consumer.go\<close>). The clock, Redis and
  failures of the database are an environment; the signals table is part of the state, as
  the handler reads back what it wrote. Evaluation and prefetch of market data, which the
  code runs side by side, are independent and follow each other here.
\<close>

section \<open>Market hours and trade window\<close>

record MarketHours =
  mhOpenHour :: int
  mhOpenMinute :: int
  mhCloseHour :: int
  mhCloseMinute :: int

definition DefaultMarketHours :: MarketHours where
  "DefaultMarketHours = \<lparr>mhOpenHour = 9, mhOpenMinute = 15, mhCloseHour = 15, mhCloseMinute = 30\<rparr>"

definition IsMarketOpenAt :: "MarketHours \<Rightarrow> int \<Rightarrow> bool" where
  "IsMarketOpenAt mh now =
     (if ist_weekday now = 6 \<or> ist_weekday now = 0 then False
      else let current = ist_minutes now;
               open_at = mhOpenHour mh * 60 + mhOpenMinute mh;
               close_at = mhCloseHour mh * 60 + mhCloseMinute mh
           in open_at \<le> current \<and> current \<le> close_at)"

definition GetMarketStatus :: "MarketHours \<Rightarrow> int \<Rightarrow> string" where
  "GetMarketStatus mh now =
     (if ist_weekday now = 6 \<or> ist_weekday now = 0 then ''Market closed (Weekend)''
      else if IsMarketOpenAt mh now then ''Market open''
      else if ist_minutes now < mhOpenHour mh * 60 + mhOpenMinute mh then ''Market closed (Before opening)''
      else ''Market closed (After closing)'')"

definition isWithinTradeWindow :: "int \<Rightarrow> string \<Rightarrow> string \<Rightarrow> bool" where
  "isWithinTradeWindow now windowStart windowEnd =
     (if windowStart = [] \<or> windowEnd = [] then True
      else case (parseHHMM windowStart, parseHHMM windowEnd) of
             (Some (sh, sm), Some (eh, em)) \<Rightarrow>
               sh * 60 + sm \<le> ist_minutes now \<and> ist_minutes now \<le> eh * 60 + em
           | _ \<Rightarrow> True)"

section \<open>Orders (models/order.go)\<close>

record OrderRequest =
  oqOrderID :: string
  oqUserID :: string
  oqStrategyID :: string
  oqStrategyName :: string
  oqEventID :: string
  oqStockCode :: int
  oqToken :: int
  oqSymbol :: string
  oqExchange :: string
  oqOrderType :: string
  oqQuantity :: int
  oqPrice :: float64
  oqStopLoss :: float64
  oqTakeProfit :: float64
  oqTimestamp :: int
  oqMatchScore :: float64
  oqImpactScore :: int
  oqSentiment :: string
  oqNewsCategory :: string
  oqRiskApproved :: bool
  oqRiskScore :: float64
  oqRetryCount :: int
  oqOrderSide :: string
  oqValidity :: string
  oqBearerToken :: string
  oqAppId :: string
  oqSource :: string
  oqStopLossType :: string
  oqTakeProfitType :: string
  oqStopLossPct :: float64
  oqTakeProfitPct :: float64
  oqTrailingSLPct :: float64
  oqMultiLevelSL :: "MultiLevelExitLevel list"
  oqMultiLevelTP :: "MultiLevelExitLevel list"
  oqProductType :: string
  oqTradingMode :: string
  oqPctChangeStatus :: string
  oqCurrentPctChange :: float64
  oqMaxMonitorPrice :: float64
  oqAutoSquareOffTime :: string

definition NewOrderRequest :: "string \<Rightarrow> int \<Rightarrow> RuleMatch \<Rightarrow> MarketEvent \<Rightarrow> Strategy \<Rightarrow> OrderRequest" where
  "NewOrderRequest orderID now match event strategy =
     (let tc = stTradeConfig strategy;
          productType = (if tOrderType tc = ''BRACKET''
                         then (if tStopLossType tc = ''TRAILING'' then ''INTRADAY'' else ''BRACKET'')
                         else if tProductType tc = [] then ''INTRADAY'' else tProductType tc);
          stopLossType = (if tStopLossType tc = [] then ''FIXED'' else tStopLossType tc)
      in \<lparr>oqOrderID = orderID, oqUserID = stUserID strategy, oqStrategyID = stStrategyID strategy,
          oqStrategyName = stStrategyName strategy, oqEventID = evEventID event,
          oqStockCode = sdStockCode (evStockData event), oqToken = sdStockCode (evStockData event),
          oqSymbol = sdSymbol (evStockData event), oqExchange = sdExchange (evStockData event),
          oqOrderType = tOrderType tc, oqQuantity = tQuantity tc, oqPrice = 0, oqStopLoss = 0,
          oqTakeProfit = 0, oqTimestamp = now, oqMatchScore = rmMatchScore match,
          oqImpactScore = aImpactScore (evAnalysis event), oqSentiment = aSentiment (evAnalysis event),
          oqNewsCategory = nCategory (evNewsData event), oqRiskApproved = False, oqRiskScore = 0,
          oqRetryCount = 0, oqOrderSide = ''BUY'', oqValidity = ''DAY'',
          oqBearerToken = stBearerToken strategy, oqAppId = stAppId strategy, oqSource = stSource strategy,
          oqStopLossType = stopLossType, oqTakeProfitType = tTakeProfitType tc,
          oqStopLossPct = tStopLossPct tc, oqTakeProfitPct = tTakeProfitPct tc,
          oqTrailingSLPct = tTrailingSLPct tc, oqMultiLevelSL = tMultiLevelSL tc,
          oqMultiLevelTP = tMultiLevelTP tc, oqProductType = productType,
          oqTradingMode = stTradingMode strategy, oqPctChangeStatus = [], oqCurrentPctChange = 0,
          oqMaxMonitorPrice = 0,
          oqAutoSquareOffTime = (if rEnableAutoSquareOff (stRiskLimits strategy)
                                 then rAutoSquareOffTime (stRiskLimits strategy) else [])\<rparr>)"

definition ValidateOrderRequest :: "OrderRequest \<Rightarrow> re_error option" where
  "ValidateOrderRequest o1 =
     (if oqOrderID o1 = [] then Some ErrInvalidOrderID
      else if oqUserID o1 = [] then Some ErrInvalidUserID
      else if oqStrategyID o1 = [] then Some ErrInvalidStrategyID
      else if oqStockCode o1 \<le> 0 then Some ErrInvalidStockCode
      else if oqExchange o1 = [] then Some ErrInvalidExchange
      else if oqQuantity o1 \<le> 0 then Some ErrInvalidQuantity
      else if oqPrice o1 \<le> 0 then Some ErrInvalidPrice
      else if oqOrderType o1 \<notin> {''MARKET'', ''LIMIT'', ''BRACKET'', ''STOP_LOSS''} then Some ErrInvalidOrderType
      else None)"

section \<open>Market data (market_data.go)\<close>

record MarketDataResult =
  rdLTP :: float64
  rdPrevClose :: float64
  rdTickSize :: float64
  rdPercentChange :: float64
  rdExchange :: string
  rdToken :: int

text \<open>An answer of Redis for a key: a failure, text that is not JSON, or the four fields.\<close>

datatype redis_answer = RedisFails string | BadJSON | RedisData float64 float64 float64 float64

definition market_key :: "string \<Rightarrow> int \<Rightarrow> string" where
  "market_key exch token = ''market:'' @ exch @ '':'' @ show_int token"

definition read_market :: "(string \<Rightarrow> redis_answer) \<Rightarrow> string \<Rightarrow> int \<Rightarrow> string + MarketDataResult" where
  "read_market redis exch token =
     (case redis (market_key exch token) of
        RedisFails e \<Rightarrow> Inl e
      | BadJSON \<Rightarrow> Inl ''failed to parse market data JSON''
      | RedisData ltp prevClose tickSize pct \<Rightarrow>
          if ltp \<le> 0 then Inl ''invalid LTP value''
          else if tickSize \<le> 0 then Inl ''tick_size missing or invalid''
          else Inr \<lparr>rdLTP = ltp, rdPrevClose = prevClose, rdTickSize = tickSize,
                    rdPercentChange = pct, rdExchange = exch, rdToken = token\<rparr>)"

fun first_market :: "(string \<Rightarrow> redis_answer) \<Rightarrow> StockData \<Rightarrow> string list \<Rightarrow> string \<Rightarrow> string + MarketDataResult" where
  "first_market redis sd [] lastErr = Inl (''market data not found in Redis'' @ lastErr)"
| "first_market redis sd (exch # rest) lastErr =
     (let token = (if exch = ''nse'' then sdNSECode sd else sdBSECode sd)
      in if token \<le> 0 then first_market redis sd rest lastErr
         else case read_market redis exch token of Inl e \<Rightarrow> first_market redis sd rest e | Inr d \<Rightarrow> Inr d)"

definition trim_suffix :: "string \<Rightarrow> string \<Rightarrow> string" where
  "trim_suffix s suf = (if has_prefix (rev s) (rev suf) then take (length s - length suf) s else s)"

definition getMarketDataFromRedis :: "(string \<Rightarrow> redis_answer) \<Rightarrow> StockData \<Rightarrow> string + MarketDataResult" where
  "getMarketDataFromRedis redis sd =
     (let exchange = trim_suffix (to_lower (sdExchange sd)) ''_eq''
      in first_market redis sd (if exchange = ''bse'' then [''bse'', ''nse''] else [''nse'', ''bse'']) [])"

section \<open>The signals table (trade_signal_repository.go)\<close>

record SignalRow =
  srOrderID :: string
  srStrategyID :: string
  srStockCode :: int
  srCreatedAt :: int
  srStatus :: string

definition counts_today :: "int \<Rightarrow> string \<Rightarrow> go_time \<Rightarrow> SignalRow \<Rightarrow> bool" where
  "counts_today now strategyID since row \<longleftrightarrow>
     srStrategyID row = strategyID \<and> ist_day (srCreatedAt row) = ist_day now \<and>
     (case since of None \<Rightarrow> True | Some t \<Rightarrow> t \<le> srCreatedAt row) \<and>
     srStatus row \<notin> {''FAILED'', ''CANCELLED''}"

definition HasSignalToday :: "int \<Rightarrow> SignalRow list \<Rightarrow> string \<Rightarrow> int \<Rightarrow> go_time \<Rightarrow> bool" where
  "HasSignalToday now rows strategyID stockCode since \<longleftrightarrow>
     list_ex (\<lambda>row. counts_today now strategyID since row \<and> srStockCode row = stockCode) rows"

definition GetStrategyTradesToday :: "int \<Rightarrow> SignalRow list \<Rightarrow> string \<Rightarrow> go_time \<Rightarrow> int" where
  "GetStrategyTradesToday now rows strategyID since = int (length (filter (counts_today now strategyID since) rows))"

definition SaveTradeSignal :: "OrderRequest \<Rightarrow> SignalRow list \<Rightarrow> SignalRow list" where
  "SaveTradeSignal o1 rows =
     rows @ [\<lparr>srOrderID = oqOrderID o1, srStrategyID = oqStrategyID o1, srStockCode = oqStockCode o1,
              srCreatedAt = oqTimestamp o1, srStatus = ''PENDING''\<rparr>]"

definition UpdateSignalStatus :: "string \<Rightarrow> string \<Rightarrow> SignalRow list \<Rightarrow> SignalRow list" where
  "UpdateSignalStatus orderID status rows =
     map (\<lambda>row. if srOrderID row = orderID then row\<lparr>srStatus := status\<rparr> else row) rows"

end
