(* ===== verification/ReSignals.thy ===== *)
theory ReSignals
  imports ReHandler
begin

text \<open>
  The handler of market events (\<open>consumer/handler.go\<close>) as functions on its state: the
  gates a match passes, the construction of the order, sizing, and publication; the handling
  of an event, and the retry loop of the consumer of news (\<open>kafka/news_consumer.go\<close>).
\<close>

section \<open>Holidays (holiday/checker.go)\<close>

definition IsDateHoliday :: "string list \<Rightarrow> string \<Rightarrow> bool" where
  "IsDateHoliday holidays date \<longleftrightarrow> date \<in> set holidays"

definition IsTodayHoliday :: "string list \<Rightarrow> int \<Rightarrow> bool" where
  "IsTodayHoliday holidays now = IsDateHoliday holidays (date_string (ist_day now))"

section \<open>The handler's state\<close>

record MatchingStats =
  msEventsProcessed :: int
  msMatchesFound :: int
  msOrdersGenerated :: int
  msEvaluationErrors :: int
  msTopStrategies :: "string \<rightharpoonup> string \<times> int"
  msTopStocks :: "int \<rightharpoonup> string \<times> int"

definition RecordStrategyMatch :: "string \<Rightarrow> string \<Rightarrow> MatchingStats \<Rightarrow> MatchingStats" where
  "RecordStrategyMatch i name s =
     s\<lparr>msTopStrategies := (msTopStrategies s)(i \<mapsto>
        (case msTopStrategies s i of None \<Rightarrow> (name, 1) | Some (n, k) \<Rightarrow> (n, k + 1)))\<rparr>"

definition RecordStockMatch :: "int \<Rightarrow> string \<Rightarrow> MatchingStats \<Rightarrow> MatchingStats" where
  "RecordStockMatch code symbol s =
     s\<lparr>msTopStocks := (msTopStocks s)(code \<mapsto>
        (case msTopStocks s code of None \<Rightarrow> (symbol, 1) | Some (n, k) \<Rightarrow> (n, k + 1)))\<rparr>"

text \<open>
  The repository is \<open>None\<close> when the database could not be reached at the start;
  \<open>hPublished\<close> is the log of orders sent to Kafka.
\<close>

record Handler =
  hEngine :: Engine
  hTickCache :: "int \<rightharpoonup> float64"
  hSignals :: "SignalRow list option"
  hStats :: MatchingStats
  hMarketHours :: MarketHours
  hEnforceHours :: bool
  hHolidays :: "string list option"
  hPublished :: "OrderRequest list"

text \<open>
  The surroundings of one call: time and evaluation, Redis, fresh identifiers (one per match
  of the event), whether the two queries, the insert and the publication fail.
\<close>

record sig_env =
  seEval :: eval_env
  seRedis :: "string \<Rightarrow> redis_answer"
  seUUID :: "string \<Rightarrow> string"
  seQueryFails :: bool
  seCountFails :: bool
  seSaveFails :: bool
  sePublishFails :: bool
  seHasKafka :: bool

abbreviation seNow :: "sig_env \<Rightarrow> int" where
  "seNow env \<equiv> eeNow (seEval env)"

section \<open>One match\<close>

definition resolve_tick :: "MarketDataResult option \<Rightarrow> (int \<rightharpoonup> float64) \<Rightarrow> int \<Rightarrow> float64" where
  "resolve_tick md cache stockCode =
     (let t = (case md of None \<Rightarrow> 0 | Some d \<Rightarrow> rdTickSize d)
      in if 0 < t then t
         else case cache stockCode of None \<Rightarrow> t | Some c \<Rightarrow> if 0 < c then c else t)"

definition buffer_up :: float64 where
  "buffer_up = rnd (1005 / 1000)"

definition stop_from :: "float64 \<Rightarrow> float64 \<Rightarrow> float64 \<Rightarrow> float64" where
  "stop_from base slPct tickSize = roundToTickSize (fmul base (fsub 1 (fdiv slPct 100))) tickSize"

definition target_from :: "float64 \<Rightarrow> float64 \<Rightarrow> float64 \<Rightarrow> float64" where
  "target_from base tpPct tickSize = roundToTickSize (fmul base (fadd 1 (fdiv tpPct 100))) tickSize"

definition isMultiLevelSL :: "Strategy \<Rightarrow> bool" where
  "isMultiLevelSL s \<longleftrightarrow> tStopLossType (stTradeConfig s) = ''MULTI_LEVEL''"

definition isMultiLevelTP :: "Strategy \<Rightarrow> bool" where
  "isMultiLevelTP s \<longleftrightarrow> tTakeProfitType (stTradeConfig s) = ''MULTI_LEVEL''"

text \<open>Stop and target from a base price; 0 where the leg is disabled or has several levels.\<close>

definition protect :: "Strategy \<Rightarrow> float64 \<Rightarrow> float64 \<Rightarrow> OrderRequest \<Rightarrow> OrderRequest" where
  "protect s base tickSize o1 =
     (let slPct = tStopLossPct (stTradeConfig s); tpPct = tTakeProfitPct (stTradeConfig s)
      in o1\<lparr>oqStopLoss := (if \<not> isMultiLevelSL s \<and> 0 < slPct then stop_from base slPct tickSize else oqStopLoss o1),
            oqTakeProfit := (if \<not> isMultiLevelTP s \<and> 0 < tpPct then target_from base tpPct tickSize
                             else oqTakeProfit o1)\<rparr>)"

definition order_within_range :: "Strategy \<Rightarrow> float64 \<Rightarrow> float64 \<Rightarrow> OrderRequest \<Rightarrow> OrderRequest \<times> float64" where
  "order_within_range s ltp tickSize o1 =
     (let limitPrice = roundToTickSize (fmul ltp buffer_up) tickSize;
          productType = (if tStopLossType (stTradeConfig s) = ''TRAILING'' then ''INTRADAY''
                         else if isMultiLevelSL s \<or> isMultiLevelTP s then ''INTRADAY'' else ''BRACKET'')
      in (protect s ltp tickSize (o1\<lparr>oqOrderType := ''LIMIT'', oqPrice := limitPrice, oqProductType := productType\<rparr>),
          limitPrice))"

definition target_monitor_price :: "Strategy \<Rightarrow> float64 \<Rightarrow> float64" where
  "target_monitor_price s referencePrice =
     fmul referencePrice (fadd 1 (fdiv (kMinPctChange (stConditions s)) 100))"

definition order_below_min ::
  "Strategy \<Rightarrow> float64 \<Rightarrow> float64 \<Rightarrow> float64 \<Rightarrow> OrderRequest \<Rightarrow> string + OrderRequest \<times> float64" where
  "order_below_min s ltp prevClose tickSize o1 =
     (let referencePrice = (if prevClose \<le> 0 then ltp else prevClose);
          targetMonitorPrice = target_monitor_price s referencePrice;
          limitPrice = roundToTickSize (fmul targetMonitorPrice buffer_up) tickSize
      in if limitPrice \<le> 0 then Inl ''invalid limit price computed''
         else let o2 = protect s targetMonitorPrice tickSize
                         (o1\<lparr>oqOrderType := ''STOP_LOSS'', oqPrice := targetMonitorPrice, oqProductType := ''BRACKET''\<rparr>);
                  maxPct = kMaxPctChange (stConditions s)
              in Inr (if 0 < maxPct then o2\<lparr>oqMaxMonitorPrice := fmul referencePrice (fadd 1 (fdiv maxPct 100))\<rparr> else o2,
                      limitPrice))"

definition route_order ::
  "RuleMatch \<Rightarrow> Strategy \<Rightarrow> MarketDataResult \<Rightarrow> float64 \<Rightarrow> float64 \<Rightarrow> OrderRequest \<Rightarrow> string + OrderRequest \<times> float64"
where
  "route_order match s d prevClose tickSize o1 =
     (let ltp = rdLTP d;
          o2 = o1\<lparr>oqPrice := ltp, oqPctChangeStatus := rmPctChangeStatus match, oqCurrentPctChange := rdPercentChange d\<rparr>
      in if rmPctChangeStatus match = PctChangeWithinRange then Inr (order_within_range s ltp tickSize o2)
         else if rmPctChangeStatus match = PctChangeBelowMin then order_below_min s ltp prevClose tickSize o2
         else Inr (protect s ltp tickSize o2, ltp))"

text \<open>Amount-based sizing: 98 percent of the budget at the price the order can fill at.\<close>

definition size_order :: "Strategy \<Rightarrow> float64 \<Rightarrow> OrderRequest \<Rightarrow> OrderRequest option" where
  "size_order s sizingPrice o1 =
     (let maxAmt = rMaxAmountPerStock (stRiskLimits s)
      in if maxAmt \<le> 0 then Some o1
         else if sizingPrice \<le> 0 then None
         else let effectiveBudget = fmul maxAmt (rnd (98 / 100));
                  computedQty = int32_of (of_int \<lfloor>fdiv effectiveBudget sizingPrice\<rfloor>)
              in if computedQty < 1 then None else Some (o1\<lparr>oqQuantity := computedQty\<rparr>))"

datatype match_result = Published OrderRequest | Skipped | MatchFailed re_error | MatchPanics

definition cap_reached :: "sig_env \<Rightarrow> SignalRow list \<Rightarrow> Strategy \<Rightarrow> bool" where
  "cap_reached env rows s =
     (let limit = rMaxTradesPerStrategy (stRiskLimits s)
      in 0 < limit \<and> (seCountFails env \<or>
           limit \<le> i32 (GetStrategyTradesToday (seNow env) rows (stStrategyID s) (stUpdatedAt s))))"

definition build_order ::
  "sig_env \<Rightarrow> (int \<rightharpoonup> float64) \<Rightarrow> RuleMatch \<Rightarrow> Strategy \<Rightarrow> MarketEvent \<Rightarrow> MarketDataResult option \<Rightarrow> match_result" where
  "build_order env cache match s event md =
     (let stock = sdStockCode (evStockData event);
          tickSize = resolve_tick md cache stock
      in if rMaxAmountPerStock (stRiskLimits s) = 0 \<and> tQuantity (stTradeConfig s) \<le> 0
         then MatchFailed (ErrText ''invalid quantity'')
         else if tickSize \<le> 0 then MatchFailed (ErrText ''tick_size not available'')
         else case md of None \<Rightarrow> MatchFailed (ErrText ''no market data available'')
         | Some d \<Rightarrow>
             if rdLTP d \<le> 0 then MatchFailed (ErrText ''no price available'')
             else if 0 < kMaxPctChange (stConditions s) \<and> kMaxPctChange (stConditions s) \<le> \<bar>rdPercentChange d\<bar>
             then Skipped
             else let eventClose = mpPrevClose (mdPriceMap (evMarketData event));
                      prevClose = (if eventClose \<le> 0 then rdPrevClose d else eventClose);
                      o1 = NewOrderRequest (seUUID env (stStrategyID s)) (seNow env) match event s
                  in case route_order match s d prevClose tickSize o1 of
                       Inl e \<Rightarrow> MatchFailed (ErrText e)
                     | Inr (o2, sizingPrice) \<Rightarrow>
                         (case size_order s sizingPrice o2 of None \<Rightarrow> Skipped
                          | Some o3 \<Rightarrow>
                              (case ValidateOrderRequest o3 of Some e \<Rightarrow> MatchFailed e
                               | None \<Rightarrow> Published (o3\<lparr>oqRiskApproved := True, oqRiskScore := 0\<rparr>))))"

text \<open>The gates before, in the order of the code; \<open>None\<close> lets the match through.\<close>

definition match_gates :: "sig_env \<Rightarrow> Handler \<Rightarrow> Strategy \<Rightarrow> MarketEvent \<Rightarrow> match_result option" where
  "match_gates env h s event =
     (if \<not> isWithinTradeWindow (seNow env) (tTradeWindowStart (stTradeConfig s)) (tTradeWindowEnd (stTradeConfig s))
      then Some Skipped
      else case hSignals h of None \<Rightarrow> Some MatchPanics
      | Some rows \<Rightarrow>
          if seQueryFails env \<or>
             HasSignalToday (seNow env) rows (stStrategyID s) (sdStockCode (evStockData event)) (stUpdatedAt s)
          then Some Skipped
          else if cap_reached env rows s then Some Skipped else None)"

definition publish_order :: "sig_env \<Rightarrow> OrderRequest \<Rightarrow> Handler \<Rightarrow> Handler" where
  "publish_order env o1 h =
     (let h1 = (if seSaveFails env then h else h\<lparr>hSignals := map_option (SaveTradeSignal o1) (hSignals h)\<rparr>);
          h2 = (if seHasKafka env \<and> \<not> sePublishFails env then h1\<lparr>hPublished := hPublished h1 @ [o1]\<rparr> else h1)
      in h2\<lparr>hStats := (hStats h2)\<lparr>msOrdersGenerated := msOrdersGenerated (hStats h2) + 1\<rparr>\<rparr>)"

definition processMatch ::
  "sig_env \<Rightarrow> RuleMatch \<Rightarrow> MarketEvent \<Rightarrow> MarketDataResult option \<Rightarrow> Handler \<Rightarrow> Handler \<times> match_result" where
  "processMatch env match event md h =
     (case rmStrategy match of None \<Rightarrow> (h, MatchFailed (ErrText ''strategy is nil in match''))
      | Some s \<Rightarrow>
          (case match_gates env h s event of Some r \<Rightarrow> (h, r)
           | None \<Rightarrow>
               (case build_order env (hTickCache h) match s event md of
                  Published o1 \<Rightarrow> (publish_order env o1 h, Published o1)
                | r \<Rightarrow> (h, r))))"

section \<open>One event\<close>

text \<open>The loop over the matches: failures are logged, a panic ends the process.\<close>

fun process_matches ::
  "sig_env \<Rightarrow> MarketEvent \<Rightarrow> MarketDataResult option \<Rightarrow> RuleMatch list \<Rightarrow> Handler \<Rightarrow> Handler \<times> bool" where
  "process_matches env event md [] h = (h, False)"
| "process_matches env event md (m # ms) h =
     (case processMatch env m event md h of
        (h1, MatchPanics) \<Rightarrow> (h1, True)
      | (h1, _) \<Rightarrow> process_matches env event md ms h1)"

datatype handle_result = Handled | HandleError re_error | HandlePanics | HandleHangs

definition record_matches :: "MarketEvent \<Rightarrow> RuleMatch list \<Rightarrow> MatchingStats \<Rightarrow> MatchingStats" where
  "record_matches event ms stats =
     foldl (\<lambda>st m. RecordStockMatch (sdStockCode (evStockData event)) (sdSymbol (evStockData event))
                     (RecordStrategyMatch (rmStrategyID m) (rmStrategyName m) st))
       (stats\<lparr>msMatchesFound := msMatchesFound stats + 1\<rparr>) ms"

definition handle_matches ::
  "sig_env \<Rightarrow> MarketEvent \<Rightarrow> string + MarketDataResult \<Rightarrow> RuleMatch list \<Rightarrow> Handler \<Rightarrow> Handler \<times> handle_result" where
  "handle_matches env event md ms h =
     (if ms = [] then (h, Handled)
      else case md of
        Inl e \<Rightarrow> if mdLastTradedPrice (evMarketData event) \<le> 0
                 then (h, HandleError (ErrText (''no market data available: '' @ e)))
                 else (case process_matches env event None ms (h\<lparr>hStats := record_matches event ms (hStats h)\<rparr>) of
                         (h1, True) \<Rightarrow> (h1, HandlePanics) | (h1, False) \<Rightarrow> (h1, Handled))
      | Inr d \<Rightarrow> (case process_matches env event (Some d) ms (h\<lparr>hStats := record_matches event ms (hStats h)\<rparr>) of
                   (h1, True) \<Rightarrow> (h1, HandlePanics) | (h1, False) \<Rightarrow> (h1, Handled)))"

definition HandleEvent :: "sig_env \<Rightarrow> MarketEvent \<Rightarrow> Handler \<Rightarrow> Handler \<times> handle_result" where
  "HandleEvent env event h =
     (let h1 = h\<lparr>hStats := (hStats h)\<lparr>msEventsProcessed := msEventsProcessed (hStats h) + 1\<rparr>\<rparr>
      in if (case hHolidays h1 of None \<Rightarrow> False | Some hs \<Rightarrow> IsTodayHoliday hs (seNow env)) then (h1, Handled)
         else if hEnforceHours h1 \<and> \<not> IsMarketOpenAt (hMarketHours h1) (seNow env) then (h1, Handled)
         else case EvaluateEvent (seEval env) event (hEngine h1) of
           (en, outcome) \<Rightarrow>
             (let md = getMarketDataFromRedis (seRedis env) (evStockData event);
                  h2 = (case md of Inl _ \<Rightarrow> h1\<lparr>hEngine := en\<rparr>
                        | Inr d \<Rightarrow> h1\<lparr>hEngine := en, hTickCache := (hTickCache h1)
                                     (sdStockCode (evStockData event) \<mapsto> rdTickSize d)\<rparr>)
              in case outcome of
                   Hangs \<Rightarrow> (h2, HandleHangs)
                 | EvalError e \<Rightarrow> (h2\<lparr>hStats := (hStats h2)\<lparr>msEvaluationErrors := msEvaluationErrors (hStats h2) + 1\<rparr>\<rparr>,
                                  HandleError e)
                 | Matches ms \<Rightarrow> handle_matches env event md ms h2))"

section \<open>The consumer of news\<close>

definition maxHandlerRetries :: nat where
  "maxHandlerRetries = 3"

text \<open>Up to three attempts, each with its own surroundings; then the message is committed.\<close>

fun handle_attempts :: "sig_env list \<Rightarrow> MarketEvent \<Rightarrow> Handler \<Rightarrow> Handler \<times> handle_result" where
  "handle_attempts [] event h = (h, Handled)"
| "handle_attempts (env # envs) event h =
     (case HandleEvent env event h of
        (h1, HandleError e) \<Rightarrow> if envs = [] then (h1, HandleError e) else handle_attempts envs event h1
      | r \<Rightarrow> r)"

definition consume_news :: "sig_env list \<Rightarrow> MarketEvent \<Rightarrow> Handler \<Rightarrow> Handler \<times> handle_result" where
  "consume_news envs event h =
     (case ValidateEvent event of (_, Some e) \<Rightarrow> (h, HandleError e)
      | (ev, None) \<Rightarrow> handle_attempts (take maxHandlerRetries envs) ev h)"

end
