(* ===== verification/ReEngineProps.thy ===== *)
theory ReEngineProps
  imports ReEngine
begin

text \<open>
  The properties of the hot path: an event is matched with exactly the active strategies it
  fulfils, whatever the workers' order, and a repeated event within the window is dropped;
  then what shutting down and the eviction of the deduplication do to that.
\<close>

section \<open>Evaluating an event\<close>

lemma strategy_matches_type [simp]: "strategy_matches s (ev\<lparr>evEventType := x\<rparr>) = strategy_matches s ev"
  by (simp add: strategy_matches_def impact_ok_def price_ok_def below_max_def Let_def)

lemma pct_class_type [simp]: "pct_class s (ev\<lparr>evEventType := x\<rparr>) = pct_class s ev"
  by (simp add: pct_class_def below_max_def Let_def)

lemma ValidateEvent_None:
  assumes "snd (ValidateEvent event) = None"
  obtains ev where "ValidateEvent event = (ev, None)" "0 \<le> aImpactScore (evAnalysis ev)"
    "evEventID ev = evEventID event" "ev = event \<or> ev = event\<lparr>evEventType := ''news''\<rparr>"
  using assms by (auto simp: ValidateEvent_def Let_def split: if_splits)

lemma evaluateOne_Some:
  assumes "0 \<le> aImpactScore (evAnalysis ev)" "evaluateOne order ev (Some s) = Some m"
  shows "rmStrategy m = Some s \<and> rmStrategyID m = stStrategyID s \<and> rmUserID m = stUserID s \<and>
    rmEventID m = evEventID ev \<and> rmPctChangeStatus m = pct_class s ev \<and> rmFailedConditions m = [] \<and>
    0 \<le> rmMatchScore m \<and> rmMatchScore m \<le> 100"
proof -
  let ?r = "Evaluate ev s"
  have full: "IsFullMatch ?r" and m: "m = \<lparr>rmUserID = stUserID s, rmStrategyID = stStrategyID s,
      rmStrategyName = stStrategyName s, rmStrategy = Some s,
      rmMatchScore = CalculateScore NewScorer order (Some ?r), rmMatchedConditions = erMatched ?r,
      rmFailedConditions = erFailed ?r, rmApprovedByRisk = False, rmEventID = evEventID ev,
      rmPctChangeStatus = erPctChangeStatus ?r\<rparr>"
    using assms(2) by (simp_all add: evaluateOne_def Let_def split: if_splits)
  have "erPctChangeStatus ?r = pct_class s ev" by (rule Evaluate_status)
  then show ?thesis
    using CalculateScore_range [OF scores_Evaluate [OF assms(1)] full, of order] full
    by (simp add: m IsFullMatch_def)
qed

lemma evaluateOne_iff:
  "evaluateOne order ev (Some s) \<noteq> None \<longleftrightarrow> stActive s \<and> ValidateStrategy s = None \<and> strategy_matches s ev"
  by (simp add: evaluateOne_def Let_def Evaluate_full)

lemma map_filter_strategies:
  assumes "\<And>s m. s \<in> set ss \<Longrightarrow> f s = Some m \<Longrightarrow> g m = Some s"
  shows "map g (List.map_filter (\<lambda>m. m) (map f ss)) = map Some (filter (\<lambda>s. f s \<noteq> None) ss)"
  using assms by (induction ss) (auto simp: List.map_filter_def)

text \<open>
  C33. The matches of an event. On a store reached by any start-ups and messages, a valid
  event that is not a duplicate is matched with exactly the active strategies that are valid
  and whose conditions it fulfils, in the order of the published list, each once, whatever
  order the workers finish in. Every match carries the classification of the percent change,
  no failed condition and a score between 0 and 100.
\<close>

theorem event_matched_exactly:
  assumes "enStore en = config_after ops" "snd (ValidateEvent event) = None"
    "snd (AllowID (enDedup en) (eeNow env) (eePurge env) (evEventID event))"
    "\<forall>i. eeTurn env i = TurnSubmitted" "{..<length (snAllActive (csSnap (enStore en)))} \<subseteq> set (eeSchedule env)"
  shows "\<exists>ms. snd (EvaluateEvent env event en) = Matches ms \<and>
    map rmStrategy ms = map Some (filter (\<lambda>s. ValidateStrategy s = None \<and> strategy_matches s event)
      (snAllActive (csSnap (enStore en)))) \<and>
    (\<forall>m\<in>set ms. \<exists>s. rmStrategy m = Some s \<and> active_in (enStore en) (rmUserID m) (rmStrategyID m) s \<and>
       rmEventID m = evEventID event \<and> rmPctChangeStatus m = pct_class s event \<and>
       rmFailedConditions m = [] \<and> 0 \<le> rmMatchScore m \<and> rmMatchScore m \<le> 100)"
proof -
  let ?ss = "snAllActive (csSnap (enStore en))"
  obtain ev where ev: "ValidateEvent event = (ev, None)" "0 \<le> aImpactScore (evAnalysis ev)"
    "evEventID ev = evEventID event" "ev = event \<or> ev = event\<lparr>evEventType := ''news''\<rparr>"
    using ValidateEvent_None [OF assms(2)] .
  have same: "strategy_matches s ev = strategy_matches s event" "pct_class s ev = pct_class s event" for s
    using ev(4) by auto
  let ?f = "\<lambda>s. evaluateOne (eeScoreOrder env) ev (Some s)"
  let ?ms = "List.map_filter (\<lambda>m. m) (map ?f ?ss)"
  obtain d where d: "AllowID (enDedup en) (eeNow env) (eePurge env) (evEventID ev) = (d, True)"
    using assms(3) ev(3) by (metis eq_snd_iff)
  have matches: "snd (EvaluateEvent env event en) = Matches ?ms"
    using assms(4) by (simp add: EvaluateEvent_def ev(1) d Let_def submit_all run_jobs_any_order [OF assms(5)]
        List.map_filter_simps)
  have con: "snapshot_consistent (enStore en)"
    unfolding assms(1) by (rule store_ok_consistent [OF config_after_ok])
  have act: "stActive s" if "s \<in> set ?ss" for s
    using con that by (simp add: snapshot_consistent_def list_all_iff)
  have strategies: "map rmStrategy ?ms = map Some (filter (\<lambda>s. ?f s \<noteq> None) ?ss)"
    by (rule map_filter_strategies) (use evaluateOne_Some [OF ev(2)] in blast)
  have filtered: "filter (\<lambda>s. ?f s \<noteq> None) ?ss = filter (\<lambda>s. ValidateStrategy s = None \<and> strategy_matches s event) ?ss"
    by (rule filter_cong) (simp_all add: evaluateOne_iff act same del: not_None_eq)
  have each: "\<exists>s. rmStrategy m = Some s \<and> active_in (enStore en) (rmUserID m) (rmStrategyID m) s \<and>
       rmEventID m = evEventID event \<and> rmPctChangeStatus m = pct_class s event \<and>
       rmFailedConditions m = [] \<and> 0 \<le> rmMatchScore m \<and> rmMatchScore m \<le> 100" if "m \<in> set ?ms" for m
  proof -
    from that obtain s where s: "s \<in> set ?ss" "?f s = Some m" by (auto simp: List.map_filter_def)
    then have "active_in (enStore en) (stUserID s) (stStrategyID s) s"
      using con unfolding snapshot_consistent_def by blast
    with evaluateOne_Some [OF ev(2) s(2)] ev(3) show ?thesis by (simp add: same)
  qed
  show ?thesis using matches strategies [unfolded filtered] each by blast
qed

definition demo_event :: MarketEvent where
  "demo_event =
     \<lparr>evEventID = ''e1'', evEventType = [],
      evStockData = \<lparr>sdStockCode = 2885, sdNSECode = 2885, sdBSECode = 0, sdExchange = ''NSE'',
        sdSymbol = ''RELIANCE'', sdISIN = [], sdCompanyName = [], sdMCap = 0, sdMCapType = ''Large''\<rparr>,
      evNewsData = \<lparr>nNewsID = [], nNewsLink = [], nCategory = ''Results'', nShortSummary = []\<rparr>,
      evAnalysis = \<lparr>aSentiment = ''Positive'', aImpact = [], aImpactScore = 7\<rparr>,
      evMarketData = \<lparr>mdLastTradedPrice = 100, mdPctChange = - 2, mdNewsFirstPrice = 0, mdNewsPctChange = 0,
        mdPriceMap = \<lparr>mpOpen = 0, mpHigh = 0, mpLow = 0, mpVolume = 0, mpPrevClose = 98\<rparr>\<rparr>\<rparr>"

definition demo_ops :: "config_op list" where
  "demo_ops = [Consume (Some (upsert_event 1))]"

definition demo_engine :: Engine where
  "demo_engine = NewEngine (config_after demo_ops) 0 0"

definition demo_eval_env :: eval_env where
  "demo_eval_env = \<lparr>eeNow = 1000, eePurge = [], eeScoreOrder = [''exchange'', ''impact_score''],
     eeTurn = (\<lambda>_. TurnSubmitted), eeSchedule = [0]\<rparr>"

lemma demo_engine_strategies:
  "map stStrategyID (filter (\<lambda>s. ValidateStrategy s = None \<and> strategy_matches s demo_event)
     (snAllActive (csSnap (enStore demo_engine)))) = [''s1'']"
  "length (snAllActive (csSnap (enStore demo_engine))) = 1"
  by code_simp+

theorem event_matched_exactly_witness:
  "\<exists>ms. snd (EvaluateEvent demo_eval_env demo_event demo_engine) = Matches ms \<and>
     map (map_option stStrategyID \<circ> rmStrategy) ms = [Some ''s1'']"
proof -
  let ?sel = "filter (\<lambda>s. ValidateStrategy s = None \<and> strategy_matches s demo_event)
     (snAllActive (csSnap (enStore demo_engine)))"
  have "snd (ValidateEvent demo_event) = None"
    "snd (AllowID (enDedup demo_engine) (eeNow demo_eval_env) (eePurge demo_eval_env) (evEventID demo_event))"
    by code_simp+
  from event_matched_exactly [OF _ this, where ops = demo_ops]
  obtain ms where ms: "snd (EvaluateEvent demo_eval_env demo_event demo_engine) = Matches ms"
    "map rmStrategy ms = map Some ?sel"
    unfolding demo_engine_strategies(2) by (auto simp: demo_engine_def NewEngine_def demo_eval_env_def)
  from arg_cong [OF ms(2), of "map (map_option stStrategyID)"]
  have "map (map_option stStrategyID \<circ> rmStrategy) ms = map Some (map stStrategyID ?sel)" by simp
  with ms(1) show ?thesis unfolding demo_engine_strategies by auto
qed

section \<open>Deduplication\<close>

text \<open>While the table is within its bound, an identifier seen inside the window is refused.\<close>

lemma duplicate_refused:
  assumes "map_of (dItems d) i = Some t" "now - dWindow d < t" "int (length (dItems d)) \<le> dMaxEntries d" "i \<noteq> []"
  shows "AllowID d now order i = (d, False)"
  using assms by (simp add: AllowID_def evict_def)

text \<open>An identifier that was let through is in the table with the time it came.\<close>

lemma allowed_recorded:
  assumes "AllowID d now order i = (d', True)" "i \<noteq> []"
  shows "map_of (dItems d') i = Some now"
  using assms by (auto simp: AllowID_def Let_def update_conv' split: if_splits)

text \<open>The table never outgrows its bound by more than one entry.\<close>

lemma length_update_le: "length (AList.update k v xs) \<le> Suc (length xs)"
  by (induction xs) auto

lemma length_delete_key: "distinct (map fst xs) \<Longrightarrow> k \<in> fst ` set xs \<Longrightarrow> Suc (length (AList.delete k xs)) = length xs"
proof (induction xs)
  case (Cons x xs)
  then show ?case by (cases "fst x = k") (auto simp: delete_id)
qed simp

lemma purge_small:
  assumes "int (length items) \<le> n + 1" "distinct (map fst items)" "0 \<le> n"
    "items \<noteq> [] \<Longrightarrow> ks \<noteq> [] \<and> hd ks \<in> fst ` set items"
  shows "int (length (purge n ks items)) \<le> n"
proof (cases "items = []")
  case True
  have "purge n ks [] = []" by (cases ks) (simp_all add: \<open>0 \<le> n\<close>)
  with True \<open>0 \<le> n\<close> show ?thesis by simp
next
  case False
  then obtain k ks' where ks: "ks = k # ks'" "k \<in> fst ` set items" using assms(4) by (cases ks) auto
  then have "int (length (AList.delete k items)) \<le> n"
    using length_delete_key [OF assms(2), of k] assms(1) by simp
  then show ?thesis by (simp add: ks(1))
qed

text \<open>The entries that survive the removal of the expired ones.\<close>

definition live_items :: "Deduper \<Rightarrow> int \<Rightarrow> (string \<times> int) list" where
  "live_items d now = filter (\<lambda>(_, t). \<not> t < now - dWindow d) (dItems d)"

text \<open>
  The deduplication table. Keys are distinct and there is at most one entry beyond the
  configured bound: every call keeps this, whatever identifier comes at whatever time, when
  the iteration order starts with a key that is left after the expired ones were removed.
\<close>

theorem dedup_table_bounded:
  assumes "distinct (map fst (dItems d))" "int (length (dItems d)) \<le> dMaxEntries d + 1" "0 \<le> dMaxEntries d"
    "live_items d now \<noteq> [] \<Longrightarrow> order \<noteq> [] \<and> hd order \<in> fst ` set (live_items d now)"
  shows "distinct (map fst (dItems (fst (AllowID d now order i)))) \<and>
    int (length (dItems (fst (AllowID d now order i)))) \<le> dMaxEntries d + 1"
proof -
  let ?e = "evict d (now - dWindow d) order"
  have dl: "distinct (map fst (live_items d now))"
    using assms(1) by (simp add: live_items_def distinct_map_filter)
  have dp: "distinct (map fst (purge n ks items))" if "distinct (map fst items)" for n ks items
    using that by (induction n ks items rule: purge.induct) (auto simp: Let_def distinct_delete)
  have "length (live_items d now) \<le> length (dItems d)" by (simp add: live_items_def)
  then have "int (length (purge (dMaxEntries d) order (live_items d now))) \<le> dMaxEntries d"
    using assms(2-4) dl by (intro purge_small) auto
  then have "distinct (map fst ?e) \<and> int (length ?e) \<le> dMaxEntries d"
    using assms(1) dp [OF dl] by (simp add: evict_def live_items_def)
  then show ?thesis
    using assms(1,2) length_update_le [of i now ?e]
    by (auto simp: AllowID_def Let_def distinct_update)
qed

theorem dedup_table_bounded_witness:
  "length (dItems (fst (AllowID \<lparr>dWindow = 10, dMaxEntries = 1, dItems = [(''a'', 0), (''b'', 95)]\<rparr> 100 [''b''] ''c''))) \<le> 2"
  using dedup_table_bounded [of "\<lparr>dWindow = 10, dMaxEntries = 1, dItems = [(''a'', 0), (''b'', 95)]\<rparr>" 100 "[''b'']" "''c''"]
  by (simp add: live_items_def)

section \<open>Findings\<close>

text \<open>
  The comment before the second eviction loop says it runs when the table is still too large;
  the code always deletes at least one entry. Here two of three entries were expired, one of
  two allowed is left, and it is deleted: its event is let through a second time.
\<close>

lemma purge_forgets_fresh_id:
  "map (\<lambda>now. snd (AllowID \<lparr>dWindow = 10, dMaxEntries = 2, dItems = [(''a'', 0), (''b'', 1), (''c'', 95)]\<rparr> now [''c''] ''c''))
     [100] = [True]"
  by code_simp

text \<open>
  A submission that passed the check of the closed flag before a shutdown and sends after it
  reports success, but its job is neither queued nor counted; the evaluation that submitted it
  waits for ever. The comment promises an error.
\<close>

lemma submission_lost_on_shutdown:
  assumes "\<not> wpClosed wp" "wpJobs wp = []"
  shows "submit_send j (ShutdownPool (fst (submit_check wp))) =
    (ShutdownPool wp, Submitted)" "wpJobs (ShutdownPool wp) = []"
  using assms by (simp_all add: submit_send_def ShutdownPool_def submit_check_def)

lemma lost_submission_hangs:
  assumes "snAllActive (csSnap (enStore en)) \<noteq> []" "ValidateEvent event = (ev, None)"
    "snd (AllowID (enDedup en) (eeNow env) (eePurge env) (evEventID ev))" "eeTurn env = (\<lambda>_. TurnLost)"
  shows "snd (EvaluateEvent env event en) = Hangs"
proof -
  have "submit_loop (\<lambda>_. TurnLost) i (Suc n) lost = (None, True)" for i n lost
    by (induction n arbitrary: i lost) simp_all
  moreover obtain n where "length (snAllActive (csSnap (enStore en))) = Suc n"
    using assms(1) by (cases "snAllActive (csSnap (enStore en))") auto
  ultimately show ?thesis using assms
    by (auto simp: EvaluateEvent_def Let_def split: prod.split bool.split)
qed

end
