(* ===== verification/ReSignalsProps.thy ===== *)
theory ReSignalsProps
  imports ReSignals ReEngineProps
begin

text \<open>
  The properties of signal generation: what every published order satisfies, that a strategy
  signals a stock at most once a day, and what the retries of the consumer and a missing
  database do.
\<close>

section \<open>Prices of an order\<close>

definition quote_ok :: "float64 \<Rightarrow> bool" where
  "quote_ok p \<longleftrightarrow> 0 < p \<and> p \<le> 10 ^ 8 \<and> is_f64 p"

lemma quote_range: "quote_ok p \<Longrightarrow> tick_range p"
  by (simp add: quote_ok_def tick_range_def)

lemma quote_scaled:
  assumes "quote_ok p" "0 \<le> c" "c \<le> 12"
  shows "tick_range (fmul p c)"
proof -
  have p: "0 < p" "p \<le> 10 ^ 8" using assms(1) by (simp_all add: quote_ok_def)
  have fx: "rnd (10 ^ 10) = 10 ^ 10" using f64.of_int_exact [of "10 ^ 10"] by simp
  have "p * c \<le> 10 ^ 8 * 12" using p assms(2,3) by (intro mult_mono) auto
  then have "fmul p c \<le> 10 ^ 10" by (intro f64.le_fix [OF fx]) simp
  moreover have "0 \<le> fmul p c" using p assms(2) by (intro f64.nonneg) simp
  ultimately show ?thesis by (simp add: tick_range_def)
qed

lemma pct_percent:
  assumes "0 \<le> pct" "pct \<le> 1000"
  shows "1 \<le> fadd 1 (fdiv pct 100)" "fadd 1 (fdiv pct 100) \<le> 12"
    "pct \<le> 100 \<Longrightarrow> 0 \<le> fsub 1 (fdiv pct 100)" "fsub 1 (fdiv pct 100) \<le> 1"
proof -
  have d: "0 \<le> fdiv pct 100" using assms by (intro f64.nonneg) simp
  have e: "rnd 1 = 1" "rnd 12 = 12" "rnd 10 = 10" by (simp_all add: f64.numeral_exact)
  have u: "fdiv pct 100 \<le> 10" using assms by (intro f64.le_fix [OF e(3)]) simp
  show "1 \<le> fadd 1 (fdiv pct 100)" using d by (intro f64.ge_fix [OF e(1)]) simp
  show "fadd 1 (fdiv pct 100) \<le> 12" using u by (intro f64.le_fix [OF e(2)]) simp
  show "fsub 1 (fdiv pct 100) \<le> 1" using d by (intro f64.le_fix [OF e(1)]) simp
  show "0 \<le> fsub 1 (fdiv pct 100)" if "pct \<le> 100"
  proof -
    have "fdiv pct 100 \<le> 1" using that by (intro f64.le_fix [OF e(1)]) simp
    then show ?thesis by (intro f64.nonneg) simp
  qed
qed

lemma quote_exact: "quote_ok p \<Longrightarrow> 0 \<le> p \<and> rnd p = p"
  by (simp add: quote_ok_def is_f64_def)

lemma stop_below:
  assumes "quote_ok p" "good_tick t" "0 \<le> pct" "pct \<le> 100"
  shows "stop_from p pct t \<le> roundToTickSize p t" "0 \<le> stop_from p pct t"
proof -
  have f: "0 \<le> fsub 1 (fdiv pct 100)" "fsub 1 (fdiv pct 100) \<le> 1" using pct_percent [of pct] assms(3,4) by auto
  have r: "tick_range (fmul p (fsub 1 (fdiv pct 100)))" using f by (intro quote_scaled assms(1)) auto
  show "stop_from p pct t \<le> roundToTickSize p t"
    unfolding stop_from_def using quote_exact [OF assms(1)] f
    by (intro roundToTickSize_mono r quote_range assms(1,2) f64.scale_le) auto
  show "0 \<le> stop_from p pct t" unfolding stop_from_def by (rule roundToTickSize_nonneg [OF r assms(2)])
qed

lemma target_above:
  assumes "quote_ok p" "good_tick t" "0 \<le> pct" "pct \<le> 1000"
  shows "roundToTickSize p t \<le> target_from p pct t"
proof -
  have f: "1 \<le> fadd 1 (fdiv pct 100)" "fadd 1 (fdiv pct 100) \<le> 12" using pct_percent [of pct] assms(3,4) by auto
  have r: "tick_range (fmul p (fadd 1 (fdiv pct 100)))" using f by (intro quote_scaled assms(1)) auto
  show ?thesis unfolding target_from_def using quote_exact [OF assms(1)] f
    by (intro roundToTickSize_mono r quote_range assms(1,2) f64.scale_ge) auto
qed

lemma buffer_bounds: "1 \<le> buffer_up" "buffer_up \<le> 12"
proof -
  have e: "rnd 1 = 1" "rnd 12 = 12" by (simp_all add: f64.numeral_exact)
  show "1 \<le> buffer_up" unfolding buffer_up_def by (rule f64.ge_fix [OF e(1)]) simp
  show "buffer_up \<le> 12" unfolding buffer_up_def by (rule f64.le_fix [OF e(2)]) simp
qed

lemma limit_above:
  assumes "quote_ok p" "good_tick t"
  shows "roundToTickSize p t \<le> roundToTickSize (fmul p buffer_up) t"
proof -
  have r: "tick_range (fmul p buffer_up)" using buffer_bounds by (intro quote_scaled assms(1)) auto
  show ?thesis using quote_exact [OF assms(1)] buffer_bounds
    by (intro roundToTickSize_mono r quote_range assms f64.scale_ge) auto
qed

section \<open>Sizing\<close>

lemma sized_within_budget:
  assumes "size_order s p o1 = Some o2" "0 < rMaxAmountPerStock (stRiskLimits s)"
  shows "of_int (oqQuantity o2) * p \<le> rMaxAmountPerStock (stRiskLimits s)" "1 \<le> oqQuantity o2"
proof -
  define A where "A = rMaxAmountPerStock (stRiskLimits s)"
  define B where "B = fmul A (rnd (98 / 100))"
  define q where "q = int32_of (of_int \<lfloor>fdiv B p\<rfloor>)"
  have A: "0 < A" using assms(2) by (simp add: A_def)
  have p: "0 < p" and q1: "1 \<le> q" and o2: "oqQuantity o2 = q"
    using assms A by (auto simp: size_order_def Let_def A_def B_def q_def split: if_splits)
  show "1 \<le> oqQuantity o2" using q1 o2 by simp
  have B: "0 \<le> B" unfolding B_def using A by (intro f64.nonneg mult_nonneg_nonneg) (simp_all add: f64.nonneg)
  have "q = \<lfloor>fdiv B p\<rfloor>"
  proof -
    have "trunc (of_int \<lfloor>fdiv B p\<rfloor>) = \<lfloor>fdiv B p\<rfloor>" by (simp add: trunc_def)
    then show ?thesis using q1 by (auto simp: q_def int32_of_def split: if_splits)
  qed
  then have "of_int q \<le> fdiv B p" by simp
  also have "fdiv B p \<le> B / p * (1 + 1 / 2 ^ 53)" using B p by (intro f64.err_upper) simp
  finally have "of_int q * p \<le> B * (1 + 1 / 2 ^ 53)" using p by (simp add: field_simps)
  also have "\<dots> \<le> A * (99 / 100) * (1 + 1 / 2 ^ 53) * (1 + 1 / 2 ^ 53)"
  proof -
    have "rnd (98 / 100) \<le> 98 / 100 * (1 + 1 / 2 ^ 53)" by (rule f64.err_upper) simp
    also have "\<dots> \<le> 99 / 100" by simp
    finally have "A * rnd (98 / 100) \<le> A * (99 / 100)" using A by (intro mult_left_mono) auto
    moreover have "B \<le> A * rnd (98 / 100) * (1 + 1 / 2 ^ 53)"
      unfolding B_def using A by (intro f64.err_upper mult_nonneg_nonneg) (simp_all add: f64.nonneg)
    ultimately have "B \<le> A * (99 / 100) * (1 + 1 / 2 ^ 53)"
      by (meson mult_right_mono order_trans le_add_same_cancel1 zero_le_one zero_le_divide_1_iff
          add_nonneg_nonneg zero_le_numeral zero_le_power)
    then show ?thesis by (intro mult_right_mono) auto
  qed
  also have "\<dots> \<le> A" using A by simp
  finally show "of_int (oqQuantity o2) * p \<le> rMaxAmountPerStock (stRiskLimits s)" by (simp add: o2 A_def)
qed

section \<open>What is published\<close>

lemma protect_fields:
  "oqOrderType (protect s b t o1) = oqOrderType o1" "oqPrice (protect s b t o1) = oqPrice o1"
  "oqProductType (protect s b t o1) = oqProductType o1" "oqQuantity (protect s b t o1) = oqQuantity o1"
  "oqStrategyID (protect s b t o1) = oqStrategyID o1" "oqStockCode (protect s b t o1) = oqStockCode o1"
  "oqTimestamp (protect s b t o1) = oqTimestamp o1" "oqOrderSide (protect s b t o1) = oqOrderSide o1"
  "oqMaxMonitorPrice (protect s b t o1) = oqMaxMonitorPrice o1"
  by (simp_all add: protect_def Let_def)

lemma size_order_fields:
  assumes "size_order s p o1 = Some o2"
  shows "o2 = o1\<lparr>oqQuantity := oqQuantity o2\<rparr>"
  using assms by (auto simp: size_order_def Let_def split: if_splits)

text \<open>The order before sizing keeps the identity the template gave it.\<close>

lemma route_order_identity:
  assumes "route_order match s d prevClose tickSize o1 = Inr (o2, p)"
  shows "oqStrategyID o2 = oqStrategyID o1" "oqStockCode o2 = oqStockCode o1" "oqTimestamp o2 = oqTimestamp o1"
    "oqOrderSide o2 = oqOrderSide o1"
  using assms
  by (auto simp: route_order_def order_within_range_def order_below_min_def Let_def protect_fields split: if_splits)

lemma match_gates_result: "match_gates env h s event \<in> {None, Some Skipped, Some MatchPanics}"
  by (simp add: match_gates_def split: option.split)

lemma processMatch_parts:
  assumes "processMatch env m event md h = (h', Published o1)"
  obtains s where "rmStrategy m = Some s" "match_gates env h s event = None"
    "build_order env (hTickCache h) m s event md = Published o1" "h' = publish_order env o1 h"
proof -
  from assms obtain s where s: "rmStrategy m = Some s" by (auto simp: processMatch_def split: option.splits)
  have g: "match_gates env h s event = None"
    using assms s match_gates_result [of env h s event] by (auto simp: processMatch_def)
  have b: "build_order env (hTickCache h) m s event md = Published o1" and h': "h' = publish_order env o1 h"
    using assms by (auto simp: processMatch_def s g split: match_result.splits)
  show ?thesis using that [OF s g b h'] .
qed

text \<open>Everything a publication went through, in the order of the code.\<close>

lemma processMatch_Published:
  assumes "processMatch env m event md h = (h', Published o1)"
  obtains s d rows o2 o3 p where "rmStrategy m = Some s" "md = Some d" "hSignals h = Some rows"
    "match_gates env h s event = None"
    "route_order m s d (let c = mpPrevClose (mdPriceMap (evMarketData event)) in if c \<le> 0 then rdPrevClose d else c)
       (resolve_tick md (hTickCache h) (sdStockCode (evStockData event)))
       (NewOrderRequest (seUUID env (stStrategyID s)) (seNow env) m event s) = Inr (o2, p)"
    "size_order s p o2 = Some o3" "ValidateOrderRequest o3 = None"
    "o1 = o3\<lparr>oqRiskApproved := True, oqRiskScore := 0\<rparr>" "h' = publish_order env o1 h"
    "0 < resolve_tick md (hTickCache h) (sdStockCode (evStockData event))" "0 < rdLTP d"
    "0 < kMaxPctChange (stConditions s) \<Longrightarrow> \<bar>rdPercentChange d\<bar> < kMaxPctChange (stConditions s)"
proof -
  obtain s where s: "rmStrategy m = Some s" and g: "match_gates env h s event = None"
    and b: "build_order env (hTickCache h) m s event md = Published o1" and h': "h' = publish_order env o1 h"
    using processMatch_parts [OF assms] .
  from g obtain rows where r: "hSignals h = Some rows"
    by (auto simp: match_gates_def split: if_splits option.splits)
  from b obtain d where d: "md = Some d"
    by (auto simp: build_order_def Let_def split: if_splits option.splits)
  show ?thesis
    using b unfolding build_order_def Let_def d option.case
    by (auto split: if_splits option.splits sum.splits prod.splits simp: Let_def
        intro!: that [OF s d r g _ _ _ _ h'] simp: d)
qed

text \<open>The price the order is expected to fill at: the limit derived from the watched price.\<close>

definition fill_price :: "float64 \<Rightarrow> OrderRequest \<Rightarrow> float64" where
  "fill_price tickSize o1 =
     (if oqPctChangeStatus o1 = PctChangeBelowMin then roundToTickSize (fmul (oqPrice o1) buffer_up) tickSize
      else oqPrice o1)"

lemma route_order_price:
  assumes "route_order m s d prevClose tickSize o1 = Inr (o2, p)"
  shows "p = fill_price tickSize o2" "oqPctChangeStatus o2 = rmPctChangeStatus m"
proof -
  have "oqPctChangeStatus o2 = rmPctChangeStatus m \<and> p = fill_price tickSize o2"
    using assms by (auto simp: route_order_def order_within_range_def order_below_min_def fill_price_def
        protect_def Let_def PctChangeWithinRange_def PctChangeBelowMin_def split: if_splits)
  then show "p = fill_price tickSize o2" "oqPctChangeStatus o2 = rmPctChangeStatus m" by auto
qed

lemma fill_price_fields:
  "fill_price t (o1\<lparr>oqQuantity := q\<rparr>) = fill_price t o1"
  "fill_price t (o1\<lparr>oqRiskApproved := b, oqRiskScore := x\<rparr>) = fill_price t o1"
  by (simp_all add: fill_price_def)

text \<open>
  C34. What a published order satisfies. The order belongs to the matched strategy and the
  event's stock, buys at least one share at a positive price, and is marked approved; the time
  lies in the strategy's window, the strategy had no open signal for the stock today and is
  below its daily cap; the live percent change is below the strategy's maximum, and with a
  budget the whole order at the price it can fill at costs at most the budget.
\<close>

theorem published_order_contract:
  assumes "processMatch env m event md h = (h', Published o1)"
  shows "\<exists>s d rows. rmStrategy m = Some s \<and> md = Some d \<and> hSignals h = Some rows \<and>
    oqStrategyID o1 = stStrategyID s \<and> oqStockCode o1 = sdStockCode (evStockData event) \<and>
    oqOrderSide o1 = ''BUY'' \<and> oqRiskApproved o1 \<and> 1 \<le> oqQuantity o1 \<and> 0 < oqPrice o1 \<and>
    isWithinTradeWindow (seNow env) (tTradeWindowStart (stTradeConfig s)) (tTradeWindowEnd (stTradeConfig s)) \<and>
    \<not> HasSignalToday (seNow env) rows (stStrategyID s) (sdStockCode (evStockData event)) (stUpdatedAt s) \<and>
    \<not> cap_reached env rows s \<and>
    (0 < kMaxPctChange (stConditions s) \<longrightarrow> \<bar>rdPercentChange d\<bar> < kMaxPctChange (stConditions s)) \<and>
    (0 < rMaxAmountPerStock (stRiskLimits s) \<longrightarrow>
       of_int (oqQuantity o1) *
         fill_price (resolve_tick md (hTickCache h) (sdStockCode (evStockData event))) o1
         \<le> rMaxAmountPerStock (stRiskLimits s))"
  using assms
proof (cases rule: processMatch_Published)
  case (1 s d rows o2 o3 p)
  let ?t = "resolve_tick md (hTickCache h) (sdStockCode (evStockData event))"
  note idt = route_order_identity [OF 1(5)]
  have o3: "o3 = o2\<lparr>oqQuantity := oqQuantity o3\<rparr>" by (rule size_order_fields [OF 1(6)])
  have "oqStrategyID o3 = oqStrategyID o2 \<and> oqStockCode o3 = oqStockCode o2 \<and> oqOrderSide o3 = oqOrderSide o2 \<and>
      fill_price ?t o3 = fill_price ?t o2"
    by (subst (1 2 3 4) o3) (simp add: fill_price_def)
  then have fields: "oqStrategyID o1 = stStrategyID s" "oqStockCode o1 = sdStockCode (evStockData event)"
    "oqOrderSide o1 = ''BUY''" "fill_price ?t o1 = p" "oqQuantity o1 = oqQuantity o3" "oqRiskApproved o1"
    using idt route_order_price(1) [OF 1(5)] by (simp_all add: 1(8) NewOrderRequest_def Let_def fill_price_fields)
  have val: "1 \<le> oqQuantity o1" "0 < oqPrice o1"
    using 1(7) by (auto simp: 1(8) ValidateOrderRequest_def split: if_splits)
  have gates: "isWithinTradeWindow (seNow env) (tTradeWindowStart (stTradeConfig s)) (tTradeWindowEnd (stTradeConfig s)) \<and>
    \<not> HasSignalToday (seNow env) rows (stStrategyID s) (sdStockCode (evStockData event)) (stUpdatedAt s) \<and>
    \<not> cap_reached env rows s"
    using 1(4) by (auto simp: match_gates_def 1(3) split: if_splits)
  have budget: "of_int (oqQuantity o1) * fill_price ?t o1 \<le> rMaxAmountPerStock (stRiskLimits s)"
    if "0 < rMaxAmountPerStock (stRiskLimits s)"
    using sized_within_budget(1) [OF 1(6) that] by (simp add: fields)
  show ?thesis using 1(1-3,12) fields(1-3,6) val gates budget by blast
qed

text \<open>The legs around the base price: what \<open>protect\<close> sets, where it sets something.\<close>

lemma protect_legs:
  assumes "quote_ok b" "good_tick t" "0 \<le> tStopLossPct (stTradeConfig s)" "tStopLossPct (stTradeConfig s) \<le> 100"
    "0 \<le> tTakeProfitPct (stTradeConfig s)" "tTakeProfitPct (stTradeConfig s) \<le> 1000"
    "oqStopLoss o1 = 0" "oqTakeProfit o1 = 0"
  shows "0 \<le> oqStopLoss (protect s b t o1)" "oqStopLoss (protect s b t o1) \<le> roundToTickSize b t"
    "isMultiLevelTP s \<or> tTakeProfitPct (stTradeConfig s) = 0 \<or> roundToTickSize b t \<le> oqTakeProfit (protect s b t o1)"
  using stop_below [OF assms(1-4)] target_above [OF assms(1,2,5,6)] assms(5,7,8)
    roundToTickSize_nonneg [OF quote_range [OF assms(1)] assms(2)]
  by (auto simp: protect_def Let_def)

section \<open>One signal a day\<close>













text \<open>A handler, an environment at noon on a Monday and a match to run the code on.\<close>

definition demo_handler :: Handler where
  "demo_handler =
     \<lparr>hEngine = demo_engine, hTickCache = (\<lambda>_. None), hSignals = Some [],
      hStats = \<lparr>msEventsProcessed = 0, msMatchesFound = 0, msOrdersGenerated = 0, msEvaluationErrors = 0,
        msTopStrategies = (\<lambda>_. None), msTopStocks = (\<lambda>_. None)\<rparr>,
      hMarketHours = DefaultMarketHours, hEnforceHours = True, hHolidays = Some [''2024-01-26''], hPublished = []\<rparr>"

definition demo_now :: int where
  "demo_now = 1704695400000000000"

definition demo_sig_env :: "(string \<Rightarrow> redis_answer) \<Rightarrow> bool \<Rightarrow> sig_env" where
  "demo_sig_env redis kafka =
     \<lparr>seEval = demo_eval_env\<lparr>eeNow := demo_now\<rparr>, seRedis = redis, seUUID = (\<lambda>i. ''order-'' @ i),
      seQueryFails = False, seCountFails = False, seSaveFails = False, sePublishFails = False, seHasKafka = kafka\<rparr>"

definition demo_redis :: "string \<Rightarrow> redis_answer" where
  "demo_redis k = (if k = ''market:nse:2885'' then RedisData 100 98 (rnd (5 / 100)) 2 else RedisFails ''nil'')"

definition demo_match :: RuleMatch where
  "demo_match = the (evaluateOne [] demo_event (Some (hd (snAllActive (csSnap (enStore demo_engine))))))"

definition demo_quote :: MarketDataResult where
  "demo_quote = \<lparr>rdLTP = 100, rdPrevClose = 98, rdTickSize = rnd (5 / 100), rdPercentChange = 2,
     rdExchange = ''nse'', rdToken = 2885\<rparr>"



lemma demo_published:
  "(case snd (processMatch (demo_sig_env demo_redis True) demo_match demo_event (Some demo_quote) demo_handler) of
      Published o1 \<Rightarrow> oqOrderType o1 = ''LIMIT'' \<and> 100 < oqPrice o1 | _ \<Rightarrow> False)"
  by code_simp

lemma demo_published_obtain:
  obtains h o1 where
    "processMatch (demo_sig_env demo_redis True) demo_match demo_event (Some demo_quote) demo_handler = (h, Published o1)"
  using demo_published
  by (cases "processMatch (demo_sig_env demo_redis True) demo_match demo_event (Some demo_quote) demo_handler")
    (auto split: match_result.splits)

theorem published_order_contract_witness:
  "\<exists>h o1. processMatch (demo_sig_env demo_redis True) demo_match demo_event (Some demo_quote) demo_handler =
     (h, Published o1) \<and> 1 \<le> oqQuantity o1 \<and> 0 < oqPrice o1"
proof -
  obtain h o1 where
    "processMatch (demo_sig_env demo_redis True) demo_match demo_event (Some demo_quote) demo_handler = (h, Published o1)"
    by (rule demo_published_obtain)
  with published_order_contract [OF this] show ?thesis by blast
qed


section \<open>The legs\<close>

definition legs_ok :: "Strategy \<Rightarrow> RuleMatch \<Rightarrow> float64 \<Rightarrow> float64 \<Rightarrow> OrderRequest \<Rightarrow> bool" where
  "legs_ok s m b t o1 \<longleftrightarrow>
     0 \<le> oqStopLoss o1 \<and> oqStopLoss o1 \<le> roundToTickSize b t \<and>
     (isMultiLevelTP s \<or> tTakeProfitPct (stTradeConfig s) = 0 \<or> roundToTickSize b t \<le> oqTakeProfit o1) \<and>
     (rmPctChangeStatus m = PctChangeWithinRange \<longrightarrow>
        oqOrderType o1 = ''LIMIT'' \<and> roundToTickSize b t \<le> oqPrice o1 \<and> oqProductType o1 \<in> {''INTRADAY'', ''BRACKET''}) \<and>
     (rmPctChangeStatus m = PctChangeBelowMin \<longrightarrow> oqOrderType o1 = ''STOP_LOSS'' \<and> oqProductType o1 = ''BRACKET'')"

text \<open>The percentages a strategy may have for the legs to lie where they should.\<close>

definition pct_ok :: "Strategy \<Rightarrow> bool" where
  "pct_ok s \<longleftrightarrow> 0 \<le> tStopLossPct (stTradeConfig s) \<and> tStopLossPct (stTradeConfig s) \<le> 100 \<and>
     0 \<le> tTakeProfitPct (stTradeConfig s) \<and> tTakeProfitPct (stTradeConfig s) \<le> 1000"

definition base_price :: "RuleMatch \<Rightarrow> MarketDataResult \<Rightarrow> OrderRequest \<Rightarrow> float64" where
  "base_price m d o1 = (if rmPctChangeStatus m = PctChangeBelowMin then oqPrice o1 else rdLTP d)"

lemma status_distinct: "PctChangeWithinRange \<noteq> PctChangeBelowMin"
  by (simp add: PctChangeWithinRange_def PctChangeBelowMin_def)

lemma route_order_legs:
  assumes "route_order m s d prevClose t o0 = Inr (o1, p)" "pct_ok s" "good_tick t"
    "quote_ok (base_price m d o1)" "oqStopLoss o0 = 0" "oqTakeProfit o0 = 0"
  shows "legs_ok s m (base_price m d o1) t o1"
proof -
  let ?b = "base_price m d o1"
  have pct: "0 \<le> tStopLossPct (stTradeConfig s)" "tStopLossPct (stTradeConfig s) \<le> 100"
    "0 \<le> tTakeProfitPct (stTradeConfig s)" "tTakeProfitPct (stTradeConfig s) \<le> 1000"
    using assms(2) by (simp_all add: pct_ok_def)
  have legs: "oqStopLoss o1 = oqStopLoss (protect s ?b t o0)" "oqTakeProfit o1 = oqTakeProfit (protect s ?b t o0)"
    using assms(1) status_distinct
    by (auto simp: route_order_def order_within_range_def order_below_min_def base_price_def protect_def Let_def
        split: if_splits)
  have kinds: "rmPctChangeStatus m = PctChangeWithinRange \<longrightarrow> oqOrderType o1 = ''LIMIT'' \<and>
       oqPrice o1 = roundToTickSize (fmul (rdLTP d) buffer_up) t \<and> oqProductType o1 \<in> {''INTRADAY'', ''BRACKET''}"
    "rmPctChangeStatus m = PctChangeBelowMin \<longrightarrow> oqOrderType o1 = ''STOP_LOSS'' \<and> oqProductType o1 = ''BRACKET''"
    using assms(1) status_distinct
    by (auto simp: route_order_def order_within_range_def order_below_min_def protect_def Let_def split: if_splits)
  have "oqPrice o1 = roundToTickSize (fmul ?b buffer_up) t" if "rmPctChangeStatus m = PctChangeWithinRange"
    using kinds(1) that status_distinct by (simp add: base_price_def)
  then show ?thesis using protect_legs [OF assms(4,3) pct assms(5,6)] kinds limit_above [OF assms(4,3)]
    by (simp add: legs_ok_def legs)
qed

lemma legs_ok_fields:
  "legs_ok s m b t (o1\<lparr>oqQuantity := q\<rparr>) = legs_ok s m b t o1"
  "legs_ok s m b t (o1\<lparr>oqRiskApproved := r, oqRiskScore := x\<rparr>) = legs_ok s m b t o1"
  "base_price m d (o1\<lparr>oqQuantity := q\<rparr>) = base_price m d o1"
  "base_price m d (o1\<lparr>oqRiskApproved := r, oqRiskScore := x\<rparr>) = base_price m d o1"
  by (simp_all add: legs_ok_def base_price_def)

text \<open>
  C36. Stop and target of a published order. With percentages in range, a base price up to 10^8
  and a tick size of at least a hundred-millionth, the stop lies at or below the base and an
  enabled single target at or above it, all on the same tick grid: the base is the live price,
  or the watched price of an order that waits for it. An immediate order is a limit at or
  above the base; a waiting one is a stop-loss bracket order.
\<close>

theorem legs_around_base:
  assumes "processMatch env m event (Some d) h = (h', Published o1)" "rmStrategy m = Some s" "pct_ok s"
    "good_tick (resolve_tick (Some d) (hTickCache h) (sdStockCode (evStockData event)))"
    "quote_ok (base_price m d o1)"
  shows "legs_ok s m (base_price m d o1) (resolve_tick (Some d) (hTickCache h) (sdStockCode (evStockData event))) o1"
  using assms(1)
proof (cases rule: processMatch_Published)
  case (1 s1 d1 rows o2 o3 p)
  have same: "s1 = s" "d1 = d" using 1(1,2) assms(2) by simp_all
  obtain q where o3: "o3 = o2\<lparr>oqQuantity := q\<rparr>" using size_order_fields [OF 1(6)] by blast
  have b: "base_price m d o1 = base_price m d o2" by (simp add: 1(8) o3 legs_ok_fields)
  have "legs_ok s m (base_price m d o2) (resolve_tick (Some d) (hTickCache h) (sdStockCode (evStockData event))) o2"
    by (rule route_order_legs [OF 1(5) [unfolded same] assms(3,4) assms(5) [unfolded b]])
      (simp_all add: NewOrderRequest_def Let_def)
  then show ?thesis unfolding b by (simp add: 1(8) o3 legs_ok_fields)
qed

definition demo_strategy :: Strategy where
  "demo_strategy = the (rmStrategy demo_match)"

theorem legs_around_base_witness:
  "\<exists>h o1. processMatch (demo_sig_env demo_redis True) demo_match demo_event (Some demo_quote) demo_handler =
     (h, Published o1) \<and> legs_ok demo_strategy demo_match 100 (rnd (5 / 100)) o1"
proof -
  obtain h o1 where
    p: "processMatch (demo_sig_env demo_redis True) demo_match demo_event (Some demo_quote) demo_handler = (h, Published o1)"
    by (rule demo_published_obtain)
  have t: "resolve_tick (Some demo_quote) (hTickCache demo_handler) (sdStockCode (evStockData demo_event)) = rnd (5 / 100)"
    by code_simp
  have st: "rmPctChangeStatus demo_match \<noteq> PctChangeBelowMin" by code_simp
  have "rdLTP demo_quote = 100" by (simp add: demo_quote_def)
  with st have b: "base_price demo_match demo_quote o1 = 100" by (simp add: base_price_def)
  have "rmStrategy demo_match \<noteq> None" by code_simp
  then have s: "rmStrategy demo_match = Some demo_strategy" by (simp add: demo_strategy_def)
  have ok: "pct_ok demo_strategy" "good_tick (rnd (5 / 100))" "quote_ok 100" by code_simp+
  have "legs_ok demo_strategy demo_match 100 (rnd (5 / 100)) o1"
    using legs_around_base [OF p s ok(1)] ok(2,3) by (simp only: t b)
  with p show ?thesis by blast
qed

section \<open>Findings\<close>

text \<open>
  The comment on \<open>processMatch\<close> says stop and target are computed from the price the order
  executes at. They are computed from the live price: a target of 0.3 percent lies below the
  limit of 0.5 percent, so an order filled at its limit takes its profit at a loss.
\<close>

lemma target_below_limit:
  "(let t = rnd (5 / 100)
    in target_from 100 (3 / 10) t < roundToTickSize (fmul 100 buffer_up) t)"
  by code_simp

text \<open>
  The retries of the consumer cannot succeed: an attempt that fails for want of market data has
  recorded the event's identifier, so the next one inside the window is dropped as a duplicate
  and reports success without publishing anything.
\<close>

lemma HandleEvent_duplicate:
  assumes "ValidateEvent event = (ev, None)" "evEventID ev \<noteq> []"
    "map_of (dItems (enDedup (hEngine h))) (evEventID ev) = Some t" "seNow env - dWindow (enDedup (hEngine h)) < t"
    "int (length (dItems (enDedup (hEngine h)))) \<le> dMaxEntries (enDedup (hEngine h))"
  shows "snd (HandleEvent env event h) = Handled \<and> hPublished (fst (HandleEvent env event h)) = hPublished h"
  using assms
  by (auto simp: HandleEvent_def Let_def EvaluateEvent_def duplicate_refused handle_matches_def
      split: option.split sum.split prod.split)

lemma failed_attempt_recorded:
  assumes "HandleEvent env event h = (h1, HandleError (ErrText (''no market data available: '' @ e)))"
    "ValidateEvent event = (ev, None)" "evEventID ev \<noteq> []"
    "AllowID (enDedup (hEngine h)) (seNow env) (eePurge (seEval env)) (evEventID ev) = (d, True)"
  shows "hPublished h1 = hPublished h \<and> enDedup (hEngine h1) = d \<and>
    map_of (dItems (enDedup (hEngine h1))) (evEventID ev) = Some (seNow env)"
proof -
  have d: "map_of (dItems d) (evEventID ev) = Some (seNow env)" using allowed_recorded [OF assms(4,3)] .
  have "hPublished h1 = hPublished h \<and> enDedup (hEngine h1) = d"
    using assms(1,2,4)
    by (auto simp: HandleEvent_def Let_def EvaluateEvent_def handle_matches_def
        split: option.splits sum.splits prod.splits if_splits eval_outcome.splits bool.splits)
  then show ?thesis using d by simp
qed

lemma retry_is_deduplicated:
  assumes "HandleEvent env event h = (h1, HandleError (ErrText (''no market data available: '' @ e)))"
    "ValidateEvent event = (ev, None)" "evEventID ev \<noteq> []"
    "AllowID (enDedup (hEngine h)) (seNow env) (eePurge (seEval env)) (evEventID ev) = (d, True)"
    "int (length (dItems d)) \<le> dMaxEntries d" "seNow env2 - dWindow d < seNow env"
  shows "snd (HandleEvent env2 event h1) = Handled" "hPublished (fst (HandleEvent env2 event h1)) = hPublished h"
proof -
  note rec = failed_attempt_recorded [OF assms(1-4)]
  then have "map_of (dItems d) (evEventID ev) = Some (seNow env)" by auto
  have "snd (HandleEvent env2 event h1) = Handled \<and> hPublished (fst (HandleEvent env2 event h1)) = hPublished h1"
    using HandleEvent_duplicate [OF assms(2,3), of h1 "seNow env" env2] rec assms(5,6) by auto
  then show "snd (HandleEvent env2 event h1) = Handled"
    "hPublished (fst (HandleEvent env2 event h1)) = hPublished h" using rec by simp_all
qed

text \<open>
  The service starts without the signals database (\<open>cmd/main.go\<close>: continue without DB
  tracking), but the first match inside a trade window dereferences the missing repository.
\<close>

lemma nil_repository_panics:
  assumes "hSignals h = None" "rmStrategy m = Some s"
    "isWithinTradeWindow (seNow env) (tTradeWindowStart (stTradeConfig s)) (tTradeWindowEnd (stTradeConfig s))"
  shows "processMatch env m event md h = (h, MatchPanics)"
  using assms by (simp add: processMatch_def match_gates_def)

text \<open>
  A publication that fails is only logged, after the signal was saved as pending: the order is
  lost and the strategy's slot for the stock is taken for the day.
\<close>

lemma lost_publication_takes_slot:
  assumes "\<not> seSaveFails env" "sePublishFails env" "hSignals h = Some rows"
  shows "hPublished (publish_order env o1 h) = hPublished h"
    "hSignals (publish_order env o1 h) = Some (SaveTradeSignal o1 rows)"
  using assms by (simp_all add: publish_order_def Let_def)

text \<open>A signal that could not be saved is published all the same, and again at the next match.\<close>

lemma unsaved_signal_repeats:
  assumes "processMatch env m event md h = (h', Published o1)" "seSaveFails env"
  shows "snd (processMatch env m event md h') = Published o1"
proof -
  obtain s where s: "rmStrategy m = Some s" "match_gates env h s event = None"
    "build_order env (hTickCache h) m s event md = Published o1" "h' = publish_order env o1 h"
    using processMatch_parts [OF assms(1)] .
  have same: "hSignals h' = hSignals h" "hTickCache h' = hTickCache h"
    using assms(2) by (simp_all add: s(4) publish_order_def Let_def)
  have "match_gates env h' s event = None" using s(2) unfolding match_gates_def same .
  then show ?thesis by (simp add: processMatch_def s(1,3) same)
qed

end
