(* ===== verification/PmMonitor.thy ===== *)
theory PmMonitor
  imports Models TickSize "HOL-Library.AList" "HOL-Library.Word"
begin

unbundle bit_operations_syntax

text \<open>
  The price monitor (\<open>scheduler/price_monitor.go\<close>): orders that wait for a price, indexed by
  stock in 32 shards, evaluated by workers and executed in goroutines. An entry is an address
  in \<open>pmEntries\<close>, since queued jobs and goroutines keep pointers to entries that are no longer
  watched. A goroutine, and a worker between the two atomic accesses of \<open>evaluateEntry\<close>, is a
  value of type \<open>pm_task\<close>; the calls to the database, the feed, Kafka and the executor are
  recorded in \<open>pmOut\<close>. Logging and the snapshot for the user interface are left out.
\<close>

section \<open>Sharding\<close>

definition shardCount :: nat where
  "shardCount = 32"

text \<open>FNV-1a on 32-bit words.\<close>

definition fnv1a :: "string \<Rightarrow> 32 word" where
  "fnv1a key = foldl (\<lambda>h c. (h XOR word_of_nat (of_char c)) * 16777619) 2166136261 key"

definition shardFor :: "string \<Rightarrow> nat" where
  "shardFor key = unat (fnv1a key) mod shardCount"

text \<open>The same on integers, for evaluation.\<close>

definition fnv_int :: "string \<Rightarrow> int" where
  "fnv_int key = foldl (\<lambda>h c. (h XOR of_char c) * 16777619 mod 4294967296) 2166136261 key"

lemma uint_fnv_step:
  fixes h :: "32 word"
  shows "uint ((h XOR word_of_nat (of_char c)) * 16777619) = (uint h XOR of_char c) * 16777619 mod 4294967296"
proof -
  have "(of_char c :: nat) < 2 ^ 32" using nat_of_char_less_256 [of c] by (simp del: nat_of_char_less_256)
  then have "take_bit 32 (of_char c :: nat) = of_char c" by (rule take_bit_nat_eq_self)
  then have "uint (word_of_nat (of_char c) :: 32 word) = of_char c"
    by (simp only: unsigned_of_nat len_num1 len_bit0 mult_1_right numeral_times_numeral) (simp add: of_nat_of_char)
  then show ?thesis by (simp add: uint_word_ariths unsigned_xor_eq)
qed

lemma uint_fnv: "uint (foldl (\<lambda>h c. (h XOR word_of_nat (of_char c)) * 16777619) (h :: 32 word) key) =
  foldl (\<lambda>h c. (h XOR of_char c) * 16777619 mod 4294967296) (uint h) key"
  by (induction key arbitrary: h) (simp_all only: foldl.simps uint_fnv_step)

lemma shardFor_code [code]: "shardFor key = nat (fnv_int key mod 32)"
proof -
  have "uint (fnv1a key) = fnv_int key" unfolding fnv1a_def fnv_int_def uint_fnv by simp
  then have "int (unat (fnv1a key)) = fnv_int key" by simp
  then have "int (shardFor key) = fnv_int key mod 32" by (simp add: shardFor_def shardCount_def zmod_int)
  then show ?thesis by simp
qed

definition stockKey :: "string \<Rightarrow> int \<Rightarrow> string" where
  "stockKey exchange token = to_lower exchange @ '':'' @ show_int token"

section \<open>State\<close>

record watchEntry =
  weOrder :: Order
  weTargetPrice :: float64
  weMaxPrice :: float64
  weTriggered :: int
  weTriggerAttempts :: int
  weStockKey :: string
  weOnAfterFill :: bool

record stockShard =
  shByOrder :: "(uuid \<times> nat) list"
  shByStock :: "(string \<times> nat list) list"

datatype pm_effect =
    PmSubscribe string
  | PmUnsubscribe "string list"
  | PmUpdateStatus uuid string
  | PmEvent uuid string
  | PmPublish uuid string
  | PmExecute nat float64 Order bool
  | PmAfterFill nat Order

datatype pm_task = PmEvaluate nat float64 | PmSkip nat float64 | PmTrigger nat float64 | PmPlace nat float64

record pm_state =
  pmEntries :: "watchEntry list"
  pmShards :: "nat \<Rightarrow> stockShard"
  pmEvalCh :: "(nat \<times> float64) list"
  pmTasks :: "pm_task list"
  pmDB :: "uuid \<Rightarrow> string option"
  pmHasWS :: bool
  pmHasRepo :: bool
  pmHasKafka :: bool
  pmOut :: "pm_effect list"

definition pm_evalBuf :: nat where
  "pm_evalBuf = 4096"

definition NewPriceMonitor :: "bool \<Rightarrow> bool \<Rightarrow> bool \<Rightarrow> (uuid \<Rightarrow> string option) \<Rightarrow> pm_state" where
  "NewPriceMonitor ws repo kafka db =
     \<lparr>pmEntries = [], pmShards = (\<lambda>_. \<lparr>shByOrder = [], shByStock = []\<rparr>), pmEvalCh = [], pmTasks = [],
      pmDB = db, pmHasWS = ws, pmHasRepo = repo, pmHasKafka = kafka, pmOut = []\<rparr>"

definition pm_emit :: "pm_effect \<Rightarrow> pm_state \<Rightarrow> pm_state" where
  "pm_emit e m = m\<lparr>pmOut := pmOut m @ [e]\<rparr>"

definition pm_spawn :: "pm_task \<Rightarrow> pm_state \<Rightarrow> pm_state" where
  "pm_spawn t m = m\<lparr>pmTasks := pmTasks m @ [t]\<rparr>"

definition set_entry :: "nat \<Rightarrow> watchEntry \<Rightarrow> pm_state \<Rightarrow> pm_state" where
  "set_entry a e m = m\<lparr>pmEntries := (pmEntries m)[a := e]\<rparr>"

definition pm_set_shard :: "nat \<Rightarrow> stockShard \<Rightarrow> pm_state \<Rightarrow> pm_state" where
  "pm_set_shard i sh m = m\<lparr>pmShards := (pmShards m)(i := sh)\<rparr>"

definition order_of :: "pm_state \<Rightarrow> nat \<Rightarrow> Order" where
  "order_of m a = weOrder (pmEntries m ! a)"

definition stock_token :: "Order \<Rightarrow> string" where
  "stock_token o1 = show_int (oStockCode o1)"

section \<open>Watching and unwatching\<close>

definition watchers :: "stockShard \<Rightarrow> string \<Rightarrow> nat list" where
  "watchers sh key = (case map_of (shByStock sh) key of None \<Rightarrow> [] | Some as \<Rightarrow> as)"

definition new_entry :: "string \<Rightarrow> Order \<Rightarrow> float64 \<Rightarrow> bool \<Rightarrow> watchEntry" where
  "new_entry key o1 targetPrice hook =
     \<lparr>weOrder = o1, weTargetPrice = targetPrice,
      weMaxPrice = (case oMaxMonitorPrice o1 of None \<Rightarrow> 0 | Some p \<Rightarrow> p),
      weTriggered = 0, weTriggerAttempts = 0, weStockKey = key, weOnAfterFill = hook\<rparr>"

definition add_to_shard :: "uuid \<Rightarrow> nat \<Rightarrow> string \<Rightarrow> stockShard \<Rightarrow> stockShard" where
  "add_to_shard oid a key sh =
     \<lparr>shByOrder = AList.update oid a (shByOrder sh),
      shByStock = AList.update key (watchers sh key @ [a]) (shByStock sh)\<rparr>"

definition add_entry :: "nat \<Rightarrow> watchEntry \<Rightarrow> pm_state \<Rightarrow> pm_state" where
  "add_entry i e m =
     pm_set_shard i (add_to_shard (oOrderID (weOrder e)) (length (pmEntries m)) (weStockKey e) (pmShards m i))
       (m\<lparr>pmEntries := pmEntries m @ [e]\<rparr>)"

text \<open>A request to the feed, when there is one.\<close>

definition pm_feed :: "pm_effect \<Rightarrow> pm_state \<Rightarrow> pm_state" where
  "pm_feed x m = (if pmHasWS m then pm_emit x m else m)"

definition watch_in :: "nat \<Rightarrow> watchEntry \<Rightarrow> pm_state \<Rightarrow> pm_state" where
  "watch_in i e m =
     (if map_of (shByOrder (pmShards m i)) (oOrderID (weOrder e)) \<noteq> None then m
      else pm_feed (PmSubscribe (stock_token (weOrder e))) (add_entry i e m))"

definition watch_entry :: "watchEntry \<Rightarrow> pm_state \<Rightarrow> pm_state" where
  "watch_entry e m = watch_in (shardFor (weStockKey e)) e m"

definition Watch :: "Order \<Rightarrow> float64 \<Rightarrow> bool \<Rightarrow> pm_state \<Rightarrow> pm_state" where
  "Watch o1 targetPrice hook m =
     watch_entry (new_entry (stockKey (oExchange o1) (oStockCode o1)) o1 targetPrice hook) m"

text \<open>The slice without its first element of that order.\<close>

fun remove_order :: "pm_state \<Rightarrow> uuid \<Rightarrow> nat list \<Rightarrow> nat list" where
  "remove_order m oid [] = []"
| "remove_order m oid (a # as) = (if oOrderID (order_of m a) = oid then as else a # remove_order m oid as)"

definition drop_watch :: "pm_state \<Rightarrow> uuid \<Rightarrow> nat \<Rightarrow> stockShard \<Rightarrow> stockShard" where
  "drop_watch m oid a sh =
     (let key = weStockKey (pmEntries m ! a);
          as = remove_order m oid (watchers sh key)
      in \<lparr>shByOrder = AList.delete oid (shByOrder sh),
          shByStock = (if as = [] then AList.delete key (shByStock sh) else AList.update key as (shByStock sh))\<rparr>)"

text \<open>The shard that holds an order: the first one in index order.\<close>

definition find_shard :: "pm_state \<Rightarrow> uuid \<Rightarrow> (nat \<times> nat) option" where
  "find_shard m oid =
     (case filter (\<lambda>i. map_of (shByOrder (pmShards m i)) oid \<noteq> None) [0..<shardCount] of
        [] \<Rightarrow> None
      | i # _ \<Rightarrow> Some (i, the (map_of (shByOrder (pmShards m i)) oid)))"

definition Unwatch :: "uuid \<Rightarrow> pm_state \<Rightarrow> pm_state" where
  "Unwatch oid m =
     (case find_shard m oid of None \<Rightarrow> m
      | Some (i, a) \<Rightarrow>
          pm_feed (PmUnsubscribe [stock_token (order_of m a)])
            (pm_set_shard i (drop_watch m oid a (pmShards m i)) m))"

text \<open>
  The loop over a map runs in the order of its list; only the order of the tokens in the
  request to the feed depends on it.
\<close>

fun drop_all :: "pm_state \<Rightarrow> (uuid \<times> nat) list \<Rightarrow> stockShard \<Rightarrow> stockShard" where
  "drop_all m [] sh = sh"
| "drop_all m ((oid, a) # rest) sh = drop_all m rest (drop_watch m oid a sh)"

definition strategy_watches :: "pm_state \<Rightarrow> string \<Rightarrow> nat \<Rightarrow> (uuid \<times> nat) list" where
  "strategy_watches m strategyID i =
     filter (\<lambda>(_, a). oStrategyID (order_of m a) = strategyID) (shByOrder (pmShards m i))"

definition UnwatchByStrategy :: "string \<Rightarrow> pm_state \<Rightarrow> pm_state \<times> nat" where
  "UnwatchByStrategy strategyID m =
     (let found = concat (map (strategy_watches m strategyID) [0..<shardCount]);
          m1 = foldl (\<lambda>s i. pm_set_shard i (drop_all m (strategy_watches m strategyID i) (pmShards m i)) s) m [0..<shardCount]
      in (if found = [] then m1
          else pm_feed (PmUnsubscribe (map (\<lambda>(_, a). stock_token (order_of m a)) found)) m1,
          length found))"

definition WatchCount :: "pm_state \<Rightarrow> nat" where
  "WatchCount m = sum_list (map (\<lambda>i. length (shByOrder (pmShards m i))) [0..<shardCount])"

section \<open>Prices\<close>

definition offer :: "float64 \<Rightarrow> pm_state \<Rightarrow> nat \<Rightarrow> pm_state" where
  "offer ltp m a =
     (if weTriggered (pmEntries m ! a) \<noteq> 0 then m
      else if length (pmEvalCh m) < pm_evalBuf then m\<lparr>pmEvalCh := pmEvalCh m @ [(a, ltp)]\<rparr> else m)"

definition evaluateStock :: "string \<Rightarrow> float64 \<Rightarrow> pm_state \<Rightarrow> pm_state" where
  "evaluateStock key ltp m = foldl (offer ltp) m (watchers (pmShards m (shardFor key)) key)"

definition PmOnPriceUpdate :: "string \<Rightarrow> float64 \<Rightarrow> pm_state \<Rightarrow> pm_state" where
  "PmOnPriceUpdate key ltp m = (if ltp \<le> 0 then m else evaluateStock key ltp m)"

definition watched_keys :: "pm_state \<Rightarrow> string list" where
  "watched_keys m = remdups (concat (map (\<lambda>i. map fst (shByStock (pmShards m i))) [0..<shardCount]))"

definition evaluate_prices :: "(string \<Rightarrow> float64 option) \<Rightarrow> string list \<Rightarrow> pm_state \<Rightarrow> pm_state" where
  "evaluate_prices ltps keys m =
     foldl (\<lambda>s key. case ltps key of None \<Rightarrow> s | Some ltp \<Rightarrow> if 0 < ltp then evaluateStock key ltp s else s) m keys"

text \<open>
  The fallback poll: prices the feed has, if it is healthy, then Redis for the other keys;
  \<open>redis\<close> is \<open>None\<close> when there is no provider or the query fails. \<open>order\<close> rearranges the keys
  of a map.
\<close>

definition checkPricesFallback ::
  "bool \<Rightarrow> (string \<Rightarrow> float64 option) \<Rightarrow> (string \<Rightarrow> float64 option) option \<Rightarrow> (string list \<Rightarrow> string list) \<Rightarrow> pm_state \<Rightarrow> pm_state"
where
  "checkPricesFallback healthy wss redis order m =
     (let keys = order (watched_keys m);
          m1 = (if pmHasWS m \<and> healthy then evaluate_prices wss keys m else m);
          fetch = (if pmHasWS m \<and> healthy then filter (\<lambda>k. wss k = None) keys else keys)
      in if keys = [] then m
         else case redis of None \<Rightarrow> m1 | Some ltps \<Rightarrow> evaluate_prices ltps (order fetch) m1)"

section \<open>Evaluation\<close>

definition is_buy :: "watchEntry \<Rightarrow> bool" where
  "is_buy e \<longleftrightarrow> oOrderSide (weOrder e) = ''BUY''"

definition condition_met :: "watchEntry \<Rightarrow> float64 \<Rightarrow> bool" where
  "condition_met e ltp \<longleftrightarrow> (if is_buy e then weTargetPrice e \<le> ltp else ltp \<le> weTargetPrice e)"

definition exceeds_max :: "watchEntry \<Rightarrow> float64 \<Rightarrow> bool" where
  "exceeds_max e ltp \<longleftrightarrow> 0 < weMaxPrice e \<and> (if is_buy e then weMaxPrice e < ltp else ltp < weMaxPrice e)"

text \<open>A worker takes a job and loads the flag; the decision is a second step.\<close>

definition pm_worker :: "pm_state \<Rightarrow> pm_state" where
  "pm_worker m =
     (case pmEvalCh m of [] \<Rightarrow> m
      | (a, ltp) # rest \<Rightarrow>
          let m1 = m\<lparr>pmEvalCh := rest\<rparr>
          in if weTriggered (pmEntries m ! a) \<noteq> 0 then m1 else pm_spawn (PmEvaluate a ltp) m1)"

definition evaluateEntry :: "nat \<Rightarrow> float64 \<Rightarrow> pm_state \<Rightarrow> pm_state" where
  "evaluateEntry a ltp m =
     (let e = pmEntries m ! a
      in if \<not> condition_met e ltp then m
         else if exceeds_max e ltp then pm_spawn (PmSkip a ltp) (set_entry a (e\<lparr>weTriggered := 1\<rparr>) m)
         else if weTriggered e = 0 then pm_spawn (PmTrigger a ltp) (set_entry a (e\<lparr>weTriggered := 1\<rparr>) m)
         else m)"

section \<open>Execution\<close>

text \<open>
  What the surroundings answer in one goroutine: whether the database reads and writes work,
  the tick size in Redis, and what the executor returns and writes to the order.
\<close>

record pm_env =
  peReadFails :: bool
  peWriteFails :: bool
  peTickSize :: "float64 option"
  peExecutes :: bool
  peStatus :: string
  peFilledPrice :: "float64 option"
  peFilledQuantity :: int
  peIndiraOrderID :: "string option"

definition pm_update_status :: "pm_env \<Rightarrow> uuid \<Rightarrow> string \<Rightarrow> pm_state \<Rightarrow> pm_state" where
  "pm_update_status env oid status m =
     (let m1 = pm_emit (PmUpdateStatus oid status) m
      in if peWriteFails env then m1 else m1\<lparr>pmDB := (pmDB m1)(oid := map_option (\<lambda>_. status) (pmDB m1 oid))\<rparr>)"

definition pm_record :: "uuid \<Rightarrow> string \<Rightarrow> pm_state \<Rightarrow> pm_state" where
  "pm_record oid kind m = (if pmHasRepo m then pm_emit (PmEvent oid kind) m else m)"

definition pm_announce :: "uuid \<Rightarrow> string \<Rightarrow> pm_state \<Rightarrow> pm_state" where
  "pm_announce oid kind m = (if pmHasKafka m then pm_emit (PmPublish oid kind) m else m)"

text \<open>Marking an order as cancelled, with the event that says why.\<close>

definition mark_cancelled :: "pm_env \<Rightarrow> uuid \<Rightarrow> string \<Rightarrow> pm_state \<Rightarrow> pm_state" where
  "mark_cancelled env oid kind m =
     (if pmHasRepo m then pm_record oid kind (pm_update_status env oid ''CANCELLED'' m) else m)"

definition skip_order :: "pm_env \<Rightarrow> nat \<Rightarrow> pm_state \<Rightarrow> pm_state" where
  "skip_order env a m =
     mark_cancelled env (oOrderID (order_of m a)) ''PRICE_EXCEEDED_MAX'' (Unwatch (oOrderID (order_of m a)) m)"

definition pm_tick :: "pm_env \<Rightarrow> float64" where
  "pm_tick env = (case peTickSize env of None \<Rightarrow> rnd (5 / 100) | Some ts \<Rightarrow> if 0 < ts then ts else rnd (5 / 100))"

definition limit_from :: "float64 \<Rightarrow> float64 \<Rightarrow> float64" where
  "limit_from ltp tickSize = RoundToTickSize (fmul ltp (rnd (1005 / 1000))) tickSize"

text \<open>A leg set relative to the target, moved along with the limit.\<close>

definition move_leg :: "float64 \<Rightarrow> float64 \<Rightarrow> float64 \<Rightarrow> float64 option \<Rightarrow> float64 option" where
  "move_leg target limit tickSize leg =
     (case leg of None \<Rightarrow> None
      | Some p \<Rightarrow> if 0 < p then Some (RoundToTickSize (fmul limit (fdiv p target)) tickSize) else Some p)"

definition order_price :: "float64 option \<Rightarrow> float64" where
  "order_price p = (case p of None \<Rightarrow> 0 | Some x \<Rightarrow> x)"

definition promote_to :: "float64 \<Rightarrow> float64 \<Rightarrow> bool \<Rightarrow> float64 \<Rightarrow> Order \<Rightarrow> Order" where
  "promote_to limit tick hook target o1 =
     o1\<lparr>oOrderType := OrderTypeLimit,
        oProductType := (if hook \<or> (order_price (oStopLoss o1) = 0 \<and> order_price (oTakeProfit o1) = 0)
                         then ''INTRADAY'' else oProductType o1),
        oPrice := Some limit,
        oStopLoss := (if 0 < target then move_leg target limit tick (oStopLoss o1) else oStopLoss o1),
        oTakeProfit := (if 0 < target then move_leg target limit tick (oTakeProfit o1) else oTakeProfit o1)\<rparr>"

definition promote :: "pm_env \<Rightarrow> watchEntry \<Rightarrow> float64 \<Rightarrow> Order" where
  "promote env e ltp =
     promote_to (limit_from ltp (pm_tick env)) (pm_tick env) (weOnAfterFill e) (weTargetPrice e) (weOrder e)"

text \<open>\<open>triggerOrder\<close> up to the call of the executor; \<open>e\<close> is the entry at \<open>a\<close>.\<close>

definition cancelled_in_db :: "pm_env \<Rightarrow> uuid \<Rightarrow> pm_state \<Rightarrow> bool" where
  "cancelled_in_db env oid m \<longleftrightarrow> pmHasRepo m \<and> \<not> peReadFails env \<and>
     (case pmDB m oid of None \<Rightarrow> False | Some st \<Rightarrow> IsTerminalStatus st)"

definition prepare_entry :: "pm_env \<Rightarrow> nat \<Rightarrow> float64 \<Rightarrow> watchEntry \<Rightarrow> pm_state \<Rightarrow> pm_state" where
  "prepare_entry env a ltp e m =
     (if cancelled_in_db env (oOrderID (weOrder e)) m then Unwatch (oOrderID (weOrder e)) m
      else pm_spawn (PmPlace a ltp)
             (pm_announce (oOrderID (weOrder e)) ''PRICE_MONITOR_TRIGGERED''
                (pm_record (oOrderID (weOrder e)) ''PRICE_MONITOR_TRIGGERED''
                   (set_entry a (e\<lparr>weOrder := promote env e ltp\<rparr>) m))))"

definition trigger_prepare :: "pm_env \<Rightarrow> nat \<Rightarrow> float64 \<Rightarrow> pm_state \<Rightarrow> pm_state" where
  "trigger_prepare env a ltp m = prepare_entry env a ltp (pmEntries m ! a) m"

definition executed_order :: "pm_env \<Rightarrow> Order \<Rightarrow> Order" where
  "executed_order env o1 =
     o1\<lparr>oStatus := peStatus env, oFilledPrice := peFilledPrice env, oFilledQuantity := peFilledQuantity env,
        oIndiraOrderID := peIndiraOrderID env\<rparr>"

definition maxTriggerAttempts :: int where
  "maxTriggerAttempts = 3"

text \<open>
  The rest: after a success the order is unwatched and the hook runs; after a failure the
  attempt is counted, and the flag is reset unless it was the last.
\<close>

definition placed_ok :: "nat \<Rightarrow> watchEntry \<Rightarrow> pm_state \<Rightarrow> pm_state" where
  "placed_ok a e m =
     (if weOnAfterFill e
      then pm_emit (PmAfterFill a (weOrder e)) (Unwatch (oOrderID (weOrder e)) (set_entry a e m))
      else Unwatch (oOrderID (weOrder e)) (set_entry a e m))"

definition placed_bad :: "nat \<Rightarrow> watchEntry \<Rightarrow> pm_state \<Rightarrow> pm_state" where
  "placed_bad a e m =
     (if maxTriggerAttempts \<le> weTriggerAttempts e then Unwatch (oOrderID (weOrder e)) (set_entry a e m)
      else set_entry a (e\<lparr>weTriggered := 0\<rparr>) m)"

definition place_entry :: "pm_env \<Rightarrow> nat \<Rightarrow> float64 \<Rightarrow> watchEntry \<Rightarrow> pm_state \<Rightarrow> pm_state" where
  "place_entry env a ltp e m =
     (if peExecutes env
      then placed_ok a (e\<lparr>weOrder := executed_order env (weOrder e)\<rparr>) (pm_emit (PmExecute a ltp (weOrder e) True) m)
      else placed_bad a (e\<lparr>weOrder := executed_order env (weOrder e), weTriggerAttempts := weTriggerAttempts e + 1\<rparr>)
             (pm_emit (PmExecute a ltp (weOrder e) False) m))"

definition place_triggered :: "pm_env \<Rightarrow> nat \<Rightarrow> float64 \<Rightarrow> pm_state \<Rightarrow> pm_state" where
  "place_triggered env a ltp m = place_entry env a ltp (pmEntries m ! a) m"

definition run_pm_task :: "pm_env \<Rightarrow> pm_task \<Rightarrow> pm_state \<Rightarrow> pm_state" where
  "run_pm_task env t m =
     (case t of PmEvaluate a ltp \<Rightarrow> evaluateEntry a ltp m
      | PmSkip a ltp \<Rightarrow> skip_order env a m
      | PmTrigger a ltp \<Rightarrow> trigger_prepare env a ltp m
      | PmPlace a ltp \<Rightarrow> place_triggered env a ltp m)"

definition pm_schedule :: "pm_env \<Rightarrow> nat \<Rightarrow> pm_state \<Rightarrow> pm_state" where
  "pm_schedule env i m =
     (if i < length (pmTasks m)
      then run_pm_task env (pmTasks m ! i) (m\<lparr>pmTasks := take i (pmTasks m) @ drop (Suc i) (pmTasks m)\<rparr>)
      else m)"

section \<open>Cancelling and reloading\<close>

definition CancelWatch :: "pm_env \<Rightarrow> uuid \<Rightarrow> string \<Rightarrow> pm_state \<Rightarrow> pm_state \<times> bool" where
  "CancelWatch env oid userID m =
     (case find_shard m oid of None \<Rightarrow> (m, False)
      | Some (i, a) \<Rightarrow>
          if oUserID (order_of m a) \<noteq> userID then (m, False)
          else (pm_announce oid ''PRICE_WATCH_CANCELLED''
                  (mark_cancelled env oid ''PRICE_WATCH_CANCELLED'' (Unwatch oid m)), True))"

fun CancelWatchBatch :: "pm_env \<Rightarrow> uuid list \<Rightarrow> string \<Rightarrow> pm_state \<Rightarrow> pm_state \<times> nat" where
  "CancelWatchBatch env [] userID m = (m, 0)"
| "CancelWatchBatch env (oid # oids) userID m =
     (case CancelWatch env oid userID m of (m1, done1) \<Rightarrow>
        (case CancelWatchBatch env oids userID m1 of (m2, n) \<Rightarrow> (m2, if done1 then Suc n else n)))"

text \<open>\<open>rows\<close> is \<open>None\<close> when the query failed.\<close>

definition reloadFromDB :: "Order list option \<Rightarrow> pm_state \<Rightarrow> pm_state" where
  "reloadFromDB rows m =
     (if \<not> pmHasRepo m then m
      else case rows of None \<Rightarrow> m
      | Some os \<Rightarrow> foldl (\<lambda>s o1. case oPrice o1 of None \<Rightarrow> s | Some p \<Rightarrow> Watch o1 p False s) m os)"

section \<open>Runs\<close>

text \<open>
  One step of the service around the monitor; \<open>PmDatabase\<close> is a write of another service to
  the status of an order.
\<close>

datatype pm_op =
    PmWatch Order float64 bool
  | PmUnwatch uuid
  | PmUnwatchStrategy string
  | PmPrice string float64
  | PmFallback bool "string \<Rightarrow> float64 option" "(string \<Rightarrow> float64 option) option" "string list \<Rightarrow> string list"
  | PmWorker
  | PmRun pm_env nat
  | PmCancel pm_env "uuid list" string
  | PmReload "Order list option"
  | PmDatabase uuid "string option"

fun pm_step :: "pm_op \<Rightarrow> pm_state \<Rightarrow> pm_state" where
  "pm_step (PmWatch o1 target hook) m = Watch o1 target hook m"
| "pm_step (PmUnwatch oid) m = Unwatch oid m"
| "pm_step (PmUnwatchStrategy strategyID) m = fst (UnwatchByStrategy strategyID m)"
| "pm_step (PmPrice key ltp) m = PmOnPriceUpdate key ltp m"
| "pm_step (PmFallback healthy wss redis order) m = checkPricesFallback healthy wss redis order m"
| "pm_step PmWorker m = pm_worker m"
| "pm_step (PmRun env i) m = pm_schedule env i m"
| "pm_step (PmCancel env oids userID) m = fst (CancelWatchBatch env oids userID m)"
| "pm_step (PmReload rows) m = reloadFromDB rows m"
| "pm_step (PmDatabase oid st) m = m\<lparr>pmDB := (pmDB m)(oid := st)\<rparr>"

inductive pm_reachable :: "pm_state \<Rightarrow> bool" where
  start: "pm_reachable (NewPriceMonitor ws repo kafka db)"
| step: "pm_reachable m \<Longrightarrow> pm_reachable (pm_step a m)"

lemma pm_run_reachable: "pm_reachable m \<Longrightarrow> pm_reachable (foldl (\<lambda>s a. pm_step a s) m ops)"
  by (induction ops arbitrary: m) (auto intro: pm_reachable.step)

end
