(* ===== verification/PmIndex.thy ===== *)
theory PmIndex
  imports PmMonitor
begin

text \<open>
  The index of the price monitor: within each shard the two maps describe the same entries,
  and the subscriptions at the feed are the watched entries, counted by stock.
\<close>

section \<open>The two maps of a shard\<close>

definition entry_id :: "pm_state \<Rightarrow> nat \<Rightarrow> uuid" where
  "entry_id m a = oOrderID (order_of m a)"

definition entry_key :: "pm_state \<Rightarrow> nat \<Rightarrow> string" where
  "entry_key m a = weStockKey (pmEntries m ! a)"

definition shard_ok :: "pm_state \<Rightarrow> nat \<Rightarrow> stockShard \<Rightarrow> bool" where
  "shard_ok m i sh \<longleftrightarrow>
     distinct (map fst (shByOrder sh)) \<and> distinct (map fst (shByStock sh)) \<and>
     (\<forall>oid a. map_of (shByOrder sh) oid = Some a \<longrightarrow>
        a < length (pmEntries m) \<and> entry_id m a = oid \<and> shardFor (entry_key m a) = i \<and>
        a \<in> set (watchers sh (entry_key m a))) \<and>
     (\<forall>key as. map_of (shByStock sh) key = Some as \<longrightarrow>
        as \<noteq> [] \<and> distinct as \<and>
        (\<forall>a\<in>set as. entry_key m a = key \<and> map_of (shByOrder sh) (entry_id m a) = Some a))"

definition index_ok :: "pm_state \<Rightarrow> bool" where
  "index_ok m \<longleftrightarrow> (\<forall>i. shard_ok m i (pmShards m i))"

lemma shard_okD:
  assumes "shard_ok m i sh" "map_of (shByOrder sh) oid = Some a"
  shows "a < length (pmEntries m)" "entry_id m a = oid" "shardFor (entry_key m a) = i"
    "a \<in> set (watchers sh (entry_key m a))"
  using assms by (auto simp: shard_ok_def)

lemma shard_ok_distinct:
  "shard_ok m i sh \<Longrightarrow> distinct (map fst (shByOrder sh))" "shard_ok m i sh \<Longrightarrow> distinct (map fst (shByStock sh))"
  by (simp_all add: shard_ok_def)

lemma shard_ok_nonempty: "shard_ok m i sh \<Longrightarrow> map_of (shByStock sh) key = Some as \<Longrightarrow> as \<noteq> []"
  unfolding shard_ok_def by blast

lemma shard_okI:
  assumes "distinct (map fst (shByOrder sh))" "distinct (map fst (shByStock sh))"
    "\<And>oid a. map_of (shByOrder sh) oid = Some a \<Longrightarrow> a < length (pmEntries m) \<and> entry_id m a = oid \<and>
       shardFor (entry_key m a) = i \<and> a \<in> set (watchers sh (entry_key m a))"
    "\<And>key as. map_of (shByStock sh) key = Some as \<Longrightarrow> as \<noteq> []"
    "\<And>key. distinct (watchers sh key)"
    "\<And>key a. a \<in> set (watchers sh key) \<Longrightarrow> entry_key m a = key \<and> map_of (shByOrder sh) (entry_id m a) = Some a"
  shows "shard_ok m i sh"
proof -
  have "as \<noteq> [] \<and> distinct as \<and> (\<forall>a\<in>set as. entry_key m a = key \<and> map_of (shByOrder sh) (entry_id m a) = Some a)"
    if "map_of (shByStock sh) key = Some as" for key as
    using assms(4) [OF that] assms(5) [of key] assms(6) [of _ key] that by (simp add: watchers_def)
  with assms(1-3) show ?thesis unfolding shard_ok_def by blast
qed

lemma watchers_ok:
  assumes "shard_ok m i sh"
  shows "distinct (watchers sh key)"
    "a \<in> set (watchers sh key) \<Longrightarrow> entry_key m a = key \<and> map_of (shByOrder sh) (entry_id m a) = Some a"
  using assms by (auto simp: shard_ok_def watchers_def split: option.splits)

lemma watchers_range: "shard_ok m i sh \<Longrightarrow> a \<in> set (watchers sh key) \<Longrightarrow> a < length (pmEntries m)"
  using watchers_ok(2) shard_okD(1) by blast

text \<open>Removing the entry of an order removes exactly that entry.\<close>

lemma remove_order_set:
  assumes "distinct as" "a \<in> set as" "\<forall>b\<in>set as. entry_id m b = entry_id m a \<longrightarrow> b = a"
  shows "set (remove_order m (entry_id m a) as) = set as - {a} \<and> distinct (remove_order m (entry_id m a) as)"
  using assms by (induction as) (auto simp: entry_id_def)

lemma shard_ok_drop:
  assumes ok: "shard_ok m i sh" and a: "map_of (shByOrder sh) oid = Some a"
  shows "shard_ok m i (drop_watch m oid a sh)"
proof -
  let ?key = "entry_key m a"
  let ?as = "remove_order m oid (watchers sh ?key)"
  have id: "entry_id m a = oid" using shard_okD(2) [OF ok a] .
  have as: "set ?as = set (watchers sh ?key) - {a}" "distinct ?as"
    using remove_order_set [of "watchers sh ?key" a m] watchers_ok [OF ok] shard_okD(4) [OF ok a] id
    by (metis option.inject)+
  have sh: "shByOrder (drop_watch m oid a sh) = AList.delete oid (shByOrder sh)"
    "map_of (shByStock (drop_watch m oid a sh)) = (map_of (shByStock sh))(?key := if ?as = [] then None else Some ?as)"
    "distinct (map fst (shByStock (drop_watch m oid a sh)))"
    using ok by (auto simp: drop_watch_def Let_def entry_key_def update_conv' delete_conv' distinct_update
        distinct_delete shard_ok_def)
  have w: "watchers (drop_watch m oid a sh) key = (if key = ?key then ?as else watchers sh key)" for key
    by (simp add: watchers_def sh(2))
  have one: "b < length (pmEntries m) \<and> entry_id m b = oid' \<and> shardFor (entry_key m b) = i \<and>
      b \<in> set (watchers (drop_watch m oid a sh) (entry_key m b))"
    if "map_of (shByOrder (drop_watch m oid a sh)) oid' = Some b" for oid' b
  proof -
    have b: "map_of (shByOrder sh) oid' = Some b" "oid' \<noteq> oid"
      using that by (auto simp: sh(1) delete_conv' split: if_splits)
    then have "b \<noteq> a" using shard_okD(2) [OF ok b(1)] id by auto
    with shard_okD [OF ok b(1)] show ?thesis unfolding w by (auto simp: as(1))
  qed
  have two: "entry_key m b = key \<and> map_of (shByOrder (drop_watch m oid a sh)) (entry_id m b) = Some b"
    if "b \<in> set (watchers (drop_watch m oid a sh) key)" for key b
  proof -
    have b: "b \<in> set (watchers sh key)" "b \<noteq> a \<or> key \<noteq> ?key" using that as(1) by (auto simp: w split: if_splits)
    have "entry_id m b \<noteq> oid"
      using watchers_ok(2) [OF ok b(1)] b(2) a by auto
    then show ?thesis using watchers_ok(2) [OF ok b(1)] by (simp add: sh(1) delete_conv')
  qed
  show ?thesis
  proof (rule shard_okI)
    show "distinct (map fst (shByOrder (drop_watch m oid a sh)))"
      using shard_ok_distinct(1) [OF ok] by (simp add: sh(1) distinct_delete)
    show "distinct (watchers (drop_watch m oid a sh) key)" for key
      using watchers_ok(1) [OF ok] as(2) by (simp add: w)
    show "as \<noteq> []" if "map_of (shByStock (drop_watch m oid a sh)) key = Some as" for key as
      using that shard_ok_nonempty [OF ok] by (auto simp: sh(2) split: if_splits)
  qed (use one two sh(3) in blast)+
qed

section \<open>What never changes of an entry\<close>

text \<open>Steps may add entries and change the mutable parts of an order.\<close>

definition keeps_entry :: "watchEntry \<Rightarrow> watchEntry \<Rightarrow> bool" where
  "keeps_entry e e' \<longleftrightarrow>
     oOrderID (weOrder e') = oOrderID (weOrder e) \<and> oStockCode (weOrder e') = oStockCode (weOrder e) \<and>
     oStrategyID (weOrder e') = oStrategyID (weOrder e) \<and> oUserID (weOrder e') = oUserID (weOrder e) \<and>
     oOrderSide (weOrder e') = oOrderSide (weOrder e) \<and> weTargetPrice e' = weTargetPrice e \<and>
     weMaxPrice e' = weMaxPrice e \<and> weStockKey e' = weStockKey e \<and> weOnAfterFill e' = weOnAfterFill e"

definition keeps_entries :: "pm_state \<Rightarrow> pm_state \<Rightarrow> bool" where
  "keeps_entries m m' \<longleftrightarrow> length (pmEntries m) \<le> length (pmEntries m') \<and>
     (\<forall>a<length (pmEntries m). keeps_entry (pmEntries m ! a) (pmEntries m' ! a))"

lemma keeps_entry_refl [simp]: "keeps_entry e e"
  by (simp add: keeps_entry_def)

lemma keeps_refl [simp]: "keeps_entries m m"
  by (simp add: keeps_entries_def)

lemma keeps_trans: "keeps_entries m1 m2 \<Longrightarrow> keeps_entries m2 m3 \<Longrightarrow> keeps_entries m1 m3"
  by (fastforce simp: keeps_entries_def keeps_entry_def)

lemma keeps_same: "pmEntries m' = pmEntries m \<Longrightarrow> keeps_entries m m'"
  by (simp add: keeps_entries_def)

lemma keeps_set_entry:
  "keeps_entry (pmEntries m ! a) e \<Longrightarrow> keeps_entries m (set_entry a e m)"
  by (simp add: keeps_entries_def set_entry_def) (metis keeps_entry_refl nth_list_update_eq nth_list_update_neq)

lemma keeps_ids:
  assumes "keeps_entries m m'" "a < length (pmEntries m)"
  shows "entry_id m' a = entry_id m a" "entry_key m' a = entry_key m a"
    "stock_token (order_of m' a) = stock_token (order_of m a)"
    "oStrategyID (order_of m' a) = oStrategyID (order_of m a)"
  using assms by (simp_all add: keeps_entries_def keeps_entry_def entry_id_def entry_key_def order_of_def stock_token_def)

lemma shard_ok_keeps:
  assumes ok: "shard_ok m i sh" and k: "keeps_entries m m'"
  shows "shard_ok m' i sh"
proof -
  have n: "length (pmEntries m) \<le> length (pmEntries m')" using k by (simp add: keeps_entries_def)
  show ?thesis
  proof (rule shard_okI)
    show "a < length (pmEntries m') \<and> entry_id m' a = oid \<and> shardFor (entry_key m' a) = i \<and>
        a \<in> set (watchers sh (entry_key m' a))" if "map_of (shByOrder sh) oid = Some a" for oid a
      using shard_okD [OF ok that] keeps_ids [OF k shard_okD(1) [OF ok that]] n by simp
    show "entry_key m' a = key \<and> map_of (shByOrder sh) (entry_id m' a) = Some a"
      if "a \<in> set (watchers sh key)" for key a
      using watchers_ok(2) [OF ok that] keeps_ids [OF k watchers_range [OF ok that]] by simp
  qed (use shard_ok_distinct [OF ok] shard_ok_nonempty [OF ok] watchers_ok(1) [OF ok] in blast)+
qed

section \<open>Adding an entry\<close>

lemma shard_ok_add:
  assumes ok: "shard_ok m (shardFor key) sh" and new: "map_of (shByOrder sh) oid = None"
    and a: "a = length (pmEntries m)" "entry_id m' a = oid" "entry_key m' a = key" "a < length (pmEntries m')"
    and k: "keeps_entries m m'"
  shows "shard_ok m' (shardFor key)
    \<lparr>shByOrder = AList.update oid a (shByOrder sh), shByStock = AList.update key (watchers sh key @ [a]) (shByStock sh)\<rparr>"
proof -
  let ?sh = "\<lparr>shByOrder = AList.update oid a (shByOrder sh), shByStock = AList.update key (watchers sh key @ [a]) (shByStock sh)\<rparr>"
  note ok' = shard_ok_keeps [OF ok k]
  have fresh: "a \<notin> set (watchers sh k2)" for k2 using watchers_range [OF ok] a(1) by blast
  have mo: "map_of (shByOrder ?sh) = (map_of (shByOrder sh))(oid \<mapsto> a)"
    "map_of (shByStock ?sh) = (map_of (shByStock sh))(key \<mapsto> watchers sh key @ [a])"
    by (simp_all add: update_conv')
  have w: "watchers ?sh k2 = (if k2 = key then watchers sh key @ [a] else watchers sh k2)" for k2
    unfolding watchers_def [of ?sh] mo(2) by (simp add: watchers_def)
  have other: "entry_id m' b \<noteq> oid" if "b \<in> set (watchers sh k2)" for b k2
    using watchers_ok(2) [OF ok' that] new by auto
  have one: "b < length (pmEntries m') \<and> entry_id m' b = oid' \<and> shardFor (entry_key m' b) = shardFor key \<and>
      b \<in> set (watchers ?sh (entry_key m' b))" if "map_of (shByOrder ?sh) oid' = Some b" for oid' b
    using that shard_okD [OF ok', of oid' b] a(2-4) unfolding w mo by (auto split: if_splits)
  have two: "entry_key m' b = k2 \<and> map_of (shByOrder ?sh) (entry_id m' b) = Some b"
    if "b \<in> set (watchers ?sh k2)" for k2 b
  proof (cases "b = a")
    case True
    then show ?thesis using that fresh [of k2] a(2,3) unfolding w mo by (auto split: if_splits)
  next
    case False
    then have "b \<in> set (watchers sh k2)" using that by (auto simp: w split: if_splits)
    then show ?thesis using watchers_ok(2) [OF ok'] other unfolding mo by auto
  qed
  show ?thesis
  proof (rule shard_okI)
    show "distinct (watchers ?sh k2)" for k2
      using watchers_ok(1) [OF ok', of k2] fresh [of k2] unfolding w by auto
    show "as \<noteq> []" if "map_of (shByStock ?sh) k2 = Some as" for k2 as
      using that shard_ok_nonempty [OF ok] unfolding mo by (auto split: if_splits)
    show "distinct (map fst (shByOrder ?sh))" "distinct (map fst (shByStock ?sh))"
      using shard_ok_distinct [OF ok] by (simp_all add: distinct_update)
  qed (use one two in blast)+
qed

section \<open>Jobs and subscriptions\<close>

definition task_entry :: "pm_task \<Rightarrow> nat" where
  "task_entry t = (case t of PmEvaluate a _ \<Rightarrow> a | PmSkip a _ \<Rightarrow> a | PmTrigger a _ \<Rightarrow> a | PmPlace a _ \<Rightarrow> a)"

text \<open>The entries that queued jobs and goroutines point to.\<close>

definition pm_jobs :: "pm_state \<Rightarrow> nat set" where
  "pm_jobs m = fst ` set (pmEvalCh m) \<union> task_entry ` set (pmTasks m)"

text \<open>Subscriptions less unsubscriptions of a token, and the watched entries with it.\<close>

definition sub_delta :: "string \<Rightarrow> pm_effect \<Rightarrow> int" where
  "sub_delta tok x =
     (case x of PmSubscribe t \<Rightarrow> if t = tok then 1 else 0
      | PmUnsubscribe ts \<Rightarrow> - int (length (filter (\<lambda>t. t = tok) ts)) | _ \<Rightarrow> 0)"

definition balance :: "pm_state \<Rightarrow> string \<Rightarrow> int" where
  "balance m tok = sum_list (map (sub_delta tok) (pmOut m))"

definition shard_count :: "pm_state \<Rightarrow> string \<Rightarrow> stockShard \<Rightarrow> int" where
  "shard_count m tok sh = int (length (filter (\<lambda>(_, a). stock_token (order_of m a) = tok) (shByOrder sh)))"

definition watched_count :: "pm_state \<Rightarrow> string \<Rightarrow> int" where
  "watched_count m tok = sum (\<lambda>i. shard_count m tok (pmShards m i)) {..<shardCount}"

definition pm_inv :: "pm_state \<Rightarrow> bool" where
  "pm_inv m \<longleftrightarrow> index_ok m \<and> (\<forall>a\<in>pm_jobs m. a < length (pmEntries m)) \<and>
     (pmHasWS m \<longrightarrow> (\<forall>tok. balance m tok = watched_count m tok))"

lemma shard_count_keeps:
  assumes "shard_ok m i sh" "keeps_entries m m'"
  shows "shard_count m' tok sh = shard_count m tok sh"
proof -
  have "filter (\<lambda>(_, a). stock_token (order_of m' a) = tok) (shByOrder sh) =
      filter (\<lambda>(_, a). stock_token (order_of m a) = tok) (shByOrder sh)"
  proof (rule filter_cong [OF refl])
    fix x assume "x \<in> set (shByOrder sh)"
    then have "map_of (shByOrder sh) (fst x) = Some (snd x)" using shard_ok_distinct(1) [OF assms(1)] by simp
    from keeps_ids(3) [OF assms(2) shard_okD(1) [OF assms(1) this]]
    show "(case x of (_, a) \<Rightarrow> stock_token (order_of m' a) = tok) = (case x of (_, a) \<Rightarrow> stock_token (order_of m a) = tok)"
      by (cases x) simp
  qed
  then show ?thesis by (simp add: shard_count_def)
qed

text \<open>Steps that leave the index alone and the balance of subscriptions as it is.\<close>

definition index_frame :: "pm_state \<Rightarrow> pm_state \<Rightarrow> bool" where
  "index_frame m m' \<longleftrightarrow> pmShards m' = pmShards m \<and> keeps_entries m m' \<and> pmHasWS m' = pmHasWS m \<and>
     (\<forall>tok. balance m' tok = balance m tok) \<and> pm_jobs m' \<subseteq> pm_jobs m"

lemma index_frame_inv:
  assumes "index_frame m m'" "pm_inv m"
  shows "pm_inv m'"
proof -
  have f: "pmShards m' = pmShards m" "keeps_entries m m'" "pmHasWS m' = pmHasWS m"
    "\<And>tok. balance m' tok = balance m tok" "pm_jobs m' \<subseteq> pm_jobs m"
    using assms(1) by (simp_all add: index_frame_def)
  have ok: "shard_ok m i (pmShards m i)" for i using assms(2) by (simp add: pm_inv_def index_ok_def)
  have "watched_count m' tok = watched_count m tok" for tok
    by (simp add: watched_count_def f(1) shard_count_keeps [OF ok f(2)])
  moreover have "index_ok m'" using shard_ok_keeps [OF ok f(2)] by (simp add: index_ok_def f(1))
  moreover have "length (pmEntries m) \<le> length (pmEntries m')" using f(2) by (simp add: keeps_entries_def)
  ultimately show ?thesis using assms(2) f(3-5) by (fastforce simp: pm_inv_def)
qed

lemma sub_delta_simps [simp]:
  "sub_delta tok (PmSubscribe t) = (if t = tok then 1 else 0)"
  "sub_delta tok (PmUnsubscribe ts) = - int (length (filter (\<lambda>t. t = tok) ts))"
  "sub_delta tok (PmUpdateStatus i s) = 0" "sub_delta tok (PmEvent i s) = 0" "sub_delta tok (PmPublish i s) = 0"
  "sub_delta tok (PmExecute a l q b) = 0" "sub_delta tok (PmAfterFill a q) = 0"
  by (simp_all add: sub_delta_def)

lemma index_frame_refl [simp]: "index_frame m m"
  by (simp add: index_frame_def)

lemma index_frame_trans: "index_frame m1 m2 \<Longrightarrow> index_frame m2 m3 \<Longrightarrow> index_frame m1 m3"
  by (auto simp: index_frame_def intro: keeps_trans)

lemma index_frame_emit: "(\<And>tok. sub_delta tok x = 0) \<Longrightarrow> index_frame m (pm_emit x m)"
  by (simp add: index_frame_def pm_emit_def balance_def pm_jobs_def keeps_same)

lemma index_frame_db [simp]: "index_frame m (m\<lparr>pmDB := db\<rparr>)"
  by (simp add: index_frame_def balance_def pm_jobs_def keeps_same)

lemma index_frame_entry: "keeps_entry (pmEntries m ! a) e \<Longrightarrow> index_frame m (set_entry a e m)"
  using keeps_set_entry [of m a e] by (simp add: index_frame_def balance_def pm_jobs_def) (simp add: set_entry_def)

lemma inv_emit: "pm_inv m \<Longrightarrow> (\<And>tok. sub_delta tok x = 0) \<Longrightarrow> pm_inv (pm_emit x m)"
  using index_frame_inv [OF index_frame_emit] by blast

lemma inv_db: "pm_inv m \<Longrightarrow> pm_inv (m\<lparr>pmDB := db\<rparr>)"
  using index_frame_inv [OF index_frame_db] by blast

lemma inv_entry: "pm_inv m \<Longrightarrow> keeps_entry (pmEntries m ! a) e \<Longrightarrow> pm_inv (set_entry a e m)"
  using index_frame_inv [OF index_frame_entry] by blast

lemma inv_spawn: "pm_inv m \<Longrightarrow> task_entry t < length (pmEntries m) \<Longrightarrow> pm_inv (pm_spawn t m)"
proof -
  assume a: "pm_inv m" "task_entry t < length (pmEntries m)"
  have k: "keeps_entries m (pm_spawn t m)" by (rule keeps_same) (simp add: pm_spawn_def)
  have ok: "shard_ok m i (pmShards m i)" for i using a by (simp add: pm_inv_def index_ok_def)
  have "watched_count (pm_spawn t m) tok = watched_count m tok" for tok
    using shard_count_keeps [OF ok k] by (simp add: watched_count_def) (simp add: pm_spawn_def)
  moreover have "index_ok (pm_spawn t m)"
    using shard_ok_keeps [OF ok k] by (simp add: index_ok_def) (simp add: pm_spawn_def)
  ultimately show ?thesis using a by (auto simp: pm_inv_def pm_spawn_def pm_jobs_def balance_def)
qed

section \<open>The operations on the index\<close>

lemma inv_shard: "pm_inv m \<Longrightarrow> shard_ok m i (pmShards m i)"
  by (simp add: pm_inv_def index_ok_def)

lemma watched_set_shard:
  assumes "i < shardCount"
  shows "watched_count (pm_set_shard i sh m) tok = watched_count m tok - shard_count m tok (pmShards m i) + shard_count m tok sh"
proof -
  have c: "shard_count (pm_set_shard i sh m) tok x = shard_count m tok x" for x
    by (simp add: shard_count_def order_of_def pm_set_shard_def)
  have "sum (\<lambda>j. shard_count m tok (((pmShards m)(i := sh)) j)) {..<shardCount} =
      shard_count m tok sh + sum (\<lambda>j. shard_count m tok (pmShards m j)) ({..<shardCount} - {i})"
    by (subst sum.remove [of _ i]) (use assms in auto)
  also have "sum (\<lambda>j. shard_count m tok (pmShards m j)) ({..<shardCount} - {i}) =
      watched_count m tok - shard_count m tok (pmShards m i)"
    unfolding watched_count_def by (subst sum.remove [of "{..<shardCount}" i]) (use assms in auto)
  finally show ?thesis by (simp add: watched_count_def c) (simp add: pm_set_shard_def)
qed

text \<open>A shard is replaced and a request to the feed makes up for the difference.\<close>

lemma inv_set_shard:
  assumes inv: "pm_inv m" and i: "i < shardCount" and sh: "shard_ok m i sh"
    and d: "\<And>tok. sub_delta tok x = shard_count m tok sh - shard_count m tok (pmShards m i)"
  shows "pm_inv (pm_feed x (pm_set_shard i sh m))"
proof -
  define m' where "m' = pm_feed x (pm_set_shard i sh m)"
  have k: "keeps_entries m m'" by (rule keeps_same) (simp add: m'_def pm_feed_def pm_emit_def pm_set_shard_def)
  have shards: "pmShards m' = (pmShards m)(i := sh)" by (simp add: m'_def pm_feed_def pm_emit_def pm_set_shard_def)
  have "index_ok m'"
    using shard_ok_keeps [OF inv_shard [OF inv] k] shard_ok_keeps [OF sh k] by (simp add: index_ok_def shards)
  moreover have "balance m' tok = watched_count m' tok" if "pmHasWS m" for tok
  proof -
    have "watched_count m' tok = watched_count (pm_set_shard i sh m) tok"
      using that by (simp add: m'_def pm_feed_def watched_count_def shard_count_def order_of_def pm_emit_def)
    moreover have "balance m' tok = balance m tok + sub_delta tok x"
      using that by (simp add: m'_def pm_feed_def balance_def pm_emit_def pm_set_shard_def)
    ultimately show ?thesis using inv that watched_set_shard [OF i, of sh m tok] d [of tok] by (simp add: pm_inv_def)
  qed
  moreover have "pmHasWS m' = pmHasWS m" "pm_jobs m' = pm_jobs m" "pmEntries m' = pmEntries m"
    by (simp_all add: m'_def pm_feed_def pm_emit_def pm_set_shard_def pm_jobs_def)
  ultimately show ?thesis using inv unfolding pm_inv_def m'_def [symmetric] by metis
qed

lemma length_filter_delete:
  assumes "distinct (map fst xs)" "map_of xs k = Some v"
  shows "int (length (filter P (AList.delete k xs))) = int (length (filter P xs)) - (if P (k, v) then 1 else 0)"
  using assms
proof (induction xs)
  case (Cons x xs)
  show ?case
  proof (cases "fst x = k")
    case True
    then have "AList.delete k xs = xs" using Cons.prems(1) by (auto simp: delete_id)
    then show ?thesis using True Cons.prems(2) by (cases x) auto
  next
    case False
    then show ?thesis using Cons by (cases x) auto
  qed
qed simp

lemma shard_count_drop:
  assumes "shard_ok m i sh" "map_of (shByOrder sh) oid = Some a"
  shows "shard_count m tok (drop_watch m oid a sh) =
    shard_count m tok sh - (if stock_token (order_of m a) = tok then 1 else 0)"
  using length_filter_delete [OF shard_ok_distinct(1) [OF assms(1)] assms(2),
      of "\<lambda>(_, a). stock_token (order_of m a) = tok"]
  by (simp add: shard_count_def drop_watch_def Let_def)

lemma find_shard_Some:
  assumes "find_shard m oid = Some (i, a)"
  shows "i < shardCount" "map_of (shByOrder (pmShards m i)) oid = Some a"
proof -
  from assms obtain js where "filter (\<lambda>i. map_of (shByOrder (pmShards m i)) oid \<noteq> None) [0..<shardCount] = i # js"
    and a: "a = the (map_of (shByOrder (pmShards m i)) oid)"
    by (auto simp: find_shard_def split: list.splits)
  then have "i \<in> set (filter (\<lambda>i. map_of (shByOrder (pmShards m i)) oid \<noteq> None) [0..<shardCount])" by simp
  then show "i < shardCount" "map_of (shByOrder (pmShards m i)) oid = Some a" using a by auto
qed

lemma inv_Unwatch:
  assumes "pm_inv m"
  shows "pm_inv (Unwatch oid m)"
proof (cases "find_shard m oid")
  case None
  then show ?thesis using assms by (simp add: Unwatch_def)
next
  case (Some x)
  then obtain i a where f: "find_shard m oid = Some (i, a)" by (cases x) auto
  note fa = find_shard_Some [OF f]
  show ?thesis
    using inv_set_shard [OF assms fa(1) shard_ok_drop [OF inv_shard [OF assms] fa(2)],
        of "PmUnsubscribe [stock_token (order_of m a)]"] shard_count_drop [OF inv_shard [OF assms] fa(2)]
    by (simp add: Unwatch_def f)
qed

lemma shardFor_less: "shardFor key < shardCount"
  by (simp add: shardFor_def shardCount_def)

lemma shard_count_add:
  assumes "map_of (shByOrder sh) oid = None"
  shows "shard_count m tok \<lparr>shByOrder = AList.update oid a (shByOrder sh), shByStock = x\<rparr> =
    shard_count m tok sh + (if stock_token (order_of m a) = tok then 1 else 0)"
proof -
  have "AList.update k v xs = xs @ [(k, v)]" if "map_of xs k = None" for k v and xs :: "(uuid \<times> nat) list"
    using that by (induction xs) (auto split: if_splits)
  then show ?thesis using assms by (simp add: shard_count_def)
qed

lemma inv_watch_entry:
  assumes inv: "pm_inv m" and i: "i = shardFor (weStockKey e)"
  shows "pm_inv (watch_in i e m)"
proof (cases "map_of (shByOrder (pmShards m i)) (oOrderID (weOrder e))")
  case (Some x)
  then show ?thesis using inv by (simp add: watch_in_def)
next
  case None
  let ?a = "length (pmEntries m)" and ?oid = "oOrderID (weOrder e)"
  define m0 where "m0 = m\<lparr>pmEntries := pmEntries m @ [e]\<rparr>"
  define sh where "sh = add_to_shard ?oid ?a (weStockKey e) (pmShards m i)"
  have k: "keeps_entries m m0" by (simp add: m0_def keeps_entries_def nth_append)
  have m0: "pmShards m0 = pmShards m" "pmEntries m0 ! ?a = e" "?a < length (pmEntries m0)" by (simp_all add: m0_def)
  have "index_frame m m0" using k by (simp add: index_frame_def) (simp add: m0_def balance_def pm_jobs_def)
  then have inv0: "pm_inv m0" using inv by (rule index_frame_inv)
  have ok: "shard_ok m0 i sh"
    unfolding sh_def add_to_shard_def i
    by (rule shard_ok_add [OF inv_shard [OF inv] None [unfolded i] refl _ _ m0(3) k])
      (simp_all add: entry_id_def entry_key_def order_of_def m0)
  have d: "sub_delta tok (PmSubscribe (stock_token (weOrder e))) =
      shard_count m0 tok sh - shard_count m0 tok (pmShards m0 i)" for tok
    by (simp add: sh_def add_to_shard_def shard_count_add [OF None] m0 order_of_def)
  have "pm_inv (pm_feed (PmSubscribe (stock_token (weOrder e))) (pm_set_shard i sh m0))"
    by (rule inv_set_shard [OF inv0 _ ok d]) (simp add: i shardFor_less)
  then show ?thesis by (simp add: watch_in_def None add_entry_def m0_def sh_def)
qed

lemma inv_Watch: "pm_inv m \<Longrightarrow> pm_inv (Watch o1 target hook m)"
  by (simp add: Watch_def watch_entry_def inv_watch_entry)

lemma drop_all_ok:
  assumes "shard_ok m i sh" "distinct (map fst xs)" "\<forall>(oid, a)\<in>set xs. map_of (shByOrder sh) oid = Some a"
  shows "shard_ok m i (drop_all m xs sh) \<and>
    shard_count m tok (drop_all m xs sh) =
      shard_count m tok sh - int (length (filter (\<lambda>(_, a). stock_token (order_of m a) = tok) xs))"
  using assms
proof (induction xs arbitrary: sh)
  case (Cons x xs)
  obtain oid a where x: "x = (oid, a)" by fastforce
  have a: "map_of (shByOrder sh) oid = Some a" using Cons.prems(3) x by simp
  have "\<forall>(oid', b)\<in>set xs. map_of (shByOrder (drop_watch m oid a sh)) oid' = Some b"
    using Cons.prems(2,3) by (force simp: x drop_watch_def Let_def delete_conv')
  from Cons.IH [OF shard_ok_drop [OF Cons.prems(1) a] _ this] Cons.prems(2)
  show ?case using shard_count_drop [OF Cons.prems(1) a, of tok] by (simp add: x)
qed simp

lemma foldl_set_shard:
  "foldl (\<lambda>s i. pm_set_shard i (F i) s) m [0..<n] = m\<lparr>pmShards := (\<lambda>i. if i < n then F i else pmShards m i)\<rparr>"
  by (induction n) (auto simp: pm_set_shard_def fun_eq_iff)

lemma strategy_watches_found:
  assumes "shard_ok m i (pmShards m i)"
  shows "distinct (map fst (strategy_watches m sid i)) \<and>
    (\<forall>(oid, a)\<in>set (strategy_watches m sid i). map_of (shByOrder (pmShards m i)) oid = Some a)"
  using shard_ok_distinct(1) [OF assms] by (auto simp: strategy_watches_def distinct_map_filter)

lemma length_filter_concat:
  "int (length (filter P (concat (map f [0..<n])))) = sum (\<lambda>i. int (length (filter P (f i)))) {..<n}"
  by (induction n) simp_all

lemma inv_UnwatchByStrategy:
  assumes "pm_inv m"
  shows "pm_inv (fst (UnwatchByStrategy sid m))"
proof -
  let ?F = "\<lambda>i. drop_all m (strategy_watches m sid i) (pmShards m i)"
  let ?found = "concat (map (strategy_watches m sid) [0..<shardCount])"
  let ?toks = "map (\<lambda>(_, a). stock_token (order_of m a)) ?found"
  let ?P = "\<lambda>tok (_ :: uuid, a). stock_token (order_of m a) = tok"
  define m1 where "m1 = m\<lparr>pmShards := (\<lambda>i. if i < shardCount then ?F i else pmShards m i)\<rparr>"
  define m2 where "m2 = fst (UnwatchByStrategy sid m)"
  have m2: "m2 = (if ?found = [] then m1 else pm_feed (PmUnsubscribe ?toks) m1)"
    by (simp only: m2_def UnwatchByStrategy_def Let_def foldl_set_shard m1_def fst_conv)
  have same: "pmEntries m2 = pmEntries m" "pmHasWS m2 = pmHasWS m" "pm_jobs m2 = pm_jobs m"
    "pmShards m2 = (\<lambda>i. if i < shardCount then ?F i else pmShards m i)"
    by (simp_all add: m2 m1_def pm_feed_def pm_emit_def pm_jobs_def)
  have drop: "shard_ok m i (?F i)" "shard_count m tok (?F i) = shard_count m tok (pmShards m i) -
      int (length (filter (?P tok) (strategy_watches m sid i)))" for i tok
    using drop_all_ok [OF inv_shard [OF assms], of "strategy_watches m sid i" i tok]
      strategy_watches_found [OF inv_shard [OF assms], of sid i] by auto
  have k: "keeps_entries m m2" by (rule keeps_same) (rule same)
  have "index_ok m2"
    using shard_ok_keeps [OF drop(1) k] shard_ok_keeps [OF inv_shard [OF assms] k] by (simp add: index_ok_def same(4))
  moreover have "balance m2 tok = watched_count m2 tok" if "pmHasWS m" for tok
  proof -
    have "watched_count m2 tok = watched_count m tok - int (length (filter (?P tok) ?found))"
      by (simp add: watched_count_def same(4) shard_count_keeps [OF drop(1) k] drop(2) sum_subtractf length_filter_concat)
    moreover have "length (filter (\<lambda>t. t = tok) ?toks) = length (filter (?P tok) ?found)"
      by (simp only: filter_map length_map) (simp add: comp_def case_prod_unfold)
    then have "balance m2 tok = balance m tok - int (length (filter (?P tok) ?found))"
      using that unfolding m2 by (auto simp: balance_def pm_feed_def pm_emit_def m1_def)
    ultimately show ?thesis using assms that by (simp add: pm_inv_def)
  qed
  ultimately show ?thesis using assms same unfolding pm_inv_def m2_def [symmetric] by metis
qed

section \<open>All steps\<close>

lemma offer_entries: "pmEntries (offer ltp m a) = pmEntries m"
  by (simp add: offer_def)

lemma inv_offer:
  assumes "pm_inv m" "a < length (pmEntries m)"
  shows "pm_inv (offer ltp m a)"
proof -
  let ?m = "m\<lparr>pmEvalCh := pmEvalCh m @ [(a, ltp)]\<rparr>"
  have k: "keeps_entries m ?m" by (rule keeps_same) simp
  have "watched_count ?m tok = watched_count m tok" for tok
    by (simp add: watched_count_def shard_count_keeps [OF inv_shard [OF assms(1)] k])
  moreover have "index_ok ?m" using shard_ok_keeps [OF inv_shard [OF assms(1)] k] by (simp add: index_ok_def)
  ultimately have "pm_inv ?m" using assms by (auto simp: pm_inv_def pm_jobs_def balance_def)
  then show ?thesis using assms by (simp add: offer_def)
qed

lemma inv_offers:
  "pm_inv m \<Longrightarrow> \<forall>a\<in>set as. a < length (pmEntries m) \<Longrightarrow> pm_inv (foldl (offer ltp) m as)"
  by (induction as arbitrary: m) (simp_all add: inv_offer offer_entries)

lemma inv_evaluateStock: "pm_inv m \<Longrightarrow> pm_inv (evaluateStock key ltp m)"
  unfolding evaluateStock_def using watchers_range [OF inv_shard] by (intro inv_offers) blast+

lemma inv_evaluate_prices: "pm_inv m \<Longrightarrow> pm_inv (evaluate_prices ltps keys m)"
  unfolding evaluate_prices_def
  by (induction keys arbitrary: m) (simp_all add: inv_evaluateStock split: option.split)

lemma inv_fallback: "pm_inv m \<Longrightarrow> pm_inv (checkPricesFallback healthy wss redis order m)"
  by (simp add: checkPricesFallback_def Let_def inv_evaluate_prices split: option.split)

lemma inv_jobs:
  assumes "pm_inv m" "pmShards m' = pmShards m" "pmEntries m' = pmEntries m" "pmHasWS m' = pmHasWS m"
    "pmOut m' = pmOut m" "pm_jobs m' \<subseteq> pm_jobs m"
  shows "pm_inv m'"
  by (rule index_frame_inv [OF _ assms(1)]) (use assms in \<open>simp add: index_frame_def keeps_same balance_def\<close>)

lemma job_range: "pm_inv m \<Longrightarrow> a \<in> pm_jobs m \<Longrightarrow> a < length (pmEntries m)"
  by (simp add: pm_inv_def)

lemma inv_worker: "pm_inv m \<Longrightarrow> pm_inv (pm_worker m)"
proof (cases "pmEvalCh m")
  case (Cons x rest)
  assume inv: "pm_inv m"
  obtain a ltp where x: "x = (a, ltp)" by fastforce
  have m1: "pm_inv (m\<lparr>pmEvalCh := rest\<rparr>)" by (rule inv_jobs [OF inv]) (auto simp: pm_jobs_def Cons)
  have "a < length (pmEntries m)" by (rule job_range [OF inv]) (simp add: pm_jobs_def Cons x)
  with m1 show ?thesis by (simp add: pm_worker_def Cons x Let_def inv_spawn task_entry_def)
qed (simp add: pm_worker_def)

lemma Unwatch_entries [simp]: "pmEntries (Unwatch oid m) = pmEntries m"
  by (simp add: Unwatch_def pm_feed_def pm_emit_def pm_set_shard_def split: option.split)

lemma inv_status: "pm_inv m \<Longrightarrow> pm_inv (pm_update_status env oid st m)"
  by (simp add: pm_update_status_def Let_def inv_emit inv_db)

lemma inv_record: "pm_inv m \<Longrightarrow> pm_inv (pm_record oid kind m)" "pm_inv m \<Longrightarrow> pm_inv (pm_announce oid kind m)"
  by (simp_all add: pm_record_def pm_announce_def inv_emit)

lemma inv_mark: "pm_inv m \<Longrightarrow> pm_inv (mark_cancelled env oid kind m)"
  by (simp add: mark_cancelled_def inv_record inv_status)

lemma record_entries [simp]:
  "pmEntries (pm_record oid kind m) = pmEntries m" "pmEntries (pm_announce oid kind m) = pmEntries m"
  by (simp_all add: pm_record_def pm_announce_def pm_emit_def)

lemma inv_cancel: "pm_inv m \<Longrightarrow> pm_inv (fst (CancelWatch env oid user m))"
  by (simp add: CancelWatch_def inv_Unwatch inv_record inv_mark split: option.split)

lemma fst_cancel_batch:
  "fst (CancelWatchBatch env (oid # oids) user m) = fst (CancelWatchBatch env oids user (fst (CancelWatch env oid user m)))"
  by (simp split: prod.split)

lemma inv_cancel_batch: "pm_inv m \<Longrightarrow> pm_inv (fst (CancelWatchBatch env oids user m))"
proof (induction oids arbitrary: m)
  case (Cons oid oids)
  from Cons.IH [OF inv_cancel [OF Cons.prems, of env oid user]] show ?case unfolding fst_cancel_batch .
qed simp

lemma inv_reload: "pm_inv m \<Longrightarrow> pm_inv (reloadFromDB rows m)"
proof -
  have "pm_inv m \<Longrightarrow> pm_inv (foldl (\<lambda>s o1. case oPrice o1 of None \<Rightarrow> s | Some p \<Rightarrow> Watch o1 p False s) m os)" for os
    by (induction os arbitrary: m) (simp_all add: inv_Watch split: option.split)
  then show "pm_inv m \<Longrightarrow> ?thesis" by (simp add: reloadFromDB_def split: option.split)
qed

lemma keeps_promote: "keeps_entry e (e\<lparr>weOrder := promote env e ltp\<rparr>)"
  by (simp add: keeps_entry_def promote_def promote_to_def)

lemma keeps_executed:
  "keeps_entry e (e\<lparr>weOrder := executed_order env (weOrder e)\<rparr>)"
  "keeps_entry e (e\<lparr>weOrder := executed_order env (weOrder e), weTriggerAttempts := n\<rparr>)"
  "keeps_entry e (e\<lparr>weOrder := executed_order env (weOrder e), weTriggerAttempts := n, weTriggered := b\<rparr>)"
  by (simp_all add: keeps_entry_def executed_order_def)

lemma length_set_entry [simp]: "length (pmEntries (set_entry a e m)) = length (pmEntries m)"
  by (simp add: set_entry_def)

lemma inv_run_task:
  assumes "pm_inv m" "task_entry t < length (pmEntries m)"
  shows "pm_inv (run_pm_task env t m)"
proof (cases t)
  case (PmEvaluate a ltp)
  have e: "pm_inv (set_entry a ((pmEntries m ! a)\<lparr>weTriggered := 1\<rparr>) m)"
    by (rule inv_entry [OF assms(1)]) (simp add: keeps_entry_def)
  then show ?thesis
    using assms PmEvaluate by (simp add: run_pm_task_def evaluateEntry_def Let_def inv_spawn task_entry_def)
next
  case (PmSkip a ltp)
  then show ?thesis using assms(1) by (simp add: run_pm_task_def skip_order_def inv_Unwatch inv_mark)
next
  case (PmTrigger a ltp)
  have e: "pm_inv (set_entry a ((pmEntries m ! a)\<lparr>weOrder := promote env (pmEntries m ! a) ltp\<rparr>) m)"
    by (rule inv_entry [OF assms(1) keeps_promote])
  then show ?thesis using assms PmTrigger
    by (simp add: run_pm_task_def trigger_prepare_def prepare_entry_def inv_Unwatch inv_record inv_spawn task_entry_def)
next
  case (PmPlace a ltp)
  have x: "pm_inv (pm_emit (PmExecute a ltp q b) m)" "pmEntries (pm_emit (PmExecute a ltp q b) m) ! a = pmEntries m ! a" for q b
    by (simp_all add: inv_emit assms(1)) (simp add: pm_emit_def)
  have s: "pm_inv (set_entry a e (pm_emit (PmExecute a ltp q b) m))" if "keeps_entry (pmEntries m ! a) e" for e q b
    by (rule inv_entry [OF x(1)]) (simp only: x(2) that)
  show ?thesis using PmPlace
    by (simp add: run_pm_task_def place_triggered_def place_entry_def placed_ok_def placed_bad_def s inv_Unwatch inv_emit
        keeps_executed)
qed

lemma inv_schedule: "pm_inv m \<Longrightarrow> pm_inv (pm_schedule env i m)"
proof -
  assume inv: "pm_inv m"
  show ?thesis
  proof (cases "i < length (pmTasks m)")
    case True
    let ?m = "m\<lparr>pmTasks := take i (pmTasks m) @ drop (Suc i) (pmTasks m)\<rparr>"
    have "set (pmTasks ?m) \<subseteq> set (pmTasks m)" using set_take_subset set_drop_subset by fastforce
    then have "pm_inv ?m" by (intro inv_jobs [OF inv]) (auto simp: pm_jobs_def)
    moreover have "task_entry (pmTasks m ! i) < length (pmEntries ?m)"
      using job_range [OF inv] True by (simp add: pm_jobs_def)
    ultimately show ?thesis using True by (simp add: pm_schedule_def inv_run_task)
  qed (simp add: pm_schedule_def inv)
qed

lemma inv_new: "pm_inv (NewPriceMonitor ws repo kafka db)"
  by (simp add: NewPriceMonitor_def pm_inv_def index_ok_def shard_ok_def pm_jobs_def balance_def watched_count_def
      shard_count_def)

lemma reachable_inv: "pm_reachable m \<Longrightarrow> pm_inv m"
proof (induction rule: pm_reachable.induct)
  case (step m a)
  then show ?case
    by (cases a) (simp_all add: inv_Watch inv_Unwatch inv_UnwatchByStrategy PmOnPriceUpdate_def inv_evaluateStock
        inv_fallback inv_worker inv_schedule inv_cancel_batch inv_reload inv_db)
qed (rule inv_new)

end
