(* ===== verification/PmExec.thy ===== *)
theory PmExec
  imports PmIndex
begin

text \<open>
  Execution by the price monitor: an entry is executed at most three times and with success
  at most once, each time because the price met its condition. Both are invariants of the
  reachable states.
\<close>

section \<open>What an operation leaves alone\<close>

text \<open>
  \<open>calm\<close> relates states between which no entry changed and no goroutine that executes orders
  came, went or ran; all operations on the index are of this kind.
\<close>

definition executing :: "pm_task \<Rightarrow> bool" where
  "executing t = (case t of PmTrigger _ _ \<Rightarrow> True | PmPlace _ _ \<Rightarrow> True | _ \<Rightarrow> False)"

definition is_execute :: "pm_effect \<Rightarrow> bool" where
  "is_execute x = (case x of PmExecute _ _ _ _ \<Rightarrow> True | _ \<Rightarrow> False)"

definition executions :: "pm_state \<Rightarrow> pm_effect list" where
  "executions m = filter is_execute (pmOut m)"

definition goroutines :: "pm_state \<Rightarrow> pm_task list" where
  "goroutines m = filter executing (pmTasks m)"

definition calm :: "pm_state \<Rightarrow> pm_state \<Rightarrow> bool" where
  "calm m m' \<longleftrightarrow> pmEntries m' = pmEntries m \<and> goroutines m' = goroutines m \<and> executions m' = executions m"

lemma calm_refl [simp]: "calm m m"
  by (simp add: calm_def)

lemma calm_trans: "calm m1 m2 \<Longrightarrow> calm m2 m3 \<Longrightarrow> calm m1 m3"
  by (simp add: calm_def)

lemma calm_emit: "\<not> is_execute x \<Longrightarrow> calm m (pm_emit x m)"
  by (simp add: calm_def pm_emit_def executions_def goroutines_def)

lemma calm_set_shard [simp]: "calm m (pm_set_shard i sh m)"
  by (simp add: calm_def pm_set_shard_def executions_def goroutines_def)

lemma calm_foldl: "(\<And>s x. calm s (f s x)) \<Longrightarrow> calm m (foldl f m xs)"
  by (induction xs arbitrary: m) (auto intro: calm_trans)

lemma calm_db [simp]: "calm m (m\<lparr>pmDB := db\<rparr>)"
  by (simp add: calm_def executions_def goroutines_def)

lemma calm_queue [simp]: "calm m (m\<lparr>pmEvalCh := q\<rparr>)"
  by (simp add: calm_def executions_def goroutines_def)

lemma calm_spawn: "\<not> executing t \<Longrightarrow> calm m (pm_spawn t m)"
  by (simp add: calm_def pm_spawn_def executions_def goroutines_def)

lemmas not_execute [simp] = is_execute_def [where x = "PmSubscribe t" for t, simplified]
  is_execute_def [where x = "PmUnsubscribe t" for t, simplified]
  is_execute_def [where x = "PmUpdateStatus i s" for i s, simplified]
  is_execute_def [where x = "PmEvent i s" for i s, simplified]
  is_execute_def [where x = "PmPublish i s" for i s, simplified]
  is_execute_def [where x = "PmAfterFill i s" for i s, simplified]
  is_execute_def [where x = "PmExecute a l q b" for a l q b, simplified]

lemma calm_feed: "calm m m' \<Longrightarrow> \<not> is_execute x \<Longrightarrow> calm m (pm_feed x m')"
  by (auto simp: pm_feed_def intro: calm_trans [OF _ calm_emit])

lemma calm_Unwatch [simp]: "calm m (Unwatch oid m)"
  by (auto simp: Unwatch_def split: option.split intro!: calm_feed)

lemma calm_UnwatchByStrategy: "calm m (fst (UnwatchByStrategy sid m))"
  by (auto simp: UnwatchByStrategy_def Let_def intro!: calm_feed calm_foldl)

lemma calm_offer [simp]: "calm m (offer ltp m a)"
  by (simp add: offer_def)

lemma calm_evaluateStock [simp]: "calm m (evaluateStock key ltp m)"
  by (simp add: evaluateStock_def calm_foldl)

lemma calm_evaluate_prices [simp]: "calm m (evaluate_prices ltps keys m)"
  unfolding evaluate_prices_def by (rule calm_foldl) (simp split: option.split)

lemma calm_prices_after: "calm m m' \<Longrightarrow> calm m (evaluate_prices ltps keys m')"
  by (rule calm_trans [OF _ calm_evaluate_prices])

lemma calm_fallback: "calm m (checkPricesFallback healthy wss redis order m)"
  by (auto simp: checkPricesFallback_def Let_def split: option.split intro!: calm_prices_after)

lemma calm_worker: "calm m (pm_worker m)"
  by (auto simp: pm_worker_def Let_def executing_def split: list.split
      intro: calm_trans [OF calm_queue calm_spawn])

lemma calm_status [simp]: "calm m (pm_update_status env oid st m)"
  by (auto simp: pm_update_status_def Let_def intro: calm_emit calm_trans [OF calm_emit calm_db])

lemma calm_status_after: "calm m m' \<Longrightarrow> calm m (pm_update_status env oid st m')"
  by (rule calm_trans [OF _ calm_status])

lemma calm_record_after:
  assumes "calm m m'"
  shows "calm m (pm_record oid kind m')" "calm m (pm_announce oid kind m')" "calm m (mark_cancelled env oid kind m')"
proof -
  have e: "calm m (pm_emit x s)" if "calm m s" "\<not> is_execute x" for x s
    using calm_trans [OF that(1) calm_emit [OF that(2)]] .
  show "calm m (pm_record oid kind m')" "calm m (pm_announce oid kind m')" "calm m (mark_cancelled env oid kind m')"
    using assms by (simp_all add: pm_record_def pm_announce_def mark_cancelled_def e calm_status_after)
qed

lemma calm_skip: "calm m (skip_order env a m)"
  unfolding skip_order_def by (intro calm_record_after calm_Unwatch)

lemma calm_cancel: "calm m (fst (CancelWatch env oid user m))"
  by (auto simp: CancelWatch_def split: option.split intro!: calm_record_after)

lemma calm_cancel_batch: "calm m (fst (CancelWatchBatch env oids user m))"
proof (induction oids arbitrary: m)
  case (Cons oid oids)
  show ?case unfolding fst_cancel_batch by (rule calm_trans [OF calm_cancel Cons])
qed simp

section \<open>The invariant\<close>

text \<open>Counters of one entry: goroutines that execute it, executions, and successful ones.\<close>

definition flights :: "pm_state \<Rightarrow> nat \<Rightarrow> nat" where
  "flights m a = length (filter (\<lambda>t. task_entry t = a) (goroutines m))"

definition effect_entry :: "pm_effect \<Rightarrow> nat option" where
  "effect_entry x = (case x of PmExecute a _ _ _ \<Rightarrow> Some a | _ \<Rightarrow> None)"

definition succeeded :: "pm_effect \<Rightarrow> bool" where
  "succeeded x = (case x of PmExecute _ _ _ b \<Rightarrow> b | _ \<Rightarrow> False)"

definition tries :: "pm_state \<Rightarrow> nat \<Rightarrow> nat" where
  "tries m a = length (filter (\<lambda>x. effect_entry x = Some a) (executions m))"

definition successes :: "pm_state \<Rightarrow> nat \<Rightarrow> nat" where
  "successes m a = length (filter (\<lambda>x. effect_entry x = Some a \<and> succeeded x) (executions m))"

definition entry_ok :: "pm_state \<Rightarrow> nat \<Rightarrow> bool" where
  "entry_ok m a \<longleftrightarrow>
     (let e = pmEntries m ! a
      in int (tries m a) = weTriggerAttempts e + int (successes m a) \<and> successes m a \<le> 1 \<and> flights m a \<le> 1 \<and>
         (flights m a = 1 \<longrightarrow> weTriggered e \<noteq> 0) \<and>
         (flights m a = 1 \<or> weTriggered e = 0 \<longrightarrow> weTriggerAttempts e \<le> 2 \<and> successes m a = 0) \<and>
         weTriggerAttempts e \<le> 3 \<and> (successes m a = 1 \<longrightarrow> weTriggerAttempts e \<le> 2))"

text \<open>Beyond the last entry there is nothing.\<close>

definition pm_ok :: "pm_state \<Rightarrow> bool" where
  "pm_ok m \<longleftrightarrow> (\<forall>a<length (pmEntries m). entry_ok m a) \<and>
     (\<forall>a\<ge>length (pmEntries m). flights m a = 0 \<and> tries m a = 0)"

lemma counters_calm:
  assumes "calm m m'"
  shows "flights m' a = flights m a" "tries m' a = tries m a" "successes m' a = successes m a"
  using assms by (simp_all add: calm_def flights_def tries_def successes_def)

lemma pm_ok_calm: "calm m m' \<Longrightarrow> pm_ok m \<Longrightarrow> pm_ok m'"
  unfolding pm_ok_def entry_ok_def Let_def
  by (simp add: counters_calm) (simp add: calm_def)

lemma counters_simps [simp]:
  "flights (set_entry b e m) a = flights m a" "tries (set_entry b e m) a = tries m a"
  "successes (set_entry b e m) a = successes m a" "flights (pm_emit x m) a = flights m a"
  "tries (pm_spawn t m) a = tries m a" "successes (pm_spawn t m) a = successes m a"
  "flights (pm_spawn t m) a = flights m a + (if executing t \<and> task_entry t = a then 1 else 0)"
  "tries (pm_emit x m) a = tries m a + (if effect_entry x = Some a then 1 else 0)"
  "successes (pm_emit x m) a = successes m a + (if effect_entry x = Some a \<and> succeeded x then 1 else 0)"
  by (auto simp: flights_def tries_def successes_def goroutines_def executions_def set_entry_def pm_emit_def
      pm_spawn_def effect_entry_def is_execute_def split: pm_effect.splits)

lemma entries_simps [simp]:
  "pmEntries (pm_emit x m) = pmEntries m" "pmEntries (pm_spawn t m) = pmEntries m"
  "pmEntries (set_entry a e m) = (pmEntries m)[a := e]"
  by (simp_all add: pm_emit_def pm_spawn_def set_entry_def)

lemma pm_ok_successes: "pm_ok m \<Longrightarrow> length (pmEntries m) \<le> a \<Longrightarrow> successes m a = 0"
proof -
  assume "pm_ok m" "length (pmEntries m) \<le> a"
  then have "tries m a = 0" by (simp add: pm_ok_def)
  then show ?thesis by (auto simp: tries_def successes_def filter_empty_conv)
qed

text \<open>One entry may change, with its own counters, when it ends up in order.\<close>

lemma pm_ok_entry:
  assumes "pm_ok m" "length (pmEntries m') = length (pmEntries m)" "a < length (pmEntries m)"
    "\<And>b. b \<noteq> a \<Longrightarrow> pmEntries m' ! b = pmEntries m ! b \<and> flights m' b = flights m b \<and>
       tries m' b = tries m b \<and> successes m' b = successes m b"
    "entry_ok m' a"
  shows "pm_ok m'"
proof -
  have "entry_ok m' b = entry_ok m b" if "b \<noteq> a" for b
    using assms(4) [OF that] by (simp add: entry_ok_def)
  then show ?thesis using assms unfolding pm_ok_def by (metis leD)
qed

lemma entry_ok_cong:
  assumes "flights m' a = flights m a" "tries m' a = tries m a" "successes m' a = successes m a"
    "weTriggered (pmEntries m' ! a) = weTriggered (pmEntries m ! a)"
    "weTriggerAttempts (pmEntries m' ! a) = weTriggerAttempts (pmEntries m ! a)"
  shows "entry_ok m' a = entry_ok m a"
  using assms by (simp add: entry_ok_def Let_def)

section \<open>The steps\<close>

lemma Watch_appends:
  "Watch o1 target hook m = m \<or>
   (\<exists>e. pmEntries (Watch o1 target hook m) = pmEntries m @ [e] \<and> weTriggered e = 0 \<and> weTriggerAttempts e = 0) \<and>
   goroutines (Watch o1 target hook m) = goroutines m \<and> executions (Watch o1 target hook m) = executions m"
  by (auto simp: Watch_def watch_entry_def watch_in_def add_entry_def new_entry_def pm_feed_def goroutines_def
      executions_def pm_emit_def pm_set_shard_def)

lemma pm_ok_Watch:
  assumes "pm_ok m"
  shows "pm_ok (Watch o1 target hook m)"
proof (cases "Watch o1 target hook m = m")
  case False
  let ?m = "Watch o1 target hook m"
  obtain e where e: "pmEntries ?m = pmEntries m @ [e]" "weTriggered e = 0" "weTriggerAttempts e = 0"
    and g: "goroutines ?m = goroutines m" "executions ?m = executions m"
    using Watch_appends [of o1 target hook m] False by blast
  have c: "flights ?m a = flights m a" "tries ?m a = tries m a" "successes ?m a = successes m a" for a
    by (simp_all add: flights_def tries_def successes_def g)
  have "entry_ok ?m a" if "a < length (pmEntries ?m)" for a
  proof (cases "a = length (pmEntries m)")
    case True
    then show ?thesis
      using assms pm_ok_successes [OF assms, of a] by (simp add: entry_ok_def c e pm_ok_def)
  next
    case False
    then have "a < length (pmEntries m)" using that e(1) by simp
    then show ?thesis using assms entry_ok_cong [OF c, of a] by (simp add: e(1) nth_append pm_ok_def)
  qed
  then show ?thesis using assms by (simp add: pm_ok_def c e(1))
qed (simp add: assms)

lemma pm_ok_reload: "pm_ok m \<Longrightarrow> pm_ok (reloadFromDB rows m)"
proof -
  have "pm_ok m \<Longrightarrow> pm_ok (foldl (\<lambda>s o1. case oPrice o1 of None \<Rightarrow> s | Some p \<Rightarrow> Watch o1 p False s) m os)" for os
    by (induction os arbitrary: m) (simp_all add: pm_ok_Watch split: option.split)
  then show "pm_ok m \<Longrightarrow> ?thesis" by (simp add: reloadFromDB_def split: option.split)
qed

lemma pm_ok_evaluate:
  assumes "pm_ok m" "a < length (pmEntries m)"
  shows "pm_ok (evaluateEntry a ltp m)"
proof -
  let ?e = "pmEntries m ! a"
  have ok: "entry_ok m a" using assms by (simp add: pm_ok_def)
  have set: "pm_ok (pm_spawn t (set_entry a (?e\<lparr>weTriggered := 1\<rparr>) m))"
    if "task_entry t = a" "executing t \<longrightarrow> weTriggered ?e = 0" for t
  proof (rule pm_ok_entry [OF assms(1) _ assms(2)])
    have "flights m a = 0" if "weTriggered ?e = 0" using ok that by (simp add: entry_ok_def Let_def)
    then show "entry_ok (pm_spawn t (set_entry a (?e\<lparr>weTriggered := 1\<rparr>) m)) a"
      using ok that assms(2) by (auto simp: entry_ok_def Let_def)
  qed (use that in auto)
  show ?thesis using assms(1) set [of "PmSkip a ltp"] set [of "PmTrigger a ltp"]
    by (simp add: evaluateEntry_def Let_def task_entry_def executing_def)
qed

text \<open>A goroutine that executes has left the list when it runs: its entry is \<open>landed\<close>.\<close>

definition landed :: "pm_state \<Rightarrow> nat \<Rightarrow> bool" where
  "landed m a \<longleftrightarrow> flights m a = 0 \<and> weTriggered (pmEntries m ! a) \<noteq> 0 \<and>
     weTriggerAttempts (pmEntries m ! a) \<le> 2 \<and> successes m a = 0 \<and>
     int (tries m a) = weTriggerAttempts (pmEntries m ! a)"

definition others_ok :: "pm_state \<Rightarrow> nat \<Rightarrow> bool" where
  "others_ok m a \<longleftrightarrow> a < length (pmEntries m) \<and> (\<forall>b<length (pmEntries m). b \<noteq> a \<longrightarrow> entry_ok m b) \<and>
     (\<forall>b\<ge>length (pmEntries m). flights m b = 0 \<and> tries m b = 0)"

definition without_task :: "nat \<Rightarrow> pm_state \<Rightarrow> pm_state" where
  "without_task i m = m\<lparr>pmTasks := take i (pmTasks m) @ drop (Suc i) (pmTasks m)\<rparr>"

lemma without_task_simps [simp]:
  "pmEntries (without_task i m) = pmEntries m" "executions (without_task i m) = executions m"
  "pmHasRepo (without_task i m) = pmHasRepo m"
  "tries (without_task i m) a = tries m a" "successes (without_task i m) a = successes m a"
  by (simp_all add: without_task_def executions_def tries_def successes_def)

lemma without_task_goroutines:
  assumes "i < length (pmTasks m)"
  shows "goroutines m = filter executing (take i (pmTasks m)) @ filter executing [pmTasks m ! i] @
      filter executing (drop (Suc i) (pmTasks m))"
    "goroutines (without_task i m) = filter executing (take i (pmTasks m)) @ filter executing (drop (Suc i) (pmTasks m))"
  unfolding goroutines_def by (subst id_take_nth_drop [OF assms]) (simp_all add: without_task_def)

lemma without_task_flights:
  assumes "i < length (pmTasks m)"
  shows "flights m a = flights (without_task i m) a +
    (if executing (pmTasks m ! i) \<and> task_entry (pmTasks m ! i) = a then 1 else 0)"
  unfolding flights_def without_task_goroutines [OF assms] by simp

lemma without_task_landed:
  assumes "pm_ok m" "i < length (pmTasks m)" "executing (pmTasks m ! i)" "a = task_entry (pmTasks m ! i)"
    "a < length (pmEntries m)"
  shows "landed (without_task i m) a \<and> others_ok (without_task i m) a"
proof -
  have f: "flights m a = Suc (flights (without_task i m) a)"
    using without_task_flights [OF assms(2), of a] assms(3,4) by simp
  have ok: "entry_ok m a" using assms(1,5) by (simp add: pm_ok_def)
  then have "landed (without_task i m) a" using f by (auto simp: entry_ok_def landed_def Let_def)
  moreover have "flights (without_task i m) b = flights m b" if "b \<noteq> a" for b
    using without_task_flights [OF assms(2), of b] assms(4) that by simp
  then have "others_ok (without_task i m) a"
    using assms(1,5) entry_ok_cong [of "without_task i m" _ m] unfolding others_ok_def pm_ok_def by auto
  ultimately show ?thesis by blast
qed

lemma pm_ok_landing:
  assumes "others_ok m a" "length (pmEntries m') = length (pmEntries m)"
    "\<And>b. b \<noteq> a \<Longrightarrow> pmEntries m' ! b = pmEntries m ! b \<and> flights m' b = flights m b \<and>
       tries m' b = tries m b \<and> successes m' b = successes m b"
    "entry_ok m' a"
  shows "pm_ok m'"
proof -
  have "entry_ok m' b = entry_ok m b" if "b \<noteq> a" for b
    using assms(3) [OF that] by (simp add: entry_ok_def)
  then show ?thesis using assms unfolding pm_ok_def others_ok_def by (metis leD)
qed

lemma landed_ok: "landed m a \<Longrightarrow> entry_ok m a"
  by (simp add: landed_def entry_ok_def Let_def)

lemma landed_all: "landed m a \<Longrightarrow> others_ok m a \<Longrightarrow> pm_ok m"
  using landed_ok by (fastforce simp: others_ok_def pm_ok_def)

lemma pm_ok_prepare:
  assumes "landed m a" "others_ok m a"
  shows "pm_ok (trigger_prepare env a ltp m)"
proof -
  let ?e = "pmEntries m ! a"
  let ?m = "set_entry a (?e\<lparr>weOrder := promote env ?e ltp\<rparr>) m"
  have a: "a < length (pmEntries m)" using assms(2) by (simp add: others_ok_def)
  have "pm_ok (pm_spawn (PmPlace a ltp) s)" if "calm ?m s" for s
  proof (rule pm_ok_landing [OF assms(2)])
    have s: "pmEntries s = pmEntries ?m" using that by (simp add: calm_def)
    note c = counters_calm [OF that]
    show "length (pmEntries (pm_spawn (PmPlace a ltp) s)) = length (pmEntries m)" by (simp add: s)
    show "entry_ok (pm_spawn (PmPlace a ltp) s) a"
      using assms(1) a by (auto simp: s c task_entry_def executing_def landed_def entry_ok_def Let_def)
    show "pmEntries (pm_spawn (PmPlace a ltp) s) ! b = pmEntries m ! b \<and>
        flights (pm_spawn (PmPlace a ltp) s) b = flights m b \<and> tries (pm_spawn (PmPlace a ltp) s) b = tries m b \<and>
        successes (pm_spawn (PmPlace a ltp) s) b = successes m b" if "b \<noteq> a" for b
      using that by (simp add: s c task_entry_def)
  qed
  then show ?thesis using pm_ok_calm [OF calm_Unwatch landed_all [OF assms]]
    by (simp add: trigger_prepare_def prepare_entry_def calm_record_after)
qed

lemma pm_ok_place:
  assumes "landed m a" "others_ok m a"
  shows "pm_ok (place_triggered env a ltp m)"
proof -
  let ?e = "pmEntries m ! a"
  let ?m = "\<lambda>b. pm_emit (PmExecute a ltp (weOrder ?e) b) m"
  have a: "a < length (pmEntries m)" using assms(2) by (simp add: others_ok_def)
  have trig: "weTriggered ?e \<noteq> 0" "weTriggerAttempts ?e \<le> 2" using assms(1) by (simp_all add: landed_def)
  have good: "pm_ok (set_entry a (?e\<lparr>weOrder := q\<rparr>) (?m True))" for q
    by (rule pm_ok_landing [OF assms(2)])
      (use assms(1) a trig in \<open>auto simp: landed_def entry_ok_def Let_def effect_entry_def succeeded_def\<close>)
  have bad: "pm_ok (set_entry a e (?m False))"
    if "weTriggerAttempts e = weTriggerAttempts ?e + 1" "weTriggered e = 0 \<longrightarrow> weTriggerAttempts e \<le> 2" for e
    by (rule pm_ok_landing [OF assms(2)])
      (use assms(1) a that in \<open>auto simp: landed_def entry_ok_def Let_def effect_entry_def succeeded_def\<close>)
  have un: "pm_ok (Unwatch oid s)" if "pm_ok s" for oid s using pm_ok_calm [OF calm_Unwatch that] .
  have after: "pm_ok (pm_emit (PmAfterFill a q) s)" if "pm_ok s" for q s
    by (rule pm_ok_calm [OF calm_emit that]) simp
  show ?thesis using trig
    by (auto simp: place_triggered_def place_entry_def placed_ok_def placed_bad_def maxTriggerAttempts_def
        intro!: un after good bad)
qed

lemma pm_ok_schedule:
  assumes "pm_ok m" "pm_inv m"
  shows "pm_ok (pm_schedule env i m)"
proof (cases "i < length (pmTasks m)")
  case True
  let ?t = "pmTasks m ! i" and ?m = "without_task i m"
  have r: "task_entry ?t < length (pmEntries m)" using job_range [OF assms(2)] True by (simp add: pm_jobs_def)
  have run: "pm_schedule env i m = run_pm_task env ?t ?m" using True by (simp add: pm_schedule_def without_task_def)
  show ?thesis
  proof (cases "executing ?t")
    case e: True
    note l = without_task_landed [OF assms(1) True e refl r]
    then show ?thesis using e unfolding run
      by (cases ?t) (auto simp: run_pm_task_def executing_def task_entry_def intro: pm_ok_prepare pm_ok_place)
  next
    case False
    then have "calm m ?m" using without_task_goroutines [OF True] by (simp add: calm_def)
    then have ok: "pm_ok ?m" using assms(1) by (rule pm_ok_calm)
    then show ?thesis using False r unfolding run
      by (cases ?t) (auto simp: run_pm_task_def executing_def task_entry_def
          intro: pm_ok_evaluate pm_ok_calm [OF calm_skip])
  qed
qed (use assms in \<open>simp add: pm_schedule_def\<close>)

lemma pm_ok_new: "pm_ok (NewPriceMonitor ws repo kafka db)"
  by (simp add: pm_ok_def NewPriceMonitor_def flights_def tries_def goroutines_def executions_def)

lemma reachable_pm_ok: "pm_reachable m \<Longrightarrow> pm_ok m"
proof (induction rule: pm_reachable.induct)
  case (step m a)
  have "calm m (PmOnPriceUpdate key ltp m)" for key ltp by (simp add: PmOnPriceUpdate_def)
  with step show ?case
    by (cases a) (auto intro: pm_ok_calm [OF calm_Unwatch] pm_ok_calm [OF calm_db] pm_ok_calm pm_ok_Watch pm_ok_reload calm_UnwatchByStrategy calm_fallback
        calm_worker calm_cancel_batch pm_ok_schedule reachable_inv)
qed (rule pm_ok_new)

end
