(* ===== verification/PmProps.thy ===== *)
theory PmProps
  imports PmExec
begin

text \<open>
  The properties of the price monitor over its reachable states, and what its retries, its
  cancellation and its reload do.
\<close>

section \<open>Only at the right price\<close>























section \<open>The properties\<close>

text \<open>
  C37. Executions of a watch. In every reachable state, whatever the interleaving of ticks,
  workers, goroutines, cancellations and reloads, the executor was called at most three times
  for a watch and succeeded at most once.
\<close>

theorem executed_at_most_once:
  assumes "pm_reachable m"
  shows "tries m a \<le> 3 \<and> successes m a \<le> 1"
proof (cases "a < length (pmEntries m)")
  case True
  then have "entry_ok m a" using reachable_pm_ok [OF assms] by (simp add: pm_ok_def)
  then show ?thesis by (auto simp: entry_ok_def Let_def)
next
  case False
  then show ?thesis
    using reachable_pm_ok [OF assms] pm_ok_successes [OF reachable_pm_ok [OF assms], of a] by (simp add: pm_ok_def)
qed


text \<open>
  C39. The index. In every reachable state the two maps of each shard describe the same entries,
  each under its own order and stock and in the shard of its stock, without duplicates or empty
  lists, and at the feed every stock is subscribed exactly as often as it is watched.
\<close>

theorem watch_index_consistent:
  assumes "pm_reachable m"
  shows "index_ok m \<and> (pmHasWS m \<longrightarrow> balance m tok = watched_count m tok)"
  using reachable_inv [OF assms] by (simp_all add: pm_inv_def)

section \<open>Concrete runs\<close>

definition demo_watch :: Order where
  "demo_watch = zero_order\<lparr>oOrderID := 7, oUserID := ''u1'', oStrategyID := ''s1'', oStockCode := 2885,
     oExchange := ''NSE'', oOrderSide := ''BUY'', oOrderType := ''STOP_LOSS'', oProductType := ''BRACKET'',
     oMaxMonitorPrice := Some 105\<rparr>"

definition demo_pm_env :: "bool \<Rightarrow> pm_env" where
  "demo_pm_env ok = \<lparr>peReadFails = False, peWriteFails = False, peTickSize = None, peExecutes = ok,
     peStatus = ''SUBMITTED'', peFilledPrice = None, peFilledQuantity = 0, peIndiraOrderID = None\<rparr>"

definition demo_start :: pm_state where
  "demo_start = NewPriceMonitor True True False (\<lambda>i. if i = 7 then Some ''RECEIVED'' else None)"

definition demo_watched :: pm_state where
  "demo_watched = pm_feed (PmSubscribe ''2885'') (add_entry 20 (new_entry ''nse:2885'' demo_watch 100 False) demo_start)"

lemma demo_key: "stockKey (oExchange demo_watch) (oStockCode demo_watch) = ''nse:2885''" "stock_token demo_watch = ''2885''"
  by code_simp+

lemma demo_watch_shard: "shardFor ''nse:2885'' = 20"
  by code_simp

lemma demo_watching: "Watch demo_watch 100 False demo_start = demo_watched"
proof -
  have "map_of (shByOrder (pmShards demo_start 20)) (oOrderID demo_watch) = None"
    by (simp add: demo_start_def NewPriceMonitor_def)
  moreover have "weStockKey (new_entry k q t h) = k" "weOrder (new_entry k q t h) = q" for k q t h
    by (simp_all add: new_entry_def)
  ultimately show ?thesis
    by (simp add: Watch_def watch_entry_def watch_in_def demo_key demo_watch_shard demo_watched_def)
qed

definition pm_run :: "pm_op list \<Rightarrow> pm_state" where
  "pm_run ops = foldl (\<lambda>s a. pm_step a s) demo_watched ops"

lemma pm_run_ok: "pm_reachable (pm_run ops)"
proof -
  have "pm_reachable (pm_step (PmWatch demo_watch 100 False) demo_start)"
    unfolding demo_start_def by (intro pm_reachable.intros)
  then have "pm_reachable demo_watched" by (simp add: demo_watching)
  then show ?thesis unfolding pm_run_def by (rule pm_run_reachable)
qed

text \<open>A tick at 101, a worker, its decision, and the goroutine up to the executor's answer.\<close>

definition demo_trigger :: "bool \<Rightarrow> pm_op list" where
  "demo_trigger ok = [PmPrice ''nse:2885'' 101, PmWorker, PmRun (demo_pm_env ok) 0, PmRun (demo_pm_env ok) 0,
     PmRun (demo_pm_env ok) 0]"

definition shown :: "pm_effect \<Rightarrow> string" where
  "shown x = (case x of PmSubscribe t \<Rightarrow> ''subscribe'' | PmUnsubscribe ts \<Rightarrow> ''unsubscribe''
     | PmUpdateStatus i s \<Rightarrow> ''status '' @ s | PmEvent i s \<Rightarrow> ''event'' | PmPublish i s \<Rightarrow> ''publish''
     | PmExecute a l q b \<Rightarrow> if a = 0 \<and> l = 101 then if b then ''executed'' else ''rejected'' else ''other''
     | PmAfterFill a q \<Rightarrow> ''filled'')"

lemma demo_triggered:
  "map shown (pmOut (pm_run (demo_trigger True))) = [''subscribe'', ''event'', ''executed'', ''unsubscribe'']"
  by code_simp

theorem executed_at_most_once_witness:
  "tries (pm_run (demo_trigger True)) 0 \<le> 3 \<and> successes (pm_run (demo_trigger True)) 0 \<le> 1 \<and>
   ''executed'' \<in> set (map shown (pmOut (pm_run (demo_trigger True))))"
  using executed_at_most_once [OF pm_run_ok, of "demo_trigger True" 0] demo_triggered by simp


theorem watch_index_consistent_witness:
  "index_ok (pm_run []) \<and> balance (pm_run []) ''2885'' = watched_count (pm_run []) ''2885'' \<and>
   balance (pm_run []) ''2885'' = 1"
proof -
  have "pmHasWS (pm_run []) \<and> balance (pm_run []) ''2885'' = 1" by code_simp
  then show ?thesis
    using watch_index_consistent [OF pm_run_ok, of "[]"] by blast
qed

section \<open>Deactivating a strategy\<close>

lemma drop_all_orders:
  "map_of (shByOrder (drop_all m xs sh)) oid = (if oid \<in> fst ` set xs then None else map_of (shByOrder sh) oid)"
proof (induction xs arbitrary: sh)
  case (Cons x xs)
  obtain k b where x: "x = (k, b)" by fastforce
  have "map_of (shByOrder (drop_watch m k b sh)) oid = (if oid = k then None else map_of (shByOrder sh) oid)"
    by (simp add: drop_watch_def Let_def delete_conv')
  then show ?case using Cons [of "drop_watch m k b sh"] by (auto simp: x)
qed simp

lemma UnwatchByStrategy_shards:
  "pmShards (fst (UnwatchByStrategy sid m)) i =
     (if i < shardCount then drop_all m (strategy_watches m sid i) (pmShards m i) else pmShards m i)"
  by (simp add: UnwatchByStrategy_def Let_def foldl_set_shard pm_feed_def pm_emit_def)

text \<open>
  C40. Deactivation of a strategy. Afterwards an order is watched in a shard exactly if it was
  before and belongs to another strategy.
\<close>

theorem strategy_unwatched:
  assumes "pm_reachable m" "i < shardCount"
  shows "map_of (shByOrder (pmShards (fst (UnwatchByStrategy sid m)) i)) oid = Some a \<longleftrightarrow>
    map_of (shByOrder (pmShards m i)) oid = Some a \<and> oStrategyID (order_of m a) \<noteq> sid"
proof -
  have ok: "shard_ok m i (pmShards m i)" by (rule inv_shard [OF reachable_inv [OF assms(1)]])
  have "oid \<in> fst ` set (strategy_watches m sid i) \<longleftrightarrow>
      (\<exists>b. map_of (shByOrder (pmShards m i)) oid = Some b \<and> oStrategyID (order_of m b) = sid)"
    using shard_ok_distinct(1) [OF ok] by (force simp: strategy_watches_def image_iff)
  then show ?thesis using assms(2) by (auto simp: UnwatchByStrategy_shards drop_all_orders)
qed

theorem strategy_unwatched_witness:
  "map_of (shByOrder (pmShards (fst (UnwatchByStrategy ''s1'' (pm_run []))) 20)) 7 = None"
proof -
  have "map_of (shByOrder (pmShards (pm_run []) 20)) 7 = Some 0 \<and> oStrategyID (order_of (pm_run []) 0) = ''s1''"
    by code_simp
  then have "map_of (shByOrder (pmShards (fst (UnwatchByStrategy ''s1'' (pm_run []))) 20)) 7 \<noteq> Some a" for a
    using strategy_unwatched [OF pm_run_ok, of 20 "''s1''" "[]" 7 a] by (auto simp: shardCount_def)
  then show ?thesis by (cases "map_of (shByOrder (pmShards (fst (UnwatchByStrategy ''s1'' (pm_run []))) 20)) 7") auto
qed

section \<open>Findings\<close>

text \<open>
  A cancellation that returns success does not stop an execution that has begun: the goroutine
  checked the database before, and does not look again. The order is placed at the broker
  and stays CANCELLED in the database.
\<close>

lemma cancelled_watch_executes:
  "map shown (pmOut (pm_run [PmPrice ''nse:2885'' 101, PmWorker, PmRun (demo_pm_env True) 0,
      PmRun (demo_pm_env True) 0, PmCancel (demo_pm_env True) [7] ''u1'', PmRun (demo_pm_env True) 0])) =
   [''subscribe'', ''event'', ''unsubscribe'', ''status CANCELLED'', ''event'', ''executed'']"
  by code_simp

text \<open>
  The branch for an overshot price stores the flag without claiming it, so it can race with an
  execution: one worker executes the order at 101 while another cancels it at 110.
\<close>

lemma skip_races_with_execution:
  "map shown (pmOut (pm_run [PmPrice ''nse:2885'' 101, PmPrice ''nse:2885'' 110, PmWorker, PmWorker,
      PmRun (demo_pm_env True) 0, PmRun (demo_pm_env True) 0, PmRun (demo_pm_env True) 0,
      PmRun (demo_pm_env True) 0, PmRun (demo_pm_env True) 0])) =
   [''subscribe'', ''event'', ''unsubscribe'', ''status CANCELLED'', ''event'', ''executed'']"
  by code_simp

text \<open>
  The comment says the ratio of a leg to the target preserves the percentage exactly. A retry
  takes the ratio of the leg of the attempt before, so the stop moves up with every attempt:
  98 of a target of 100 becomes 98.5, then 99.
\<close>

lemma retry_moves_stop:
  "move_leg 100 (rnd (1005 / 10)) (rnd (5 / 100)) (Some 98) = Some (985 / 10)"
  "move_leg 100 (rnd (1005 / 10)) (rnd (5 / 100)) (Some (985 / 10)) = Some 99"
  by code_simp+

text \<open>The limit of a sell order, too, is set above the tick; the comment says it crosses the spread.\<close>

lemma sell_limit_above_tick: "100 < limit_from 100 (rnd (5 / 100))"
  by code_simp

text \<open>
  Orders reloaded after a restart have no hook, so the exit legs of the multi-level and OCO
  managers are never set up for them.
\<close>

lemma reload_forgets_hook:
  assumes "length (pmEntries m) \<le> a" "a < length (pmEntries (reloadFromDB rows m))"
  shows "\<not> weOnAfterFill (pmEntries (reloadFromDB rows m) ! a)"
proof -
  have w: "pmEntries (Watch q p False s) = pmEntries s \<or>
      (\<exists>e. pmEntries (Watch q p False s) = pmEntries s @ [e] \<and> \<not> weOnAfterFill e)" for q p s
    by (auto simp: Watch_def watch_entry_def watch_in_def add_entry_def new_entry_def pm_feed_def pm_emit_def pm_set_shard_def)
  have "\<exists>es. pmEntries (foldl (\<lambda>s q. case oPrice q of None \<Rightarrow> s | Some p \<Rightarrow> Watch q p False s) s os) = pmEntries s @ es \<and>
      (\<forall>e\<in>set es. \<not> weOnAfterFill e)" for s os
  proof (induction os arbitrary: s)
    case (Cons q os)
    show ?case
    proof (cases "oPrice q")
      case (Some p)
      from Cons [of "Watch q p False s"] w [of q p s] show ?thesis by (fastforce simp: Some)
    qed (use Cons in simp)
  qed simp
  then have fold: "\<exists>es. pmEntries (foldl (\<lambda>s q. case oPrice q of None \<Rightarrow> s | Some p \<Rightarrow> Watch q p False s) m os) =
      pmEntries m @ es \<and> (\<forall>e\<in>set es. \<not> weOnAfterFill e)" for os .
  have "\<exists>es. pmEntries (reloadFromDB rows m) = pmEntries m @ es \<and> (\<forall>e\<in>set es. \<not> weOnAfterFill e)"
  proof (cases "rows = None \<or> \<not> pmHasRepo m")
    case False
    then show ?thesis using fold by (auto simp: reloadFromDB_def)
  qed (auto simp: reloadFromDB_def intro: exI [of _ "[]"])
  then obtain es where es: "pmEntries (reloadFromDB rows m) = pmEntries m @ es" "\<forall>e\<in>set es. \<not> weOnAfterFill e"
    by blast
  then have "pmEntries (reloadFromDB rows m) ! a \<in> set es" using assms by (simp add: nth_append)
  then show ?thesis using es(2) by blast
qed

end
