(* ===== verification/OrderRepo.thy ===== *)
theory OrderRepo
  imports Models IstClock "HOL-Library.Char_ord" "HOL-Library.List_Lexorder" "HOL-Library.Product_Lexorder"
begin

text \<open>
  The repository of orders (\<open>repository/order_repository.go\<close>): the statements it sends to
  PostgreSQL, as functions of the table's rows. A statement takes the reply of the server:
  it may fail before or after it took effect, or for want of the table. Rows with the same
  \<open>created_at\<close> come in the order of insertion. The rounding of \<open>DECIMAL(15,2)\<close> columns and the
  statistics of the dashboard are left out.
\<close>

section \<open>Statements\<close>

datatype fault = NoFault | Lost | Applied | NoTable

datatype repo_error = DbError | NotFound | ErrDuplicateOrder

type_synonym rows = "Order list"

definition exec_update :: "fault \<Rightarrow> (Order \<Rightarrow> bool) \<Rightarrow> (Order \<Rightarrow> Order) \<Rightarrow> rows \<Rightarrow> rows \<times> (repo_error + nat)" where
  "exec_update f p u rows =
     (if f = NoFault \<or> f = Applied then map (\<lambda>r. if p r then u r else r) rows else rows,
      if f = NoFault then Inr (length (filter p rows)) else Inl DbError)"

definition must_affect :: "rows \<times> (repo_error + nat) \<Rightarrow> rows \<times> (repo_error + unit)" where
  "must_affect r = (fst r, (case snd r of Inl e \<Rightarrow> Inl e | Inr n \<Rightarrow> if n = 0 then Inl NotFound else Inr ()))"

definition may_affect :: "rows \<times> (repo_error + nat) \<Rightarrow> rows \<times> (repo_error + unit)" where
  "may_affect r = (fst r, map_sum id (\<lambda>_. ()) (snd r))"

definition select_asc :: "fault \<Rightarrow> (Order \<Rightarrow> bool) \<Rightarrow> rows \<Rightarrow> repo_error + rows" where
  "select_asc f p rows = (if f = NoFault then Inr (sort_key oCreatedAt (filter p rows)) else Inl DbError)"

definition select_desc :: "fault \<Rightarrow> (Order \<Rightarrow> bool) \<Rightarrow> rows \<Rightarrow> repo_error + rows" where
  "select_desc f p rows =
     (if f = NoFault then Inr (sort_key (\<lambda>r. - oCreatedAt r) (filter p rows)) else Inl DbError)"

definition select_one :: "fault \<Rightarrow> (Order \<Rightarrow> bool) \<Rightarrow> rows \<Rightarrow> repo_error + Order" where
  "select_one f p rows =
     (if f \<noteq> NoFault then Inl DbError
      else case find p rows of None \<Rightarrow> Inl NotFound | Some r \<Rightarrow> Inr r)"

definition insert_row :: "fault \<Rightarrow> repo_error \<Rightarrow> Order \<Rightarrow> rows \<Rightarrow> rows \<times> (repo_error + unit)" where
  "insert_row f duplicate row rows =
     (let exists = oOrderID row \<in> oOrderID ` set rows
      in (if exists \<or> \<not> (f = NoFault \<or> f = Applied) then rows else rows @ [row],
          if f \<noteq> NoFault then Inl DbError else if exists then Inl duplicate else Inr ()))"

section \<open>Inserting\<close>

text \<open>
  The columns the insert names; the others get the defaults of the table, whatever the order
  in memory says.
\<close>

definition created_row :: "Order \<Rightarrow> Order" where
  "created_row o1 = zero_order
     \<lparr>oOrderID := oOrderID o1, oUserID := oUserID o1, oStrategyID := oStrategyID o1,
      oStrategyName := oStrategyName o1, oEventID := oEventID o1, oStockCode := oStockCode o1,
      oExchange := oExchange o1, oSymbol := oSymbol o1, oOrderType := oOrderType o1,
      oOrderSide := oOrderSide o1, oQuantity := oQuantity o1, oPrice := oPrice o1,
      oStopLoss := oStopLoss o1, oTakeProfit := oTakeProfit o1, oStopLossType := oStopLossType o1,
      oTrailingSLPct := oTrailingSLPct o1, oValidity := oValidity o1, oProductType := oProductType o1,
      oStatus := oStatus o1, oRiskApproved := oRiskApproved o1, oIsPaperTrade := oIsPaperTrade o1,
      oTradingMode := oTradingMode o1, oIsSquareOffOrder := oIsSquareOffOrder o1,
      oCreatedAt := oCreatedAt o1, oUpdatedAt := oUpdatedAt o1, oOCOGroupID := oOCOGroupID o1,
      oOCORole := oOCORole o1, oParentOrderID := oParentOrderID o1, oBearerToken := oBearerToken o1,
      oAppId := oAppId o1, oSource := oSource o1\<rparr>"

definition Create :: "fault \<Rightarrow> Order \<Rightarrow> rows \<Rightarrow> rows \<times> (repo_error + unit)" where
  "Create f o1 rows = insert_row f ErrDuplicateOrder (created_row o1) rows"

definition partial_exit_row :: "Order \<Rightarrow> Order" where
  "partial_exit_row o1 = zero_order
     \<lparr>oOrderID := oOrderID o1, oUserID := oUserID o1, oStrategyID := oStrategyID o1,
      oStrategyName := oStrategyName o1, oEventID := oEventID o1, oStockCode := oStockCode o1,
      oExchange := oExchange o1, oSymbol := oSymbol o1, oOrderType := oOrderType o1,
      oOrderSide := oOrderSide o1, oQuantity := oQuantity o1, oPrice := oPrice o1,
      oValidity := oValidity o1, oProductType := oProductType o1, oStatus := oStatus o1,
      oRiskApproved := oRiskApproved o1, oIsPaperTrade := oIsPaperTrade o1,
      oTradingMode := oTradingMode o1, oFilledQuantity := oFilledQuantity o1,
      oFilledPrice := oFilledPrice o1, oPaperExitPrice := oPaperExitPrice o1,
      oPaperPnL := oPaperPnL o1, oIsSquareOffOrder := oIsSquareOffOrder o1,
      oIndiraOrderID := oIndiraOrderID o1, oCreatedAt := oCreatedAt o1, oUpdatedAt := oUpdatedAt o1\<rparr>"

definition CreatePaperPartialExit :: "fault \<Rightarrow> Order \<Rightarrow> rows \<Rightarrow> rows \<times> (repo_error + unit)" where
  "CreatePaperPartialExit f o1 rows = insert_row f DbError (partial_exit_row o1) rows"

section \<open>Updating\<close>

definition has_id :: "uuid \<Rightarrow> Order \<Rightarrow> bool" where
  "has_id oid r \<longleftrightarrow> oOrderID r = oid"

definition Update :: "fault \<Rightarrow> int \<Rightarrow> Order \<Rightarrow> rows \<Rightarrow> rows \<times> (repo_error + unit)" where
  "Update f now o1 rows = must_affect (exec_update f (has_id (oOrderID o1))
     (\<lambda>r. r\<lparr>oStatus := oStatus o1, oIndiraOrderID := oIndiraOrderID o1,
             oFilledQuantity := oFilledQuantity o1, oFilledPrice := oFilledPrice o1,
             oErrorMessage := oErrorMessage o1, oRejectionReason := oRejectionReason o1,
             oIsPaperTrade := oIsPaperTrade o1, oTradingMode := oTradingMode o1,
             oExchangeOrderNumber := oExchangeOrderNumber o1, oUpdatedAt := now\<rparr>) rows)"

definition UpdateOCOTag :: "fault \<Rightarrow> int \<Rightarrow> uuid \<Rightarrow> uuid \<Rightarrow> string \<Rightarrow> rows \<Rightarrow> rows \<times> (repo_error + unit)" where
  "UpdateOCOTag f now oid gid role rows = must_affect (exec_update f (has_id oid)
     (\<lambda>r. r\<lparr>oOCOGroupID := Some gid, oOCORole := Some role, oUpdatedAt := now\<rparr>) rows)"

definition UpdateStatus :: "fault \<Rightarrow> int \<Rightarrow> uuid \<Rightarrow> string \<Rightarrow> rows \<Rightarrow> rows \<times> (repo_error + unit)" where
  "UpdateStatus f now oid status rows = must_affect (exec_update f (has_id oid)
     (\<lambda>r. r\<lparr>oStatus := status, oUpdatedAt := now\<rparr>) rows)"

definition UpdatePaperTradeExit :: "fault \<Rightarrow> int \<Rightarrow> uuid \<Rightarrow> float64 \<Rightarrow> float64 \<Rightarrow> rows \<Rightarrow> rows \<times> (repo_error + unit)" where
  "UpdatePaperTradeExit f now oid exitPrice pnl rows = may_affect (exec_update f
     (\<lambda>r. has_id oid r \<and> oPaperExitPrice r = None)
     (\<lambda>r. r\<lparr>oStatus := ''CANCELLED'', oPaperExitPrice := Some exitPrice, oPaperPnL := Some pnl,
             oPaperExitTime := Some now, oUpdatedAt := now\<rparr>) rows)"

definition UpdatePaperExitPrice :: "fault \<Rightarrow> int \<Rightarrow> uuid \<Rightarrow> float64 \<Rightarrow> float64 \<Rightarrow> rows \<Rightarrow> rows \<times> (repo_error + unit)" where
  "UpdatePaperExitPrice f now oid exitPrice pnl rows = may_affect (exec_update f
     (\<lambda>r. has_id oid r \<and> oIsPaperTrade r \<and> oPaperExitPrice r = None)
     (\<lambda>r. r\<lparr>oPaperExitPrice := Some exitPrice, oPaperPnL := Some pnl, oPaperExitTime := Some now,
             oUpdatedAt := now\<rparr>) rows)"

definition UpdatePaperPositionFilledQty :: "fault \<Rightarrow> int \<Rightarrow> uuid \<Rightarrow> int \<Rightarrow> rows \<Rightarrow> rows \<times> (repo_error + unit)" where
  "UpdatePaperPositionFilledQty f now oid remainingQty rows = must_affect (exec_update f
     (\<lambda>r. has_id oid r \<and> oIsPaperTrade r \<and> \<not> oIsSquareOffOrder r)
     (\<lambda>r. r\<lparr>oFilledQuantity := remainingQty, oUpdatedAt := now\<rparr>) rows)"

definition UpdateTrailingSL :: "fault \<Rightarrow> int \<Rightarrow> uuid \<Rightarrow> float64 \<Rightarrow> rows \<Rightarrow> rows \<times> (repo_error + unit)" where
  "UpdateTrailingSL f now oid newSL rows = may_affect (exec_update f (has_id oid)
     (\<lambda>r. r\<lparr>oStopLoss := Some newSL, oUpdatedAt := now\<rparr>) rows)"

definition UpdateLiveTradeExit :: "fault \<Rightarrow> int \<Rightarrow> uuid \<Rightarrow> float64 \<Rightarrow> float64 \<Rightarrow> rows \<Rightarrow> rows \<times> (repo_error + unit)" where
  "UpdateLiveTradeExit f now oid exitPrice pnl rows = may_affect (exec_update f
     (\<lambda>r. has_id oid r \<and> oLiveExitPrice r = None)
     (\<lambda>r. r\<lparr>oStatus := ''CANCELLED'', oLiveExitPrice := Some exitPrice, oLivePnL := Some pnl,
             oLiveExitTime := Some now, oRejectionReason := Some ''Force exit by user'',
             oUpdatedAt := now\<rparr>) rows)"

definition CancelAllLiveOrdersByUser :: "fault \<Rightarrow> int \<Rightarrow> string \<Rightarrow> rows \<Rightarrow> rows \<times> (repo_error + unit)" where
  "CancelAllLiveOrdersByUser f now userID rows = may_affect (exec_update f
     (\<lambda>r. oUserID r = userID \<and> \<not> oIsPaperTrade r \<and> \<not> oIsSquareOffOrder r \<and>
           oStatus r \<in> {''FILLED'', ''PARTIALLY_FILLED'', ''RECEIVED'', ''PENDING'', ''SUBMITTED''})
     (\<lambda>r. r\<lparr>oStatus := ''CANCELLED'', oRejectionReason := Some ''Force exit by user'', oUpdatedAt := now\<rparr>) rows)"

definition deactivated_row :: "int \<Rightarrow> Order \<Rightarrow> Order" where
  "deactivated_row now r =
     (let paper = oIsPaperTrade r \<and> oFilledPrice r \<noteq> None
      in r\<lparr>oStatus := ''CANCELLED'', oRejectionReason := Some ''Strategy deactivated or deleted'',
           oPaperExitPrice := (if paper \<and> oPaperExitPrice r = None then oFilledPrice r else oPaperExitPrice r),
           oPaperPnL := (if paper \<and> oPaperPnL r = None then Some 0 else oPaperPnL r),
           oPaperExitTime := (if paper \<and> oPaperExitTime r = None then Some now else oPaperExitTime r),
           oUpdatedAt := now\<rparr>)"

definition cancel_strategy_orders :: "fault \<Rightarrow> int \<Rightarrow> string \<Rightarrow> string \<Rightarrow> rows \<Rightarrow> rows \<times> (repo_error + nat)" where
  "cancel_strategy_orders f now strategyID userID rows = exec_update f
     (\<lambda>r. oStrategyID r = strategyID \<and> oUserID r = userID \<and>
           oStatus r \<notin> {''CANCELLED'', ''REJECTED'', ''A.REJECTED''})
     (deactivated_row now) rows"

section \<open>Reading\<close>

definition filled_statuses :: "string set" where
  "filled_statuses = {''FILLED'', ''EXECUTED'', ''TRADED''}"

definition open_statuses :: "string set" where
  "open_statuses = filled_statuses \<union> {''PARTIALLY_FILLED'', ''PARTIALLY TRADED'', ''PARTIALLY EXECUTED''}"

definition today :: "int \<Rightarrow> Order \<Rightarrow> bool" where
  "today now r \<longleftrightarrow> ist_day (oCreatedAt r) = ist_day now"

definition above0 :: "float64 option \<Rightarrow> bool" where
  "above0 p = (case p of None \<Rightarrow> False | Some x \<Rightarrow> 0 < x)"

definition ExistsByID :: "fault \<Rightarrow> uuid \<Rightarrow> rows \<Rightarrow> repo_error + bool" where
  "ExistsByID f oid rows = (if f = NoFault then Inr (list_ex (has_id oid) rows) else Inl DbError)"

definition GetByID :: "fault \<Rightarrow> uuid \<Rightarrow> rows \<Rightarrow> repo_error + Order" where
  "GetByID f oid rows = select_one f (has_id oid) rows"

definition GetByIndiraOrderID :: "fault \<Rightarrow> string \<Rightarrow> rows \<Rightarrow> repo_error + Order" where
  "GetByIndiraOrderID f i rows = select_one f
     (\<lambda>r. oIndiraOrderID r = Some i \<or> oOdinOrderID r = Some i \<or> oExchangeOrderNumber r = Some i) rows"

definition GetByOdinOrderID :: "fault \<Rightarrow> string \<Rightarrow> rows \<Rightarrow> repo_error + Order" where
  "GetByOdinOrderID f i rows = GetByIndiraOrderID f i rows"

definition GetUserOrders :: "fault \<Rightarrow> string \<Rightarrow> int \<Rightarrow> int \<Rightarrow> rows \<Rightarrow> repo_error + rows" where
  "GetUserOrders f userID limit offset rows =
     (if limit < 0 \<or> offset < 0 then Inl DbError
      else map_sum id (\<lambda>rs. take (nat limit) (drop (nat offset) rs))
             (select_desc f (\<lambda>r. oUserID r = userID) rows))"

definition GetOrdersByStatus :: "fault \<Rightarrow> string \<Rightarrow> int \<Rightarrow> rows \<Rightarrow> repo_error + rows" where
  "GetOrdersByStatus f status limit rows =
     (if limit < 0 then Inl DbError
      else map_sum id (take (nat limit)) (select_asc f (\<lambda>r. oStatus r = status) rows))"

text \<open>A live square-off order of the same user, symbol and strategy was placed today.\<close>

definition squared_off_today :: "int \<Rightarrow> rows \<Rightarrow> Order \<Rightarrow> bool" where
  "squared_off_today now rows r \<longleftrightarrow>
     list_ex (\<lambda>sq. oUserID sq = oUserID r \<and> oSymbol sq = oSymbol r \<and> oStrategyID sq = oStrategyID r \<and>
                    oIsSquareOffOrder sq \<and> \<not> oIsPaperTrade sq \<and> today now sq) rows"

definition open_position :: "int \<Rightarrow> rows \<Rightarrow> Order \<Rightarrow> bool" where
  "open_position now rows r \<longleftrightarrow>
     oStatus r \<in> open_statuses \<and> oProductType r = ''INTRADAY'' \<and> \<not> oIsSquareOffOrder r \<and>
     \<not> oIsPaperTrade r \<and> oStrategyID r \<noteq> [] \<and> oLiveExitPrice r = None \<and> today now r \<and>
     \<not> squared_off_today now rows r"

definition GetOpenOrders :: "fault \<Rightarrow> int \<Rightarrow> rows \<Rightarrow> repo_error + rows" where
  "GetOpenOrders f now rows = select_asc f (open_position now rows) rows"

definition GetOpenOrdersByUser :: "fault \<Rightarrow> int \<Rightarrow> string \<Rightarrow> rows \<Rightarrow> repo_error + rows" where
  "GetOpenOrdersByUser f now userID rows =
     select_asc f (\<lambda>r. oUserID r = userID \<and> open_position now rows r) rows"

definition GetTrailingStopLossOrders :: "fault \<Rightarrow> rows \<Rightarrow> repo_error + rows" where
  "GetTrailingStopLossOrders f rows = select_asc f
     (\<lambda>r. oStatus r \<in> open_statuses \<and> oStopLossType r = Some ''TRAILING'' \<and> above0 (oTrailingSLPct r) \<and>
           \<not> oIsPaperTrade r) rows"

definition GetAllActivePaperOrders :: "fault \<Rightarrow> rows \<Rightarrow> repo_error + rows" where
  "GetAllActivePaperOrders f rows = select_asc f
     (\<lambda>r. oIsPaperTrade r \<and> \<not> oIsSquareOffOrder r \<and> oStatus r \<in> open_statuses \<and>
           oPaperExitPrice r = None \<and> 0 < oFilledQuantity r) rows"

definition GetFilledPaperOrdersBySymbol :: "fault \<Rightarrow> string \<Rightarrow> rows \<Rightarrow> repo_error + rows" where
  "GetFilledPaperOrdersBySymbol f symbol rows = select_asc f
     (\<lambda>r. oIsPaperTrade r \<and> oStatus r \<in> filled_statuses \<and> oPaperExitPrice r = None \<and> oSymbol r = symbol) rows"

definition GetFilledPaperOrdersByUser :: "fault \<Rightarrow> string \<Rightarrow> rows \<Rightarrow> repo_error + rows" where
  "GetFilledPaperOrdersByUser f userID rows = select_desc f
     (\<lambda>r. oUserID r = userID \<and> oIsPaperTrade r \<and> \<not> oIsSquareOffOrder r \<and> oStatus r \<in> open_statuses \<and>
           0 < oFilledQuantity r \<and> oFilledPrice r \<noteq> None \<and> oPaperExitPrice r = None) rows"

definition GetExitablePaperOrdersByStrategy :: "fault \<Rightarrow> string \<Rightarrow> string \<Rightarrow> rows \<Rightarrow> repo_error + rows" where
  "GetExitablePaperOrdersByStrategy f strategyID userID rows = select_desc f
     (\<lambda>r. oUserID r = userID \<and> oStrategyID r = strategyID \<and> oIsPaperTrade r \<and>
           oFilledPrice r \<noteq> None \<and> oPaperExitPrice r = None) rows"

definition GetLiveOrdersByUser :: "fault \<Rightarrow> int \<Rightarrow> string \<Rightarrow> rows \<Rightarrow> repo_error + rows" where
  "GetLiveOrdersByUser f now userID rows = select_desc f
     (\<lambda>r. oUserID r = userID \<and> \<not> oIsPaperTrade r \<and>
           oStatus r \<in> open_statuses \<union> {''RECEIVED'', ''PENDING'', ''SUBMITTED''} \<and> today now r) rows"

definition GetAllTodayLiveOrdersByUser :: "fault \<Rightarrow> int \<Rightarrow> string \<Rightarrow> rows \<Rightarrow> repo_error + rows" where
  "GetAllTodayLiveOrdersByUser f now userID rows = select_desc f
     (\<lambda>r. oUserID r = userID \<and> \<not> oIsPaperTrade r \<and> today now r) rows"

definition last_week :: "int \<Rightarrow> Order \<Rightarrow> bool" where
  "last_week now r \<longleftrightarrow> ist_day now - 7 \<le> ist_day (oCreatedAt r)"

definition GetOpenLivePositionAttributionOrders :: "fault \<Rightarrow> int \<Rightarrow> string \<Rightarrow> rows \<Rightarrow> repo_error + rows" where
  "GetOpenLivePositionAttributionOrders f now userID rows = select_desc f
     (\<lambda>r. oUserID r = userID \<and> \<not> oIsPaperTrade r \<and> (last_week now r \<or> oLiveExitPrice r = None)) rows"

definition GetClosedLiveOrdersByUser :: "fault \<Rightarrow> int \<Rightarrow> string \<Rightarrow> rows \<Rightarrow> repo_error + rows" where
  "GetClosedLiveOrdersByUser f now userID rows =
     (if f = NoFault then Inr (sort_key (\<lambda>r. - oUpdatedAt r) (filter
        (\<lambda>r. oUserID r = userID \<and> \<not> oIsPaperTrade r \<and>
              (oLiveExitPrice r \<noteq> None \<or> oStatus r \<in> {''CANCELLED'', ''REJECTED'', ''FAILED''}) \<and> today now r) rows))
      else Inl DbError)"

definition GetPendingMonitorOrders :: "fault \<Rightarrow> rows \<Rightarrow> repo_error + rows" where
  "GetPendingMonitorOrders f rows = select_asc f
     (\<lambda>r. oStatus r \<in> {''RECEIVED'', ''PENDING''} \<and> oOrderType r = ''STOP_LOSS'' \<and>
           oProductType r \<in> {''BRACKET'', ''BRACKET_ORDER'', ''BO''} \<and> \<not> oIsPaperTrade r \<and>
           oIndiraOrderID r = None) rows"

definition GetActiveOrdersByStrategy :: "fault \<Rightarrow> string \<Rightarrow> string \<Rightarrow> rows \<Rightarrow> repo_error + rows" where
  "GetActiveOrdersByStrategy f strategyID userID rows = select_asc f
     (\<lambda>r. oStrategyID r = strategyID \<and> oUserID r = userID \<and>
           oStatus r \<notin> {''CANCELLED'', ''REJECTED'', ''A.REJECTED''}) rows"

definition GetFilledLiveOrdersByStrategy :: "fault \<Rightarrow> int \<Rightarrow> string \<Rightarrow> string \<Rightarrow> rows \<Rightarrow> repo_error + rows" where
  "GetFilledLiveOrdersByStrategy f now strategyID userID rows = select_desc f
     (\<lambda>r. oUserID r = userID \<and> oStrategyID r = strategyID \<and> \<not> oIsPaperTrade r \<and>
           oStatus r \<in> filled_statuses \<and> oLiveExitPrice r = None \<and> \<not> oIsSquareOffOrder r \<and> today now r) rows"

definition GetExitableLiveOrdersByStrategy :: "fault \<Rightarrow> int \<Rightarrow> string \<Rightarrow> string \<Rightarrow> rows \<Rightarrow> repo_error + rows" where
  "GetExitableLiveOrdersByStrategy f now strategyID userID rows = select_desc f
     (\<lambda>r. oUserID r = userID \<and> oStrategyID r = strategyID \<and> \<not> oIsPaperTrade r \<and> oFilledPrice r \<noteq> None \<and>
           oLiveExitPrice r = None \<and> \<not> oIsSquareOffOrder r \<and> today now r) rows"

definition GetExitableLiveOrdersByUser :: "fault \<Rightarrow> int \<Rightarrow> string \<Rightarrow> rows \<Rightarrow> repo_error + rows" where
  "GetExitableLiveOrdersByUser f now userID rows = select_desc f
     (\<lambda>r. oUserID r = userID \<and> \<not> oIsPaperTrade r \<and> \<not> oIsSquareOffOrder r \<and> oFilledPrice r \<noteq> None \<and>
           0 < oFilledQuantity r \<and> oLiveExitPrice r = None \<and> today now r) rows"

definition GetDistinctActiveUserIDs :: "fault \<Rightarrow> rows \<Rightarrow> repo_error + string list" where
  "GetDistinctActiveUserIDs f rows =
     (if f = NoFault then Inr (remdups (map oUserID (filter
        (\<lambda>r. \<not> oIsPaperTrade r \<and> oStatus r \<notin> {''CANCELLED'', ''REJECTED'', ''A.REJECTED'', ''FAILED''}) rows)))
      else Inl DbError)"

definition GetReconciliationCandidates :: "fault \<Rightarrow> int \<Rightarrow> int \<Rightarrow> int \<Rightarrow> rows \<Rightarrow> repo_error + rows" where
  "GetReconciliationCandidates f now maxAgeHours minAgeSeconds rows =
     (let hours = (if maxAgeHours \<le> 0 then 24 else maxAgeHours);
          seconds = (if minAgeSeconds \<le> 0 then 30 else minAgeSeconds)
      in select_desc f
           (\<lambda>r. \<not> oIsPaperTrade r \<and> (case oIndiraOrderID r of None \<Rightarrow> False | Some i \<Rightarrow> i \<noteq> []) \<and>
                 oStatus r \<in> {''RECEIVED'', ''PENDING'', ''SUBMITTED''} \<union> (open_statuses - filled_statuses) \<and>
                 now - hours * 3600 * 1000000000 \<le> oCreatedAt r \<and>
                 oUpdatedAt r \<le> now - seconds * 1000000000) rows)"

definition GetUsersWithLiveExposure :: "fault \<Rightarrow> int \<Rightarrow> rows \<Rightarrow> repo_error + string list" where
  "GetUsersWithLiveExposure f now rows =
     (if f = NoFault then Inr (remdups (map oUserID (filter
        (\<lambda>r. \<not> oIsPaperTrade r \<and> last_week now r \<and>
              (oStatus r \<in> {''RECEIVED'', ''PENDING'', ''SUBMITTED''} \<union> (open_statuses - filled_statuses) \<or>
               oStatus r \<in> filled_statuses \<and> oLiveExitPrice r = None \<and> \<not> oIsSquareOffOrder r)) rows)))
      else Inl DbError)"

definition GetActiveOCOOrders :: "fault \<Rightarrow> rows \<Rightarrow> repo_error + rows" where
  "GetActiveOCOOrders f rows = select_asc f
     (\<lambda>r. oOCOGroupID r \<noteq> None \<and> oStatus r \<notin> {''CANCELLED'', ''REJECTED'', ''A.REJECTED'', ''FAILED''} \<and>
           \<not> oIsPaperTrade r) rows"

definition GetOCOGroupOrders :: "fault \<Rightarrow> uuid \<Rightarrow> rows \<Rightarrow> repo_error + rows" where
  "GetOCOGroupOrders f gid rows = select_asc f (\<lambda>r. oOCOGroupID r = Some gid) rows"

definition strategy_name :: "rows \<Rightarrow> string \<Rightarrow> (string \<times> string) option" where
  "strategy_name rows i =
     (case sort_key (\<lambda>r. - oCreatedAt r) (filter (\<lambda>r. oStrategyID r = i \<and> oStrategyName r \<noteq> []) rows) of
        [] \<Rightarrow> None | r # _ \<Rightarrow> Some (i, oStrategyName r))"

definition GetStrategyNamesByIDs :: "fault \<Rightarrow> string list \<Rightarrow> rows \<Rightarrow> repo_error + (string \<times> string) list" where
  "GetStrategyNamesByIDs f ids rows =
     (if ids = [] then Inr []
      else if f = NoFault then Inr (List.map_filter (strategy_name rows) (remdups ids)) else Inl DbError)"

end
