(* ===== verification/LevelRepo.thy ===== *)
theory LevelRepo
  imports OrderRepo
begin

text \<open>
  The other tables of the repository: the rows of exit levels and the users' square-off times
  (\<open>repository/order_repository.go\<close>).
\<close>

section \<open>Exit levels\<close>

type_synonym levels = "MultiLevelExitRecord list"

definition is_level :: "uuid \<Rightarrow> string \<Rightarrow> int \<Rightarrow> MultiLevelExitRecord \<Rightarrow> bool" where
  "is_level oid exitType n r \<longleftrightarrow> rEntryOrderID r = oid \<and> rExitType r = exitType \<and> rLevelNum r = n"

definition exec_levels :: "fault \<Rightarrow> (levels \<Rightarrow> levels) \<Rightarrow> levels \<Rightarrow> levels \<times> (repo_error + unit)" where
  "exec_levels f u rows =
     (if f = NoFault \<or> f = Applied then u rows else rows, if f = NoFault then Inr () else Inl DbError)"

definition on_level :: "uuid \<Rightarrow> string \<Rightarrow> int \<Rightarrow> (MultiLevelExitRecord \<Rightarrow> MultiLevelExitRecord) \<Rightarrow> levels \<Rightarrow> levels" where
  "on_level oid exitType n u = map (\<lambda>r. if is_level oid exitType n r then u r else r)"

definition coalesce :: "'a option \<Rightarrow> 'a option \<Rightarrow> 'a option" where
  "coalesce x y = (case x of None \<Rightarrow> y | Some _ \<Rightarrow> x)"

definition upsert_level :: "MultiLevelExitRecord \<Rightarrow> levels \<Rightarrow> levels" where
  "upsert_level rec rows =
     (if list_ex (is_level (rEntryOrderID rec) (rExitType rec) (rLevelNum rec)) rows
      then on_level (rEntryOrderID rec) (rExitType rec) (rLevelNum rec)
             (\<lambda>r. r\<lparr>rTriggerPrice := rTriggerPrice rec, rExitQty := rExitQty rec,
                     rOriginalExitQty := coalesce (rOriginalExitQty r) (rExitQty rec), rStatus := rStatus rec\<rparr>) rows
      else rows @ [rec\<lparr>rOriginalExitQty := rExitQty rec, rExitOrderID := None, rBrokerOrderID := None,
                       rExitPrice := None\<rparr>])"

definition UpsertMultiLevelExitLevel :: "fault \<Rightarrow> MultiLevelExitRecord \<Rightarrow> levels \<Rightarrow> levels \<times> (repo_error + unit)" where
  "UpsertMultiLevelExitLevel f rec rows = exec_levels f (upsert_level rec) rows"

definition UpdateMultiLevelLevelStatus ::
  "fault \<Rightarrow> uuid \<Rightarrow> string \<Rightarrow> int \<Rightarrow> string \<Rightarrow> float64 \<Rightarrow> levels \<Rightarrow> levels \<times> (repo_error + unit)" where
  "UpdateMultiLevelLevelStatus f oid exitType n status exitPrice rows = exec_levels f
     (on_level oid exitType n
        (\<lambda>r. r\<lparr>rStatus := status,
                rExitPrice := (if status = MLStatusTriggered then Some exitPrice else None)\<rparr>)) rows"

definition UpdateMultiLevelLevelBrokerID ::
  "fault \<Rightarrow> uuid \<Rightarrow> string \<Rightarrow> int \<Rightarrow> string \<Rightarrow> uuid \<Rightarrow> levels \<Rightarrow> levels \<times> (repo_error + unit)" where
  "UpdateMultiLevelLevelBrokerID f oid exitType n brokerOrderID exitOrderID rows = exec_levels f
     (on_level oid exitType n
        (\<lambda>r. r\<lparr>rBrokerOrderID := Some brokerOrderID, rExitOrderID := Some exitOrderID,
                rStatus := ''ACTIVE''\<rparr>)) rows"

definition UpdateMLLevelRebalancedQty ::
  "fault \<Rightarrow> uuid \<Rightarrow> string \<Rightarrow> int \<Rightarrow> int \<Rightarrow> int \<Rightarrow> levels \<Rightarrow> levels \<times> (repo_error + unit)" where
  "UpdateMLLevelRebalancedQty f oid exitType n originalQty newQty rows = exec_levels f
     (on_level oid exitType n
        (\<lambda>r. r\<lparr>rExitQty := Some newQty,
                rOriginalExitQty := coalesce (rOriginalExitQty r) (Some originalQty)\<rparr>)) rows"

text \<open>The two reads do not select \<open>original_exit_qty\<close>.\<close>

definition selected_level :: "MultiLevelExitRecord \<Rightarrow> MultiLevelExitRecord" where
  "selected_level r = r\<lparr>rOriginalExitQty := None\<rparr>"

definition GetMultiLevelExitLevels :: "fault \<Rightarrow> uuid \<Rightarrow> levels \<Rightarrow> repo_error + levels" where
  "GetMultiLevelExitLevels f oid rows =
     (if f = NoFault
      then Inr (map selected_level (sort_key (\<lambda>r. (rExitType r, rLevelNum r))
             (filter (\<lambda>r. rEntryOrderID r = oid) rows)))
      else Inl DbError)"

definition GetMultiLevelExitLevelsBatch :: "fault \<Rightarrow> uuid list \<Rightarrow> levels \<Rightarrow> repo_error + (uuid \<Rightarrow> levels)" where
  "GetMultiLevelExitLevelsBatch f oids rows =
     (if oids = [] then Inr (\<lambda>_. [])
      else if f \<noteq> NoFault then Inl DbError
      else let recs = map selected_level (sort_key (\<lambda>r. (rEntryOrderID r, rExitType r, rLevelNum r))
             (filter (\<lambda>r. rEntryOrderID r \<in> set oids) rows))
           in Inr (\<lambda>i. filter (\<lambda>r. rEntryOrderID r = i) recs))"

definition cancel_strategy_levels :: "fault \<Rightarrow> string \<Rightarrow> string \<Rightarrow> Order list \<Rightarrow> levels \<Rightarrow> levels \<times> (repo_error + unit)" where
  "cancel_strategy_levels f strategyID userID os rows = exec_levels f
     (map (\<lambda>r. if list_ex (\<lambda>x. oOrderID x = rEntryOrderID r \<and> oStrategyID x = strategyID \<and> oUserID x = userID) os \<and>
                  (rStatus r = ''PENDING'' \<or> rStatus r = ''ACTIVE'')
               then r\<lparr>rStatus := ''CANCELLED''\<rparr> else r)) rows"

definition CancelAllOrdersByStrategy ::
  "fault \<Rightarrow> fault \<Rightarrow> int \<Rightarrow> string \<Rightarrow> string \<Rightarrow> rows \<times> levels \<Rightarrow> (rows \<times> levels) \<times> (repo_error + unit)" where
  "CancelAllOrdersByStrategy f1 f2 now strategyID userID db =
     (case cancel_strategy_orders f1 now strategyID userID (fst db) of
        (os, Inl e) \<Rightarrow> ((os, snd db), Inl e)
      | (os, Inr _) \<Rightarrow>
          (case cancel_strategy_levels f2 strategyID userID os (snd db) of (ls, r) \<Rightarrow> ((os, ls), r)))"

definition GetActiveMLEntries :: "fault \<Rightarrow> levels \<Rightarrow> rows \<Rightarrow> repo_error + rows" where
  "GetActiveMLEntries f ls rows = select_desc f
     (\<lambda>r. \<not> oIsPaperTrade r \<and> \<not> oIsSquareOffOrder r \<and> oStatus r \<in> filled_statuses \<and> oLiveExitPrice r = None \<and>
           list_ex (\<lambda>l. rEntryOrderID l = oOrderID r \<and> (rStatus l = ''PENDING'' \<or> rStatus l = ''ACTIVE'')) ls) rows"

definition GetClosedPaperOrdersByUser :: "fault \<Rightarrow> string \<Rightarrow> levels \<Rightarrow> rows \<Rightarrow> repo_error + rows" where
  "GetClosedPaperOrdersByUser f userID ls rows =
     (if f = NoFault then Inr (sort_key (\<lambda>r. - oUpdatedAt r) (filter
        (\<lambda>r. oUserID r = userID \<and> oIsPaperTrade r \<and>
              (oPaperExitPrice r \<noteq> None \<or> \<not> oIsSquareOffOrder r \<and>
               list_ex (\<lambda>l. rEntryOrderID l = oOrderID r \<and> rStatus l = ''TRIGGERED'') ls)) rows))
      else Inl DbError)"

section \<open>Square-off times of the users\<close>

record sq_config =
  scUserID :: string
  scTime :: string
  scEnabled :: bool

definition isTableNotFoundErr :: "fault \<Rightarrow> bool" where
  "isTableNotFoundErr f \<longleftrightarrow> f = NoTable"

definition users_where :: "fault \<Rightarrow> (sq_config \<Rightarrow> bool) \<Rightarrow> sq_config list \<Rightarrow> repo_error + string list" where
  "users_where f p configs =
     (if f = NoFault then Inr (map scUserID (filter p configs))
      else if isTableNotFoundErr f then Inr [] else Inl DbError)"

definition GetUsersWithAutoSquareOffAtTime :: "fault \<Rightarrow> string \<Rightarrow> sq_config list \<Rightarrow> repo_error + string list" where
  "GetUsersWithAutoSquareOffAtTime f timeStr configs = users_where f (\<lambda>c. scTime c = timeStr \<and> scEnabled c) configs"

definition GetUsersWithExpiredAutoSquareOff :: "fault \<Rightarrow> string \<Rightarrow> sq_config list \<Rightarrow> repo_error + string list" where
  "GetUsersWithExpiredAutoSquareOff f beforeTime configs =
     users_where f (\<lambda>c. scEnabled c \<and> scTime c \<le> beforeTime) configs"

definition UpsertUserSquareOffConfig ::
  "fault \<Rightarrow> string \<Rightarrow> string \<Rightarrow> bool \<Rightarrow> sq_config list \<Rightarrow> sq_config list \<times> (repo_error + unit)" where
  "UpsertUserSquareOffConfig f userID t enabled configs =
     (let row = \<lparr>scUserID = userID, scTime = t, scEnabled = enabled\<rparr>
      in (if \<not> (f = NoFault \<or> f = Applied) then configs
          else if list_ex (\<lambda>c. scUserID c = userID) configs
          then map (\<lambda>c. if scUserID c = userID then row else c) configs
          else configs @ [row],
          if f = NoFault then Inr () else Inl DbError))"

definition GetUserSquareOffConfig :: "fault \<Rightarrow> string \<Rightarrow> sq_config list \<Rightarrow> repo_error + string \<times> bool" where
  "GetUserSquareOffConfig f userID configs =
     (if f \<noteq> NoFault then Inl DbError
      else case find (\<lambda>c. scUserID c = userID) configs of
             None \<Rightarrow> Inr ([], False) | Some c \<Rightarrow> Inr (scTime c, scEnabled c))"

text \<open>Of each user the latest order of the day that carries a time.\<close>

definition backfill_rows :: "int \<Rightarrow> rows \<Rightarrow> sq_config list" where
  "backfill_rows now os =
     (let mine = sort_key (\<lambda>r. - oCreatedAt r) (filter (\<lambda>r. today now r \<and>
                   (case oAutoSquareOffTime r of None \<Rightarrow> False | Some t \<Rightarrow> t \<noteq> [])) os)
      in map (\<lambda>u. \<lparr>scUserID = u, scTime = the (oAutoSquareOffTime (the (find (\<lambda>r. oUserID r = u) mine))),
                     scEnabled = True\<rparr>) (remdups (map oUserID mine)))"

definition BackfillTodaySquareOffConfig ::
  "fault \<Rightarrow> int \<Rightarrow> rows \<Rightarrow> sq_config list \<Rightarrow> sq_config list \<times> (repo_error + nat)" where
  "BackfillTodaySquareOffConfig f now os configs =
     (let new_rows = filter (\<lambda>c. scUserID c \<notin> scUserID ` set configs) (backfill_rows now os)
      in (if f = NoFault \<or> f = Applied then configs @ new_rows else configs,
          if f = NoFault then Inr (length new_rows) else if isTableNotFoundErr f then Inr 0 else Inl DbError))"

end
