(* ===== verification/SquareOff.thy ===== *)
theory SquareOff
  imports LevelRepo
begin

text \<open>
  The scheduler that closes intraday positions before the market does
  (\<open>scheduler/auto_square_off.go\<close>) and the check of the broker's position book
  (\<open>scheduler/position_check.go\<close>). Every reading of the clock, also the database's \<open>NOW()\<close>, takes
  the next instant of \<open>sqClock\<close>; statements meet the next fault of \<open>sqFaults\<close>, executions the next
  reply of \<open>sqReplies\<close>. The paper monitor behind the two callbacks is recorded in \<open>sqOut\<close>.
\<close>

section \<open>The broker's position book\<close>

definition MapProductType :: "string \<Rightarrow> string" where
  "MapProductType productType =
     (let p = to_upper productType
      in if p \<in> {''INTRADAY'', ''MIS'', ''I''} then ''INTRADAY''
         else if p \<in> {''DELIVERY'', ''CNC'', ''D''} then ''DELIVERY''
         else if p \<in> {''CASH'', ''C''} then ''CASH''
         else if p \<in> {''MTF'', ''M''} then ''MTF''
         else if p \<in> {''BRACKET'', ''BRACKET_ORDER'', ''BO''} then ''BRACKET_ORDER''
         else ''INTRADAY'')"

definition normalizePrd :: "string \<Rightarrow> string" where
  "normalizePrd s = to_upper (MapProductType s)"

type_synonym posKey = "string \<times> int \<times> string"

definition orderKey :: "Order \<Rightarrow> posKey" where
  "orderKey o1 = (to_upper (oExchange o1), oStockCode o1, normalizePrd (oProductType o1))"

record BrokerPosition =
  bpExc :: string
  bpExcTkn :: int
  bpPrdType :: string
  bpType :: string
  bpNetQty :: int

type_synonym OpenPositions = "(posKey \<times> int) list"

definition IsExited :: "OpenPositions option \<Rightarrow> Order \<Rightarrow> bool" where
  "IsExited snapshot o1 = (case snapshot of None \<Rightarrow> False | Some ps \<Rightarrow> map_of ps (orderKey o1) = None)"

definition open_positions :: "BrokerPosition list \<Rightarrow> OpenPositions" where
  "open_positions ps =
     map (\<lambda>p. ((to_upper (bpExc p), bpExcTkn p, normalizePrd (bpPrdType p)), bpNetQty p))
       (filter (\<lambda>p. (bpType p = [] \<or> bpType p = ''DAILY'') \<and> bpNetQty p \<noteq> 0) (rev ps))"

record PositionChecker =
  pcCreds :: "string \<Rightarrow> AuthContext option"
  pcPositions :: "AuthContext \<Rightarrow> BrokerPosition list option"

definition FetchOpenPositions :: "PositionChecker option \<Rightarrow> string \<Rightarrow> OpenPositions option" where
  "FetchOpenPositions checker userID =
     (case checker of None \<Rightarrow> None
      | Some pc \<Rightarrow>
          if userID = [] then None
          else (case pcCreds pc userID of None \<Rightarrow> None
                | Some auth \<Rightarrow> map_option open_positions (pcPositions pc auth)))"

section \<open>State\<close>

datatype sq_effect =
    SqPaperAll
  | SqPaperUser string
  | SqLiveRun int
  | SqExecute uuid Order int bool

record sq_state =
  sqOrders :: rows
  sqConfigs :: "sq_config list"
  sqTime :: string
  sqPaperTime :: string
  sqHasPaper :: bool
  sqHasPaperUser :: bool
  sqChecker :: "PositionChecker option"
  sqLastExecuteDate :: string
  sqLastPaperExecuteDate :: string
  sqLastUserExecuteDates :: "string \<Rightarrow> string"
  sqNow :: int
  sqClock :: "int list"
  sqFaults :: "fault list"
  sqReplies :: "bool list"
  sqNextId :: uuid
  sqOut :: "sq_effect list"

definition NewAutoSquareOffScheduler :: "string \<Rightarrow> sq_state \<Rightarrow> sq_state" where
  "NewAutoSquareOffScheduler squareOffTime s =
     s\<lparr>sqTime := (if squareOffTime = [] then ''15:05'' else squareOffTime), sqPaperTime := ''15:00'',
       sqHasPaper := False, sqHasPaperUser := False, sqChecker := None,
       sqLastExecuteDate := [], sqLastPaperExecuteDate := [], sqLastUserExecuteDates := (\<lambda>_. [])\<rparr>"

definition marketCloseMinutes :: int where
  "marketCloseMinutes = 15 * 60 + 30"

definition sq_emit :: "sq_effect \<Rightarrow> sq_state \<Rightarrow> sq_state" where
  "sq_emit e s = s\<lparr>sqOut := sqOut s @ [e]\<rparr>"

definition read_clock :: "sq_state \<Rightarrow> int \<times> sq_state" where
  "read_clock s = (case sqClock s of [] \<Rightarrow> (sqNow s, s) | t # ts \<Rightarrow> (t, s\<lparr>sqNow := t, sqClock := ts\<rparr>))"

definition next_fault :: "sq_state \<Rightarrow> fault \<times> sq_state" where
  "next_fault s = (case sqFaults s of [] \<Rightarrow> (NoFault, s) | f # fs \<Rightarrow> (f, s\<lparr>sqFaults := fs\<rparr>))"

definition next_reply :: "sq_state \<Rightarrow> bool \<times> sq_state" where
  "next_reply s = (case sqReplies s of [] \<Rightarrow> (True, s) | b # bs \<Rightarrow> (b, s\<lparr>sqReplies := bs\<rparr>))"

section \<open>Closing one position\<close>

definition reverse_side :: "string \<Rightarrow> string" where
  "reverse_side side = (if side = ''SELL'' then ''BUY'' else ''SELL'')"

definition square_off_order :: "uuid \<Rightarrow> int \<Rightarrow> int \<Rightarrow> Order \<Rightarrow> Order" where
  "square_off_order i created updated orig = zero_order
     \<lparr>oOrderID := i, oEventID := i + 1, oUserID := oUserID orig, oStrategyID := oStrategyID orig,
      oStrategyName := oStrategyName orig, oStockCode := oStockCode orig, oExchange := oExchange orig,
      oSymbol := oSymbol orig, oOrderType := OrderTypeMarket, oOrderSide := reverse_side (oOrderSide orig),
      oQuantity := oFilledQuantity orig, oValidity := ''IOC'', oProductType := oProductType orig,
      oStatus := StatusReceived, oIsSquareOffOrder := True, oIsPaperTrade := False,
      oTradingMode := ''LIVE'', oRiskApproved := True, oBearerToken := oBearerToken orig,
      oAppId := oAppId orig, oSource := oSource orig, oCreatedAt := created, oUpdatedAt := updated\<rparr>"

definition execute_square_off :: "Order \<Rightarrow> Order \<Rightarrow> int \<Rightarrow> sq_state \<Rightarrow> sq_state \<times> bool" where
  "execute_square_off orig sq now s =
     (case next_reply s of (ok, s1) \<Rightarrow> (sq_emit (SqExecute (oOrderID orig) sq now ok) s1, ok))"

definition save_square_off :: "Order \<Rightarrow> Order \<Rightarrow> int \<Rightarrow> sq_state \<Rightarrow> sq_state \<times> bool" where
  "save_square_off orig sq now s =
     (case next_fault s of (f, s1) \<Rightarrow>
        (case Create f sq (sqOrders s1) of
           (os, Inl _) \<Rightarrow> (s1\<lparr>sqOrders := os\<rparr>, False)
         | (os, Inr _) \<Rightarrow> execute_square_off orig sq now (s1\<lparr>sqOrders := os\<rparr>)))"

definition createAndExecuteSquareOffOrder :: "Order \<Rightarrow> sq_state \<Rightarrow> sq_state \<times> bool" where
  "createAndExecuteSquareOffOrder orig s =
     (case read_clock s of (now, s1) \<Rightarrow>
        if marketCloseMinutes \<le> ist_minutes now then (s1, False)
        else case read_clock s1 of (created, s2) \<Rightarrow>
          case read_clock s2 of (updated, s3) \<Rightarrow>
            save_square_off orig (square_off_order (sqNextId s3) created updated orig) now
              (s3\<lparr>sqNextId := sqNextId s3 + 2\<rparr>))"

section \<open>Closing all positions\<close>

definition snapshots :: "PositionChecker option \<Rightarrow> string \<Rightarrow> OpenPositions option" where
  "snapshots checker userID = (if checker = None then None else FetchOpenPositions checker userID)"

definition later_time :: "string \<Rightarrow> Order \<Rightarrow> bool" where
  "later_time currentTime o1 = (case oAutoSquareOffTime o1 of None \<Rightarrow> False | Some t \<Rightarrow> currentTime < t)"

definition close_order :: "(string \<Rightarrow> OpenPositions option) \<Rightarrow> string option \<Rightarrow> sq_state \<Rightarrow> Order \<Rightarrow> sq_state" where
  "close_order books currentTime s o1 =
     (if oFilledQuantity o1 \<le> 0 then s
      else if (case currentTime of None \<Rightarrow> False | Some t \<Rightarrow> later_time t o1) then s
      else if IsExited (books (oUserID o1)) o1 then s
      else fst (createAndExecuteSquareOffOrder o1 s))"

definition squareOffAllPositions :: "sq_state \<Rightarrow> sq_state" where
  "squareOffAllPositions s =
     (case next_fault s of (f, s1) \<Rightarrow> case read_clock s1 of (dbNow, s2) \<Rightarrow>
        (case GetOpenOrders f dbNow (sqOrders s2) of
           Inl _ \<Rightarrow> s2
         | Inr openOrders \<Rightarrow>
             if openOrders = [] then s2
             else case read_clock s2 of (now, s3) \<Rightarrow>
               foldl (close_order (snapshots (sqChecker s3)) (Some (clock_string now))) s3 openOrders))"

definition squareOffUserPositions :: "string \<Rightarrow> sq_state \<Rightarrow> sq_state" where
  "squareOffUserPositions userID s =
     (case next_fault s of (f, s1) \<Rightarrow> case read_clock s1 of (dbNow, s2) \<Rightarrow>
        (case GetOpenOrdersByUser f dbNow userID (sqOrders s2) of
           Inl _ \<Rightarrow> s2
         | Inr openOrders \<Rightarrow> foldl (close_order (\<lambda>_. snapshots (sqChecker s2) userID) None) s2 openOrders))"

section \<open>When to close\<close>

definition weekend :: "int \<Rightarrow> bool" where
  "weekend now \<longleftrightarrow> ist_weekday now = 6 \<or> ist_weekday now = 0"

definition parseTime :: "string \<Rightarrow> int \<times> int" where
  "parseTime timeStr = (case parseHHMM timeStr of None \<Rightarrow> (- 1, - 1) | Some hm \<Rightarrow> hm)"

definition at_time :: "string \<Rightarrow> int \<Rightarrow> bool" where
  "at_time timeStr now =
     (case parseTime timeStr of (h, m) \<Rightarrow>
        h \<noteq> - 1 \<and> m \<noteq> - 1 \<and> ist_minutes now div 60 = h \<and> ist_minutes now mod 60 = m)"

definition date_of :: "int \<Rightarrow> string" where
  "date_of now = date_string (ist_day now)"

definition shouldSquareOff :: "sq_state \<Rightarrow> sq_state \<times> bool" where
  "shouldSquareOff s =
     (case read_clock s of (now, s1) \<Rightarrow>
        if weekend now \<or> \<not> at_time (sqTime s1) now \<or> sqLastExecuteDate s1 = date_of now then (s1, False)
        else (s1\<lparr>sqLastExecuteDate := date_of now\<rparr>, True))"

definition shouldPaperSquareOff :: "sq_state \<Rightarrow> sq_state \<times> bool" where
  "shouldPaperSquareOff s =
     (case read_clock s of (now, s1) \<Rightarrow>
        if weekend now \<or> \<not> at_time (sqPaperTime s1) now \<or> sqLastPaperExecuteDate s1 = date_of now then (s1, False)
        else (s1\<lparr>sqLastPaperExecuteDate := date_of now\<rparr>, True))"

definition live_run :: "sq_state \<Rightarrow> sq_state" where
  "live_run s = squareOffAllPositions (sq_emit (SqLiveRun (sqNow s)) s)"

definition close_user :: "string \<Rightarrow> sq_state \<Rightarrow> sq_state" where
  "close_user userID s =
     squareOffUserPositions userID (if sqHasPaperUser s then sq_emit (SqPaperUser userID) s else s)"

definition once_a_day :: "string \<Rightarrow> string \<Rightarrow> string \<Rightarrow> sq_state \<Rightarrow> sq_state" where
  "once_a_day guardKey date userID s =
     (if sqLastUserExecuteDates s guardKey = date then s
      else close_user userID
             (s\<lparr>sqLastUserExecuteDates := (sqLastUserExecuteDates s)(guardKey := date)\<rparr>))"

definition checkUserSquareOffs :: "sq_state \<Rightarrow> sq_state" where
  "checkUserSquareOffs s =
     (case read_clock s of (now, s1) \<Rightarrow>
        if weekend now then s1
        else case next_fault s1 of (f, s2) \<Rightarrow>
          (case GetUsersWithAutoSquareOffAtTime f (clock_string now) (sqConfigs s2) of
             Inl _ \<Rightarrow> s2
           | Inr users \<Rightarrow>
               foldl (\<lambda>s' u. once_a_day (u @ '':'' @ clock_string now) (date_of now) u s') s2 users))"

definition mark_user :: "string \<Rightarrow> sq_state \<Rightarrow> string \<Rightarrow> sq_state" where
  "mark_user date s userID =
     s\<lparr>sqLastUserExecuteDates := (sqLastUserExecuteDates s)(userID @ '':startup-catchup'' := date)\<rparr>"

definition runStartupUserCatchUp :: "int \<Rightarrow> sq_state \<Rightarrow> sq_state" where
  "runStartupUserCatchUp now s =
     (case next_fault s of (f, s1) \<Rightarrow>
        (case GetUsersWithExpiredAutoSquareOff f (clock_string now) (sqConfigs s1) of
           Inl _ \<Rightarrow> s1
         | Inr users \<Rightarrow>
             if marketCloseMinutes \<le> ist_minutes now then foldl (mark_user (date_of now)) s1 users
             else foldl (\<lambda>s' u. once_a_day (u @ '':startup-catchup'') (date_of now) u s') s1 users))"

definition paper_catch_up :: "int \<Rightarrow> sq_state \<Rightarrow> sq_state" where
  "paper_catch_up now s =
     (case parseTime (sqPaperTime s) of (h, m) \<Rightarrow>
        if h \<noteq> - 1 \<and> h * 60 + m < ist_minutes now \<and> sqHasPaper s \<and> sqLastPaperExecuteDate s \<noteq> date_of now
        then sq_emit SqPaperAll (s\<lparr>sqLastPaperExecuteDate := date_of now\<rparr>) else s)"

definition live_catch_up :: "int \<Rightarrow> sq_state \<Rightarrow> sq_state" where
  "live_catch_up now s =
     (case parseTime (sqTime s) of (h, m) \<Rightarrow>
        if h \<noteq> - 1 \<and> h * 60 + m < ist_minutes now \<and> sqLastExecuteDate s \<noteq> date_of now
        then (let s1 = s\<lparr>sqLastExecuteDate := date_of now\<rparr>
              in if ist_minutes now < marketCloseMinutes then live_run s1 else s1)
        else s)"

definition runStartupCatchUp :: "sq_state \<Rightarrow> sq_state" where
  "runStartupCatchUp s =
     (case read_clock s of (now, s1) \<Rightarrow>
        if weekend now then s1
        else runStartupUserCatchUp now (live_catch_up now (paper_catch_up now s1)))"

text \<open>One tick of the minute timer in \<open>Start\<close>.\<close>

definition paper_trigger :: "sq_state \<Rightarrow> sq_state" where
  "paper_trigger s = (case shouldPaperSquareOff s of (s1, go) \<Rightarrow>
     if go \<and> sqHasPaper s1 then sq_emit SqPaperAll s1 else s1)"

definition live_trigger :: "sq_state \<Rightarrow> sq_state" where
  "live_trigger s = (case shouldSquareOff s of (s1, go) \<Rightarrow> if go then live_run s1 else s1)"

definition sq_tick :: "sq_state \<Rightarrow> sq_state" where
  "sq_tick s = live_trigger (paper_trigger (checkUserSquareOffs s))"

end
