(* ===== verification/RepoProps.thy ===== *)
theory RepoProps
  imports LevelRepo
begin

text \<open>
  What any sequence of statements keeps of the table of orders: rows are never lost, order
  identifiers stay unique, the identity of an order is fixed and its exit is final.
\<close>

section \<open>Sequences of statements\<close>

datatype repo_op =
    RpCreate Order
  | RpPartialExit Order
  | RpUpdate Order
  | RpOCOTag uuid uuid string
  | RpStatus uuid string
  | RpPaperTradeExit uuid float64 float64
  | RpPaperExitPrice uuid float64 float64
  | RpFilledQty uuid int
  | RpTrailingSL uuid float64
  | RpLiveTradeExit uuid float64 float64
  | RpCancelLive string
  | RpCancelStrategy string string

fun apply_op :: "fault \<Rightarrow> int \<Rightarrow> repo_op \<Rightarrow> rows \<Rightarrow> rows" where
  "apply_op f now (RpCreate o1) rows = fst (Create f o1 rows)"
| "apply_op f now (RpPartialExit o1) rows = fst (CreatePaperPartialExit f o1 rows)"
| "apply_op f now (RpUpdate o1) rows = fst (Update f now o1 rows)"
| "apply_op f now (RpOCOTag oid gid role) rows = fst (UpdateOCOTag f now oid gid role rows)"
| "apply_op f now (RpStatus oid st) rows = fst (UpdateStatus f now oid st rows)"
| "apply_op f now (RpPaperTradeExit oid p pnl) rows = fst (UpdatePaperTradeExit f now oid p pnl rows)"
| "apply_op f now (RpPaperExitPrice oid p pnl) rows = fst (UpdatePaperExitPrice f now oid p pnl rows)"
| "apply_op f now (RpFilledQty oid q) rows = fst (UpdatePaperPositionFilledQty f now oid q rows)"
| "apply_op f now (RpTrailingSL oid sl) rows = fst (UpdateTrailingSL f now oid sl rows)"
| "apply_op f now (RpLiveTradeExit oid p pnl) rows = fst (UpdateLiveTradeExit f now oid p pnl rows)"
| "apply_op f now (RpCancelLive u) rows = fst (CancelAllLiveOrdersByUser f now u rows)"
| "apply_op f now (RpCancelStrategy i u) rows = fst (cancel_strategy_orders f now i u rows)"

definition run_ops :: "(fault \<times> int \<times> repo_op) list \<Rightarrow> rows \<Rightarrow> rows" where
  "run_ops ops rows = foldl (\<lambda>rs (f, now, op). apply_op f now op rs) rows ops"

section \<open>What a statement keeps of a row\<close>

definition keeps_identity :: "Order \<Rightarrow> Order \<Rightarrow> bool" where
  "keeps_identity r r' \<longleftrightarrow>
     oOrderID r' = oOrderID r \<and> oUserID r' = oUserID r \<and> oStrategyID r' = oStrategyID r \<and>
     oSymbol r' = oSymbol r \<and> oOrderSide r' = oOrderSide r \<and> oQuantity r' = oQuantity r \<and>
     oIsSquareOffOrder r' = oIsSquareOffOrder r \<and> oCreatedAt r' = oCreatedAt r \<and>
     oAutoSquareOffTime r' = oAutoSquareOffTime r"

definition keeps_some :: "'a option \<Rightarrow> 'a option \<Rightarrow> bool" where
  "keeps_some x y \<longleftrightarrow> x \<noteq> None \<longrightarrow> y = x"

definition same_exit :: "Order \<Rightarrow> Order \<Rightarrow> bool" where
  "same_exit r r' \<longleftrightarrow>
     (oPaperExitPrice r \<noteq> None \<longrightarrow> oPaperExitPrice r' = oPaperExitPrice r \<and>
        keeps_some (oPaperPnL r) (oPaperPnL r') \<and> keeps_some (oPaperExitTime r) (oPaperExitTime r')) \<and>
     (oLiveExitPrice r \<noteq> None \<longrightarrow> oLiveExitPrice r' = oLiveExitPrice r \<and> oLivePnL r' = oLivePnL r \<and>
        oLiveExitTime r' = oLiveExitTime r)"

definition keeps_row :: "Order \<Rightarrow> Order \<Rightarrow> bool" where
  "keeps_row r r' \<longleftrightarrow> keeps_identity r r' \<and> same_exit r r'"

definition keeps_rows :: "rows \<Rightarrow> rows \<Rightarrow> bool" where
  "keeps_rows rows rows' \<longleftrightarrow> (\<forall>r\<in>set rows. \<exists>r'\<in>set rows'. keeps_row r r')"

lemma keeps_row_refl [simp]: "keeps_row r r"
  by (simp add: keeps_row_def keeps_identity_def same_exit_def keeps_some_def)

lemma keeps_row_trans: "keeps_row r r' \<Longrightarrow> keeps_row r' r'' \<Longrightarrow> keeps_row r r''"
  by (auto simp: keeps_row_def keeps_identity_def same_exit_def keeps_some_def)

lemma keeps_rows_mono: "set rows \<subseteq> set rows' \<Longrightarrow> keeps_rows rows rows'"
  unfolding keeps_rows_def using keeps_row_refl by blast

lemma keeps_rows_refl [simp]: "keeps_rows rows rows"
  by (simp add: keeps_rows_mono)

lemma keeps_rows_trans: "keeps_rows a b \<Longrightarrow> keeps_rows b c \<Longrightarrow> keeps_rows a c"
  unfolding keeps_rows_def by (meson keeps_row_trans)

lemma keeps_map: "(\<And>r. r \<in> set rows \<Longrightarrow> keeps_row r (g r)) \<Longrightarrow> keeps_rows rows (map g rows)"
  by (auto simp: keeps_rows_def)

lemma exec_update_fst: "fst (exec_update f p u rows) = map (\<lambda>r. if (f = NoFault \<or> f = Applied) \<and> p r then u r else r) rows"
  by (auto simp: exec_update_def)

lemma fst_affect [simp]: "fst (must_affect x) = fst x" "fst (may_affect x) = fst x"
  by (simp_all add: must_affect_def may_affect_def)

lemma keeps_update: "(\<And>r. p r \<Longrightarrow> keeps_row r (u r)) \<Longrightarrow> keeps_rows rows (fst (exec_update f p u rows))"
  unfolding exec_update_fst by (rule keeps_map) simp

lemma insert_row_fst: "fst (insert_row f e row rows) = rows \<or>
   (fst (insert_row f e row rows) = rows @ [row] \<and> oOrderID row \<notin> oOrderID ` set rows)"
  by (simp add: insert_row_def Let_def)

lemma keeps_insert: "keeps_rows rows (fst (insert_row f e row rows))"
  using insert_row_fst [of f e row rows] by (intro keeps_rows_mono) auto

lemmas update_defs = Update_def UpdateOCOTag_def UpdateStatus_def UpdatePaperTradeExit_def
  UpdatePaperExitPrice_def UpdatePaperPositionFilledQty_def UpdateTrailingSL_def UpdateLiveTradeExit_def
  CancelAllLiveOrdersByUser_def cancel_strategy_orders_def

lemma keeps_op: "keeps_rows rows (apply_op f now op rows)"
  by (cases op)
     (simp_all add: update_defs Create_def CreatePaperPartialExit_def keeps_insert del: One_nat_def,
      (rule keeps_update, simp add: keeps_row_def keeps_identity_def same_exit_def keeps_some_def
         deactivated_row_def Let_def)+)

lemma run_ops_Nil [simp]: "run_ops [] rows = rows"
  by (simp add: run_ops_def)

lemma run_ops_Cons [simp]: "run_ops ((f, now, op) # ops) rows = run_ops ops (apply_op f now op rows)"
  by (simp add: run_ops_def)

lemma keeps_run: "keeps_rows rows (run_ops ops rows)"
proof (induction ops arbitrary: rows)
  case (Cons x ops)
  then show ?case by (cases x) (auto intro: keeps_rows_trans [OF keeps_op])
qed simp

section \<open>Unique identifiers\<close>

definition unique_ids :: "rows \<Rightarrow> bool" where
  "unique_ids rows \<longleftrightarrow> distinct (map oOrderID rows)"

lemma unique_map: "(\<And>r. oOrderID (g r) = oOrderID r) \<Longrightarrow> unique_ids (map g rows) = unique_ids rows"
  by (simp add: unique_ids_def comp_def)

lemma unique_update: "(\<And>r. oOrderID (u r) = oOrderID r) \<Longrightarrow> unique_ids (fst (exec_update f p u rows)) = unique_ids rows"
  unfolding exec_update_fst by (rule unique_map) simp

lemma unique_insert: "unique_ids rows \<Longrightarrow> unique_ids (fst (insert_row f e row rows))"
  using insert_row_fst [of f e row rows] by (auto simp: unique_ids_def)

lemma unique_op: "unique_ids rows \<Longrightarrow> unique_ids (apply_op f now op rows)"
  by (cases op) (simp_all add: update_defs Create_def CreatePaperPartialExit_def unique_insert unique_update
     deactivated_row_def Let_def)

lemma unique_run: "unique_ids rows \<Longrightarrow> unique_ids (run_ops ops rows)"
proof (induction ops arbitrary: rows)
  case (Cons x ops)
  then show ?case by (cases x) (simp add: unique_op)
qed simp

lemma unique_row: "unique_ids rows \<Longrightarrow> r \<in> set rows \<Longrightarrow> s \<in> set rows \<Longrightarrow> oOrderID r = oOrderID s \<Longrightarrow> r = s"
  by (auto simp: unique_ids_def distinct_map dest: inj_onD)

section \<open>Claims\<close>

lemma find_unique: "unique_ids rows \<Longrightarrow> r \<in> set rows \<Longrightarrow> find (has_id (oOrderID r)) rows = Some r"
proof (induction rows)
  case (Cons a rows)
  then show ?case by (cases "a = r") (auto simp: has_id_def unique_ids_def rev_image_eqI)
qed simp

lemma GetByID_iff:
  assumes "unique_ids rows"
  shows "GetByID NoFault oid rows = Inr r \<longleftrightarrow> r \<in> set rows \<and> oOrderID r = oid"
proof (cases "\<exists>x\<in>set rows. oOrderID x = oid")
  case True
  then obtain x where x: "x \<in> set rows" "oOrderID x = oid" by blast
  then have "GetByID NoFault oid rows = Inr x"
    using find_unique [OF assms x(1)] by (simp add: GetByID_def select_one_def)
  then show ?thesis using x(2) unique_row [OF assms x(1)] x(1) by (metis sum.inject(2))
next
  case False
  then have "find (has_id oid) rows = None" by (auto simp: find_None_iff has_id_def)
  then show ?thesis using False by (auto simp: GetByID_def select_one_def)
qed

text \<open>
  C41. Whatever statements follow, failed or applied, an order stays in the table with its identity
  (user, strategy, symbol, side, quantity, creation) and the first recorded exit is final: its
  price, profit and time are never overwritten, for paper and for live positions.
\<close>

theorem recorded_exit_is_final:
  assumes "unique_ids rows" and "GetByID NoFault oid rows = Inr r"
  shows "\<exists>r'. GetByID NoFault oid (run_ops ops rows) = Inr r' \<and> keeps_identity r r' \<and>
    (\<forall>p. oPaperExitPrice r = Some p \<longrightarrow> oPaperExitPrice r' = Some p \<and>
       (\<forall>x. oPaperPnL r = Some x \<longrightarrow> oPaperPnL r' = Some x) \<and>
       (\<forall>t. oPaperExitTime r = Some t \<longrightarrow> oPaperExitTime r' = Some t)) \<and>
    (\<forall>p. oLiveExitPrice r = Some p \<longrightarrow> oLiveExitPrice r' = Some p \<and> oLivePnL r' = oLivePnL r \<and>
       oLiveExitTime r' = oLiveExitTime r)"
proof -
  obtain r' where "r' \<in> set (run_ops ops rows)" "keeps_row r r'"
    using assms keeps_run [of rows ops] by (auto simp: GetByID_iff keeps_rows_def)
  then show ?thesis using assms
    by (intro exI [of _ r']) (auto simp: GetByID_iff unique_run keeps_row_def keeps_identity_def same_exit_def keeps_some_def)
qed

definition demo_paper :: Order where
  "demo_paper = zero_order\<lparr>oOrderID := 1, oUserID := ''u'', oStrategyID := ''s'', oSymbol := ''INFY'',
     oOrderSide := ''BUY'', oQuantity := 2, oStatus := ''FILLED'', oIsPaperTrade := True,
     oFilledQuantity := 2, oFilledPrice := Some 100, oPaperExitPrice := Some 90, oPaperPnL := Some (- 20)\<rparr>"

lemma recorded_exit_is_final_witness:
  "unique_ids [demo_paper] \<and> GetByID NoFault 1 [demo_paper] = Inr demo_paper \<and>
   (\<exists>r'. GetByID NoFault 1 (run_ops [(NoFault, 5, RpPaperTradeExit 1 110 20), (Applied, 6, RpCancelStrategy ''s'' ''u'')]
           [demo_paper]) = Inr r' \<and> oPaperExitPrice r' = Some 90 \<and> oPaperPnL r' = Some (- 20))"
proof -
  have 1: "unique_ids [demo_paper]" by (simp add: unique_ids_def)
  have 2: "GetByID NoFault 1 [demo_paper] = Inr demo_paper"
    by (simp add: GetByID_def select_one_def has_id_def demo_paper_def)
  let ?ops = "[(NoFault, 5, RpPaperTradeExit 1 110 20), (Applied, 6, RpCancelStrategy ''s'' ''u'')]"
  have exit_known: "oPaperExitPrice demo_paper = Some 90" "oPaperPnL demo_paper = Some (- 20)"
    by (simp_all add: demo_paper_def)
  obtain r' where "GetByID NoFault 1 (run_ops ?ops [demo_paper]) = Inr r'" "oPaperExitPrice r' = Some 90"
    "oPaperPnL r' = Some (- 20)"
    using recorded_exit_is_final [OF 1 2, of ?ops] exit_known by blast
  then show ?thesis using 1 2 by blast
qed

text \<open>
  C42. Creating an order stores exactly the listed columns: reading it back gives the order without
  fills, exits, broker numbers, highest and maximal price and square-off time. Creating it again is
  refused as a duplicate and changes nothing, so a repeated delivery cannot insert it twice.
\<close>

theorem create_then_read:
  assumes "oOrderID o1 \<notin> oOrderID ` set rows"
  shows "\<exists>rows'. Create NoFault o1 rows = (rows', Inr ()) \<and>
    GetByID NoFault (oOrderID o1) rows' = Inr (o1
      \<lparr>oFilledQuantity := 0, oFilledPrice := None, oPaperExitPrice := None, oPaperPnL := None,
       oPaperExitTime := None, oLiveExitPrice := None, oLivePnL := None, oLiveExitTime := None,
       oIndiraOrderID := None, oOdinOrderID := None, oExchangeOrderNumber := None,
       oErrorMessage := None, oRejectionReason := None, oHighestPrice := None, oMaxMonitorPrice := None,
       oAutoSquareOffTime := None\<rparr>) \<and>
    Create NoFault o1 rows' = (rows', Inl ErrDuplicateOrder)"
proof -
  have "find (has_id (oOrderID o1)) rows = None" using assms by (metis find_None_iff has_id_def imageI)
  then have "find (has_id (oOrderID o1)) (rows @ [created_row o1]) = Some (created_row o1)"
    by (induction rows) (auto simp: has_id_def created_row_def zero_order_def split: if_splits)
  moreover have "oOrderID (created_row o1) = oOrderID o1" by (simp add: created_row_def)
  ultimately show ?thesis using assms
    by (simp add: Create_def insert_row_def Let_def GetByID_def select_one_def)
       (simp add: created_row_def zero_order_def)
qed

lemma create_then_read_witness:
  "oOrderID demo_paper \<notin> oOrderID ` set [] \<and>
   (\<exists>rows'. Create NoFault demo_paper [] = (rows', Inr ()) \<and>
      Create NoFault demo_paper rows' = (rows', Inl ErrDuplicateOrder))"
  using create_then_read [of demo_paper "[]"] by auto

section \<open>Findings\<close>

definition unstored_none :: "Order \<Rightarrow> bool" where
  "unstored_none r \<longleftrightarrow> oAutoSquareOffTime r = None \<and> oMaxMonitorPrice r = None \<and> oHighestPrice r = None"

lemma unstored_update:
  "(\<And>r. unstored_none (u r) = unstored_none r) \<Longrightarrow> \<forall>r\<in>set rows. unstored_none r \<Longrightarrow>
   \<forall>r\<in>set (fst (exec_update f p u rows)). unstored_none r"
  unfolding exec_update_fst by auto

lemma unstored_insert:
  "unstored_none row \<Longrightarrow> \<forall>r\<in>set rows. unstored_none r \<Longrightarrow> \<forall>r\<in>set (fst (insert_row f e row rows)). unstored_none r"
  using insert_row_fst [of f e row rows] by auto

lemma unstored_op: "\<forall>r\<in>set rows. unstored_none r \<Longrightarrow> \<forall>r\<in>set (apply_op f now op rows). unstored_none r"
  by (cases op)
     (simp_all only: apply_op.simps Create_def CreatePaperPartialExit_def update_defs fst_affect,
      (rule unstored_insert unstored_update; simp add: unstored_none_def created_row_def partial_exit_row_def
         zero_order_def deactivated_row_def Let_def)+)

lemma unstored_run: "\<forall>r\<in>set rows. unstored_none r \<Longrightarrow> \<forall>r\<in>set (run_ops ops rows). unstored_none r"
proof (induction ops arbitrary: rows)
  case (Cons x ops)
  obtain f now op where x: "x = (f, now, op)" by (cases x rule: prod_cases3)
  show ?case unfolding x run_ops_Cons by (rule Cons.IH [OF unstored_op [OF Cons.prems]])
qed simp

text \<open>
  No statement writes the user's square-off time, the bound of the price monitor or the best price
  of a trailing stop: every row read back lacks them.
\<close>

theorem times_and_bounds_not_stored:
  assumes "r \<in> set (run_ops ops [])"
  shows "oAutoSquareOffTime r = None \<and> oMaxMonitorPrice r = None \<and> oHighestPrice r = None"
proof -
  have "\<forall>r\<in>set (run_ops ops []). unstored_none r" by (rule unstored_run) simp
  then show ?thesis using assms unfolding unstored_none_def by blast
qed

end
