(* ===== verification/SquareOffProps.thy ===== *)
theory SquareOffProps
  imports SquareOff RepoProps
begin

text \<open>
  Runs of the square-off scheduler: its ticks, restarts with the catch-up, changes of the
  configuration and of the position book, and the statements the rest of the service sends to the
  table of orders in between.
\<close>

section \<open>Runs\<close>

definition wired :: "bool \<Rightarrow> bool \<Rightarrow> PositionChecker option \<Rightarrow> sq_state \<Rightarrow> sq_state" where
  "wired p u c s = s\<lparr>sqHasPaper := p, sqHasPaperUser := u, sqChecker := c\<rparr>"

text \<open>Writing an order back keeps its paper flag.\<close>

definition keeps_paper_flag :: "repo_op \<Rightarrow> rows \<Rightarrow> bool" where
  "keeps_paper_flag op rows \<longleftrightarrow>
     (case op of RpUpdate o1 \<Rightarrow> list_all (\<lambda>r. oOrderID r = oOrderID o1 \<longrightarrow> oIsPaperTrade r = oIsPaperTrade o1) rows
      | _ \<Rightarrow> True)"

inductive sq_run :: "sq_state \<Rightarrow> sq_state \<Rightarrow> bool" for s0 where
  run_start: "sq_run s0 s0"
| run_tick: "sq_run s0 s \<Longrightarrow> sq_run s0 (sq_tick s)"
| run_catch_up: "sq_run s0 s \<Longrightarrow> sq_run s0 (runStartupCatchUp s)"
| run_restart: "sq_run s0 s \<Longrightarrow> sq_run s0 (wired p u c (NewAutoSquareOffScheduler t s))"
| run_config: "sq_run s0 s \<Longrightarrow> sq_run s0 (s\<lparr>sqConfigs := cs\<rparr>)"
| run_book: "sq_run s0 s \<Longrightarrow> sq_run s0 (s\<lparr>sqChecker := c\<rparr>)"
| run_statement: "sq_run s0 s \<Longrightarrow> keeps_paper_flag op (sqOrders s) \<Longrightarrow>
    sq_run s0 (s\<lparr>sqOrders := apply_op f now op (sqOrders s)\<rparr>)"

fun sq_executions :: "sq_effect list \<Rightarrow> (uuid \<times> Order \<times> int) list" where
  "sq_executions [] = []"
| "sq_executions (SqExecute i sq t ok # es) = (i, sq, t) # sq_executions es"
| "sq_executions (e # es) = sq_executions es"

lemma executions_append [simp]: "sq_executions (xs @ ys) = sq_executions xs @ sq_executions ys"
  by (induction xs rule: sq_executions.induct) simp_all

definition readings :: "sq_state \<Rightarrow> int set" where
  "readings s = insert (sqNow s) (set (sqClock s))"

text \<open>Steps that touch neither the orders nor the sq_executions.\<close>

definition sq_frame :: "sq_state \<Rightarrow> sq_state \<Rightarrow> bool" where
  "sq_frame s s' \<longleftrightarrow> sqOrders s' = sqOrders s \<and> sq_executions (sqOut s') = sq_executions (sqOut s) \<and>
     readings s' \<subseteq> readings s"

lemma sq_frame_refl [simp]: "sq_frame s s"
  by (simp add: sq_frame_def)

lemma sq_frame_trans: "sq_frame s s' \<Longrightarrow> sq_frame s' s'' \<Longrightarrow> sq_frame s s''"
  by (auto simp: sq_frame_def)

lemma frame_clock: "read_clock s = (t, s') \<Longrightarrow> sq_frame s s' \<and> t \<in> readings s \<and> sqNow s' = t"
  by (auto simp: read_clock_def sq_frame_def readings_def split: list.splits)

lemma frame_fault: "next_fault s = (f, s') \<Longrightarrow> sq_frame s s'"
  by (auto simp: next_fault_def sq_frame_def readings_def split: list.splits)

lemma frame_emit: "sq_executions [e] = [] \<Longrightarrow> sq_frame s (sq_emit e s)"
  by (simp add: sq_frame_def sq_emit_def readings_def)

lemma frame_fields [simp]:
  "sq_frame s (s\<lparr>sqLastExecuteDate := d\<rparr>)" "sq_frame s (s\<lparr>sqLastPaperExecuteDate := d\<rparr>)"
  "sq_frame s (s\<lparr>sqLastUserExecuteDates := g\<rparr>)" "sq_frame s (s\<lparr>sqConfigs := cs\<rparr>)"
  "sq_frame s (s\<lparr>sqChecker := c\<rparr>)" "sq_frame s (s\<lparr>sqNextId := n\<rparr>)" "sq_frame s (mark_user date s u)"
  "sq_frame s (wired p v c (NewAutoSquareOffScheduler t s))"
  by (simp_all add: sq_frame_def readings_def mark_user_def wired_def NewAutoSquareOffScheduler_def)

lemma frame_marks: "sq_frame s (foldl (mark_user d) s us)"
  by (induction us arbitrary: s) (auto intro: sq_frame_trans [OF frame_fields(7)])

section \<open>Invariants of the scheduler\<close>

text \<open>
  The contract of an invariant: framing steps, statements of others and the closing of one
  fetched list of open positions keep it; then every run does.
\<close>

locale sq_invariant =
  fixes I :: "sq_state \<Rightarrow> bool"
  assumes frame: "I s \<Longrightarrow> sq_frame s s' \<Longrightarrow> I s'"
    and statement: "I s \<Longrightarrow> keeps_paper_flag op (sqOrders s) \<Longrightarrow> I (s\<lparr>sqOrders := apply_op f now op (sqOrders s)\<rparr>)"
    and batch: "I s0 \<Longrightarrow> dbNow \<in> readings s0 \<Longrightarrow> sq_frame s0 s \<Longrightarrow>
      (\<And>r. p r \<Longrightarrow> open_position dbNow (sqOrders s) r) \<Longrightarrow>
      I (foldl (close_order books t) s (sort_key oCreatedAt (filter p (sqOrders s))))"
begin

lemma clock_step: "I s \<Longrightarrow> read_clock s = (t, s') \<Longrightarrow> I s'"
  using frame frame_clock by blast

lemma fault_step: "I s \<Longrightarrow> next_fault s = (f, s') \<Longrightarrow> I s'"
  using frame frame_fault by blast

lemma all_positions: "I s \<Longrightarrow> I (squareOffAllPositions s)"
proof -
  assume i: "I s"
  obtain f s1 where 1: "next_fault s = (f, s1)" by fastforce
  obtain dbNow s2 where 2: "read_clock s1 = (dbNow, s2)" by fastforce
  obtain now s3 where 3: "read_clock s2 = (now, s3)" by fastforce
  have i2: "I s2" using i 1 2 clock_step fault_step by blast
  have db: "dbNow \<in> readings s2" using frame_clock [OF 2] by (simp add: readings_def)
  have fr: "sq_frame s2 s3" using frame_clock [OF 3] by simp
  then have os: "sqOrders s3 = sqOrders s2" by (simp add: sq_frame_def)
  show ?thesis
  proof (cases "GetOpenOrders f dbNow (sqOrders s2)")
    case (Inl e)
    then show ?thesis using i2 by (simp add: squareOffAllPositions_def 1 2)
  next
    case (Inr xs)
    then have xs: "xs = sort_key oCreatedAt (filter (open_position dbNow (sqOrders s2)) (sqOrders s2))"
      by (simp add: GetOpenOrders_def select_asc_def split: if_splits)
    show ?thesis
    proof (cases "xs = []")
      case True
      then show ?thesis using i2 Inr by (simp add: squareOffAllPositions_def 1 2)
    next
      case False
      have "I (foldl (close_order (snapshots (sqChecker s3)) (Some (clock_string now))) s3 xs)"
        unfolding xs os [symmetric] by (rule batch [OF i2 db fr]) simp
      then show ?thesis using Inr False by (simp add: squareOffAllPositions_def 1 2 3)
    qed
  qed
qed

lemma user_positions: "I s \<Longrightarrow> I (squareOffUserPositions u s)"
proof -
  assume i: "I s"
  obtain f s1 where 1: "next_fault s = (f, s1)" by fastforce
  obtain dbNow s2 where 2: "read_clock s1 = (dbNow, s2)" by fastforce
  have i2: "I s2" using i 1 2 clock_step fault_step by blast
  have db: "dbNow \<in> readings s2" using frame_clock [OF 2] by (simp add: readings_def)
  show ?thesis
  proof (cases "GetOpenOrdersByUser f dbNow u (sqOrders s2)")
    case (Inl e)
    then show ?thesis using i2 by (simp add: squareOffUserPositions_def 1 2)
  next
    case (Inr xs)
    then have xs: "xs = sort_key oCreatedAt (filter (\<lambda>r. oUserID r = u \<and> open_position dbNow (sqOrders s2) r) (sqOrders s2))"
      by (simp add: GetOpenOrdersByUser_def select_asc_def split: if_splits)
    have "I (foldl (close_order (\<lambda>_. snapshots (sqChecker s2) u) None) s2 xs)"
      unfolding xs by (rule batch [OF i2 db sq_frame_refl]) simp
    then show ?thesis using Inr by (simp add: squareOffUserPositions_def 1 2)
  qed
qed

lemma emit_step: "I s \<Longrightarrow> sq_executions [e] = [] \<Longrightarrow> I (sq_emit e s)"
  using frame frame_emit by blast

lemma live_run_step: "I s \<Longrightarrow> I (live_run s)"
  unfolding live_run_def by (intro all_positions emit_step) simp_all

lemma close_user_step: "I s \<Longrightarrow> I (close_user u s)"
  unfolding close_user_def by (rule user_positions) (simp add: emit_step)

lemma guarded_step: "I s \<Longrightarrow> I (once_a_day g d u s)"
  unfolding once_a_day_def by (auto intro: close_user_step frame [OF _ frame_fields(3)])

lemma guarded_steps: "I s \<Longrightarrow> I (foldl (\<lambda>s' u. once_a_day (g u) d u s') s us)"
  by (induction us arbitrary: s) (auto intro: guarded_step)

lemma users_step: "I s \<Longrightarrow> I (checkUserSquareOffs s)"
proof -
  assume i: "I s"
  obtain now s1 where 1: "read_clock s = (now, s1)" by fastforce
  obtain f s2 where 2: "next_fault s1 = (f, s2)" by fastforce
  have i1: "I s1" and i2: "I s2" using i 1 2 clock_step fault_step by blast+
  show ?thesis
    using i1 i2 guarded_steps [OF i2] by (auto simp: checkUserSquareOffs_def 1 2 split: sum.splits)
qed

lemma trigger_steps: "I s \<Longrightarrow> I (paper_trigger s)" "I s \<Longrightarrow> I (live_trigger s)"
proof -
  assume i: "I s"
  obtain now s1 where 1: "read_clock s = (now, s1)" by fastforce
  have i1: "I s1" using i 1 clock_step by blast
  have p: "I (sq_emit SqPaperAll (s1\<lparr>sqLastPaperExecuteDate := d\<rparr>))" "I (s1\<lparr>sqLastPaperExecuteDate := d\<rparr>)" for d
    using frame [OF i1 frame_fields(2)] by (simp_all add: emit_step)
  have l: "I (live_run (s1\<lparr>sqLastExecuteDate := d\<rparr>))" for d
    using live_run_step [OF frame [OF i1 frame_fields(1)]] .
  show "I (paper_trigger s)" using i1 p by (auto simp: paper_trigger_def shouldPaperSquareOff_def 1)
  show "I (live_trigger s)" using i1 l by (auto simp: live_trigger_def shouldSquareOff_def 1)
qed

lemma tick_step: "I s \<Longrightarrow> I (sq_tick s)"
  unfolding sq_tick_def by (intro trigger_steps users_step)

lemma catch_up_step: "I s \<Longrightarrow> I (runStartupCatchUp s)"
proof -
  assume i: "I s"
  obtain now s1 where 1: "read_clock s = (now, s1)" by fastforce
  have i1: "I s1" using i 1 clock_step by blast
  have p: "I x \<Longrightarrow> I (paper_catch_up now x)" for x
    using emit_step [OF frame [OF _ frame_fields(2)], of x SqPaperAll]
    by (auto simp: paper_catch_up_def split: prod.splits)
  have l: "I x \<Longrightarrow> I (live_catch_up now x)" for x
    using frame [OF _ frame_fields(1)] live_run_step
    by (auto simp: live_catch_up_def Let_def split: prod.splits)
  have u: "I x \<Longrightarrow> I (runStartupUserCatchUp now x)" for x
  proof -
    assume x: "I x"
    obtain f x1 where 2: "next_fault x = (f, x1)" by fastforce
    have x1: "I x1" using x 2 fault_step by blast
    show ?thesis using x1 guarded_steps [OF x1] frame [OF x1 frame_marks]
      by (auto simp: runStartupUserCatchUp_def 2 split: sum.splits)
  qed
  show ?thesis using i1 u [OF l [OF p [OF i1]]] by (auto simp: runStartupCatchUp_def 1)
qed

lemma run_keeps: "sq_run s0 s \<Longrightarrow> I s0 \<Longrightarrow> I s"
proof (induction rule: sq_run.induct)
  case (run_statement s op f now)
  then show ?case by (intro statement)
qed (auto intro: tick_step catch_up_step frame [OF _ frame_fields(4)] frame [OF _ frame_fields(5)]
      frame [OF _ frame_fields(8)])

end

section \<open>Closing one position\<close>

text \<open>
  What closing an order does: at most one row is added, and an execution needs the row and a time
  before the close of the market.
\<close>

definition may_close :: "Order \<Rightarrow> sq_state \<Rightarrow> sq_state \<Rightarrow> bool" where
  "may_close orig s s' \<longleftrightarrow> readings s' \<subseteq> readings s \<and>
     (sqOrders s' = sqOrders s \<and> sq_executions (sqOut s') = sq_executions (sqOut s) \<or>
      (\<exists>i created updated now. created \<in> readings s \<and> i \<notin> oOrderID ` set (sqOrders s) \<and>
         sqOrders s' = sqOrders s @ [created_row (square_off_order i created updated orig)] \<and>
         (sq_executions (sqOut s') = sq_executions (sqOut s) \<or>
          ist_minutes now < marketCloseMinutes \<and>
          sq_executions (sqOut s') = sq_executions (sqOut s) @ [(oOrderID orig, square_off_order i created updated orig, now)])))"

lemma may_close_added:
  assumes "readings s' \<subseteq> readings s" "created \<in> readings s" "i \<notin> oOrderID ` set (sqOrders s)"
    "sqOrders s' = sqOrders s @ [created_row (square_off_order i created updated orig)]"
    "sq_executions (sqOut s') = sq_executions (sqOut s) \<or> ist_minutes now < marketCloseMinutes \<and>
       sq_executions (sqOut s') = sq_executions (sqOut s) @ [(oOrderID orig, square_off_order i created updated orig, now)]"
  shows "may_close orig s s'"
  using assms unfolding may_close_def by blast

lemma execute_cases:
  "sqOrders (fst (execute_square_off orig sq now s)) = sqOrders s \<and>
   readings (fst (execute_square_off orig sq now s)) = readings s \<and>
   sq_executions (sqOut (fst (execute_square_off orig sq now s))) = sq_executions (sqOut s) @ [(oOrderID orig, sq, now)]"
  by (auto simp: execute_square_off_def sq_emit_def readings_def next_reply_def split: list.splits)

lemma save_cases:
  assumes "sq_frame s0 s" "created \<in> readings s0" "ist_minutes now < marketCloseMinutes"
  shows "may_close orig s0 (fst (save_square_off orig (square_off_order i created updated orig) now s))"
proof -
  let ?sq = "square_off_order i created updated orig"
  obtain f s1 where 1: "next_fault s = (f, s1)" by fastforce
  note fr = frame_fault [OF 1, unfolded sq_frame_def] assms(1) [unfolded sq_frame_def]
  have same: "sqOrders s1 = sqOrders s" using fr by simp
  have ids: "oOrderID (created_row ?sq) = i" by (simp add: created_row_def square_off_order_def)
  obtain os r where 2: "Create f ?sq (sqOrders s) = (os, r)" by fastforce
  have os: "os = sqOrders s \<or> os = sqOrders s @ [created_row ?sq] \<and> i \<notin> oOrderID ` set (sqOrders s)"
    using insert_row_fst [of f ErrDuplicateOrder "created_row ?sq" "sqOrders s"] 2 ids by (auto simp: Create_def)
  show ?thesis
  proof (cases r)
    case (Inl e)
    have "save_square_off orig ?sq now s = (s1\<lparr>sqOrders := os\<rparr>, False)"
      by (simp add: save_square_off_def 1 same 2 Inl)
    moreover have "readings (s1\<lparr>sqOrders := os\<rparr>) \<subseteq> readings s0" using fr by (auto simp: readings_def)
    ultimately have f: "fst (save_square_off orig ?sq now s) = s1\<lparr>sqOrders := os\<rparr>"
      and r: "readings (s1\<lparr>sqOrders := os\<rparr>) \<subseteq> readings s0" by simp_all
    from os show ?thesis
    proof
      assume "os = sqOrders s"
      then show ?thesis using fr r unfolding f by (simp add: may_close_def)
    next
      assume "os = sqOrders s @ [created_row ?sq] \<and> i \<notin> oOrderID ` set (sqOrders s)"
      then show ?thesis using fr unfolding f by (intro may_close_added [OF r assms(2)]) simp_all
    qed
  next
    case (Inr u)
    then have "os = sqOrders s @ [created_row ?sq]" "i \<notin> oOrderID ` set (sqOrders s)"
      using 2 ids by (auto simp: Create_def insert_row_def Let_def split: if_splits)
    moreover have "save_square_off orig ?sq now s = execute_square_off orig ?sq now (s1\<lparr>sqOrders := os\<rparr>)"
      by (simp add: save_square_off_def 1 same 2 Inr)
    moreover have "readings (s1\<lparr>sqOrders := os\<rparr>) \<subseteq> readings s0" using fr by (auto simp: readings_def)
    ultimately show ?thesis using fr assms(3) execute_cases [of orig ?sq now "s1\<lparr>sqOrders := os\<rparr>"]
      by (intro may_close_added [OF _ assms(2)]) auto
  qed
qed

lemma frame_may_close: "sq_frame s s' \<Longrightarrow> may_close orig s s'"
  by (auto simp: may_close_def sq_frame_def)

lemma create_may_close: "may_close orig s (fst (createAndExecuteSquareOffOrder orig s))"
proof -
  obtain now s1 where 1: "read_clock s = (now, s1)" by fastforce
  obtain created s2 where 2: "read_clock s1 = (created, s2)" by fastforce
  obtain updated s3 where 3: "read_clock s2 = (updated, s3)" by fastforce
  show ?thesis
  proof (cases "marketCloseMinutes \<le> ist_minutes now")
    case True
    then show ?thesis using frame_clock [OF 1] by (simp add: createAndExecuteSquareOffOrder_def 1 frame_may_close)
  next
    case False
    have fr: "sq_frame s s1" "sq_frame s1 s2" "sq_frame s2 (s3\<lparr>sqNextId := n\<rparr>)" for n
      using frame_clock [OF 1] frame_clock [OF 2] frame_clock [OF 3] sq_frame_trans [OF _ frame_fields(6)] by auto
    have "sq_frame s (s3\<lparr>sqNextId := n\<rparr>)" for n using fr sq_frame_trans by blast
    moreover have "created \<in> readings s" using frame_clock [OF 2] fr(1) by (auto simp: sq_frame_def)
    ultimately show ?thesis using save_cases False by (simp add: createAndExecuteSquareOffOrder_def 1 2 3)
  qed
qed

lemma close_order_cases: "may_close o1 s (close_order books t s o1)"
  using create_may_close [of o1 s] by (simp add: close_order_def frame_may_close)

definition sq_key :: "Order \<Rightarrow> string \<times> string \<times> string" where
  "sq_key r = (oUserID r, oSymbol r, oStrategyID r)"

definition known :: "rows \<Rightarrow> Order \<Rightarrow> bool" where
  "known rows o1 \<longleftrightarrow> (\<exists>r\<in>set rows. oOrderID r = oOrderID o1 \<and> sq_key r = sq_key o1 \<and> oOrderSide r = oOrderSide o1)"

lemma known_mono: "keeps_rows rows rows' \<Longrightarrow> known rows o1 \<Longrightarrow> known rows' o1"
  unfolding known_def keeps_rows_def keeps_row_def keeps_identity_def sq_key_def by metis

lemma may_close_keeps: "may_close o1 s s' \<Longrightarrow> keeps_rows (sqOrders s) (sqOrders s')"
  by (auto simp: may_close_def intro: keeps_rows_mono)

lemma keeps_statement: "keeps_rows rows (apply_op f now op rows)"
  by (rule keeps_op)

section \<open>Exits are exits\<close>

definition exit_ok :: "rows \<Rightarrow> uuid \<times> Order \<times> int \<Rightarrow> bool" where
  "exit_ok rows e = (case e of (i, sq, t) \<Rightarrow>
     ist_minutes t < marketCloseMinutes \<and> oOrderType sq = ''MARKET'' \<and> oIsSquareOffOrder sq \<and> \<not> oIsPaperTrade sq \<and>
     (\<exists>r\<in>set rows. oOrderID r = i \<and> sq_key r = sq_key sq \<and> oOrderSide sq = reverse_side (oOrderSide r)))"

definition exits_ok :: "sq_state \<Rightarrow> bool" where
  "exits_ok s \<longleftrightarrow> (\<forall>e\<in>set (sq_executions (sqOut s)). exit_ok (sqOrders s) e)"

lemma exit_ok_mono: "keeps_rows rows rows' \<Longrightarrow> exit_ok rows e \<Longrightarrow> exit_ok rows' e"
  unfolding exit_ok_def keeps_rows_def keeps_row_def keeps_identity_def sq_key_def
  by (clarsimp split: prod.splits) metis

lemma square_off_fields [simp]:
  "oOrderType (square_off_order i c u o1) = ''MARKET''" "oIsSquareOffOrder (square_off_order i c u o1)"
  "\<not> oIsPaperTrade (square_off_order i c u o1)" "sq_key (square_off_order i c u o1) = sq_key o1"
  "oOrderSide (square_off_order i c u o1) = reverse_side (oOrderSide o1)" "oOrderID (square_off_order i c u o1) = i"
  "oCreatedAt (square_off_order i c u o1) = c"
  by (simp_all add: square_off_order_def OrderTypeMarket_def sq_key_def zero_order_def)

lemma exits_step: "exits_ok s \<Longrightarrow> may_close o1 s s' \<Longrightarrow> known (sqOrders s) o1 \<Longrightarrow> exits_ok s'"
proof -
  assume e: "exits_ok s" and m: "may_close o1 s s'" and k: "known (sqOrders s) o1"
  have "ist_minutes now < marketCloseMinutes \<Longrightarrow> exit_ok (sqOrders s) (oOrderID o1, square_off_order i c u o1, now)" for i c u now
    using k by (auto simp: exit_ok_def known_def)
  then have "\<forall>e\<in>set (sq_executions (sqOut s')). exit_ok (sqOrders s) e"
    using m e unfolding may_close_def exits_ok_def by (elim conjE disjE exE) simp_all
  then show ?thesis unfolding exits_ok_def using exit_ok_mono [OF may_close_keeps [OF m]] by blast
qed

lemma exits_batch: "exits_ok s \<Longrightarrow> \<forall>o1\<in>set xs. known (sqOrders s) o1 \<Longrightarrow> exits_ok (foldl (close_order books t) s xs)"
proof (induction xs arbitrary: s)
  case (Cons o1 xs)
  note m = close_order_cases [of o1 s books t]
  show ?case using Cons.IH [OF exits_step [OF Cons.prems(1) m]] Cons.prems(2) known_mono [OF may_close_keeps [OF m]]
    by simp
qed simp

lemma known_self: "o1 \<in> set rows \<Longrightarrow> known rows o1"
  by (auto simp: known_def)

interpretation hours: sq_invariant exits_ok
proof
  show "exits_ok s \<Longrightarrow> sq_frame s s' \<Longrightarrow> exits_ok s'" for s s'
    by (simp add: exits_ok_def sq_frame_def)
  show "exits_ok s \<Longrightarrow> exits_ok (s\<lparr>sqOrders := apply_op f now op (sqOrders s)\<rparr>)" for s f now op
    using exit_ok_mono [OF keeps_op] by (simp add: exits_ok_def)
  show "exits_ok s0 \<Longrightarrow> sq_frame s0 s \<Longrightarrow>
      exits_ok (foldl (close_order books t) s (sort_key oCreatedAt (filter p (sqOrders s))))" for s0 s p books t
    by (rule exits_batch) (auto simp: exits_ok_def sq_frame_def known_self)
qed

section \<open>Once a day\<close>

text \<open>A square-off row of the day, for a user, symbol and strategy.\<close>

definition closing_row :: "int \<Rightarrow> string \<times> string \<times> string \<Rightarrow> Order \<Rightarrow> bool" where
  "closing_row d k r \<longleftrightarrow> oIsSquareOffOrder r \<and> \<not> oIsPaperTrade r \<and> ist_day (oCreatedAt r) = d \<and> sq_key r = k"

definition once_inv :: "int \<Rightarrow> sq_state \<Rightarrow> bool" where
  "once_inv d s \<longleftrightarrow> unique_ids (sqOrders s) \<and> (\<forall>t\<in>readings s. ist_day t = d) \<and>
     distinct (map fst (sq_executions (sqOut s))) \<and>
     (\<forall>(i, sq, t)\<in>set (sq_executions (sqOut s)).
        (\<exists>c\<in>set (sqOrders s). closing_row d (sq_key sq) c) \<and>
        (\<exists>r\<in>set (sqOrders s). oOrderID r = i \<and> sq_key r = sq_key sq))"

lemma open_not_closed: "open_position now rows r \<Longrightarrow> c \<in> set rows \<Longrightarrow> \<not> closing_row (ist_day now) (sq_key r) c"
  by (auto simp: open_position_def squared_off_today_def closing_row_def sq_key_def today_def list_ex_iff)

lemma closing_row_update:
  assumes "c \<in> set rows" "closing_row d k c" "keeps_paper_flag op rows"
  shows "\<exists>c'\<in>set (apply_op f now op rows). closing_row d k c'"
proof -
  have upd: "\<exists>c'\<in>set (fst (exec_update g p u rows)). closing_row d k c'"
    if "\<And>r. r \<in> set rows \<Longrightarrow> p r \<Longrightarrow> closing_row d k r \<Longrightarrow> closing_row d k (u r)" for g p u
  proof
    show "closing_row d k (if (g = NoFault \<or> g = Applied) \<and> p c then u c else c)" using that assms(1,2) by simp
    show "(if (g = NoFault \<or> g = Applied) \<and> p c then u c else c) \<in> set (fst (exec_update g p u rows))"
      unfolding exec_update_fst set_map by (rule imageI [OF assms(1)])
  qed
  have ins: "\<exists>c'\<in>set (fst (insert_row g e row rows)). closing_row d k c'" for g e row
    using assms(1,2) insert_row_fst [of g e row rows] by auto
  show ?thesis
    using assms(3)
    by (cases op)
       (simp_all only: apply_op.simps Create_def CreatePaperPartialExit_def update_defs fst_affect,
        (rule ins upd; simp add: closing_row_def sq_key_def deactivated_row_def Let_def keeps_paper_flag_def
           has_id_def list_all_iff)+)
qed

lemma closing_row_keep:
  "set rows \<subseteq> set rows' \<Longrightarrow> \<exists>c\<in>set rows. closing_row d k c \<Longrightarrow> \<exists>c\<in>set rows'. closing_row d k c"
  by blast

text \<open>One order of a fetched list, not executed before, is closed at most once.\<close>

lemma once_step:
  assumes "once_inv d s" "may_close o1 s s'" "known (sqOrders s) o1" "oOrderID o1 \<notin> fst ` set (sq_executions (sqOut s))"
  shows "once_inv d s' \<and> fst ` set (sq_executions (sqOut s')) \<subseteq> insert (oOrderID o1) (fst ` set (sq_executions (sqOut s)))"
proof -
  have inv: "unique_ids (sqOrders s)" "\<forall>t\<in>readings s. ist_day t = d" "distinct (map fst (sq_executions (sqOut s)))"
    and ex: "\<And>i sq t. (i, sq, t) \<in> set (sq_executions (sqOut s)) \<Longrightarrow>
       (\<exists>c\<in>set (sqOrders s). closing_row d (sq_key sq) c) \<and> (\<exists>r\<in>set (sqOrders s). oOrderID r = i \<and> sq_key r = sq_key sq)"
    using assms(1) unfolding once_inv_def by auto
  have rd: "\<forall>t\<in>readings s'. ist_day t = d" using assms(2) inv(2) unfolding may_close_def by blast
  consider (same) "sqOrders s' = sqOrders s" "sq_executions (sqOut s') = sq_executions (sqOut s)"
    | (added) i created updated where "created \<in> readings s" "i \<notin> oOrderID ` set (sqOrders s)"
        "sqOrders s' = sqOrders s @ [created_row (square_off_order i created updated o1)]"
        "sq_executions (sqOut s') = sq_executions (sqOut s)"
    | (executed) i created updated now where "created \<in> readings s" "i \<notin> oOrderID ` set (sqOrders s)"
        "sqOrders s' = sqOrders s @ [created_row (square_off_order i created updated o1)]"
        "sq_executions (sqOut s') = sq_executions (sqOut s) @ [(oOrderID o1, square_off_order i created updated o1, now)]"
    using assms(2) unfolding may_close_def by blast
  then show ?thesis
  proof cases
    case same
    then show ?thesis using assms(1) rd by (simp add: once_inv_def) blast
  next
    case added
    have "oOrderID (created_row (square_off_order i created updated o1)) = i" by (simp add: created_row_def)
    then have "unique_ids (sqOrders s')" using inv(1) added(2,3) by (simp add: unique_ids_def)
    then show ?thesis using rd inv(3) ex by (auto simp: once_inv_def added(3,4))
  next
    case executed
    let ?c = "created_row (square_off_order i created updated o1)"
    have c: "oOrderID ?c = i" "closing_row d (sq_key o1) ?c"
      using executed(1) inv(2) by (simp_all add: created_row_def closing_row_def square_off_order_def sq_key_def zero_order_def)
    then have "unique_ids (sqOrders s')" using inv(1) executed(2,3) by (simp add: unique_ids_def)
    moreover have "\<exists>r\<in>set (sqOrders s). oOrderID r = oOrderID o1 \<and> sq_key r = sq_key o1"
      using assms(3) by (auto simp: known_def)
    ultimately show ?thesis using rd inv(3) ex c assms(4) by (auto simp: once_inv_def executed(3,4))
  qed
qed

lemma once_batch:
  assumes "once_inv d s" "distinct (map oOrderID xs)" "\<forall>o1\<in>set xs. known (sqOrders s) o1"
    "oOrderID ` set xs \<inter> fst ` set (sq_executions (sqOut s)) = {}"
  shows "once_inv d (foldl (close_order books t) s xs)"
  using assms
proof (induction xs arbitrary: s)
  case (Cons o1 xs)
  let ?s = "close_order books t s o1"
  note m = close_order_cases [of o1 s books t]
  have st: "once_inv d ?s \<and> fst ` set (sq_executions (sqOut ?s)) \<subseteq> insert (oOrderID o1) (fst ` set (sq_executions (sqOut s)))"
    using Cons.prems by (intro once_step [OF Cons.prems(1) m]) auto
  have "once_inv d (foldl (close_order books t) ?s xs)"
  proof (rule Cons.IH)
    show "oOrderID ` set xs \<inter> fst ` set (sq_executions (sqOut ?s)) = {}"
    proof (rule equals0I)
      fix i assume i: "i \<in> oOrderID ` set xs \<inter> fst ` set (sq_executions (sqOut ?s))"
      then have i': "i \<in> oOrderID ` set xs" "i \<in> insert (oOrderID o1) (fst ` set (sq_executions (sqOut s)))"
        using st by (blast, blast)
      have "oOrderID o1 \<notin> oOrderID ` set xs" using Cons.prems(2) by (simp add: image_iff)
      moreover have "oOrderID ` set xs \<inter> fst ` set (sq_executions (sqOut s)) = {}" using Cons.prems(4) unfolding list.set image_insert by blast
      ultimately show False using i' by (metis IntI emptyE insertE)
    qed
    show "\<forall>o1\<in>set xs. known (sqOrders ?s) o1" using Cons.prems(3) known_mono [OF may_close_keeps [OF m]] by simp
  qed (use st Cons.prems(2) in auto)
  then show ?case by simp
qed simp

lemma distinct_fetched: "unique_ids rows \<Longrightarrow> distinct (map oOrderID (sort_key oCreatedAt (filter p rows)))"
  by (simp add: unique_ids_def distinct_map) (auto intro: inj_on_subset)

interpretation daily: sq_invariant "once_inv d" for d
proof
  show "once_inv d s \<Longrightarrow> sq_frame s s' \<Longrightarrow> once_inv d s'" for s s'
    by (auto simp: once_inv_def sq_frame_def)
  show "once_inv d (s\<lparr>sqOrders := apply_op f now op (sqOrders s)\<rparr>)"
    if inv: "once_inv d s" and op: "keeps_paper_flag op (sqOrders s)" for s f now op
  proof -
    have c: "\<exists>c\<in>set (sqOrders s). closing_row d k c \<Longrightarrow> \<exists>c\<in>set (apply_op f now op (sqOrders s)). closing_row d k c" for k
      using closing_row_update [OF _ _ op] by blast
    have r: "\<exists>r\<in>set (sqOrders s). oOrderID r = i \<and> sq_key r = k \<Longrightarrow>
        \<exists>r\<in>set (apply_op f now op (sqOrders s)). oOrderID r = i \<and> sq_key r = k" for i k
      using keeps_op [of "sqOrders s" f now op]
      unfolding keeps_rows_def keeps_row_def keeps_identity_def sq_key_def by metis
    let ?s = "s\<lparr>sqOrders := apply_op f now op (sqOrders s)\<rparr>"
    have same: "readings ?s = readings s" "sqOut ?s = sqOut s" by (simp_all add: readings_def)
    have "unique_ids (sqOrders ?s)" using inv by (simp add: once_inv_def unique_op)
    moreover have "(\<exists>c\<in>set (sqOrders ?s). closing_row d (sq_key sq) c) \<and>
        (\<exists>r\<in>set (sqOrders ?s). oOrderID r = i \<and> sq_key r = sq_key sq)"
      if "(i, sq, t) \<in> set (sq_executions (sqOut s))" for i sq t
    proof -
      have "(\<exists>c\<in>set (sqOrders s). closing_row d (sq_key sq) c) \<and> (\<exists>r\<in>set (sqOrders s). oOrderID r = i \<and> sq_key r = sq_key sq)"
        using inv that by (auto simp: once_inv_def)
      then show ?thesis using c [of "sq_key sq"] r [of i "sq_key sq"] by simp
    qed
    ultimately show ?thesis using inv unfolding once_inv_def same by blast
  qed
  show "once_inv d (foldl (close_order books t) s (sort_key oCreatedAt (filter p (sqOrders s))))"
    if inv: "once_inv d s0" and now: "dbNow \<in> readings s0" and fr: "sq_frame s0 s"
      and p: "\<And>r. p r \<Longrightarrow> open_position dbNow (sqOrders s) r" for s0 s dbNow p books t
  proof (rule once_batch)
    show inv': "once_inv d s" using inv fr by (auto simp: once_inv_def sq_frame_def)
    have "ist_day dbNow = d" using inv now by (simp add: once_inv_def)
    then have no: "p r \<Longrightarrow> c \<in> set (sqOrders s) \<Longrightarrow> \<not> closing_row d (sq_key r) c" for r c
      using open_not_closed [OF p] by blast
    show "oOrderID ` set (sort_key oCreatedAt (filter p (sqOrders s))) \<inter> fst ` set (sq_executions (sqOut s)) = {}"
    proof (rule ccontr)
      assume "\<not> ?thesis"
      then obtain r e where re: "r \<in> set (sqOrders s)" "p r" "e \<in> set (sq_executions (sqOut s))" "oOrderID r = fst e"
        by auto
      obtain i sq u where e: "e = (i, sq, u)" by (cases e rule: prod_cases3)
      have r: "r \<in> set (sqOrders s)" "p r" "oOrderID r = i" "(i, sq, u) \<in> set (sq_executions (sqOut s))"
        using re by (simp_all add: e)
      then obtain c r' where "c \<in> set (sqOrders s)" "closing_row d (sq_key sq) c" "r' \<in> set (sqOrders s)"
        "oOrderID r' = i" "sq_key r' = sq_key sq"
        using inv' unfolding once_inv_def by fastforce
      moreover have "r' = r" using unique_row inv' r calculation unfolding once_inv_def by metis
      ultimately show False using no [OF r(2)] by metis
    qed
  qed (use inv fr in \<open>auto simp: once_inv_def sq_frame_def known_self distinct_fetched\<close>)
qed

section \<open>Claims\<close>

text \<open>
  C43. Whatever happens, restarts and repeated ticks included, an order the scheduler sends is sent
  at a time before 15:30 and is a live market order of the opposite side for the user, symbol and
  strategy of an existing order, marked as a square-off.
\<close>

theorem square_off_orders_exit:
  assumes "sq_run s0 s" "sq_executions (sqOut s0) = []" "(i, sq, t) \<in> set (sq_executions (sqOut s))"
  shows "ist_minutes t < 15 * 60 + 30 \<and> oOrderType sq = ''MARKET'' \<and> oIsSquareOffOrder sq \<and> \<not> oIsPaperTrade sq \<and>
    (\<exists>r\<in>set (sqOrders s). oOrderID r = i \<and> oUserID r = oUserID sq \<and> oSymbol r = oSymbol sq \<and>
       oStrategyID r = oStrategyID sq \<and> oOrderSide sq = (if oOrderSide r = ''SELL'' then ''BUY'' else ''SELL''))"
proof -
  have "exits_ok s" by (rule hours.run_keeps [OF assms(1)]) (simp add: exits_ok_def assms(2))
  then have "exit_ok (sqOrders s) (i, sq, t)" using assms(3) by (simp add: exits_ok_def)
  then show ?thesis
    unfolding exit_ok_def prod.case marketCloseMinutes_def sq_key_def reverse_side_def prod.inject conj_assoc .
qed

text \<open>
  C44. During one day no position is closed twice: whatever the ticks, restarts, configurations,
  failures and statements of others, the scheduler sends at most one exit for an order.
\<close>

theorem closed_once_a_day:
  assumes "sq_run s0 s" "unique_ids (sqOrders s0)" "sq_executions (sqOut s0) = []" "\<forall>t\<in>readings s0. ist_day t = d"
  shows "distinct (map fst (sq_executions (sqOut s)))"
proof -
  have "once_inv d s" by (rule daily.run_keeps [OF assms(1)]) (simp add: once_inv_def assms)
  then show ?thesis by (simp add: once_inv_def)
qed

text \<open>Thursday, 1 January 2026: the tick at 15:05, a restart, and the catch-up at 15:10.\<close>

definition clock_at :: "int \<Rightarrow> int" where
  "clock_at minutes = (20454 * 86400 + minutes * 60 - 19800) * 1000000000"

definition demo_filled_order :: Order where
  "demo_filled_order = zero_order\<lparr>oOrderID := 1, oUserID := ''u1'', oStrategyID := ''s1'', oSymbol := ''INFY'',
     oOrderSide := ''BUY'', oQuantity := 5, oFilledQuantity := 5, oFilledPrice := Some 100,
     oProductType := ''INTRADAY'', oStatus := ''FILLED'', oCreatedAt := clock_at 600\<rparr>"

definition demo_scheduler :: sq_state where
  "demo_scheduler =
     \<lparr>sqOrders = [demo_filled_order], sqConfigs = [], sqTime = ''15:05'', sqPaperTime = ''15:00'',
      sqHasPaper = True, sqHasPaperUser = True, sqChecker = None, sqLastExecuteDate = [],
      sqLastPaperExecuteDate = [], sqLastUserExecuteDates = (\<lambda>_. []), sqNow = clock_at 905,
      sqClock = [clock_at 905, clock_at 905, clock_at 905, clock_at 905, clock_at 905, clock_at 905,
                 clock_at 905, clock_at 905, clock_at 910],
      sqFaults = [], sqReplies = [True], sqNextId = 2, sqOut = []\<rparr>"

definition demo_day :: sq_state where
  "demo_day = runStartupCatchUp (wired True True None (NewAutoSquareOffScheduler [] (sq_tick demo_scheduler)))"

lemma demo_day_run: "sq_run demo_scheduler demo_day"
  unfolding demo_day_def by (intro sq_run.intros)

lemma demo_day_executions: "map fst (sq_executions (sqOut demo_day)) = [1]"
  by code_simp

lemma demo_day_start: "sq_executions (sqOut demo_scheduler) = []" "unique_ids (sqOrders demo_scheduler)"
  "\<forall>t\<in>readings demo_scheduler. ist_day t = 20454"
  by (simp_all add: demo_scheduler_def readings_def clock_at_def ist_day_def ist_seconds_def unique_ids_def)

lemma square_off_orders_exit_witness:
  "\<exists>sq t. (1, sq, t) \<in> set (sq_executions (sqOut demo_day)) \<and> ist_minutes t < 15 * 60 + 30 \<and> oIsSquareOffOrder sq"
proof -
  obtain e where e: "e \<in> set (sq_executions (sqOut demo_day))" "fst e = 1"
    using demo_day_executions by (cases "sq_executions (sqOut demo_day)") auto
  obtain i sq t where "e = (i, sq, t)" by (cases e rule: prod_cases3)
  then have "(1, sq, t) \<in> set (sq_executions (sqOut demo_day))" using e by simp
  then show ?thesis using square_off_orders_exit [OF demo_day_run demo_day_start(1)] by blast
qed

lemma closed_once_a_day_witness:
  "distinct (map fst (sq_executions (sqOut demo_day))) \<and> map fst (sq_executions (sqOut demo_day)) = [1]"
  using closed_once_a_day [OF demo_day_run demo_day_start(2,1,3)] demo_day_executions by simp

section \<open>Completeness of a sweep\<close>

definition sq_calm :: "int \<Rightarrow> sq_state \<Rightarrow> bool" where
  "sq_calm now s \<longleftrightarrow> sqFaults s = [] \<and> readings s = {now} \<and> (\<forall>r\<in>set (sqOrders s). oOrderID r < sqNextId s)"

lemma sq_calm_clock: "sq_calm now s \<Longrightarrow> read_clock s = (t, s') \<Longrightarrow> t = now \<and> sq_calm now s' \<and> sq_frame s s' \<and> sqNextId s' = sqNextId s \<and> sqChecker s' = sqChecker s"
  by (auto simp: read_clock_def sq_calm_def readings_def sq_frame_def split: list.splits)

lemma calm_create:
  assumes "sq_calm now s" "ist_minutes now < marketCloseMinutes"
  shows "sq_calm now (fst (createAndExecuteSquareOffOrder o1 s)) \<and>
    sqChecker (fst (createAndExecuteSquareOffOrder o1 s)) = sqChecker s \<and>
    sq_executions (sqOut (fst (createAndExecuteSquareOffOrder o1 s))) =
      sq_executions (sqOut s) @ [(oOrderID o1, square_off_order (sqNextId s) now now o1, now)]"
proof -
  obtain t1 s1 where 1: "read_clock s = (t1, s1)" by fastforce
  obtain t2 s2 where 2: "read_clock s1 = (t2, s2)" by fastforce
  obtain t3 s3 where 3: "read_clock s2 = (t3, s3)" by fastforce
  note c1 = sq_calm_clock [OF assms(1) 1]
  note c2 = sq_calm_clock [OF conjunct1 [OF conjunct2 [OF c1]] 2]
  note c3 = sq_calm_clock [OF conjunct1 [OF conjunct2 [OF c2]] 3]
  let ?sq = "square_off_order (sqNextId s) now now o1" and ?s = "s3\<lparr>sqNextId := sqNextId s + 2\<rparr>"
  have same: "sqOrders s3 = sqOrders s" "sq_executions (sqOut s3) = sq_executions (sqOut s)" "sqNextId s3 = sqNextId s"
    "sqChecker s3 = sqChecker s" "sqFaults s3 = []" "readings s3 = {now}"
    using c1 c2 c3 by (auto simp: sq_frame_def sq_calm_def)
  have new: "oOrderID (created_row ?sq) = sqNextId s" by (simp add: created_row_def)
  then have "created_row ?sq \<notin> set (sqOrders s) \<and> sqNextId s \<notin> oOrderID ` set (sqOrders s)"
    using assms(1) by (auto simp: sq_calm_def)
  then have ins: "Create NoFault ?sq (sqOrders s) = (sqOrders s @ [created_row ?sq], Inr ())"
    using new by (simp add: Create_def insert_row_def)
  have "fst (createAndExecuteSquareOffOrder o1 s) =
      fst (execute_square_off o1 ?sq now (?s\<lparr>sqOrders := sqOrders s @ [created_row ?sq]\<rparr>))"
    using c1 c2 c3 assms(2)
    by (simp add: createAndExecuteSquareOffOrder_def 1 2 3 save_square_off_def next_fault_def same ins)
  moreover have "sqNextId (fst (execute_square_off o1 ?sq now x)) = sqNextId x"
    "sqFaults (fst (execute_square_off o1 ?sq now x)) = sqFaults x"
    "sqChecker (fst (execute_square_off o1 ?sq now x)) = sqChecker x" for x
    by (auto simp: execute_square_off_def next_reply_def sq_emit_def split: list.splits)
  ultimately show ?thesis
    using execute_cases [of o1 ?sq now "?s\<lparr>sqOrders := sqOrders s @ [created_row ?sq]\<rparr>"] new same assms(1)
    by (auto simp: sq_calm_def readings_def)
qed

definition closable :: "(string \<Rightarrow> OpenPositions option) \<Rightarrow> int \<Rightarrow> Order \<Rightarrow> bool" where
  "closable books now r \<longleftrightarrow> 0 < oFilledQuantity r \<and> \<not> later_time (clock_string now) r \<and> \<not> IsExited (books (oUserID r)) r"

lemma calm_sweep:
  "sq_calm now s \<Longrightarrow> ist_minutes now < marketCloseMinutes \<Longrightarrow>
   map fst (sq_executions (sqOut (foldl (close_order books (Some (clock_string now))) s xs))) =
   map fst (sq_executions (sqOut s)) @ map oOrderID (filter (closable books now) xs)"
proof (induction xs arbitrary: s)
  case (Cons o1 xs)
  show ?case
  proof (cases "closable books now o1")
    case True
    then have "close_order books (Some (clock_string now)) s o1 = fst (createAndExecuteSquareOffOrder o1 s)"
      by (simp add: close_order_def closable_def)
    then show ?thesis using calm_create [OF Cons.prems, of o1] Cons.IH Cons.prems(2) True by simp
  next
    case False
    then have "close_order books (Some (clock_string now)) s o1 = s"
      by (auto simp: close_order_def closable_def)
    then show ?thesis using Cons False by simp
  qed
qed simp

text \<open>
  C45. When the database answers and the market is open, one sweep sends exactly one exit for every
  filled intraday position of the day that has no square-off row, no later time of its own and is
  not flat in the broker's book, in the order of creation, and none for any other.
\<close>

theorem sweep_closes_all:
  assumes "sqFaults s = []" "readings s = {now}" "\<forall>r\<in>set (sqOrders s). oOrderID r < sqNextId s"
    and "ist_minutes now < 15 * 60 + 30"
  shows "map fst (sq_executions (sqOut (squareOffAllPositions s))) = map fst (sq_executions (sqOut s)) @
    map oOrderID (filter (closable (snapshots (sqChecker s)) now)
      (sort_key oCreatedAt (filter (open_position now (sqOrders s)) (sqOrders s))))"
proof -
  have c: "sq_calm now s" using assms by (simp add: sq_calm_def)
  obtain t1 s1 where 1: "read_clock s = (t1, s1)" by fastforce
  obtain t2 s2 where 2: "read_clock s1 = (t2, s2)" by fastforce
  note c1 = sq_calm_clock [OF c 1]
  note c2 = sq_calm_clock [OF conjunct1 [OF conjunct2 [OF c1]] 2]
  let ?xs = "sort_key oCreatedAt (filter (open_position now (sqOrders s)) (sqOrders s))"
  have f: "next_fault s = (NoFault, s)" using assms(1) by (simp add: next_fault_def)
  have same: "sqOrders s1 = sqOrders s" "sqOrders s2 = sqOrders s" "sqChecker s2 = sqChecker s"
    "sq_executions (sqOut s1) = sq_executions (sqOut s)" "sq_executions (sqOut s2) = sq_executions (sqOut s)"
    using c1 c2 by (auto simp: sq_frame_def)
  have "ist_minutes now < marketCloseMinutes" using assms(4) by (simp add: marketCloseMinutes_def)
  then have "map fst (sq_executions (sqOut (foldl (close_order (snapshots (sqChecker s)) (Some (clock_string now))) s2 ?xs))) =
      map fst (sq_executions (sqOut s)) @ map oOrderID (filter (closable (snapshots (sqChecker s)) now) ?xs)"
    using calm_sweep c2 same(5) by metis
  moreover have "squareOffAllPositions s =
      (if ?xs = [] then s1 else foldl (close_order (snapshots (sqChecker s)) (Some (clock_string now))) s2 ?xs)"
    using c1 c2 by (simp add: squareOffAllPositions_def f 1 2 same GetOpenOrders_def select_asc_def)
  ultimately show ?thesis using same(4) by simp
qed

definition demo_sweep :: sq_state where
  "demo_sweep = demo_scheduler\<lparr>sqClock := []\<rparr>"

lemma sweep_closes_all_witness:
  "sqFaults demo_sweep = [] \<and> readings demo_sweep = {clock_at 905} \<and>
   map fst (sq_executions (sqOut (squareOffAllPositions demo_sweep))) = [1]"
proof -
  have 1: "sqFaults demo_sweep = []" and 2: "readings demo_sweep = {clock_at 905}"
    and 3: "\<forall>r\<in>set (sqOrders demo_sweep). oOrderID r < sqNextId demo_sweep"
    by (simp_all add: demo_sweep_def demo_scheduler_def readings_def demo_filled_order_def)
  have 4: "ist_minutes (clock_at 905) < 15 * 60 + 30"
    by (simp add: clock_at_def ist_minutes_def ist_seconds_def)
  have "filter (closable (snapshots (sqChecker demo_sweep)) (clock_at 905)) (sort_key oCreatedAt
      (filter (open_position (clock_at 905) (sqOrders demo_sweep)) (sqOrders demo_sweep))) = [demo_filled_order]"
    by (simp add: demo_sweep_def demo_scheduler_def closable_def later_time_def IsExited_def snapshots_def
       open_position_def open_statuses_def filled_statuses_def today_def squared_off_today_def demo_filled_order_def
       zero_order_def clock_at_def ist_day_def ist_seconds_def)
  then show ?thesis
    using sweep_closes_all [OF 1 2 3 4] 1 2
    by (simp add: demo_sweep_def demo_scheduler_def demo_filled_order_def)
qed

section \<open>Findings\<close>

text \<open>
  The broker refuses the exit at 15:05: the row of the refused order keeps the position out of every
  later list of open positions of the day, so it is not closed again.
\<close>

definition refused_day :: sq_state where
  "refused_day = runStartupCatchUp (wired True True None (NewAutoSquareOffScheduler []
     (sq_tick (demo_scheduler\<lparr>sqReplies := [False]\<rparr>))))"

theorem refused_exit_not_retried:
  "list_ex (\<lambda>e. case e of SqExecute i _ _ ok \<Rightarrow> i = 1 \<and> \<not> ok | _ \<Rightarrow> False) (sqOut refused_day) \<and>
   map fst (sq_executions (sqOut refused_day)) = [1] \<and>
   map_sum id (map oOrderID) (GetOpenOrders NoFault (clock_at 910) (sqOrders refused_day)) = Inr []"
  by code_simp

text \<open>
  An order with its own square-off time of 15:20 is stored without it and is closed with the others
  at 15:05.
\<close>

definition late_order :: Order where
  "late_order = demo_filled_order\<lparr>oAutoSquareOffTime := Some ''15:20''\<rparr>"

theorem own_time_is_lost:
  "oAutoSquareOffTime late_order = Some ''15:20'' \<and>
   map fst (sq_executions (sqOut (squareOffAllPositions (demo_sweep\<lparr>sqOrders :=
     run_ops [(NoFault, clock_at 600, RpCreate late_order), (NoFault, clock_at 601, RpUpdate late_order)] []\<rparr>)))) = [1]"
  by code_simp

end
