(* ===== verification/RedisPrices.thy ===== *)
theory RedisPrices
  imports Float64
begin

text \<open>
  The reader of market prices (\<open>paper/redis_price_client.go\<close>). Redis is a parameter: what a GET
  of a key replies, as the decoded tick or the way it failed; for the batch, whether the MGET
  itself fails. Instants are Unix nanoseconds, an age saturates like Go's \<open>Duration\<close>.
\<close>

record MarketTick =
  tkLTP :: float64
  tkTimestamp :: int
  tkTickSize :: float64
  tkDPRLower :: float64
  tkDPRUpper :: float64

datatype redis_reply = RedisFailed | RedisNil | NotString | BadJSON | Tick MarketTick

record RedisPriceClient =
  rcGet :: "string \<Rightarrow> redis_reply"
  rcMGetFails :: bool

datatype price_error =
    NilClient
  | GetFailed string
  | UnmarshalFailed string
  | ZeroLTP string
  | StaleTick string
  | NoTickSize string
  | NoDPR string
  | MGetFailed

definition rc_market_key :: "string \<Rightarrow> int \<Rightarrow> string" where
  "rc_market_key exchange token = ''market:'' @ to_lower exchange @ '':'' @ show_int token"

definition read_tick :: "RedisPriceClient option \<Rightarrow> string \<Rightarrow> price_error + MarketTick" where
  "read_tick client key =
     (case client of None \<Rightarrow> Inl NilClient
      | Some r \<Rightarrow>
          (case rcGet r key of
             Tick tick \<Rightarrow> Inr tick
           | BadJSON \<Rightarrow> Inl (UnmarshalFailed key)
           | _ \<Rightarrow> Inl (GetFailed key)))"

definition RcGetLTP :: "RedisPriceClient option \<Rightarrow> string \<Rightarrow> int \<Rightarrow> price_error + float64" where
  "RcGetLTP client exchange token =
     (let key = rc_market_key exchange token
      in case read_tick client key of
           Inl e \<Rightarrow> Inl e
         | Inr tick \<Rightarrow> if tkLTP tick \<le> 0 then Inl (ZeroLTP key) else Inr (tkLTP tick))"

definition tick_time :: "int \<Rightarrow> int" where
  "tick_time ts = (if ts > 1000000000000 then ts * 1000000 else ts * 1000000000)"

definition age_since :: "int \<Rightarrow> int \<Rightarrow> int" where
  "age_since now t = max (- (2 ^ 63)) (min (2 ^ 63 - 1) (now - t))"

definition GetLTPFresh :: "RedisPriceClient option \<Rightarrow> int \<Rightarrow> string \<Rightarrow> int \<Rightarrow> int \<Rightarrow> price_error + float64" where
  "GetLTPFresh client now exchange token maxAge =
     (let key = rc_market_key exchange token
      in case read_tick client key of
           Inl e \<Rightarrow> Inl e
         | Inr tick \<Rightarrow>
             if tkLTP tick \<le> 0 then Inl (ZeroLTP key)
             else if tkTimestamp tick > 0 \<and> maxAge > 0 \<and> age_since now (tick_time (tkTimestamp tick)) > maxAge
             then Inl (StaleTick key)
             else Inr (tkLTP tick))"

definition batch_price :: "RedisPriceClient \<Rightarrow> string \<Rightarrow> (string \<times> float64) option" where
  "batch_price r k =
     (case rcGet r (''market:'' @ k) of
        Tick tick \<Rightarrow> if tkLTP tick > 0 then Some (k, tkLTP tick) else None
      | _ \<Rightarrow> None)"

definition GetLTPs :: "RedisPriceClient option \<Rightarrow> string list \<Rightarrow> price_error + (string \<rightharpoonup> float64)" where
  "GetLTPs client keys =
     (case client of None \<Rightarrow> Inl NilClient
      | Some r \<Rightarrow>
          if keys = [] then Inr Map.empty
          else if rcMGetFails r then Inl MGetFailed
          else Inr (map_of (List.map_filter (batch_price r) keys)))"

definition GetTickSize :: "RedisPriceClient option \<Rightarrow> string \<Rightarrow> int \<Rightarrow> price_error + float64" where
  "GetTickSize client exchange token =
     (let key = rc_market_key exchange token
      in case read_tick client key of
           Inl e \<Rightarrow> Inl e
         | Inr tick \<Rightarrow> if tkTickSize tick \<le> 0 then Inl (NoTickSize key) else Inr (tkTickSize tick))"

definition GetDPR :: "RedisPriceClient option \<Rightarrow> string \<Rightarrow> int \<Rightarrow> price_error + float64 \<times> float64" where
  "GetDPR client exchange token =
     (let key = rc_market_key exchange token
      in case read_tick client key of
           Inl e \<Rightarrow> Inl e
         | Inr tick \<Rightarrow>
             if tkDPRLower tick \<le> 0 \<or> tkDPRUpper tick \<le> 0 then Inl (NoDPR key)
             else Inr (tkDPRLower tick, tkDPRUpper tick))"

section \<open>What the readers promise\<close>

lemma GetLTP_pos: "RcGetLTP client exchange token = Inr p \<Longrightarrow> 0 < p"
  by (auto simp: RcGetLTP_def Let_def split: sum.splits if_splits)

lemma GetLTPFresh_is_LTP:
  "GetLTPFresh client now exchange token maxAge = Inr p \<Longrightarrow> RcGetLTP client exchange token = Inr p"
  by (auto simp: GetLTPFresh_def RcGetLTP_def Let_def split: sum.splits if_splits)

lemma GetLTPFresh_recent:
  assumes "GetLTPFresh client now exchange token maxAge = Inr p" "0 < maxAge" "maxAge < 2 ^ 63 - 1"
  shows "\<exists>tick. read_tick client (rc_market_key exchange token) = Inr tick \<and> tkLTP tick = p \<and>
    (0 < tkTimestamp tick \<longrightarrow> now - maxAge \<le> tick_time (tkTimestamp tick))"
  using assms by (auto simp: GetLTPFresh_def Let_def age_since_def split: sum.splits if_splits)

text \<open>The batch agrees with single reads of the keys, when the MGET goes through.\<close>

lemma GetLTPs_agrees:
  assumes "GetLTPs (Some r) keys = Inr prices" "to_lower exchange @ '':'' @ show_int token \<in> set keys"
  shows "prices (to_lower exchange @ '':'' @ show_int token) = (case RcGetLTP (Some r) exchange token of Inl _ \<Rightarrow> None | Inr p \<Rightarrow> Some p)"
proof -
  let ?k = "to_lower exchange @ '':'' @ show_int token"
  have "prices = map_of (List.map_filter (batch_price r) keys)"
    using assms by (auto simp: GetLTPs_def split: if_splits)
  moreover have "map_of (List.map_filter (batch_price r) ks) ?k = (if ?k \<in> set ks then map_option snd (batch_price r ?k) else None)" for ks
  proof (induction ks)
    case (Cons k ks)
    have "batch_price r k = Some (a, p) \<Longrightarrow> a = k" for a p
      by (auto simp: batch_price_def split: redis_reply.splits if_splits)
    then show ?case using Cons.IH by (cases "batch_price r k") (auto simp: List.map_filter_def split: option.splits)
  qed (simp add: List.map_filter_def)
  ultimately show ?thesis using assms(2)
    by (auto simp: batch_price_def RcGetLTP_def Let_def read_tick_def rc_market_key_def split: redis_reply.splits)
qed

end
