(* ===== verification/PaperExec.thy ===== *)
theory PaperExec
  imports RepoProps RedisPrices
begin

text \<open>
  The executor of paper orders (\<open>executor/paper_executor.go\<close>) and the routing between paper and
  live execution (\<open>executor/routing_executor.go\<close>). An order in memory is an address in \<open>pwHeap\<close>; the
  table is \<open>pwRows\<close>, each statement meets the next fault of \<open>pwFaults\<close>. Goroutines are values of type
  \<open>pw_task\<close>, other calls are recorded in \<open>pwOut\<close>. Back-off sleeps and timeouts are left out.
\<close>

section \<open>State\<close>

datatype paper_update =
    PuNewOrder uuid
  | PuPnl uuid string float64 float64 float64
  | PuPositionExit uuid string float64 float64 string float64
  | PuForceExitDone

datatype paper_effect =
    PxEvent uuid string
  | PxPublish uuid float64
  | PxSubscribe "string list"
  | PxUnsubscribe "string list"
  | PxBroadcast string paper_update
  | PxCancelGroup uuid
  | PxCancelGroupForExit uuid float64 string

datatype pw_task =
    PwReverse nat float64 int
  | PwPersistSL uuid float64
  | PwTick string float64 "nat list"
  | PwEval string float64 nat "nat list"
  | PwExit nat float64 string

record paper_world =
  pwHeap :: "Order list"
  pwRows :: rows
  pwFaults :: "fault list"
  pwNow :: int
  pwNextId :: uuid
  pwLookup :: "RedisPriceClient option"
  pwKafka :: bool
  pwTasks :: "pw_task list"
  pwOut :: "paper_effect list"

definition px_emit :: "paper_effect \<Rightarrow> 'a paper_world_scheme \<Rightarrow> 'a paper_world_scheme" where
  "px_emit e w = w\<lparr>pwOut := pwOut w @ [e]\<rparr>"

definition px_spawn :: "pw_task \<Rightarrow> 'a paper_world_scheme \<Rightarrow> 'a paper_world_scheme" where
  "px_spawn t w = w\<lparr>pwTasks := pwTasks w @ [t]\<rparr>"

definition set_order :: "nat \<Rightarrow> Order \<Rightarrow> 'a paper_world_scheme \<Rightarrow> 'a paper_world_scheme" where
  "set_order a o1 w = w\<lparr>pwHeap := (pwHeap w)[a := o1]\<rparr>"

definition fresh_uuid :: "'a paper_world_scheme \<Rightarrow> 'a paper_world_scheme" where
  "fresh_uuid w = w\<lparr>pwNextId := pwNextId w + 1\<rparr>"

definition safePrice :: "float64 option \<Rightarrow> float64" where
  "safePrice p = (case p of None \<Rightarrow> 0 | Some x \<Rightarrow> x)"

section \<open>Calls to the database\<close>

text \<open>\<open>retryDB\<close>: the first success or the error of the last of the attempts.\<close>

fun retry_from :: "nat \<Rightarrow> ('w \<Rightarrow> 'w \<times> 'e option) \<Rightarrow> 'w \<times> 'e option \<Rightarrow> 'w \<times> 'e option" where
  "retry_from 0 f r = r"
| "retry_from (Suc k) f (w, err) =
     (case f w of (w', None) \<Rightarrow> (w', None) | (w', Some e) \<Rightarrow> retry_from k f (w', Some e))"

definition retryDB :: "nat \<Rightarrow> ('w \<Rightarrow> 'w \<times> 'e option) \<Rightarrow> 'w \<Rightarrow> 'w \<times> 'e option" where
  "retryDB maxAttempts f w = retry_from maxAttempts f (w, None)"

definition pw_statement ::
  "(fault \<Rightarrow> rows \<Rightarrow> rows \<times> (repo_error + unit)) \<Rightarrow> 'a paper_world_scheme \<Rightarrow> 'a paper_world_scheme \<times> repo_error option" where
  "pw_statement q w =
     (let f = (case pwFaults w of [] \<Rightarrow> NoFault | g # _ \<Rightarrow> g);
          (rs, r) = q f (pwRows w)
      in (w\<lparr>pwFaults := tl (pwFaults w), pwRows := rs\<rparr>, (case r of Inl e \<Rightarrow> Some e | Inr _ \<Rightarrow> None)))"

section \<open>Filling\<close>

definition paper_fill_price :: "RedisPriceClient option \<Rightarrow> Order \<Rightarrow> float64" where
  "paper_fill_price lookup o1 =
     (case lookup of None \<Rightarrow> safePrice (oPrice o1)
      | Some _ \<Rightarrow>
          (case RcGetLTP lookup (oExchange o1) (oStockCode o1) of
             Inl _ \<Rightarrow> safePrice (oPrice o1)
           | Inr ltp \<Rightarrow> if 0 < ltp then ltp else safePrice (oPrice o1)))"

definition rescale :: "float64 \<Rightarrow> float64 \<Rightarrow> float64 option \<Rightarrow> float64 option" where
  "rescale signalPrice entryPrice leg =
     (case leg of None \<Rightarrow> None
      | Some p \<Rightarrow> if 0 < p then Some (fmul entryPrice (fdiv p signalPrice)) else Some p)"

definition rescale_legs :: "float64 \<Rightarrow> float64 \<Rightarrow> Order \<Rightarrow> Order" where
  "rescale_legs signalPrice entryPrice o1 =
     (if 0 < signalPrice \<and> entryPrice \<noteq> signalPrice
      then o1\<lparr>oStopLoss := rescale signalPrice entryPrice (oStopLoss o1),
              oTakeProfit := rescale signalPrice entryPrice (oTakeProfit o1)\<rparr>
      else o1)"

definition filled_order :: "uuid \<Rightarrow> float64 \<Rightarrow> Order \<Rightarrow> Order" where
  "filled_order i entryPrice o1 = o1
     \<lparr>oStatus := StatusFilled, oIsPaperTrade := True, oTradingMode := ''PAPER'',
      oFilledQuantity := oQuantity o1, oFilledPrice := Some entryPrice,
      oIndiraOrderID := Some (''PAPER-'' @ show_int (int i))\<rparr>"

definition publishPaperOrderUpdate :: "uuid \<Rightarrow> float64 \<Rightarrow> 'a paper_world_scheme \<Rightarrow> 'a paper_world_scheme" where
  "publishPaperOrderUpdate oid entryPrice w = (if pwKafka w then px_emit (PxPublish oid entryPrice) w else w)"

text \<open>\<open>hook\<close> is \<open>OnPaperFilled\<close>, the identity when it is not set.\<close>

definition ExecutePaperOrder ::
  "(nat \<Rightarrow> 'a paper_world_scheme \<Rightarrow> 'a paper_world_scheme) \<Rightarrow> nat \<Rightarrow> 'a paper_world_scheme \<Rightarrow> 'a paper_world_scheme" where
  "ExecutePaperOrder hook a w =
     (let o1 = pwHeap w ! a;
          signalPrice = safePrice (oPrice o1);
          entryPrice = paper_fill_price (pwLookup w) o1;
          o2 = filled_order (pwNextId w) entryPrice (rescale_legs signalPrice entryPrice o1);
          w1 = set_order a o2 (fresh_uuid w);
          w2 = fst (retryDB 3 (pw_statement (\<lambda>f. Update f (pwNow w) o2)) w1);
          w3 = px_emit (PxEvent (oOrderID o2) ''PAPER_FILLED'') w2
      in hook a (publishPaperOrderUpdate (oOrderID o2) entryPrice w3))"

definition ExecuteOrder_paper ::
  "(nat \<Rightarrow> 'a paper_world_scheme \<Rightarrow> 'a paper_world_scheme) \<Rightarrow> nat \<Rightarrow> 'a paper_world_scheme \<Rightarrow> 'a paper_world_scheme" where
  "ExecuteOrder_paper = ExecutePaperOrder"

text \<open>\<open>RoutingExecutor\<close>: the paper flag chooses.\<close>

definition route_execution :: "(Order \<Rightarrow> 'r) \<Rightarrow> (Order \<Rightarrow> 'r) \<Rightarrow> Order \<Rightarrow> 'r" where
  "route_execution live paper o1 = (if oIsPaperTrade o1 then paper o1 else live o1)"

section \<open>Exiting\<close>

definition paper_pnl :: "Order \<Rightarrow> float64 \<Rightarrow> float64" where
  "paper_pnl o1 exitPrice =
     (if oOrderSide o1 = ''BUY'' then fmul (fsub exitPrice (safePrice (oFilledPrice o1))) (f_of_int (oFilledQuantity o1))
      else fmul (fsub (safePrice (oFilledPrice o1)) exitPrice) (f_of_int (oFilledQuantity o1)))"

definition exited_order :: "int \<Rightarrow> float64 \<Rightarrow> string \<Rightarrow> Order \<Rightarrow> Order" where
  "exited_order now exitPrice reason o1 = o1
     \<lparr>oStatus := ''CANCELLED'', oPaperExitPrice := Some exitPrice, oPaperPnL := Some (paper_pnl o1 exitPrice),
      oRejectionReason := Some (''Paper exit: '' @ reason), oUpdatedAt := now\<rparr>"

definition ExitPaperPosition ::
  "nat \<Rightarrow> float64 \<Rightarrow> string \<Rightarrow> 'a paper_world_scheme \<Rightarrow> 'a paper_world_scheme \<times> repo_error option" where
  "ExitPaperPosition a exitPrice reason w =
     (let o1 = pwHeap w ! a;
          w1 = set_order a (exited_order (pwNow w) exitPrice reason o1) w
      in case retryDB 3 (pw_statement (\<lambda>f. UpdatePaperTradeExit f (pwNow w) (oOrderID o1) exitPrice (paper_pnl o1 exitPrice))) w1 of
           (w2, Some e) \<Rightarrow> (w2, Some e)
         | (w2, None) \<Rightarrow>
             (px_spawn (PwReverse a exitPrice (pwNow w)) (px_emit (PxEvent (oOrderID o1) ''PAPER_EXITED'') w2), None))"

definition reverse_order :: "uuid \<Rightarrow> float64 \<Rightarrow> int \<Rightarrow> Order \<Rightarrow> Order" where
  "reverse_order i exitPrice stamp o1 = zero_order
     \<lparr>oOrderID := i, oUserID := oUserID o1, oStrategyID := oStrategyID o1, oStrategyName := oStrategyName o1,
      oStockCode := oStockCode o1, oExchange := oExchange o1, oSymbol := oSymbol o1,
      oOrderType := OrderTypeMarket, oOrderSide := (if oOrderSide o1 = ''SELL'' then ''BUY'' else ''SELL''),
      oQuantity := oFilledQuantity o1, oPrice := oFilledPrice o1, oValidity := ''IOC'',
      oProductType := oProductType o1, oStatus := StatusFilled, oIsPaperTrade := True, oTradingMode := ''PAPER'',
      oFilledQuantity := oFilledQuantity o1, oFilledPrice := Some exitPrice, oIsSquareOffOrder := True,
      oRiskApproved := True, oIndiraOrderID := Some (''PAPER-EXIT-'' @ show_int (int (i + 1))),
      oCreatedAt := stamp, oUpdatedAt := stamp\<rparr>"

definition createReverseExitOrder :: "nat \<Rightarrow> float64 \<Rightarrow> int \<Rightarrow> 'a paper_world_scheme \<Rightarrow> 'a paper_world_scheme" where
  "createReverseExitOrder a exitPrice stamp w =
     fst (retryDB 3 (pw_statement (\<lambda>f. Create f (reverse_order (pwNextId w) exitPrice stamp (pwHeap w ! a))))
            (fresh_uuid (fresh_uuid w)))"

section \<open>Retrying\<close>

text \<open>A statement that only some attempts report as done is still done at most once in effect.\<close>

lemma retry_invariant:
  assumes "\<And>w w' e. P w \<Longrightarrow> f w = (w', e) \<Longrightarrow> P w'" "P (fst r)"
  shows "P (fst (retry_from k f r))"
  using assms(2)
proof (induction k arbitrary: r)
  case (Suc k)
  obtain w err where r: "r = (w, err)" by fastforce
  obtain w' e where f: "f w = (w', e)" by fastforce
  then have "P w'" using assms(1) Suc.prems r by simp
  then show ?case using f r Suc.IH by (cases e) auto
qed simp

lemma retryDB_invariant:
  "(\<And>w w' e. P w \<Longrightarrow> f w = (w', e) \<Longrightarrow> P w') \<Longrightarrow> P w \<Longrightarrow> P (fst (retryDB k f w))"
  unfolding retryDB_def by (rule retry_invariant) auto

section \<open>Claims\<close>

lemma rescale_below: "0 < p \<Longrightarrow> p \<le> s \<Longrightarrow> 0 < e \<Longrightarrow> is_f64 e \<Longrightarrow> fmul e (fdiv p s) \<le> e"
proof -
  assume a: "0 < p" "p \<le> s" "0 < e" "is_f64 e"
  have "p / s \<le> 1" using a by simp
  then have "rnd (p / s) \<le> 1" by (intro f64.le_fix) simp_all
  then show ?thesis using a by (intro f64.scale_le) (simp_all add: is_f64_def)
qed

lemma rescale_above: "s \<le> p \<Longrightarrow> 0 < s \<Longrightarrow> 0 < e \<Longrightarrow> is_f64 e \<Longrightarrow> e \<le> fmul e (fdiv p s)"
proof -
  assume a: "s \<le> p" "0 < s" "0 < e" "is_f64 e"
  have "1 \<le> p / s" using a by simp
  then have "1 \<le> rnd (p / s)" by (intro f64.ge_fix) simp_all
  then show ?thesis using a by (intro f64.scale_ge) (simp_all add: is_f64_def)
qed

lemma rescale_pos: "0 < p \<Longrightarrow> 0 < s \<Longrightarrow> 0 < e \<Longrightarrow> 0 < fmul e (fdiv p s)"
  by (simp add: f64.pos_iff)

lemma leg_side_aux:
  assumes "0 < s" "0 < e" "is_f64 e"
  shows "rescale s e leg = Some q \<Longrightarrow> \<exists>p. leg = Some p \<and> (0 < p \<longrightarrow> 0 < q) \<and> (0 < p \<longrightarrow> p \<le> s \<longrightarrow> q \<le> e) \<and> (s \<le> p \<longrightarrow> e \<le> q)"
  using assms rescale_below [of _ s e] rescale_above [of s _ e] rescale_pos [of _ s e]
  by (auto simp: rescale_def split: option.splits if_splits)

lemma rescaled_legs_sides_aux:
  assumes "0 < s" "0 < e" "is_f64 e"
  shows "oStopLoss (rescale_legs s e o1) = Some q \<Longrightarrow>
      \<exists>p. oStopLoss o1 = Some p \<and> (0 < p \<longrightarrow> 0 < q) \<and> (0 < p \<longrightarrow> p \<le> s \<longrightarrow> q \<le> e) \<and> (s \<le> p \<longrightarrow> e \<le> q)"
    and "oTakeProfit (rescale_legs s e o1) = Some q \<Longrightarrow>
      \<exists>p. oTakeProfit o1 = Some p \<and> (0 < p \<longrightarrow> 0 < q) \<and> (0 < p \<longrightarrow> p \<le> s \<longrightarrow> q \<le> e) \<and> (s \<le> p \<longrightarrow> e \<le> q)"
  using leg_side_aux [OF assms] assms by (auto simp: rescale_legs_def split: if_splits)

text \<open>
  C46. A paper order is filled at once for its whole quantity at the market price, or at the price of
  the signal when there is none. Its stop and target move with the fill: a leg below the signal
  price stays below the fill, one above stays above, and none becomes zero, which would disable it.
\<close>

theorem fill_keeps_sides:
  assumes "a < length (pwHeap w)" "pwHeap w ! a = o1" "oPrice o1 = Some s" "0 < s"
    and "paper_fill_price (pwLookup w) o1 = e" "0 < e" "is_f64 e"
    and "pwHeap (ExecutePaperOrder (\<lambda>_ w'. w') a w) ! a = o2"
  shows "oStatus o2 = ''FILLED'' \<and> oFilledQuantity o2 = oQuantity o1 \<and> oFilledPrice o2 = Some e \<and>
    (e = s \<or> (\<exists>ltp. RcGetLTP (pwLookup w) (oExchange o1) (oStockCode o1) = Inr ltp \<and> e = ltp)) \<and>
    (\<forall>q. oStopLoss o2 = Some q \<longrightarrow> (\<exists>p. oStopLoss o1 = Some p \<and> (0 < p \<longrightarrow> 0 < q) \<and>
       (0 < p \<longrightarrow> p \<le> s \<longrightarrow> q \<le> e) \<and> (s \<le> p \<longrightarrow> e \<le> q))) \<and>
    (\<forall>q. oTakeProfit o2 = Some q \<longrightarrow> (\<exists>p. oTakeProfit o1 = Some p \<and> (0 < p \<longrightarrow> 0 < q) \<and>
       (0 < p \<longrightarrow> p \<le> s \<longrightarrow> q \<le> e) \<and> (s \<le> p \<longrightarrow> e \<le> q)))"
proof -
  have keep: "pwHeap (fst (retryDB 3 (pw_statement q) w')) = pwHeap w'" for q and w' :: "'a paper_world_scheme"
    by (rule retryDB_invariant) (auto simp: pw_statement_def Let_def split: prod.splits)
  have sig: "safePrice (oPrice o1) = s" using assms(3) by (simp add: safePrice_def)
  have o2: "o2 = filled_order (pwNextId w) e (rescale_legs s e o1)"
    using assms(1,2,5,8) by (simp add: ExecutePaperOrder_def Let_def publishPaperOrderUpdate_def px_emit_def keep
      set_order_def fresh_uuid_def sig split: if_splits)
  have fields: "oStatus o2 = ''FILLED''" "oFilledQuantity o2 = oQuantity o1" "oFilledPrice o2 = Some e"
    "oStopLoss o2 = oStopLoss (rescale_legs s e o1)" "oTakeProfit o2 = oTakeProfit (rescale_legs s e o1)"
    unfolding o2 by (simp_all add: filled_order_def StatusFilled_def rescale_legs_def)
  have "e = s \<or> (\<exists>ltp. RcGetLTP (pwLookup w) (oExchange o1) (oStockCode o1) = Inr ltp \<and> e = ltp)"
    using assms(5) sig by (auto simp: paper_fill_price_def split: option.splits sum.splits if_splits)
  then show ?thesis using rescaled_legs_sides_aux [OF assms(4,6,7)] unfolding fields by blast
qed

end
