(* ===== verification/PaperMonitor.thy ===== *)
theory PaperMonitor
  imports PaperExec "HOL-Library.AList"
begin

text \<open>
  The monitor of paper positions (\<open>paper/monitor.go\<close>): stops, targets and trailing stops on the
  prices of the feed and of Redis, forced exits and the square-off. Its state extends the world of
  the paper executor. A Go map that is iterated is an association list, its order the order of the
  iteration. Every iteration of the loop in \<open>PtOnPriceUpdate\<close> is two tasks, since it reads and writes
  the set of exiting orders in two steps; the other operations are atomic, and the goroutines of a
  forced exit, for which the caller waits, run one after the other. Logging is left out.
\<close>

section \<open>State\<close>

record symbolMeta =
  smExchange :: string
  smToken :: int

record trailSLState =
  tsBestPrice :: float64
  tsCurrentSL :: float64
  tsTrailPct :: float64

record pt_state = paper_world +
  ptCache :: "(string \<times> nat list) list"
  ptMeta :: "(string \<times> symbolMeta) list"
  ptTokenToSym :: "string \<rightharpoonup> string"
  ptLatestLTP :: "string \<rightharpoonup> float64"
  ptWssLastSeen :: "string \<rightharpoonup> int"
  ptExiting :: "uuid set"
  ptTrail :: "uuid \<rightharpoonup> trailSLState"
  ptRedis :: "RedisPriceClient option"
  ptHasWS :: bool
  ptHasML :: bool

definition wssGracePeriod :: int where
  "wssGracePeriod = 5 * 1000000000"

definition freshLimit :: int where
  "freshLimit = 2 * 60 * 1000000000"

definition NewPaperTradeMonitor :: "RedisPriceClient option \<Rightarrow> bool \<Rightarrow> paper_world \<Rightarrow> pt_state" where
  "NewPaperTradeMonitor redis ws w =
     paper_world.extend w
       \<lparr>ptCache = [], ptMeta = [], ptTokenToSym = Map.empty, ptLatestLTP = Map.empty,
        ptWssLastSeen = Map.empty, ptExiting = {}, ptTrail = Map.empty, ptRedis = redis,
        ptHasWS = ws, ptHasML = False\<rparr>"

definition safeF :: "float64 option \<Rightarrow> float64" where
  "safeF p = (case p of None \<Rightarrow> 0 | Some x \<Rightarrow> x)"

definition order_at :: "pt_state \<Rightarrow> nat \<Rightarrow> Order" where
  "order_at m a = pwHeap m ! a"

definition cached :: "pt_state \<Rightarrow> string \<Rightarrow> nat list" where
  "cached m s = (case map_of (ptCache m) s of None \<Rightarrow> [] | Some as \<Rightarrow> as)"

definition meta_of :: "pt_state \<Rightarrow> string \<Rightarrow> symbolMeta" where
  "meta_of m s = (case map_of (ptMeta m) s of None \<Rightarrow> \<lparr>smExchange = [], smToken = 0\<rparr> | Some x \<Rightarrow> x)"

definition pt_broadcast :: "string \<Rightarrow> paper_update \<Rightarrow> pt_state \<Rightarrow> pt_state" where
  "pt_broadcast u x m = (if ptHasWS m then px_emit (PxBroadcast u x) m else m)"

text \<open>The symbols and tokens of a subscription.\<close>

definition feed_names :: "string \<Rightarrow> int \<Rightarrow> string list" where
  "feed_names s token = s # (if token > 0 then [show_int token] else [])"

definition computePnL :: "Order \<Rightarrow> float64 \<Rightarrow> float64" where
  "computePnL o1 ltp =
     (if oOrderSide o1 = ''BUY'' then fmul (fsub ltp (safeF (oFilledPrice o1))) (f_of_int (oFilledQuantity o1))
      else fmul (fsub (safeF (oFilledPrice o1)) ltp) (f_of_int (oFilledQuantity o1)))"

section \<open>Symbols\<close>

definition strip_suffix :: "string \<Rightarrow> string \<Rightarrow> string option" where
  "strip_suffix s sfx =
     (if length sfx < length s \<and> drop (length s - length sfx) s = sfx
      then Some (take (length s - length sfx) s) else None)"

fun strip_first :: "string \<Rightarrow> string list \<Rightarrow> string option" where
  "strip_first s [] = None"
| "strip_first s (x # xs) = (case strip_suffix s x of None \<Rightarrow> strip_first s xs | Some t \<Rightarrow> Some t)"

definition exchange_suffixes :: "string list" where
  "exchange_suffixes = ['' (NSE)'', '' (BSE)'', '' (NFO)'', '' (MCX)'', '' (CDS)'', '' (BFO)'']"

definition segment_suffixes :: "string list" where
  "segment_suffixes = [''-EQ'', ''-BE'', ''-SM'', ''-BL'']"

definition normaliseSymbol :: "string \<Rightarrow> string" where
  "normaliseSymbol s =
     (case strip_first s exchange_suffixes of Some t \<Rightarrow> t
      | None \<Rightarrow> (case strip_first s segment_suffixes of Some t \<Rightarrow> t | None \<Rightarrow> s))"

section \<open>Registering orders\<close>

definition index_order :: "nat \<Rightarrow> pt_state \<Rightarrow> pt_state" where
  "index_order a m =
     (let o1 = order_at m a; s = oSymbol o1
      in m\<lparr>ptCache := AList.update s (cached m s @ [a]) (ptCache m),
           ptMeta := (if map_of (ptMeta m) s = None
                      then AList.update s \<lparr>smExchange = oExchange o1, smToken = oStockCode o1\<rparr> (ptMeta m) else ptMeta m),
           ptTokenToSym := (if oStockCode o1 > 0 then (ptTokenToSym m)(show_int (oStockCode o1) \<mapsto> s)
                            else ptTokenToSym m)\<rparr>)"

definition slDistancePct :: "string \<Rightarrow> float64 \<Rightarrow> float64 \<Rightarrow> float64" where
  "slDistancePct side best sl =
     (if 0 < best \<and> 0 < sl
      then (if side = ''BUY'' then fmul (fdiv (fsub best sl) best) 100 else fmul (fdiv (fsub sl best) best) 100)
      else 0)"

definition start_trail :: "Order \<Rightarrow> float64 \<Rightarrow> pt_state \<Rightarrow> pt_state" where
  "start_trail o1 best m =
     (let sl = safeF (oStopLoss o1); pct = slDistancePct (oOrderSide o1) best sl
      in if 0 < pct
         then m\<lparr>ptTrail := (ptTrail m)(oOrderID o1 \<mapsto> \<lparr>tsBestPrice = best, tsCurrentSL = sl, tsTrailPct = pct\<rparr>)\<rparr>
         else m)"

definition AddOrder :: "nat \<Rightarrow> pt_state \<Rightarrow> pt_state" where
  "AddOrder a m =
     (let o1 = order_at m a;
          m1 = index_order a m;
          m2 = (if oStopLossType o1 = Some ''TRAILING'' then start_trail o1 (safeF (oFilledPrice o1)) m1 else m1);
          m3 = px_emit (PxSubscribe (feed_names (oSymbol o1) (oStockCode o1))) m2
      in pt_broadcast (oUserID o1) (PuNewOrder (oOrderID o1)) m3)"

definition is_trailing :: "Order \<Rightarrow> bool" where
  "is_trailing o1 \<longleftrightarrow> oStopLossType o1 = Some ''TRAILING'' \<or> above0 (oTrailingSLPct o1)"

definition resumed_best :: "Order \<Rightarrow> float64" where
  "resumed_best o1 =
     (let entry = safeF (oFilledPrice o1)
      in case oHighestPrice o1 of None \<Rightarrow> entry | Some h \<Rightarrow> if entry < h then h else entry)"

definition load_order :: "pt_state \<Rightarrow> Order \<Rightarrow> pt_state" where
  "load_order m o1 =
     (let a = length (pwHeap m); m1 = m\<lparr>pwHeap := pwHeap m @ [o1]\<rparr>
      in if list_ex (\<lambda>b. oOrderID (order_at m1 b) = oOrderID o1) (cached m1 (oSymbol o1)) then m1
         else if is_trailing o1 then start_trail o1 (resumed_best o1) (index_order a m1)
         else index_order a m1)"

definition subscriptions :: "pt_state \<Rightarrow> string list" where
  "subscriptions m = rev (remdups (rev (concat (map (\<lambda>(s, x). feed_names s (smToken x)) (ptMeta m)))))"

definition pt_query :: "(fault \<Rightarrow> rows \<Rightarrow> repo_error + rows) \<Rightarrow> pt_state \<Rightarrow> pt_state \<times> (repo_error + rows)" where
  "pt_query q m =
     (m\<lparr>pwFaults := tl (pwFaults m)\<rparr>, q (case pwFaults m of [] \<Rightarrow> NoFault | f # _ \<Rightarrow> f) (pwRows m))"

definition Initialize :: "pt_state \<Rightarrow> pt_state \<times> bool" where
  "Initialize m =
     (case pt_query GetAllActivePaperOrders m of
        (m1, Inl _) \<Rightarrow> (m1, False)
      | (m1, Inr os) \<Rightarrow>
          (let m2 = foldl load_order m1 os; subs = subscriptions m2
           in (if subs = [] then m2 else px_emit (PxSubscribe subs) m2, True)))"

section \<open>Removing orders\<close>

definition without :: "(Order \<Rightarrow> bool) \<Rightarrow> pt_state \<Rightarrow> nat list \<Rightarrow> nat list" where
  "without p m as = filter (\<lambda>a. \<not> p (order_at m a)) as"

definition set_cached :: "string \<Rightarrow> nat list \<Rightarrow> pt_state \<Rightarrow> pt_state" where
  "set_cached s as m =
     (if as = [] then m\<lparr>ptCache := AList.delete s (ptCache m), ptMeta := AList.delete s (ptMeta m)\<rparr>
      else m\<lparr>ptCache := AList.update s as (ptCache m)\<rparr>)"

text \<open>Leave the feed of a symbol without orders, then forget the order's trail and mark.\<close>

definition leave_symbol :: "string \<Rightarrow> int \<Rightarrow> pt_state \<Rightarrow> pt_state" where
  "leave_symbol s token m =
     (if cached m s \<noteq> [] then m
      else (px_emit (PxUnsubscribe (feed_names s token)) m)
             \<lparr>ptLatestLTP := (ptLatestLTP m)(s := None), ptWssLastSeen := (ptWssLastSeen m)(s := None),
              ptTokenToSym := (if token > 0 then (ptTokenToSym m)(show_int token := None) else ptTokenToSym m)\<rparr>)"

definition forget_order :: "uuid \<Rightarrow> pt_state \<Rightarrow> pt_state" where
  "forget_order oid m = m\<lparr>ptTrail := (ptTrail m)(oid := None), ptExiting := ptExiting m - {oid}\<rparr>"

text \<open>
  The scan stops at the entry that holds the order and, as the symbol found so far is compared with
  the key, at an entry for the empty symbol.
\<close>

definition scan_cache :: "uuid \<Rightarrow> pt_state \<Rightarrow> string option" where
  "scan_cache oid m =
     map_option fst (find (\<lambda>(s, as). s = [] \<or> list_ex (\<lambda>a. oOrderID (order_at m a) = oid) as) (ptCache m))"

definition RemoveOrder :: "uuid \<Rightarrow> pt_state \<Rightarrow> pt_state" where
  "RemoveOrder oid m =
     (case scan_cache oid m of
        None \<Rightarrow> m
      | Some s \<Rightarrow>
          (let m1 = set_cached s (without (\<lambda>r. oOrderID r = oid) m (cached m s)) m
           in if s = [] then m1 else forget_order oid (leave_symbol s (smToken (meta_of m s)) m1)))"

definition removed_of :: "string \<Rightarrow> pt_state \<Rightarrow> (uuid \<times> string \<times> int) list" where
  "removed_of sid m =
     concat (map (\<lambda>(s, as). map (\<lambda>a. (oOrderID (order_at m a), s, smToken (meta_of m s)))
       (filter (\<lambda>a. oStrategyID (order_at m a) = sid) as)) (ptCache m))"

definition clean_removed :: "pt_state \<Rightarrow> uuid \<times> string \<times> int \<Rightarrow> pt_state" where
  "clean_removed m r = (case r of (oid, s, token) \<Rightarrow> forget_order oid (leave_symbol s token m))"

definition RemoveOrdersByStrategy :: "string \<Rightarrow> pt_state \<Rightarrow> pt_state" where
  "RemoveOrdersByStrategy sid m =
     foldl clean_removed
       (foldl (\<lambda>m' s. set_cached s (without (\<lambda>r. oStrategyID r = sid) m' (cached m' s)) m') m (map fst (ptCache m)))
       (removed_of sid m)"

definition cached_address :: "uuid \<Rightarrow> pt_state \<Rightarrow> nat option" where
  "cached_address oid m = find (\<lambda>a. oOrderID (order_at m a) = oid) (concat (map snd (ptCache m)))"

definition update_cached :: "uuid \<Rightarrow> (Order \<Rightarrow> Order) \<Rightarrow> pt_state \<Rightarrow> pt_state" where
  "update_cached oid g m = (case cached_address oid m of None \<Rightarrow> m | Some a \<Rightarrow> set_order a (g (order_at m a)) m)"

definition UpdateCachedOrderQty :: "uuid \<Rightarrow> int \<Rightarrow> pt_state \<Rightarrow> pt_state" where
  "UpdateCachedOrderQty oid remainingQty = update_cached oid (\<lambda>r. r\<lparr>oFilledQuantity := remainingQty\<rparr>)"

definition UpdateCachedOrderSL :: "uuid \<Rightarrow> float64 \<Rightarrow> pt_state \<Rightarrow> pt_state" where
  "UpdateCachedOrderSL oid newSL = update_cached oid (\<lambda>r. r\<lparr>oStopLoss := Some newSL\<rparr>)"

section \<open>Prices of the feed\<close>

definition trail_step :: "string \<Rightarrow> float64 \<Rightarrow> trailSLState \<Rightarrow> trailSLState \<times> bool" where
  "trail_step side ltp ts =
     (if side = ''BUY'' \<and> tsBestPrice ts < ltp
      then (let newSL = fmul ltp (fsub 1 (fdiv (tsTrailPct ts) 100))
            in if tsCurrentSL ts < newSL then (ts\<lparr>tsBestPrice := ltp, tsCurrentSL := newSL\<rparr>, True)
               else (ts\<lparr>tsBestPrice := ltp\<rparr>, False))
      else if side = ''SELL'' \<and> ltp < tsBestPrice ts
      then (let newSL = fmul ltp (fadd 1 (fdiv (tsTrailPct ts) 100))
            in if newSL < tsCurrentSL ts \<or> tsCurrentSL ts = 0 then (ts\<lparr>tsBestPrice := ltp, tsCurrentSL := newSL\<rparr>, True)
               else (ts\<lparr>tsBestPrice := ltp\<rparr>, False))
      else (ts, False))"

definition advanceTrailingSL :: "Order \<Rightarrow> float64 \<Rightarrow> pt_state \<Rightarrow> pt_state \<times> float64 \<times> bool" where
  "advanceTrailingSL o1 ltp m =
     (case ptTrail m (oOrderID o1) of
        None \<Rightarrow> (m, safeF (oStopLoss o1), False)
      | Some ts \<Rightarrow>
          (case trail_step (oOrderSide o1) ltp ts of (ts', moved) \<Rightarrow>
             (let m1 = m\<lparr>ptTrail := (ptTrail m)(oOrderID o1 \<mapsto> ts')\<rparr>; sl = tsCurrentSL ts'
              in (if moved
                  then px_spawn (PwPersistSL (oOrderID o1) sl) (UpdateCachedOrderSL (oOrderID o1) sl m1) else m1,
                  sl, moved))))"

definition effectiveSL :: "Order \<Rightarrow> pt_state \<Rightarrow> float64" where
  "effectiveSL o1 m =
     (case ptTrail m (oOrderID o1) of Some ts \<Rightarrow> tsCurrentSL ts | None \<Rightarrow> safeF (oStopLoss o1))"

text \<open>The reason to exit, or the empty string: on the feed the stop is checked first.\<close>

definition stop_hit :: "string \<Rightarrow> float64 \<Rightarrow> float64 \<Rightarrow> bool" where
  "stop_hit side sl ltp \<longleftrightarrow> 0 < sl \<and> (side = ''BUY'' \<and> ltp \<le> sl \<or> side = ''SELL'' \<and> sl \<le> ltp)"

definition target_hit :: "string \<Rightarrow> float64 \<Rightarrow> float64 \<Rightarrow> bool" where
  "target_hit side tp ltp \<longleftrightarrow> 0 < tp \<and> (side = ''BUY'' \<and> tp \<le> ltp \<or> side = ''SELL'' \<and> ltp \<le> tp)"

definition feed_reason :: "string \<Rightarrow> float64 \<Rightarrow> float64 \<Rightarrow> float64 \<Rightarrow> string" where
  "feed_reason side sl tp ltp =
     (if stop_hit side sl ltp then ''STOP_LOSS'' else if target_hit side tp ltp then ''TAKE_PROFIT'' else [])"

definition redis_reason :: "string \<Rightarrow> float64 \<Rightarrow> float64 \<Rightarrow> float64 \<Rightarrow> string" where
  "redis_reason side sl tp ltp =
     (if target_hit side tp ltp then ''TAKE_PROFIT'' else if stop_hit side sl ltp then ''STOP_LOSS'' else [])"

definition resolve_symbol :: "string \<Rightarrow> pt_state \<Rightarrow> string" where
  "resolve_symbol s m =
     (if cached m s \<noteq> [] then s
      else case ptTokenToSym m s of Some t \<Rightarrow> t | None \<Rightarrow> normaliseSymbol s)"

definition PtOnPriceUpdate :: "string \<Rightarrow> float64 \<Rightarrow> pt_state \<Rightarrow> pt_state" where
  "PtOnPriceUpdate feedSymbol ltp m =
     (let s = resolve_symbol feedSymbol m; as = cached m s
      in if as = [] then m
         else px_spawn (PwTick s ltp as)
                (m\<lparr>ptWssLastSeen := (ptWssLastSeen m)(s \<mapsto> pwNow m), ptLatestLTP := (ptLatestLTP m)(s \<mapsto> ltp)\<rparr>))"

definition unfilled :: "Order \<Rightarrow> bool" where
  "unfilled o1 \<longleftrightarrow> oFilledQuantity o1 = 0 \<or> oFilledPrice o1 = None"

text \<open>First half of an iteration: skip an order marked as exiting.\<close>

definition tick_load :: "string \<Rightarrow> float64 \<Rightarrow> nat list \<Rightarrow> pt_state \<Rightarrow> pt_state" where
  "tick_load s ltp as m =
     (case as of [] \<Rightarrow> m
      | a # rest \<Rightarrow>
          if oOrderID (order_at m a) \<in> ptExiting m then px_spawn (PwTick s ltp rest) m
          else px_spawn (PwEval s ltp a rest) m)"

text \<open>Second half: move the stop, decide, mark the order and start its exit.\<close>

definition tick_decide :: "string \<Rightarrow> float64 \<Rightarrow> nat \<Rightarrow> Order \<Rightarrow> float64 \<times> bool \<Rightarrow> pt_state \<Rightarrow> pt_state" where
  "tick_decide s ltp a o1 r m =
     (case r of (sl, moved) \<Rightarrow>
        let reason = feed_reason (oOrderSide o1) sl (safeF (oTakeProfit o1)) ltp; pnl = computePnL o1 ltp
        in if reason \<noteq> []
           then px_spawn (PwExit a ltp reason)
                  (pt_broadcast (oUserID o1) (PuPnl (oOrderID o1) s ltp pnl 0)
                    (m\<lparr>ptExiting := insert (oOrderID o1) (ptExiting m)\<rparr>))
           else pt_broadcast (oUserID o1) (PuPnl (oOrderID o1) s ltp pnl (if moved then sl else 0)) m)"

definition tick_eval :: "string \<Rightarrow> float64 \<Rightarrow> nat \<Rightarrow> nat list \<Rightarrow> pt_state \<Rightarrow> pt_state" where
  "tick_eval s ltp a rest m =
     px_spawn (PwTick s ltp rest)
       (if unfilled (order_at m a) then m
        else case advanceTrailingSL (order_at m a) ltp m of
               (m1, r) \<Rightarrow> tick_decide s ltp a (order_at m1 a) r m1)"

section \<open>Prices of Redis\<close>

definition wss_active :: "string \<Rightarrow> pt_state \<Rightarrow> bool" where
  "wss_active s m =
     (case ptWssLastSeen m s of None \<Rightarrow> False | Some t \<Rightarrow> age_since (pwNow m) t < wssGracePeriod)"

definition pnl_update :: "string \<Rightarrow> float64 \<Rightarrow> pt_state \<Rightarrow> nat \<Rightarrow> pt_state" where
  "pnl_update s ltp m a =
     (let o1 = order_at m a
      in if oOrderID o1 \<in> ptExiting m \<or> unfilled o1 then m
         else pt_broadcast (oUserID o1) (PuPnl (oOrderID o1) s ltp (computePnL o1 ltp) 0) m)"

definition redis_pnl_symbol :: "pt_state \<Rightarrow> string \<times> symbolMeta \<times> nat list \<Rightarrow> pt_state" where
  "redis_pnl_symbol m e =
     (case e of (s, x, as) \<Rightarrow>
        if wss_active s m \<or> smToken x = 0 then m
        else case RcGetLTP (ptRedis m) (smExchange x) (smToken x) of
               Inl _ \<Rightarrow> m
             | Inr ltp \<Rightarrow>
                 if ltp \<le> 0 then m
                 else foldl (pnl_update s ltp) (m\<lparr>ptLatestLTP := (ptLatestLTP m)(s \<mapsto> ltp)\<rparr>) as)"

definition snapshot :: "pt_state \<Rightarrow> (string \<times> symbolMeta \<times> nat list) list" where
  "snapshot m = map (\<lambda>(s, as). (s, meta_of m s, as)) (filter (\<lambda>(s, as). as \<noteq> []) (ptCache m))"

definition tickRedisPnL :: "pt_state \<Rightarrow> pt_state" where
  "tickRedisPnL m = foldl redis_pnl_symbol m (snapshot m)"

definition redis_exit :: "float64 \<Rightarrow> pt_state \<Rightarrow> nat \<Rightarrow> pt_state" where
  "redis_exit ltp m a =
     (let o1 = order_at m a;
          tp = safeF (oTakeProfit o1);
          reason = redis_reason (oOrderSide o1) (effectiveSL o1 m) tp ltp
      in if oOrderID o1 \<in> ptExiting m \<or> unfilled o1 \<or> reason = [] then m
         else px_spawn (PwExit a (if reason = ''TAKE_PROFIT'' then tp else ltp) reason)
                (m\<lparr>ptExiting := insert (oOrderID o1) (ptExiting m)\<rparr>))"

definition redis_check_symbol :: "pt_state \<Rightarrow> string \<times> symbolMeta \<times> nat list \<Rightarrow> pt_state" where
  "redis_check_symbol m e =
     (case e of (s, x, as) \<Rightarrow>
        if smToken x = 0 \<or> wss_active s m then m
        else case GetLTPFresh (ptRedis m) (pwNow m) (smExchange x) (smToken x) freshLimit of
               Inl _ \<Rightarrow> m
             | Inr ltp \<Rightarrow> if ltp \<le> 0 then m else foldl (redis_exit ltp) m as)"

definition checkRedisSLTP :: "pt_state \<Rightarrow> pt_state" where
  "checkRedisSLTP m = foldl redis_check_symbol m (snapshot m)"

section \<open>Exiting\<close>

definition resolveExitPrice :: "Order \<Rightarrow> pt_state \<Rightarrow> float64" where
  "resolveExitPrice o1 m =
     (let price = (case ptLatestLTP m (oSymbol o1) of None \<Rightarrow> 0 | Some p \<Rightarrow> p);
          sl = safeF (oStopLoss o1);
          fallback = (if 0 < sl then sl else safeF (oFilledPrice o1))
      in if 0 < price then price
         else case ptRedis m of None \<Rightarrow> fallback
              | Some _ \<Rightarrow> (case RcGetLTP (ptRedis m) (oExchange o1) (oStockCode o1) of
                             Inl _ \<Rightarrow> fallback | Inr ltp \<Rightarrow> if 0 < ltp then ltp else fallback))"

definition drop_cached :: "Order \<Rightarrow> pt_state \<Rightarrow> pt_state" where
  "drop_cached o1 m =
     set_cached (oSymbol o1) (without (\<lambda>r. oOrderID r = oOrderID o1) m (cached m (oSymbol o1))) m"

definition exit_failed :: "Order \<Rightarrow> pt_state \<Rightarrow> pt_state" where
  "exit_failed o1 m = drop_cached o1 m"

definition exit_done :: "nat \<Rightarrow> float64 \<Rightarrow> string \<Rightarrow> pt_state \<Rightarrow> pt_state" where
  "exit_done a exitPrice reason m =
     (let o1 = order_at m a; s = oSymbol o1; m1 = drop_cached o1 m;
          m2 = (if cached m1 s = []
                then (px_emit (PxUnsubscribe (feed_names s (smToken (meta_of m s)))) m1)
                       \<lparr>ptLatestLTP := (ptLatestLTP m1)(s := None), ptWssLastSeen := (ptWssLastSeen m1)(s := None)\<rparr>
                else m1);
          m3 = m2\<lparr>ptTrail := (ptTrail m2)(oOrderID o1 := None)\<rparr>
      in pt_broadcast (oUserID o1)
           (PuPositionExit (oOrderID o1) s exitPrice (computePnL o1 exitPrice) reason (safeF (oFilledPrice o1))) m3)"

definition exitPosition :: "nat \<Rightarrow> float64 \<Rightarrow> string \<Rightarrow> pt_state \<Rightarrow> pt_state" where
  "exitPosition a exitPrice reason m =
     (let oid = oOrderID (order_at m a);
          m1 = (if ptHasML m then px_emit (PxCancelGroup oid) m else m)
      in case ExitPaperPosition a exitPrice reason m1 of
           (m2, r) \<Rightarrow>
             (let m3 = (case r of Some _ \<Rightarrow> exit_failed (order_at m2 a) m2 | None \<Rightarrow> exit_done a exitPrice reason m2)
              in m3\<lparr>ptExiting := ptExiting m3 - {oid}\<rparr>))"

text \<open>One position of a forced exit: claimed, its group stopped at the same price, and closed.\<close>

definition force_exit :: "string \<Rightarrow> pt_state \<Rightarrow> nat \<Rightarrow> pt_state" where
  "force_exit reason m a =
     (let o1 = order_at m a; oid = oOrderID o1; price = resolveExitPrice o1 m;
          m1 = m\<lparr>ptExiting := insert oid (ptExiting m)\<rparr>;
          m2 = (if ptHasML m then px_emit (PxCancelGroupForExit oid price reason) m1 else m1)
      in if oid \<in> ptExiting m then m else exitPosition a price reason m2)"

definition allocate :: "rows \<Rightarrow> pt_state \<Rightarrow> pt_state \<times> nat list" where
  "allocate os m = (m\<lparr>pwHeap := pwHeap m @ os\<rparr>, [length (pwHeap m) ..< length (pwHeap m) + length os])"

definition exitable :: "Order \<Rightarrow> bool" where
  "exitable o1 \<longleftrightarrow> (IsFilledStatus (oStatus o1) \<or> IsPartiallyFilledStatus (oStatus o1)) \<and>
     oFilledPrice o1 \<noteq> None \<and> oPaperExitPrice o1 = None"

definition force_exits :: "string \<Rightarrow> rows \<Rightarrow> pt_state \<Rightarrow> pt_state" where
  "force_exits reason os m = (case allocate os m of (m1, as) \<Rightarrow> foldl (force_exit reason) m1 as)"

definition ForceExitAll :: "string \<Rightarrow> pt_state \<Rightarrow> pt_state \<times> bool" where
  "ForceExitAll userID m =
     (case pt_query (\<lambda>f. GetFilledPaperOrdersByUser f userID) m of
        (m1, Inl _) \<Rightarrow> (m1, False)
      | (m1, Inr os) \<Rightarrow>
          (pt_broadcast userID PuForceExitDone (force_exits ''FORCE_EXIT'' (filter exitable os) m1), True))"

definition ForceExitByStrategy :: "string \<Rightarrow> string \<Rightarrow> pt_state \<Rightarrow> pt_state \<times> bool" where
  "ForceExitByStrategy userID strategyID m =
     (case pt_query (\<lambda>f. GetExitablePaperOrdersByStrategy f strategyID userID) m of
        (m1, Inl _) \<Rightarrow> (m1, False)
      | (m1, Inr os) \<Rightarrow> (pt_broadcast userID PuForceExitDone (force_exits ''FORCE_EXIT'' os m1), True))"

definition later_square_off :: "string \<Rightarrow> Order \<Rightarrow> bool" where
  "later_square_off currentTime o1 = (case oAutoSquareOffTime o1 of None \<Rightarrow> False | Some t \<Rightarrow> currentTime < t)"

definition cached_due :: "string \<Rightarrow> pt_state \<Rightarrow> nat list" where
  "cached_due currentTime m =
     filter (\<lambda>a. \<not> later_square_off currentTime (order_at m a)) (concat (map snd (ptCache m)))"

definition square_off_rest :: "string \<Rightarrow> uuid set \<Rightarrow> pt_state \<Rightarrow> pt_state \<times> rows" where
  "square_off_rest currentTime handled m =
     (case pt_query GetAllActivePaperOrders m of
        (m1, Inl _) \<Rightarrow> (m1, [])
      | (m1, Inr os) \<Rightarrow>
          (let rest = filter (\<lambda>r. oOrderID r \<notin> handled \<and> \<not> later_square_off currentTime r) os
           in (force_exits ''SQUARE_OFF'' rest m1, rest)))"

definition SquareOffAll :: "pt_state \<Rightarrow> pt_state" where
  "SquareOffAll m =
     (let currentTime = clock_string (pwNow m);
          due = cached_due currentTime m;
          users = map (\<lambda>a. oUserID (order_at m a)) due;
          m1 = foldl (force_exit ''SQUARE_OFF'') m due
      in case square_off_rest currentTime (set (map (\<lambda>a. oOrderID (order_at m a)) due)) m1 of
           (m2, rest) \<Rightarrow>
             foldl (\<lambda>m' u. pt_broadcast u PuForceExitDone m') m2 (remdups (users @ map oUserID rest)))"

section \<open>Goroutines\<close>

definition run_pw :: "pw_task \<Rightarrow> pt_state \<Rightarrow> pt_state" where
  "run_pw t m =
     (case t of
        PwReverse a price stamp \<Rightarrow> createReverseExitOrder a price stamp m
      | PwPersistSL oid sl \<Rightarrow>
          px_emit (PxEvent oid ''PAPER_TRAILING_SL_UPDATED'')
            (fst (pw_statement (\<lambda>f. UpdateTrailingSL f (pwNow m) oid sl) m))
      | PwTick s ltp as \<Rightarrow> tick_load s ltp as m
      | PwEval s ltp a rest \<Rightarrow> tick_eval s ltp a rest m
      | PwExit a price reason \<Rightarrow> exitPosition a price reason m)"

definition drop_nth :: "nat \<Rightarrow> 'a list \<Rightarrow> 'a list" where
  "drop_nth i xs = take i xs @ drop (Suc i) xs"

definition run_nth :: "nat \<Rightarrow> pt_state \<Rightarrow> pt_state" where
  "run_nth i m =
     (if i < length (pwTasks m) then run_pw (pwTasks m ! i) (m\<lparr>pwTasks := drop_nth i (pwTasks m)\<rparr>) else m)"

section \<open>Reading\<close>

definition snapshot_price :: "string \<Rightarrow> pt_state \<Rightarrow> float64" where
  "snapshot_price s m =
     (let ltp = (case ptLatestLTP m s of None \<Rightarrow> 0 | Some p \<Rightarrow> p); x = meta_of m s
      in if 0 < ltp \<or> ptRedis m = None \<or> smToken x \<le> 0 then ltp
         else case RcGetLTP (ptRedis m) (smExchange x) (smToken x) of
                Inl _ \<Rightarrow> ltp | Inr p \<Rightarrow> if 0 < p then p else ltp)"

definition GetCurrentPnLSnapshot :: "string \<Rightarrow> pt_state \<Rightarrow> paper_update list" where
  "GetCurrentPnLSnapshot userID m =
     concat (map (\<lambda>(s, as). List.map_filter (\<lambda>a.
        let o1 = order_at m a; ltp = snapshot_price s m
        in if oUserID o1 \<noteq> userID \<or> ltp \<le> 0 \<or> unfilled o1 then None
           else Some (PuPnl (oOrderID o1) s ltp (computePnL o1 ltp) 0)) as) (ptCache m))"

definition uniqueTokens :: "pt_state \<Rightarrow> string list" where
  "uniqueTokens m = map (\<lambda>(_, x). show_int (smToken x)) (filter (\<lambda>(_, x). smToken x > 0) (ptMeta m))"

end
