(* ===== verification/PaperIndex.thy ===== *)
theory PaperIndex
  imports PaperMonitor
begin

text \<open>
  Runs of the paper monitor and what they keep: the index of monitored orders is consistent, every
  order marked as exiting has a pending exit, and the table keeps recorded exits.
\<close>

section \<open>Runs\<close>

inductive pt_run :: "pt_state \<Rightarrow> pt_state \<Rightarrow> bool" for m0 where
  pt_refl: "pt_run m0 m0"
| pt_initialize: "pt_run m0 m \<Longrightarrow> pt_run m0 (fst (Initialize m))"
| pt_order: "pt_run m0 m \<Longrightarrow> pt_run m0 (m\<lparr>pwHeap := pwHeap m @ [o1]\<rparr>)"
| pt_fill: "pt_run m0 m \<Longrightarrow> a < length (pwHeap m) \<Longrightarrow> pt_run m0 (ExecutePaperOrder AddOrder a m)"
| pt_remove: "pt_run m0 m \<Longrightarrow> pt_run m0 (RemoveOrder oid m)"
| pt_remove_strategy: "pt_run m0 m \<Longrightarrow> pt_run m0 (RemoveOrdersByStrategy sid m)"
| pt_quantity: "pt_run m0 m \<Longrightarrow> pt_run m0 (UpdateCachedOrderQty oid q m)"
| pt_stop: "pt_run m0 m \<Longrightarrow> pt_run m0 (UpdateCachedOrderSL oid sl m)"
| pt_price: "pt_run m0 m \<Longrightarrow> pt_run m0 (PtOnPriceUpdate s ltp m)"
| pt_redis_pnl: "pt_run m0 m \<Longrightarrow> pt_run m0 (tickRedisPnL m)"
| pt_redis_check: "pt_run m0 m \<Longrightarrow> pt_run m0 (checkRedisSLTP m)"
| pt_force_all: "pt_run m0 m \<Longrightarrow> pt_run m0 (fst (ForceExitAll u m))"
| pt_force_strategy: "pt_run m0 m \<Longrightarrow> pt_run m0 (fst (ForceExitByStrategy u sid m))"
| pt_square_off: "pt_run m0 m \<Longrightarrow> pt_run m0 (SquareOffAll m)"
| pt_goroutine: "pt_run m0 m \<Longrightarrow> pt_run m0 (run_nth i m)"
| pt_environment: "pt_run m0 m \<Longrightarrow> pt_run m0 (m\<lparr>pwNow := t, pwFaults := fs, pwLookup := l, ptRedis := r\<rparr>)"
| pt_statement: "pt_run m0 m \<Longrightarrow> pt_run m0 (m\<lparr>pwRows := apply_op f t op (pwRows m)\<rparr>)"

section \<open>The invariant\<close>

definition idsym :: "Order \<Rightarrow> uuid \<times> string" where
  "idsym o1 = (oOrderID o1, oSymbol o1)"

definition heap_ids :: "pt_state \<Rightarrow> (uuid \<times> string) list" where
  "heap_ids m = map idsym (pwHeap m)"

definition cache_ok :: "(uuid \<times> string) list \<Rightarrow> (string \<times> nat list) list \<Rightarrow> (string \<times> symbolMeta) list \<Rightarrow> bool" where
  "cache_ok H C M \<longleftrightarrow> distinct (map fst C) \<and> distinct (map fst M) \<and>
     (\<forall>s. map_of C s = None \<longleftrightarrow> map_of M s = None) \<and>
     (\<forall>s as. map_of C s = Some as \<longrightarrow> as \<noteq> [] \<and> (\<forall>a\<in>set as. a < length H \<and> snd (H ! a) = s))"

fun task_addresses :: "pw_task \<Rightarrow> nat set" where
  "task_addresses (PwReverse a _ _) = {a}"
| "task_addresses (PwPersistSL _ _) = {}"
| "task_addresses (PwTick _ _ as) = set as"
| "task_addresses (PwEval _ _ a as) = insert a (set as)"
| "task_addresses (PwExit a _ _) = {a}"

definition pending_exit :: "(uuid \<times> string) list \<Rightarrow> pw_task list \<Rightarrow> uuid \<Rightarrow> bool" where
  "pending_exit H T oid \<longleftrightarrow> (\<exists>a p r. PwExit a p r \<in> set T \<and> fst (H ! a) = oid)"

definition pt_ok :: "(uuid \<times> string) list \<Rightarrow> (string \<times> nat list) list \<Rightarrow> (string \<times> symbolMeta) list \<Rightarrow>
    pw_task list \<Rightarrow> uuid set \<Rightarrow> bool" where
  "pt_ok H C M T E \<longleftrightarrow> cache_ok H C M \<and> (\<forall>t\<in>set T. \<forall>a\<in>task_addresses t. a < length H) \<and>
     (\<forall>oid\<in>E. pending_exit H T oid)"

definition pt_inv_for :: "uuid set \<Rightarrow> pt_state \<Rightarrow> bool" where
  "pt_inv_for E m \<longleftrightarrow> pt_ok (heap_ids m) (ptCache m) (ptMeta m) (pwTasks m) E"

definition pt_inv :: "pt_state \<Rightarrow> bool" where
  "pt_inv m \<longleftrightarrow> pt_ok (heap_ids m) (ptCache m) (ptMeta m) (pwTasks m) (ptExiting m)"

lemma pt_inv_iff: "pt_inv m \<longleftrightarrow> pt_inv_for (ptExiting m) m"
  by (simp add: pt_inv_def pt_inv_for_def)

section \<open>Components\<close>

lemma emit_fields [simp]:
  "pwHeap (px_emit e m) = pwHeap m" "pwTasks (px_emit e m) = pwTasks m" "pwRows (px_emit e m) = pwRows m"
  "pwFaults (px_emit e m) = pwFaults m" "pwNow (px_emit e m) = pwNow m"
  "ptCache (px_emit e m) = ptCache m" "ptMeta (px_emit e m) = ptMeta m" "ptExiting (px_emit e m) = ptExiting m"
  by (simp_all add: px_emit_def)

lemma broadcast_fields [simp]:
  "pwHeap (pt_broadcast u x m) = pwHeap m" "pwTasks (pt_broadcast u x m) = pwTasks m" "pwRows (pt_broadcast u x m) = pwRows m"
  "pwFaults (pt_broadcast u x m) = pwFaults m" "pwNow (pt_broadcast u x m) = pwNow m"
  "ptCache (pt_broadcast u x m) = ptCache m" "ptMeta (pt_broadcast u x m) = ptMeta m"
  "ptExiting (pt_broadcast u x m) = ptExiting m"
  by (simp_all add: pt_broadcast_def)

lemma spawn_fields [simp]:
  "pwHeap (px_spawn t m) = pwHeap m" "pwTasks (px_spawn t m) = pwTasks m @ [t]" "pwRows (px_spawn t m) = pwRows m"
  "pwFaults (px_spawn t m) = pwFaults m" "pwNow (px_spawn t m) = pwNow m"
  "ptCache (px_spawn t m) = ptCache m" "ptMeta (px_spawn t m) = ptMeta m" "ptExiting (px_spawn t m) = ptExiting m"
  by (simp_all add: px_spawn_def)

lemma set_order_fields [simp]:
  "pwTasks (set_order a r m) = pwTasks m" "pwRows (set_order a r m) = pwRows m"
  "pwFaults (set_order a r m) = pwFaults m" "pwNow (set_order a r m) = pwNow m"
  "ptCache (set_order a r m) = ptCache m" "ptMeta (set_order a r m) = ptMeta m"
  "ptExiting (set_order a r m) = ptExiting m" "pwHeap (set_order a r m) = (pwHeap m)[a := r]"
  by (simp_all add: set_order_def)

lemma start_trail_fields [simp]:
  "pwHeap (start_trail o1 p m) = pwHeap m" "pwTasks (start_trail o1 p m) = pwTasks m" "pwRows (start_trail o1 p m) = pwRows m"
  "pwFaults (start_trail o1 p m) = pwFaults m" "pwNow (start_trail o1 p m) = pwNow m"
  "ptCache (start_trail o1 p m) = ptCache m" "ptMeta (start_trail o1 p m) = ptMeta m"
  "ptExiting (start_trail o1 p m) = ptExiting m"
  by (simp_all add: start_trail_def Let_def)

lemma heap_ids_cong: "map idsym (pwHeap m') = map idsym (pwHeap m) \<Longrightarrow> heap_ids m' = heap_ids m"
  by (simp add: heap_ids_def)

lemma heap_ids_set: "idsym r = idsym (order_at m a) \<Longrightarrow> heap_ids (set_order a r m) = heap_ids m"
  by (simp add: heap_ids_def order_at_def map_update) (metis list_update_beyond list_update_id map_update not_less)

lemma length_heap_ids [simp]: "length (heap_ids m) = length (pwHeap m)"
  by (simp add: heap_ids_def)

lemma heap_ids_nth: "a < length (pwHeap m) \<Longrightarrow> heap_ids m ! a = idsym (order_at m a)"
  by (simp add: heap_ids_def order_at_def)

text \<open>States that agree on what the invariant reads.\<close>

definition pt_frame :: "pt_state \<Rightarrow> pt_state \<Rightarrow> bool" where
  "pt_frame m m' \<longleftrightarrow> heap_ids m' = heap_ids m \<and> ptCache m' = ptCache m \<and> ptMeta m' = ptMeta m \<and>
     pwTasks m' = pwTasks m \<and> ptExiting m' = ptExiting m"

lemma pt_frame_inv: "pt_frame m m' \<Longrightarrow> pt_inv m \<Longrightarrow> pt_inv m'"
  by (simp add: pt_frame_def pt_inv_def)

lemma pt_frame_trans: "pt_frame m m' \<Longrightarrow> pt_frame m' m'' \<Longrightarrow> pt_frame m m''"
  by (simp add: pt_frame_def)

lemma pt_frame_refl [simp]: "pt_frame m m"
  by (simp add: pt_frame_def)

lemma pt_frame_emit [simp]: "pt_frame m (px_emit e m)" "pt_frame m (pt_broadcast u x m)"
  by (simp_all add: pt_frame_def heap_ids_def)

lemma pt_frame_fold: "(\<And>m x. pt_frame m (g m x)) \<Longrightarrow> pt_frame m (foldl g m xs)"
  by (induction xs arbitrary: m) (auto intro: pt_frame_trans)

section \<open>The index\<close>

lemma cache_ok_append: "cache_ok H C M \<Longrightarrow> cache_ok (H @ X) C M"
  by (fastforce simp: cache_ok_def nth_append)

lemma pending_append:
  assumes "pending_exit H T oid" "\<forall>t\<in>set T. \<forall>a\<in>task_addresses t. a < length H"
  shows "pending_exit (H @ X) T oid"
proof -
  obtain a p r where t: "PwExit a p r \<in> set T" "fst (H ! a) = oid" using assms(1) by (auto simp: pending_exit_def)
  then have "a < length H" using bspec [OF assms(2) t(1)] by simp
  then show ?thesis using t unfolding pending_exit_def by (metis nth_append)
qed

lemma pt_ok_append: "pt_ok H C M T E \<Longrightarrow> pt_ok (H @ X) C M T E"
  by (auto simp: pt_ok_def intro: cache_ok_append pending_append trans_less_add1)

lemma inv_append: "pt_inv m \<Longrightarrow> pt_inv (m\<lparr>pwHeap := pwHeap m @ os\<rparr>)"
  using pt_ok_append by (simp add: pt_inv_def heap_ids_def)

lemma cache_ok_update:
  assumes "cache_ok H C M" "as \<noteq> []" "\<forall>a\<in>set as. a < length H \<and> snd (H ! a) = s"
    and "distinct (map fst M')" "map_of M' s \<noteq> None" "\<And>t. t \<noteq> s \<Longrightarrow> map_of M' t = map_of M t"
  shows "cache_ok H (AList.update s as C) M'"
  using assms by (auto simp: cache_ok_def distinct_update update_conv')

lemma cache_ok_delete: "cache_ok H C M \<Longrightarrow> cache_ok H (AList.delete s C) (AList.delete s M)"
  by (auto simp: cache_ok_def distinct_delete delete_conv')

lemma cache_ok_dest:
  assumes "cache_ok H C M"
  shows "distinct (map fst C)" "distinct (map fst M)" "map_of C s = None \<longleftrightarrow> map_of M s = None"
    and "map_of C s = Some as \<Longrightarrow> as \<noteq> []" "map_of C s = Some as \<Longrightarrow> a \<in> set as \<Longrightarrow> a < length H \<and> snd (H ! a) = s"
  using assms unfolding cache_ok_def by blast+

lemma cached_elem: "cache_ok H (ptCache m) M \<Longrightarrow> a \<in> set (cached m s) \<Longrightarrow> a < length H \<and> snd (H ! a) = s"
  using cache_ok_dest(5) [of H "ptCache m" M s _ a] unfolding cached_def by (cases "map_of (ptCache m) s") simp_all

lemma cached_nonempty: "cache_ok H (ptCache m) M \<Longrightarrow> cached m s \<noteq> [] \<longleftrightarrow> map_of (ptCache m) s \<noteq> None"
  using cache_ok_dest(4) [of H "ptCache m" M s] unfolding cached_def by (cases "map_of (ptCache m) s") simp_all

lemma all_cached:
  assumes "cache_ok H C M" "a \<in> set (concat (map snd C))"
  shows "a < length H"
proof -
  obtain s as where "(s, as) \<in> set C" "a \<in> set as" using assms(2) by auto
  then show ?thesis using cache_ok_dest(5) [OF assms(1)] map_of_is_SomeI [OF cache_ok_dest(1) [OF assms(1)]] by metis
qed

text \<open>Replacing the list of a symbol by a part of it.\<close>

lemma inv_for_set_cached:
  assumes "pt_inv_for E m" "set as \<subseteq> set (cached m s)"
  shows "pt_inv_for E (set_cached s as m)"
proof -
  have c: "cache_ok (heap_ids m) (ptCache m) (ptMeta m)" using assms(1) by (simp add: pt_inv_for_def pt_ok_def)
  have "cache_ok (heap_ids m) (ptCache (set_cached s as m)) (ptMeta (set_cached s as m))"
  proof (cases "as = []")
    case True
    then show ?thesis using cache_ok_delete [OF c] by (simp add: set_cached_def)
  next
    case False
    then have "map_of (ptCache m) s \<noteq> None" using cached_nonempty [OF c, of s] assms(2) by auto
    then have "map_of (ptMeta m) s \<noteq> None" using cache_ok_dest(3) [OF c] by simp
    moreover have "\<forall>a\<in>set as. a < length (heap_ids m) \<and> snd (heap_ids m ! a) = s" using cached_elem [OF c] assms(2) by blast
    ultimately have "cache_ok (heap_ids m) (AList.update s as (ptCache m)) (ptMeta m)"
      using False cache_ok_dest(2) [OF c] by (intro cache_ok_update [OF c]) simp_all
    then show ?thesis using False by (simp add: set_cached_def)
  qed
  moreover have "heap_ids (set_cached s as m) = heap_ids m" "pwTasks (set_cached s as m) = pwTasks m"
    by (simp_all add: set_cached_def heap_ids_def)
  ultimately show ?thesis using assms(1) by (simp add: pt_inv_for_def pt_ok_def)
qed

lemma set_cached_exiting [simp]: "ptExiting (set_cached s as m) = ptExiting m"
  by (simp add: set_cached_def)

lemma inv_set_cached: "pt_inv m \<Longrightarrow> set as \<subseteq> set (cached m s) \<Longrightarrow> pt_inv (set_cached s as m)"
  by (simp add: pt_inv_iff inv_for_set_cached)

lemma without_subset: "set (without p m as) \<subseteq> set as"
  by (auto simp: without_def)

lemma inv_index_order: "pt_inv m \<Longrightarrow> a < length (pwHeap m) \<Longrightarrow> pt_inv (index_order a m)"
proof -
  assume inv: "pt_inv m" and a: "a < length (pwHeap m)"
  have c: "cache_ok (heap_ids m) (ptCache m) (ptMeta m)" using inv by (simp add: pt_inv_def pt_ok_def)
  let ?s = "oSymbol (order_at m a)"
  define M' where "M' = ptMeta (index_order a m)"
  have C': "ptCache (index_order a m) = AList.update ?s (cached m ?s @ [a]) (ptCache m)"
    by (simp add: index_order_def Let_def)
  have M': "distinct (map fst M') \<and> map_of M' ?s \<noteq> None \<and> (\<forall>t. t \<noteq> ?s \<longrightarrow> map_of M' t = map_of (ptMeta m) t)"
  proof (cases "map_of (ptMeta m) ?s = None")
    case True
    then have "M' = AList.update ?s \<lparr>smExchange = oExchange (order_at m a), smToken = oStockCode (order_at m a)\<rparr> (ptMeta m)"
      by (simp add: M'_def index_order_def Let_def)
    then show ?thesis using cache_ok_dest(2) [OF c] by (simp only: distinct_update update_conv') simp
  next
    case False
    then have "M' = ptMeta m" by (simp add: M'_def index_order_def Let_def del: not_None_eq)
    then show ?thesis using cache_ok_dest(2) [OF c] False by blast
  qed
  have "\<forall>b\<in>set (cached m ?s @ [a]). b < length (heap_ids m) \<and> snd (heap_ids m ! b) = ?s"
    using cached_elem [OF c] a heap_ids_nth [OF a] by (auto simp: idsym_def)
  then have "cache_ok (heap_ids m) (AList.update ?s (cached m ?s @ [a]) (ptCache m)) M'"
    using M' by (intro cache_ok_update [OF c]) blast+
  then have "cache_ok (heap_ids m) (ptCache (index_order a m)) (ptMeta (index_order a m))"
    unfolding C' M'_def .
  moreover have "heap_ids (index_order a m) = heap_ids m" "pwTasks (index_order a m) = pwTasks m"
    "ptExiting (index_order a m) = ptExiting m"
    by (simp_all add: index_order_def Let_def heap_ids_def)
  ultimately show ?thesis using inv by (simp add: pt_inv_def pt_ok_def)
qed

section \<open>The operations keep the invariant\<close>

lemma frame_start_trail [simp]: "pt_frame m (start_trail o1 p m)"
  by (simp add: pt_frame_def heap_ids_def)

lemma inv_AddOrder: "pt_inv m \<Longrightarrow> a < length (pwHeap m) \<Longrightarrow> pt_inv (AddOrder a m)"
  unfolding AddOrder_def Let_def
  by (rule pt_frame_inv [OF pt_frame_emit(2)], rule pt_frame_inv [OF pt_frame_emit(1)])
     (auto intro: inv_index_order pt_frame_inv [OF frame_start_trail])

lemma inv_load_order: "pt_inv m \<Longrightarrow> pt_inv (load_order m o1)"
  using inv_append [of m "[o1]"] inv_index_order [of "m\<lparr>pwHeap := pwHeap m @ [o1]\<rparr>" "length (pwHeap m)"]
  by (auto simp: load_order_def Let_def intro: pt_frame_inv [OF frame_start_trail])

lemma inv_load_orders: "pt_inv m \<Longrightarrow> pt_inv (foldl load_order m os)"
  by (induction os arbitrary: m) (auto intro: inv_load_order)

lemma frame_world [simp]:
  "pt_frame m (m\<lparr>pwFaults := fs\<rparr>)" "pt_frame m (m\<lparr>pwRows := rs\<rparr>)"
  "pt_frame m (m\<lparr>pwFaults := fs, pwRows := rs\<rparr>)" "pt_frame m (fresh_uuid m)"
  "pt_frame m (m\<lparr>pwNow := t, pwFaults := fs, pwLookup := l, ptRedis := r\<rparr>)"
  "pt_frame m (m\<lparr>ptLatestLTP := f\<rparr>)" "pt_frame m (m\<lparr>ptWssLastSeen := g, ptLatestLTP := f\<rparr>)"
  "pt_frame m (m\<lparr>ptLatestLTP := f, ptWssLastSeen := g\<rparr>)" "pt_frame m (m\<lparr>ptTrail := h\<rparr>)"
  "pt_frame m (m\<lparr>ptLatestLTP := f, ptWssLastSeen := g, ptTokenToSym := k\<rparr>)"
  by (simp_all add: pt_frame_def heap_ids_def fresh_uuid_def)

lemma frame_query: "pt_query q m = (m1, r) \<Longrightarrow> pt_frame m m1"
  by (auto simp: pt_query_def)

lemma inv_Initialize: "pt_inv m \<Longrightarrow> pt_inv (fst (Initialize m))"
proof -
  assume inv: "pt_inv m"
  obtain m1 r where q: "pt_query GetAllActivePaperOrders m = (m1, r)" by fastforce
  have m1: "pt_inv m1" using pt_frame_inv [OF frame_query [OF q] inv] .
  then have "pt_inv (foldl load_order m1 os)" for os by (rule inv_load_orders)
  then show ?thesis using m1 pt_frame_inv [OF pt_frame_emit(1)]
    by (auto simp: Initialize_def q Let_def split: sum.splits)
qed

lemma inv_marks: "pt_inv m \<Longrightarrow> E \<subseteq> ptExiting m \<Longrightarrow> pt_inv (m\<lparr>ptExiting := E\<rparr>)"
  by (auto simp: pt_inv_def pt_ok_def heap_ids_def)

lemma inv_forget: "pt_inv m \<Longrightarrow> pt_inv (forget_order oid m)"
  unfolding forget_order_def using inv_marks [OF pt_frame_inv [OF frame_world(9)], of m "ptExiting m - {oid}"] by simp

lemma frame_leave [simp]: "pt_frame m (leave_symbol s token m)"
  by (simp add: leave_symbol_def pt_frame_def heap_ids_def)

lemma inv_RemoveOrder: "pt_inv m \<Longrightarrow> pt_inv (RemoveOrder oid m)"
proof -
  assume inv: "pt_inv m"
  have 1: "pt_inv (set_cached s (without p m (cached m s)) m)" for s p
    by (rule inv_set_cached [OF inv without_subset])
  have "pt_inv (forget_order oid (leave_symbol s t (set_cached s (without p m (cached m s)) m)))" for s t p
    by (intro inv_forget pt_frame_inv [OF frame_leave 1])
  then show ?thesis using inv 1 by (simp add: RemoveOrder_def Let_def split: option.split)
qed

lemma inv_fold: "(\<And>m x. pt_inv m \<Longrightarrow> pt_inv (g m x)) \<Longrightarrow> pt_inv m \<Longrightarrow> pt_inv (foldl g m xs)"
  by (induction xs arbitrary: m) auto

lemma inv_RemoveOrdersByStrategy: "pt_inv m \<Longrightarrow> pt_inv (RemoveOrdersByStrategy sid m)"
  unfolding RemoveOrdersByStrategy_def
  by (intro inv_fold) (auto simp: clean_removed_def split: prod.splits
      intro: inv_set_cached [OF _ without_subset] inv_forget pt_frame_inv [OF frame_leave])

lemma frame_update_cached: "(\<And>r. idsym (g r) = idsym r) \<Longrightarrow> pt_frame m (update_cached oid g m)"
  by (auto simp: update_cached_def pt_frame_def heap_ids_set split: option.splits)

lemma frame_cached_updates [simp]: "pt_frame m (UpdateCachedOrderQty oid q m)" "pt_frame m (UpdateCachedOrderSL oid sl m)"
  by (simp_all add: UpdateCachedOrderQty_def UpdateCachedOrderSL_def frame_update_cached idsym_def)

lemma inv_for_spawn: "pt_inv_for E m \<Longrightarrow> \<forall>a\<in>task_addresses t. a < length (pwHeap m) \<Longrightarrow> pt_inv_for E (px_spawn t m)"
  by (auto simp: pt_inv_for_def pt_ok_def heap_ids_def pending_exit_def) blast

lemma inv_spawn_task: "pt_inv m \<Longrightarrow> \<forall>a\<in>task_addresses t. a < length (pwHeap m) \<Longrightarrow> pt_inv (px_spawn t m)"
  by (simp add: pt_inv_iff inv_for_spawn)

lemma inv_cached_bound: "pt_inv m \<Longrightarrow> a \<in> set (cached m s) \<Longrightarrow> a < length (pwHeap m)"
  using cached_elem [of "heap_ids m" m "ptMeta m" a s] by (simp add: pt_inv_def pt_ok_def)

lemma inv_OnPriceUpdate: "pt_inv m \<Longrightarrow> pt_inv (PtOnPriceUpdate s ltp m)"
  unfolding PtOnPriceUpdate_def Let_def
  by (auto intro!: inv_spawn_task pt_frame_inv [OF frame_world(7)] intro: inv_cached_bound)

lemma inv_mark_exit:
  assumes "pt_inv m" "a < length (pwHeap m)"
  shows "pt_inv (px_spawn (PwExit a p r) (m\<lparr>ptExiting := insert (oOrderID (order_at m a)) (ptExiting m)\<rparr>))"
proof -
  let ?oid = "oOrderID (order_at m a)"
  let ?m = "px_spawn (PwExit a p r) (m\<lparr>ptExiting := insert ?oid (ptExiting m)\<rparr>)"
  have h: "heap_ids ?m = heap_ids m" by (simp add: heap_ids_def)
  have "fst (heap_ids m ! a) = ?oid" using heap_ids_nth [OF assms(2)] by (simp add: idsym_def)
  then have "pending_exit (heap_ids m) (pwTasks m @ [PwExit a p r]) ?oid" by (auto simp: pending_exit_def)
  moreover have "pending_exit (heap_ids m) (pwTasks m) oid \<Longrightarrow> pending_exit (heap_ids m) (pwTasks m @ [PwExit a p r]) oid" for oid
    by (auto simp: pending_exit_def)
  ultimately show ?thesis using assms unfolding pt_inv_def pt_ok_def h by (simp add: ball_Un)
qed

lemma frame_for: "pt_frame m m' \<Longrightarrow> pt_inv_for E m \<Longrightarrow> pt_inv_for E m'"
  by (simp add: pt_frame_def pt_inv_for_def)

lemma frame_length: "pt_frame m m' \<Longrightarrow> length (pwHeap m') = length (pwHeap m)"
  unfolding pt_frame_def heap_ids_def by (metis length_map)

lemma frame_spawned: "pt_frame m m' \<Longrightarrow> pt_frame (px_spawn t m) (px_spawn t m')"
  by (simp add: pt_frame_def heap_ids_def)

lemma frame_statement: "pt_frame m (fst (retryDB k (pw_statement q) m))"
  by (rule retryDB_invariant)
     (auto simp: pw_statement_def Let_def split: prod.splits intro: pt_frame_trans)

lemma advance_step:
  assumes "advanceTrailingSL o1 ltp m = (m1, r)" "pt_inv m"
  shows "pt_inv m1 \<and> length (pwHeap m1) = length (pwHeap m)"
proof (cases "ptTrail m (oOrderID o1)")
  case None
  then show ?thesis using assms by (simp add: advanceTrailingSL_def)
next
  case (Some ts)
  obtain ts' moved where t: "trail_step (oOrderSide o1) ltp ts = (ts', moved)" by fastforce
  let ?m = "m\<lparr>ptTrail := (ptTrail m)(oOrderID o1 \<mapsto> ts')\<rparr>"
  let ?n = "UpdateCachedOrderSL (oOrderID o1) (tsCurrentSL ts') ?m"
  have f: "pt_frame m ?n" by (rule pt_frame_trans [OF frame_world(9) frame_cached_updates(2)])
  have "pt_inv ?n" "pt_inv ?m" using pt_frame_inv [OF f assms(2)] pt_frame_inv [OF frame_world(9) assms(2)] by auto
  then show ?thesis using assms(1) frame_length [OF f]
    by (auto simp: advanceTrailingSL_def Some t Let_def split: if_splits intro: inv_spawn_task)
qed

lemma inv_tick_load: "pt_inv m \<Longrightarrow> \<forall>a\<in>set as. a < length (pwHeap m) \<Longrightarrow> pt_inv (tick_load s ltp as m)"
  by (auto simp: tick_load_def split: list.splits intro!: inv_spawn_task)

lemma broadcast_mark:
  "pt_broadcast u x (m\<lparr>ptExiting := E\<rparr>) = (pt_broadcast u x m)\<lparr>ptExiting := E\<rparr>"
  by (simp add: pt_broadcast_def px_emit_def)

lemma order_at_broadcast [simp]: "order_at (pt_broadcast u x m) a = order_at m a"
  by (simp add: order_at_def)

lemma inv_tick_decide:
  assumes "pt_inv m" "a < length (pwHeap m)"
  shows "pt_inv (tick_decide s ltp a (order_at m a) r m) \<and>
    length (pwHeap (tick_decide s ltp a (order_at m a) r m)) = length (pwHeap m)"
proof -
  have b: "pt_inv (pt_broadcast u x m)" for u x using pt_frame_inv [OF pt_frame_emit(2) assms(1)] .
  have "pt_inv (px_spawn (PwExit a ltp z) (pt_broadcast u x (m\<lparr>ptExiting := insert (oOrderID (order_at m a)) (ptExiting m)\<rparr>)))" for u x z
    using inv_mark_exit [OF b, of a u x ltp z] assms(2) by (simp add: broadcast_mark)
  then show ?thesis using b by (simp add: tick_decide_def Let_def split: prod.splits)
qed

lemma inv_tick_eval:
  assumes "pt_inv m" "\<forall>b\<in>insert a (set rest). b < length (pwHeap m)"
  shows "pt_inv (tick_eval s ltp a rest m)"
proof -
  obtain m1 r where adv: "advanceTrailingSL (order_at m a) ltp m = (m1, r)"
    by (cases "advanceTrailingSL (order_at m a) ltp m") simp
  note m1 = advance_step [OF adv assms(1)]
  have d: "pt_inv (tick_decide s ltp a (order_at m1 a) r m1)"
    "length (pwHeap (tick_decide s ltp a (order_at m1 a) r m1)) = length (pwHeap m)"
    using inv_tick_decide [of m1 a s ltp r] m1 assms(2) by auto
  show ?thesis using assms d by (auto simp: tick_eval_def adv intro!: inv_spawn_task)
qed

lemma frame_pnl_update: "pt_frame m (pnl_update s ltp m a)"
  by (simp add: pnl_update_def Let_def)

lemma inv_tickRedisPnL: "pt_inv m \<Longrightarrow> pt_inv (tickRedisPnL m)"
proof -
  have "pt_frame m (redis_pnl_symbol m e)" for m e
    using pt_frame_trans [OF frame_world(6) pt_frame_fold [OF frame_pnl_update]]
    by (auto simp: redis_pnl_symbol_def split: prod.splits sum.splits)
  then show "pt_inv m \<Longrightarrow> pt_inv (tickRedisPnL m)"
    unfolding tickRedisPnL_def using pt_frame_fold pt_frame_inv by blast
qed

lemma inv_redis_exit:
  "pt_inv m \<Longrightarrow> a < length (pwHeap m) \<Longrightarrow> pt_inv (redis_exit ltp m a) \<and> length (pwHeap (redis_exit ltp m a)) = length (pwHeap m)"
  using inv_mark_exit by (simp add: redis_exit_def Let_def)

lemma inv_redis_exits:
  "pt_inv m \<Longrightarrow> \<forall>a\<in>set as. a < length (pwHeap m) \<Longrightarrow>
   pt_inv (foldl (redis_exit ltp) m as) \<and> length (pwHeap (foldl (redis_exit ltp) m as)) = length (pwHeap m)"
proof (induction as arbitrary: m)
  case (Cons a as)
  then show ?case using inv_redis_exit [of m a ltp] by simp
qed simp

lemma inv_redis_symbols:
  "pt_inv m \<Longrightarrow> \<forall>(s, x, as)\<in>set es. \<forall>a\<in>set as. a < length (pwHeap m) \<Longrightarrow> pt_inv (foldl redis_check_symbol m es)"
proof (induction es arbitrary: m)
  case (Cons e es)
  obtain s x as where e: "e = (s, x, as)" by (cases e rule: prod_cases3)
  have "pt_inv (redis_check_symbol m e) \<and> length (pwHeap (redis_check_symbol m e)) = length (pwHeap m)"
    using Cons.prems inv_redis_exits [of m as] by (auto simp: redis_check_symbol_def e split: sum.splits)
  then show ?case using Cons by simp
qed simp

lemma snapshot_bound: "pt_inv m \<Longrightarrow> \<forall>(s, x, as)\<in>set (snapshot m). \<forall>a\<in>set as. a < length (pwHeap m)"
proof -
  assume "pt_inv m"
  then have c: "cache_ok (heap_ids m) (ptCache m) (ptMeta m)" by (simp add: pt_inv_def pt_ok_def)
  have "a < length (pwHeap m)" if "(s, as) \<in> set (ptCache m)" "a \<in> set as" for s as a
    using all_cached [OF c, of a] that by force
  then show ?thesis by (auto simp: snapshot_def)
qed

lemma inv_checkRedisSLTP: "pt_inv m \<Longrightarrow> pt_inv (checkRedisSLTP m)"
  unfolding checkRedisSLTP_def by (rule inv_redis_symbols [OF _ snapshot_bound])

section \<open>Exits keep the invariant\<close>

lemma exit_heap_ids: "heap_ids (set_order a (exited_order t p r (order_at m a)) m) = heap_ids m"
  by (rule heap_ids_set) (simp add: idsym_def exited_order_def)

lemma frame_exited [simp]: "pt_frame m (set_order a (exited_order t p r (pwHeap m ! a)) m)"
  using exit_heap_ids [of a t p r m] by (simp add: pt_frame_def order_at_def)

lemma exit_paper_frame:
  assumes "ExitPaperPosition a p reason m = (m1, r)"
  shows "\<exists>m2. pt_frame m m2 \<and> (if r = None then m1 = px_spawn (PwReverse a p (pwNow m)) m2 else m1 = m2)"
proof -
  let ?o = "pwHeap m ! a" and ?m = "set_order a (exited_order (pwNow m) p reason (pwHeap m ! a)) m"
  let ?q = "\<lambda>f. UpdatePaperTradeExit f (pwNow m) (oOrderID ?o) p (paper_pnl ?o p)"
  obtain m2 e where ret: "retryDB 3 (pw_statement ?q) ?m = (m2, e)" by fastforce
  have "pt_frame ?m m2" using frame_statement [of ?m 3 ?q] by (simp add: ret)
  then have f: "pt_frame m m2" using pt_frame_trans frame_exited by blast
  then have "pt_frame m (px_emit x m2)" for x using pt_frame_trans pt_frame_emit(1) by blast
  then show ?thesis using assms f by (auto simp: ExitPaperPosition_def ret Let_def split: option.splits)
qed

lemma inv_drop_cached: "pt_inv_for E m \<Longrightarrow> pt_inv_for E (drop_cached o1 m)"
  unfolding drop_cached_def by (rule inv_for_set_cached [OF _ without_subset])

lemma set_cached_length [simp]: "pwHeap (set_cached s as m) = pwHeap m"
  by (simp add: set_cached_def)

lemma drop_cached_heap [simp]: "pwHeap (drop_cached o1 m) = pwHeap m" "ptExiting (drop_cached o1 m) = ptExiting m"
  by (simp_all add: drop_cached_def)

lemma frame_exit_done:
  "pt_frame (drop_cached (order_at m a) m) (exit_done a p reason m)"
  by (simp add: exit_done_def Let_def pt_frame_def heap_ids_def)

lemma inv_exitPosition:
  assumes "pt_inv_for (ptExiting m - {oOrderID (order_at m a)}) m" "a < length (pwHeap m)"
  shows "pt_inv (exitPosition a p reason m) \<and> length (pwHeap (exitPosition a p reason m)) = length (pwHeap m) \<and>
    ptExiting (exitPosition a p reason m) = ptExiting m - {oOrderID (order_at m a)}"
proof -
  let ?E = "ptExiting m - {oOrderID (order_at m a)}"
  define m1 where "m1 = (if ptHasML m then px_emit (PxCancelGroup (oOrderID (order_at m a))) m else m)"
  have f1: "pt_frame m m1" by (simp add: m1_def)
  obtain m2 r where x: "ExitPaperPosition a p reason m1 = (m2, r)" by fastforce
  obtain m3 where m3: "pt_frame m1 m3" "if r = None then m2 = px_spawn (PwReverse a p (pwNow m1)) m3 else m2 = m3"
    using exit_paper_frame [OF x] by blast
  have f3: "pt_frame m m3" by (rule pt_frame_trans [OF f1 m3(1)])
  have "pt_inv_for ?E m3" by (rule frame_for [OF f3 assms(1)])
  then have i2: "pt_inv_for ?E m2" and e2: "ptExiting m2 = ptExiting m" and l2: "length (pwHeap m2) = length (pwHeap m)"
    using m3(2) frame_length [OF f3] assms(2) f3 inv_for_spawn [of ?E m3 "PwReverse a p (pwNow m1)"]
    by (auto simp: pt_frame_def split: if_splits)
  define m4 where "m4 = (case r of Some _ \<Rightarrow> exit_failed (order_at m2 a) m2 | None \<Rightarrow> exit_done a p reason m2)"
  have fd: "pt_frame (drop_cached (order_at m2 a) m2) m4"
    using frame_exit_done [of m2 a p reason] by (simp add: m4_def exit_failed_def split: option.split)
  have i4: "pt_inv_for ?E m4" by (rule frame_for [OF fd inv_drop_cached [OF i2]])
  have e4: "ptExiting m4 = ptExiting m" "length (pwHeap m4) = length (pwHeap m)"
    using fd frame_length [OF fd] e2 l2 by (auto simp: pt_frame_def)
  have "exitPosition a p reason m = m4\<lparr>ptExiting := ptExiting m4 - {oOrderID (order_at m a)}\<rparr>"
    by (simp add: exitPosition_def m1_def [symmetric] x m4_def Let_def)
  then show ?thesis using i4 e4 by (simp add: pt_inv_iff pt_inv_for_def heap_ids_def)
qed

lemma inv_for_mono: "pt_inv_for E m \<Longrightarrow> F \<subseteq> E \<Longrightarrow> pt_inv_for F m"
  by (auto simp: pt_inv_for_def pt_ok_def)

lemma inv_force_exit:
  assumes "pt_inv m" "a < length (pwHeap m)"
  shows "pt_inv (force_exit reason m a) \<and> length (pwHeap (force_exit reason m a)) = length (pwHeap m) \<and>
    ptExiting (force_exit reason m a) = ptExiting m"
proof (cases "oOrderID (order_at m a) \<in> ptExiting m")
  case True
  then show ?thesis using assms by (simp add: force_exit_def Let_def)
next
  case False
  let ?oid = "oOrderID (order_at m a)" and ?price = "resolveExitPrice (order_at m a) m"
  let ?m1 = "m\<lparr>ptExiting := insert ?oid (ptExiting m)\<rparr>"
  let ?m2 = "if ptHasML m then px_emit (PxCancelGroupForExit ?oid ?price reason) ?m1 else ?m1"
  have "pt_inv_for (ptExiting m) ?m2" using assms(1) by (simp add: pt_inv_iff pt_inv_for_def heap_ids_def)
  moreover have "order_at ?m2 a = order_at m a" "ptExiting ?m2 - {?oid} = ptExiting m" "length (pwHeap ?m2) = length (pwHeap m)"
    using False by (auto simp: order_at_def)
  ultimately show ?thesis using inv_exitPosition [of ?m2 a ?price reason] assms(2) False
    by (simp add: force_exit_def Let_def)
qed

lemma inv_force_exits:
  "pt_inv m \<Longrightarrow> \<forall>a\<in>set as. a < length (pwHeap m) \<Longrightarrow>
   pt_inv (foldl (force_exit reason) m as) \<and> ptExiting (foldl (force_exit reason) m as) = ptExiting m"
proof (induction as arbitrary: m)
  case (Cons a as)
  then show ?case using inv_force_exit [of m a reason] by simp
qed simp

lemma inv_force_rows: "pt_inv m \<Longrightarrow> pt_inv (force_exits reason os m)"
  using inv_force_exits [OF inv_append [of m os], of "[length (pwHeap m) ..< length (pwHeap m) + length os]" reason]
  by (simp add: force_exits_def allocate_def)

lemma inv_ForceExits:
  assumes "pt_inv m"
  shows "pt_inv (fst (ForceExitAll u m))" "pt_inv (fst (ForceExitByStrategy u sid m))"
proof -
  have q: "pt_query g m = (m1, r) \<Longrightarrow> pt_inv m1" for g m1 r using pt_frame_inv [OF frame_query assms] by blast
  show "pt_inv (fst (ForceExitAll u m))"
    using q pt_frame_inv [OF pt_frame_emit(2) inv_force_rows]
    by (fastforce simp: ForceExitAll_def split: prod.splits sum.splits)
  show "pt_inv (fst (ForceExitByStrategy u sid m))"
    using q pt_frame_inv [OF pt_frame_emit(2) inv_force_rows]
    by (fastforce simp: ForceExitByStrategy_def split: prod.splits sum.splits)
qed

lemma inv_SquareOffAll: "pt_inv m \<Longrightarrow> pt_inv (SquareOffAll m)"
proof -
  assume inv: "pt_inv m"
  let ?t = "clock_string (pwNow m)"
  have due: "\<forall>a\<in>set (cached_due ?t m). a < length (pwHeap m)"
    using inv all_cached [of "heap_ids m" "ptCache m" "ptMeta m"] by (simp add: cached_due_def pt_inv_def pt_ok_def)
  have 1: "pt_inv (foldl (force_exit ''SQUARE_OFF'') m (cached_due ?t m))" using inv_force_exits [OF inv due] by blast
  have 2: "pt_inv x \<Longrightarrow> pt_inv (fst (square_off_rest ?t handled x))" for x handled
    using pt_frame_inv [OF frame_query] inv_force_rows
    by (fastforce simp: square_off_rest_def Let_def split: prod.splits sum.splits)
  have 3: "pt_frame x (foldl (\<lambda>m' u. pt_broadcast u PuForceExitDone m') x us)" for x us
    by (rule pt_frame_fold) simp
  let ?handled = "set (map (\<lambda>a. oOrderID (order_at m a)) (cached_due ?t m))"
  obtain x rest where x: "square_off_rest ?t ?handled (foldl (force_exit ''SQUARE_OFF'') m (cached_due ?t m)) = (x, rest)"
    by fastforce
  have "pt_inv x" using 2 [OF 1, of ?handled] by (simp only: x fst_conv)
  moreover have "SquareOffAll m = foldl (\<lambda>m' u. pt_broadcast u PuForceExitDone m') x
      (remdups (map (\<lambda>a. oUserID (order_at m a)) (cached_due ?t m) @ map oUserID rest))"
    unfolding SquareOffAll_def Let_def x prod.case ..
  ultimately show ?thesis using pt_frame_inv [OF 3] by (simp only:)
qed

section \<open>Goroutines keep the invariant\<close>

lemma drop_nth_set: "set (drop_nth i xs) \<subseteq> set xs" "x \<in> set xs \<Longrightarrow> i < length xs \<Longrightarrow> x \<noteq> xs ! i \<Longrightarrow> x \<in> set (drop_nth i xs)"
proof -
  show "set (drop_nth i xs) \<subseteq> set xs" by (auto simp: drop_nth_def dest: in_set_takeD in_set_dropD)
  show "x \<in> set xs \<Longrightarrow> i < length xs \<Longrightarrow> x \<noteq> xs ! i \<Longrightarrow> x \<in> set (drop_nth i xs)"
    by (subst (asm) id_take_nth_drop [of i xs]) (auto simp: drop_nth_def)
qed

lemma inv_take_task:
  assumes "pt_inv m" "i < length (pwTasks m)" "pwTasks m ! i = t"
  shows "pt_inv_for (case t of PwExit a p r \<Rightarrow> ptExiting m - {oOrderID (order_at m a)} | _ \<Rightarrow> ptExiting m)
    (m\<lparr>pwTasks := drop_nth i (pwTasks m)\<rparr>)"
proof -
  have t: "\<forall>a\<in>task_addresses t. a < length (pwHeap m)" using assms by (auto simp: pt_inv_def pt_ok_def)
  have p: "pending_exit (heap_ids m) (drop_nth i (pwTasks m)) oid"
    if "oid \<in> ptExiting m" "\<And>a p r. t = PwExit a p r \<Longrightarrow> oid \<noteq> oOrderID (order_at m a)" for oid
  proof -
    have "pending_exit (heap_ids m) (pwTasks m) oid" using assms(1) that(1) unfolding pt_inv_def pt_ok_def by blast
    then obtain a p r where w: "PwExit a p r \<in> set (pwTasks m)" "fst (heap_ids m ! a) = oid"
      unfolding pending_exit_def by blast
    have "a < length (pwHeap m)" using assms(1) w(1) by (fastforce simp: pt_inv_def pt_ok_def)
    then have "PwExit a p r \<noteq> t" using w(2) that(2) heap_ids_nth [of a m] by (auto simp: idsym_def)
    then show ?thesis using drop_nth_set(2) [OF w(1) assms(2)] w(2) assms(3) by (auto simp: pending_exit_def)
  qed
  show ?thesis using assms(1) p drop_nth_set(1) [of i "pwTasks m"]
    by (auto simp: pt_inv_for_def pt_inv_def pt_ok_def heap_ids_def split: pw_task.split)
qed

lemma inv_run_nth: "pt_inv m \<Longrightarrow> pt_inv (run_nth i m)"
proof (cases "i < length (pwTasks m)")
  case True
  assume inv: "pt_inv m"
  let ?m = "m\<lparr>pwTasks := drop_nth i (pwTasks m)\<rparr>"
  note tk = inv_take_task [OF inv True refl]
  have t: "\<forall>a\<in>task_addresses (pwTasks m ! i). a < length (pwHeap ?m)"
    using inv True by (auto simp: pt_inv_def pt_ok_def)
  have st: "pt_frame ?m (fst (retryDB k (pw_statement q) (fresh_uuid (fresh_uuid ?m))))" for k q
    by (rule pt_frame_trans [OF pt_frame_trans [OF frame_world(4) frame_world(4)] frame_statement])
  have st1: "pt_frame ?m (fst (pw_statement q ?m))" for q
    by (simp add: pw_statement_def Let_def split: prod.split)
  have "pt_inv (run_pw (pwTasks m ! i) ?m)"
  proof (cases "pwTasks m ! i")
    case (PwReverse a p s)
    then show ?thesis using tk pt_frame_inv [OF st] by (simp add: run_pw_def createReverseExitOrder_def pt_inv_iff)
  next
    case (PwPersistSL oid sl)
    then show ?thesis using tk pt_frame_inv [OF pt_frame_emit(1) pt_frame_inv [OF st1]]
      by (simp add: run_pw_def pt_inv_iff)
  next
    case (PwTick s ltp as)
    then show ?thesis using tk t inv_tick_load [of ?m as s ltp] by (simp add: run_pw_def pt_inv_iff)
  next
    case (PwEval s ltp a rest)
    then show ?thesis using tk t inv_tick_eval [of ?m a rest s ltp] by (simp add: run_pw_def pt_inv_iff)
  next
    case (PwExit a p r)
    then show ?thesis using tk t inv_exitPosition [of ?m a p r] by (simp add: run_pw_def order_at_def)
  qed
  then show ?thesis using True by (simp add: run_nth_def)
qed (simp add: run_nth_def)

end
