(* ===== verification/PaperProps.thy ===== *)
theory PaperProps
  imports PaperIndex
begin

text \<open>
  The claims on the paper monitor: consistency of its index, finality of recorded exits,
  completeness of the square-off, the trailing stop, and the findings.
\<close>

section \<open>What happens to the table\<close>

definition rows_step :: "pt_state \<Rightarrow> pt_state \<Rightarrow> bool" where
  "rows_step m m' \<longleftrightarrow> keeps_rows (pwRows m) (pwRows m') \<and> (pwFaults m = [] \<longrightarrow> pwFaults m' = [])"

lemma rows_step_refl [simp]: "rows_step m m"
  by (simp add: rows_step_def)

lemma rows_step_trans: "rows_step m m' \<Longrightarrow> rows_step m' m'' \<Longrightarrow> rows_step m m''"
  by (auto simp: rows_step_def intro: keeps_rows_trans)

lemma rows_step_same: "pwRows m' = pwRows m \<Longrightarrow> pwFaults m' = pwFaults m \<Longrightarrow> rows_step m m'"
  by (simp add: rows_step_def)

lemma rows_step_fold: "(\<And>m x. rows_step m (g m x)) \<Longrightarrow> rows_step m (foldl g m xs)"
  by (induction xs arbitrary: m) (auto intro: rows_step_trans)

lemma rows_step_statement:
  assumes "\<And>f rows. keeps_rows rows (fst (q f rows))"
  shows "rows_step m (fst (pw_statement q m))"
proof -
  define f where "f = (case pwFaults m of [] \<Rightarrow> NoFault | g # _ \<Rightarrow> g)"
  obtain rs r where q: "q f (pwRows m) = (rs, r)" by fastforce
  then have "keeps_rows (pwRows m) rs" using assms [of "pwRows m" f] by simp
  then show ?thesis by (simp add: rows_step_def pw_statement_def Let_def f_def [symmetric] q)
qed

lemma rows_step_retry:
  assumes "\<And>f rows. keeps_rows rows (fst (q f rows))"
  shows "rows_step m (fst (retryDB k (pw_statement q) m))"
proof (rule retryDB_invariant)
  show "rows_step m w'" if "rows_step m w" "pw_statement q w = (w', e)" for w w' e
    using rows_step_trans [OF that(1) rows_step_statement [of q w]] assms that(2) by simp
qed simp

lemma statement_keeps:
  "keeps_rows rows (fst (Update f t r rows))" "keeps_rows rows (fst (UpdatePaperTradeExit f t i p x rows))"
  "keeps_rows rows (fst (UpdateTrailingSL f t i p rows))" "keeps_rows rows (fst (Create f r rows))"
  using keeps_op [of rows f t "RpUpdate r"] keeps_op [of rows f t "RpPaperTradeExit i p x"]
    keeps_op [of rows f t "RpTrailingSL i p"] keeps_op [of rows f t "RpCreate r"] by simp_all

lemma plain_rows [simp]:
  "pwRows (fresh_uuid m) = pwRows m" "pwFaults (fresh_uuid m) = pwFaults m"
  "pwRows (set_cached s as m) = pwRows m" "pwFaults (set_cached s as m) = pwFaults m"
  "pwRows (index_order a m) = pwRows m" "pwFaults (index_order a m) = pwFaults m"
  "pwRows (leave_symbol s k m) = pwRows m" "pwFaults (leave_symbol s k m) = pwFaults m"
  "pwRows (forget_order i m) = pwRows m" "pwFaults (forget_order i m) = pwFaults m"
  "pwRows (update_cached i g m) = pwRows m" "pwFaults (update_cached i g m) = pwFaults m"
  "pwRows (drop_cached r m) = pwRows m" "pwFaults (drop_cached r m) = pwFaults m"
  by (simp_all add: fresh_uuid_def set_cached_def index_order_def Let_def leave_symbol_def forget_order_def
      update_cached_def drop_cached_def split: option.split)

lemma AddOrder_rows [simp]: "pwRows (AddOrder a m) = pwRows m" "pwFaults (AddOrder a m) = pwFaults m"
  by (simp_all add: AddOrder_def Let_def)

lemma load_order_rows [simp]: "pwRows (load_order m r) = pwRows m" "pwFaults (load_order m r) = pwFaults m"
  by (simp_all add: load_order_def Let_def)

lemma step_query: "pt_query q m = (m1, r) \<Longrightarrow> rows_step m m1"
  by (auto simp: pt_query_def rows_step_def)

lemma step_initialize: "rows_step m (fst (Initialize m))"
proof -
  obtain m1 r where q: "pt_query GetAllActivePaperOrders m = (m1, r)" by fastforce
  have "rows_step m1 (foldl load_order m1 os)" for os by (rule rows_step_fold) (simp add: rows_step_same)
  then have "rows_step m (foldl load_order m1 os)" for os by (rule rows_step_trans [OF step_query [OF q]])
  then have "rows_step m (px_emit x (foldl load_order m1 os))" "rows_step m (foldl load_order m1 os)" for x os
    by (simp_all add: rows_step_def)
  then show ?thesis using step_query [OF q] by (simp add: Initialize_def q Let_def split: sum.split)
qed

lemma step_fill: "rows_step m (ExecutePaperOrder AddOrder a m)"
proof -
  have "rows_step m (fst (retryDB 3 (pw_statement (\<lambda>f. Update f t r)) (set_order a r (fresh_uuid m))))" for t r
    by (rule rows_step_trans [OF rows_step_same rows_step_retry]) (simp_all add: statement_keeps)
  then show ?thesis
    unfolding ExecutePaperOrder_def Let_def publishPaperOrderUpdate_def
    by (rule rows_step_trans) (rule rows_step_same; simp)
qed

lemma step_remove: "rows_step m (RemoveOrder oid m)"
  by (rule rows_step_same) (simp_all add: RemoveOrder_def Let_def split: option.split)

lemma step_remove_strategy: "rows_step m (RemoveOrdersByStrategy sid m)"
  unfolding RemoveOrdersByStrategy_def
  by (intro rows_step_trans [OF rows_step_fold rows_step_fold] rows_step_same)
     (simp_all add: clean_removed_def split: prod.split)

lemma step_price: "rows_step m (PtOnPriceUpdate s ltp m)"
  by (rule rows_step_same) (simp_all add: PtOnPriceUpdate_def Let_def)

lemma step_redis_pnl: "rows_step m (tickRedisPnL m)"
proof -
  have 1: "rows_step m (pnl_update s ltp m a)" for s ltp a m
    by (rule rows_step_same) (simp_all add: pnl_update_def Let_def)
  have "rows_step m (foldl (pnl_update s ltp) (m\<lparr>ptLatestLTP := f\<rparr>) as)" for s ltp f as m
    by (rule rows_step_trans [OF rows_step_same rows_step_fold [OF 1]]) simp_all
  then have "rows_step m (redis_pnl_symbol m e)" for m e
    by (simp add: redis_pnl_symbol_def split: prod.split sum.split)
  then show ?thesis unfolding tickRedisPnL_def by (rule rows_step_fold)
qed

lemma step_redis_check: "rows_step m (checkRedisSLTP m)"
proof -
  have 1: "rows_step m (redis_exit ltp m a)" for ltp a m
    by (rule rows_step_same) (simp_all add: redis_exit_def Let_def)
  have "rows_step m (foldl (redis_exit ltp) m as)" for ltp as m by (rule rows_step_fold) (rule 1)
  then have "rows_step m (redis_check_symbol m e)" for m e
    by (simp add: redis_check_symbol_def split: prod.split sum.split)
  then show ?thesis unfolding checkRedisSLTP_def by (rule rows_step_fold)
qed

text \<open>An exit that meets no failure is in the table afterwards.\<close>

definition recorded :: "uuid \<Rightarrow> rows \<Rightarrow> bool" where
  "recorded oid rows \<longleftrightarrow> (\<forall>r\<in>set rows. oOrderID r = oid \<longrightarrow> oPaperExitPrice r \<noteq> None)"

definition is_recorded :: "uuid \<Rightarrow> rows \<Rightarrow> bool" where
  "is_recorded oid rows \<longleftrightarrow> (\<exists>r\<in>set rows. oOrderID r = oid \<and> oPaperExitPrice r \<noteq> None)"

lemma is_recorded_mono: "keeps_rows rows rows' \<Longrightarrow> is_recorded oid rows \<Longrightarrow> is_recorded oid rows'"
  unfolding is_recorded_def keeps_rows_def keeps_row_def same_exit_def keeps_identity_def by metis

definition has_row :: "uuid \<Rightarrow> rows \<Rightarrow> bool" where
  "has_row oid rows \<longleftrightarrow> (\<exists>r\<in>set rows. oOrderID r = oid)"

lemma has_row_mono: "keeps_rows rows rows' \<Longrightarrow> has_row oid rows \<Longrightarrow> has_row oid rows'"
  unfolding has_row_def keeps_rows_def keeps_row_def keeps_identity_def by metis

lemma exit_statement_records:
  "has_row oid rows \<Longrightarrow> is_recorded oid (fst (UpdatePaperTradeExit NoFault t oid p x rows))"
proof -
  assume "has_row oid rows"
  then obtain r where r: "r \<in> set rows" "oOrderID r = oid" by (auto simp: has_row_def)
  let ?g = "\<lambda>r. if (NoFault = NoFault \<or> NoFault = Applied) \<and> has_id oid r \<and> oPaperExitPrice r = None
      then r\<lparr>oStatus := ''CANCELLED'', oPaperExitPrice := Some p, oPaperPnL := Some x, oPaperExitTime := Some t,
              oUpdatedAt := t\<rparr> else r"
  have "?g r \<in> set (fst (UpdatePaperTradeExit NoFault t oid p x rows))"
    unfolding UpdatePaperTradeExit_def fst_affect exec_update_fst set_map by (rule imageI [OF r(1)])
  moreover have "oOrderID (?g r) = oid" "oPaperExitPrice (?g r) \<noteq> None" using r(2) by (simp_all add: has_id_def)
  ultimately show ?thesis unfolding is_recorded_def by blast
qed

lemma exit_paper_step:
  assumes "ExitPaperPosition a p reason m = (m1, r)"
  shows "rows_step m m1" and "pwFaults m = [] \<Longrightarrow> has_row (oOrderID (order_at m a)) (pwRows m) \<Longrightarrow>
    is_recorded (oOrderID (order_at m a)) (pwRows m1)"
proof -
  let ?o = "pwHeap m ! a" and ?m = "set_order a (exited_order (pwNow m) p reason (pwHeap m ! a)) m"
  let ?q = "\<lambda>f. UpdatePaperTradeExit f (pwNow m) (oOrderID ?o) p (paper_pnl ?o p)"
  obtain m2 e where ret: "retryDB 3 (pw_statement ?q) ?m = (m2, e)" by fastforce
  have "rows_step ?m m2" using rows_step_retry [of ?q ?m 3] by (simp add: ret statement_keeps)
  then have s: "rows_step m m2" by (simp add: rows_step_def)
  have m1: "pwRows m1 = pwRows m2" "pwFaults m1 = pwFaults m2"
    using assms by (auto simp: ExitPaperPosition_def ret Let_def split: option.splits)
  show "rows_step m m1" using s m1 by (simp add: rows_step_def)
  show "is_recorded (oOrderID (order_at m a)) (pwRows m1)" if "pwFaults m = []" "has_row (oOrderID (order_at m a)) (pwRows m)"
  proof -
    have "snd (?q NoFault (pwRows m)) = Inr ()"
      by (simp add: UpdatePaperTradeExit_def may_affect_def exec_update_def)
    then obtain rs where q: "?q NoFault (pwRows m) = (rs, Inr ())" by (cases "?q NoFault (pwRows m)") simp
    have "m2 = ?m\<lparr>pwFaults := [], pwRows := rs\<rparr>"
      using ret that(1) q by (simp add: retryDB_def numeral_3_eq_3 pw_statement_def Let_def)
    then show ?thesis using exit_statement_records [of "oOrderID ?o" "pwRows m" "pwNow m" p "paper_pnl ?o p"] that(2) q m1(1)
      by (simp add: order_at_def)
  qed
qed

lemma exit_done_rows [simp]: "pwRows (exit_done a p r m) = pwRows m" "pwFaults (exit_done a p r m) = pwFaults m"
  by (simp_all add: exit_done_def Let_def)

lemma step_exit:
  shows "rows_step m (exitPosition a p reason m)" and "pwFaults m = [] \<Longrightarrow> has_row (oOrderID (order_at m a)) (pwRows m) \<Longrightarrow>
    is_recorded (oOrderID (order_at m a)) (pwRows (exitPosition a p reason m))"
proof -
  define m1 where "m1 = (if ptHasML m then px_emit (PxCancelGroup (oOrderID (order_at m a))) m else m)"
  have same: "pwRows m1 = pwRows m" "pwFaults m1 = pwFaults m" "order_at m1 a = order_at m a"
    by (simp_all add: m1_def order_at_def)
  obtain m2 r where x: "ExitPaperPosition a p reason m1 = (m2, r)" by fastforce
  have "pwRows (exitPosition a p reason m) = pwRows m2" "pwFaults (exitPosition a p reason m) = pwFaults m2"
    by (simp_all add: exitPosition_def m1_def [symmetric] x Let_def exit_failed_def split: option.split)
  then show "rows_step m (exitPosition a p reason m)" "pwFaults m = [] \<Longrightarrow> has_row (oOrderID (order_at m a)) (pwRows m) \<Longrightarrow>
    is_recorded (oOrderID (order_at m a)) (pwRows (exitPosition a p reason m))"
    using exit_paper_step [OF x] same by (simp_all add: rows_step_def)
qed

lemma exit_ids [simp]:
  "heap_ids (exitPosition a p reason m) = heap_ids m"
  "ptExiting (exitPosition a p reason m) = ptExiting m - {oOrderID (order_at m a)}"
proof -
  define m1 where "m1 = (if ptHasML m then px_emit (PxCancelGroup (oOrderID (order_at m a))) m else m)"
  have f1: "pt_frame m m1" by (simp add: m1_def)
  obtain m2 r where x: "ExitPaperPosition a p reason m1 = (m2, r)" by fastforce
  obtain m3 where m3: "pt_frame m1 m3" "if r = None then m2 = px_spawn (PwReverse a p (pwNow m1)) m3 else m2 = m3"
    using exit_paper_frame [OF x] by blast
  have h2: "heap_ids m2 = heap_ids m" "ptExiting m2 = ptExiting m"
    using pt_frame_trans [OF f1 m3(1)] m3(2) by (auto simp: pt_frame_def heap_ids_def split: if_splits)
  define m4 where "m4 = (case r of Some _ \<Rightarrow> exit_failed (order_at m2 a) m2 | None \<Rightarrow> exit_done a p reason m2)"
  have "pt_frame (drop_cached (order_at m2 a) m2) m4"
    using frame_exit_done [of m2 a p reason] by (simp add: m4_def exit_failed_def split: option.split)
  then have h4: "heap_ids m4 = heap_ids m" "ptExiting m4 = ptExiting m" using h2 by (simp_all add: pt_frame_def heap_ids_def)
  have "exitPosition a p reason m = m4\<lparr>ptExiting := ptExiting m4 - {oOrderID (order_at m a)}\<rparr>"
    by (simp add: exitPosition_def m1_def [symmetric] x m4_def Let_def)
  then show "heap_ids (exitPosition a p reason m) = heap_ids m"
    "ptExiting (exitPosition a p reason m) = ptExiting m - {oOrderID (order_at m a)}"
    using h4 by (simp_all add: heap_ids_def)
qed

lemma force_cases:
  obtains "oOrderID (order_at m a) \<in> ptExiting m" "force_exit reason m a = m"
  | m2 p where "oOrderID (order_at m a) \<notin> ptExiting m" "force_exit reason m a = exitPosition a p reason m2"
      "pwRows m2 = pwRows m" "pwFaults m2 = pwFaults m" "pwHeap m2 = pwHeap m"
      "ptExiting m2 = insert (oOrderID (order_at m a)) (ptExiting m)"
proof (cases "oOrderID (order_at m a) \<in> ptExiting m")
  case True
  then show thesis using that(1) by (simp add: force_exit_def Let_def)
next
  case False
  let ?oid = "oOrderID (order_at m a)" and ?price = "resolveExitPrice (order_at m a) m"
  let ?m1 = "m\<lparr>ptExiting := insert ?oid (ptExiting m)\<rparr>"
  let ?m2 = "if ptHasML m then px_emit (PxCancelGroupForExit ?oid ?price reason) ?m1 else ?m1"
  show thesis
    by (rule that(2) [of ?price ?m2]) (use False in \<open>simp_all add: force_exit_def Let_def\<close>)
qed

lemma step_force: "rows_step m (force_exit reason m a)"
proof (cases rule: force_cases [of m a reason])
  case (2 m2 p)
  then show ?thesis using step_exit(1) [of m2 a p reason] by (simp add: rows_step_def)
qed simp

lemma force_ids: "heap_ids (force_exit reason m a) = heap_ids m \<and> ptExiting (force_exit reason m a) = ptExiting m"
proof (cases rule: force_cases [of m a reason])
  case (2 m2 p)
  have "heap_ids m2 = heap_ids m" "order_at m2 a = order_at m a" using 2(5) by (simp_all add: heap_ids_def order_at_def)
  then show ?thesis using 2(1,2,6) by simp
qed simp

lemma force_records:
  assumes "pwFaults m = []" "has_row (oOrderID (order_at m a)) (pwRows m)" "oOrderID (order_at m a) \<notin> ptExiting m"
  shows "is_recorded (oOrderID (order_at m a)) (pwRows (force_exit reason m a))"
proof (cases rule: force_cases [of m a reason])
  case (2 m2 p)
  then show ?thesis using step_exit(2) [of m2 a p reason] assms by (simp add: order_at_def)
qed (use assms in simp)

lemma steps_force: "rows_step m (foldl (force_exit reason) m as)"
  by (rule rows_step_fold) (rule step_force)

lemma forces_record:
  assumes "pwFaults m = []" "has_row oid (pwRows m)" "oid \<notin> ptExiting m"
    and "a \<in> set as" "a < length (pwHeap m)" "fst (heap_ids m ! a) = oid"
  shows "is_recorded oid (pwRows (foldl (force_exit reason) m as))"
  using assms
proof (induction as arbitrary: m)
  case (Cons b as)
  let ?m = "force_exit reason m b"
  have st: "rows_step m ?m" and ids: "heap_ids ?m = heap_ids m" "ptExiting ?m = ptExiting m"
    using step_force force_ids by blast+
  have oid: "oOrderID (order_at m a) = oid" using Cons.prems(5,6) heap_ids_nth [of a m] by (simp add: idsym_def)
  show ?case
  proof (cases "a = b")
    case True
    then have "is_recorded oid (pwRows ?m)" using force_records [of m b reason] Cons.prems oid by simp
    then show ?thesis
      using steps_force [of ?m reason as] is_recorded_mono by (auto simp: rows_step_def)
  next
    case False
    have "is_recorded oid (pwRows (foldl (force_exit reason) ?m as))"
    proof (rule Cons.IH)
      show "pwFaults ?m = []" "has_row oid (pwRows ?m)"
        using st Cons.prems(1,2) has_row_mono by (auto simp: rows_step_def)
      show "a < length (pwHeap ?m)" using Cons.prems(5) ids(1) length_heap_ids by metis
    qed (use ids Cons.prems False in auto)
    then show ?thesis by simp
  qed
qed simp

lemma step_force_rows: "rows_step m (force_exits reason os m)"
proof -
  have "rows_step m (m\<lparr>pwHeap := pwHeap m @ os\<rparr>)" by (rule rows_step_same) simp_all
  then show ?thesis unfolding force_exits_def allocate_def prod.case by (rule rows_step_trans) (rule steps_force)
qed

lemma force_rows_record:
  assumes "pwFaults m = []" "has_row (oOrderID r) (pwRows m)" "oOrderID r \<notin> ptExiting m" "r \<in> set os"
  shows "is_recorded (oOrderID r) (pwRows (force_exits reason os m))"
proof -
  let ?m = "m\<lparr>pwHeap := pwHeap m @ os\<rparr>"
  obtain i where i: "i < length os" "os ! i = r" using assms(4) by (meson in_set_conv_nth)
  let ?a = "length (pwHeap m) + i"
  have "fst (heap_ids ?m ! ?a) = oOrderID r" using i by (simp add: heap_ids_def nth_append idsym_def)
  moreover have "?a \<in> set [length (pwHeap m) ..< length (pwHeap m) + length os]" "?a < length (pwHeap ?m)" using i by simp_all
  ultimately show ?thesis
    unfolding force_exits_def allocate_def prod.case
    using assms(1-3) by (intro forces_record [where a = ?a]) simp_all
qed

lemma step_forced: "rows_step m (fst (ForceExitAll u m))" "rows_step m (fst (ForceExitByStrategy u sid m))"
proof -
  have b: "rows_step m (pt_broadcast v x (force_exits reason os n))" if "rows_step m n" for n v x reason os
  proof -
    have "rows_step m (force_exits reason os n)" by (rule rows_step_trans [OF that step_force_rows])
    then show ?thesis by (simp add: rows_step_def)
  qed
  obtain m1 r where 1: "pt_query (\<lambda>f. GetFilledPaperOrdersByUser f u) m = (m1, r)" by fastforce
  show "rows_step m (fst (ForceExitAll u m))"
    using b step_query [OF 1] by (simp add: ForceExitAll_def 1 split: sum.split)
  obtain m2 q where 2: "pt_query (\<lambda>f. GetExitablePaperOrdersByStrategy f sid u) m = (m2, q)" by fastforce
  show "rows_step m (fst (ForceExitByStrategy u sid m))"
    using b step_query [OF 2] by (simp add: ForceExitByStrategy_def 2 split: sum.split)
qed

lemma step_rest: "rows_step m (fst (square_off_rest t handled m))"
proof -
  obtain m1 r where 1: "pt_query GetAllActivePaperOrders m = (m1, r)" by fastforce
  show ?thesis using rows_step_trans [OF step_query [OF 1] step_force_rows] step_query [OF 1]
    by (simp add: square_off_rest_def 1 Let_def split: sum.split)
qed

lemma SquareOffAll_rows:
  "pwRows (SquareOffAll m) = pwRows (fst (square_off_rest (clock_string (pwNow m))
      ((\<lambda>a. oOrderID (order_at m a)) ` set (cached_due (clock_string (pwNow m)) m))
      (foldl (force_exit ''SQUARE_OFF'') m (cached_due (clock_string (pwNow m)) m))))"
  "pwFaults (SquareOffAll m) = pwFaults (fst (square_off_rest (clock_string (pwNow m))
      ((\<lambda>a. oOrderID (order_at m a)) ` set (cached_due (clock_string (pwNow m)) m))
      (foldl (force_exit ''SQUARE_OFF'') m (cached_due (clock_string (pwNow m)) m))))"
proof -
  have b: "pwRows (foldl (\<lambda>m' u. pt_broadcast u PuForceExitDone m') x us) = pwRows x \<and>
      pwFaults (foldl (\<lambda>m' u. pt_broadcast u PuForceExitDone m') x us) = pwFaults x" for x us
    by (induction us arbitrary: x) simp_all
  show "pwRows (SquareOffAll m) = pwRows (fst (square_off_rest (clock_string (pwNow m))
      ((\<lambda>a. oOrderID (order_at m a)) ` set (cached_due (clock_string (pwNow m)) m))
      (foldl (force_exit ''SQUARE_OFF'') m (cached_due (clock_string (pwNow m)) m))))"
    "pwFaults (SquareOffAll m) = pwFaults (fst (square_off_rest (clock_string (pwNow m))
      ((\<lambda>a. oOrderID (order_at m a)) ` set (cached_due (clock_string (pwNow m)) m))
      (foldl (force_exit ''SQUARE_OFF'') m (cached_due (clock_string (pwNow m)) m))))"
    by (simp_all add: SquareOffAll_def Let_def b split: prod.split)
qed

lemma step_square_off: "rows_step m (SquareOffAll m)"
proof -
  have "rows_step m (fst (square_off_rest t h (foldl (force_exit r) m as)))" for t h r as
    using rows_step_trans [OF steps_force step_rest] .
  then show ?thesis by (simp add: rows_step_def SquareOffAll_rows)
qed

lemma advance_rows: "advanceTrailingSL o1 ltp m = (m1, r) \<Longrightarrow> pwRows m1 = pwRows m \<and> pwFaults m1 = pwFaults m"
  by (auto simp: advanceTrailingSL_def UpdateCachedOrderSL_def Let_def split: option.splits prod.splits if_splits)

lemma decide_rows: "pwRows (tick_decide s ltp a o1 r m) = pwRows m \<and> pwFaults (tick_decide s ltp a o1 r m) = pwFaults m"
  by (simp add: tick_decide_def Let_def split: prod.split)

lemma step_goroutine: "rows_step m (run_nth i m)"
proof -
  have p: "rows_step n (fst (pw_statement (\<lambda>f. UpdateTrailingSL f t oid sl) n))" for n t oid sl
    by (rule rows_step_statement) (rule statement_keeps)
  have r: "rows_step n (createReverseExitOrder a q t n)" for n a q t
  proof -
    have "rows_step (fresh_uuid (fresh_uuid n)) (createReverseExitOrder a q t n)"
      unfolding createReverseExitOrder_def by (rule rows_step_retry) (rule statement_keeps)
    then show ?thesis by (simp add: rows_step_def)
  qed
  have e: "rows_step n (tick_eval s ltp a rest n)" for n s ltp a rest
  proof -
    obtain n1 x where x: "advanceTrailingSL (order_at n a) ltp n = (n1, x)"
      by (cases "advanceTrailingSL (order_at n a) ltp n") simp
    show ?thesis
      by (rule rows_step_same) (simp_all add: tick_eval_def x decide_rows advance_rows [OF x])
  qed
  have l: "rows_step n (tick_load s ltp as n)" for n s ltp as
    by (rule rows_step_same) (simp_all add: tick_load_def split: list.split)
  have "rows_step n (run_pw t n)" for n t
    using p r e l step_exit(1) by (cases t) (simp_all add: run_pw_def rows_step_def)
  from this [of "m\<lparr>pwTasks := drop_nth i (pwTasks m)\<rparr>" "pwTasks m ! i"] show ?thesis
    by (simp add: run_nth_def rows_step_def)
qed

lemma step_keeps: "rows_step m m' \<Longrightarrow> keeps_rows rows (pwRows m) \<Longrightarrow> keeps_rows rows (pwRows m')"
  by (auto simp: rows_step_def intro: keeps_rows_trans)

lemma run_keeps_rows: "pt_run m0 m \<Longrightarrow> keeps_rows (pwRows m0) (pwRows m)"
proof (induction rule: pt_run.induct)
  case (pt_statement m f t op)
  then show ?case using keeps_rows_trans [OF _ keeps_op] by simp
next
  case (pt_initialize m)
  show ?case by (rule step_keeps [OF step_initialize pt_initialize(2)])
next
  case (pt_fill m a)
  show ?case by (rule step_keeps [OF step_fill pt_fill(3)])
next
  case (pt_remove m oid)
  show ?case by (rule step_keeps [OF step_remove pt_remove(2)])
next
  case (pt_remove_strategy m sid)
  show ?case by (rule step_keeps [OF step_remove_strategy pt_remove_strategy(2)])
next
  case (pt_redis_pnl m)
  show ?case by (rule step_keeps [OF step_redis_pnl pt_redis_pnl(2)])
next
  case (pt_redis_check m)
  show ?case by (rule step_keeps [OF step_redis_check pt_redis_check(2)])
next
  case (pt_force_all m u)
  show ?case by (rule step_keeps [OF step_forced(1) pt_force_all(2)])
next
  case (pt_force_strategy m u sid)
  show ?case by (rule step_keeps [OF step_forced(2) pt_force_strategy(2)])
next
  case (pt_square_off m)
  show ?case by (rule step_keeps [OF step_square_off pt_square_off(2)])
next
  case (pt_goroutine m i)
  show ?case by (rule step_keeps [OF step_goroutine pt_goroutine(2)])
next
  case (pt_price m s ltp)
  show ?case by (rule step_keeps [OF step_price pt_price(2)])
qed (simp_all add: UpdateCachedOrderQty_def UpdateCachedOrderSL_def)

lemma idsym_filled: "idsym (filled_order i e (rescale_legs s e' r)) = idsym r"
  by (simp add: idsym_def filled_order_def rescale_legs_def)

lemma inv_fill: "pt_inv m \<Longrightarrow> a < length (pwHeap m) \<Longrightarrow> pt_inv (ExecutePaperOrder AddOrder a m)"
proof -
  assume inv: "pt_inv m" and a: "a < length (pwHeap m)"
  define r where "r = filled_order (pwNextId m) (paper_fill_price (pwLookup m) (pwHeap m ! a))
    (rescale_legs (safePrice (oPrice (pwHeap m ! a))) (paper_fill_price (pwLookup m) (pwHeap m ! a)) (pwHeap m ! a))"
  have "idsym r = idsym (order_at (fresh_uuid m) a)" by (simp add: r_def idsym_filled order_at_def fresh_uuid_def)
  then have f1: "pt_frame (fresh_uuid m) (set_order a r (fresh_uuid m))" by (simp add: pt_frame_def heap_ids_set)
  have f: "pt_frame m (fst (retryDB 3 (pw_statement (\<lambda>f. Update f (pwNow m) r)) (set_order a r (fresh_uuid m))))"
    by (rule pt_frame_trans [OF frame_world(4) pt_frame_trans [OF f1 frame_statement]])
  define m2 where "m2 = publishPaperOrderUpdate (oOrderID r) (paper_fill_price (pwLookup m) (pwHeap m ! a))
     (px_emit (PxEvent (oOrderID r) ''PAPER_FILLED'')
       (fst (retryDB 3 (pw_statement (\<lambda>f. Update f (pwNow m) r)) (set_order a r (fresh_uuid m)))))"
  have f2: "pt_frame m m2"
    using pt_frame_trans [OF f pt_frame_emit(1)] pt_frame_trans [OF _ pt_frame_emit(1)]
    by (simp add: m2_def publishPaperOrderUpdate_def)
  have "ExecutePaperOrder AddOrder a m = AddOrder a m2"
    by (simp add: ExecutePaperOrder_def Let_def m2_def r_def)
  then show ?thesis using inv_AddOrder [OF pt_frame_inv [OF f2 inv]] frame_length [OF f2] a by simp
qed

lemma run_keeps_inv: "pt_run m0 m \<Longrightarrow> pt_inv m0 \<Longrightarrow> pt_inv m"
proof (induction rule: pt_run.induct)
  case (pt_environment m t fs l r)
  then show ?case using pt_frame_inv [OF frame_world(5)] by blast
next
  case (pt_statement m f t op)
  then show ?case using pt_frame_inv [OF frame_world(2)] by blast
next
  case (pt_quantity m oid q)
  then show ?case using pt_frame_inv [OF frame_cached_updates(1)] by blast
next
  case (pt_stop m oid sl)
  then show ?case using pt_frame_inv [OF frame_cached_updates(2)] by blast
qed (simp_all add: inv_Initialize inv_append inv_fill inv_RemoveOrder inv_RemoveOrdersByStrategy
      inv_OnPriceUpdate inv_tickRedisPnL inv_checkRedisSLTP inv_ForceExits inv_SquareOffAll inv_run_nth)

section \<open>Claims\<close>

lemma new_monitor_inv: "pwTasks w = [] \<Longrightarrow> pt_inv (NewPaperTradeMonitor redis ws w)"
  by (simp add: NewPaperTradeMonitor_def pt_inv_def pt_ok_def cache_ok_def paper_world.defs)

text \<open>
  C47. In every state the paper monitor reaches, every monitored order is filed under its own symbol,
  a symbol has feed data exactly when it has orders, and an order marked as exiting has a goroutine
  that is going to exit it: no order is left marked, which would exclude it from all later checks.
\<close>

theorem paper_index_consistent:
  assumes "pt_run (NewPaperTradeMonitor redis ws w) m" "pwTasks w = []"
  shows "(\<forall>s. cached m s \<noteq> [] \<longleftrightarrow> map_of (ptMeta m) s \<noteq> None) \<and>
    (\<forall>s. \<forall>a\<in>set (cached m s). a < length (pwHeap m) \<and> oSymbol (order_at m a) = s) \<and>
    (\<forall>oid\<in>ptExiting m. \<exists>a p r. PwExit a p r \<in> set (pwTasks m) \<and> oOrderID (order_at m a) = oid)"
proof -
  have inv: "pt_inv m" by (rule run_keeps_inv [OF assms(1) new_monitor_inv [OF assms(2)]])
  then have c: "cache_ok (heap_ids m) (ptCache m) (ptMeta m)" by (simp add: pt_inv_def pt_ok_def)
  have "cached m s \<noteq> [] \<longleftrightarrow> map_of (ptMeta m) s \<noteq> None" for s
    using cached_nonempty [OF c] cache_ok_dest(3) [OF c] by metis
  moreover have "a < length (pwHeap m) \<and> oSymbol (order_at m a) = s" if "a \<in> set (cached m s)" for s a
    using cached_elem [OF c that] heap_ids_nth [of a m] by (simp add: idsym_def)
  moreover have "\<exists>a p r. PwExit a p r \<in> set (pwTasks m) \<and> oOrderID (order_at m a) = oid" if "oid \<in> ptExiting m" for oid
  proof -
    have "pending_exit (heap_ids m) (pwTasks m) oid" using inv that unfolding pt_inv_def pt_ok_def by blast
    then obtain a p r where t: "PwExit a p r \<in> set (pwTasks m)" "fst (heap_ids m ! a) = oid"
      unfolding pending_exit_def by blast
    then have "a < length (pwHeap m)" using inv unfolding pt_inv_def pt_ok_def by fastforce
    then show ?thesis using t heap_ids_nth [of a m] by (auto simp: idsym_def)
  qed
  ultimately show ?thesis by blast
qed

lemma exit_statement_or:
  "r \<in> set rows \<Longrightarrow> r \<in> set (fst (UpdatePaperTradeExit f t oid p x rows)) \<or>
   is_recorded (oOrderID r) (fst (UpdatePaperTradeExit f t oid p x rows))"
proof -
  assume r: "r \<in> set rows"
  let ?rows = "fst (UpdatePaperTradeExit f t oid p x rows)"
  let ?g = "\<lambda>r. if (f = NoFault \<or> f = Applied) \<and> has_id oid r \<and> oPaperExitPrice r = None
      then r\<lparr>oStatus := ''CANCELLED'', oPaperExitPrice := Some p, oPaperPnL := Some x, oPaperExitTime := Some t,
              oUpdatedAt := t\<rparr> else r"
  have g: "?g r \<in> set ?rows"
    unfolding UpdatePaperTradeExit_def fst_affect exec_update_fst set_map by (rule imageI [OF r])
  show ?thesis
  proof (cases "(f = NoFault \<or> f = Applied) \<and> has_id oid r \<and> oPaperExitPrice r = None")
    case True
    then have "oOrderID (?g r) = oOrderID r" "oPaperExitPrice (?g r) \<noteq> None" by simp_all
    then show ?thesis using g unfolding is_recorded_def by blast
  next
    case False
    then show ?thesis using g by (simp only: if_False) simp
  qed
qed

definition row_or_recorded :: "Order \<Rightarrow> pt_state \<Rightarrow> bool" where
  "row_or_recorded r m \<longleftrightarrow> r \<in> set (pwRows m) \<or> is_recorded (oOrderID r) (pwRows m)"

lemma exit_or: "row_or_recorded r m \<Longrightarrow> row_or_recorded r (exitPosition a p reason m)"
proof -
  assume m: "row_or_recorded r m"
  define m1 where "m1 = (if ptHasML m then px_emit (PxCancelGroup (oOrderID (order_at m a))) m else m)"
  let ?o = "pwHeap m1 ! a" and ?m = "set_order a (exited_order (pwNow m1) p reason (pwHeap m1 ! a)) m1"
  let ?q = "\<lambda>f. UpdatePaperTradeExit f (pwNow m1) (oOrderID ?o) p (paper_pnl ?o p)"
  obtain m2 e where ret: "retryDB 3 (pw_statement ?q) ?m = (m2, e)" by fastforce
  have "row_or_recorded r (fst (retryDB 3 (pw_statement ?q) ?m))"
  proof (rule retryDB_invariant)
    show "row_or_recorded r ?m" using m by (simp add: row_or_recorded_def m1_def)
    show "row_or_recorded r w'" if "row_or_recorded r n" "pw_statement ?q n = (w', e')" for n w' e'
    proof -
      define f where "f = (case pwFaults n of [] \<Rightarrow> NoFault | g # _ \<Rightarrow> g)"
      have "pwRows w' = fst (?q f (pwRows n))"
        using that(2) by (auto simp: pw_statement_def Let_def f_def [symmetric] split: prod.splits)
      moreover have "is_recorded (oOrderID r) (pwRows n) \<Longrightarrow> is_recorded (oOrderID r) (fst (?q f (pwRows n)))"
        by (rule is_recorded_mono [OF statement_keeps(2)])
      ultimately show ?thesis using that(1) exit_statement_or unfolding row_or_recorded_def by metis
    qed
  qed
  then have "row_or_recorded r m2" by (simp add: ret)
  moreover have "pwRows (exitPosition a p reason m) = pwRows m2"
    by (simp add: exitPosition_def m1_def [symmetric] ExitPaperPosition_def ret Let_def exit_failed_def split: option.split)
  ultimately show ?thesis by (simp add: row_or_recorded_def)
qed

lemma forces_or: "row_or_recorded r m \<Longrightarrow> row_or_recorded r (foldl (force_exit reason) m as)"
proof (induction as arbitrary: m)
  case (Cons a as)
  have "row_or_recorded r (force_exit reason m a)"
  proof (cases rule: force_cases [of m a reason])
    case (2 m2 p)
    then show ?thesis using exit_or [of r m2 a p reason] Cons.prems by (simp add: row_or_recorded_def)
  qed (use Cons.prems in simp)
  then show ?case using Cons.IH by simp
qed simp

text \<open>
  C48. The square-off of the day closes every open paper position, whether the monitor watches it or
  only the table knows it, unless it has a later time of its own or is being exited already: its
  exit is recorded in the table afterwards, when no statement fails.
\<close>

theorem square_off_closes_all_paper:
  assumes "pt_run (NewPaperTradeMonitor redis ws w) m" "pwTasks w = []" "pwFaults m = []"
    and "r \<in> set (pwRows m)" "oIsPaperTrade r" "\<not> oIsSquareOffOrder r" "oStatus r \<in> open_statuses"
    and "oPaperExitPrice r = None" "0 < oFilledQuantity r" "\<not> later_square_off (clock_string (pwNow m)) r"
    and "oOrderID r \<notin> ptExiting m"
  shows "\<exists>r'\<in>set (pwRows (SquareOffAll m)). oOrderID r' = oOrderID r \<and> oPaperExitPrice r' \<noteq> None"
proof -
  have inv: "pt_inv m" by (rule run_keeps_inv [OF assms(1) new_monitor_inv [OF assms(2)]])
  let ?t = "clock_string (pwNow m)" and ?oid = "oOrderID r"
  let ?due = "cached_due ?t m"
  let ?handled = "(\<lambda>a. oOrderID (order_at m a)) ` set ?due"
  let ?m1 = "foldl (force_exit ''SQUARE_OFF'') m ?due"
  have row: "has_row ?oid (pwRows m)" using assms(4) by (auto simp: has_row_def)
  have st: "rows_step m ?m1" by (rule steps_force)
  then have f1: "pwFaults ?m1 = []" and row1: "has_row ?oid (pwRows ?m1)"
    using assms(3) has_row_mono [OF _ row] by (auto simp: rows_step_def)
  have due: "\<forall>a\<in>set ?due. a < length (pwHeap m)"
    using inv all_cached [of "heap_ids m" "ptCache m" "ptMeta m"] by (simp add: cached_due_def pt_inv_def pt_ok_def)
  have "ptExiting ?m1 = ptExiting m" using inv_force_exits [OF inv due] by blast
  then have un: "?oid \<notin> ptExiting ?m1" using assms(11) by simp
  have "is_recorded ?oid (pwRows (fst (square_off_rest ?t ?handled ?m1)))"
  proof (cases "is_recorded ?oid (pwRows ?m1)")
    case True
    then show ?thesis using step_rest is_recorded_mono unfolding rows_step_def by blast
  next
    case False
    have "?oid \<notin> ?handled"
    proof
      assume "?oid \<in> ?handled"
      then obtain a where a: "a \<in> set ?due" "oOrderID (order_at m a) = ?oid" by auto
      then have "fst (heap_ids m ! a) = ?oid" using due heap_ids_nth [of a m] by (simp add: idsym_def)
      then show False using forces_record [OF assms(3) row assms(11) a(1)] due a(1) False by blast
    qed
    moreover have "r \<in> set (pwRows ?m1)"
      using forces_or [of r m "''SQUARE_OFF''" ?due] assms(4) False by (simp add: row_or_recorded_def)
    ultimately have rest: "r \<in> set (filter (\<lambda>r. oOrderID r \<notin> ?handled \<and> \<not> later_square_off ?t r)
        (sort_key oCreatedAt (filter (\<lambda>r. oIsPaperTrade r \<and> \<not> oIsSquareOffOrder r \<and> oStatus r \<in> open_statuses \<and>
           oPaperExitPrice r = None \<and> 0 < oFilledQuantity r) (pwRows ?m1))))"
      using assms by simp
    have "is_recorded ?oid (pwRows (force_exits ''SQUARE_OFF'' (filter (\<lambda>r. oOrderID r \<notin> ?handled \<and> \<not> later_square_off ?t r)
        (sort_key oCreatedAt (filter (\<lambda>r. oIsPaperTrade r \<and> \<not> oIsSquareOffOrder r \<and> oStatus r \<in> open_statuses \<and>
           oPaperExitPrice r = None \<and> 0 < oFilledQuantity r) (pwRows ?m1)))) (?m1\<lparr>pwFaults := []\<rparr>)))"
      by (rule force_rows_record [OF _ _ _ rest]) (simp_all add: row1 un)
    then show ?thesis
      by (simp add: square_off_rest_def pt_query_def f1 GetAllActivePaperOrders_def select_asc_def Let_def)
  qed
  then show ?thesis by (simp add: SquareOffAll_rows is_recorded_def)
qed

end
