(* ===== verification/PaperFindings.thy ===== *)
theory PaperFindings
  imports PaperProps
begin

text \<open>
  The trailing stop of paper positions, concrete runs of the monitor that the claims are applied to,
  and what its model showed about the code.
\<close>

section \<open>Trailing stops\<close>

definition trail_run :: "string \<Rightarrow> trailSLState \<Rightarrow> float64 list \<Rightarrow> trailSLState" where
  "trail_run side ts ps = foldl (\<lambda>t p. fst (trail_step side p t)) ts ps"

lemma trail_step_buy:
  assumes "trail_step ''BUY'' p ts = (ts', moved)"
  shows "tsBestPrice ts' = max (tsBestPrice ts) p" "tsCurrentSL ts \<le> tsCurrentSL ts'" "tsTrailPct ts' = tsTrailPct ts"
    "moved \<Longrightarrow> tsCurrentSL ts' = fmul p (fsub 1 (fdiv (tsTrailPct ts) 100)) \<and> tsCurrentSL ts < tsCurrentSL ts' \<and> tsBestPrice ts < p"
    "\<not> moved \<Longrightarrow> tsCurrentSL ts' = tsCurrentSL ts"
  using assms by (auto simp: trail_step_def Let_def split: if_splits)

lemma trail_step_sell:
  assumes "trail_step ''SELL'' p ts = (ts', moved)" "0 < tsCurrentSL ts" "0 < p" "0 \<le> tsTrailPct ts"
  shows "tsBestPrice ts' = min (tsBestPrice ts) p" "tsCurrentSL ts' \<le> tsCurrentSL ts" "tsTrailPct ts' = tsTrailPct ts"
    "moved \<Longrightarrow> tsCurrentSL ts' = fmul p (fadd 1 (fdiv (tsTrailPct ts) 100)) \<and> tsCurrentSL ts' < tsCurrentSL ts \<and> p < tsBestPrice ts"
    "\<not> moved \<Longrightarrow> tsCurrentSL ts' = tsCurrentSL ts" "0 < tsCurrentSL ts'"
proof -
  have "0 < rnd (p * rnd (1 + rnd (tsTrailPct ts / 100)))"
    using assms(3,4) f64.nonneg [of "tsTrailPct ts / 100"] by (simp add: f64.pos_iff)
  then show "tsBestPrice ts' = min (tsBestPrice ts) p" "tsCurrentSL ts' \<le> tsCurrentSL ts" "tsTrailPct ts' = tsTrailPct ts"
    "moved \<Longrightarrow> tsCurrentSL ts' = fmul p (fadd 1 (fdiv (tsTrailPct ts) 100)) \<and> tsCurrentSL ts' < tsCurrentSL ts \<and> p < tsBestPrice ts"
    "\<not> moved \<Longrightarrow> tsCurrentSL ts' = tsCurrentSL ts" "0 < tsCurrentSL ts'"
    using assms by (auto simp: trail_step_def Let_def split: if_splits)
qed

text \<open>
  C49. Over any sequence of prices the best price of a trailing paper position is the best of all of
  them and its stop only tightens. For a long position the stop is moved only by a new best price,
  strictly upwards, and never above that price.
\<close>

theorem paper_trailing_ratchets:
  fixes ts :: trailSLState
  shows "tsBestPrice (trail_run ''BUY'' ts ps) = fold max ps (tsBestPrice ts) \<and>
      tsCurrentSL ts \<le> tsCurrentSL (trail_run ''BUY'' ts ps) \<and>
      (\<forall>p t moved. trail_step ''BUY'' p ts = (t, moved) \<longrightarrow> moved \<longrightarrow>
         tsBestPrice ts < p \<and> tsCurrentSL ts < tsCurrentSL t \<and>
         (0 \<le> p \<longrightarrow> is_f64 p \<longrightarrow> 0 \<le> tsTrailPct ts \<longrightarrow> tsCurrentSL t \<le> p)) \<and>
      (0 < tsCurrentSL ts \<longrightarrow> 0 \<le> tsTrailPct ts \<longrightarrow> (\<forall>p\<in>set ps. 0 < p) \<longrightarrow>
         tsBestPrice (trail_run ''SELL'' ts ps) = fold min ps (tsBestPrice ts) \<and>
         tsCurrentSL (trail_run ''SELL'' ts ps) \<le> tsCurrentSL ts)"
proof (intro conjI allI impI)
  show "tsBestPrice (trail_run ''BUY'' ts ps) = fold max ps (tsBestPrice ts)"
  proof (induction ps arbitrary: ts)
    case (Cons p ps)
    obtain t moved where t: "trail_step ''BUY'' p ts = (t, moved)" by fastforce
    show ?case using Cons.IH [of t] trail_step_buy(1) [OF t] by (simp add: trail_run_def t max.commute)
  qed (simp add: trail_run_def)
  show "tsCurrentSL ts \<le> tsCurrentSL (trail_run ''BUY'' ts ps)"
  proof (induction ps arbitrary: ts)
    case (Cons p ps)
    obtain t moved where t: "trail_step ''BUY'' p ts = (t, moved)" by fastforce
    show ?case using Cons.IH [of t] trail_step_buy(2) [OF t] by (simp add: trail_run_def t)
  qed (simp add: trail_run_def)
  fix p t moved
  assume t: "trail_step ''BUY'' p ts = (t, moved)" and moved
  note m = trail_step_buy(4) [OF t \<open>moved\<close>]
  show "tsBestPrice ts < p" "tsCurrentSL ts < tsCurrentSL t" using m by simp_all
  show "tsCurrentSL t \<le> p" if "0 \<le> p" "is_f64 p" "0 \<le> tsTrailPct ts"
  proof -
    have "rnd (1 - rnd (tsTrailPct ts / 100)) \<le> 1"
      using that(3) f64.nonneg [of "tsTrailPct ts / 100"] by (intro f64.le_fix) simp_all
    then show ?thesis using m that(1,2) by (simp add: f64.scale_le is_f64_def)
  qed
next
  assume a: "0 < tsCurrentSL ts" "0 \<le> tsTrailPct ts" "\<forall>p\<in>set ps. 0 < p"
  have "tsBestPrice (trail_run ''SELL'' ts ps) = fold min ps (tsBestPrice ts) \<and>
      tsCurrentSL (trail_run ''SELL'' ts ps) \<le> tsCurrentSL ts"
    using a
  proof (induction ps arbitrary: ts)
    case (Cons p ps)
    obtain t moved where t: "trail_step ''SELL'' p ts = (t, moved)" by fastforce
    have "0 < p" using Cons.prems(3) by simp
    note s = trail_step_sell [OF t Cons.prems(1) this Cons.prems(2)]
    show ?case using Cons.IH [of t] s Cons.prems by (simp add: trail_run_def t min.commute)
  qed (simp add: trail_run_def)
  then show "tsBestPrice (trail_run ''SELL'' ts ps) = fold min ps (tsBestPrice ts)"
    "tsCurrentSL (trail_run ''SELL'' ts ps) \<le> tsCurrentSL ts" by simp_all
qed

section \<open>Concrete runs\<close>

definition demo_signal :: Order where
  "demo_signal = zero_order\<lparr>oOrderID := 1, oUserID := ''u'', oStrategyID := ''s'', oSymbol := ''INFY'', oExchange := ''NSE'',
     oStockCode := 7, oOrderSide := ''BUY'', oQuantity := 2, oPrice := Some 100, oStopLoss := Some 96,
     oTakeProfit := Some 104, oStopLossType := Some ''FIXED'', oStatus := ''RECEIVED''\<rparr>"

definition demo_prices :: "float64 \<Rightarrow> RedisPriceClient option" where
  "demo_prices p = Some \<lparr>rcGet = (\<lambda>_. Tick \<lparr>tkLTP = p, tkTimestamp = 0, tkTickSize = 0, tkDPRLower = 0, tkDPRUpper = 0\<rparr>),
     rcMGetFails = False\<rparr>"

definition demo_world :: "RedisPriceClient option \<Rightarrow> paper_world" where
  "demo_world lookup = \<lparr>pwHeap = [], pwRows = [created_row demo_signal], pwFaults = [], pwNow = 1000, pwNextId = 100,
     pwLookup = lookup, pwKafka = False, pwTasks = [], pwOut = []\<rparr>"

definition demo_monitor :: "RedisPriceClient option \<Rightarrow> pt_state" where
  "demo_monitor lookup = NewPaperTradeMonitor (demo_prices 105) True (demo_world lookup)"

definition demo_open :: "RedisPriceClient option \<Rightarrow> pt_state" where
  "demo_open lookup = ExecutePaperOrder AddOrder 0
     ((demo_monitor lookup)\<lparr>pwHeap := pwHeap (demo_monitor lookup) @ [demo_signal]\<rparr>)"

lemma demo_open_run: "pt_run (demo_monitor lookup) (demo_open lookup)"
proof -
  have "pt_run (demo_monitor lookup) ((demo_monitor lookup)\<lparr>pwHeap := pwHeap (demo_monitor lookup) @ [demo_signal]\<rparr>)"
    by (intro pt_order pt_refl)
  then show ?thesis unfolding demo_open_def by (rule pt_fill) simp
qed

text \<open>The price 95 hits the stop: the loop is scheduled, reads the marks, decides.\<close>

definition demo_hit :: pt_state where
  "demo_hit = run_nth 0 (run_nth 0 (PtOnPriceUpdate ''INFY'' 95 (demo_open None)))"

lemma demo_hit_run: "pt_run (demo_monitor None) demo_hit"
  unfolding demo_hit_def by (intro pt_goroutine pt_price demo_open_run)

lemma demo_hit_state: "cached demo_hit ''INFY'' = [0] \<and> 1 \<in> ptExiting demo_hit"
  by code_simp

lemma paper_index_consistent_witness:
  "cached demo_hit ''INFY'' = [0] \<and> map_of (ptMeta demo_hit) ''INFY'' \<noteq> None \<and>
   oSymbol (order_at demo_hit 0) = ''INFY'' \<and>
   (\<exists>a p r. PwExit a p r \<in> set (pwTasks demo_hit) \<and> oOrderID (order_at demo_hit a) = 1)"
proof -
  have "pwTasks (demo_world None) = []" by (simp add: demo_world_def)
  note c = paper_index_consistent [OF demo_hit_run [unfolded demo_monitor_def] this]
  have "cached demo_hit ''INFY'' \<noteq> []" "0 \<in> set (cached demo_hit ''INFY'')" using demo_hit_state by simp_all
  then show ?thesis using c demo_hit_state by blast
qed

lemma square_off_closes_all_paper_witness:
  "\<exists>r\<in>set (pwRows (demo_open None)). oPaperExitPrice r = None \<and>
     (\<exists>r'\<in>set (pwRows (SquareOffAll (demo_open None))). oOrderID r' = oOrderID r \<and> oPaperExitPrice r' \<noteq> None)"
proof -
  define r where "r = hd (pwRows (demo_open None))"
  have w: "pwTasks (demo_world None) = []" by (simp add: demo_world_def)
  have 1: "pwFaults (demo_open None) = []" "pwRows (demo_open None) \<noteq> []" by code_simp+
  have 2: "oIsPaperTrade r \<and> \<not> oIsSquareOffOrder r \<and> oStatus r = ''FILLED'' \<and> oPaperExitPrice r = None \<and>
     0 < oFilledQuantity r \<and> oAutoSquareOffTime r = None \<and> oOrderID r \<notin> ptExiting (demo_open None)"
    unfolding r_def by code_simp
  have "r \<in> set (pwRows (demo_open None))" using 1(2) by (simp add: r_def)
  moreover have "oStatus r \<in> open_statuses" "\<not> later_square_off (clock_string (pwNow (demo_open None))) r"
    using 2 by (simp_all add: open_statuses_def filled_statuses_def later_square_off_def)
  ultimately show ?thesis
    using square_off_closes_all_paper [OF demo_open_run [unfolded demo_monitor_def] w 1(1)] 2 by blast
qed

lemma fill_keeps_sides_witness:
  "paper_fill_price (demo_prices 110) demo_signal = 110 \<and>
   oFilledPrice (pwHeap (ExecutePaperOrder (\<lambda>_ w. w) 0 ((demo_world (demo_prices 110))\<lparr>pwHeap := [demo_signal]\<rparr>)) ! 0) = Some 110"
proof -
  let ?w = "(demo_world (demo_prices 110))\<lparr>pwHeap := [demo_signal]\<rparr>"
  have f: "paper_fill_price (pwLookup ?w) demo_signal = 110"
    by (simp add: demo_world_def demo_prices_def paper_fill_price_def RcGetLTP_def Let_def read_tick_def)
  have h: "0 < length (pwHeap ?w)" "pwHeap ?w ! 0 = demo_signal" "oPrice demo_signal = Some 100"
    by (simp_all add: demo_signal_def)
  have "is_f64 110" unfolding is_f64_def by (simp add: f64.numeral_exact)
  then have "oFilledPrice (pwHeap (ExecutePaperOrder (\<lambda>_ w. w) 0 ?w) ! 0) = Some 110"
    using fill_keeps_sides [OF h _ f _ _ refl] by simp
  then show ?thesis using f by (simp add: demo_world_def)
qed

lemma paper_trailing_ratchets_witness:
  "tsCurrentSL (trail_run ''SELL'' \<lparr>tsBestPrice = 100, tsCurrentSL = 102, tsTrailPct = 2\<rparr> [99, 97, 98]) \<le> 102 \<and>
   tsBestPrice (trail_run ''SELL'' \<lparr>tsBestPrice = 100, tsCurrentSL = 102, tsTrailPct = 2\<rparr> [99, 97, 98]) = 97"
  using paper_trailing_ratchets [of "\<lparr>tsBestPrice = 100, tsCurrentSL = 102, tsTrailPct = 2\<rparr>" "[99, 97, 98]"] by simp

section \<open>Findings\<close>

text \<open>
  The stop and target rescaled to the fill stay in memory: the statement that saves the fill does not
  write them, so after a restart the old ones are read back, here a target below the fill.
\<close>

theorem rescaled_legs_not_stored:
  "map (\<lambda>r. (oFilledPrice r, oStopLoss r, oTakeProfit r)) (pwRows (demo_open (demo_prices 110))) = [(Some 110, Some 96, Some 104)] \<and>
   (case oTakeProfit (order_at (demo_open (demo_prices 110)) 0) of None \<Rightarrow> False | Some tp \<Rightarrow> 110 < tp)"
  by code_simp

text \<open>
  The reverse order of an exit is created without the columns of its fill: it is stored as FILLED
  with quantity 0 and no price.
\<close>

definition demo_exited :: pt_state where
  "demo_exited = run_nth 0 (run_nth 1 demo_hit)"

theorem reverse_order_stored_unfilled:
  "map (\<lambda>r. (oStatus r, oQuantity r, oFilledQuantity r, oFilledPrice r))
     (filter oIsSquareOffOrder (pwRows (run_nth 0 demo_exited))) = [(''FILLED'', 2, 0, None)]"
  by code_simp

text \<open>
  The feed reads the marks and sets its own in two steps. A check of Redis in between claims the
  order too: the position is exited twice, announced with two prices and reversed twice.
\<close>

definition demo_race :: pt_state where
  "demo_race =
     (let loaded = run_nth 0 (PtOnPriceUpdate ''INFY'' 95 (demo_open None));
          later = loaded\<lparr>pwNow := 6000000000\<rparr>
      in run_nth 0 (run_nth 0 (checkRedisSLTP later)))"

theorem double_exit_race:
  "List.map_filter (\<lambda>e. case e of PxBroadcast u (PuPositionExit oid s p x r y) \<Rightarrow> Some (oid, p, r) | _ \<Rightarrow> None)
     (pwOut (run_nth 0 demo_race)) = [(1, 104, ''TAKE_PROFIT''), (1, 95, ''STOP_LOSS'')] \<and>
   List.map_filter (\<lambda>t. case t of PwReverse a p stamp \<Rightarrow> Some (a, p) | _ \<Rightarrow> None)
     (pwTasks (run_nth 0 demo_race)) = [(0, 104), (0, 95)]"
  by code_simp

end
