(* ===== verification/Spec2Isabelle.thy ===== *)
theory Spec2Isabelle
  imports MlFindings OcoFindings ReSignalsProps PmProps SquareOffProps PaperFindings
begin

text \<open>
  Verification of the algorithmic trading services.
\<close>

end
